(* ===== verification/Prelude.thy ===== *)
theory Prelude
  imports Complex_Main "HOL-Library.Word" "HOL-Library.AList" "HOL-Library.Multiset"
begin

unbundle bit_operations_syntax

section \<open>Prelude: shared types, automation and generic lemmas\<close>

text \<open>
  What every component uses: bytes and little-endian integers, the result type of code that
  can raise, insertion-ordered dictionaries, decimal and hexadecimal rendering as in the
  messages of the code, and the ASCII part of Python's string predicates. Facts that carry the
  component proofs are declared \<open>[simp]\<close> or go into one of the collections below.
\<close>

named_theorems py_defs \<open>definitions of the small Python helpers\<close>
named_theorems le_simps \<open>little-endian encoding and decoding\<close>

type_synonym byte = "8 word"
type_synonym bytes = "byte list"

subsection \<open>Results of code that can raise\<close>

text \<open>\<open>Inl e\<close> is a raised exception, \<open>Inr v\<close> a returned value.\<close>

definition rbind :: "'e + 'a \<Rightarrow> ('a \<Rightarrow> 'e + 'b) \<Rightarrow> 'e + 'b" where
  "rbind m f = (case m of Inl e \<Rightarrow> Inl e | Inr v \<Rightarrow> f v)"

lemma rbind_simps [simp]: "rbind (Inl e) f = Inl e" "rbind (Inr v) f = f v"
  by (simp_all add: rbind_def)

lemma rbind_Inr_iff: "rbind m f = Inr w \<longleftrightarrow> (\<exists>v. m = Inr v \<and> f v = Inr w)"
  by (cases m) auto

lemma rbind_cong [fundef_cong]:
  "m = m' \<Longrightarrow> (\<And>v. m' = Inr v \<Longrightarrow> f v = f' v) \<Longrightarrow> rbind m f = rbind m' f'"
  by (cases m') auto

text \<open>A loop over a list whose body may raise: the first exception ends it.\<close>

primrec rmap :: "('a \<Rightarrow> 'e + 'b) \<Rightarrow> 'a list \<Rightarrow> 'e + 'b list" where
  "rmap f [] = Inr []"
| "rmap f (x # xs) = rbind (f x) (\<lambda>y. rbind (rmap f xs) (\<lambda>ys. Inr (y # ys)))"

lemma rmap_cong [fundef_cong]:
  "xs = ys \<Longrightarrow> (\<And>x. x \<in> set ys \<Longrightarrow> f x = g x) \<Longrightarrow> rmap f xs = rmap g ys"
  by (induction ys arbitrary: xs) auto

lemma rmap_Inr_length: "rmap f xs = Inr ys \<Longrightarrow> length ys = length xs"
  by (induction xs arbitrary: ys) (auto simp: rbind_Inr_iff)

lemma rmap_Inr_nth:
  "rmap f xs = Inr ys \<Longrightarrow> i < length xs \<Longrightarrow> f (xs ! i) = Inr (ys ! i)"
  by (induction xs arbitrary: ys i) (auto simp: rbind_Inr_iff nth_Cons split: nat.splits)

lemma rmap_all_Inr: "(\<And>x. x \<in> set xs \<Longrightarrow> f x = Inr (g x)) \<Longrightarrow> rmap f xs = Inr (map g xs)"
  by (induction xs) auto

lemma rmap_Inr_ex: "rmap f xs = Inr ys \<Longrightarrow> x \<in> set xs \<Longrightarrow> \<exists>y. f x = Inr y"
  by (induction xs arbitrary: ys) (auto simp: rbind_Inr_iff)

subsection \<open>Little-endian integers\<close>

primrec le_bytes :: "nat \<Rightarrow> int \<Rightarrow> bytes" where
  "le_bytes 0 v = []"
| "le_bytes (Suc n) v = word_of_int v # le_bytes n (v div 256)"

primrec le_int :: "bytes \<Rightarrow> int" where
  "le_int [] = 0"
| "le_int (b # bs) = uint b + 256 * le_int bs"

lemma length_le_bytes [simp]: "length (le_bytes n v) = n"
  by (induction n arbitrary: v) auto

lemma le_int_bounds: "0 \<le> le_int bs" "le_int bs < 256 ^ length bs"
proof (induction bs)
  case (Cons b bs)
  have u: "uint b < 256" using uint_lt2p [of b] by simp
  { case 1 show ?case using Cons.IH(1) by simp }
  { case 2 show ?case using u Cons.IH(2) by simp }
qed simp_all

lemma le_int_le_bytes [le_simps]: "le_int (le_bytes n v) = v mod 256 ^ n"
proof (induction n arbitrary: v)
  case (Suc n)
  have "uint (word_of_int v :: byte) = v mod 256"
    by (simp add: uint_word_of_int)
  then show ?case
    using Suc by (simp add: zmod_zmult2_eq)
qed simp

lemma le_bytes_le_int [le_simps]: "le_bytes (length bs) (le_int bs) = bs"
proof (induction bs)
  case (Cons b bs)
  have u: "0 \<le> uint b" "uint b < 256" using uint_lt2p [of b] by simp_all
  have 1: "(uint b + 256 * le_int bs) div 256 = le_int bs"
    using u by simp
  have 2: "(word_of_int (uint b + 256 * le_int bs) :: byte) = b"
    by (rule word_uint_eqI, subst uint_word_of_int) (use u in \<open>simp\<close>)
  show ?case using Cons 1 2 by simp
qed simp

text \<open>Two's complement reading of an unsigned value of \<open>n\<close> bytes.\<close>

definition to_signed :: "nat \<Rightarrow> int \<Rightarrow> int" where
  "to_signed n u = (if u < 256 ^ n div 2 then u else u - 256 ^ n)"

lemma to_signed_bounds:
  assumes "0 \<le> u" "u < 256 ^ n" "0 < n"
  shows "- (256 ^ n div 2) \<le> to_signed n u" "to_signed n u < 256 ^ n div 2"
proof -
  obtain h :: int where h: "256 ^ n = 2 * h"
    using assms(3) by (metis dvdE even_numeral even_power)
  show "- (256 ^ n div 2) \<le> to_signed n u" "to_signed n u < 256 ^ n div 2"
    using assms by (auto simp: to_signed_def h)
qed

lemma to_signed_mod:
  assumes "- (256 ^ n div 2) \<le> v" "v < 256 ^ n div 2" "0 < n"
  shows "to_signed n (v mod 256 ^ n) = v"
proof -
  have e: "(256::int) ^ n = 2 * (256 ^ n div 2)"
    using assms(3) by (metis even_numeral even_power even_two_times_div_two)
  show ?thesis
  proof (cases "0 \<le> v")
    case True
    then show ?thesis using assms e by (simp add: to_signed_def)
  next
    case False
    have "(v + 256 ^ n) mod 256 ^ n = v + 256 ^ n"
      using assms e False by (intro mod_pos_pos_trivial) linarith+
    then have "v mod 256 ^ n = v + 256 ^ n" by simp
    then show ?thesis using assms e False by (simp add: to_signed_def)
  qed
qed

subsection \<open>32-bit wrap-around of Python integers\<close>

definition u32_mask :: "int \<Rightarrow> int" where
  "u32_mask x = x AND 0xFFFFFFFF"

lemma u32_mask_mod: "u32_mask x = x mod 2 ^ 32"
proof -
  have "(0xFFFFFFFF::int) = mask 32" by (simp add: mask_eq_exp_minus_1)
  then have "u32_mask x = take_bit 32 x" by (simp only: u32_mask_def take_bit_eq_mask)
  then show ?thesis by (simp add: take_bit_eq_mod)
qed

lemma u32_mask_bounds [simp]: "0 \<le> u32_mask x" "u32_mask x < 4294967296"
  by (simp_all add: u32_mask_mod)

lemma u32_mask_id: "0 \<le> x \<Longrightarrow> x < 4294967296 \<Longrightarrow> u32_mask x = x"
  by (simp add: u32_mask_mod)

lemma u32_mask_add: "u32_mask (u32_mask x + y) = u32_mask (x + y)"
  by (simp add: u32_mask_mod mod_simps)

definition u16_mask :: "int \<Rightarrow> int" where
  "u16_mask x = x AND 0xFFFF"

lemma u16_mask_mod: "u16_mask x = x mod 2 ^ 16"
proof -
  have "(0xFFFF::int) = mask 16" by (simp add: mask_eq_exp_minus_1)
  then have "u16_mask x = take_bit 16 x" by (simp only: u16_mask_def take_bit_eq_mask)
  then show ?thesis by (simp add: take_bit_eq_mod)
qed

subsection \<open>Insertion-ordered dictionaries\<close>

text \<open>
  A Python dictionary keeps the order in which its keys were first inserted: assignment to a
  present key keeps its place, a new key goes to the end. \<open>AList.update\<close> is exactly this,
  \<open>AList.delete\<close> is \<open>pop\<close>, and \<open>map_of\<close> the lookup.
\<close>

type_synonym ('k, 'v) dict = "('k \<times> 'v) list"

abbreviation dict_get :: "('k, 'v) dict \<Rightarrow> 'k \<Rightarrow> 'v option" where
  "dict_get \<equiv> map_of"

abbreviation dict_set :: "'k \<Rightarrow> 'v \<Rightarrow> ('k, 'v) dict \<Rightarrow> ('k, 'v) dict" where
  "dict_set \<equiv> AList.update"

abbreviation dict_del :: "'k \<Rightarrow> ('k, 'v) dict \<Rightarrow> ('k, 'v) dict" where
  "dict_del \<equiv> AList.delete"

abbreviation dict_keys :: "('k, 'v) dict \<Rightarrow> 'k list" where
  "dict_keys d \<equiv> map fst d"

lemma dict_get_set [simp]: "dict_get (dict_set k v d) k' = (if k' = k then Some v else dict_get d k')"
  by (simp add: update_conv' fun_upd_def)

lemma dict_get_del [simp]: "dict_get (dict_del k d) k' = (if k' = k then None else dict_get d k')"
  by (simp add: delete_conv')

lemma distinct_dict_set: "distinct (dict_keys d) \<Longrightarrow> distinct (dict_keys (dict_set k v d))"
  by (rule distinct_update)

lemma distinct_dict_del: "distinct (dict_keys d) \<Longrightarrow> distinct (dict_keys (dict_del k d))"
  by (rule distinct_delete)

lemma dict_set_keys: "set (dict_keys (dict_set k v d)) = insert k (set (dict_keys d))"
  by (induction d) auto

lemma dict_set_new: "k \<notin> set (dict_keys d) \<Longrightarrow> dict_set k v d = d @ [(k, v)]"
  by (induction d) auto

lemma dict_get_None_iff: "dict_get d k = None \<longleftrightarrow> k \<notin> set (dict_keys d)"
  by (simp add: map_of_eq_None_iff)

end
