(* ===== verification/Py_Text.thy ===== *)
theory Py_Text
  imports Prelude
begin

section \<open>Text: the string operations the code uses\<close>

text \<open>
  A Python \<open>str\<close> is modelled as a \<open>string\<close>, that is, as a text over the code points below 256.
  Case mapping is the one of ASCII and of the letters of Latin-1 whose image is again below 256;
  the classification of characters follows Python's \<open>str.isalnum\<close>, \<open>str.isdigit\<close> and
  \<open>str.strip\<close> on these code points.
\<close>

definition code_of :: "char \<Rightarrow> nat" where
  "code_of c = of_char c"

definition in_range :: "nat \<Rightarrow> nat \<Rightarrow> nat \<Rightarrow> bool" where
  "in_range a b n \<longleftrightarrow> a \<le> n \<and> n \<le> b"

definition is_ascii_char :: "char \<Rightarrow> bool" where
  "is_ascii_char c \<longleftrightarrow> code_of c < 128"

definition is_ascii_digit :: "char \<Rightarrow> bool" where
  "is_ascii_digit c \<longleftrightarrow> in_range 48 57 (code_of c)"

text \<open>\<open>str.isdigit\<close> also accepts the superscripts one, two and three.\<close>

definition py_isdigit_char :: "char \<Rightarrow> bool" where
  "py_isdigit_char c \<longleftrightarrow> is_ascii_digit c \<or> code_of c \<in> {178, 179, 185}"

definition is_ascii_upper :: "char \<Rightarrow> bool" where
  "is_ascii_upper c \<longleftrightarrow> in_range 65 90 (code_of c)"

definition is_ascii_lower :: "char \<Rightarrow> bool" where
  "is_ascii_lower c \<longleftrightarrow> in_range 97 122 (code_of c)"

text \<open>Letters, digits and numeric characters, as \<open>str.isalnum\<close> has them below 256.\<close>

definition py_isalnum_char :: "char \<Rightarrow> bool" where
  "py_isalnum_char c \<longleftrightarrow>
     py_isdigit_char c \<or> is_ascii_upper c \<or> is_ascii_lower c
     \<or> code_of c \<in> {170, 181, 186, 188, 189, 190}
     \<or> (192 \<le> code_of c \<and> code_of c \<noteq> 215 \<and> code_of c \<noteq> 247)"

definition py_isspace_char :: "char \<Rightarrow> bool" where
  "py_isspace_char c \<longleftrightarrow>
     in_range 9 13 (code_of c) \<or> in_range 28 32 (code_of c) \<or> code_of c \<in> {133, 160}"

definition py_isascii :: "string \<Rightarrow> bool" where
  "py_isascii s \<longleftrightarrow> list_all is_ascii_char s"

definition py_isdigit :: "string \<Rightarrow> bool" where
  "py_isdigit s \<longleftrightarrow> s \<noteq> [] \<and> list_all py_isdigit_char s"

definition py_strip :: "string \<Rightarrow> string" where
  "py_strip s = rev (dropWhile py_isspace_char (rev (dropWhile py_isspace_char s)))"

definition upper_char :: "char \<Rightarrow> char" where
  "upper_char c = (if is_ascii_lower c \<or> (in_range 224 254 (code_of c) \<and> code_of c \<noteq> 247)
                   then char_of (code_of c - 32) else c)"

definition lower_char :: "char \<Rightarrow> char" where
  "lower_char c = (if is_ascii_upper c \<or> (in_range 192 222 (code_of c) \<and> code_of c \<noteq> 215)
                   then char_of (code_of c + 32) else c)"

definition py_upper :: "string \<Rightarrow> string" where "py_upper s = map upper_char s"
definition py_lower :: "string \<Rightarrow> string" where "py_lower s = map lower_char s"

lemmas char_class_defs =
  code_of_def in_range_def is_ascii_char_def is_ascii_digit_def py_isdigit_char_def
  is_ascii_upper_def is_ascii_lower_def py_isalnum_char_def py_isspace_char_def
  upper_char_def lower_char_def

lemmas text_defs [py_defs] = char_class_defs py_isascii_def py_isdigit_def py_strip_def
  py_upper_def py_lower_def

text \<open>Among ASCII characters \<open>isdigit\<close> means one of the ten digits.\<close>

lemma isdigit_ascii: "is_ascii_char c \<Longrightarrow> py_isdigit_char c \<longleftrightarrow> is_ascii_digit c"
  by (auto simp: is_ascii_char_def py_isdigit_char_def)

lemma digit_is_ascii: "is_ascii_digit c \<Longrightarrow> is_ascii_char c"
  by (simp add: is_ascii_digit_def is_ascii_char_def in_range_def)

lemma digit_isdigit: "is_ascii_digit c \<Longrightarrow> py_isdigit_char c"
  by (simp add: py_isdigit_char_def)

lemma length_py_upper [simp]: "length (py_upper s) = length s"
  by (simp add: py_upper_def)

lemma code_of_char_of [simp]: "n < 256 \<Longrightarrow> code_of (char_of n) = n"
  by (simp add: code_of_def)

lemma lower_char_idem [simp]: "lower_char (lower_char c) = lower_char c"
proof -
  have "code_of (lower_char c) = code_of c + 32" "\<not> is_ascii_upper (lower_char c)"
    "\<not> (in_range 192 222 (code_of (lower_char c)) \<and> code_of (lower_char c) \<noteq> 215)"
    if "is_ascii_upper c \<or> (in_range 192 222 (code_of c) \<and> code_of c \<noteq> 215)"
    using that by (auto simp: lower_char_def in_range_def is_ascii_upper_def)
  then show ?thesis by (auto simp: lower_char_def)
qed

lemma py_lower_idem [simp]: "py_lower (py_lower s) = py_lower s"
  by (simp add: py_lower_def)

subsection \<open>Rendering numbers as the messages do\<close>

definition digit_char :: "nat \<Rightarrow> char" where
  "digit_char d = char_of (if d < 10 then 48 + d else 55 + d)"

function show_base :: "nat \<Rightarrow> nat \<Rightarrow> string" where
  "show_base b n =
     (if b < 2 \<or> n < b then [digit_char n] else show_base b (n div b) @ [digit_char (n mod b)])"
  by pat_completeness auto
termination
  by (relation "measure snd") auto

declare show_base.simps [simp del]

definition show_nat :: "nat \<Rightarrow> string" where
  "show_nat n = show_base 10 n"

definition show_int :: "int \<Rightarrow> string" where
  "show_int i = (if i < 0 then CHR ''-'' # show_nat (nat (- i)) else show_nat (nat i))"

text \<open>\<open>{value:02X}\<close> of a byte.\<close>

definition show_hex2 :: "int \<Rightarrow> string" where
  "show_hex2 i = (let s = show_base 16 (nat i) in if length s < 2 then CHR ''0'' # s else s)"

text \<open>\<open>sep.join(parts)\<close>.\<close>

fun py_join :: "string \<Rightarrow> string list \<Rightarrow> string" where
  "py_join sep [] = []"
| "py_join sep [p] = p"
| "py_join sep (p # q # ps) = p @ sep @ py_join sep (q # ps)"

lemma show_base_nonempty [simp]: "show_base b n \<noteq> []"
  by (subst show_base.simps) simp

lemma show_int_nonempty [simp]: "show_int i \<noteq> []"
  by (simp add: show_int_def show_nat_def)

end
