(* ===== verification/Errors.thy ===== *)
theory Errors
  imports Py_Text
begin

section \<open>Wire enumerations and exceptions\<close>

text \<open>
  The enumerations that \<open>backend/pc_client/protocol.py\<close> builds from
  \<open>protocol/thermometer_protocol.json\<close> (\<open>Opcode\<close>, \<open>Status\<close>, \<open>VisibleState\<close>,
  \<open>DataStatus\<close>), with their wire values and the partial inverse that calling the enumeration
  class is, and the exceptions of the program: one datatype that carries what the code reads
  from an exception (its class, its text, the status of a \<open>ProtocolError\<close>, the numeric
  attributes of an operating-system error, and its cause).
\<close>

subsection \<open>Enumerations of the protocol\<close>

datatype opcode =
  GET_CURRENT | SET_DISPLAY | GET_HISTORY_META | GET_HISTORY_CHUNK
| AUTH_BEGIN | AUTH_PROVE | RESET_BOND | GET_HISTORY_CHUNK_COMPACT

datatype status =
  SUCCESS | INVALID_COMMAND | INVALID_SENSOR | INVALID_VALUE | NOT_AVAILABLE | INTERNAL_ERROR
| UNSUPPORTED_VERSION | AUTHENTICATION_REQUIRED_ST | AUTHENTICATION_FAILED | AUTHENTICATION_LOCKED

datatype visible_state = OFF | ON | DISCONNECTED_VS

datatype data_status = VALID | DISCONNECTED_DS

fun opcode_value :: "opcode \<Rightarrow> int" where
  "opcode_value GET_CURRENT = 1"
| "opcode_value SET_DISPLAY = 2"
| "opcode_value GET_HISTORY_META = 3"
| "opcode_value GET_HISTORY_CHUNK = 4"
| "opcode_value AUTH_BEGIN = 5"
| "opcode_value AUTH_PROVE = 6"
| "opcode_value RESET_BOND = 7"
| "opcode_value GET_HISTORY_CHUNK_COMPACT = 8"

fun status_value :: "status \<Rightarrow> int" where
  "status_value SUCCESS = 0"
| "status_value INVALID_COMMAND = 1"
| "status_value INVALID_SENSOR = 2"
| "status_value INVALID_VALUE = 3"
| "status_value NOT_AVAILABLE = 4"
| "status_value INTERNAL_ERROR = 5"
| "status_value UNSUPPORTED_VERSION = 6"
| "status_value AUTHENTICATION_REQUIRED_ST = 7"
| "status_value AUTHENTICATION_FAILED = 8"
| "status_value AUTHENTICATION_LOCKED = 9"

fun visible_state_value :: "visible_state \<Rightarrow> int" where
  "visible_state_value OFF = 0"
| "visible_state_value ON = 1"
| "visible_state_value DISCONNECTED_VS = 2"

fun data_status_value :: "data_status \<Rightarrow> int" where
  "data_status_value VALID = 0"
| "data_status_value DISCONNECTED_DS = 1"

text \<open>\<open>Opcode(value)\<close> and the like: the member with this value, \<open>None\<close> for a \<open>ValueError\<close>.\<close>

definition all_opcodes :: "opcode list" where
  "all_opcodes = [GET_CURRENT, SET_DISPLAY, GET_HISTORY_META, GET_HISTORY_CHUNK, AUTH_BEGIN,
     AUTH_PROVE, RESET_BOND, GET_HISTORY_CHUNK_COMPACT]"

definition all_statuses :: "status list" where
  "all_statuses = [SUCCESS, INVALID_COMMAND, INVALID_SENSOR, INVALID_VALUE, NOT_AVAILABLE,
     INTERNAL_ERROR, UNSUPPORTED_VERSION, AUTHENTICATION_REQUIRED_ST, AUTHENTICATION_FAILED,
     AUTHENTICATION_LOCKED]"

definition opcode_of :: "int \<Rightarrow> opcode option" where
  "opcode_of v = List.find (\<lambda>o'. opcode_value o' = v) all_opcodes"

definition status_of :: "int \<Rightarrow> status option" where
  "status_of v = List.find (\<lambda>s. status_value s = v) all_statuses"

definition visible_state_of :: "int \<Rightarrow> visible_state option" where
  "visible_state_of v =
     List.find (\<lambda>s. visible_state_value s = v) [OFF, ON, DISCONNECTED_VS]"

definition data_status_of :: "int \<Rightarrow> data_status option" where
  "data_status_of v = List.find (\<lambda>s. data_status_value s = v) [VALID, DISCONNECTED_DS]"

lemma opcode_of_value [simp]: "opcode_of (opcode_value x) = Some x"
  by (cases x) (simp_all add: opcode_of_def all_opcodes_def)

lemma status_of_value [simp]: "status_of (status_value x) = Some x"
  by (cases x) (simp_all add: status_of_def all_statuses_def)

lemma visible_state_of_value [simp]: "visible_state_of (visible_state_value x) = Some x"
  by (cases x) (simp_all add: visible_state_of_def)

lemma data_status_of_value [simp]: "data_status_of (data_status_value x) = Some x"
  by (cases x) (simp_all add: data_status_of_def)

lemma opcode_of_Some: "opcode_of v = Some x \<longleftrightarrow> opcode_value x = v"
  by (metis (mono_tags, lifting) find_Some_iff opcode_of_def opcode_of_value)

lemma status_of_Some: "status_of v = Some x \<longleftrightarrow> status_value x = v"
  by (metis (mono_tags, lifting) find_Some_iff status_of_def status_of_value)

lemma visible_state_of_Some: "visible_state_of v = Some x \<longleftrightarrow> visible_state_value x = v"
  by (metis (mono_tags, lifting) find_Some_iff visible_state_of_def visible_state_of_value)

lemma data_status_of_Some: "data_status_of v = Some x \<longleftrightarrow> data_status_value x = v"
  by (metis (mono_tags, lifting) find_Some_iff data_status_of_def data_status_of_value)

lemma opcode_value_range: "0 \<le> opcode_value x" "opcode_value x < 256"
  by (cases x; simp)+

lemma status_value_range: "0 \<le> status_value x" "status_value x < 256"
  by (cases x; simp)+

lemma visible_state_value_range: "0 \<le> visible_state_value x" "visible_state_value x < 256"
  by (cases x; simp)+

lemma data_status_value_range: "0 \<le> data_status_value x" "data_status_value x < 256"
  by (cases x; simp)+

lemmas enum_ranges = opcode_value_range status_value_range visible_state_value_range
  data_status_value_range

fun opcode_name :: "opcode \<Rightarrow> string" where
  "opcode_name GET_CURRENT = ''GET_CURRENT''"
| "opcode_name SET_DISPLAY = ''SET_DISPLAY''"
| "opcode_name GET_HISTORY_META = ''GET_HISTORY_META''"
| "opcode_name GET_HISTORY_CHUNK = ''GET_HISTORY_CHUNK''"
| "opcode_name AUTH_BEGIN = ''AUTH_BEGIN''"
| "opcode_name AUTH_PROVE = ''AUTH_PROVE''"
| "opcode_name RESET_BOND = ''RESET_BOND''"
| "opcode_name GET_HISTORY_CHUNK_COMPACT = ''GET_HISTORY_CHUNK_COMPACT''"

fun status_name :: "status \<Rightarrow> string" where
  "status_name SUCCESS = ''SUCCESS''"
| "status_name INVALID_COMMAND = ''INVALID_COMMAND''"
| "status_name INVALID_SENSOR = ''INVALID_SENSOR''"
| "status_name INVALID_VALUE = ''INVALID_VALUE''"
| "status_name NOT_AVAILABLE = ''NOT_AVAILABLE''"
| "status_name INTERNAL_ERROR = ''INTERNAL_ERROR''"
| "status_name UNSUPPORTED_VERSION = ''UNSUPPORTED_VERSION''"
| "status_name AUTHENTICATION_REQUIRED_ST = ''AUTHENTICATION_REQUIRED''"
| "status_name AUTHENTICATION_FAILED = ''AUTHENTICATION_FAILED''"
| "status_name AUTHENTICATION_LOCKED = ''AUTHENTICATION_LOCKED''"

fun visible_state_name :: "visible_state \<Rightarrow> string" where
  "visible_state_name OFF = ''OFF''"
| "visible_state_name ON = ''ON''"
| "visible_state_name DISCONNECTED_VS = ''DISCONNECTED''"

fun data_status_name :: "data_status \<Rightarrow> string" where
  "data_status_name VALID = ''VALID''"
| "data_status_name DISCONNECTED_DS = ''DISCONNECTED''"

subsection \<open>Exceptions\<close>

datatype exc_class =
  ValueErrorC | KeyErrorC | TypeErrorC | StructErrorC | OSErrorC | TimeoutErrorC
| CancelledErrorC | StopIterationC | RuntimeErrorC | ProtocolErrorC | ServiceConflictErrorC
| ServiceUnavailableErrorC | AuthenticationRequiredErrorC | DisplayTimeoutErrorC
| OperationNotFoundErrorC | LinuxPairingErrorC | WindowsPairingErrorC | OtherErrorC string

text \<open>\<open>type(error).__name__\<close>.\<close>

fun class_name :: "exc_class \<Rightarrow> string" where
  "class_name ValueErrorC = ''ValueError''"
| "class_name KeyErrorC = ''KeyError''"
| "class_name TypeErrorC = ''TypeError''"
| "class_name StructErrorC = ''error''"
| "class_name OSErrorC = ''OSError''"
| "class_name TimeoutErrorC = ''TimeoutError''"
| "class_name CancelledErrorC = ''CancelledError''"
| "class_name StopIterationC = ''StopIteration''"
| "class_name RuntimeErrorC = ''RuntimeError''"
| "class_name ProtocolErrorC = ''ProtocolError''"
| "class_name ServiceConflictErrorC = ''ServiceConflictError''"
| "class_name ServiceUnavailableErrorC = ''ServiceUnavailableError''"
| "class_name AuthenticationRequiredErrorC = ''AuthenticationRequiredError''"
| "class_name DisplayTimeoutErrorC = ''DisplayTimeoutError''"
| "class_name OperationNotFoundErrorC = ''OperationNotFoundError''"
| "class_name LinuxPairingErrorC = ''LinuxPairingError''"
| "class_name WindowsPairingErrorC = ''WindowsPairingError''"
| "class_name (OtherErrorC n) = n"

datatype exc =
  Exc (exc_class: exc_class) (exc_text: string) (exc_status: "status option")
    (exc_attrs: "(string \<times> int) list") (exc_cause: "exc option")

type_synonym 'a res = "exc + 'a"

abbreviation raise :: "exc_class \<Rightarrow> string \<Rightarrow> 'a res" where
  "raise c m \<equiv> Inl (Exc c m None [] None)"

abbreviation raise_from :: "exc_class \<Rightarrow> string \<Rightarrow> exc \<Rightarrow> 'a res" where
  "raise_from c m e \<equiv> Inl (Exc c m None [] (Some e))"

abbreviation value_error :: "string \<Rightarrow> 'a res" where
  "value_error m \<equiv> raise ValueErrorC m"

abbreviation protocol_error :: "string \<Rightarrow> status option \<Rightarrow> 'a res" where
  "protocol_error m st \<equiv> Inl (Exc ProtocolErrorC m st [] None)"

text \<open>What \<open>except Exception\<close> catches: cancellation is a \<open>BaseException\<close> only.\<close>

definition is_exception :: "exc \<Rightarrow> bool" where
  "is_exception e \<longleftrightarrow> exc_class e \<noteq> CancelledErrorC"

text \<open>What \<open>except RuntimeError\<close> catches.\<close>

definition is_runtime_error :: "exc \<Rightarrow> bool" where
  "is_runtime_error e \<longleftrightarrow> exc_class e \<in> {RuntimeErrorC, ProtocolErrorC, ServiceConflictErrorC,
     ServiceUnavailableErrorC, AuthenticationRequiredErrorC, DisplayTimeoutErrorC,
     OperationNotFoundErrorC, LinuxPairingErrorC, WindowsPairingErrorC}"

definition is_protocol_error_with :: "status \<Rightarrow> exc \<Rightarrow> bool" where
  "is_protocol_error_with st e \<longleftrightarrow> exc_class e = ProtocolErrorC \<and> exc_status e = Some st"

subsection \<open>\<open>describe_ble_error\<close>\<close>

text \<open>
  The loop over \<open>winerror\<close>, \<open>hresult\<close> and \<open>errno\<close>: an attribute is listed when it is present
  and its value was not listed before.
\<close>

fun error_details :: "string list \<Rightarrow> (string \<times> int) list \<Rightarrow> int set \<Rightarrow> string list" where
  "error_details [] attrs seen = []"
| "error_details (n # ns) attrs seen =
     (case map_of attrs n of
        None \<Rightarrow> error_details ns attrs seen
      | Some v \<Rightarrow> if v \<in> seen then error_details ns attrs seen
                  else (n @ ''='' @ show_int v) # error_details ns attrs (insert v seen))"

fun describe_ble_error :: "exc \<Rightarrow> string" where
  "describe_ble_error (Exc c m st attrs cause) =
     (let message = py_strip m in
      if message \<noteq> [] then message
      else
        let details = error_details [''winerror'', ''hresult'', ''errno''] attrs {};
            description = class_name c;
            description = (if details \<noteq> []
                           then description @ '' ('' @ py_join '', '' details @ '')''
                           else description)
        in case cause of None \<Rightarrow> description
           | Some e \<Rightarrow> description @ '': '' @ describe_ble_error e)"

lemma class_name_nonempty: "(\<And>n. c = OtherErrorC n \<Longrightarrow> n \<noteq> []) \<Longrightarrow> class_name c \<noteq> []"
  by (cases c) auto

text \<open>An error message of the service is never empty, whatever the operating system reported.\<close>

lemma describe_ble_error_nonempty:
  assumes "\<And>n. exc_class e = OtherErrorC n \<Longrightarrow> n \<noteq> []"
  shows "describe_ble_error e \<noteq> []"
proof (cases e)
  case (Exc c m st attrs cause)
  have "class_name c \<noteq> []" using assms Exc by (intro class_name_nonempty) simp
  then show ?thesis using Exc by (simp add: Let_def split: option.splits)
qed

end
