(* ===== verification/Layouts.thy ===== *)
theory Layouts
  imports Errors
begin

section \<open>Packet layouts: the \<open>struct\<close> codec of the shared protocol\<close>

text \<open>
  \<open>backend/pc_client/protocol.py\<close> turns every layout of \<open>protocol/thermometer_protocol.json\<close>
  into a little-endian \<open>struct.Struct\<close> and packs and unpacks packets through it. This theory
  holds the struct codes, the layouts of the JSON file, the operations \<open>_layout_struct\<close>,
  \<open>_unpack_layout\<close> and \<open>_pack_layout\<close>, and the round trips. The contract of a fixed-size codec
  is the locale \<open>byte_codec\<close>; every struct is an instance.
\<close>

subsection \<open>Struct codes\<close>

datatype struct_code = CodeB | Codeb | CodeH | Codeh | CodeI | Codei | CodeS nat

datatype pyval = PInt int | PBytes bytes

definition struct_codes :: "string \<Rightarrow> struct_code option" where
  "struct_codes t = map_of
     [(''u8'', CodeB), (''i8'', Codeb), (''u16'', CodeH), (''i16'', Codeh), (''u32'', CodeI),
      (''i32'', Codei), (''bytes6'', CodeS 6), (''bytes16'', CodeS 16), (''bytes32'', CodeS 32)] t"

text \<open>With the prefix \<open><\<close> a struct has no padding: standard sizes, side by side.\<close>

fun code_size :: "struct_code \<Rightarrow> nat" where
  "code_size CodeB = 1" | "code_size Codeb = 1"
| "code_size CodeH = 2" | "code_size Codeh = 2"
| "code_size CodeI = 4" | "code_size Codei = 4"
| "code_size (CodeS n) = n"

definition struct_size :: "struct_code list \<Rightarrow> nat" where
  "struct_size cs = sum_list (map code_size cs)"

fun code_signed :: "struct_code \<Rightarrow> bool" where
  "code_signed Codeb = True" | "code_signed Codeh = True" | "code_signed Codei = True"
| "code_signed _ = False"

definition int_in_range :: "struct_code \<Rightarrow> int \<Rightarrow> bool" where
  "int_in_range c i =
     (if code_signed c then - (256 ^ code_size c div 2) \<le> i \<and> i < 256 ^ code_size c div 2
      else 0 \<le> i \<and> i < 256 ^ code_size c)"

text \<open>
  \<open>struct.pack\<close> of one value: an integer out of the range of its code is a \<open>struct.error\<close>;
  a byte string is cut or padded with zeros to the length of its code.
\<close>

fun pack_value :: "struct_code \<Rightarrow> pyval \<Rightarrow> bytes res" where
  "pack_value (CodeS n) (PBytes bs) = Inr (take n (bs @ replicate n 0))"
| "pack_value (CodeS n) (PInt i) = raise StructErrorC ''argument must be a bytes object''"
| "pack_value c (PInt i) =
     (if int_in_range c i then Inr (le_bytes (code_size c) i)
      else raise StructErrorC ''integer out of range for format'')"
| "pack_value c (PBytes bs) = raise StructErrorC ''required argument is not an integer''"

fun unpack_value :: "struct_code \<Rightarrow> bytes \<Rightarrow> pyval" where
  "unpack_value (CodeS n) bs = PBytes bs"
| "unpack_value c bs =
     PInt (if code_signed c then to_signed (code_size c) (le_int bs) else le_int bs)"

fun struct_pack :: "struct_code list \<Rightarrow> pyval list \<Rightarrow> bytes res" where
  "struct_pack [] [] = Inr []"
| "struct_pack (c # cs) (v # vs) =
     rbind (pack_value c v) (\<lambda>b. rbind (struct_pack cs vs) (\<lambda>bs. Inr (b @ bs)))"
| "struct_pack _ _ = raise StructErrorC ''pack expected a different number of items''"

fun struct_unpack :: "struct_code list \<Rightarrow> bytes \<Rightarrow> pyval list" where
  "struct_unpack [] bs = []"
| "struct_unpack (c # cs) bs =
     unpack_value c (take (code_size c) bs) # struct_unpack cs (drop (code_size c) bs)"

text \<open>A value that fits its code exactly.\<close>

fun value_fits :: "struct_code \<Rightarrow> pyval \<Rightarrow> bool" where
  "value_fits (CodeS n) (PBytes bs) = (length bs = n)"
| "value_fits (CodeS n) (PInt i) = False"
| "value_fits c (PInt i) = int_in_range c i"
| "value_fits c (PBytes bs) = False"

definition values_fit :: "struct_code list \<Rightarrow> pyval list \<Rightarrow> bool" where
  "values_fit cs vs = list_all2 value_fits cs vs"

lemma struct_size_simps [simp]:
  "struct_size [] = 0" "struct_size (c # cs) = code_size c + struct_size cs"
  by (simp_all add: struct_size_def)

lemma pack_value_length: "pack_value c v = Inr bs \<Longrightarrow> length bs = code_size c"
  by (cases c; cases v) (auto split: if_splits)

lemma int_codec:
  assumes "int_in_range c i" "0 < code_size c"
  shows "(if code_signed c then to_signed (code_size c) (le_int (le_bytes (code_size c) i))
          else le_int (le_bytes (code_size c) i)) = i"
  using assms by (auto simp: int_in_range_def le_simps to_signed_mod)

lemma unpack_pack_value: "value_fits c v \<Longrightarrow> pack_value c v = Inr bs \<Longrightarrow> unpack_value c bs = v"
  using int_codec [of c] by (cases c; cases v) (auto simp del: le_bytes.simps)

lemma le_bytes_mod: "le_bytes n (v mod 256 ^ n) = le_bytes n v"
  by (metis le_bytes_le_int le_int_le_bytes length_le_bytes)

lemma le_bytes_to_signed:
  assumes "length bs = n" shows "le_bytes n (to_signed n (le_int bs)) = bs"
proof -
  have "to_signed n (le_int bs) mod 256 ^ n = le_int bs mod 256 ^ n"
    by (auto simp: to_signed_def)
  then have "le_bytes n (to_signed n (le_int bs)) = le_bytes n (le_int bs)"
    by (metis le_bytes_mod)
  then show ?thesis using assms le_bytes_le_int by metis
qed

lemma unpack_value_fits: "length bs = code_size c \<Longrightarrow> value_fits c (unpack_value c bs)"
  using le_int_bounds [of bs] to_signed_bounds [of "le_int bs" "code_size c"]
  by (cases c) (auto simp: int_in_range_def)

lemma pack_unpack_value: "length bs = code_size c \<Longrightarrow> pack_value c (unpack_value c bs) = Inr bs"
  using unpack_value_fits [of bs c] le_bytes_le_int [of bs] le_bytes_to_signed [of bs "code_size c"]
  by (cases c) auto

lemma struct_pack_length: "struct_pack cs vs = Inr bs \<Longrightarrow> length bs = struct_size cs"
  by (induction cs vs arbitrary: bs rule: struct_pack.induct)
    (auto simp: rbind_Inr_iff dest: pack_value_length)

lemma struct_unpack_pack:
  "values_fit cs vs \<Longrightarrow> struct_pack cs vs = Inr bs \<Longrightarrow> struct_unpack cs bs = vs"
proof (induction cs vs arbitrary: bs rule: struct_pack.induct)
  case (2 c cs v vs)
  then obtain b1 b2 where p: "pack_value c v = Inr b1" "struct_pack cs vs = Inr b2" "bs = b1 @ b2"
    by (auto simp: rbind_Inr_iff)
  have "length b1 = code_size c" using p(1) by (rule pack_value_length)
  then show ?case using 2 p by (simp add: values_fit_def unpack_pack_value)
qed (auto simp: values_fit_def)

lemma struct_pack_unpack:
  "length bs = struct_size cs \<Longrightarrow> struct_pack cs (struct_unpack cs bs) = Inr bs"
  by (induction cs arbitrary: bs) (auto simp: pack_unpack_value)

lemma values_fit_unpack: "length bs = struct_size cs \<Longrightarrow> values_fit cs (struct_unpack cs bs)"
  by (induction cs arbitrary: bs) (auto simp: values_fit_def unpack_value_fits)

lemma length_struct_unpack [simp]: "length (struct_unpack cs bs) = length cs"
  by (induction cs arbitrary: bs) auto

lemma pack_value_ok: "value_fits c v \<Longrightarrow> \<exists>bs. pack_value c v = Inr bs"
  by (cases c; cases v) auto

lemma struct_pack_ok: "values_fit cs vs \<Longrightarrow> \<exists>bs. struct_pack cs vs = Inr bs"
  unfolding values_fit_def
  by (induction rule: list_all2_induct) (auto dest!: pack_value_ok)

subsection \<open>The contract of a fixed-size codec\<close>

locale byte_codec =
  fixes enc :: "'v \<Rightarrow> bytes res"
    and dec :: "bytes \<Rightarrow> 'v"
    and width :: nat
    and fits :: "'v \<Rightarrow> bool"
  assumes enc_ok: "fits v \<Longrightarrow> \<exists>bs. enc v = Inr bs"
    and enc_width: "enc v = Inr bs \<Longrightarrow> length bs = width"
    and dec_enc: "fits v \<Longrightarrow> enc v = Inr bs \<Longrightarrow> dec bs = v"
    and enc_dec: "length bs = width \<Longrightarrow> enc (dec bs) = Inr bs"
    and dec_fits: "length bs = width \<Longrightarrow> fits (dec bs)"
begin

text \<open>No two values share an encoding, and no two packets of the right size share a value.\<close>

lemma enc_inj: "fits v \<Longrightarrow> fits w \<Longrightarrow> enc v = Inr bs \<Longrightarrow> enc w = Inr bs \<Longrightarrow> v = w"
  using dec_enc by blast

lemma dec_inj: "length bs = width \<Longrightarrow> length cs = width \<Longrightarrow> dec bs = dec cs \<Longrightarrow> bs = cs"
  by (metis enc_dec sum.inject(2))

text \<open>A run of encoded values, read back slice by slice.\<close>

lemma enc_run_length: "rmap enc vs = Inr bss \<Longrightarrow> length (concat bss) = length vs * width"
  by (induction vs arbitrary: bss) (auto simp: rbind_Inr_iff dest: enc_width)

lemma enc_run_slice:
  "rmap enc vs = Inr bss \<Longrightarrow> i < length vs \<Longrightarrow>
     take width (drop (i * width) (concat bss)) = bss ! i"
proof (induction vs arbitrary: bss i)
  case (Cons v vs)
  then obtain b bs where b: "enc v = Inr b" "rmap enc vs = Inr bs" "bss = b # bs"
    by (auto simp: rbind_Inr_iff)
  then have "length b = width" using enc_width by blast
  then show ?case using Cons b by (cases i) simp_all
qed simp

lemma dec_run:
  assumes "rmap enc vs = Inr bss" "list_all fits vs" "i < length vs"
  shows "dec (take width (drop (i * width) (concat bss))) = vs ! i"
proof -
  have "enc (vs ! i) = Inr (bss ! i)" using assms(1,3) by (rule rmap_Inr_nth)
  moreover have "fits (vs ! i)" using assms(2,3) by (simp add: list_all_length)
  ultimately show ?thesis using enc_run_slice [OF assms(1,3)] dec_enc by simp
qed

end

interpretation struct_codec:
  byte_codec "struct_pack cs" "struct_unpack cs" "struct_size cs" "values_fit cs" for cs
  by unfold_locales
    (auto simp: struct_pack_length struct_unpack_pack struct_pack_unpack values_fit_unpack
                struct_pack_ok)

subsection \<open>The layouts of the shared definition\<close>

type_synonym layout = "(string \<times> string) list"

definition layouts :: "(string \<times> layout) list" where
  "layouts =
    [(''header'',
       [(''version'', ''u8''), (''opcode'', ''u8''), (''request_id'', ''u16''),
        (''payload_length'', ''u16''), (''status'', ''u8''), (''flags'', ''u8'')]),
     (''current_response'',
       [(''boot_id'', ''u32''), (''newest_sequence'', ''u32''),
        (''sensor_1_temperature_centi_c'', ''i16''), (''sensor_1_visible_state'', ''u8''),
        (''sensor_1_display_enabled'', ''u8''), (''sensor_2_temperature_centi_c'', ''i16''),
        (''sensor_2_visible_state'', ''u8''), (''sensor_2_display_enabled'', ''u8''),
        (''average_temperature_centi_c'', ''i16''), (''average_valid'', ''u8''),
        (''reserved'', ''u8'')]),
     (''set_display_request'', [(''sensor_id'', ''u8''), (''enabled'', ''u8'')]),
     (''set_display_response'',
       [(''sensor_id'', ''u8''), (''visible_state'', ''u8''), (''enabled'', ''u8'')]),
     (''history_meta_response'',
       [(''boot_id'', ''u32''), (''newest_sequence'', ''u32''), (''sensor_1_count'', ''u16''),
        (''sensor_2_count'', ''u16''), (''sensor_1_oldest_sequence'', ''u32''),
        (''sensor_2_oldest_sequence'', ''u32'')]),
     (''history_chunk_request'',
       [(''sensor_id'', ''u8''), (''start_sequence'', ''u32''), (''record_count'', ''u8'')]),
     (''history_chunk_prefix'',
       [(''sensor_id'', ''u8''), (''start_sequence'', ''u32''), (''record_count'', ''u8''),
        (''record_size'', ''u8'')]),
     (''history_record'',
       [(''sequence'', ''u32''), (''temperature_centi_c'', ''i16''), (''data_status'', ''u8'')]),
     (''compact_history_record'', [(''temperature_centi_c'', ''i16''), (''data_status'', ''u8'')]),
     (''auth_begin_response'',
       [(''device_id'', ''bytes6''), (''boot_id'', ''u32''), (''nonce'', ''bytes16'')]),
     (''auth_prove_request'', [(''proof'', ''bytes32'')])]"

definition py_repr :: "string \<Rightarrow> string" where
  "py_repr s = [CHR 0x27] @ s @ [CHR 0x27]"

text \<open>\<open>_layout_struct\<close>: an unknown layout name or field type is a \<open>ValueError\<close>.\<close>

definition layout_struct :: "string \<Rightarrow> struct_code list res" where
  "layout_struct layout_name =
     (case map_of layouts layout_name of
        None \<Rightarrow> value_error (''invalid protocol layout '' @ py_repr layout_name)
      | Some fields \<Rightarrow>
          rmap (\<lambda>(n, t). case struct_codes t of
                  None \<Rightarrow> value_error (''invalid protocol layout '' @ py_repr layout_name)
                | Some c \<Rightarrow> Inr c) fields)"

text \<open>A field name occurring twice keeps its first position and its last value.\<close>

definition py_dict :: "('k \<times> 'v) list \<Rightarrow> ('k, 'v) dict" where
  "py_dict kvs = foldl (\<lambda>d (k, v). dict_set k v d) [] kvs"

definition unpack_layout :: "string \<Rightarrow> bytes \<Rightarrow> (string, pyval) dict res" where
  "unpack_layout layout_name data =
     (case map_of layouts layout_name of
        None \<Rightarrow> raise KeyErrorC layout_name
      | Some fields \<Rightarrow>
          rbind (layout_struct layout_name) (\<lambda>cs.
            if length data \<noteq> struct_size cs then
              protocol_error (layout_name @ '' has '' @ show_nat (length data)
                @ '' bytes; expected '' @ show_nat (struct_size cs)) None
            else Inr (py_dict (zip (map fst fields) (struct_unpack cs data)))))"

definition pack_layout :: "string \<Rightarrow> (string, pyval) dict \<Rightarrow> bytes res" where
  "pack_layout layout_name vals =
     (case map_of layouts layout_name of
        None \<Rightarrow> raise KeyErrorC layout_name
      | Some fields \<Rightarrow>
          rbind (rmap (\<lambda>(n, t). case dict_get vals n of
                   None \<Rightarrow> value_error (''missing '' @ layout_name @ '' field '' @ py_repr n)
                 | Some v \<Rightarrow> Inr v) fields) (\<lambda>ordered.
          rbind (layout_struct layout_name) (\<lambda>cs. struct_pack cs ordered)))"

lemma foldl_dict_set_append:
  "distinct (map fst (d @ kvs)) \<Longrightarrow> foldl (\<lambda>d (k, v). dict_set k v d) d kvs = d @ kvs"
proof (induction kvs arbitrary: d)
  case (Cons kv kvs)
  obtain k v where kv: "kv = (k, v)" by (cases kv)
  have "k \<notin> set (dict_keys d)"
    using Cons.prems kv by auto
  then have "dict_set k v d = d @ [(k, v)]"
    by (rule dict_set_new)
  then show ?case using Cons kv by simp
qed simp

text \<open>The struct of every layout, its field names and its size, evaluated once.\<close>

lemma layout_struct_eqs [simp]:
  "layout_struct ''header'' = Inr [CodeB, CodeB, CodeH, CodeH, CodeB, CodeB]"
  "layout_struct ''current_response'' = Inr [CodeI, CodeI, Codeh, CodeB, CodeB, Codeh, CodeB, CodeB, Codeh, CodeB, CodeB]"
  "layout_struct ''set_display_request'' = Inr [CodeB, CodeB]"
  "layout_struct ''set_display_response'' = Inr [CodeB, CodeB, CodeB]"
  "layout_struct ''history_meta_response'' = Inr [CodeI, CodeI, CodeH, CodeH, CodeI, CodeI]"
  "layout_struct ''history_chunk_request'' = Inr [CodeB, CodeI, CodeB]"
  "layout_struct ''history_chunk_prefix'' = Inr [CodeB, CodeI, CodeB, CodeB]"
  "layout_struct ''history_record'' = Inr [CodeI, Codeh, CodeB]"
  "layout_struct ''compact_history_record'' = Inr [Codeh, CodeB]"
  "layout_struct ''auth_begin_response'' = Inr [CodeS 6, CodeI, CodeS 16]"
  "layout_struct ''auth_prove_request'' = Inr [CodeS 32]"
  by (simp_all add: layout_struct_def layouts_def struct_codes_def)

lemma layout_lookup [simp]:
  "map_of layouts ''header'' = Some [(''version'', ''u8''),
     (''opcode'', ''u8''),
     (''request_id'', ''u16''),
     (''payload_length'', ''u16''),
     (''status'', ''u8''),
     (''flags'', ''u8'')]"
  "map_of layouts ''current_response'' = Some [(''boot_id'', ''u32''),
     (''newest_sequence'', ''u32''),
     (''sensor_1_temperature_centi_c'', ''i16''),
     (''sensor_1_visible_state'', ''u8''),
     (''sensor_1_display_enabled'', ''u8''),
     (''sensor_2_temperature_centi_c'', ''i16''),
     (''sensor_2_visible_state'', ''u8''),
     (''sensor_2_display_enabled'', ''u8''),
     (''average_temperature_centi_c'', ''i16''),
     (''average_valid'', ''u8''),
     (''reserved'', ''u8'')]"
  "map_of layouts ''set_display_request'' = Some [(''sensor_id'', ''u8''),
     (''enabled'', ''u8'')]"
  "map_of layouts ''set_display_response'' = Some [(''sensor_id'', ''u8''),
     (''visible_state'', ''u8''),
     (''enabled'', ''u8'')]"
  "map_of layouts ''history_meta_response'' = Some [(''boot_id'', ''u32''),
     (''newest_sequence'', ''u32''),
     (''sensor_1_count'', ''u16''),
     (''sensor_2_count'', ''u16''),
     (''sensor_1_oldest_sequence'', ''u32''),
     (''sensor_2_oldest_sequence'', ''u32'')]"
  "map_of layouts ''history_chunk_request'' = Some [(''sensor_id'', ''u8''),
     (''start_sequence'', ''u32''),
     (''record_count'', ''u8'')]"
  "map_of layouts ''history_chunk_prefix'' = Some [(''sensor_id'', ''u8''),
     (''start_sequence'', ''u32''),
     (''record_count'', ''u8''),
     (''record_size'', ''u8'')]"
  "map_of layouts ''history_record'' = Some [(''sequence'', ''u32''),
     (''temperature_centi_c'', ''i16''),
     (''data_status'', ''u8'')]"
  "map_of layouts ''compact_history_record'' = Some [(''temperature_centi_c'', ''i16''),
     (''data_status'', ''u8'')]"
  "map_of layouts ''auth_begin_response'' = Some [(''device_id'', ''bytes6''),
     (''boot_id'', ''u32''),
     (''nonce'', ''bytes16'')]"
  "map_of layouts ''auth_prove_request'' = Some [(''proof'', ''bytes32'')]"
  by (simp_all add: layouts_def)

text \<open>
  With distinct field names, as in every layout, the unpacked dictionary is the list of fields
  in order.
\<close>

lemma py_dict_distinct: "distinct (map fst kvs) \<Longrightarrow> py_dict kvs = kvs"
  using foldl_dict_set_append [of "[]" kvs] by (simp add: py_dict_def)

lemma unpack_layout_ok:
  assumes "map_of layouts n = Some fields" "distinct (map fst fields)"
    "layout_struct n = Inr cs" "length data = struct_size cs"
  shows "unpack_layout n data = Inr (zip (map fst fields) (struct_unpack cs data))"
proof -
  have "length fields = length cs"
    using assms(1,3) by (auto simp: layout_struct_def dest: rmap_Inr_length)
  then have "map fst (zip (map fst fields) (struct_unpack cs data)) = map fst fields"
    by simp
  then show ?thesis
    using assms by (simp add: unpack_layout_def py_dict_distinct)
qed

lemma unpack_layout_Inr_length:
  "unpack_layout n data = Inr vals \<Longrightarrow> layout_struct n = Inr cs \<Longrightarrow> length data = struct_size cs"
  by (auto simp: unpack_layout_def split: option.splits if_splits)

lemma layout_names_distinct: "map_of layouts n = Some fields \<Longrightarrow> distinct (map fst fields)"
  by (auto simp: layouts_def split: if_splits)

lemma rmap_lookup:
  assumes "map fst d = map fst fields" "distinct (map fst fields)"
  shows "rmap (\<lambda>(n, t). case dict_get d n of None \<Rightarrow> E n | Some v \<Rightarrow> Inr v) fields = Inr (map snd d)"
proof -
  have at: "dict_get d (fst p) = Some (snd p)" if "p \<in> set d" for p
    using assms that by (simp add: map_of_is_SomeI)
  have "map (\<lambda>f. the (dict_get d (fst f))) fields = map (\<lambda>n. the (dict_get d n)) (map fst d)"
    by (simp add: assms(1) comp_def)
  also have "\<dots> = map snd d" by (simp add: at)
  finally have vals: "map (\<lambda>f. the (dict_get d (fst f))) fields = map snd d" .
  have "rmap (\<lambda>(n, t). case dict_get d n of None \<Rightarrow> E n | Some v \<Rightarrow> Inr v) fields
      = Inr (map (\<lambda>f. the (dict_get d (fst f))) fields)"
  proof (rule rmap_all_Inr)
    fix f assume "f \<in> set fields"
    then have "fst f \<in> set (map fst d)" by (simp add: assms(1))
    then obtain p where "p \<in> set d" "fst p = fst f" by auto
    with at [of p] show "(\<lambda>(n, t). case dict_get d n of None \<Rightarrow> E n | Some v \<Rightarrow> Inr v) f
        = Inr (the (dict_get d (fst f)))"
      by (auto split: prod.splits)
  qed
  then show ?thesis using vals by simp
qed

lemma pack_layout_exact:
  assumes "map_of layouts n = Some fields" "layout_struct n = Inr cs" "map fst vals = map fst fields"
  shows "pack_layout n vals = struct_pack cs (map snd vals)"
  using assms(1,2)
  by (simp add: pack_layout_def rmap_lookup [OF assms(3) layout_names_distinct [OF assms(1)]])

lemma unpack_layout_iff:
  assumes f: "map_of layouts n = Some fields" and cs: "layout_struct n = Inr cs"
  shows "unpack_layout n data = Inr vals \<longleftrightarrow>
    map fst vals = map fst fields \<and> values_fit cs (map snd vals) \<and> pack_layout n vals = Inr data"
proof -
  have len: "length fields = length cs"
    using f cs by (auto simp: layout_struct_def dest: rmap_Inr_length)
  note distinct = layout_names_distinct [OF f]
  show ?thesis
  proof (intro iffI conjI; (elim conjE)?)
    assume u: "unpack_layout n data = Inr vals"
    then have size: "length data = struct_size cs" using cs by (rule unpack_layout_Inr_length)
    have v: "vals = zip (map fst fields) (struct_unpack cs data)"
      using u unpack_layout_ok [OF f distinct cs size] by simp
    show names: "map fst vals = map fst fields" using v len by simp
    have snds: "map snd vals = struct_unpack cs data" using v len by simp
    show "values_fit cs (map snd vals)" using snds size by (simp add: values_fit_unpack)
    show "pack_layout n vals = Inr data"
      using pack_layout_exact [OF f cs names] snds size by (simp add: struct_pack_unpack)
  next
    assume names: "map fst vals = map fst fields" and fit: "values_fit cs (map snd vals)"
      and "pack_layout n vals = Inr data"
    then have p: "struct_pack cs (map snd vals) = Inr data"
      using pack_layout_exact [OF f cs names] by simp
    then have "length data = struct_size cs" by (rule struct_pack_length)
    then have "unpack_layout n data = Inr (zip (map fst fields) (struct_unpack cs data))"
      using unpack_layout_ok [OF f distinct cs] by simp
    also have "\<dots> = Inr (zip (map fst vals) (map snd vals))"
      using struct_unpack_pack [OF fit p] names by simp
    finally show "unpack_layout n data = Inr vals" by (simp add: zip_map_fst_snd)
  qed
qed

text \<open>
  C14: A packet of a layout unpacks to a dictionary exactly when the dictionary lists the fields
  of the layout in order, every value fits its field, and packing it gives the packet back:
  packing and unpacking are inverse on every layout of the shared definition, and neither loses
  or invents a field.
\<close>

theorem layout_codec_exact:
  assumes f: "map_of layouts n = Some fields" and cs: "layout_struct n = Inr cs"
  shows "unpack_layout n data = Inr vals \<longleftrightarrow>
    map fst vals = map fst fields \<and> values_fit cs (map snd vals) \<and> pack_layout n vals = Inr data"
  using assms by (rule unpack_layout_iff)

theorem layout_codec_exact_witness:
  "unpack_layout ''set_display_request'' [2, 1] = Inr [(''sensor_id'', PInt 2), (''enabled'', PInt 1)]"
  by (subst layout_codec_exact [OF layout_lookup(3) layout_struct_eqs(3)])
    (simp_all add: values_fit_def pack_layout_def layout_struct_def struct_codes_def layouts_def Let_def, code_simp?)

end
