(* ===== verification/Protocol.thy ===== *)
theory Protocol
  imports Layouts
begin

section \<open>Requests and responses of the thermometer protocol\<close>

text \<open>
  \<open>backend/pc_client/protocol.py\<close>: the request builders, \<open>parse_response\<close>, the decoders of
  each response payload, and the authentication proof. Temperatures, which the code divides by
  100 into floats, are rationals here. HMAC-SHA256 comes from Python's \<open>hmac\<close> and \<open>hashlib\<close>; it
  is a parameter of the proof computation.
\<close>

subsection \<open>Values of the shared configuration\<close>

definition HEADER_SIZE :: nat where "HEADER_SIZE = 8"
definition HISTORY_RECORD_SIZE :: nat where "HISTORY_RECORD_SIZE = 7"
definition COMPACT_HISTORY_RECORD_SIZE :: nat where "COMPACT_HISTORY_RECORD_SIZE = 3"
definition HISTORY_CHUNK_PREFIX_SIZE :: nat where "HISTORY_CHUNK_PREFIX_SIZE = 7"
definition PROTOCOL_VERSION :: int where "PROTOCOL_VERSION = 2"
definition RESPONSE_FLAG :: int where "RESPONSE_FLAG = 1"
definition MAX_HISTORY_RECORDS_PER_CHUNK :: int where "MAX_HISTORY_RECORDS_PER_CHUNK = 32"
definition MAX_COMPACT_HISTORY_RECORDS_PER_CHUNK :: int where
  "MAX_COMPACT_HISTORY_RECORDS_PER_CHUNK = 72"
definition SENSOR_COUNT :: int where "SENSOR_COUNT = 2"
definition NONCE_SIZE :: nat where "NONCE_SIZE = 16"
definition PROOF_SIZE :: nat where "PROOF_SIZE = 32"
definition AUTH_DOMAIN :: string where "AUTH_DOMAIN = ''THERMOMETER-AUTH-V2''"

lemmas size_defs = HEADER_SIZE_def HISTORY_RECORD_SIZE_def COMPACT_HISTORY_RECORD_SIZE_def
  HISTORY_CHUNK_PREFIX_SIZE_def
lemmas config_defs = size_defs PROTOCOL_VERSION_def RESPONSE_FLAG_def
  MAX_HISTORY_RECORDS_PER_CHUNK_def MAX_COMPACT_HISTORY_RECORDS_PER_CHUNK_def SENSOR_COUNT_def
  NONCE_SIZE_def PROOF_SIZE_def

text \<open>The size constants are the sizes of the structs they are taken from.\<close>

lemma size_constants:
  "layout_struct ''header'' = Inr cs \<Longrightarrow> struct_size cs = HEADER_SIZE"
  "layout_struct ''history_record'' = Inr cs \<Longrightarrow> struct_size cs = HISTORY_RECORD_SIZE"
  "layout_struct ''compact_history_record'' = Inr cs \<Longrightarrow> struct_size cs = COMPACT_HISTORY_RECORD_SIZE"
  "layout_struct ''history_chunk_prefix'' = Inr cs \<Longrightarrow> struct_size cs = HISTORY_CHUNK_PREFIX_SIZE"
  by (auto simp: size_defs)

subsection \<open>Data classes\<close>

record response =
  resp_version :: int
  resp_opcode :: opcode
  resp_request_id :: int
  resp_status :: status
  resp_payload :: bytes

record sensor_snapshot =
  snap_sensor_id :: int
  snap_temperature_c :: "rat option"
  snap_visible_state :: visible_state
  snap_display_enabled :: bool

definition snap_connected :: "sensor_snapshot \<Rightarrow> bool" where
  "snap_connected s \<longleftrightarrow> snap_visible_state s \<noteq> DISCONNECTED_VS"

record current_snapshot =
  cur_boot_id :: int
  cur_newest_sequence :: int
  cur_sensors :: "sensor_snapshot list"
  cur_average_c :: "rat option"

record display_result =
  disp_sensor_id :: int
  disp_visible_state :: visible_state
  disp_display_enabled :: bool

record history_meta =
  meta_boot_id :: int
  meta_newest_sequence :: int
  meta_counts :: "int list"
  meta_oldest_sequences :: "int list"

record history_record_value =
  rec_sequence :: int
  rec_temperature_c :: "rat option"
  rec_data_status :: data_status

record history_chunk =
  chunk_sensor_id :: int
  chunk_start_sequence :: int
  chunk_records :: "history_record_value list"

record auth_challenge =
  chal_device_id :: bytes
  chal_boot_id :: int
  chal_nonce :: bytes

text \<open>
  Reading a field of an unpacked layout. \<open>unpack_layout\<close> stores every field of its layout
  (\<open>unpack_layout_ok\<close>), so the default is never taken.
\<close>

definition fld :: "(string, pyval) dict \<Rightarrow> string \<Rightarrow> int" where
  "fld d n = (case dict_get d n of Some (PInt i) \<Rightarrow> i | _ \<Rightarrow> 0)"

definition fld_bytes :: "(string, pyval) dict \<Rightarrow> string \<Rightarrow> bytes" where
  "fld_bytes d n = (case dict_get d n of Some (PBytes b) \<Rightarrow> b | _ \<Rightarrow> [])"

definition centi :: "int \<Rightarrow> rat" where
  "centi t = of_int t / 100"

subsection \<open>Passkeys and the authentication proof\<close>

definition validate_passkey :: "string \<Rightarrow> string res" where
  "validate_passkey passkey =
     (if length passkey \<noteq> 6 \<or> \<not> py_isascii passkey \<or> \<not> py_isdigit passkey
      then value_error ''passkey must contain exactly six ASCII digits''
      else Inr passkey)"

definition encode_ascii :: "string \<Rightarrow> bytes" where
  "encode_ascii s = map (\<lambda>c. of_nat (code_of c)) s"

definition to_bytes4_le :: "int \<Rightarrow> bytes res" where
  "to_bytes4_le i =
     (if 0 \<le> i \<and> i < 4294967296 then Inr (le_bytes 4 i)
      else raise (OtherErrorC ''OverflowError'') ''int too big to convert'')"

definition auth_message :: "auth_challenge \<Rightarrow> bytes res" where
  "auth_message challenge =
     rbind (to_bytes4_le (chal_boot_id challenge)) (\<lambda>boot.
       Inr (encode_ascii AUTH_DOMAIN @ [word_of_int PROTOCOL_VERSION]
            @ chal_device_id challenge @ boot @ chal_nonce challenge))"

definition compute_authentication_proof ::
    "(bytes \<Rightarrow> bytes \<Rightarrow> bytes) \<Rightarrow> string \<Rightarrow> auth_challenge \<Rightarrow> bytes res" where
  "compute_authentication_proof hmac_sha256 passkey challenge =
     (if length (chal_device_id challenge) \<noteq> 6 then
        value_error ''authentication device identity must contain six bytes''
      else if length (chal_nonce challenge) \<noteq> NONCE_SIZE then
        value_error ''authentication nonce has an invalid size''
      else rbind (validate_passkey passkey) (\<lambda>key.
           rbind (auth_message challenge) (\<lambda>message.
             Inr (hmac_sha256 (encode_ascii key) message))))"

subsection \<open>Requests\<close>

definition build_request :: "opcode \<Rightarrow> int \<Rightarrow> bytes \<Rightarrow> bytes res" where
  "build_request opcode request_id payload =
     (if \<not> (0 \<le> request_id \<and> request_id \<le> 65535) then
        value_error ''request_id must fit in an unsigned 16-bit integer''
      else if 65535 < int (length payload) then value_error ''payload is too long''
      else rbind (pack_layout ''header''
          [(''version'', PInt PROTOCOL_VERSION), (''opcode'', PInt (opcode_value opcode)),
           (''request_id'', PInt request_id), (''payload_length'', PInt (int (length payload))),
           (''status'', PInt 0), (''flags'', PInt 0)])
        (\<lambda>header. Inr (header @ payload)))"

definition validate_sensor_id :: "int \<Rightarrow> unit res" where
  "validate_sensor_id sensor_id =
     (if \<not> (1 \<le> sensor_id \<and> sensor_id \<le> SENSOR_COUNT) then
        value_error (''sensor_id must be between 1 and '' @ show_int SENSOR_COUNT)
      else Inr ())"

definition build_set_display_request :: "int \<Rightarrow> int \<Rightarrow> bool \<Rightarrow> bytes res" where
  "build_set_display_request request_id sensor_id enabled =
     rbind (validate_sensor_id sensor_id) (\<lambda>_.
     rbind (pack_layout ''set_display_request''
         [(''sensor_id'', PInt sensor_id), (''enabled'', PInt (of_bool enabled))]) (\<lambda>payload.
       build_request SET_DISPLAY request_id payload))"

definition build_authentication_proof_request :: "int \<Rightarrow> bytes \<Rightarrow> bytes res" where
  "build_authentication_proof_request request_id proof =
     (if length proof \<noteq> PROOF_SIZE then
        value_error (''authentication proof must contain '' @ show_nat PROOF_SIZE @ '' bytes'')
      else rbind (pack_layout ''auth_prove_request'' [(''proof'', PBytes proof)]) (\<lambda>payload.
             build_request AUTH_PROVE request_id payload))"

definition build_history_chunk_request :: "bool \<Rightarrow> int \<Rightarrow> int \<Rightarrow> int \<Rightarrow> int \<Rightarrow> bytes res" where
  "build_history_chunk_request is_compact request_id sensor_id start_sequence n =
     rbind (validate_sensor_id sensor_id) (\<lambda>_.
       if \<not> (0 \<le> start_sequence \<and> start_sequence \<le> 0xFFFFFFFF) then
         value_error ''start_sequence must fit in an unsigned 32-bit integer''
       else
         let maximum = (if is_compact then MAX_COMPACT_HISTORY_RECORDS_PER_CHUNK
                        else MAX_HISTORY_RECORDS_PER_CHUNK)
         in if \<not> (1 \<le> n \<and> n \<le> maximum) then
              value_error (''count must be between 1 and '' @ show_int maximum)
            else rbind (pack_layout ''history_chunk_request''
                [(''sensor_id'', PInt sensor_id), (''start_sequence'', PInt start_sequence),
                 (''record_count'', PInt n)]) (\<lambda>payload.
              let opcode = (if is_compact then GET_HISTORY_CHUNK_COMPACT else GET_HISTORY_CHUNK)
              in build_request opcode request_id payload))"

subsection \<open>Responses\<close>

definition parse_response ::
    "bytes \<Rightarrow> opcode option \<Rightarrow> int option \<Rightarrow> bool \<Rightarrow> response res" where
  "parse_response packet expected_opcode expected_request_id allow_error =
    (if length packet < HEADER_SIZE then
       protocol_error (''response is shorter than the '' @ show_nat HEADER_SIZE @ ''-byte header'') None
     else rbind (unpack_layout ''header'' (take HEADER_SIZE packet)) (\<lambda>header.
       let payload = drop HEADER_SIZE packet in
       if int (length payload) \<noteq> fld header ''payload_length'' then
         protocol_error ''response payload length does not match its header'' None
       else if fld header ''flags'' AND RESPONSE_FLAG = 0 then
         protocol_error ''packet is not marked as a response'' None
       else case opcode_of (fld header ''opcode'') of
         None \<Rightarrow> protocol_error (''unknown response opcode 0x'' @ show_hex2 (fld header ''opcode'')) None
       | Some opcode \<Rightarrow> (case status_of (fld header ''status'') of
         None \<Rightarrow> protocol_error (''unknown response status '' @ show_int (fld header ''status'')) None
       | Some status \<Rightarrow>
         if fld header ''version'' \<noteq> PROTOCOL_VERSION then
           protocol_error (''protocol version mismatch: client='' @ show_int PROTOCOL_VERSION
             @ '', server='' @ show_int (fld header ''version'')) (Some status)
         else if expected_opcode \<noteq> None \<and> expected_opcode \<noteq> Some opcode then
           protocol_error (''response opcode '' @ opcode_name opcode @ '' does not match ''
             @ opcode_name (the expected_opcode)) (Some status)
         else if expected_request_id \<noteq> None
                 \<and> expected_request_id \<noteq> Some (fld header ''request_id'') then
           protocol_error (''response request ID '' @ show_int (fld header ''request_id'')
             @ '' does not match '' @ show_int (the expected_request_id)) (Some status)
         else if status \<noteq> SUCCESS \<and> \<not> allow_error then
           protocol_error (''ESP32 returned '' @ status_name status) (Some status)
         else Inr \<lparr>resp_version = fld header ''version'', resp_opcode = opcode,
                   resp_request_id = fld header ''request_id'', resp_status = status,
                   resp_payload = payload\<rparr>)))"

definition sensor_field :: "int \<Rightarrow> string \<Rightarrow> string" where
  "sensor_field sensor_id name = ''sensor_'' @ show_int sensor_id @ ''_'' @ name"

definition sensor_ids :: "int list" where
  "sensor_ids = [1..SENSOR_COUNT]"

text \<open>The body of the loop of \<open>decode_current\<close>, for one sensor.\<close>

definition decode_current_sensor :: "(string, pyval) dict \<Rightarrow> int \<Rightarrow> sensor_snapshot res" where
  "decode_current_sensor vals sensor_id =
    (let state_raw = fld vals (sensor_field sensor_id ''visible_state'');
         display_raw = fld vals (sensor_field sensor_id ''display_enabled'')
     in case visible_state_of state_raw of
          None \<Rightarrow> protocol_error (''invalid visible state '' @ show_int state_raw) None
        | Some state \<Rightarrow>
            if display_raw \<notin> {0, 1} then protocol_error ''display flag is not Boolean'' None
            else let temperature = fld vals (sensor_field sensor_id ''temperature_centi_c'')
                 in Inr \<lparr>snap_sensor_id = sensor_id,
                         snap_temperature_c =
                           (if state = DISCONNECTED_VS then None else Some (centi temperature)),
                         snap_visible_state = state,
                         snap_display_enabled = (display_raw \<noteq> 0)\<rparr>)"

definition decode_current :: "response \<Rightarrow> current_snapshot res" where
  "decode_current r =
    (if resp_opcode r \<noteq> GET_CURRENT then protocol_error ''response is not GET_CURRENT'' None
     else rbind (unpack_layout ''current_response'' (resp_payload r)) (\<lambda>vals.
       rbind (rmap (decode_current_sensor vals) sensor_ids) (\<lambda>sensors.
         let average_valid = fld vals ''average_valid'' in
         if average_valid \<notin> {0, 1} \<or> fld vals ''reserved'' \<noteq> 0 then
           protocol_error ''invalid average flags'' None
         else Inr \<lparr>cur_boot_id = fld vals ''boot_id'',
                   cur_newest_sequence = fld vals ''newest_sequence'',
                   cur_sensors = sensors,
                   cur_average_c = (if average_valid \<noteq> 0
                     then Some (centi (fld vals ''average_temperature_centi_c'')) else None)\<rparr>)))"

definition decode_display_result :: "response \<Rightarrow> display_result res" where
  "decode_display_result r =
    (if resp_opcode r \<noteq> SET_DISPLAY then protocol_error ''response is not SET_DISPLAY'' None
     else rbind (unpack_layout ''set_display_response'' (resp_payload r)) (\<lambda>vals.
       rbind (validate_sensor_id (fld vals ''sensor_id'')) (\<lambda>_.
         if fld vals ''enabled'' \<notin> {0, 1} then protocol_error ''display flag is not Boolean'' None
         else case visible_state_of (fld vals ''visible_state'') of
           None \<Rightarrow> protocol_error (''invalid visible state '' @ show_int (fld vals ''visible_state'')) None
         | Some state \<Rightarrow> Inr \<lparr>disp_sensor_id = fld vals ''sensor_id'', disp_visible_state = state,
                               disp_display_enabled = (fld vals ''enabled'' \<noteq> 0)\<rparr>)))"

definition decode_authentication_challenge :: "response \<Rightarrow> auth_challenge res" where
  "decode_authentication_challenge r =
    (if resp_opcode r \<noteq> AUTH_BEGIN then protocol_error ''response is not AUTH_BEGIN'' None
     else rbind (unpack_layout ''auth_begin_response'' (resp_payload r)) (\<lambda>vals.
       Inr \<lparr>chal_device_id = fld_bytes vals ''device_id'', chal_boot_id = fld vals ''boot_id'',
            chal_nonce = fld_bytes vals ''nonce''\<rparr>))"

definition decode_history_meta :: "response \<Rightarrow> history_meta res" where
  "decode_history_meta r =
    (if resp_opcode r \<noteq> GET_HISTORY_META then protocol_error ''response is not GET_HISTORY_META'' None
     else rbind (unpack_layout ''history_meta_response'' (resp_payload r)) (\<lambda>vals.
       Inr \<lparr>meta_boot_id = fld vals ''boot_id'', meta_newest_sequence = fld vals ''newest_sequence'',
            meta_counts = map (\<lambda>s. fld vals (sensor_field s ''count'')) sensor_ids,
            meta_oldest_sequences = map (\<lambda>s. fld vals (sensor_field s ''oldest_sequence'')) sensor_ids\<rparr>))"

text \<open>The body of the loop of \<open>decode_history_chunk\<close>, for the record at \<open>record_index\<close>.\<close>

definition decode_history_record ::
    "bool \<Rightarrow> int \<Rightarrow> bytes \<Rightarrow> nat \<Rightarrow> history_record_value res" where
  "decode_history_record is_compact start payload record_index =
    (let layout_name = (if is_compact then ''compact_history_record'' else ''history_record'');
         record_size = (if is_compact then COMPACT_HISTORY_RECORD_SIZE else HISTORY_RECORD_SIZE);
         offset = HISTORY_CHUNK_PREFIX_SIZE + record_index * record_size
     in rbind (unpack_layout layout_name (take record_size (drop offset payload))) (\<lambda>vals.
       case data_status_of (fld vals ''data_status'') of
         None \<Rightarrow> protocol_error (''invalid history data status '' @ show_int (fld vals ''data_status'')) None
       | Some st \<Rightarrow>
           Inr \<lparr>rec_sequence = (if is_compact then u32_mask (start + int record_index)
                                 else fld vals ''sequence''),
                rec_temperature_c = (if st = VALID
                                     then Some (centi (fld vals ''temperature_centi_c'')) else None),
                rec_data_status = st\<rparr>))"

definition decode_history_chunk :: "response \<Rightarrow> history_chunk res" where
  "decode_history_chunk r =
    (if resp_opcode r \<noteq> GET_HISTORY_CHUNK \<and> resp_opcode r \<noteq> GET_HISTORY_CHUNK_COMPACT then
       protocol_error ''response is not a history chunk'' None
     else
       let is_compact = (resp_opcode r = GET_HISTORY_CHUNK_COMPACT);
           record_size = (if is_compact then COMPACT_HISTORY_RECORD_SIZE else HISTORY_RECORD_SIZE);
           payload = resp_payload r
       in if length payload < HISTORY_CHUNK_PREFIX_SIZE then
            protocol_error ''history chunk is shorter than its prefix'' None
          else rbind (unpack_layout ''history_chunk_prefix'' (take HISTORY_CHUNK_PREFIX_SIZE payload)) (\<lambda>prefix.
            case validate_sensor_id (fld prefix ''sensor_id'') of
              Inl e \<Rightarrow> Inl (Exc ProtocolErrorC (exc_text e) None [] (Some e))
            | Inr _ \<Rightarrow>
              if fld prefix ''record_size'' \<noteq> int record_size then
                protocol_error ''history record size does not match the shared layout'' None
              else if int (length payload)
                      \<noteq> int HISTORY_CHUNK_PREFIX_SIZE + fld prefix ''record_count'' * int record_size then
                protocol_error ''history chunk contains an incomplete record'' None
              else rbind (rmap (decode_history_record is_compact (fld prefix ''start_sequence'') payload)
                           [0..<nat (fld prefix ''record_count'')]) (\<lambda>records.
                Inr \<lparr>chunk_sensor_id = fld prefix ''sensor_id'',
                     chunk_start_sequence = fld prefix ''start_sequence'',
                     chunk_records = records\<rparr>)))"

end
