(* ===== verification/Protocol_Props.thy ===== *)
theory Protocol_Props
  imports Protocol
begin

section \<open>What the packet layer guarantees\<close>

text \<open>
  Exact characterisations of \<open>parse_response\<close> and \<open>build_request\<close> over the header layout, the
  decoders over their payload layouts, and the injectivity of the authentication message.
\<close>

subsection \<open>The header\<close>

abbreviation hdr :: "int \<Rightarrow> int \<Rightarrow> int \<Rightarrow> int \<Rightarrow> int \<Rightarrow> int \<Rightarrow> (string, pyval) dict" where
  "hdr v oc rid len st fl \<equiv>
     [(''version'', PInt v), (''opcode'', PInt oc), (''request_id'', PInt rid),
      (''payload_length'', PInt len), (''status'', PInt st), (''flags'', PInt fl)]"

lemma value_fits_int [simp]:
  "value_fits CodeB v \<longleftrightarrow> (\<exists>i. v = PInt i \<and> 0 \<le> i \<and> i < 256)"
  "value_fits CodeH v \<longleftrightarrow> (\<exists>i. v = PInt i \<and> 0 \<le> i \<and> i < 65536)"
  "value_fits Codeh v \<longleftrightarrow> (\<exists>i. v = PInt i \<and> - 32768 \<le> i \<and> i < 32768)"
  "value_fits CodeI v \<longleftrightarrow> (\<exists>i. v = PInt i \<and> 0 \<le> i \<and> i < 4294967296)"
  "value_fits (CodeS n) v \<longleftrightarrow> (\<exists>b. v = PBytes b \<and> length b = n)"
  by (cases v; auto simp: int_in_range_def)+

lemma map_fst_Cons_iff: "map fst d = n # ns \<longleftrightarrow> (\<exists>v d'. d = (n, v) # d' \<and> map fst d' = ns)"
  by (cases d) auto

lemma unpack_header_iff:
  "unpack_layout ''header'' data = Inr d \<longleftrightarrow>
    (\<exists>v oc rid len st fl. d = hdr v oc rid len st fl \<and> pack_layout ''header'' d = Inr data
      \<and> 0 \<le> v \<and> v < 256 \<and> 0 \<le> oc \<and> oc < 256 \<and> 0 \<le> rid \<and> rid < 65536 \<and> 0 \<le> len \<and> len < 65536
      \<and> 0 \<le> st \<and> st < 256 \<and> 0 \<le> fl \<and> fl < 256)"
  by (subst unpack_layout_iff [OF layout_lookup(1) layout_struct_eqs(1)])
    (auto simp: map_fst_Cons_iff values_fit_def)

lemma pack_header_length: "pack_layout ''header'' d = Inr h \<Longrightarrow> length h = 8"
  by (auto simp: pack_layout_def rbind_Inr_iff dest: struct_pack_length)

lemma unpack_header_pack:
  assumes "0 \<le> v" "v < 256" "0 \<le> oc" "oc < 256" "0 \<le> rid" "rid < 65536" "0 \<le> len" "len < 65536"
    "0 \<le> st" "st < 256" "0 \<le> fl" "fl < 256"
  shows "\<exists>h. pack_layout ''header'' (hdr v oc rid len st fl) = Inr h
    \<and> unpack_layout ''header'' h = Inr (hdr v oc rid len st fl) \<and> length h = 8"
proof -
  have "values_fit [CodeB, CodeB, CodeH, CodeH, CodeB, CodeB]
      [PInt v, PInt oc, PInt rid, PInt len, PInt st, PInt fl]"
    using assms by (simp add: values_fit_def)
  then obtain h where "struct_pack [CodeB, CodeB, CodeH, CodeH, CodeB, CodeB]
      [PInt v, PInt oc, PInt rid, PInt len, PInt st, PInt fl] = Inr h"
    using struct_pack_ok by blast
  then have p: "pack_layout ''header'' (hdr v oc rid len st fl) = Inr h"
    by (subst pack_layout_exact [OF layout_lookup(1) layout_struct_eqs(1)]) simp_all
  moreover have "unpack_layout ''header'' h = Inr (hdr v oc rid len st fl)"
    using p assms by (simp add: unpack_header_iff)
  ultimately show ?thesis using pack_header_length by blast
qed

lemma fld_hdr [simp]:
  "fld (hdr v oc rid len st fl) ''version'' = v"
  "fld (hdr v oc rid len st fl) ''opcode'' = oc"
  "fld (hdr v oc rid len st fl) ''request_id'' = rid"
  "fld (hdr v oc rid len st fl) ''payload_length'' = len"
  "fld (hdr v oc rid len st fl) ''status'' = st"
  "fld (hdr v oc rid len st fl) ''flags'' = fl"
  by (simp_all add: fld_def)

lemma parse_response_iff:
  "parse_response packet expected_opcode expected_request_id allow_error = Inr r \<longleftrightarrow>
    (\<exists>flags h. 0 \<le> flags \<and> flags < 256 \<and> flags AND RESPONSE_FLAG \<noteq> 0
      \<and> pack_layout ''header'' (hdr PROTOCOL_VERSION (opcode_value (resp_opcode r))
          (resp_request_id r) (int (length (resp_payload r))) (status_value (resp_status r)) flags) = Inr h
      \<and> packet = h @ resp_payload r
      \<and> 0 \<le> resp_request_id r \<and> resp_request_id r < 65536 \<and> length (resp_payload r) < 65536
      \<and> resp_version r = PROTOCOL_VERSION
      \<and> expected_opcode \<in> {None, Some (resp_opcode r)}
      \<and> expected_request_id \<in> {None, Some (resp_request_id r)}
      \<and> (resp_status r = SUCCESS \<or> allow_error))" (is "?lhs \<longleftrightarrow> ?rhs")
proof
  assume l: ?lhs
  then have len: "8 \<le> length packet" by (auto simp: parse_response_def size_defs split: if_splits)
  with l obtain d where d: "unpack_layout ''header'' (take 8 packet) = Inr d"
    by (auto simp: parse_response_def size_defs rbind_Inr_iff split: if_splits)
  obtain v oc rid n st fl where d_eq: "d = hdr v oc rid n st fl"
    and p: "pack_layout ''header'' (hdr v oc rid n st fl) = Inr (take 8 packet)"
    and r: "0 \<le> rid" "rid < 65536" "0 \<le> n" "n < 65536" "0 \<le> fl" "fl < 256"
    using iffD1 [OF unpack_header_iff d] by blast
  from l len d obtain opc stt where e: "opcode_value opc = oc" "status_value stt = st"
      "int (length (drop 8 packet)) = n" "v = PROTOCOL_VERSION" "fl AND RESPONSE_FLAG \<noteq> 0"
      "expected_opcode \<in> {None, Some opc}" "expected_request_id \<in> {None, Some rid}"
      "stt = SUCCESS \<or> allow_error"
    and r_eq: "r = \<lparr>resp_version = v, resp_opcode = opc, resp_request_id = rid,
      resp_status = stt, resp_payload = drop 8 packet\<rparr>"
    unfolding d_eq parse_response_def size_defs
    by (auto simp: Let_def opcode_of_Some status_of_Some split: if_splits option.splits)
  have "length (drop 8 packet) < 65536" using e(3) r(4) by linarith
  then show ?rhs
    using e p r unfolding r_eq by (intro exI [of _ fl] exI [of _ "take 8 packet"]) simp
next
  assume ?rhs
  then obtain flags h where f: "0 \<le> flags" "flags < 256" "flags AND RESPONSE_FLAG \<noteq> 0"
    and p: "pack_layout ''header'' (hdr PROTOCOL_VERSION (opcode_value (resp_opcode r))
          (resp_request_id r) (int (length (resp_payload r))) (status_value (resp_status r)) flags) = Inr h"
    and pk: "packet = h @ resp_payload r"
    and b: "0 \<le> resp_request_id r" "resp_request_id r < 65536" "length (resp_payload r) < 65536"
    and rest: "resp_version r = PROTOCOL_VERSION" "expected_opcode \<in> {None, Some (resp_opcode r)}"
      "expected_request_id \<in> {None, Some (resp_request_id r)}" "resp_status r = SUCCESS \<or> allow_error"
    by blast
  have "length h = 8" using p by (rule pack_header_length)
  moreover have "unpack_layout ''header'' h = Inr (hdr PROTOCOL_VERSION (opcode_value (resp_opcode r))
          (resp_request_id r) (int (length (resp_payload r))) (status_value (resp_status r)) flags)"
    using p f b by (simp add: unpack_header_iff enum_ranges config_defs)
  ultimately show ?lhs
    using f rest by (auto simp: parse_response_def pk HEADER_SIZE_def)
qed

text \<open>
  C11: \<open>parse_response\<close> accepts exactly the packets that are the packed header of the response
  it returns, with the response flag set and the version of the client, followed by the payload
  of the declared length; the opcode and the request identifier are the expected ones when given,
  and the status is success unless errors are allowed. Nothing else is accepted.
\<close>

theorem parse_response_exact:
  "parse_response packet expected_opcode expected_request_id allow_error = Inr r \<longleftrightarrow>
    (\<exists>flags h. 0 \<le> flags \<and> flags < 256 \<and> flags AND RESPONSE_FLAG \<noteq> 0
      \<and> pack_layout ''header'' (hdr PROTOCOL_VERSION (opcode_value (resp_opcode r))
          (resp_request_id r) (int (length (resp_payload r))) (status_value (resp_status r)) flags) = Inr h
      \<and> packet = h @ resp_payload r
      \<and> 0 \<le> resp_request_id r \<and> resp_request_id r < 65536 \<and> length (resp_payload r) < 65536
      \<and> resp_version r = PROTOCOL_VERSION
      \<and> expected_opcode \<in> {None, Some (resp_opcode r)}
      \<and> expected_request_id \<in> {None, Some (resp_request_id r)}
      \<and> (resp_status r = SUCCESS \<or> allow_error))"
  by (rule parse_response_iff)

lemma build_request_exact:
  "build_request opcode request_id payload = Inr packet \<longleftrightarrow>
     0 \<le> request_id \<and> request_id \<le> 65535 \<and> length payload \<le> 65535
     \<and> (\<exists>h. pack_layout ''header''
              (hdr PROTOCOL_VERSION (opcode_value opcode) request_id (int (length payload)) 0 0) = Inr h
          \<and> packet = h @ payload)"
  by (auto simp: build_request_def rbind_Inr_iff)

lemma build_request_ok:
  assumes "0 \<le> request_id" "request_id \<le> 65535" "length payload \<le> 65535"
  shows "\<exists>packet. build_request opcode request_id payload = Inr packet"
  using unpack_header_pack [of PROTOCOL_VERSION "opcode_value opcode" request_id "int (length payload)" 0 0]
    assms by (auto simp: build_request_def enum_ranges PROTOCOL_VERSION_def)

text \<open>
  A packet the client builds as a request is never taken for a response: echoed back, it is
  refused because its response flag is clear, whatever opcode, request identifier or error policy
  the caller expects.
\<close>

theorem request_is_no_response:
  assumes "build_request opcode request_id payload = Inr packet"
  shows "parse_response packet eo er ae
    = protocol_error ''packet is not marked as a response'' None"
proof -
  obtain h where p: "pack_layout ''header''
      (hdr PROTOCOL_VERSION (opcode_value opcode) request_id (int (length payload)) 0 0) = Inr h"
    and pk: "packet = h @ payload" and b: "0 \<le> request_id" "request_id \<le> 65535" "length payload \<le> 65535"
    using assms by (auto simp: build_request_exact)
  have "length h = 8" using p by (rule pack_header_length)
  moreover have "unpack_layout ''header'' h
      = Inr (hdr PROTOCOL_VERSION (opcode_value opcode) request_id (int (length payload)) 0 0)"
    using p b by (simp add: unpack_header_iff enum_ranges PROTOCOL_VERSION_def)
  ultimately show ?thesis by (simp add: parse_response_def pk HEADER_SIZE_def)
qed

theorem request_is_no_response_witness:
  "\<exists>packet. build_request SET_DISPLAY 65535 [1, 1] = Inr packet
     \<and> parse_response packet None None True
         = protocol_error ''packet is not marked as a response'' None"
proof -
  obtain packet where p: "build_request SET_DISPLAY 65535 [1, 1] = Inr packet"
    using build_request_ok [of 65535 "[1, 1]" SET_DISPLAY] by auto
  show ?thesis using p request_is_no_response [OF p] by blast
qed

subsection \<open>Passkeys and the authentication message\<close>

lemma validate_passkey_iff:
  "validate_passkey s = Inr k \<longleftrightarrow> k = s \<and> length s = 6 \<and> list_all is_ascii_digit s"
proof -
  have "list_all is_ascii_char s \<and> list_all py_isdigit_char s \<longleftrightarrow> list_all is_ascii_digit s"
    by (induction s) (auto simp: isdigit_ascii digit_isdigit dest: digit_is_ascii)
  then have "length s = 6 \<Longrightarrow> py_isascii s \<and> py_isdigit s \<longleftrightarrow> list_all is_ascii_digit s"
    by (auto simp: py_isascii_def py_isdigit_def)
  then show ?thesis by (cases "length s = 6") (auto simp: validate_passkey_def)
qed

lemma auth_message_parts:
  assumes "auth_message c = Inr m" "length (chal_device_id c) = 6"
  shows "m = encode_ascii AUTH_DOMAIN @ [word_of_int PROTOCOL_VERSION] @ chal_device_id c
      @ le_bytes 4 (chal_boot_id c) @ chal_nonce c"
    "0 \<le> chal_boot_id c" "chal_boot_id c < 4294967296"
  using assms by (auto simp: auth_message_def to_bytes4_le_def rbind_Inr_iff split: if_splits)

text \<open>
  The message that is authenticated determines the challenge: two challenges with six-byte
  device identities that lead to the same message have the same device identity, boot identifier
  and nonce. A proof computed for one device, boot or nonce is never the proof of another
  message.
\<close>

theorem auth_message_injective:
  assumes "auth_message c = Inr m" "auth_message d = Inr m"
    "length (chal_device_id c) = 6" "length (chal_device_id d) = 6"
  shows "c = d"
proof -
  note c = auth_message_parts [OF assms(1,3)] and d = auth_message_parts [OF assms(2,4)]
  from c(1) d(1) have "chal_device_id c @ le_bytes 4 (chal_boot_id c) @ chal_nonce c
      = chal_device_id d @ le_bytes 4 (chal_boot_id d) @ chal_nonce d"
    by (metis append_same_eq same_append_eq)
  then have e: "chal_device_id c = chal_device_id d"
    "le_bytes 4 (chal_boot_id c) = le_bytes 4 (chal_boot_id d)" "chal_nonce c = chal_nonce d"
    using assms(3,4) by (simp_all add: append_eq_append_conv)
  have "le_int (le_bytes 4 (chal_boot_id c)) = chal_boot_id c"
    "le_int (le_bytes 4 (chal_boot_id d)) = chal_boot_id d"
    using c d by (simp_all add: le_int_le_bytes)
  then have "chal_boot_id c = chal_boot_id d" using e(2) by metis
  with e(1,3) show ?thesis by (cases c, cases d) simp
qed

theorem auth_message_injective_witness:
  "auth_message \<lparr>chal_device_id = [1, 2, 3, 4, 5, 6], chal_boot_id = 7, chal_nonce = [8]\<rparr>
    \<noteq> auth_message \<lparr>chal_device_id = [1, 2, 3, 4, 5, 6], chal_boot_id = 8, chal_nonce = [8]\<rparr>"
proof
  let ?c = "\<lparr>chal_device_id = [1, 2, 3, 4, 5, 6], chal_boot_id = 7, chal_nonce = [8]\<rparr>"
  let ?d = "\<lparr>chal_device_id = [1, 2, 3, 4, 5, 6], chal_boot_id = 8, chal_nonce = [8]\<rparr>"
  assume e: "auth_message ?c = auth_message ?d"
  obtain m where "auth_message ?c = Inr m" by (simp add: auth_message_def to_bytes4_le_def)
  then have "?c = ?d" using auth_message_injective [of ?c m ?d] e by simp
  then show False by simp
qed

end
