(* ===== verification/Firmware_Packets.thy ===== *)
theory Firmware_Packets
  imports Protocol_Props
begin

section \<open>The packets the firmware writes\<close>

text \<open>
  The encoders of \<open>firmware/main/src/protocol.c\<close>, the peer of the Python client, over the C
  types: \<open>finish_response\<close> writes the header, \<open>handle_get_current\<close> the current snapshot and
  \<open>handle_get_history_chunk\<close> the records of a chunk, full or compact. The theorems are the
  end-to-end round trips: what the firmware writes, \<open>parse_response\<close> and the decoders of
  \<open>Protocol\<close> read back.
\<close>

definition write_u16 :: "16 word \<Rightarrow> bytes" where
  "write_u16 v = [ucast v, ucast (drop_bit 8 v)]"

definition write_u32 :: "32 word \<Rightarrow> bytes" where
  "write_u32 v = [ucast v, ucast (drop_bit 8 v), ucast (drop_bit 16 v), ucast (drop_bit 24 v)]"

definition write_i16 :: "16 word \<Rightarrow> bytes" where
  "write_i16 v = write_u16 v"

lemma ucast_drop_bit: "(ucast (drop_bit n (w :: 'a::len word)) :: byte) = word_of_int (uint w div 2 ^ n)"
proof -
  have "(ucast (drop_bit n w) :: byte) = word_of_int (drop_bit n (uint w))"
    by (rule bit_word_eqI) (auto simp: bit_simps)
  then show ?thesis by (simp add: drop_bit_eq_div)
qed

lemma le_bytes_map: "le_bytes n v = map (\<lambda>i. word_of_int (v div 2 ^ (8 * i))) [0..<n]"
proof (induction n arbitrary: v)
  case (Suc n)
  have "v div 256 div 2 ^ (8 * i) = v div 2 ^ (8 * Suc i)" for i
    by (simp add: power_add zdiv_zmult2_eq)
  then show ?case
    using Suc [of "v div 256"] by (simp del: upt_Suc add: upt_conv_Cons map_Suc_upt [symmetric] comp_def)
qed simp

text \<open>The C writers are the little-endian encoding of the value.\<close>

lemma write_u16_le: "write_u16 v = le_bytes 2 (uint v)"
  using ucast_drop_bit [of 8 v] ucast_drop_bit [of 0 v]
  by (simp add: write_u16_def le_bytes_map upt_rec)

lemma write_u32_le: "write_u32 v = le_bytes 4 (uint v)"
  using ucast_drop_bit [of 8 v] ucast_drop_bit [of 0 v] ucast_drop_bit [of 16 v] ucast_drop_bit [of 24 v]
  by (simp add: write_u32_def le_bytes_map upt_rec)

lemma write_i16_le: "write_i16 v = le_bytes 2 (sint v)"
proof -
  have "sint v mod 65536 = uint v"
    using uint_sint [of v] by (simp add: take_bit_eq_mod)
  then show ?thesis using le_bytes_mod [of 2 "sint v"] by (simp add: write_i16_def write_u16_le)
qed

subsection \<open>C structures\<close>

record fw_sensor =
  fw_temperature :: "16 word"
  fw_data_status :: data_status
  fw_display_enabled :: bool
  fw_sensor_sequence :: "32 word"

record fw_snapshot =
  fw_boot_id :: "32 word"
  fw_newest_sequence :: "32 word"
  fw_sensor_1 :: fw_sensor
  fw_sensor_2 :: fw_sensor
  fw_average :: "16 word"
  fw_average_valid :: bool

record fw_record =
  fr_sequence :: "32 word"
  fr_temperature :: "16 word"
  fr_data_status :: data_status

definition thermometer_visible_state :: "fw_sensor \<Rightarrow> visible_state" where
  "thermometer_visible_state s =
     (if fw_data_status s \<noteq> VALID then DISCONNECTED_VS
      else if fw_display_enabled s then ON else OFF)"

definition u8 :: "int \<Rightarrow> byte" where "u8 i = word_of_int i"

definition finish_response :: "opcode \<Rightarrow> 16 word \<Rightarrow> status \<Rightarrow> bytes \<Rightarrow> bytes" where
  "finish_response opcode request_id st payload =
     [u8 PROTOCOL_VERSION, u8 (opcode_value opcode)] @ write_u16 request_id
     @ write_u16 (of_nat (length payload)) @ [u8 (status_value st), u8 RESPONSE_FLAG] @ payload"

definition encode_sensor_snapshot :: "fw_sensor \<Rightarrow> bytes" where
  "encode_sensor_snapshot s =
     write_i16 (fw_temperature s) @ [u8 (visible_state_value (thermometer_visible_state s)),
       if fw_display_enabled s then 1 else 0]"

definition current_payload :: "fw_snapshot \<Rightarrow> bytes" where
  "current_payload s =
     write_u32 (fw_boot_id s) @ write_u32 (fw_newest_sequence s)
     @ encode_sensor_snapshot (fw_sensor_1 s) @ encode_sensor_snapshot (fw_sensor_2 s)
     @ write_i16 (fw_average s) @ [if fw_average_valid s then 1 else 0] @ [0]"

definition encode_record :: "bool \<Rightarrow> fw_record \<Rightarrow> bytes" where
  "encode_record is_compact r =
     (if is_compact then write_i16 (fr_temperature r) @ [u8 (data_status_value (fr_data_status r))]
      else write_u32 (fr_sequence r) @ write_i16 (fr_temperature r)
           @ [u8 (data_status_value (fr_data_status r))])"

definition chunk_payload :: "bool \<Rightarrow> byte \<Rightarrow> 32 word \<Rightarrow> fw_record list \<Rightarrow> bytes" where
  "chunk_payload is_compact sensor_id start_sequence records =
     [sensor_id] @ write_u32 start_sequence
     @ [of_nat (length records),
        of_nat (if is_compact then COMPACT_HISTORY_RECORD_SIZE else HISTORY_RECORD_SIZE)]
     @ concat (map (encode_record is_compact) records)"

subsection \<open>Round trips\<close>

lemma pack_u8: "0 \<le> i \<Longrightarrow> i < 256 \<Longrightarrow> pack_value CodeB (PInt i) = Inr [u8 i]"
  by (simp add: int_in_range_def u8_def)

lemma pack_u16: "pack_value CodeH (PInt (uint w)) = Inr (write_u16 w)" for w :: "16 word"
  using uint_lt2p [of w] by (simp add: int_in_range_def write_u16_le)

lemma pack_u32: "pack_value CodeI (PInt (uint w)) = Inr (write_u32 w)" for w :: "32 word"
  using uint_lt2p [of w] by (simp add: int_in_range_def write_u32_le)

lemma sint_range: "- 32768 \<le> sint w" "sint w < 32768" for w :: "16 word"
  using sint_range_size [of w] by (simp_all add: word_size)

lemma pack_i16: "pack_value Codeh (PInt (sint w)) = Inr (write_i16 w)" for w :: "16 word"
  using sint_range [of w] by (simp add: int_in_range_def write_i16_le)

lemma uint16_range: "uint w < 65536" for w :: "16 word"
  using uint_lt2p [of w] by simp

lemma uint32_range: "uint w < 4294967296" for w :: "32 word"
  using uint_lt2p [of w] by simp

lemma uint8_range: "uint w < 256" for w :: "8 word"
  using uint_lt2p [of w] by simp

lemmas pack_values = pack_u8 pack_u16 pack_u32 pack_i16
lemmas word_ranges = sint_range uint16_range uint32_range uint8_range

text \<open>Unpacking by exhibiting the fields.\<close>

lemma unpack_layout_by:
  assumes "map_of layouts n = Some fs" "layout_struct n = Inr cs" "map fst vals = map fst fs"
    "values_fit cs (map snd vals)" "struct_pack cs (map snd vals) = Inr data"
  shows "unpack_layout n data = Inr vals"
  using assms by (simp add: unpack_layout_iff pack_layout_exact)


lemma show_small [simp]: "show_int 1 = ''1''" "show_int 2 = ''2''"
  by code_simp+

lemma sensor_ids_eq [simp]: "sensor_ids = [1, 2]"
  by code_simp

text \<open>The value the client holds for a sensor of the firmware.\<close>

definition fw_sensor_value :: "int \<Rightarrow> fw_sensor \<Rightarrow> sensor_snapshot" where
  "fw_sensor_value i s = \<lparr>snap_sensor_id = i,
     snap_temperature_c = (if fw_data_status s = VALID then Some (centi (sint (fw_temperature s))) else None),
     snap_visible_state = thermometer_visible_state s,
     snap_display_enabled = fw_display_enabled s\<rparr>"

text \<open>
  Every snapshot the firmware encodes for GET_CURRENT is decoded to the same values: boot
  identifier, sequence, both sensors (no temperature for a disconnected one), display flags, and
  the average exactly when the firmware marked it valid.
\<close>

theorem firmware_current_roundtrip:
  assumes "resp_opcode r = GET_CURRENT" "resp_payload r = current_payload s"
  shows "decode_current r = Inr
    \<lparr>cur_boot_id = uint (fw_boot_id s), cur_newest_sequence = uint (fw_newest_sequence s),
     cur_sensors = [fw_sensor_value 1 (fw_sensor_1 s), fw_sensor_value 2 (fw_sensor_2 s)],
     cur_average_c = (if fw_average_valid s then Some (centi (sint (fw_average s))) else None)\<rparr>"
proof -
  let ?v = "\<lambda>s. visible_state_value (thermometer_visible_state s)"
  let ?d = "[(''boot_id'', PInt (uint (fw_boot_id s))),
    (''newest_sequence'', PInt (uint (fw_newest_sequence s))),
    (''sensor_1_temperature_centi_c'', PInt (sint (fw_temperature (fw_sensor_1 s)))),
    (''sensor_1_visible_state'', PInt (?v (fw_sensor_1 s))),
    (''sensor_1_display_enabled'', PInt (of_bool (fw_display_enabled (fw_sensor_1 s)))),
    (''sensor_2_temperature_centi_c'', PInt (sint (fw_temperature (fw_sensor_2 s)))),
    (''sensor_2_visible_state'', PInt (?v (fw_sensor_2 s))),
    (''sensor_2_display_enabled'', PInt (of_bool (fw_display_enabled (fw_sensor_2 s)))),
    (''average_temperature_centi_c'', PInt (sint (fw_average s))),
    (''average_valid'', PInt (of_bool (fw_average_valid s))),
    (''reserved'', PInt 0)]"
  have "unpack_layout ''current_response'' (current_payload s) = Inr ?d"
    by (rule unpack_layout_by [OF layout_lookup(2) layout_struct_eqs(2)])
      (simp_all add: values_fit_def pack_values word_ranges enum_ranges current_payload_def u8_def
         encode_sensor_snapshot_def del: pack_value.simps)
  then show ?thesis
    using assms
    by (simp add: decode_current_def decode_current_sensor_def sensor_field_def fld_def fw_sensor_value_def
        thermometer_visible_state_def)
qed

text \<open>The value the client holds for a record of the ring.\<close>

definition fw_record_value :: "fw_record \<Rightarrow> history_record_value" where
  "fw_record_value f = \<lparr>rec_sequence = uint (fr_sequence f),
     rec_temperature_c = (if fr_data_status f = VALID then Some (centi (sint (fr_temperature f))) else None),
     rec_data_status = fr_data_status f\<rparr>"

subsection \<open>History chunks\<close>

definition record_size_of :: "bool \<Rightarrow> nat" where
  "record_size_of is_compact =
     (if is_compact then COMPACT_HISTORY_RECORD_SIZE else HISTORY_RECORD_SIZE)"

lemma length_write [simp]: "length (write_u16 a) = 2" "length (write_u32 b) = 4" "length (write_i16 a) = 2"
  by (simp_all add: write_u16_def write_u32_def write_i16_def)

lemma length_encode_record [simp]: "length (encode_record is_compact f) = record_size_of is_compact"
  by (simp add: encode_record_def record_size_of_def size_defs)

lemma pack_byte: "pack_value CodeB (PInt (uint b)) = Inr [b]" for b :: byte
  using pack_u8 [of "uint b"] uint8_range [of b] by (simp add: u8_def del: pack_value.simps)

lemma pack_length: "n < 256 \<Longrightarrow> pack_value CodeB (PInt (int n)) = Inr [of_nat n]"
  using pack_u8 [of "int n"] by (simp add: u8_def del: pack_value.simps)

lemma concat_slice:
  assumes "\<And>x. x \<in> set xs \<Longrightarrow> length (g x) = w" "i < length xs"
  shows "take w (drop (i * w) (concat (map g xs))) = g (xs ! i)"
  using assms
proof (induction xs arbitrary: i)
  case (Cons x xs)
  then show ?case by (cases i) simp_all
qed simp

lemma decode_encoded_record:
  assumes "i < length recs" "length pre = HISTORY_CHUNK_PREFIX_SIZE"
    "is_compact \<Longrightarrow> uint (fr_sequence (recs ! i)) = u32_mask (start + int i)"
  shows "decode_history_record is_compact start
      (pre @ concat (map (encode_record is_compact) recs)) i = Inr (fw_record_value (recs ! i))"
proof -
  let ?f = "recs ! i"
  have slice: "take (record_size_of is_compact) (drop (HISTORY_CHUNK_PREFIX_SIZE + i * record_size_of is_compact)
      (pre @ concat (map (encode_record is_compact) recs))) = encode_record is_compact ?f"
    using concat_slice [of recs "encode_record is_compact" "record_size_of is_compact" i] assms(1,2)
    by simp
  show ?thesis
  proof (cases is_compact)
    case True
    have "unpack_layout ''compact_history_record'' (encode_record True ?f) = Inr
      [(''temperature_centi_c'', PInt (sint (fr_temperature ?f))),
       (''data_status'', PInt (data_status_value (fr_data_status ?f)))]"
      by (rule unpack_layout_by [OF layout_lookup(9) layout_struct_eqs(9)])
        (simp_all add: values_fit_def pack_values word_ranges enum_ranges encode_record_def del: pack_value.simps)
    then show ?thesis
      using slice True assms(3)
      by (simp add: decode_history_record_def record_size_of_def fld_def fw_record_value_def)
  next
    case False
    have "unpack_layout ''history_record'' (encode_record False ?f) = Inr
      [(''sequence'', PInt (uint (fr_sequence ?f))),
       (''temperature_centi_c'', PInt (sint (fr_temperature ?f))),
       (''data_status'', PInt (data_status_value (fr_data_status ?f)))]"
      by (rule unpack_layout_by [OF layout_lookup(8) layout_struct_eqs(8)])
        (simp_all add: values_fit_def pack_values word_ranges enum_ranges encode_record_def del: pack_value.simps)
    then show ?thesis
      using slice False
      by (simp add: decode_history_record_def record_size_of_def fld_def fw_record_value_def)
  qed
qed

lemma length_concat_encode:
  "length (concat (map (encode_record is_compact) recs)) = length recs * record_size_of is_compact"
  by (induction recs) simp_all

lemma uint_add_of_nat: "uint (w + of_nat i) = u32_mask (uint w + int i)" for w :: "32 word"
proof -
  have "uint (of_nat i :: 32 word) = int i mod 4294967296"
    by (simp add: unsigned_of_nat take_bit_eq_mod zmod_int)
  then show ?thesis by (simp add: u32_mask_mod uint_word_ariths(1) mod_simps)
qed

text \<open>
  C13: A history chunk the firmware encodes, with the full seven-byte records or with the
  compact three-byte ones, is decoded to the same sensor, start and records; in the compact form
  the sequence numbers, which are not sent, are reconstructed with 32-bit wrap-around from the
  start, so both forms decode to the same chunk.
\<close>

theorem firmware_chunk_roundtrip:
  assumes op: "resp_opcode r = (if is_compact then GET_HISTORY_CHUNK_COMPACT else GET_HISTORY_CHUNK)"
    and pl: "resp_payload r = chunk_payload is_compact sid start recs"
    and sid: "sid = 1 \<or> sid = 2" and len: "length recs \<le> 255"
    and seqs: "is_compact \<Longrightarrow> \<forall>i < length recs. fr_sequence (recs ! i) = start + of_nat i"
  shows "decode_history_chunk r = Inr \<lparr>chunk_sensor_id = uint sid, chunk_start_sequence = uint start,
           chunk_records = map fw_record_value recs\<rparr>"
proof -
  let ?pre = "[sid] @ write_u32 start @ [of_nat (length recs), of_nat (record_size_of is_compact)]"
  let ?d = "[(''sensor_id'', PInt (uint sid)), (''start_sequence'', PInt (uint start)),
    (''record_count'', PInt (int (length recs))), (''record_size'', PInt (int (record_size_of is_compact)))]"
  have payload: "resp_payload r = ?pre @ concat (map (encode_record is_compact) recs)"
    by (simp add: pl chunk_payload_def record_size_of_def)
  have pre: "length ?pre = HISTORY_CHUNK_PREFIX_SIZE" by (simp add: size_defs)
  have rs: "0 \<le> int (record_size_of is_compact)" "int (record_size_of is_compact) < 256"
    by (simp_all add: record_size_of_def size_defs)
  have prefix: "unpack_layout ''history_chunk_prefix'' ?pre = Inr ?d"
  proof (rule unpack_layout_by [OF layout_lookup(7) layout_struct_eqs(7)])
    show "struct_pack [CodeB, CodeI, CodeB, CodeB] (map snd ?d) = Inr ?pre"
      using len rs by (simp add: pack_byte pack_u32 pack_length del: pack_value.simps)
    show "values_fit [CodeB, CodeI, CodeB, CodeB] (map snd ?d)"
      using len rs by (simp add: values_fit_def word_ranges)
  qed simp_all
  have ok: "validate_sensor_id (uint sid) = Inr ()"
    using sid by (auto simp: validate_sensor_id_def SENSOR_COUNT_def)
  have seq: "uint (fr_sequence (recs ! i)) = u32_mask (uint start + int i)"
    if "is_compact" "i < length recs" for i
    using seqs that by (simp add: uint_add_of_nat)
  have "rmap (decode_history_record is_compact (uint start) (resp_payload r)) [0..<length recs]
      = Inr (map (\<lambda>i. fw_record_value (recs ! i)) [0..<length recs])"
    by (rule rmap_all_Inr)
       (use decode_encoded_record [OF _ pre] seq in \<open>auto simp: payload\<close>)
  also have "map (\<lambda>i. fw_record_value (recs ! i)) [0..<length recs] = map fw_record_value recs"
    by (rule nth_equalityI) simp_all
  finally have recs: "rmap (decode_history_record is_compact (uint start) (resp_payload r)) [0..<length recs]
      = Inr (map fw_record_value recs)" .
  have c: "(resp_opcode r = GET_HISTORY_CHUNK_COMPACT) = is_compact" using op by simp
  have size: "(if is_compact then COMPACT_HISTORY_RECORD_SIZE else HISTORY_RECORD_SIZE) = record_size_of is_compact"
    by (simp add: record_size_of_def)
  have tk: "take HISTORY_CHUNK_PREFIX_SIZE (resp_payload r) = ?pre"
    using pre by (metis append_eq_conv_conj payload)
  have ln: "length (resp_payload r) = HISTORY_CHUNK_PREFIX_SIZE + length recs * record_size_of is_compact"
    unfolding payload length_append length_concat_encode using pre by simp
  show ?thesis
    unfolding decode_history_chunk_def c size Let_def tk prefix
    using op ok recs ln by (simp add: fld_def)
qed


definition sample_snapshot :: fw_snapshot where
  "sample_snapshot = \<lparr>fw_boot_id = 9, fw_newest_sequence = 300,
     fw_sensor_1 = \<lparr>fw_temperature = - 250, fw_data_status = VALID, fw_display_enabled = True,
                    fw_sensor_sequence = 300\<rparr>,
     fw_sensor_2 = \<lparr>fw_temperature = 0, fw_data_status = DISCONNECTED_DS, fw_display_enabled = True,
                    fw_sensor_sequence = 300\<rparr>,
     fw_average = 0, fw_average_valid = False\<rparr>"

theorem firmware_current_roundtrip_witness:
  "\<exists>c. decode_current \<lparr>resp_version = 2, resp_opcode = GET_CURRENT, resp_request_id = 1,
          resp_status = SUCCESS, resp_payload = current_payload sample_snapshot\<rparr> = Inr c
    \<and> map snap_temperature_c (cur_sensors c) = [Some (- 5 / 2), None]
    \<and> map snap_visible_state (cur_sensors c) = [ON, DISCONNECTED_VS] \<and> cur_average_c c = None"
  using firmware_current_roundtrip [of "\<lparr>resp_version = 2, resp_opcode = GET_CURRENT,
      resp_request_id = 1, resp_status = SUCCESS, resp_payload = current_payload sample_snapshot\<rparr>"
      sample_snapshot]
  by (simp add: fw_sensor_value_def sample_snapshot_def thermometer_visible_state_def centi_def)

definition sample_records :: "fw_record list" where
  "sample_records =
     [\<lparr>fr_sequence = 4294967295, fr_temperature = 2150, fr_data_status = VALID\<rparr>,
      \<lparr>fr_sequence = 0, fr_temperature = 2150, fr_data_status = DISCONNECTED_DS\<rparr>]"

theorem firmware_chunk_roundtrip_witness:
  "decode_history_chunk \<lparr>resp_version = 2, resp_opcode = GET_HISTORY_CHUNK_COMPACT,
      resp_request_id = 1, resp_status = SUCCESS,
      resp_payload = chunk_payload True 2 4294967295 sample_records\<rparr>
    = Inr \<lparr>chunk_sensor_id = 2, chunk_start_sequence = 4294967295,
           chunk_records =
             [\<lparr>rec_sequence = 4294967295, rec_temperature_c = Some (43 / 2), rec_data_status = VALID\<rparr>,
              \<lparr>rec_sequence = 0, rec_temperature_c = None, rec_data_status = DISCONNECTED_DS\<rparr>]\<rparr>"
proof -
  have "\<forall>i < length sample_records. fr_sequence (sample_records ! i) = 4294967295 + of_nat i"
    by (auto simp: sample_records_def less_Suc_eq)
  from firmware_chunk_roundtrip [where is_compact = True and sid = 2 and start = 4294967295
      and recs = sample_records and r = "\<lparr>resp_version = 2, resp_opcode = GET_HISTORY_CHUNK_COMPACT,
      resp_request_id = 1, resp_status = SUCCESS,
      resp_payload = chunk_payload True 2 4294967295 sample_records\<rparr>", OF _ _ _ _ this]
  show ?thesis
    by (simp add: sample_records_def fw_record_value_def centi_def)
qed

end
