(* ===== verification/Futures.thy ===== *)
theory Futures
  imports Errors
begin

section \<open>Futures and the queues of requests that own them\<close>

text \<open>
  The scheduler (\<open>ble_scheduler.py\<close>) and the persistence worker (\<open>persistence_worker.py\<close>) share
  one scheme: a request carries an \<open>asyncio.Future\<close>, sits in a queue, is taken by a single
  worker, and its future is settled once, by the worker or by the loop that empties the queue
  when the service stops. A future is a number; the store maps it to its state. The locale
  \<open>request_queue\<close> is the contract of the queue, and its lemmas show that no future is forgotten.
\<close>

datatype 'v fut = Pending | Result 'v | Error exc | Cancelled

type_synonym 'v store = "nat \<rightharpoonup> 'v fut"

text \<open>\<open>if not future.done(): future.set_...\<close>\<close>

definition settle :: "nat \<Rightarrow> 'v fut \<Rightarrow> 'v store \<Rightarrow> 'v store" where
  "settle f out st = (if st f = Some Pending then st(f \<mapsto> out) else st)"

definition fut_done :: "'v store \<Rightarrow> nat \<Rightarrow> bool" where
  "fut_done st f \<longleftrightarrow> (\<exists>out. st f = Some out \<and> out \<noteq> Pending)"

text \<open>Every pending future belongs to one of the given owners.\<close>

definition owned :: "'v store \<Rightarrow> nat set \<Rightarrow> bool" where
  "owned st S \<longleftrightarrow> (\<forall>f. st f = Some Pending \<longrightarrow> f \<in> S)"

lemma settle_other [simp]: "g \<noteq> f \<Longrightarrow> settle f out st g = st g"
  by (simp add: settle_def)

lemma settle_done: "fut_done st g \<Longrightarrow> settle f out st g = st g"
  by (auto simp: settle_def fut_done_def)

lemma settle_keeps_done: "fut_done st g \<Longrightarrow> fut_done (settle f out st) g"
  using settle_done [of st g f out] by (simp add: fut_done_def)

lemma settle_settles: "out \<noteq> Pending \<Longrightarrow> settle f out st f \<noteq> Some Pending"
  by (simp add: settle_def)

lemma dom_settle [simp]: "dom (settle f out st) = dom st"
  by (auto simp: settle_def)

lemma owned_mono: "owned st S \<Longrightarrow> S \<subseteq> T \<Longrightarrow> owned st T"
  by (auto simp: owned_def)

lemma owned_settle: "out \<noteq> Pending \<Longrightarrow> owned st (insert f S) \<Longrightarrow> owned (settle f out st) S"
  by (auto simp: owned_def settle_def)

lemma owned_settle_same: "out \<noteq> Pending \<Longrightarrow> owned st S \<Longrightarrow> owned (settle f out st) S"
  by (auto simp: owned_def settle_def)

lemma owned_new: "owned st S \<Longrightarrow> owned (st(f \<mapsto> Pending)) (insert f S)"
  by (auto simp: owned_def)

lemma owned_new_done: "owned st S \<Longrightarrow> out \<noteq> Pending \<Longrightarrow> owned (st(f \<mapsto> out)) S"
  by (auto simp: owned_def)

lemma owned_empty: "owned st {} \<Longrightarrow> f \<in> dom st \<Longrightarrow> fut_done st f"
  by (auto simp: owned_def fut_done_def)

text \<open>
  The contract of a queue of requests: \<open>items\<close> is its content, \<open>pop\<close> takes one request out, and
  \<open>drain\<close> settles the future of every queued request with a given outcome.
\<close>

locale request_queue =
  fixes put :: "'r \<Rightarrow> 'q \<Rightarrow> 'q"
    and pop :: "'q \<Rightarrow> ('r \<times> 'q) option"
    and items :: "'q \<Rightarrow> 'r multiset"
    and fut_of :: "'r \<Rightarrow> nat"
    and drain :: "'v fut \<Rightarrow> 'q \<Rightarrow> 'v store \<Rightarrow> 'v store"
  assumes items_put: "items (put r q) = add_mset r (items q)"
    and pop_None: "pop q = None \<longleftrightarrow> items q = {#}"
    and pop_Some: "pop q = Some (r, q') \<Longrightarrow> items q = add_mset r (items q')"
    and drain_pop: "drain out q st =
      (case pop q of None \<Rightarrow> st | Some (r, q') \<Rightarrow> drain out q' (settle (fut_of r) out st))"
begin

lemma owned_put:
  assumes "owned st (fut_of ` set_mset (items q) \<union> C)"
  shows "owned (st(fut_of r \<mapsto> Pending)) (fut_of ` set_mset (items (put r q)) \<union> C)"
  using owned_new [OF assms, of "fut_of r"] by (simp add: items_put)

lemma owned_pop:
  assumes "pop q = Some (r, q')" "owned st (fut_of ` set_mset (items q) \<union> C)"
  shows "owned st (fut_of ` set_mset (items q') \<union> insert (fut_of r) C)"
  using assms(2) pop_Some [OF assms(1)] by (simp add: owned_mono)

text \<open>Emptying the queue settles everything it owned and touches no settled future.\<close>

lemma drain_keeps_done: "fut_done st g \<Longrightarrow> drain out q st g = st g"
proof (induction "size (items q)" arbitrary: q st rule: less_induct)
  case less
  show ?case
  proof (cases "pop q")
    case None
    then show ?thesis by (subst drain_pop) simp
  next
    case (Some rq)
    obtain r q' where rq: "rq = (r, q')" by (cases rq)
    then have "size (items q') < size (items q)"
      using Some pop_Some by simp
    from less.hyps [OF this settle_keeps_done [OF less.prems]]
    show ?thesis
      using Some rq settle_done [OF less.prems] by (subst drain_pop) simp
  qed
qed

lemma dom_drain: "dom (drain out q st) = dom st"
proof (induction "size (items q)" arbitrary: q st rule: less_induct)
  case less
  show ?case
  proof (cases "pop q")
    case None
    then show ?thesis by (subst drain_pop) simp
  next
    case (Some rq)
    obtain r q' where rq: "rq = (r, q')" by (cases rq)
    then have "size (items q') < size (items q)"
      using Some pop_Some by simp
    from less.hyps [OF this] show ?thesis using Some rq by (subst drain_pop) simp
  qed
qed

lemma owned_drain:
  "out \<noteq> Pending \<Longrightarrow> owned st (fut_of ` set_mset (items q) \<union> C) \<Longrightarrow> owned (drain out q st) C"
proof (induction "size (items q)" arbitrary: q st rule: less_induct)
  case less
  show ?case
  proof (cases "pop q")
    case None
    then have "items q = {#}" by (simp add: pop_None)
    then show ?thesis using less.prems None by (subst drain_pop) simp
  next
    case (Some rq)
    obtain r q' where rq: "rq = (r, q')" by (cases rq)
    have items: "items q = add_mset r (items q')" using Some rq pop_Some by blast
    then have "owned (settle (fut_of r) out st) (fut_of ` set_mset (items q') \<union> C)"
      using less.prems by (intro owned_settle) simp_all
    with less.hyps [of q'] items less.prems(1)
    have "owned (drain out q' (settle (fut_of r) out st)) C" by simp
    then show ?thesis using Some rq by (subst drain_pop) simp
  qed
qed

lemma drain_settles_all:
  assumes "out \<noteq> Pending" "owned st (fut_of ` set_mset (items q))" "f \<in> dom st"
  shows "fut_done (drain out q st) f"
proof -
  have "owned (drain out q st) {}" using owned_drain [of out st q "{}"] assms(1,2) by simp
  then show ?thesis using assms(3) by (simp add: owned_empty dom_drain)
qed

end

end
