(* ===== verification/Scheduler.thy ===== *)
theory Scheduler
  imports Futures
begin

section \<open>The BLE request scheduler\<close>

text \<open>
  \<open>backend/pc_client/ble_scheduler.py\<close>: requests enter a priority queue ordered by
  \<open>(priority, sequence)\<close>, and one worker runs them one at a time. The state holds the queue
  (kept sorted, as \<open>asyncio.PriorityQueue\<close> returns the smallest entry), the sequence counter, the
  future of every submitted request, the request whose action is awaited, and whether the worker
  task runs. The code between two awaits is one operation: \<open>submit\<close>, the worker taking a
  request, the worker handling the outcome of its action, \<open>start\<close>, \<open>stop\<close>, and a waiter giving
  up its future. An action is a value of any type; its outcome is an input.
\<close>

datatype request_priority = PRIO_DISPLAY | PRIO_CURRENT | PRIO_HISTORY

fun priority_value :: "request_priority \<Rightarrow> int" where
  "priority_value PRIO_DISPLAY = 0"
| "priority_value PRIO_CURRENT = 10"
| "priority_value PRIO_HISTORY = 20"

record 'a scheduled_request =
  sr_priority :: int
  sr_sequence :: nat
  sr_name :: string
  sr_action :: 'a
  sr_future :: nat

text \<open>The order of the data class: by priority, then by sequence; the rest is not compared.\<close>

definition request_less :: "'a scheduled_request \<Rightarrow> 'a scheduled_request \<Rightarrow> bool" where
  "request_less r s \<longleftrightarrow>
     sr_priority r < sr_priority s \<or> sr_priority r = sr_priority s \<and> sr_sequence r < sr_sequence s"

fun queue_put :: "'a scheduled_request \<Rightarrow> 'a scheduled_request list \<Rightarrow> 'a scheduled_request list" where
  "queue_put r [] = [r]"
| "queue_put r (s # q) = (if request_less r s then r # s # q else s # queue_put r q)"

fun queue_pop :: "'a list \<Rightarrow> ('a \<times> 'a list) option" where
  "queue_pop [] = None"
| "queue_pop (r # q) = Some (r, q)"

record ('a, 'v) scheduler =
  sc_queue :: "'a scheduled_request list"
  sc_sequence :: nat
  sc_futures :: "'v store"
  sc_next_future :: nat
  sc_current :: "'a scheduled_request option"
  sc_running :: bool

definition new_scheduler :: "('a, 'v) scheduler" where
  "new_scheduler = \<lparr>sc_queue = [], sc_sequence = 0, sc_futures = Map.empty, sc_next_future = 0,
     sc_current = None, sc_running = False\<rparr>"

definition not_connected :: exc where
  "not_connected = Exc RuntimeErrorC ''thermometer is not connected'' None [] None"

definition sched_start :: "('a, 'v) scheduler \<Rightarrow> ('a, 'v) scheduler" where
  "sched_start s = (if \<not> sc_running s then s\<lparr>sc_running := True\<rparr> else s)"

text \<open>\<open>submit\<close> up to its await: the new future, or \<open>RuntimeError\<close> when the link is not ready.\<close>

definition sched_submit ::
    "bool \<Rightarrow> request_priority \<Rightarrow> string \<Rightarrow> 'a \<Rightarrow> ('a, 'v) scheduler \<Rightarrow> (nat \<times> ('a, 'v) scheduler) res" where
  "sched_submit ready priority name action s =
     (if \<not> ready then Inl not_connected
      else
        let future = sc_next_future s;
            request = \<lparr>sr_priority = priority_value priority, sr_sequence = sc_sequence s,
                       sr_name = name, sr_action = action, sr_future = future\<rparr>
        in Inr (future, s\<lparr>sc_queue := queue_put request (sc_queue s),
                         sc_sequence := sc_sequence s + 1,
                         sc_futures := (sc_futures s)(future \<mapsto> Pending),
                         sc_next_future := future + 1\<rparr>))"

text \<open>
  One turn of \<open>_run\<close> up to the await of the action: a request whose future was cancelled is
  skipped, a request taken while the link is not ready fails, otherwise its action is started.
\<close>

definition sched_take :: "bool \<Rightarrow> ('a, 'v) scheduler \<Rightarrow> ('a, 'v) scheduler" where
  "sched_take ready s =
     (if \<not> sc_running s \<or> sc_current s \<noteq> None then s
      else case queue_pop (sc_queue s) of
        None \<Rightarrow> s
      | Some (request, q) \<Rightarrow>
          if sc_futures s (sr_future request) = Some Cancelled then s\<lparr>sc_queue := q\<rparr>
          else if \<not> ready then
            s\<lparr>sc_queue := q, sc_futures := settle (sr_future request) (Error not_connected) (sc_futures s)\<rparr>
          else s\<lparr>sc_queue := q, sc_current := Some request\<rparr>)"

text \<open>
  The rest of the turn, once the awaited action has ended with a result, an exception or a
  cancellation, which also ends the worker.
\<close>

definition sched_complete :: "'v res \<Rightarrow> ('a, 'v) scheduler \<Rightarrow> ('a, 'v) scheduler" where
  "sched_complete outcome s =
     (case sc_current s of
        None \<Rightarrow> s
      | Some request \<Rightarrow>
          let f = sr_future request; idle = s\<lparr>sc_current := None\<rparr> in
          case outcome of
            Inr v \<Rightarrow> idle\<lparr>sc_futures := settle f (Result v) (sc_futures s)\<rparr>
          | Inl e \<Rightarrow>
              if is_exception e then idle\<lparr>sc_futures := settle f (Error e) (sc_futures s)\<rparr>
              else idle\<lparr>sc_futures := settle f Cancelled (sc_futures s), sc_running := False\<rparr>)"

text \<open>\<open>fail_pending\<close>: the loop over \<open>get_nowait\<close>.\<close>

fun fail_requests :: "'v fut \<Rightarrow> 'a scheduled_request list \<Rightarrow> 'v store \<Rightarrow> 'v store" where
  "fail_requests out [] st = st"
| "fail_requests out (r # q) st = fail_requests out q (settle (sr_future r) out st)"

definition sched_fail_pending :: "exc \<Rightarrow> ('a, 'v) scheduler \<Rightarrow> ('a, 'v) scheduler" where
  "sched_fail_pending e s =
     s\<lparr>sc_queue := [], sc_futures := fail_requests (Error e) (sc_queue s) (sc_futures s)\<rparr>"

text \<open>\<open>stop\<close>: the worker is cancelled (inside its action, if one runs) and awaited.\<close>

definition sched_stop :: "exc \<Rightarrow> ('a, 'v) scheduler \<Rightarrow> ('a, 'v) scheduler" where
  "sched_stop e s =
     sched_fail_pending e
       ((sched_complete (raise CancelledErrorC '''') s)\<lparr>sc_running := False\<rparr>)"

text \<open>A waiter whose \<open>wait_for\<close> timed out, or that was cancelled, cancels its future.\<close>

definition sched_abandon :: "nat \<Rightarrow> ('a, 'v) scheduler \<Rightarrow> ('a, 'v) scheduler" where
  "sched_abandon f s = s\<lparr>sc_futures := settle f Cancelled (sc_futures s)\<rparr>"

subsection \<open>The queue as a request queue\<close>

lemma mset_queue_put [simp]: "mset (queue_put r q) = add_mset r (mset q)"
  by (induction q) auto

lemma set_queue_put [simp]: "set (queue_put r q) = insert r (set q)"
  by (metis mset_queue_put set_mset_add_mset_insert set_mset_mset)

interpretation sched_queue:
  request_queue queue_put queue_pop "mset :: 'a scheduled_request list \<Rightarrow> _" sr_future
    "fail_requests :: 'v fut \<Rightarrow> 'a scheduled_request list \<Rightarrow> 'v store \<Rightarrow> 'v store"
proof unfold_locales
  fix q :: "'a scheduled_request list" and r q'
  show "(queue_pop q = None) = (mset q = {#})" by (cases q) simp_all
  show "queue_pop q = Some (r, q') \<Longrightarrow> mset q = add_mset r (mset q')" by (cases q) simp_all
  show "fail_requests out q st =
      (case queue_pop q of None \<Rightarrow> st | Some (r, q') \<Rightarrow> fail_requests out q' (settle (sr_future r) out st))"
    for out and st :: "'v store" by (cases q) simp_all
qed simp

lemma request_less_trans: "request_less r s \<Longrightarrow> request_less s t \<Longrightarrow> request_less r t"
  by (auto simp: request_less_def)

lemma request_less_linear:
  "sr_sequence r \<noteq> sr_sequence s \<Longrightarrow> \<not> request_less r s \<Longrightarrow> request_less s r"
  by (auto simp: request_less_def)

lemma sorted_queue_put:
  "sorted_wrt request_less q \<Longrightarrow> (\<forall>s \<in> set q. sr_sequence s \<noteq> sr_sequence r) \<Longrightarrow>
     sorted_wrt request_less (queue_put r q)"
  by (induction q) (auto intro: request_less_trans request_less_linear)

subsection \<open>Runs\<close>

datatype ('a, 'v) sched_event =
  Submit bool request_priority string 'a | Take bool | Complete "'v res" | Abandon nat
| Start | Stop exc

definition sched_exec :: "('a, 'v) sched_event \<Rightarrow> ('a, 'v) scheduler \<Rightarrow> ('a, 'v) scheduler" where
  "sched_exec ev s = (case ev of
     Submit ready p n a \<Rightarrow> (case sched_submit ready p n a s of Inl e \<Rightarrow> s | Inr (f, s') \<Rightarrow> s')
   | Take ready \<Rightarrow> sched_take ready s
   | Complete outcome \<Rightarrow> sched_complete outcome s
   | Abandon f \<Rightarrow> sched_abandon f s
   | Start \<Rightarrow> sched_start s
   | Stop e \<Rightarrow> sched_stop e s)"

definition sched_run :: "('a, 'v) sched_event list \<Rightarrow> ('a, 'v) scheduler \<Rightarrow> ('a, 'v) scheduler" where
  "sched_run evs s = fold sched_exec evs s"

text \<open>
  The invariant: the queue is sorted, its sequence numbers and those of the request in flight are
  below the counter, futures are allocated below theirs, and every pending future is the one of a
  queued request or of the request in flight.
\<close>

definition sched_owners :: "('a, 'v) scheduler \<Rightarrow> nat set" where
  "sched_owners s = sr_future ` set (sc_queue s) \<union> sr_future ` set_option (sc_current s)"

definition sched_inv :: "('a, 'v) scheduler \<Rightarrow> bool" where
  "sched_inv s \<longleftrightarrow>
     sorted_wrt request_less (sc_queue s)
     \<and> (\<forall>r \<in> set (sc_queue s) \<union> set_option (sc_current s). sr_sequence r < sc_sequence s)
     \<and> dom (sc_futures s) = {..< sc_next_future s}
     \<and> owned (sc_futures s) (sched_owners s)"

lemma sched_inv_new: "sched_inv new_scheduler"
  by (simp add: sched_inv_def new_scheduler_def sched_owners_def owned_def)

lemma queue_pop_eq: "queue_pop q = Some (r, q') \<longleftrightarrow> q = r # q'"
  by (cases q) auto

lemma sched_inv_submit:
  assumes "sched_inv s" "sched_submit ready p n a s = Inr (f, s')"
  shows "sched_inv s'"
proof -
  let ?r = "\<lparr>sr_priority = priority_value p, sr_sequence = sc_sequence s, sr_name = n, sr_action = a,
    sr_future = sc_next_future s\<rparr>"
  have s': "s' = s\<lparr>sc_queue := queue_put ?r (sc_queue s), sc_sequence := sc_sequence s + 1,
      sc_futures := (sc_futures s)(sc_next_future s \<mapsto> Pending), sc_next_future := sc_next_future s + 1\<rparr>"
    using assms(2) by (auto simp: sched_submit_def Let_def split: if_splits)
  have sorted: "sorted_wrt request_less (queue_put ?r (sc_queue s))"
  proof (rule sorted_queue_put)
    show "\<forall>t \<in> set (sc_queue s). sr_sequence t \<noteq> sr_sequence ?r"
    proof
      fix t assume "t \<in> set (sc_queue s)"
      then have "sr_sequence t < sc_sequence s" using assms(1) by (simp add: sched_inv_def)
      then show "sr_sequence t \<noteq> sr_sequence ?r" by simp
    qed
  qed (use assms(1) in \<open>simp add: sched_inv_def\<close>)
  have own: "owned ((sc_futures s)(sc_next_future s \<mapsto> Pending)) (sched_owners s')"
    using sched_queue.owned_put [of "sc_futures s" "sc_queue s" "sr_future ` set_option (sc_current s)" ?r] assms(1)
    by (simp add: s' sched_inv_def sched_owners_def)
  show ?thesis
    using assms(1) sorted own by (auto simp: sched_inv_def s' less_Suc_eq lessThan_Suc)
qed

lemma sched_inv_settle:
  assumes "sched_inv s" "out \<noteq> Pending"
  shows "sched_inv (s\<lparr>sc_futures := settle f out (sc_futures s)\<rparr>)"
  using assms by (auto simp: sched_inv_def sched_owners_def owned_settle_same)

lemma sched_inv_take: "sched_inv s \<Longrightarrow> sched_inv (sched_take ready s)"
proof (cases "\<not> sc_running s \<or> sc_current s \<noteq> None \<or> sc_queue s = []")
  case True
  then show "sched_inv s \<Longrightarrow> sched_inv (sched_take ready s)"
    by (auto simp: sched_take_def)
next
  case False
  assume inv: "sched_inv s"
  from False obtain r q where q: "sc_queue s = r # q" and c: "sc_current s = None" "sc_running s"
    by (cases "sc_queue s") auto
  have own: "owned (sc_futures s) (insert (sr_future r) (sr_future ` set q))"
    using inv q c by (simp add: sched_inv_def sched_owners_def)
  have base: "sorted_wrt request_less q" "\<forall>t \<in> insert r (set q). sr_sequence t < sc_sequence s"
    "dom (sc_futures s) = {..< sc_next_future s}"
    using inv q by (auto simp: sched_inv_def)
  have skip: "owned (sc_futures s) (sr_future ` set q)" if "sc_futures s (sr_future r) = Some Cancelled"
    using own that by (auto simp: owned_def)
  show ?thesis
    using base own skip q c
    by (auto simp: sched_take_def sched_inv_def sched_owners_def owned_settle)
qed

lemma sched_inv_complete:
  assumes "sched_inv s" shows "sched_inv (sched_complete outcome s)"
proof (cases "sc_current s")
  case None
  then show ?thesis using assms by (simp add: sched_complete_def)
next
  case (Some r)
  have own: "owned (settle (sr_future r) out (sc_futures s)) (sr_future ` set (sc_queue s))"
    if "out \<noteq> Pending" for out
    using assms Some that by (intro owned_settle) (simp_all add: sched_inv_def sched_owners_def)
  show ?thesis
    using assms Some own
    by (auto simp: sched_complete_def sched_inv_def sched_owners_def Let_def split: sum.splits)
qed

lemma sched_complete_current [simp]: "sc_current (sched_complete outcome s) = None"
  by (auto simp: sched_complete_def Let_def split: option.splits sum.splits)

lemma sched_inv_stop:
  assumes "sched_inv s"
  shows "sched_inv (sched_stop e s)" "owned (sc_futures (sched_stop e s)) {}"
    "sc_queue (sched_stop e s) = []" "sc_current (sched_stop e s) = None"
    "\<not> sc_running (sched_stop e s)"
proof -
  let ?c = "sched_complete (raise CancelledErrorC []) s"
  have c: "sched_inv ?c" using assms by (rule sched_inv_complete)
  have "owned (sc_futures ?c) (sr_future ` set (sc_queue ?c))"
    using c by (simp add: sched_inv_def sched_owners_def)
  then show own: "owned (sc_futures (sched_stop e s)) {}"
    using sched_queue.owned_drain [of "Error e" "sc_futures ?c" "sc_queue ?c" "{}"]
    by (simp add: sched_stop_def sched_fail_pending_def)
  show "sc_queue (sched_stop e s) = []" "sc_current (sched_stop e s) = None" "\<not> sc_running (sched_stop e s)"
    by (simp_all add: sched_stop_def sched_fail_pending_def)
  show "sched_inv (sched_stop e s)"
    using c own by (simp add: sched_stop_def sched_fail_pending_def sched_inv_def sched_owners_def
        sched_queue.dom_drain)
qed

lemma sched_inv_running: "sched_inv (s\<lparr>sc_running := b\<rparr>) = sched_inv s"
  by (simp add: sched_inv_def sched_owners_def)

lemma sched_inv_exec: "sched_inv s \<Longrightarrow> sched_inv (sched_exec ev s)"
  by (cases ev)
    (auto simp: sched_exec_def sched_inv_take sched_inv_complete sched_inv_stop sched_abandon_def
                sched_inv_settle sched_start_def sched_inv_running split: sum.splits
          dest: sched_inv_submit)

lemma sched_run_inv: "sched_inv s \<Longrightarrow> sched_inv (sched_run evs s)"
  by (induction evs arbitrary: s) (simp_all add: sched_run_def sched_inv_exec)

text \<open>
  After any sequence of submissions, worker turns, outcomes, abandoned waiters, starts and
  stops, a future that is still pending belongs to a request that is queued or in flight: no
  caller waits for a request the scheduler has lost.
\<close>

theorem scheduler_forgets_no_request:
  assumes "sc_futures (sched_run evs new_scheduler) f = Some Pending"
  shows "\<exists>r. sr_future r = f \<and>
    (r \<in> set (sc_queue (sched_run evs new_scheduler)) \<or> sc_current (sched_run evs new_scheduler) = Some r)"
  using sched_run_inv [OF sched_inv_new, of evs] assms
  by (auto simp: sched_inv_def owned_def sched_owners_def)

text \<open>
  After a stop every future ever handed out is settled, the queue is empty, nothing is in
  flight and the worker is gone, whatever happened before.
\<close>

theorem scheduler_stop_settles_all:
  "let s = sched_run (evs @ [Stop e]) new_scheduler
   in dom (sc_futures s) = {..< sc_next_future s} \<and> (\<forall>f. sc_futures s f \<noteq> Some Pending)
      \<and> sc_queue s = [] \<and> sc_current s = None \<and> \<not> sc_running s"
proof -
  have "sched_inv (sched_run evs new_scheduler)" by (rule sched_run_inv [OF sched_inv_new])
  from sched_inv_stop [OF this, of e] show ?thesis
    by (auto simp: sched_run_def sched_exec_def sched_inv_def owned_def)
qed

lemma settled_stays_exec: 
  assumes "sched_inv s" "fut_done (sc_futures s) f" shows "sc_futures (sched_exec ev s) f = sc_futures s f"
proof -
  have "f < sc_next_future s" using assms by (auto simp: sched_inv_def fut_done_def)
  then show ?thesis
    using assms(2)
    by (cases ev)
      (auto simp: sched_exec_def sched_submit_def sched_take_def sched_complete_def sched_abandon_def
          sched_start_def sched_stop_def sched_fail_pending_def Let_def settle_done settle_keeps_done
          sched_queue.drain_keeps_done split: option.splits sum.splits if_splits prod.splits)
qed

lemma settled_stays_run:
  "sched_inv s \<Longrightarrow> fut_done (sc_futures s) f \<Longrightarrow> sc_futures (sched_run evs s) f = sc_futures s f"
proof (induction evs arbitrary: s)
  case (Cons ev evs)
  have e: "sc_futures (sched_exec ev s) f = sc_futures s f"
    using Cons.prems by (rule settled_stays_exec)
  have "fut_done (sc_futures (sched_exec ev s)) f" using e Cons.prems(2) by (simp add: fut_done_def)
  then show ?case
    using Cons.IH [OF sched_inv_exec [OF Cons.prems(1)]] e by (simp add: sched_run_def)
qed (simp add: sched_run_def)

text \<open>
  A settled future keeps its outcome whatever happens later: a late result, a stop or an
  abandoned waiter never overwrites it.
\<close>

theorem scheduler_outcome_final:
  assumes "sc_futures (sched_run evs new_scheduler) f = Some out" "out \<noteq> Pending"
  shows "sc_futures (sched_run (evs @ evs') new_scheduler) f = Some out"
proof -
  have "fut_done (sc_futures (sched_run evs new_scheduler)) f"
    using assms by (simp add: fut_done_def)
  from settled_stays_run [OF sched_run_inv [OF sched_inv_new] this, of evs'] assms(1)
  show ?thesis by (simp add: sched_run_def)
qed

text \<open>
  C15: the request the worker takes next comes before every request left in the queue: a display
  command before a scheduled sample before a history transfer, and within a priority in the
  order of submission.
\<close>

theorem scheduler_order:
  assumes "s = sched_run evs new_scheduler"
    and "sc_current s = None" "sc_current (sched_take ready s) = Some r"
    and "r' \<in> set (sc_queue (sched_take ready s))"
  shows "sr_priority r < sr_priority r'
    \<or> sr_priority r = sr_priority r' \<and> sr_sequence r < sr_sequence r'"
proof -
  have "sched_inv s" using assms(1) sched_run_inv [OF sched_inv_new] by simp
  moreover have "sc_queue s = r # sc_queue (sched_take ready s)"
    using assms(2,3) by (auto simp: sched_take_def queue_pop_eq split: if_splits option.splits)
  ultimately show ?thesis using assms(4) by (auto simp: sched_inv_def request_less_def)
qed

subsection \<open>Witnesses\<close>

lemmas sched_eval = sched_run_def sched_exec_def sched_submit_def sched_take_def sched_complete_def
  sched_start_def sched_stop_def sched_fail_pending_def new_scheduler_def request_less_def settle_def

theorem scheduler_forgets_no_request_witness:
  "\<exists>r. sr_future r = 0 \<and>
    (r \<in> set (sc_queue (sched_run [Start, Submit True PRIO_HISTORY ''chunk'' ()]
        (new_scheduler :: (unit, nat) scheduler)))
     \<or> sc_current (sched_run [Start, Submit True PRIO_HISTORY ''chunk'' ()]
        (new_scheduler :: (unit, nat) scheduler)) = Some r)"
  by (rule scheduler_forgets_no_request) (simp add: sched_eval)

theorem scheduler_outcome_final_witness:
  "sc_futures (sched_run ([Start, Submit True PRIO_CURRENT ''sample'' (), Take True, Complete (Inr 5)]
      @ [Stop not_connected]) (new_scheduler :: (unit, nat) scheduler)) 0 = Some (Result 5)"
  by (rule scheduler_outcome_final) (simp_all add: sched_eval)

definition two_requests :: "(unit, nat) scheduler" where
  "two_requests = sched_run [Start, Submit True PRIO_HISTORY ''chunk'' (),
     Submit True PRIO_DISPLAY ''set display 1'' ()] new_scheduler"

theorem scheduler_order_witness:
  "\<exists>r r'. sc_current (sched_take True two_requests) = Some r
     \<and> r' \<in> set (sc_queue (sched_take True two_requests))
     \<and> sr_name r = ''set display 1'' \<and> sr_priority r < sr_priority r'"
proof -
  have e: "sc_current two_requests = None" by (simp add: two_requests_def sched_eval)
  obtain r r' where r: "sc_current (sched_take True two_requests) = Some r"
    "r' \<in> set (sc_queue (sched_take True two_requests))" "sr_name r = ''set display 1''"
    "sr_priority r \<noteq> sr_priority r'"
    by (simp add: two_requests_def sched_eval)
  with scheduler_order [OF two_requests_def e r(1,2)] show ?thesis by blast
qed

end
