(* ===== verification/Service_State.thy ===== *)
theory Service_State
  imports Errors
begin

section \<open>Lifecycle states of the connection controller\<close>

text \<open>
  \<open>backend/pc_client/service_state.py\<close>: the phases, the credential states, the lifecycle events
  and the immutable \<open>ControllerState\<close>, with \<open>transition_state\<close>, the only way the controller
  changes it. Instants (\<open>datetime\<close> in UTC) are integers counting microseconds.
\<close>

type_synonym utc = int

datatype connection_phase =
  STOPPED | DISCOVERING | SELECTION_REQUIRED | AUTHENTICATION_REQUIRED | PAIRING | CONNECTING
| VERIFYING | CONNECTED | RECONNECTING | DISCONNECTING | DISCONNECTED

datatype credential_state = CRED_MISSING | CRED_AVAILABLE | CRED_VERIFIED | CRED_REJECTED

datatype lifecycle_event_type = EV_START | EV_INTENT_CHANGED | EV_DISCOVERY_RESULT | EV_LINK_LOST | EV_STOP

record 'v lifecycle_event =
  ev_kind :: lifecycle_event_type
  ev_generation :: int
  ev_reason :: string
  ev_value :: 'v

record 't controller_state =
  st_phase :: connection_phase
  st_desired_connected :: bool
  st_target :: "'t option"
  st_connected :: bool
  st_ready :: bool
  st_credential_state :: credential_state
  st_retry_count :: int
  st_next_retry_at :: "utc option"
  st_last_seen :: "utc option"
  st_last_error :: "string option"
  st_revision :: int
  st_changed_at :: utc
  st_reason :: string

text \<open>
  The keyword arguments of a transition: \<open>None\<close> keeps the field, \<open>Some v\<close> replaces it.
\<close>

record 't state_changes =
  ch_desired_connected :: "bool option"
  ch_target :: "'t option option"
  ch_connected :: "bool option"
  ch_ready :: "bool option"
  ch_credential_state :: "credential_state option"
  ch_retry_count :: "int option"
  ch_next_retry_at :: "utc option option"
  ch_last_seen :: "utc option option"
  ch_last_error :: "string option option"

definition no_changes :: "'t state_changes" where
  "no_changes = \<lparr>ch_desired_connected = None, ch_target = None, ch_connected = None,
     ch_ready = None, ch_credential_state = None, ch_retry_count = None, ch_next_retry_at = None,
     ch_last_seen = None, ch_last_error = None\<rparr>"

definition keep :: "'a \<Rightarrow> 'a option \<Rightarrow> 'a" where
  "keep old new = (case new of None \<Rightarrow> old | Some v \<Rightarrow> v)"

lemma keep_simps [simp]: "keep old None = old" "keep old (Some v) = v"
  by (simp_all add: keep_def)

definition replaced_state ::
    "'t controller_state \<Rightarrow> utc \<Rightarrow> connection_phase option \<Rightarrow> string \<Rightarrow> 't state_changes
     \<Rightarrow> 't controller_state" where
  "replaced_state previous now phase reason changes =
    \<lparr>st_phase = keep (st_phase previous) phase,
     st_desired_connected = keep (st_desired_connected previous) (ch_desired_connected changes),
     st_target = keep (st_target previous) (ch_target changes),
     st_connected = keep (st_connected previous) (ch_connected changes),
     st_ready = keep (st_ready previous) (ch_ready changes),
     st_credential_state = keep (st_credential_state previous) (ch_credential_state changes),
     st_retry_count = keep (st_retry_count previous) (ch_retry_count changes),
     st_next_retry_at = keep (st_next_retry_at previous) (ch_next_retry_at changes),
     st_last_seen = keep (st_last_seen previous) (ch_last_seen changes),
     st_last_error = keep (st_last_error previous) (ch_last_error changes),
     st_revision = st_revision previous + 1,
     st_changed_at = now,
     st_reason = reason\<rparr>"

definition transition_state ::
    "'t controller_state \<Rightarrow> utc \<Rightarrow> connection_phase option \<Rightarrow> string \<Rightarrow> 't state_changes
     \<Rightarrow> 't controller_state res" where
  "transition_state previous now phase reason changes =
    (let state = replaced_state previous now phase reason changes in
     if st_ready state \<and> \<not> st_connected state then
       value_error ''a ready BLE service must have a connected transport''
     else if st_phase state = CONNECTED \<and> \<not> (st_connected state \<and> st_ready state) then
       value_error ''CONNECTED requires a verified, ready transport''
     else if st_phase state = STOPPED \<and> st_desired_connected state then
       value_error ''a stopped service cannot request a connection''
     else Inr state)"

text \<open>The consistency of a published state.\<close>

definition state_ok :: "'t controller_state \<Rightarrow> bool" where
  "state_ok s \<longleftrightarrow>
     (st_ready s \<longrightarrow> st_connected s)
     \<and> (st_phase s = CONNECTED \<longrightarrow> st_connected s \<and> st_ready s)
     \<and> (st_phase s = STOPPED \<longrightarrow> \<not> st_desired_connected s)"

lemma replaced_state_sel [simp]:
  "st_phase (replaced_state p now ph r ch) = keep (st_phase p) ph"
  "st_desired_connected (replaced_state p now ph r ch)
     = keep (st_desired_connected p) (ch_desired_connected ch)"
  "st_connected (replaced_state p now ph r ch) = keep (st_connected p) (ch_connected ch)"
  "st_ready (replaced_state p now ph r ch) = keep (st_ready p) (ch_ready ch)"
  "st_target (replaced_state p now ph r ch) = keep (st_target p) (ch_target ch)"
  "st_revision (replaced_state p now ph r ch) = st_revision p + 1"
  by (simp_all add: replaced_state_def)

text \<open>
  A transition produces exactly the replaced state, and only when that state is consistent:
  a ready service is connected, the phase CONNECTED means connected and ready, and a stopped
  service wants no connection. Otherwise it raises a \<open>ValueError\<close> and no state is published.
\<close>

theorem transition_state_exact:
  "transition_state p now phase reason changes = Inr s \<longleftrightarrow>
     s = replaced_state p now phase reason changes \<and> state_ok s"
  by (auto simp: transition_state_def state_ok_def Let_def split: if_splits)

lemma transition_state_fails:
  "(\<exists>m. transition_state p now phase reason changes = value_error m)
     \<longleftrightarrow> \<not> state_ok (replaced_state p now phase reason changes)"
  by (auto simp: transition_state_def state_ok_def Let_def split: if_splits)

end
