(* ===== verification/Database_Adapter.thy ===== *)
theory Database_Adapter
  imports Service_State
begin

section \<open>The persistence boundary\<close>

text \<open>
  \<open>backend/pc_client/database_adapter.py\<close>: the records handed to a database adapter, the no-op
  adapter, and the loading of a configured adapter. The Python import machinery is the parameter
  \<open>import_module\<close> of \<open>load_database_adapter\<close>.
\<close>

record device_identity =
  dev_address :: string
  dev_name :: string

record sensor_reading =
  sr_sensor_id :: int
  sr_temperature_c :: "rat option"
  sr_status :: string
  sr_display_enabled :: "bool option"

record sample_record =
  sa_device :: "device_identity option"
  sa_observed_at :: utc
  sa_boot_id :: "int option"
  sa_sequence :: "int option"
  sa_readings :: "sensor_reading list"
  sa_average :: "rat option"
  sa_source :: string
  sa_provisional :: bool
  sa_failure_reason :: "string option"

record history_batch =
  hb_device :: device_identity
  hb_boot_id :: int
  hb_previous_boot_id :: "int option"
  hb_new_boot :: bool
  hb_samples :: "sample_record list"
  hb_expected_counts :: "int list"
  hb_retrieved_counts :: "int list"
  hb_complete :: bool
  hb_elapsed_seconds :: rat
  hb_failure_reason :: "string option"

record connection_state_record =
  cs_device :: "device_identity option"
  cs_observed_at :: utc
  cs_phase :: connection_phase
  cs_connected :: bool
  cs_last_seen :: "utc option"
  cs_error :: "string option"
  cs_ready :: bool
  cs_state_revision :: int
  cs_transition_reason :: string

record display_state_record =
  ds_device :: device_identity
  ds_observed_at :: utc
  ds_sensor_id :: int
  ds_requested_enabled :: bool
  ds_confirmed_enabled :: bool
  ds_visible_state :: string

record persistence_result =
  pr_configured :: bool
  pr_persisted :: bool
  pr_detail :: "string option"

text \<open>The writes an adapter offers, with their arguments.\<close>

datatype db_call =
  PublishCurrentSample sample_record
| PublishMissingInterval sample_record
| UpsertHistory history_batch
| ReconcileProvisional history_batch
| PublishConnectionState connection_state_record
| PublishDisplayResult display_state_record

fun method_name :: "db_call \<Rightarrow> string" where
  "method_name (PublishCurrentSample s) = ''publish_current_sample''"
| "method_name (PublishMissingInterval s) = ''publish_missing_interval''"
| "method_name (UpsertHistory b) = ''upsert_history''"
| "method_name (ReconcileProvisional b) = ''reconcile_provisional_intervals''"
| "method_name (PublishConnectionState s) = ''publish_connection_state''"
| "method_name (PublishDisplayResult r) = ''publish_display_result''"

subsection \<open>The no-op adapter\<close>

definition noop_discard :: persistence_result where
  "noop_discard = \<lparr>pr_configured = False, pr_persisted = False,
     pr_detail = Some ''database adapter is not configured''\<rparr>"

fun noop_call :: "db_call \<Rightarrow> persistence_result" where
  "noop_call (PublishCurrentSample s) = noop_discard"
| "noop_call (PublishMissingInterval s) = noop_discard"
| "noop_call (UpsertHistory b) = noop_discard"
| "noop_call (ReconcileProvisional b) = noop_discard"
| "noop_call (PublishConnectionState s) = noop_discard"
| "noop_call (PublishDisplayResult r) = noop_discard"

definition noop_last_boot_id :: "device_identity \<Rightarrow> int option" where
  "noop_last_boot_id d = None"

subsection \<open>Loading the configured adapter\<close>

text \<open>\<open>str.partition\<close> at the first occurrence of a character.\<close>

definition py_partition :: "char \<Rightarrow> string \<Rightarrow> string \<times> string \<times> string" where
  "py_partition c s =
     (let before = takeWhile (\<lambda>x. x \<noteq> c) s; rest = dropWhile (\<lambda>x. x \<noteq> c) s
      in case rest of [] \<Rightarrow> (s, [], []) | x # after \<Rightarrow> (before, [x], after))"

text \<open>
  What a factory returns: an awaitable, or an object with some callable attributes. A module maps
  an attribute name to a value, callable or not.
\<close>

datatype 'a made = Awaitable | Made "string set" 'a

datatype 'a module_attr = NotCallable | Callable "'a made res"

datatype 'a loaded_adapter = NoOpAdapter | ConfiguredAdapter 'a

definition required_methods :: "string list" where
  "required_methods = [''start'', ''close'', ''publish_current_sample'', ''publish_missing_interval'',
     ''upsert_history'', ''reconcile_provisional_intervals'', ''publish_connection_state'',
     ''publish_display_result'']"

definition load_database_adapter ::
    "(string \<Rightarrow> (string \<Rightarrow> 'a module_attr option) res) \<Rightarrow> string option \<Rightarrow> 'a loaded_adapter res" where
  "load_database_adapter import_module env_value =
    (let factory_path = py_strip (case env_value of None \<Rightarrow> [] | Some v \<Rightarrow> v) in
     if factory_path = [] then Inr NoOpAdapter
     else let (module_name, separator, factory_name) = py_partition (CHR '':'') factory_path in
       if separator = [] \<or> module_name = [] \<or> factory_name = [] then
         raise RuntimeErrorC
           ''THERMOMETER_DATABASE_ADAPTER_FACTORY must use the form module:factory''
       else rbind (import_module module_name) (\<lambda>module.
         case module factory_name of
           Some (Callable result) \<Rightarrow> rbind result (\<lambda>adapter.
             (case adapter of
                Awaitable \<Rightarrow> raise RuntimeErrorC ''the database adapter factory must be synchronous''
              | Made methods a \<Rightarrow>
                  if \<not> list_all (\<lambda>m. m \<in> methods) required_methods then
                    raise RuntimeErrorC (''database adapter returned by '' @ [CHR 0x27] @ factory_path
                      @ [CHR 0x27] @ '' does not implement ThermometerDatabaseAdapter'')
                  else Inr (ConfiguredAdapter a)))
         | _ \<Rightarrow> raise RuntimeErrorC (''database adapter factory '' @ [CHR 0x27] @ factory_path
                 @ [CHR 0x27] @ '' is not callable'')))"

lemma py_partition_split:
  assumes "py_partition c s = (m, sep, f)" "sep \<noteq> []"
  shows "s = m @ [c] @ f" "c \<notin> set m"
proof -
  obtain x xs where d: "dropWhile (\<lambda>x. x \<noteq> c) s = x # xs"
    using assms by (cases "dropWhile (\<lambda>x. x \<noteq> c) s") (auto simp: py_partition_def)
  then have x: "x = c" by (simp add: dropWhile_eq_Cons_conv)
  have "m = takeWhile (\<lambda>x. x \<noteq> c) s" "f = xs"
    using assms(1) d by (simp_all add: py_partition_def)
  moreover have "s = takeWhile (\<lambda>x. x \<noteq> c) s @ dropWhile (\<lambda>x. x \<noteq> c) s" by simp
  ultimately show "s = m @ [c] @ f" "c \<notin> set m"
    using d x by (auto dest: set_takeWhileD)
qed

lemma load_configured:
  assumes "load_database_adapter import_module env = Inr (ConfiguredAdapter a)"
  shows "\<exists>m f methods g. py_strip (the env) = m @ '':'' @ f \<and> import_module m = Inr g
    \<and> g f = Some (Callable (Inr (Made methods a))) \<and> set required_methods \<subseteq> methods"
proof -
  obtain v where v: "env = Some v"
    using assms by (cases env) (auto simp: load_database_adapter_def py_strip_def)
  obtain m s f where p: "py_partition (CHR '':'') (py_strip v) = (m, s, f)" by (metis prod_cases3)
  have s: "s \<noteq> []" "py_strip v \<noteq> []"
    using assms v p by (auto simp: load_database_adapter_def Let_def split: if_splits)
  obtain g where g: "import_module m = Inr g"
    using assms v p s by (cases "import_module m") (auto simp: load_database_adapter_def Let_def split: if_splits)
  show ?thesis
  proof (cases "g f")
    case (Some attr)
    then obtain r where r: "g f = Some (Callable r)"
      using assms v p s g by (cases attr) (auto simp: load_database_adapter_def Let_def split: if_splits)
    then obtain made where made: "r = Inr made"
      using assms v p s g by (cases r) (auto simp: load_database_adapter_def Let_def split: if_splits)
    then obtain methods where "made = Made methods a" "set required_methods \<subseteq> methods"
      using assms v p s g r by (cases made)
        (auto simp: load_database_adapter_def Let_def list_all_iff split: if_splits)
    then show ?thesis using v g r made py_partition_split [OF p s(1)] by auto
  qed (use assms v p s g in \<open>auto simp: load_database_adapter_def Let_def split: if_splits\<close>)
qed

end
