(* ===== verification/Persistence.thy ===== *)
theory Persistence
  imports Futures Database_Adapter
begin

section \<open>The persistence worker\<close>

text \<open>
  \<open>backend/pc_client/persistence_worker.py\<close>: database writes wait in a bounded FIFO queue and one
  worker hands them to the adapter in order. A full queue rejects the write at once and counts
  it. The operations are the code between two awaits: \<open>enqueue\<close>, the worker taking a request, the
  worker handling the outcome of the adapter call, \<open>start\<close>, and the end of \<open>stop\<close> after its
  bounded wait for the queue, during which the worker goes on with the other operations.
\<close>

record 'c persist_request =
  pq_call :: 'c
  pq_future :: nat

text \<open>\<open>self._task\<close>: absent, running, or done after a cancellation.\<close>

datatype worker_task = NoTask | TaskRunning | TaskDone

record 'c persist_worker =
  pw_queue :: "'c persist_request list"
  pw_capacity :: nat
  pw_overflow :: nat
  pw_futures :: "persistence_result store"
  pw_next_future :: nat
  pw_current :: "'c persist_request option"
  pw_task :: worker_task

record persist_health =
  ph_pending :: nat
  ph_capacity :: nat
  ph_overflow_count :: nat

definition new_worker :: "int \<Rightarrow> 'c persist_worker res" where
  "new_worker capacity =
     (if capacity \<le> 0 then value_error ''persistence queue capacity must be positive''
      else Inr \<lparr>pw_queue = [], pw_capacity = nat capacity, pw_overflow = 0, pw_futures = Map.empty,
                pw_next_future = 0, pw_current = None, pw_task = NoTask\<rparr>)"

definition worker_health :: "'c persist_worker \<Rightarrow> persist_health" where
  "worker_health w = \<lparr>ph_pending = length (pw_queue w), ph_capacity = pw_capacity w,
     ph_overflow_count = pw_overflow w\<rparr>"

definition not_persisted :: "bool \<Rightarrow> string \<Rightarrow> persistence_result fut" where
  "not_persisted configured detail =
     Result \<lparr>pr_configured = configured, pr_persisted = False, pr_detail = Some detail\<rparr>"

definition fifo_put :: "'a \<Rightarrow> 'a list \<Rightarrow> 'a list" where
  "fifo_put r q = q @ [r]"

fun fifo_pop :: "'a list \<Rightarrow> ('a \<times> 'a list) option" where
  "fifo_pop [] = None"
| "fifo_pop (r # q) = Some (r, q)"

definition worker_start :: "'c persist_worker \<Rightarrow> 'c persist_worker" where
  "worker_start w = (if pw_task w \<noteq> TaskRunning then w\<lparr>pw_task := TaskRunning\<rparr> else w)"

text \<open>\<open>enqueue\<close>: the future of the write, settled at once when the queue is full.\<close>

definition worker_enqueue :: "bool \<Rightarrow> 'c \<Rightarrow> 'c persist_worker \<Rightarrow> nat \<times> 'c persist_worker" where
  "worker_enqueue configured call w =
     (let future = pw_next_future w;
          request = \<lparr>pq_call = call, pq_future = future\<rparr>;
          w = w\<lparr>pw_next_future := future + 1, pw_futures := (pw_futures w)(future \<mapsto> Pending)\<rparr>
      in if pw_capacity w \<le> length (pw_queue w) then
           (future, w\<lparr>pw_overflow := pw_overflow w + 1,
                      pw_futures := settle future (not_persisted configured
                        ''persistence queue is full; this record was not queued'') (pw_futures w)\<rparr>)
         else (future, w\<lparr>pw_queue := fifo_put request (pw_queue w)\<rparr>))"

definition worker_take :: "'c persist_worker \<Rightarrow> 'c persist_worker" where
  "worker_take w =
     (if pw_task w \<noteq> TaskRunning \<or> pw_current w \<noteq> None then w
      else case fifo_pop (pw_queue w) of
        None \<Rightarrow> w
      | Some (request, q) \<Rightarrow> w\<lparr>pw_queue := q, pw_current := Some request\<rparr>)"

text \<open>
  The outcome of the adapter call: a result settles the future; an exception becomes a failed
  result, and the worker stays alive; a cancellation settles the future and ends the worker.
\<close>

definition worker_complete ::
    "bool \<Rightarrow> persistence_result res \<Rightarrow> 'c persist_worker \<Rightarrow> 'c persist_worker" where
  "worker_complete configured outcome w =
     (case pw_current w of
        None \<Rightarrow> w
      | Some request \<Rightarrow>
          let f = pq_future request; idle = w\<lparr>pw_current := None\<rparr> in
          case outcome of
            Inr v \<Rightarrow> idle\<lparr>pw_futures := settle f (Result v) (pw_futures w)\<rparr>
          | Inl e \<Rightarrow>
              if is_exception e then
                idle\<lparr>pw_futures := settle f (not_persisted configured
                  (''persistence adapter raised '' @ class_name (exc_class e) @ '': '' @ exc_text e))
                  (pw_futures w)\<rparr>
              else idle\<lparr>pw_futures := settle f (not_persisted configured ''persistence worker stopped'')
                     (pw_futures w), pw_task := TaskDone\<rparr>)"

fun fail_writes ::
    "persistence_result fut \<Rightarrow> 'c persist_request list \<Rightarrow> persistence_result store \<Rightarrow> persistence_result store" where
  "fail_writes out [] st = st"
| "fail_writes out (r # q) st = fail_writes out q (settle (pq_future r) out st)"

definition worker_fail_pending :: "bool \<Rightarrow> string \<Rightarrow> 'c persist_worker \<Rightarrow> 'c persist_worker" where
  "worker_fail_pending configured detail w =
     w\<lparr>pw_queue := [],
       pw_futures := fail_writes (not_persisted configured detail) (pw_queue w) (pw_futures w)\<rparr>"

text \<open>\<open>stop\<close> after its wait: without a task there is nothing to stop.\<close>

definition worker_stop :: "bool \<Rightarrow> 'c persist_worker \<Rightarrow> 'c persist_worker" where
  "worker_stop configured w =
     (if pw_task w = NoTask then w
      else worker_fail_pending configured ''service stopped before persistence completed''
        ((worker_complete configured (raise CancelledErrorC '''') w)\<lparr>pw_task := NoTask\<rparr>))"

text \<open>A caller of \<open>submit\<close> that is cancelled cancels the future it awaits.\<close>

definition worker_abandon :: "nat \<Rightarrow> 'c persist_worker \<Rightarrow> 'c persist_worker" where
  "worker_abandon f w = w\<lparr>pw_futures := settle f Cancelled (pw_futures w)\<rparr>"

interpretation persist_queue:
  request_queue fifo_put fifo_pop "mset :: 'c persist_request list \<Rightarrow> _" pq_future
    "fail_writes :: _ \<Rightarrow> 'c persist_request list \<Rightarrow> _"
proof unfold_locales
  fix q :: "'c persist_request list" and r q'
  show "(fifo_pop q = None) = (mset q = {#})" by (cases q) simp_all
  show "fifo_pop q = Some (r, q') \<Longrightarrow> mset q = add_mset r (mset q')" by (cases q) simp_all
  show "fail_writes out q st =
      (case fifo_pop q of None \<Rightarrow> st | Some (r, q') \<Rightarrow> fail_writes out q' (settle (pq_future r) out st))"
    for out st by (cases q) simp_all
qed (simp add: fifo_put_def)

subsection \<open>Runs\<close>

text \<open>
  Each event with the answer of \<open>configured()\<close> at that moment where the code asks for it.
\<close>

datatype 'c worker_event =
  Enqueue bool 'c | TakeWrite | CompleteWrite bool "persistence_result res" | StartWorker | StopWorker bool
| AbandonWrite nat

definition worker_exec :: "'c worker_event \<Rightarrow> 'c persist_worker \<Rightarrow> 'c persist_worker" where
  "worker_exec ev w = (case ev of
     Enqueue b c \<Rightarrow> snd (worker_enqueue b c w)
   | TakeWrite \<Rightarrow> worker_take w
   | CompleteWrite b outcome \<Rightarrow> worker_complete b outcome w
   | StartWorker \<Rightarrow> worker_start w
   | StopWorker b \<Rightarrow> worker_stop b w
   | AbandonWrite f \<Rightarrow> worker_abandon f w)"

definition worker_run :: "'c worker_event list \<Rightarrow> 'c persist_worker \<Rightarrow> 'c persist_worker" where
  "worker_run evs w = fold worker_exec evs w"

definition worker_owners :: "'c persist_worker \<Rightarrow> nat set" where
  "worker_owners w = pq_future ` set (pw_queue w) \<union> pq_future ` set_option (pw_current w)"

definition worker_inv :: "'c persist_worker \<Rightarrow> bool" where
  "worker_inv w \<longleftrightarrow>
     length (pw_queue w) \<le> pw_capacity w
     \<and> dom (pw_futures w) = {..< pw_next_future w}
     \<and> owned (pw_futures w) (worker_owners w)
     \<and> (\<forall>r \<in> set (pw_queue w) \<union> set_option (pw_current w). pq_future r < pw_next_future w)
     \<and> (pw_current w \<noteq> None \<longrightarrow> pw_task w = TaskRunning)"

lemma fifo_pop_eq: "fifo_pop q = Some (r, q') \<longleftrightarrow> q = r # q'"
  by (cases q) auto

lemma not_persisted_done [simp]: "not_persisted b d \<noteq> Pending"
  by (simp add: not_persisted_def)

lemma worker_inv_new: "new_worker capacity = Inr w \<Longrightarrow> worker_inv w"
  by (auto simp: new_worker_def worker_inv_def worker_owners_def owned_def split: if_splits)

lemma worker_inv_settle:
  "worker_inv w \<Longrightarrow> out \<noteq> Pending \<Longrightarrow> worker_inv (w\<lparr>pw_futures := settle f out (pw_futures w)\<rparr>)"
  by (auto simp: worker_inv_def worker_owners_def owned_settle_same)

lemma worker_inv_enqueue:
  assumes "worker_inv w" shows "worker_inv (snd (worker_enqueue b c w))"
proof -
  let ?f = "pw_next_future w"
  let ?r = "\<lparr>pq_call = c, pq_future = ?f\<rparr>"
  have own: "owned (pw_futures w) (pq_future ` set (pw_queue w) \<union> pq_future ` set_option (pw_current w))"
    using assms by (simp add: worker_inv_def worker_owners_def)
  have put: "owned ((pw_futures w)(?f \<mapsto> Pending))
      (pq_future ` set (fifo_put ?r (pw_queue w)) \<union> pq_future ` set_option (pw_current w))"
    using persist_queue.owned_put [of "pw_futures w" "pw_queue w" _ ?r] own by simp
  have full: "owned (settle ?f (not_persisted b d) ((pw_futures w)(?f \<mapsto> Pending)))
      (pq_future ` set (pw_queue w) \<union> pq_future ` set_option (pw_current w))" for d
    using own by (intro owned_settle owned_new) simp_all
  show ?thesis
    using assms put full
    by (auto simp: worker_enqueue_def worker_inv_def worker_owners_def Let_def fifo_put_def less_Suc_eq)
qed

lemma worker_inv_take:
  assumes "worker_inv w" shows "worker_inv (worker_take w)"
  using assms by (auto simp: worker_take_def worker_inv_def worker_owners_def fifo_pop_eq
      split: option.splits)

lemma worker_inv_complete:
  assumes "worker_inv w" shows "worker_inv (worker_complete b outcome w)"
proof (cases "pw_current w")
  case None
  then show ?thesis using assms by (simp add: worker_complete_def)
next
  case (Some r)
  have own: "owned (settle (pq_future r) out (pw_futures w)) (pq_future ` set (pw_queue w))"
    if "out \<noteq> Pending" for out
    using assms Some that by (intro owned_settle) (simp_all add: worker_inv_def worker_owners_def)
  show ?thesis
    using assms Some own
    by (auto simp: worker_complete_def worker_inv_def worker_owners_def Let_def split: sum.splits)
qed

lemma worker_complete_current [simp]: "pw_current (worker_complete b outcome w) = None"
  by (auto simp: worker_complete_def Let_def split: option.splits sum.splits)

lemma worker_stop_clears:
  assumes "worker_inv w" "pw_task w \<noteq> NoTask"
  shows "worker_inv (worker_stop b w)" "owned (pw_futures (worker_stop b w)) {}"
    "pw_queue (worker_stop b w) = []" "pw_current (worker_stop b w) = None"
proof -
  let ?c = "worker_complete b (raise CancelledErrorC []) w"
  have c: "worker_inv ?c" using assms(1) by (rule worker_inv_complete)
  then have "owned (pw_futures ?c) (pq_future ` set (pw_queue ?c))"
    by (simp add: worker_inv_def worker_owners_def)
  then show own: "owned (pw_futures (worker_stop b w)) {}"
    using assms(2) persist_queue.owned_drain [of "not_persisted b d" "pw_futures ?c" "pw_queue ?c" "{}" for d]
    by (simp add: worker_stop_def worker_fail_pending_def)
  show "pw_queue (worker_stop b w) = []" "pw_current (worker_stop b w) = None"
    using assms(2) by (simp_all add: worker_stop_def worker_fail_pending_def)
  show "worker_inv (worker_stop b w)"
    using assms(2) c own by (simp add: worker_stop_def worker_fail_pending_def worker_inv_def
        worker_owners_def persist_queue.dom_drain)
qed

lemma worker_inv_start: "worker_inv w \<Longrightarrow> worker_inv (worker_start w)"
  by (simp add: worker_start_def worker_inv_def worker_owners_def)

lemma worker_inv_exec: "worker_inv w \<Longrightarrow> worker_inv (worker_exec ev w)"
proof (cases ev)
  case (StopWorker b)
  then show "worker_inv w \<Longrightarrow> ?thesis"
    using worker_stop_clears(1) [of w b]
    by (cases "pw_task w = NoTask") (simp_all add: worker_exec_def worker_stop_def)
qed (auto simp: worker_exec_def worker_inv_enqueue worker_inv_take worker_inv_complete
      worker_inv_start worker_abandon_def worker_inv_settle)

lemma worker_run_inv: "worker_inv w \<Longrightarrow> worker_inv (worker_run evs w)"
  by (induction evs arbitrary: w) (simp_all add: worker_run_def worker_inv_exec)

subsection \<open>Properties\<close>

text \<open>
  C18: whatever is enqueued, taken, completed, abandoned, started and stopped, at most
  \<open>capacity\<close> writes wait, and every write whose caller is still waiting is in the queue or in the
  hands of the adapter.
\<close>

theorem persistence_bounded_and_complete:
  assumes "new_worker capacity = Inr w0" and "w = worker_run evs w0"
  shows "int (length (pw_queue w)) \<le> capacity
    \<and> (\<forall>f. pw_futures w f = Some Pending \<longrightarrow>
          (\<exists>r. pq_future r = f \<and> (r \<in> set (pw_queue w) \<or> pw_current w = Some r)))"
proof -
  have inv: "worker_inv w" using assms worker_run_inv [OF worker_inv_new] by simp
  have cap: "pw_capacity (worker_run evs v) = pw_capacity v" for v :: "'a persist_worker"
  proof (induction evs arbitrary: v)
    case (Cons ev evs)
    have "pw_capacity (worker_exec ev v) = pw_capacity v"
      by (cases ev) (auto simp: worker_exec_def worker_enqueue_def worker_take_def worker_complete_def
        worker_stop_def worker_fail_pending_def worker_start_def worker_abandon_def Let_def
        split: option.splits sum.splits)
    then show ?case using Cons by (simp add: worker_run_def)
  qed (simp add: worker_run_def)
  have "pw_capacity w = nat capacity" "0 < capacity"
    using assms cap [of w0] by (auto simp: new_worker_def split: if_splits)
  then have "int (length (pw_queue w)) \<le> capacity"
    using inv by (simp add: worker_inv_def) linarith
  moreover have "\<exists>r. pq_future r = f \<and> (r \<in> set (pw_queue w) \<or> pw_current w = Some r)"
    if "pw_futures w f = Some Pending" for f
    using inv that by (auto simp: worker_inv_def owned_def worker_owners_def)
  ultimately show ?thesis by blast
qed

text \<open>The writes accepted into the queue and those handed to the adapter, in order.\<close>

definition accepted_by :: "'c worker_event \<Rightarrow> 'c persist_worker \<Rightarrow> 'c list" where
  "accepted_by ev w = (case ev of
     Enqueue b c \<Rightarrow> if pw_overflow (worker_exec ev w) = pw_overflow w then [c] else []
   | _ \<Rightarrow> [])"

definition handed_by :: "'c worker_event \<Rightarrow> 'c persist_worker \<Rightarrow> 'c list" where
  "handed_by ev w = (case (pw_current w, pw_current (worker_exec ev w)) of
     (None, Some r) \<Rightarrow> [pq_call r] | _ \<Rightarrow> [])"

fun accepted_writes :: "'c worker_event list \<Rightarrow> 'c persist_worker \<Rightarrow> 'c list" where
  "accepted_writes [] w = []"
| "accepted_writes (ev # evs) w = accepted_by ev w @ accepted_writes evs (worker_exec ev w)"

fun handed_writes :: "'c worker_event list \<Rightarrow> 'c persist_worker \<Rightarrow> 'c list" where
  "handed_writes [] w = []"
| "handed_writes (ev # evs) w = handed_by ev w @ handed_writes evs (worker_exec ev w)"

definition is_enqueue :: "'c worker_event \<Rightarrow> bool" where
  "is_enqueue ev = (case ev of Enqueue b c \<Rightarrow> True | _ \<Rightarrow> False)"

definition is_stop :: "'c worker_event \<Rightarrow> bool" where
  "is_stop ev = (case ev of StopWorker b \<Rightarrow> True | _ \<Rightarrow> False)"

lemma worker_exec_fifo:
  assumes "\<not> is_stop ev"
  shows "map pq_call (pw_queue w) @ accepted_by ev w
    = handed_by ev w @ map pq_call (pw_queue (worker_exec ev w))"
  using assms by (cases ev; cases "pw_current w")
    (auto simp: is_stop_def accepted_by_def handed_by_def worker_exec_def worker_enqueue_def
      worker_take_def worker_start_def worker_abandon_def worker_complete_def Let_def fifo_put_def
      fifo_pop_eq split: option.splits sum.splits)

lemma worker_exec_overflow:
  "pw_overflow (worker_exec ev w) + length (accepted_by ev w)
     = pw_overflow w + (if is_enqueue ev then 1 else 0)"
  by (cases ev) (auto simp: is_enqueue_def accepted_by_def worker_exec_def worker_enqueue_def
      worker_take_def worker_start_def worker_abandon_def worker_complete_def worker_stop_def
      worker_fail_pending_def Let_def split: option.splits sum.splits)

text \<open>
  Between two stops the adapter receives exactly the writes that were accepted, in the order
  in which they were enqueued, none skipped and none twice; what it has not received yet is the
  queue. Writes are refused only by the overflow check, and each refusal is counted.
\<close>

theorem persistence_fifo:
  assumes "\<forall>ev \<in> set evs. \<not> is_stop ev" and "new_worker capacity = Inr w0"
  shows "accepted_writes evs w0 = handed_writes evs w0 @ map pq_call (pw_queue (worker_run evs w0))
    \<and> length (accepted_writes evs w0) + pw_overflow (worker_run evs w0) = length (filter is_enqueue evs)"
proof -
  have "map pq_call (pw_queue w) @ accepted_writes evs w
      = handed_writes evs w @ map pq_call (pw_queue (worker_run evs w))" for w
    using assms(1)
  proof (induction evs arbitrary: w)
    case (Cons ev evs)
    from Cons.IH [of "worker_exec ev w"] Cons.prems worker_exec_fifo [of ev w]
    show ?case by (simp add: worker_run_def flip: append_assoc) (simp add: worker_run_def)
  qed (simp add: worker_run_def)
  moreover have "pw_overflow (worker_run evs w) + length (accepted_writes evs w)
      = pw_overflow w + length (filter is_enqueue evs)" for w
  proof (induction evs arbitrary: w)
    case (Cons ev evs)
    from Cons.IH [of "worker_exec ev w"] worker_exec_overflow [of ev w]
    show ?case by (auto simp: worker_run_def split: if_splits)
  qed (simp add: worker_run_def)
  moreover have "pw_queue w0 = []" "pw_overflow w0 = 0"
    using assms(2) by (auto simp: new_worker_def split: if_splits)
  ultimately show ?thesis by (metis add.commute add_0 append_Nil list.simps(8))
qed

text \<open>
  Stopping a worker that has a task leaves no caller waiting: every future handed out is
  settled, nothing is queued or in flight, and the task is gone.
\<close>

theorem persistence_stop_settles_all:
  assumes "new_worker capacity = Inr w0" and "w = worker_run evs w0" and "pw_task w \<noteq> NoTask"
  shows "let w' = worker_stop configured w in
    (\<forall>f < pw_next_future w. fut_done (pw_futures w') f) \<and> pw_queue w' = [] \<and> pw_current w' = None
    \<and> pw_task w' = NoTask"
proof -
  have inv: "worker_inv w" using assms worker_run_inv [OF worker_inv_new] by simp
  note stop = worker_stop_clears [OF inv assms(3), of configured]
  have "pw_next_future (worker_stop configured w) = pw_next_future w" "pw_task (worker_stop configured w) = NoTask"
    using assms(3) by (auto simp: worker_stop_def worker_fail_pending_def worker_complete_def Let_def
        split: option.splits sum.splits)
  then have "pw_task (worker_stop configured w) = NoTask"
    and "\<forall>f < pw_next_future w. f \<in> dom (pw_futures (worker_stop configured w))"
    using stop(1) by (simp_all add: worker_inv_def)
  then show ?thesis using stop owned_empty [OF stop(2)] by (auto simp: Let_def)
qed

subsection \<open>Witnesses\<close>

definition sample_worker :: "nat persist_worker" where
  "sample_worker = \<lparr>pw_queue = [], pw_capacity = 1, pw_overflow = 0, pw_futures = Map.empty,
     pw_next_future = 0, pw_current = None, pw_task = NoTask\<rparr>"

definition sample_events :: "nat worker_event list" where
  "sample_events = [StartWorker, Enqueue True 7, TakeWrite, Enqueue True 8, Enqueue True 9]"

lemmas worker_eval = sample_worker_def sample_events_def worker_run_def worker_exec_def
  worker_enqueue_def worker_take_def worker_start_def worker_stop_def worker_complete_def
  worker_fail_pending_def fifo_put_def settle_def is_stop_def is_enqueue_def new_worker_def
  accepted_by_def handed_by_def

theorem persistence_bounded_and_complete_witness:
  "int (length (pw_queue (worker_run sample_events sample_worker))) \<le> 1
    \<and> (\<exists>r. pq_future r = 0 \<and> (r \<in> set (pw_queue (worker_run sample_events sample_worker))
            \<or> pw_current (worker_run sample_events sample_worker) = Some r))"
proof -
  have "new_worker 1 = Inr sample_worker"
    "pw_futures (worker_run sample_events sample_worker) 0 = Some Pending"
    by (simp_all add: worker_eval Let_def)
  then show ?thesis using persistence_bounded_and_complete [OF _ refl, of 1 sample_worker sample_events]
    by blast
qed

theorem persistence_fifo_witness:
  "handed_writes sample_events sample_worker @ map pq_call (pw_queue (worker_run sample_events sample_worker))
     = [7, 8] \<and> pw_overflow (worker_run sample_events sample_worker) = 1"
proof -
  have "\<forall>ev \<in> set sample_events. \<not> is_stop ev" "new_worker 1 = Inr sample_worker"
    by (simp_all add: worker_eval)
  from persistence_fifo [OF this] show ?thesis by (simp add: worker_eval Let_def)
qed

theorem persistence_stop_settles_all_witness:
  "let w' = worker_stop True (worker_run sample_events sample_worker) in
    (\<forall>f < pw_next_future (worker_run sample_events sample_worker). fut_done (pw_futures w') f)
    \<and> pw_queue w' = [] \<and> pw_current w' = None \<and> pw_task w' = NoTask"
  by (rule persistence_stop_settles_all [of 1 sample_worker _ sample_events])
    (simp_all add: worker_eval Let_def)

end
