(* ===== verification/Actions.thy ===== *)
theory Actions
  imports Errors
begin

section \<open>Actions: code that changes a state and can raise\<close>

text \<open>
  A coroutine or method that changes the state \<open>'s\<close> and returns or raises is a function of the
  state to its outcome and the state after it; a raised exception keeps the changes made before
  it, as in Python.
\<close>

type_synonym ('s, 'a) act = "'s \<Rightarrow> 'a res \<times> 's"

definition areturn :: "'a \<Rightarrow> ('s, 'a) act" where
  "areturn v s = (Inr v, s)"

definition araise :: "exc \<Rightarrow> ('s, 'a) act" where
  "araise e s = (Inl e, s)"

definition alift :: "'a res \<Rightarrow> ('s, 'a) act" where
  "alift r s = (r, s)"

definition abind :: "('s, 'a) act \<Rightarrow> ('a \<Rightarrow> ('s, 'b) act) \<Rightarrow> ('s, 'b) act" where
  "abind m f s = (case m s of (Inl e, s') \<Rightarrow> (Inl e, s') | (Inr v, s') \<Rightarrow> f v s')"

text \<open>\<open>try: m except p as e: h e\<close>, and \<open>with suppress(Exception): m\<close>.\<close>

definition acatch :: "('s, 'a) act \<Rightarrow> (exc \<Rightarrow> bool) \<Rightarrow> (exc \<Rightarrow> ('s, 'a) act) \<Rightarrow> ('s, 'a) act" where
  "acatch m p h s = (case m s of
     (Inl e, s') \<Rightarrow> if p e then h e s' else (Inl e, s') | (Inr v, s') \<Rightarrow> (Inr v, s'))"

definition asuppress :: "('s, 'a) act \<Rightarrow> ('s, unit) act" where
  "asuppress m = acatch (abind m (\<lambda>_. areturn ())) is_exception (\<lambda>_. areturn ())"

definition areads :: "('s \<Rightarrow> 'a) \<Rightarrow> ('s, 'a) act" where
  "areads f s = (Inr (f s), s)"

text \<open>An action of one component of a pair.\<close>

definition on_snd :: "('w, 'a) act \<Rightarrow> ('c \<times> 'w, 'a) act" where
  "on_snd m s = (case m (snd s) of (r, w') \<Rightarrow> (r, (fst s, w')))"

lemmas act_defs = areturn_def araise_def alift_def abind_def acatch_def asuppress_def areads_def on_snd_def

lemma abind_cong [fundef_cong]:
  "m s = m' s' \<Longrightarrow> (\<And>v t. m' s' = (Inr v, t) \<Longrightarrow> f v t = f' v t) \<Longrightarrow> abind m f s = abind m' f' s'"
  by (auto simp: abind_def split: prod.splits sum.splits)

lemma areturn_simps [simp]: "areturn v s = (Inr v, s)" "araise e s = (Inl e, s)" "alift r s = (r, s)"
  "areads h s = (Inr (h s), s)"
  by (simp_all add: act_defs)

lemma abind_areturn [simp]: "abind (areturn v) f s = f v s" "abind (alift (Inr v)) f s = f v s"
  "abind (araise e) f s = (Inl e, s)" "abind (alift (Inl e)) f s = (Inl e, s)"
  by (simp_all add: abind_def)

lemma abind_Inr: "abind m f s = (Inr v, t) \<longleftrightarrow> (\<exists>u s'. m s = (Inr u, s') \<and> f u s' = (Inr v, t))"
  by (auto simp: abind_def split: prod.splits sum.splits)

lemma abind_Inl: "abind m f s = (Inl e, t) \<longleftrightarrow>
    m s = (Inl e, t) \<or> (\<exists>u s'. m s = (Inr u, s') \<and> f u s' = (Inl e, t))"
  by (auto simp: abind_def split: prod.splits sum.splits)

lemma fst_on_snd [simp]: "fst (snd (on_snd m s)) = fst s"
  by (simp add: on_snd_def split: prod.splits)

text \<open>
  An assertion kept by every step is kept by the whole action, whatever it returns or raises.
\<close>

definition keeps :: "('s \<Rightarrow> bool) \<Rightarrow> ('s, 'a) act \<Rightarrow> bool" where
  "keeps P m \<longleftrightarrow> (\<forall>s. P s \<longrightarrow> P (snd (m s)))"

lemma keepsD: "keeps P m \<Longrightarrow> P s \<Longrightarrow> P (snd (m s))"
  by (simp add: keeps_def)

lemma keeps_basic [intro!, simp]: "keeps P (areturn v)" "keeps P (araise e)" "keeps P (alift r)" "keeps P (areads h)"
  by (simp_all add: keeps_def)

lemma keeps_abind: "keeps P m \<Longrightarrow> (\<And>v. keeps P (f v)) \<Longrightarrow> keeps P (abind m f)"
  by (auto simp: keeps_def abind_def split: prod.splits sum.splits)

lemma keeps_acatch: "keeps P m \<Longrightarrow> (\<And>e. keeps P (h e)) \<Longrightarrow> keeps P (acatch m p h)"
  by (auto simp: keeps_def acatch_def split: prod.splits sum.splits)

lemma keeps_asuppress: "keeps P m \<Longrightarrow> keeps P (asuppress m)"
  by (auto simp: asuppress_def intro!: keeps_acatch keeps_abind)

lemma keeps_on_snd: "(\<And>c w w'. P (c, w) \<Longrightarrow> P (c, w')) \<Longrightarrow> keeps P (on_snd m)"
  by (auto simp: keeps_def on_snd_def split: prod.splits)

lemma keeps_if: "keeps P m \<Longrightarrow> keeps P n \<Longrightarrow> keeps P (if b then m else n)"
  by simp

lemmas keeps_intros = keeps_basic keeps_abind keeps_acatch keeps_asuppress keeps_if

end
