(* ===== verification/Platform.thy ===== *)
theory Platform
  imports Py_Text
begin

section \<open>Host detection and service settings\<close>

text \<open>
  \<open>backend/pc_client/platform_runtime.py\<close> and the service and client sections of the shared
  configuration. Durations, floats in the code, are rationals; the process environment and
  \<open>sys.platform\<close> are arguments.
\<close>

record service_config =
  api_host :: string
  api_port :: int
  startup_scan_timeout_seconds :: rat
  auto_discovery_interval_seconds :: rat
  recovery_deadline_seconds :: rat
  poll_interval_seconds :: rat
  poll_tolerance_seconds :: rat
  history_sync_budget_seconds :: rat
  history_chunk_retry_count :: nat
  display_command_timeout_seconds :: rat
  completed_operation_retention_seconds :: rat
  persistence_queue_capacity :: int
  credential_registry_filename :: string

record client_config =
  connect_timeout_seconds :: rat
  scan_timeout_seconds :: rat
  pairing_timeout_seconds :: rat
  use_cached_gatt_services :: bool

definition CONFIG_service :: service_config where
  "CONFIG_service = \<lparr>api_host = ''127.0.0.1'', api_port = 8000, startup_scan_timeout_seconds = 5/2,
     auto_discovery_interval_seconds = 2, recovery_deadline_seconds = 10, poll_interval_seconds = 1,
     poll_tolerance_seconds = 1/10, history_sync_budget_seconds = 10, history_chunk_retry_count = 2,
     display_command_timeout_seconds = 5, completed_operation_retention_seconds = 600,
     persistence_queue_capacity = 300, credential_registry_filename = ''paired_devices.csv''\<rparr>"

definition CONFIG_client :: client_config where
  "CONFIG_client = \<lparr>connect_timeout_seconds = 20, scan_timeout_seconds = 5,
     pairing_timeout_seconds = 30, use_cached_gatt_services = False\<rparr>"

definition DEVICE_NAME_PREFIX :: string where "DEVICE_NAME_PREFIX = ''Thermometer-''"

definition SERVICE_UUID :: string where
  "SERVICE_UUID = ''7e570001-7e57-4a11-9d8b-5f21d8a0c001''"

definition SAMPLE_PERIOD_MS :: int where "SAMPLE_PERIOD_MS = 1000"

record ble_host_runtime =
  host_family :: string
  host_pairing :: string
  host_auto_discover :: bool

definition py_startswith :: "string \<Rightarrow> string \<Rightarrow> bool" where
  "py_startswith s p \<longleftrightarrow> take (length p) s = p"

definition detect_ble_host :: "string \<Rightarrow> (string \<rightharpoonup> string) \<Rightarrow> ble_host_runtime" where
  "detect_ble_host platform env =
     (let platform_name = py_lower platform in
      if platform_name \<in> {''win32'', ''windows'', ''cygwin''} \<or> py_startswith platform_name ''win'' then
        \<lparr>host_family = ''windows'', host_pairing = ''winrt'', host_auto_discover = True\<rparr>
      else if py_startswith platform_name ''linux'' then
        \<lparr>host_family = ''linux'', host_pairing = ''bluez'', host_auto_discover =
           (py_strip (case env ''THERMOMETER_LINUX_AUTO_SCAN'' of None \<Rightarrow> '''' | Some v \<Rightarrow> v) = ''1'')\<rparr>
      else \<lparr>host_family = ''other'', host_pairing = ''none'', host_auto_discover = True\<rparr>)"

definition production_service_kwargs :: "string \<Rightarrow> (string \<rightharpoonup> string) \<Rightarrow> bool \<times> service_config" where
  "production_service_kwargs platform env =
     (let host = detect_ble_host platform env;
          settings = CONFIG_service;
          settings = (if host_family host = ''windows'' then
            CONFIG_service\<lparr>recovery_deadline_seconds :=
              max (recovery_deadline_seconds CONFIG_service) (connect_timeout_seconds CONFIG_client + 5)\<rparr>
            else settings);
          settings = (if host_family host = ''linux'' then
            CONFIG_service\<lparr>auto_discovery_interval_seconds :=
                max (auto_discovery_interval_seconds CONFIG_service) 15,
              startup_scan_timeout_seconds :=
                min (max (startup_scan_timeout_seconds CONFIG_service) 3) 5\<rparr>
            else settings)
      in (host_auto_discover host, settings))"

text \<open>
  On every host the settings of the service keep the shared configuration except for the
  timing the host needs: on Windows the recovery deadline outlasts a whole connection attempt, on
  Linux the radio is scanned at most every fifteen seconds for three to five seconds, and only
  when the environment asks for it; elsewhere nothing changes.
\<close>

theorem production_settings:
  "case production_service_kwargs platform env of (auto_discover, settings) \<Rightarrow>
     (host_pairing (detect_ble_host platform env) = ''winrt'' \<longleftrightarrow>
        settings = CONFIG_service\<lparr>recovery_deadline_seconds := recovery_deadline_seconds settings\<rparr>
        \<and> connect_timeout_seconds CONFIG_client < recovery_deadline_seconds settings)
   \<and> (host_pairing (detect_ble_host platform env) = ''bluez'' \<longleftrightarrow>
        15 \<le> auto_discovery_interval_seconds settings \<and> 3 \<le> startup_scan_timeout_seconds settings
        \<and> startup_scan_timeout_seconds settings \<le> 5)
   \<and> (host_pairing (detect_ble_host platform env) = ''none'' \<longleftrightarrow> settings = CONFIG_service)
   \<and> (\<not> auto_discover \<longleftrightarrow> host_pairing (detect_ble_host platform env) = ''bluez''
        \<and> map_option py_strip (env ''THERMOMETER_LINUX_AUTO_SCAN'') \<noteq> Some ''1'')"
  by (auto simp: production_service_kwargs_def detect_ble_host_def CONFIG_service_def
      CONFIG_client_def Let_def py_strip_def split: option.splits)

end
