(* ===== verification/Ble_Client.thy ===== *)
theory Ble_Client
  imports Protocol_Props Actions Platform "HOL-Library.List_Lexorder" "HOL-Library.Char_ord"
begin

section \<open>The GATT client\<close>

text \<open>
  \<open>backend/pc_client/thermometer_client.py\<close>: discovery, pairing, connection, authentication and
  the request/response exchanges with one thermometer. The BLE library (Bleak), the pairing
  backends of the operating system and \<open>hmac\<close> are not part of the repository: they are the fields
  of a record \<open>gatt\<close>, arbitrary actions on a world of their own that can raise at every call and
  drop the link between two calls. The three locks of the class serialize its coroutines, so an
  operation is one action on the client and the world.
\<close>

record discovered_thermometer =
  dt_name :: string
  dt_address :: string
  dt_rssi :: "int option"

record timed_history_record =
  th_sensor_id :: int
  th_sequence :: int
  th_sampled_at :: int
  th_temperature_c :: "rat option"
  th_data_status :: data_status

record history_sync =
  hs_meta :: history_meta
  hs_anchor :: current_snapshot
  hs_records :: "timed_history_record list"
  hs_expected_counts :: "int list"
  hs_retrieved_counts :: "int list"
  hs_complete :: bool
  hs_elapsed_seconds :: rat
  hs_failure_reason :: "string option"
  hs_persistence_configured :: bool
  hs_persisted :: bool

definition display_name :: "string option \<Rightarrow> string \<Rightarrow> string" where
  "display_name name address =
     (let fallback =
        (let compact' = filter py_isalnum_char address;
             suffix = (if 6 \<le> length compact' then py_upper (drop (length compact' - 6) compact')
                       else ''UNKNOWN'')
         in DEVICE_NAME_PREFIX @ suffix)
      in case name of
           None \<Rightarrow> fallback
         | Some n \<Rightarrow>
             let cleaned = py_strip n in
             if cleaned \<noteq> [] \<and> py_lower cleaned \<notin> {''unknown'', ''(unknown)''} then cleaned
             else fallback)"

subsection \<open>Discovery\<close>

text \<open>
  An entry of Bleak's result: the device, and its advertisement when the entry is a pair.
\<close>

record advertisement =
  adv_local_name :: "string option"
  adv_service_uuids :: "string list option"
  adv_rssi :: "int option"

record scan_entry =
  scan_device_name :: "string option"
  scan_address :: string
  scan_device_rssi :: "int option"
  scan_advertisement :: "advertisement option"

text \<open>\<open>a or b\<close> of two optional strings.\<close>

definition or_name :: "string option \<Rightarrow> string option \<Rightarrow> string option" where
  "or_name a b = (case a of Some x \<Rightarrow> if x \<noteq> [] then a else b | None \<Rightarrow> b)"

definition scan_result :: "scan_entry \<Rightarrow> discovered_thermometer option" where
  "scan_result entry =
     (let (service_uuids, name, rssi) =
        (case scan_advertisement entry of
           Some adv \<Rightarrow>
             (set (map py_lower (case adv_service_uuids adv of None \<Rightarrow> [] | Some us \<Rightarrow> us)),
              display_name (or_name (adv_local_name adv) (scan_device_name entry)) (scan_address entry),
              adv_rssi adv)
         | None \<Rightarrow> ({}, display_name (scan_device_name entry) (scan_address entry), scan_device_rssi entry))
      in if SERVICE_UUID \<in> service_uuids
         then Some \<lparr>dt_name = name, dt_address = scan_address entry, dt_rssi = rssi\<rparr> else None)"

definition bleak_missing :: "exc \<Rightarrow> exc" where
  "bleak_missing import_error =
     Exc RuntimeErrorC (''Bleak is not installed; from backend run: ''
       @ ''python -m pip install -r pc_client/requirements.txt'') None [] (Some import_error)"

definition discover :: "exc option \<Rightarrow> scan_entry list res \<Rightarrow> discovered_thermometer list res" where
  "discover bleak_import_error scan =
     (case bleak_import_error of
        Some e \<Rightarrow> Inl (bleak_missing e)
      | None \<Rightarrow> rbind scan (\<lambda>entries.
          Inr (sort_key (\<lambda>item. py_lower (dt_name item)) (List.map_filter scan_result entries))))"

subsection \<open>The transport and the client\<close>

record ('h, 'w) gatt =
  g_create :: "('w, 'h) act"
  g_connect :: "'h \<Rightarrow> ('w, unit) act"
  g_has_service :: "'h \<Rightarrow> 'w \<Rightarrow> bool option"
  g_is_connected :: "'h \<Rightarrow> 'w \<Rightarrow> bool"
  g_disconnect :: "'h \<Rightarrow> ('w, unit) act"
  g_dispose :: "'h \<Rightarrow> ('w, unit) act"
  g_write :: "'h \<Rightarrow> bytes \<Rightarrow> ('w, unit) act"
  g_read :: "'h \<Rightarrow> ('w, bytes) act"
  g_name :: "'h \<Rightarrow> 'w \<Rightarrow> string option"
  g_max_write :: "'h \<Rightarrow> 'w \<Rightarrow> int option"
  g_mtu :: "'h \<Rightarrow> 'w \<Rightarrow> int option"
  g_pair :: "string \<Rightarrow> string \<Rightarrow> rat \<Rightarrow> ('w, unit) act"
  g_forget :: "string \<Rightarrow> ('w, unit) act"
  g_hmac :: "bytes \<Rightarrow> bytes \<Rightarrow> bytes"

text \<open>The client class: Bleak, the default, or another one; Bleak may be missing.\<close>

datatype client_factory = BleakFactory | MissingBleak exc | OtherFactory

record client_setup =
  cs_target_address :: "string option"
  cs_target_name :: "string option"
  cs_factory :: client_factory
  cs_host :: ble_host_runtime

record 'h client =
  cl_passkey :: "string option"
  cl_compact_supported :: "bool option"
  cl_client :: "'h option"
  cl_request_id :: int
  cl_closed :: bool

type_synonym ('h, 'w, 'a) client_act = "('h client \<times> 'w, 'a) act"

definition new_client :: "string option \<Rightarrow> 'h client res" where
  "new_client passkey =
     rbind (case passkey of None \<Rightarrow> Inr None | Some p \<Rightarrow> rbind (validate_passkey p) (\<lambda>k. Inr (Some k)))
       (\<lambda>k. Inr \<lparr>cl_passkey = k, cl_compact_supported = None, cl_client = None, cl_request_id = 0,
                cl_closed = False\<rparr>)"

definition is_connected :: "('h, 'w) gatt \<Rightarrow> 'h client \<times> 'w \<Rightarrow> bool" where
  "is_connected g s = (case cl_client (fst s) of None \<Rightarrow> False | Some h \<Rightarrow> g_is_connected g h (snd s))"

definition device_name :: "('h, 'w) gatt \<Rightarrow> client_setup \<Rightarrow> 'h client \<times> 'w \<Rightarrow> string option" where
  "device_name g cfg s =
     (let usable = (\<lambda>n. case n of Some m \<Rightarrow> py_strip m \<noteq> [] | None \<Rightarrow> False);
          active = (case cl_client (fst s) of None \<Rightarrow> None | Some h \<Rightarrow> g_name g h (snd s))
      in if usable active then active
         else if usable (cs_target_name cfg) then cs_target_name cfg else None)"

definition mtu_size :: "('h, 'w) gatt \<Rightarrow> 'h client \<times> 'w \<Rightarrow> int" where
  "mtu_size g s = (case cl_client (fst s) of
     None \<Rightarrow> 23
   | Some h \<Rightarrow>
       (case g_max_write g h (snd s) of
          Some reported \<Rightarrow> if 20 < reported then reported + 3
                           else (case g_mtu g h (snd s) of None \<Rightarrow> 23 | Some m \<Rightarrow> m)
        | None \<Rightarrow> (case g_mtu g h (snd s) of None \<Rightarrow> 23 | Some m \<Rightarrow> m)))"

definition records_per_chunk :: "('h, 'w) gatt \<Rightarrow> 'h client \<times> 'w \<Rightarrow> int" where
  "records_per_chunk g s =
     (let att_read_response_header_size = 1;
          value_capacity = max 0 (mtu_size g s - att_read_response_header_size);
          protocol_overhead = int HEADER_SIZE + int HISTORY_CHUNK_PREFIX_SIZE;
          is_compact = (cl_compact_supported (fst s) \<noteq> Some False);
          record_size = (if is_compact then int COMPACT_HISTORY_RECORD_SIZE else int HISTORY_RECORD_SIZE);
          maximum = (if is_compact then MAX_COMPACT_HISTORY_RECORDS_PER_CHUNK
                     else MAX_HISTORY_RECORDS_PER_CHUNK);
          mtu_count = (value_capacity - protocol_overhead) div record_size
      in max 1 (min maximum mtu_count))"

definition pairing_backend :: "client_setup \<Rightarrow> string" where
  "pairing_backend cfg = (if cs_factory cfg = OtherFactory then ''none'' else host_pairing (cs_host cfg))"

definition target_address :: "client_setup \<Rightarrow> string res" where
  "target_address cfg = (case cs_target_address cfg of
     None \<Rightarrow> raise TypeErrorC ''BLE target must provide a string address'' | Some a \<Rightarrow> Inr a)"

definition credential :: "string option \<Rightarrow> ('h, 'w, string) client_act" where
  "credential passkey s =
     (case passkey of
        Some p \<Rightarrow> (case validate_passkey p of
            Inl e \<Rightarrow> (Inl e, s)
          | Inr k \<Rightarrow> (Inr k, ((fst s)\<lparr>cl_passkey := Some k\<rparr>, snd s)))
      | None \<Rightarrow> (case cl_passkey (fst s) of
            None \<Rightarrow> (value_error ''a six-digit passkey is required for this device'', s)
          | Some k \<Rightarrow> (Inr k, s)))"

definition pair_client :: "('h, 'w) gatt \<Rightarrow> client_setup \<Rightarrow> string option \<Rightarrow> ('h, 'w, unit) client_act" where
  "pair_client g cfg passkey =
     abind (credential passkey) (\<lambda>k.
       if pairing_backend cfg = ''winrt'' \<or> pairing_backend cfg = ''bluez'' then
         abind (alift (target_address cfg)) (\<lambda>a.
           on_snd (g_pair g a k (pairing_timeout_seconds CONFIG_client)))
       else areturn ())"

definition disconnect_current :: "('h, 'w) gatt \<Rightarrow> ('h, 'w, unit) client_act" where
  "disconnect_current g s =
     (case cl_client (fst s) of
        None \<Rightarrow> (Inr (), s)
      | Some h \<Rightarrow> on_snd (g_disconnect g h) ((fst s)\<lparr>cl_client := None\<rparr>, snd s))"

definition close_client :: "('h, 'w) gatt \<Rightarrow> ('h, 'w, unit) client_act" where
  "close_client g s = disconnect_current g ((fst s)\<lparr>cl_closed := True\<rparr>, snd s)"

definition forget_pairing :: "('h, 'w) gatt \<Rightarrow> client_setup \<Rightarrow> ('h, 'w, unit) client_act" where
  "forget_pairing g cfg =
     abind (disconnect_current g) (\<lambda>_.
       if pairing_backend cfg = ''winrt'' \<or> pairing_backend cfg = ''bluez'' then
         abind (alift (target_address cfg)) (\<lambda>a. on_snd (g_forget g a))
       else araise (Exc RuntimeErrorC ''resetting BLE pairing is not supported on this platform'' None [] None))"

subsection \<open>Requests\<close>

definition next_request_id :: "('h, 'w, int) client_act" where
  "next_request_id s =
     (let i = u16_mask (cl_request_id (fst s) + 1) in (Inr i, ((fst s)\<lparr>cl_request_id := i\<rparr>, snd s)))"

text \<open>The handler of a failed write or read: the link is released and the failure reported.\<close>

definition gatt_failed :: "('h, 'w) gatt \<Rightarrow> string \<Rightarrow> exc \<Rightarrow> ('h, 'w, 'a) client_act" where
  "gatt_failed g operation e =
     (if is_exception e then
        abind (asuppress (disconnect_current g)) (\<lambda>_.
          araise (Exc RuntimeErrorC (''GATT '' @ operation @ '' failed: '' @ describe_ble_error e)
            None [] (Some e)))
      else araise e)"

definition exchange_packet ::
    "('h, 'w) gatt \<Rightarrow> bytes \<Rightarrow> opcode \<Rightarrow> int \<Rightarrow> bool \<Rightarrow> ('h, 'w, response) client_act" where
  "exchange_packet g packet opcode request_id allow_error s =
     (if \<not> is_connected g s then
        (raise RuntimeErrorC ''GATT request requires an established connection'', s)
      else case cl_client (fst s) of
        None \<Rightarrow> (raise RuntimeErrorC ''GATT client disappeared during connection setup'', s)
      | Some h \<Rightarrow>
          (case on_snd (g_write g h packet) s of
             (Inl e, s') \<Rightarrow> gatt_failed g ''request write'' e s'
           | (Inr _, s') \<Rightarrow>
               (case on_snd (g_read g h) s' of
                  (Inl e, s'') \<Rightarrow> gatt_failed g ''response read'' e s''
                | (Inr raw, s'') \<Rightarrow>
                    (parse_response raw (Some opcode) (Some request_id) allow_error, s''))))"

definition request :: "('h, 'w) gatt \<Rightarrow> opcode \<Rightarrow> bytes \<Rightarrow> ('h, 'w, response) client_act" where
  "request g opcode payload =
     abind next_request_id (\<lambda>request_id.
     abind (alift (build_request opcode request_id payload)) (\<lambda>packet.
       exchange_packet g packet opcode request_id False))"

definition get_current :: "('h, 'w) gatt \<Rightarrow> ('h, 'w, current_snapshot) client_act" where
  "get_current g = abind (request g GET_CURRENT []) (\<lambda>r. alift (decode_current r))"

definition begin_authentication :: "('h, 'w) gatt \<Rightarrow> ('h, 'w, auth_challenge) client_act" where
  "begin_authentication g =
     abind (request g AUTH_BEGIN []) (\<lambda>r. alift (decode_authentication_challenge r))"

definition authenticate :: "('h, 'w) gatt \<Rightarrow> string option \<Rightarrow> ('h, 'w, unit) client_act" where
  "authenticate g passkey =
     abind (credential passkey) (\<lambda>k.
     abind (begin_authentication g) (\<lambda>challenge.
     abind (alift (compute_authentication_proof (g_hmac g) k challenge)) (\<lambda>proof.
     abind next_request_id (\<lambda>request_id.
     abind (alift (build_authentication_proof_request request_id proof)) (\<lambda>packet.
     abind (exchange_packet g packet AUTH_PROVE request_id False) (\<lambda>_. areturn ()))))))"

definition request_bond_reset :: "('h, 'w) gatt \<Rightarrow> ('h, 'w, unit) client_act" where
  "request_bond_reset g = abind (request g RESET_BOND []) (\<lambda>_. areturn ())"

definition set_display :: "('h, 'w) gatt \<Rightarrow> int \<Rightarrow> bool \<Rightarrow> ('h, 'w, display_result) client_act" where
  "set_display g sensor_id enabled =
     abind next_request_id (\<lambda>request_id.
     abind (alift (build_set_display_request request_id sensor_id enabled)) (\<lambda>packet.
     abind (exchange_packet g packet SET_DISPLAY request_id False) (\<lambda>r.
       alift (decode_display_result r))))"

definition get_history_meta :: "('h, 'w) gatt \<Rightarrow> ('h, 'w, history_meta) client_act" where
  "get_history_meta g = abind (request g GET_HISTORY_META []) (\<lambda>r. alift (decode_history_meta r))"

definition set_compact_supported :: "bool \<Rightarrow> ('h, 'w, unit) client_act" where
  "set_compact_supported b s = (Inr (), ((fst s)\<lparr>cl_compact_supported := Some b\<rparr>, snd s))"

text \<open>
  The body of the loop of \<open>get_history_chunk\<close> up to its response, and the loop: a device that
  answers INVALID_COMMAND to the compact request is asked again in the original format.
\<close>

definition chunk_exchange ::
    "('h, 'w) gatt \<Rightarrow> bool \<Rightarrow> int \<Rightarrow> int \<Rightarrow> int \<Rightarrow> ('h, 'w, response) client_act" where
  "chunk_exchange g is_compact sensor_id start_sequence n =
     abind next_request_id (\<lambda>request_id.
     abind (areads (records_per_chunk g)) (\<lambda>capacity.
       let opcode = (if is_compact then GET_HISTORY_CHUNK_COMPACT else GET_HISTORY_CHUNK);
           requested = min n capacity
       in abind (alift (build_history_chunk_request is_compact request_id sensor_id start_sequence requested))
            (\<lambda>packet. exchange_packet g packet opcode request_id False)))"

function chunk_loop ::
    "('h, 'w) gatt \<Rightarrow> int \<Rightarrow> int \<Rightarrow> int \<Rightarrow> bool \<Rightarrow> ('h, 'w, history_chunk) client_act" where
  "chunk_loop g sensor_id start_sequence n is_compact s =
     (case chunk_exchange g is_compact sensor_id start_sequence n s of
        (Inl e, s') \<Rightarrow>
          if is_compact \<and> is_protocol_error_with INVALID_COMMAND e then
            abind (set_compact_supported False) (\<lambda>_. chunk_loop g sensor_id start_sequence n False) s'
          else (Inl e, s')
      | (Inr r, s') \<Rightarrow>
          abind (set_compact_supported is_compact) (\<lambda>_. alift (decode_history_chunk r)) s')"
  by pat_completeness auto
termination
  by (relation "measure (\<lambda>(g, i, a, n, c, s). if c then 1 else 0)") auto

declare chunk_loop.simps [simp del]

definition get_history_chunk ::
    "('h, 'w) gatt \<Rightarrow> int \<Rightarrow> int \<Rightarrow> int \<Rightarrow> ('h, 'w, history_chunk) client_act" where
  "get_history_chunk g sensor_id start_sequence n s =
     chunk_loop g sensor_id start_sequence n (cl_compact_supported (fst s) \<noteq> Some False) s"

subsection \<open>Connecting\<close>

definition dispose_partial_client :: "('h, 'w) gatt \<Rightarrow> 'h \<Rightarrow> ('h, 'w, unit) client_act" where
  "dispose_partial_client g h = asuppress (on_snd (g_dispose g h))"

definition check_service :: "('h, 'w) gatt \<Rightarrow> 'h \<Rightarrow> ('h, 'w, unit) client_act" where
  "check_service g h s =
     (if g_has_service g h (snd s) = Some False then
        (raise RuntimeErrorC (''device does not expose thermometer service '' @ SERVICE_UUID
           @ ''; verify that the latest firmware is running''), s)
      else (Inr (), s))"

definition open_failed :: "('h, 'w) gatt \<Rightarrow> 'h \<Rightarrow> exc \<Rightarrow> ('h, 'w, unit) client_act" where
  "open_failed g h e =
     abind (dispose_partial_client g h) (\<lambda>_.
       if is_exception e then
         araise (Exc RuntimeErrorC (''GATT connection/service discovery failed: ''
           @ describe_ble_error e) None [] (Some e))
       else araise e)"

definition open_attempt :: "('h, 'w) gatt \<Rightarrow> 'h \<Rightarrow> ('h, 'w, unit) client_act" where
  "open_attempt g h =
     acatch (abind (on_snd (g_connect g h)) (\<lambda>_. check_service g h)) (\<lambda>_. True) (open_failed g h)"

definition open_client :: "('h, 'w) gatt \<Rightarrow> ('h, 'w, unit) client_act" where
  "open_client g =
     abind (on_snd (g_create g)) (\<lambda>h.
     abind (open_attempt g h) (\<lambda>_ s.
       (Inr (), ((fst s)\<lparr>cl_client := Some h\<rparr>, snd s))))"

definition connect_client ::
    "('h, 'w) gatt \<Rightarrow> client_setup \<Rightarrow> string option \<Rightarrow> bool \<Rightarrow> bool \<Rightarrow> ('h, 'w, unit) client_act" where
  "connect_client g cfg passkey ensure_pairing do_authenticate s =
     (if cl_closed (fst s) then (raise RuntimeErrorC ''client has been closed'', s)
      else if is_connected g s then (Inr (), s)
      else case cs_factory cfg of
        MissingBleak e \<Rightarrow> (Inl (bleak_missing e), s)
      | _ \<Rightarrow> abind (credential passkey) (\<lambda>k.
             abind (if ensure_pairing then pair_client g cfg (Some k) else areturn ()) (\<lambda>_.
             abind (open_client g) (\<lambda>_.
               if do_authenticate then
                 acatch (authenticate g (Some k)) is_exception (\<lambda>e.
                   abind (asuppress (disconnect_current g)) (\<lambda>_. araise e))
               else areturn ()))) s)"

end
