(* ===== verification/History_Sync.thy ===== *)
theory History_Sync
  imports Ble_Client
begin

section \<open>History retrieval\<close>

text \<open>
  \<open>backend/pc_client/history_sync.py\<close>: the retrieval of the history rings of all sensors, oldest
  records first, alternating between the sensors, within a time budget. The collaborators of the
  class (clock, scheduler, client, publication) are the fields of a record of actions on a world
  of their own: every reading of the clock may differ, every request may raise, and the device
  may answer anything.
\<close>

record 'w sync_env =
  se_settings :: service_config
  se_monotonic :: "'w \<Rightarrow> rat \<times> 'w"
  se_utc_now :: "'w \<Rightarrow> int \<times> 'w"
  se_sleep :: "('w, unit) act"
  se_records_per_chunk :: "('w, int) act"
  se_get_meta :: "rat \<Rightarrow> ('w, history_meta) act"
  se_get_current :: "rat \<Rightarrow> ('w, current_snapshot) act"
  se_get_chunk :: "rat \<Rightarrow> int \<Rightarrow> int \<Rightarrow> int \<Rightarrow> ('w, history_chunk) act"
  se_anchor :: "'w \<Rightarrow> current_snapshot option \<times> int option"
  se_publish :: "rat \<Rightarrow> current_snapshot \<Rightarrow> int \<Rightarrow> ('w, unit) act"

record history_retrieval =
  hr_history :: history_sync
  hr_deadline :: rat
  hr_failures :: "string list"

subsection \<open>Validation and timestamps\<close>

fun check_sequences :: "int \<Rightarrow> history_record_value list \<Rightarrow> unit res" where
  "check_sequences expected_sequence [] = Inr ()"
| "check_sequences expected_sequence (r # rs) =
     (if rec_sequence r \<noteq> expected_sequence then
        protocol_error ''history chunk sequence is discontinuous'' None
      else check_sequences (u32_mask (expected_sequence + 1)) rs)"

definition validate_chunk :: "history_chunk \<Rightarrow> int \<Rightarrow> int \<Rightarrow> int \<Rightarrow> unit res" where
  "validate_chunk chunk sensor_id start_sequence requested_count =
     (if chunk_sensor_id chunk \<noteq> sensor_id \<or> chunk_start_sequence chunk \<noteq> start_sequence then
        protocol_error ''history chunk does not match its request'' None
      else if chunk_records chunk = [] \<or> requested_count < int (length (chunk_records chunk)) then
        protocol_error ''history chunk has an invalid record count'' None
      else check_sequences start_sequence (chunk_records chunk))"

text \<open>
  \<open>timedelta(seconds=x)\<close> in microseconds. The sample period is a whole number of milliseconds, so
  the rounding of \<open>timedelta\<close> is never used.
\<close>

definition timedelta_us :: "rat \<Rightarrow> int" where
  "timedelta_us seconds = round (seconds * 1000000)"

definition timestamp :: "int \<Rightarrow> int \<Rightarrow> int \<Rightarrow> rat \<Rightarrow> int" where
  "timestamp anchor_sequence anchor_time record_sequence sample_seconds =
     (let backward = u32_mask (anchor_sequence - record_sequence) in
      if backward \<le> 0x7FFFFFFF then anchor_time - timedelta_us (of_int backward * sample_seconds)
      else let forward = u32_mask (record_sequence - anchor_sequence)
           in anchor_time + timedelta_us (of_int forward * sample_seconds))"

subsection \<open>Requests under a deadline\<close>

definition timed_call :: "'w sync_env \<Rightarrow> rat \<Rightarrow> (rat \<Rightarrow> ('w, 'a) act) \<Rightarrow> ('w, 'a) act" where
  "timed_call env deadline action w =
     (case se_monotonic env w of (now, w') \<Rightarrow>
        let remaining = deadline - now in
        if remaining \<le> 0 then (raise TimeoutErrorC '''', w') else action remaining w')"

text \<open>
  The retry loop for one chunk: it ends with a validated chunk, with the budget expired, with the
  last error after the last attempt, or at once when the device says the record is gone. What is
  no \<open>Exception\<close>, a cancellation, leaves the whole function.
\<close>

datatype fetched = Fetched history_chunk | NoChunk "exc option" | BudgetExpired | Aborted exc

fun fetch_chunk ::
    "'w sync_env \<Rightarrow> rat \<Rightarrow> int \<Rightarrow> int \<Rightarrow> int \<Rightarrow> nat \<Rightarrow> exc option \<Rightarrow> 'w \<Rightarrow> fetched \<times> 'w" where
  "fetch_chunk env deadline sensor_id start n 0 last_error w = (NoChunk last_error, w)"
| "fetch_chunk env deadline sensor_id start n (Suc attempts) last_error w =
     (case timed_call env deadline (\<lambda>t. se_get_chunk env t sensor_id start n) w of (r, w') \<Rightarrow>
        (case rbind r (\<lambda>chunk. rbind (validate_chunk chunk sensor_id start n) (\<lambda>_. Inr chunk)) of
           Inr chunk \<Rightarrow> (Fetched chunk, w')
         | Inl e \<Rightarrow>
             if exc_class e = TimeoutErrorC then (BudgetExpired, w')
             else if \<not> is_exception e then (Aborted e, w')
             else if is_protocol_error_with NOT_AVAILABLE e then (NoChunk (Some e), w')
             else fetch_chunk env deadline sensor_id start n attempts (Some e) w'))"

subsection \<open>The loop over the sensors\<close>

record sync_state =
  y_pending :: "int list"
  y_remaining :: "(int, int) dict"
  y_next :: "(int, int) dict"
  y_retrieved :: "int list"
  y_records :: "(int \<times> int, history_record_value) dict"
  y_failures :: "string list"
  y_expired :: bool
  y_progress :: "rat option"
  y_updated_at :: "int option"

text \<open>Reading a dictionary that has an entry for every sensor in the queue.\<close>

definition entry_of :: "('k, int) dict \<Rightarrow> 'k \<Rightarrow> int" where
  "entry_of d k = (case dict_get d k of Some v \<Rightarrow> v | None \<Rightarrow> 0)"

definition sensor_text :: "int \<Rightarrow> string" where
  "sensor_text sensor_id = ''sensor '' @ show_int sensor_id"

definition add_failure :: "string \<Rightarrow> sync_state \<Rightarrow> sync_state" where
  "add_failure f y = y\<lparr>y_failures := y_failures y @ [f]\<rparr>"

definition give_up_sensor :: "int \<Rightarrow> exc option \<Rightarrow> sync_state \<Rightarrow> sync_state" where
  "give_up_sensor sensor_id last_error y =
     add_failure (sensor_text sensor_id @ '': '' @ describe_ble_error
       (case last_error of Some e \<Rightarrow> e
        | None \<Rightarrow> Exc RuntimeErrorC ''unknown history error'' None [] None)) y"

text \<open>\<open>xs[i]\<close> of a tuple, for an index that is not negative.\<close>

definition py_index :: "'a list \<Rightarrow> int \<Rightarrow> 'a res" where
  "py_index xs i = (if nat i < length xs then Inr (xs ! nat i)
     else raise (OtherErrorC ''IndexError'') ''tuple index out of range'')"

text \<open>
  A chunk could not be fetched: if the device says the record is gone, its metadata is read again
  and the surviving suffix is queued, otherwise the sensor is given up.
\<close>

definition skip_lost :: "int \<Rightarrow> int \<Rightarrow> int \<Rightarrow> sync_state \<Rightarrow> sync_state" where
  "skip_lost sensor_id lost fresh_oldest y =
     (add_failure (sensor_text sensor_id @ '': '' @ show_int lost
        @ '' oldest record(s) were overwritten before retrieval'') y)
       \<lparr>y_remaining := dict_set sensor_id (entry_of (y_remaining y) sensor_id - lost) (y_remaining y),
        y_next := dict_set sensor_id fresh_oldest (y_next y),
        y_pending := y_pending y @ [sensor_id]\<rparr>"

definition recover_suffix ::
    "int \<Rightarrow> int \<Rightarrow> int \<Rightarrow> exc option \<Rightarrow> history_meta \<Rightarrow> sync_state \<Rightarrow> sync_state res" where
  "recover_suffix boot_id sensor_id start last_error fresh_meta y =
     (if meta_boot_id fresh_meta = boot_id then
        rbind (py_index (meta_oldest_sequences fresh_meta) (sensor_id - 1)) (\<lambda>fresh_oldest.
          let lost = u32_mask (fresh_oldest - start)
          in if 0 < lost \<and> lost < entry_of (y_remaining y) sensor_id
             then Inr (skip_lost sensor_id lost fresh_oldest y)
             else Inr (give_up_sensor sensor_id last_error y))
      else Inr (give_up_sensor sensor_id last_error y))"

definition turn_failed ::
    "'w sync_env \<Rightarrow> rat \<Rightarrow> int \<Rightarrow> int \<Rightarrow> int \<Rightarrow> exc option \<Rightarrow> sync_state \<Rightarrow> ('w, bool \<times> sync_state) act" where
  "turn_failed env deadline boot_id sensor_id start last_error y w =
     (case last_error of
        Some e \<Rightarrow>
          if is_protocol_error_with NOT_AVAILABLE e then
            (case se_monotonic env w of (now, w') \<Rightarrow>
               if now < deadline then
                 (case timed_call env deadline (se_get_meta env) w' of
                    (Inr fresh_meta, w'') \<Rightarrow>
                      (rbind (recover_suffix boot_id sensor_id start last_error fresh_meta y)
                         (\<lambda>y'. Inr (True, y')), w'')
                  | (Inl e', w'') \<Rightarrow>
                      if is_exception e' then
                        (Inr (True, give_up_sensor sensor_id last_error
                           (add_failure (sensor_text sensor_id @ '' metadata refresh: ''
                              @ describe_ble_error e') y)), w'')
                      else (Inl e', w''))
               else (Inr (True, give_up_sensor sensor_id last_error y), w'))
          else (Inr (True, give_up_sensor sensor_id last_error y), w)
      | None \<Rightarrow> (Inr (True, give_up_sensor sensor_id last_error y), w))"

text \<open>A chunk was fetched: its records are stored and the sensor is queued again if more remain.\<close>

definition store_records ::
    "int \<Rightarrow> history_record_value list \<Rightarrow> (int \<times> int, history_record_value) dict
     \<Rightarrow> (int \<times> int, history_record_value) dict" where
  "store_records sensor_id rs d = foldl (\<lambda>d r. dict_set (sensor_id, rec_sequence r) r d) d rs"

definition stored_chunk :: "int \<Rightarrow> int \<Rightarrow> int \<Rightarrow> history_chunk \<Rightarrow> int \<Rightarrow> sync_state \<Rightarrow> sync_state" where
  "stored_chunk total_expected sensor_id start chunk now y =
     (let k = int (length (chunk_records chunk));
          i = nat (sensor_id - 1);
          retrieved = (y_retrieved y)[i := y_retrieved y ! i + k];
          left = entry_of (y_remaining y) sensor_id - k
      in y\<lparr>y_records := store_records sensor_id (chunk_records chunk) (y_records y),
           y_retrieved := retrieved,
           y_remaining := dict_set sensor_id left (y_remaining y),
           y_next := dict_set sensor_id (u32_mask (start + k)) (y_next y),
           y_progress := Some (if total_expected \<noteq> 0
             then of_int (sum_list retrieved) / of_int total_expected else 1),
           y_updated_at := Some now,
           y_pending := (if 0 < left then y_pending y @ [sensor_id] else y_pending y)\<rparr>)"

definition turn_fetched ::
    "'w sync_env \<Rightarrow> int \<Rightarrow> int \<Rightarrow> int \<Rightarrow> history_chunk \<Rightarrow> sync_state \<Rightarrow> ('w, bool \<times> sync_state) act" where
  "turn_fetched env total_expected sensor_id start chunk y w =
     (case se_utc_now env w of (now, w') \<Rightarrow>
        abind (se_sleep env) (\<lambda>_. areturn
          (True, stored_chunk total_expected sensor_id start chunk now y)) w')"

definition sync_turn ::
    "'w sync_env \<Rightarrow> rat \<Rightarrow> int \<Rightarrow> int \<Rightarrow> int \<Rightarrow> sync_state \<Rightarrow> ('w, bool \<times> sync_state) act" where
  "sync_turn env deadline boot_id total_expected sensor_id y =
     abind (se_records_per_chunk env) (\<lambda>capacity w.
       let request_count = min capacity (entry_of (y_remaining y) sensor_id);
           start = entry_of (y_next y) sensor_id
       in case fetch_chunk env deadline sensor_id start request_count
              (history_chunk_retry_count (se_settings env) + 1) None w of
            (Aborted e, w') \<Rightarrow> (Inl e, w')
          | (BudgetExpired, w') \<Rightarrow> (Inr (False, y\<lparr>y_expired := True\<rparr>), w')
          | (NoChunk last_error, w') \<Rightarrow>
              turn_failed env deadline boot_id sensor_id start last_error y w'
          | (Fetched chunk, w') \<Rightarrow> turn_fetched env total_expected sensor_id start chunk y w')"

subsection \<open>The loop ends\<close>

text \<open>
  Every turn that goes on either takes a sensor out of the queue or moves at least one record from
  what remains, so the queue length plus the records that remain decreases.
\<close>

definition work_left :: "sync_state \<Rightarrow> nat" where
  "work_left y = length (y_pending y) + sum_list (map (nat \<circ> snd) (y_remaining y))"

lemma sum_dict_set:
  "dict_get d k = Some v \<Longrightarrow>
    sum_list (map (nat \<circ> snd) (dict_set k v' d)) + nat v = sum_list (map (nat \<circ> snd) d) + nat v'"
  by (induction d) auto

lemma entry_of_set [simp]: "entry_of (dict_set k v d) k' = (if k' = k then v else entry_of d k')"
  by (simp add: entry_of_def)

lemma entry_positive: "0 < entry_of d k \<Longrightarrow> dict_get d k = Some (entry_of d k)"
  by (auto simp: entry_of_def split: option.splits)

lemma sum_dict_decreases:
  assumes "0 \<le> v'" "v' < entry_of d k"
  shows "sum_list (map (nat \<circ> snd) (dict_set k v' d)) < sum_list (map (nat \<circ> snd) d)"
proof -
  have "dict_get d k = Some (entry_of d k)" using assms by (intro entry_positive) linarith
  from sum_dict_set [OF this, of v'] show ?thesis using assms by linarith
qed

lemma fetch_chunk_valid:
  "fetch_chunk env deadline i start n attempts last_error w = (Fetched chunk, w') \<Longrightarrow>
     validate_chunk chunk i start n = Inr ()"
  by (induction env deadline i start n attempts last_error w rule: fetch_chunk.induct)
    (auto simp: rbind_Inr_iff split: prod.splits sum.splits if_splits)

lemma validate_chunk_Inr:
  "validate_chunk chunk i start n = Inr () \<longleftrightarrow>
     chunk_sensor_id chunk = i \<and> chunk_start_sequence chunk = start \<and> chunk_records chunk \<noteq> []
     \<and> int (length (chunk_records chunk)) \<le> n \<and> check_sequences start (chunk_records chunk) = Inr ()"
  by (auto simp: validate_chunk_def)

lemma work_left_failures [simp]:
  "work_left (add_failure f y) = work_left y"
  "work_left (give_up_sensor i e y) = work_left y"
  by (simp_all add: work_left_def add_failure_def give_up_sensor_def)

lemma work_left_skip:
  "0 < lost \<Longrightarrow> lost < entry_of (y_remaining y) i \<Longrightarrow> work_left (skip_lost i lost o' y) \<le> work_left y"
  using sum_dict_decreases [of "entry_of (y_remaining y) i - lost" "y_remaining y" i]
  by (simp add: skip_lost_def work_left_def add_failure_def)

lemma recover_suffix_cases:
  assumes "recover_suffix boot i start e fresh y = Inr y'"
  obtains "y' = give_up_sensor i e y"
  | fresh_oldest where "0 < u32_mask (fresh_oldest - start)"
      "u32_mask (fresh_oldest - start) < entry_of (y_remaining y) i"
      "y' = skip_lost i (u32_mask (fresh_oldest - start)) fresh_oldest y"
  using assms by (auto simp: recover_suffix_def rbind_Inr_iff Let_def split: if_splits)

lemma work_left_recover:
  "recover_suffix boot i start e fresh y = Inr y' \<Longrightarrow> work_left y' \<le> work_left y"
  by (erule recover_suffix_cases) (simp_all add: work_left_skip)

lemma sync_turn_decreases:
  assumes "sync_turn env deadline boot tot i y w = (Inr (True, y'), w')"
  shows "work_left y' < work_left (y\<lparr>y_pending := i # y_pending y\<rparr>)"
proof -
  have step: "work_left (y\<lparr>y_pending := i # y_pending y\<rparr>) = work_left y + 1"
    by (simp add: work_left_def)
  obtain cap w1 where "se_records_per_chunk env w = (Inr cap, w1)"
    using assms by (auto simp: sync_turn_def abind_Inr)
  moreover define n where "n = min cap (entry_of (y_remaining y) i)"
  moreover define start where "start = entry_of (y_next y) i"
  moreover obtain f w2 where f: "fetch_chunk env deadline i start n
      (history_chunk_retry_count (se_settings env) + 1) None w1 = (f, w2)" by fastforce
  ultimately have run: "(case f of Aborted e \<Rightarrow> (Inl e, w2)
      | BudgetExpired \<Rightarrow> (Inr (False, y\<lparr>y_expired := True\<rparr>), w2)
      | NoChunk e \<Rightarrow> turn_failed env deadline boot i start e y w2
      | Fetched chunk \<Rightarrow> turn_fetched env tot i start chunk y w2) = (Inr (True, y'), w')"
    using assms by (auto simp: sync_turn_def abind_def Let_def split: fetched.splits)
  show ?thesis
  proof (cases f)
    case (NoChunk e)
    then show ?thesis
      using run unfolding step
      by (auto simp: turn_failed_def rbind_Inr_iff dest!: work_left_recover
          split: option.splits prod.splits sum.splits if_splits)
  next
    case (Fetched chunk)
    let ?k = "int (length (chunk_records chunk))"
    have v: "0 < ?k" "?k \<le> entry_of (y_remaining y) i"
      using fetch_chunk_valid [OF f [unfolded Fetched]] by (auto simp: validate_chunk_Inr n_def)
    then show ?thesis
      using sum_dict_decreases [of "entry_of (y_remaining y) i - ?k" "y_remaining y" i] run Fetched
      unfolding step
      by (auto simp: turn_fetched_def stored_chunk_def Let_def work_left_def abind_Inr
          split: prod.splits if_splits)
  qed (use run in auto)
qed

lemma sync_turn_decreases_loop:
  assumes "y_pending y = i # p"
    and "sync_turn env deadline boot tot i (y\<lparr>y_pending := p\<rparr>) w = (Inr (True, y'), w')"
  shows "work_left y' < work_left y"
proof -
  have "(y\<lparr>y_pending := p\<rparr>)\<lparr>y_pending := i # y_pending (y\<lparr>y_pending := p\<rparr>)\<rparr> = y"
    using assms(1) by simp
  then show ?thesis using sync_turn_decreases [OF assms(2)] by simp
qed

function sync_loop ::
    "'w sync_env \<Rightarrow> rat \<Rightarrow> int \<Rightarrow> int \<Rightarrow> sync_state \<Rightarrow> ('w, sync_state) act" where
  "sync_loop env deadline boot_id total_expected y w =
     (case y_pending y of
        [] \<Rightarrow> (Inr y, w)
      | sensor_id # pending \<Rightarrow>
          (case se_monotonic env w of (now, w1) \<Rightarrow>
             if \<not> now < deadline then (Inr y, w1)
             else (case sync_turn env deadline boot_id total_expected sensor_id (y\<lparr>y_pending := pending\<rparr>) w1 of
                 (Inl e, w2) \<Rightarrow> (Inl e, w2)
               | (Inr (False, y'), w2) \<Rightarrow> (Inr y', w2)
               | (Inr (True, y'), w2) \<Rightarrow> sync_loop env deadline boot_id total_expected y' w2)))"
  by pat_completeness auto
termination
  by (relation "measure (\<lambda>(env, deadline, boot_id, tot, y, w). work_left y)")
    (auto intro: sync_turn_decreases_loop simp: eq_commute [of "(Inr _, _)" "sync_turn _ _ _ _ _ _ _"])

declare sync_loop.simps [simp del]

subsection \<open>The whole retrieval\<close>

definition initial_sync :: "history_meta \<Rightarrow> sync_state res" where
  "initial_sync meta =
     (let expected = meta_counts meta;
          pending = filter (\<lambda>sensor_id. 0 < expected ! nat (sensor_id - 1)) [1..int (length expected)]
      in rbind (rmap (\<lambda>sensor_id. rbind (py_index (meta_oldest_sequences meta) (sensor_id - 1))
              (\<lambda>oldest. Inr (sensor_id, oldest))) pending) (\<lambda>next_sequence.
          Inr \<lparr>y_pending = pending,
               y_remaining = map (\<lambda>sensor_id. (sensor_id, expected ! nat (sensor_id - 1))) pending,
               y_next = next_sequence,
               y_retrieved = map (\<lambda>_. 0) expected, y_records = [], y_failures = [], y_expired = False,
               y_progress = None, y_updated_at = None\<rparr>))"

definition timed_record :: "current_snapshot \<Rightarrow> int \<Rightarrow> (int \<times> int) \<times> history_record_value \<Rightarrow> timed_history_record" where
  "timed_record anchor anchor_time entry =
     (case entry of ((sensor_id, _), r) \<Rightarrow>
        \<lparr>th_sensor_id = sensor_id, th_sequence = rec_sequence r,
         th_sampled_at = timestamp (cur_newest_sequence anchor) anchor_time (rec_sequence r)
           (of_int SAMPLE_PERIOD_MS / 1000),
         th_temperature_c = rec_temperature_c r, th_data_status = rec_data_status r\<rparr>)"

text \<open>The result built from the state in which the loop ended.\<close>

definition final_failures :: "history_meta \<Rightarrow> current_snapshot \<Rightarrow> sync_state \<Rightarrow> string list" where
  "final_failures meta anchor y =
     (let f = y_failures y;
          f = (if y_pending y \<noteq> [] \<or> y_expired y
               then f @ [''history synchronization exceeded its time budget''] else f)
      in if cur_boot_id anchor \<noteq> meta_boot_id meta
         then f @ [''device rebooted during history synchronization''] else f)"

definition build_history ::
    "history_meta \<Rightarrow> current_snapshot \<Rightarrow> int \<Rightarrow> sync_state \<Rightarrow> rat \<Rightarrow> history_sync" where
  "build_history meta anchor anchor_time y elapsed =
     (let failures = final_failures meta anchor y;
          reason = py_join ''; '' failures
      in \<lparr>hs_meta = meta, hs_anchor = anchor,
          hs_records = map (timed_record anchor anchor_time) (y_records y),
          hs_expected_counts = meta_counts meta, hs_retrieved_counts = y_retrieved y,
          hs_complete = (y_retrieved y = meta_counts meta \<and> failures = []),
          hs_elapsed_seconds = elapsed,
          hs_failure_reason = (if reason \<noteq> [] then Some reason else None),
          hs_persistence_configured = False, hs_persisted = False\<rparr>)"

definition transfer_deadline_of :: "rat \<Rightarrow> rat \<Rightarrow> rat" where
  "transfer_deadline_of started budget = started + budget - min 1 (budget / 10)"

text \<open>The time anchor: the last sample if it is of this boot, otherwise a fresh one, published.\<close>

definition fresh_anchor :: "'w sync_env \<Rightarrow> rat \<Rightarrow> ('w, current_snapshot \<times> int) act" where
  "fresh_anchor env transfer_deadline =
     abind (timed_call env transfer_deadline (se_get_current env)) (\<lambda>anchor w.
       case se_utc_now env w of (anchor_time, w1) \<Rightarrow>
         case se_monotonic env w1 of (now, w2) \<Rightarrow>
           let remaining = transfer_deadline - now in
           if remaining \<le> 0 then (raise TimeoutErrorC '''', w2)
           else abind (se_publish env remaining anchor anchor_time) (\<lambda>_. areturn (anchor, anchor_time)) w2)"

definition resolve_anchor ::
    "'w sync_env \<Rightarrow> rat \<Rightarrow> history_meta \<Rightarrow> current_snapshot option \<times> int option
     \<Rightarrow> ('w, current_snapshot \<times> int) act" where
  "resolve_anchor env transfer_deadline meta known w =
     (case known of
        (Some anchor, Some anchor_time) \<Rightarrow>
          if cur_boot_id anchor = meta_boot_id meta then (Inr (anchor, anchor_time), w)
          else fresh_anchor env transfer_deadline w
      | _ \<Rightarrow> fresh_anchor env transfer_deadline w)"

definition synchronize :: "'w sync_env \<Rightarrow> ('w, history_retrieval) act" where
  "synchronize env w =
     (let settings = se_settings env in
      case se_monotonic env w of (started, w1) \<Rightarrow>
        let deadline = started + history_sync_budget_seconds settings;
            transfer_deadline = transfer_deadline_of started (history_sync_budget_seconds settings);
            known = se_anchor env w1
        in abind (timed_call env transfer_deadline (se_get_meta env)) (\<lambda>meta.
           abind (resolve_anchor env transfer_deadline meta known) (\<lambda>(anchor, anchor_time).
           abind (alift (initial_sync meta)) (\<lambda>y0.
           abind (sync_loop env transfer_deadline (meta_boot_id meta) (sum_list (meta_counts meta)) y0) (\<lambda>y w2.
             case se_monotonic env w2 of (now, w3) \<Rightarrow>
               (Inr \<lparr>hr_history = build_history meta anchor anchor_time y (now - started),
                     hr_deadline = deadline, hr_failures = final_failures meta anchor y\<rparr>, w3))))) w1)"

end
