(* ===== verification/History_Props.thy ===== *)
theory History_Props
  imports History_Sync
begin

section \<open>What a history retrieval returns\<close>

text \<open>
  The invariant of the loop of \<open>HistorySync\<close>: for every sensor, the records stored so far, in the
  order of the dictionary, have strictly increasing offsets from the oldest announced sequence,
  all below the announced count; they are as many as the retrieved count says; and while no
  failure is recorded the retrieved and the remaining counts add up to the announced count.
\<close>

definition expected_of :: "history_meta \<Rightarrow> int \<Rightarrow> int" where
  "expected_of meta i = meta_counts meta ! nat (i - 1)"

definition oldest_of :: "history_meta \<Rightarrow> int \<Rightarrow> int" where
  "oldest_of meta i = meta_oldest_sequences meta ! nat (i - 1)"

definition sensors_of :: "history_meta \<Rightarrow> int set" where
  "sensors_of meta = {1..int (length (meta_counts meta))}"

text \<open>The counts a device can announce in an unsigned field of 16 bits.\<close>

definition counts_ok :: "history_meta \<Rightarrow> bool" where
  "counts_ok meta \<longleftrightarrow> (\<forall>c \<in> set (meta_counts meta). 0 \<le> c \<and> c < 65536)"

definition offsets :: "int \<Rightarrow> int \<Rightarrow> ((int \<times> int) \<times> 'a) list \<Rightarrow> int list" where
  "offsets oldest i recs = map (\<lambda>e. u32_mask (snd (fst e) - oldest)) (filter (\<lambda>e. fst (fst e) = i) recs)"

definition sensor_inv :: "history_meta \<Rightarrow> sync_state \<Rightarrow> int \<Rightarrow> bool" where
  "sensor_inv meta y i \<longleftrightarrow>
     (let left = entry_of (y_remaining y) i; got = y_retrieved y ! nat (i - 1);
          offs = offsets (oldest_of meta i) i (y_records y)
      in 0 \<le> left \<and> got + left \<le> expected_of meta i \<and> int (length offs) = got
       \<and> sorted_wrt (<) offs \<and> (\<forall>k \<in> set offs. k < expected_of meta i - left)
       \<and> (0 < left \<longrightarrow> u32_mask (entry_of (y_next y) i - oldest_of meta i) = expected_of meta i - left)
       \<and> (y_failures y = [] \<longrightarrow> got + left = expected_of meta i))"

definition sync_inv :: "history_meta \<Rightarrow> int set \<Rightarrow> sync_state \<Rightarrow> bool" where
  "sync_inv meta X y \<longleftrightarrow>
     length (y_retrieved y) = length (meta_counts meta)
     \<and> set (y_pending y) \<subseteq> sensors_of meta
     \<and> (\<forall>i \<in> sensors_of meta. sensor_inv meta y i)
     \<and> (\<forall>e \<in> set (y_records y). fst (fst e) \<in> sensors_of meta \<and> rec_sequence (snd e) = snd (fst e))
     \<and> (\<forall>f \<in> set (y_failures y). f \<noteq> [])
     \<and> (y_failures y = [] \<and> \<not> y_expired y \<longrightarrow>
          (\<forall>i \<in> sensors_of meta - X. i \<notin> set (y_pending y) \<longrightarrow> entry_of (y_remaining y) i = 0))"

lemma expected_range:
  assumes "counts_ok meta" "i \<in> sensors_of meta"
  shows "0 \<le> expected_of meta i" "expected_of meta i < 65536"
proof -
  have "nat (i - 1) < length (meta_counts meta)" using assms(2) by (auto simp: sensors_of_def)
  then show "0 \<le> expected_of meta i" "expected_of meta i < 65536"
    using assms(1) by (simp_all add: counts_ok_def expected_of_def)
qed

lemma sensor_index:
  "i \<in> sensors_of meta \<Longrightarrow> nat (i - 1) < length (meta_counts meta)"
  "i \<in> sensors_of meta \<Longrightarrow> j \<in> sensors_of meta \<Longrightarrow> nat (i - 1) = nat (j - 1) \<longleftrightarrow> i = j"
  by (auto simp: sensors_of_def)

subsection \<open>Records of a validated chunk\<close>

lemma u32_mask_diff: "u32_mask (u32_mask x - y) = u32_mask (x - y)"
  by (simp add: u32_mask_mod mod_simps)

lemma check_sequences_offsets:
  "check_sequences start rs = Inr () \<Longrightarrow>
    map (\<lambda>r. u32_mask (rec_sequence r - oldest)) rs
      = map (\<lambda>j. u32_mask (start - oldest + int j)) [0..<length rs]"
proof (induction rs arbitrary: start)
  case (Cons r rs)
  then have r: "rec_sequence r = start" and rest: "check_sequences (u32_mask (start + 1)) rs = Inr ()"
    by (auto split: if_splits)
  have "u32_mask (u32_mask (start + 1) - oldest + int j) = u32_mask (start - oldest + int (Suc j))" for j
    using u32_mask_add [of "start + 1" "int j - oldest"] by (simp add: algebra_simps)
  then have "map (\<lambda>r. u32_mask (rec_sequence r - oldest)) rs
      = map (\<lambda>j. u32_mask (start - oldest + int (Suc j))) [0..<length rs]"
    using Cons.IH [OF rest] by simp
  then show ?case using r by (simp add: upt_conv_Cons map_Suc_upt [symmetric] comp_def del: upt_Suc)
qed simp

lemma mask_window:
  assumes "u32_mask x = a" "0 \<le> j" "a + j < 4294967296"
  shows "u32_mask (x + j) = a + j"
proof -
  have "u32_mask (x + j) = u32_mask (u32_mask x + j)" by (simp add: u32_mask_add)
  also have "\<dots> = a + j" using assms u32_mask_bounds [of x] by (intro u32_mask_id [THEN trans]) simp_all
  finally show ?thesis .
qed

lemma chunk_offsets:
  assumes "check_sequences start rs = Inr ()" "u32_mask (start - oldest) = a"
    "a + int (length rs) \<le> 4294967296"
  shows "map (\<lambda>r. u32_mask (rec_sequence r - oldest)) rs = map (\<lambda>j. a + int j) [0..<length rs]"
  unfolding check_sequences_offsets [OF assms(1)]
  by (rule map_cong [OF refl], rule mask_window) (use assms in auto)

lemma store_records_append:
  "distinct (map rec_sequence rs) \<Longrightarrow> (\<forall>r \<in> set rs. (i, rec_sequence r) \<notin> set (dict_keys d)) \<Longrightarrow>
    store_records i rs d = d @ map (\<lambda>r. ((i, rec_sequence r), r)) rs"
proof (induction rs arbitrary: d)
  case (Cons r rs)
  have new: "dict_set (i, rec_sequence r) r d = d @ [((i, rec_sequence r), r)]"
    using Cons.prems(2) by (intro dict_set_new) simp
  have "store_records i (r # rs) d = store_records i rs (d @ [((i, rec_sequence r), r)])"
    by (simp add: store_records_def new)
  also have "\<dots> = (d @ [((i, rec_sequence r), r)]) @ map (\<lambda>r. ((i, rec_sequence r), r)) rs"
    using Cons.prems by (intro Cons.IH) (auto simp: image_iff)
  finally show ?case by simp
qed (simp add: store_records_def)

text \<open>The offsets after storing the records of a chunk that starts at offset \<open>a\<close>.\<close>

lemma offsets_after_chunk:
  assumes "check_sequences start rs = Inr ()" "u32_mask (start - oldest) = a"
    "a + int (length rs) \<le> 4294967296" "\<forall>k \<in> set (offsets oldest i d). k < a"
  shows "store_records i rs d = d @ map (\<lambda>r. ((i, rec_sequence r), r)) rs"
    "offsets oldest i (store_records i rs d) = offsets oldest i d @ map (\<lambda>j. a + int j) [0..<length rs]"
    "j \<noteq> i \<Longrightarrow> offsets oldest' j (store_records i rs d) = offsets oldest' j d"
proof -
  note offs = chunk_offsets [OF assms(1-3)]
  have "distinct (map (\<lambda>r. u32_mask (rec_sequence r - oldest)) rs)"
    unfolding offs by (simp add: distinct_map inj_on_def)
  then have dist: "distinct (map rec_sequence rs)"
    by (auto simp: distinct_map comp_def intro: inj_on_imageI2 [of "\<lambda>s. u32_mask (s - oldest)"])
  have "(i, rec_sequence r) \<notin> set (dict_keys d)" if r: "r \<in> set rs" for r
  proof
    assume "(i, rec_sequence r) \<in> set (dict_keys d)"
    then obtain v where "((i, rec_sequence r), v) \<in> set d" by auto
    then have "u32_mask (rec_sequence r - oldest) \<in> set (offsets oldest i d)"
      by (force simp: offsets_def)
    then have "u32_mask (rec_sequence r - oldest) < a" using assms(4) by blast
    moreover have "u32_mask (rec_sequence r - oldest) \<in> set (map (\<lambda>j. a + int j) [0..<length rs])"
      unfolding offs [symmetric] using r by simp
    ultimately show False by auto
  qed
  then show st: "store_records i rs d = d @ map (\<lambda>r. ((i, rec_sequence r), r)) rs"
    by (intro store_records_append dist) blast
  have f: "filter (\<lambda>e. fst (fst e) = i) (map (\<lambda>r. ((i, rec_sequence r), r)) rs)
      = map (\<lambda>r. ((i, rec_sequence r), r)) rs"
    by (simp add: filter_map comp_def)
  show "offsets oldest i (store_records i rs d) = offsets oldest i d @ map (\<lambda>j. a + int j) [0..<length rs]"
    unfolding st offs [symmetric] by (simp add: offsets_def f comp_def)
  show "j \<noteq> i \<Longrightarrow> offsets oldest' j (store_records i rs d) = offsets oldest' j d"
    unfolding st by (simp add: offsets_def filter_map comp_def)
qed

subsection \<open>The loop keeps the invariant\<close>

lemma inv_pop:
  assumes "sync_inv meta {} y" "y_pending y = i # p"
  shows "sync_inv meta {i} (y\<lparr>y_pending := p\<rparr>)" "i \<in> sensors_of meta"
  using assms by (auto simp: sync_inv_def sensor_inv_def Let_def)

lemma inv_add_failure: "sync_inv meta X y \<Longrightarrow> f \<noteq> [] \<Longrightarrow> sync_inv meta X' (add_failure f y)"
  by (auto simp: sync_inv_def sensor_inv_def add_failure_def Let_def)

lemma inv_give_up: "sync_inv meta X y \<Longrightarrow> sync_inv meta X' (give_up_sensor i e y)"
  by (simp add: give_up_sensor_def inv_add_failure sensor_text_def)

lemma inv_expired: "sync_inv meta X y \<Longrightarrow> sync_inv meta X' (y\<lparr>y_expired := True\<rparr>)"
  by (auto simp: sync_inv_def sensor_inv_def Let_def)

lemma sensor_inv_other:
  assumes "sensor_inv meta y j" "entry_of (y_remaining y') j = entry_of (y_remaining y) j"
    "entry_of (y_next y') j = entry_of (y_next y) j"
    "y_retrieved y' ! nat (j - 1) = y_retrieved y ! nat (j - 1)"
    "offsets (oldest_of meta j) j (y_records y') = offsets (oldest_of meta j) j (y_records y)"
    "y_failures y' = [] \<longrightarrow> y_failures y = []"
  shows "sensor_inv meta y' j"
  using assms by (auto simp: sensor_inv_def Let_def)

lemma inv_skip:
  assumes inv: "sync_inv meta X y" and c: "counts_ok meta" and i: "i \<in> sensors_of meta"
    and lost: "0 < u32_mask (fresh - entry_of (y_next y) i)"
      "u32_mask (fresh - entry_of (y_next y) i) < entry_of (y_remaining y) i"
  shows "sync_inv meta X' (skip_lost i (u32_mask (fresh - entry_of (y_next y) i)) fresh y)"
proof -
  let ?lost = "u32_mask (fresh - entry_of (y_next y) i)" and ?o = "oldest_of meta i"
  let ?left = "entry_of (y_remaining y) i" and ?start = "entry_of (y_next y) i"
  let ?y = "skip_lost i ?lost fresh y"
  have sensor: "sensor_inv meta y j" if "j \<in> sensors_of meta" for j
    using inv that by (simp add: sync_inv_def)
  have s: "u32_mask (?start - ?o) = expected_of meta i - ?left" "expected_of meta i - ?left \<ge> 0"
    using sensor [OF i] lost by (auto simp: sensor_inv_def Let_def)
  have "u32_mask (fresh - ?o) = u32_mask (?lost + (?start - ?o))"
    by (simp add: u32_mask_add)
  also have "\<dots> = expected_of meta i - ?left + ?lost"
    using mask_window [OF s(1), of ?lost] expected_range [OF c i] lost by (simp add: add.commute)
  finally have next_: "u32_mask (fresh - ?o) = expected_of meta i - (?left - ?lost)" by simp
  have "sensor_inv meta ?y i"
    using sensor [OF i] lost next_ by (auto simp: sensor_inv_def skip_lost_def add_failure_def Let_def)
  moreover have "sensor_inv meta ?y j" if "j \<in> sensors_of meta" "j \<noteq> i" for j
    using that(2) by (intro sensor_inv_other [OF sensor [OF that(1)]]) (simp_all add: skip_lost_def add_failure_def)
  ultimately have "\<forall>j \<in> sensors_of meta. sensor_inv meta ?y j" by blast
  then show ?thesis
    using inv i by (simp add: sync_inv_def skip_lost_def add_failure_def sensor_text_def)
qed

lemma turn_fetched_Inr:
  assumes "turn_fetched env tot i start chunk y w = (Inr (c, y'), w')"
  shows "\<exists>now. y' = stored_chunk tot i start chunk now y"
  using assms by (auto simp: turn_fetched_def abind_Inr split: prod.splits)

lemma inv_fetched:
  assumes inv: "sync_inv meta {i} y" and c: "counts_ok meta" and i: "i \<in> sensors_of meta"
    and valid: "validate_chunk chunk i (entry_of (y_next y) i) n = Inr ()"
    and n: "n \<le> entry_of (y_remaining y) i"
  shows "sync_inv meta {} (stored_chunk tot i (entry_of (y_next y) i) chunk now y)" (is "sync_inv meta {} ?y")
proof -
  let ?rs = "chunk_records chunk" and ?o = "oldest_of meta i" and ?start = "entry_of (y_next y) i"
  let ?k = "int (length ?rs)" and ?left = "entry_of (y_remaining y) i" and ?e = "expected_of meta i"
  have sensor: "sensor_inv meta y j" if "j \<in> sensors_of meta" for j
    using inv that by (simp add: sync_inv_def)
  have v: "0 < ?k" "?k \<le> ?left" "check_sequences ?start ?rs = Inr ()"
    using valid n by (auto simp: validate_chunk_Inr)
  have s: "u32_mask (?start - ?o) = ?e - ?left" "0 \<le> ?e - ?left"
    "\<forall>k \<in> set (offsets ?o i (y_records y)). k < ?e - ?left"
    "int (length (offsets ?o i (y_records y))) = y_retrieved y ! nat (i - 1)"
    "sorted_wrt (<) (offsets ?o i (y_records y))" "y_retrieved y ! nat (i - 1) + ?left \<le> ?e"
    "y_failures y = [] \<longrightarrow> y_retrieved y ! nat (i - 1) + ?left = ?e"
    using sensor [OF i] v by (auto simp: sensor_inv_def Let_def)
  have room: "?e - ?left + int (length ?rs) \<le> 4294967296" using v expected_range [OF c i] by linarith
  note after = offsets_after_chunk [OF v(3) s(1) room s(3)]
  have len: "length (y_retrieved y) = length (meta_counts meta)" using inv by (simp add: sync_inv_def)
  have got: "(y_retrieved y)[nat (i - 1) := v] ! nat (i - 1) = v" for v
    using sensor_index(1) [OF i] len by simp
  have "u32_mask (u32_mask (?start + ?k) - ?o) = u32_mask (?start - ?o + ?k)"
    by (simp add: u32_mask_diff algebra_simps)
  also have "\<dots> = ?e - ?left + ?k" if "?k < ?left"
    using mask_window [OF s(1), of ?k] that s expected_range [OF c i] by simp
  finally have next_: "?k < ?left \<Longrightarrow> u32_mask (u32_mask (?start + ?k) - ?o) = ?e - (?left - ?k)" by simp
  have "sorted_wrt (<) (offsets ?o i (y_records y) @ map (\<lambda>j. ?e - ?left + int j) [0..<length ?rs])"
    using s(3,5) by (auto simp: sorted_wrt_append sorted_wrt_map sorted_wrt_upt)
  then have "sensor_inv meta ?y i"
    using s v next_ got unfolding sensor_inv_def stored_chunk_def Let_def
    by (auto simp: after(2))
  moreover have "sensor_inv meta ?y j" if "j \<in> sensors_of meta" "j \<noteq> i" for j
    using that sensor_index(2) [OF i that(1)]
    by (intro sensor_inv_other [OF sensor [OF that(1)]]) (simp_all add: stored_chunk_def Let_def after(3))
  ultimately have "\<forall>j \<in> sensors_of meta. sensor_inv meta ?y j" by blast
  moreover have "\<forall>e \<in> set (y_records ?y). fst (fst e) \<in> sensors_of meta \<and> rec_sequence (snd e) = snd (fst e)"
    using inv i by (auto simp: sync_inv_def stored_chunk_def Let_def after(1))
  moreover have "set (y_pending ?y) \<subseteq> sensors_of meta"
    using inv i by (auto simp: sync_inv_def stored_chunk_def Let_def)
  moreover have "\<forall>j \<in> sensors_of meta. j \<notin> set (y_pending ?y) \<longrightarrow> entry_of (y_remaining ?y) j = 0"
    if "y_failures ?y = []" "\<not> y_expired ?y"
    using inv v that by (auto simp: sync_inv_def stored_chunk_def Let_def split: if_splits)
  moreover have "\<forall>f \<in> set (y_failures ?y). f \<noteq> []"
    using inv by (simp add: sync_inv_def stored_chunk_def Let_def)
  ultimately show ?thesis
    using len by (simp add: sync_inv_def) (simp add: stored_chunk_def Let_def)
qed

lemma sync_turn_inv:
  assumes inv: "sync_inv meta {i} y" and c: "counts_ok meta" and i: "i \<in> sensors_of meta"
    and run: "sync_turn env deadline (meta_boot_id meta) tot i y w = (Inr (b, y'), w')"
  shows "sync_inv meta {} y'"
proof -
  obtain cap w1 where "se_records_per_chunk env w = (Inr cap, w1)"
    using run by (auto simp: sync_turn_def abind_Inr)
  moreover define n where "n = min cap (entry_of (y_remaining y) i)"
  moreover obtain f w2 where f: "fetch_chunk env deadline i (entry_of (y_next y) i) n
      (history_chunk_retry_count (se_settings env) + 1) None w1 = (f, w2)" by fastforce
  ultimately have run': "(case f of Aborted e \<Rightarrow> (Inl e, w2)
      | BudgetExpired \<Rightarrow> (Inr (False, y\<lparr>y_expired := True\<rparr>), w2)
      | NoChunk e \<Rightarrow> turn_failed env deadline (meta_boot_id meta) i (entry_of (y_next y) i) e y w2
      | Fetched chunk \<Rightarrow> turn_fetched env tot i (entry_of (y_next y) i) chunk y w2) = (Inr (b, y'), w')"
    using run by (auto simp: sync_turn_def abind_def Let_def split: fetched.splits)
  show ?thesis
  proof (cases f)
    case (NoChunk e)
    have rec: "sync_inv meta {} z"
      if "recover_suffix (meta_boot_id meta) i (entry_of (y_next y) i) e fresh y = Inr z" for fresh z
      using that by (rule recover_suffix_cases) (auto intro: inv_give_up [OF inv] inv_skip [OF inv c i])
    show ?thesis
      using run' NoChunk rec
      by (auto simp: turn_failed_def rbind_Inr_iff intro: inv_give_up [OF inv] inv_give_up [OF inv_add_failure [OF inv]] simp: sensor_text_def
          split: option.splits prod.splits sum.splits if_splits)
  next
    case (Fetched chunk)
    then obtain now where "y' = stored_chunk tot i (entry_of (y_next y) i) chunk now y"
      using run' turn_fetched_Inr by fastforce
    then show ?thesis
      using inv_fetched [OF inv c i fetch_chunk_valid [OF f [unfolded Fetched]]] by (simp add: n_def)
  qed (use run' inv_expired [OF inv] in auto)
qed

lemma sync_loop_inv:
  assumes "counts_ok meta" "sync_inv meta {} y"
    and "sync_loop env deadline (meta_boot_id meta) tot y w = (Inr y', w')"
  shows "sync_inv meta {} y'"
  using assms(2,3)
proof (induction "work_left y" arbitrary: y w rule: less_induct)
  case less
  show ?case
  proof (cases "y_pending y")
    case Nil
    then show ?thesis using less.prems by (subst (asm) sync_loop.simps) simp
  next
    case (Cons i p)
    note pop = inv_pop [OF less.prems(1) Cons]
    obtain now w1 where m: "se_monotonic env w = (now, w1)" by fastforce
    obtain r w2 where t: "sync_turn env deadline (meta_boot_id meta) tot i (y\<lparr>y_pending := p\<rparr>) w1 = (r, w2)"
      by fastforce
    show ?thesis
    proof (cases "now < deadline")
      case False
      then show ?thesis using less.prems Cons m by (subst (asm) sync_loop.simps) simp
    next
      case True
      with less.prems(2) Cons m t obtain b z where z: "r = Inr (b, z)"
        by (subst (asm) sync_loop.simps) (auto split: sum.splits)
      have zi: "sync_inv meta {} z" using sync_turn_inv [OF pop(1) assms(1) pop(2) t [unfolded z]] .
      show ?thesis
      proof (cases b)
        case True
        have "work_left z < work_left y" using sync_turn_decreases_loop [OF Cons, of env deadline "meta_boot_id meta" tot w1 z w2] t z True
          by simp
        moreover have "sync_loop env deadline (meta_boot_id meta) tot z w2 = (Inr y', w')"
          using less.prems(2) Cons m t z True \<open>now < deadline\<close> by (subst (asm) sync_loop.simps) simp
        ultimately show ?thesis using less.hyps zi by blast
      next
        case False
        then show ?thesis using less.prems(2) Cons m t z zi \<open>now < deadline\<close>
          by (subst (asm) sync_loop.simps) simp
      qed
    qed
  qed
qed

subsection \<open>The result of a retrieval\<close>

lemma rmap_pairs:
  "rmap (\<lambda>s. rbind (py_index xs (s - 1)) (\<lambda>v. Inr (s, v))) ps = Inr ns \<Longrightarrow>
    ns = map (\<lambda>s. (s, xs ! nat (s - 1))) ps"
  by (induction ps arbitrary: ns) (auto simp: rbind_Inr_iff py_index_def split: if_splits)

lemma entry_of_map: "entry_of (map (\<lambda>s. (s, f s)) ps) i = (if i \<in> set ps then f i else 0)"
  by (induction ps) (auto simp: entry_of_def)

lemma inv_initial:
  assumes c: "counts_ok meta" and y: "initial_sync meta = Inr y"
  shows "sync_inv meta {} y"
proof -
  let ?ps = "filter (\<lambda>s. 0 < meta_counts meta ! nat (s - 1)) [1..int (length (meta_counts meta))]"
  obtain ns where ns: "rmap (\<lambda>s. rbind (py_index (meta_oldest_sequences meta) (s - 1)) (\<lambda>v. Inr (s, v))) ?ps = Inr ns"
    and y': "y = \<lparr>y_pending = ?ps, y_remaining = map (\<lambda>s. (s, meta_counts meta ! nat (s - 1))) ?ps,
      y_next = ns, y_retrieved = map (\<lambda>_. 0) (meta_counts meta), y_records = [], y_failures = [],
      y_expired = False, y_progress = None, y_updated_at = None\<rparr>"
    using y by (auto simp: initial_sync_def Let_def rbind_Inr_iff)
  have ps: "i \<in> set ?ps \<longleftrightarrow> 0 < expected_of meta i" if "i \<in> sensors_of meta" for i
    using that by (auto simp: sensors_of_def expected_of_def)
  have "sensor_inv meta y i" if "i \<in> sensors_of meta" for i
    using expected_range [OF c that] ps [OF that] sensor_index(1) [OF that]
    unfolding y' rmap_pairs [OF ns] sensor_inv_def Let_def
    by (auto simp: entry_of_map offsets_def expected_of_def oldest_of_def u32_mask_def simp del: set_filter)
  moreover have "entry_of (y_remaining y) i = 0" if "i \<in> sensors_of meta" "i \<notin> set (y_pending y)" for i
    using that by (simp add: y' entry_of_map del: set_filter)
  moreover have "set (y_pending y) \<subseteq> sensors_of meta" by (auto simp: y' sensors_of_def)
  ultimately show ?thesis by (simp add: sync_inv_def) (simp add: y')
qed

lemma synchronize_Inr:
  assumes "synchronize env w = (Inr r, w')"
  obtains meta anchor anchor_time y y0 elapsed deadline w1 w2 w3
  where "timed_call env deadline (se_get_meta env) (snd (se_monotonic env w)) = (Inr meta, w1)"
    "resolve_anchor env deadline meta (se_anchor env (snd (se_monotonic env w))) w1 = (Inr (anchor, anchor_time), w2)"
    "initial_sync meta = Inr y0"
    "sync_loop env deadline (meta_boot_id meta) (sum_list (meta_counts meta)) y0 w2 = (Inr y, w3)"
    "hr_history r = build_history meta anchor anchor_time y elapsed"
    "hr_failures r = final_failures meta anchor y" "w' = snd (se_monotonic env w3)"
proof -
  obtain started wa where m: "se_monotonic env w = (started, wa)" by fastforce
  define deadline where "deadline = transfer_deadline_of started (history_sync_budget_seconds (se_settings env))"
  from assms m obtain meta w1 p w2 y0 y w3 where
    a: "timed_call env deadline (se_get_meta env) wa = (Inr meta, w1)"
    and b: "resolve_anchor env deadline meta (se_anchor env wa) w1 = (Inr p, w2)"
    and c: "initial_sync meta = Inr y0"
    and d: "sync_loop env deadline (meta_boot_id meta) (sum_list (meta_counts meta)) y0 w2 = (Inr y, w3)"
    and r: "r = \<lparr>hr_history = build_history meta (fst p) (snd p) y (fst (se_monotonic env w3) - started),
      hr_deadline = started + history_sync_budget_seconds (se_settings env),
      hr_failures = final_failures meta (fst p) y\<rparr>"
    and w: "w' = snd (se_monotonic env w3)"
    by (auto simp: synchronize_def Let_def abind_Inr alift_def deadline_def case_prod_beta)
  from b m have b': "resolve_anchor env deadline meta (se_anchor env (snd (se_monotonic env w))) w1
      = (Inr (fst p, snd p), w2)" by simp
  have e: "hr_history r = build_history meta (fst p) (snd p) y (fst (se_monotonic env w3) - started)"
    and f: "hr_failures r = final_failures meta (fst p) y" by (simp_all add: r)
  from a m have a': "timed_call env deadline (se_get_meta env) (snd (se_monotonic env w)) = (Inr meta, w1)"
    by simp
  show ?thesis by (rule that [OF a' b' c d e f w])
qed

definition history_offsets :: "history_sync \<Rightarrow> int \<Rightarrow> int list" where
  "history_offsets h i =
     map (\<lambda>r. u32_mask (th_sequence r - oldest_of (hs_meta h) i)) (filter (\<lambda>r. th_sensor_id r = i) (hs_records h))"

lemma history_offsets_eq:
  assumes "\<forall>e \<in> set (y_records y). rec_sequence (snd e) = snd (fst e)"
  shows "history_offsets (build_history meta anchor t y d) i = offsets (oldest_of meta i) i (y_records y)"
proof -
  have "th_sensor_id (timed_record anchor t e) = fst (fst e)"
    "th_sequence (timed_record anchor t e) = rec_sequence (snd e)" for e
    by (simp_all add: timed_record_def split: prod.splits)
  then show ?thesis
    using assms by (auto simp: history_offsets_def offsets_def build_history_def Let_def filter_map comp_def)
qed

lemma strictly_sorted_full:
  assumes "sorted_wrt (<) xs" "\<forall>k \<in> set xs. 0 \<le> k \<and> k < n" "int (length xs) = n"
  shows "xs = [0..n - 1]"
proof -
  have s: "sorted xs" "distinct xs" using assms(1) by (auto simp: strict_sorted_iff)
  have "set xs \<subseteq> {0..n - 1}" using assms(2) by auto
  moreover have "card (set xs) = card {0..n - 1}" using assms(3) s(2) by (simp add: distinct_card)
  ultimately have "set xs = {0..n - 1}" by (intro card_subset_eq) auto
  then show ?thesis using s by (intro sorted_distinct_set_unique) auto
qed

lemma offsets_nonneg: "k \<in> set (offsets oldest i d) \<Longrightarrow> 0 \<le> k"
  by (auto simp: offsets_def)

lemma final_failures_Nil:
  "final_failures meta anchor y = [] \<longleftrightarrow>
    y_failures y = [] \<and> y_pending y = [] \<and> \<not> y_expired y \<and> cur_boot_id anchor = meta_boot_id meta"
  by (auto simp: final_failures_def Let_def)

lemma retrieved_all_without_failure:
  assumes inv: "sync_inv meta {} y" and no: "final_failures meta anchor y = []"
  shows "y_retrieved y = meta_counts meta"
proof (rule nth_equalityI)
  show "length (y_retrieved y) = length (meta_counts meta)" using inv by (simp add: sync_inv_def)
  fix n assume n: "n < length (y_retrieved y)"
  let ?i = "int n + 1"
  have i: "?i \<in> sensors_of meta" using n inv by (simp add: sync_inv_def sensors_of_def)
  have f: "y_failures y = []" "y_pending y = []" "\<not> y_expired y" using no by (simp_all add: final_failures_Nil)
  then have "entry_of (y_remaining y) ?i = 0" "sensor_inv meta y ?i"
    using inv i by (auto simp: sync_inv_def)
  then show "y_retrieved y ! n = meta_counts meta ! n"
    using f(1) by (simp add: sensor_inv_def Let_def expected_of_def)
qed

text \<open>The hypothesis on the device: it announces its counts in 16-bit fields.\<close>

definition device_counts_ok :: "'w sync_env \<Rightarrow> bool" where
  "device_counts_ok env \<longleftrightarrow> (\<forall>t w m w'. se_get_meta env t w = (Inr m, w') \<longrightarrow> counts_ok m)"

lemma synchronize_inv:
  assumes "synchronize env w = (Inr r, w')" "device_counts_ok env"
  obtains meta anchor t y d where "sync_inv meta {} y" "counts_ok meta"
    "hr_history r = build_history meta anchor t y d" "hr_failures r = final_failures meta anchor y"
  using assms(1)
proof (rule synchronize_Inr)
  fix meta anchor anchor_time y y0 elapsed deadline w1 w2 w3
  assume a: "timed_call env deadline (se_get_meta env) (snd (se_monotonic env w)) = (Inr meta, w1)" "initial_sync meta = Inr y0"
    "sync_loop env deadline (meta_boot_id meta) (sum_list (meta_counts meta)) y0 w2 = (Inr y, w3)"
    "hr_history r = build_history meta anchor anchor_time y elapsed" "hr_failures r = final_failures meta anchor y"
  have c: "counts_ok meta" using a(1) assms(2)
    by (auto simp: device_counts_ok_def timed_call_def Let_def split: prod.splits if_splits)
  have "sync_inv meta {} y" using sync_loop_inv [OF c inv_initial [OF c a(2)] a(3)] .
  then show thesis using that c a(4,5) by blast
qed

text \<open>
  C1: whatever the device, the clock and the scheduler do, the records a retrieval returns for a
  sensor lie in the window the device announced, each sequence once and in order, as many as the
  retrieved count says and at most as many as announced; when the retrieval is complete they are
  exactly the announced window, from its oldest to its newest record without a gap.
\<close>

theorem history_records_in_window:
  assumes "synchronize env w = (Inr r, w')" and "device_counts_ok env"
    and "h = hr_history r" and "i \<in> sensors_of (hs_meta h)"
  shows "sorted_wrt (<) (history_offsets h i)
    \<and> (\<forall>k \<in> set (history_offsets h i). 0 \<le> k \<and> k < expected_of (hs_meta h) i)
    \<and> int (length (history_offsets h i)) = hs_retrieved_counts h ! nat (i - 1)
    \<and> (hs_complete h \<longrightarrow> history_offsets h i = [0..expected_of (hs_meta h) i - 1])"
  using assms(1,2)
proof (rule synchronize_inv)
  fix meta anchor t y d
  assume inv: "sync_inv meta {} y" "counts_ok meta" and h: "hr_history r = build_history meta anchor t y d"
  have sel: "hs_meta h = meta" "hs_retrieved_counts h = y_retrieved y"
    "hs_complete h \<Longrightarrow> y_retrieved y = meta_counts meta"
    using assms(3) h by (simp_all add: build_history_def Let_def)
  have i: "i \<in> sensors_of meta" using assms(4) sel(1) by simp
  have o: "history_offsets h i = offsets (oldest_of meta i) i (y_records y)"
    using assms(3) h inv(1) history_offsets_eq by (metis (no_types, lifting) sync_inv_def)
  have s: "sorted_wrt (<) (history_offsets h i)" "int (length (history_offsets h i)) = y_retrieved y ! nat (i - 1)"
    "\<forall>k \<in> set (history_offsets h i). 0 \<le> k \<and> k < expected_of meta i"
    using inv(1) i offsets_nonneg unfolding o by (fastforce simp: sync_inv_def sensor_inv_def Let_def)+
  have "history_offsets h i = [0..expected_of meta i - 1]" if "hs_complete h"
    using strictly_sorted_full [OF s(1,3)] s(2) sel(3) [OF that] by (simp add: expected_of_def)
  then show ?thesis using s sel by simp
qed

lemma py_join_nonempty: "p \<noteq> [] \<Longrightarrow> py_join sep (p # ps) \<noteq> []"
  by (cases ps) simp_all

text \<open>
  C2: a retrieval that is not complete always says why, and one that is complete reports no
  failure: no record is lost silently.
\<close>

theorem history_incomplete_has_reason:
  assumes "synchronize env w = (Inr r, w')" and "device_counts_ok env"
  shows "(hs_complete (hr_history r) \<longleftrightarrow> hs_failure_reason (hr_history r) = None)
    \<and> (hs_complete (hr_history r) \<longleftrightarrow> hr_failures r = [])"
  using assms
proof (rule synchronize_inv)
  fix meta anchor t y d
  assume inv: "sync_inv meta {} y" and c: "counts_ok meta"
    and h: "hr_history r = build_history meta anchor t y d" "hr_failures r = final_failures meta anchor y"
  note full = retrieved_all_without_failure [OF inv]
  have ne: "\<forall>f \<in> set (final_failures meta anchor y). f \<noteq> []"
    using inv by (auto simp: final_failures_def sync_inv_def Let_def)
  have "py_join sep (final_failures meta anchor y) = [] \<longleftrightarrow> final_failures meta anchor y = []" for sep
    using ne py_join_nonempty by (cases "final_failures meta anchor y") auto
  then show ?thesis using h full by (auto simp: build_history_def Let_def)
qed

subsection \<open>Timestamps across the wrap-around\<close>

lemma timedelta_period: "timedelta_us (of_int n * (of_int ms / 1000)) = n * ms * 1000"
proof -
  have "of_int n * (of_int ms / 1000) * 1000000 = (of_int (n * ms * 1000) :: rat)" by simp
  then show ?thesis by (simp only: timedelta_us_def round_of_int)
qed

text \<open>
  C5: a record \<open>k\<close> samples after the anchor, or before it when \<open>k\<close> is negative, is stamped \<open>k\<close>
  sample periods from the anchor's time, for every distance up to half the range of the 32-bit
  sequence and through its wrap-around.
\<close>

theorem timestamp_exact:
  assumes "- 2147483647 \<le> k" "k \<le> 2147483648"
  shows "timestamp anchor_sequence anchor_time (u32_mask (anchor_sequence + k)) (of_int SAMPLE_PERIOD_MS / 1000)
    = anchor_time + k * SAMPLE_PERIOD_MS * 1000"
proof -
  have "u32_mask (anchor_sequence - u32_mask (anchor_sequence + k)) = u32_mask (- k)"
    by (simp add: u32_mask_mod mod_simps)
  moreover have "u32_mask (u32_mask (anchor_sequence + k) - anchor_sequence) = u32_mask k"
    by (simp add: u32_mask_diff)
  moreover have "u32_mask (- k) = (if k \<le> 0 then - k else 4294967296 - k)"
  proof (cases "k \<le> 0")
    case False
    have "u32_mask (- k) = u32_mask (4294967296 - k)" by (simp add: u32_mask_mod)
    then show ?thesis using False assms by (simp add: u32_mask_id)
  qed (use assms in \<open>simp add: u32_mask_id\<close>)
  moreover have "u32_mask k = k" if "0 < k" using assms that by (simp add: u32_mask_id)
  ultimately show ?thesis
    using assms timedelta_period [of "- k" SAMPLE_PERIOD_MS] timedelta_period [of k SAMPLE_PERIOD_MS]
    by (simp add: timestamp_def Let_def)
qed

subsection \<open>A responsive device is read completely\<close>

definition responsive :: "'w sync_env \<Rightarrow> 'w \<Rightarrow> history_meta \<Rightarrow> bool" where
  "responsive env w0 meta \<longleftrightarrow>
     (\<forall>t w. fst (se_get_meta env t w) = Inr meta)
     \<and> counts_ok meta \<and> length (meta_counts meta) \<le> length (meta_oldest_sequences meta)
     \<and> (\<forall>w. \<exists>anchor time. se_anchor env w = (Some anchor, Some time) \<and> cur_boot_id anchor = meta_boot_id meta)
     \<and> (\<forall>w. \<exists>n. fst (se_records_per_chunk env w) = Inr n \<and> 1 \<le> n)
     \<and> (\<forall>w. fst (se_sleep env w) = Inr ())
     \<and> (\<forall>t i a n w. 1 \<le> n \<longrightarrow>
          (\<exists>chunk. fst (se_get_chunk env t i a n w) = Inr chunk \<and> validate_chunk chunk i a n = Inr ()))
     \<and> (\<forall>w. fst (se_monotonic env w) < transfer_deadline_of (fst (se_monotonic env w0))
          (history_sync_budget_seconds (se_settings env)))"

definition going_well :: "sync_state \<Rightarrow> bool" where
  "going_well y \<longleftrightarrow> y_failures y = [] \<and> \<not> y_expired y \<and> distinct (y_pending y)
     \<and> (\<forall>i \<in> set (y_pending y). 0 < entry_of (y_remaining y) i)"

lemma fetch_chunk_first:
  assumes "fst (se_monotonic env w) < deadline"
    and "\<forall>t w. \<exists>chunk. fst (se_get_chunk env t i a n w) = Inr chunk \<and> validate_chunk chunk i a n = Inr ()"
  shows "\<exists>chunk w'. fetch_chunk env deadline i a n (Suc k) e w = (Fetched chunk, w')"
proof -
  obtain now w1 where m: "se_monotonic env w = (now, w1)" by fastforce
  obtain chunk w2 where "se_get_chunk env (deadline - now) i a n w1 = (Inr chunk, w2)"
    "validate_chunk chunk i a n = Inr ()"
    using assms(2) by (metis fst_conv prod.collapse)
  then show ?thesis using assms(1) m by (simp add: timed_call_def Let_def)
qed

lemma sync_turn_responsive:
  assumes r: "responsive env w0 meta" and inv: "sync_inv meta {i} y" and good: "going_well y"
    and left: "0 < entry_of (y_remaining y) i" "i \<notin> set (y_pending y)"
    and d: "deadline = transfer_deadline_of (fst (se_monotonic env w0)) (history_sync_budget_seconds (se_settings env))"
  shows "\<exists>z w'. sync_turn env deadline boot tot i y w = (Inr (True, z), w') \<and> going_well z"
proof -
  obtain cap w1 where cap: "se_records_per_chunk env w = (Inr cap, w1)" "1 \<le> cap"
    using r unfolding responsive_def by (metis prod.collapse)
  define n where "n = min cap (entry_of (y_remaining y) i)"
  have n: "1 \<le> n" "n \<le> entry_of (y_remaining y) i" using cap left by (auto simp: n_def)
  have "\<exists>chunk w'. fetch_chunk env deadline i (entry_of (y_next y) i) n
      (Suc (history_chunk_retry_count (se_settings env))) None w1 = (Fetched chunk, w')"
    by (rule fetch_chunk_first) (use r n d in \<open>auto simp: responsive_def\<close>)
  then obtain chunk w2 where f: "fetch_chunk env deadline i (entry_of (y_next y) i) n
      (Suc (history_chunk_retry_count (se_settings env))) None w1 = (Fetched chunk, w2)" by blast
  obtain now w3 where u: "se_utc_now env w2 = (now, w3)" by fastforce
  obtain w4 where s: "se_sleep env w3 = (Inr (), w4)" using r unfolding responsive_def by (metis prod.collapse)
  let ?z = "stored_chunk tot i (entry_of (y_next y) i) chunk now y"
  have "sync_turn env deadline boot tot i y w = (Inr (True, ?z), w4)"
    using cap f u s by (simp add: sync_turn_def abind_def Let_def turn_fetched_def n_def)
  moreover have "going_well ?z"
    using good fetch_chunk_valid [OF f] n left(2)
    by (auto simp: going_well_def stored_chunk_def Let_def validate_chunk_Inr split: if_splits)
  ultimately show ?thesis by blast
qed

lemma sync_loop_responsive:
  assumes r: "responsive env w0 meta" and inv: "sync_inv meta {} y" and good: "going_well y"
    and d: "deadline = transfer_deadline_of (fst (se_monotonic env w0)) (history_sync_budget_seconds (se_settings env))"
  shows "\<exists>z w'. sync_loop env deadline (meta_boot_id meta) tot y w = (Inr z, w') \<and> going_well z \<and> y_pending z = []"
  using inv good
proof (induction "work_left y" arbitrary: y w rule: less_induct)
  case less
  show ?case
  proof (cases "y_pending y")
    case Nil
    then show ?thesis using less.prems by (subst sync_loop.simps) simp
  next
    case (Cons i p)
    obtain now w1 where m: "se_monotonic env w = (now, w1)" by fastforce
    have now: "now < deadline" using r m d unfolding responsive_def by (metis fst_conv)
    have c: "counts_ok meta" using r by (simp add: responsive_def)
    note pop = inv_pop [OF less.prems(1) Cons]
    have "going_well (y\<lparr>y_pending := p\<rparr>)" "0 < entry_of (y_remaining (y\<lparr>y_pending := p\<rparr>)) i"
      "i \<notin> set (y_pending (y\<lparr>y_pending := p\<rparr>))"
      using less.prems(2) Cons by (auto simp: going_well_def)
    from sync_turn_responsive [OF r pop(1) this d, of "meta_boot_id meta" tot w1] obtain z w2 where
      t: "sync_turn env deadline (meta_boot_id meta) tot i (y\<lparr>y_pending := p\<rparr>) w1 = (Inr (True, z), w2)"
      and z: "going_well z" by blast
    have "sync_loop env deadline (meta_boot_id meta) tot y w = sync_loop env deadline (meta_boot_id meta) tot z w2"
      using Cons m now t by (subst sync_loop.simps) simp
    then show ?thesis
      using less.hyps [OF sync_turn_decreases_loop [OF Cons t] sync_turn_inv [OF pop(1) c pop(2) t] z, of w2] by simp
  qed
qed

lemma initial_sync_ok:
  assumes "length (meta_counts meta) \<le> length (meta_oldest_sequences meta)"
  shows "\<exists>y. initial_sync meta = Inr y \<and> going_well y"
proof -
  let ?ps = "filter (\<lambda>s. 0 < meta_counts meta ! nat (s - 1)) [1..int (length (meta_counts meta))]"
  have "rmap (\<lambda>s. rbind (py_index (meta_oldest_sequences meta) (s - 1)) (\<lambda>v. Inr (s, v))) ?ps
      = (Inr (map (\<lambda>s. (s, meta_oldest_sequences meta ! nat (s - 1))) ?ps) :: (int \<times> int) list res)"
    by (rule rmap_all_Inr) (use assms in \<open>auto simp: py_index_def\<close>)
  then show ?thesis
    by (auto simp: initial_sync_def Let_def going_well_def entry_of_map)
qed

text \<open>
  C3: a device that answers, within the budget, with the metadata of the boot of the last sample
  and with a valid chunk to every request for at least one record, is read completely: the
  retrieval returns, is complete and reports no failure, whatever the sizes of the chunks.
\<close>

theorem history_complete_when_responsive:
  assumes "responsive env w meta"
  shows "\<exists>r w'. synchronize env w = (Inr r, w') \<and> hs_complete (hr_history r) \<and> hr_failures r = []
    \<and> hs_meta (hr_history r) = meta"
proof -
  obtain started wa where m: "se_monotonic env w = (started, wa)" by fastforce
  define deadline where "deadline = transfer_deadline_of started (history_sync_budget_seconds (se_settings env))"
  have c: "counts_ok meta" and early: "fst (se_monotonic env v) < deadline" for v
    using assms m by (auto simp: responsive_def deadline_def)
  obtain w1 where a: "timed_call env deadline (se_get_meta env) wa = (Inr meta, w1)"
  proof -
    obtain now wb where mb: "se_monotonic env wa = (now, wb)" by fastforce
    then have "now < deadline" using early [of wa] by simp
    moreover obtain wc where "se_get_meta env (deadline - now) wb = (Inr meta, wc)"
      using assms unfolding responsive_def by (metis prod.collapse)
    ultimately show ?thesis using mb that by (simp add: timed_call_def Let_def)
  qed
  obtain anchor time where an: "se_anchor env wa = (Some anchor, Some time)" "cur_boot_id anchor = meta_boot_id meta"
    using assms unfolding responsive_def by blast
  obtain y0 where y0: "initial_sync meta = Inr y0" "going_well y0"
    using initial_sync_ok [of meta] assms by (auto simp: responsive_def)
  obtain z w2 where z: "sync_loop env deadline (meta_boot_id meta) (sum_list (meta_counts meta)) y0 w1 = (Inr z, w2)"
    "going_well z" "y_pending z = []"
    using sync_loop_responsive [OF assms inv_initial [OF c y0(1)] y0(2), of deadline "sum_list (meta_counts meta)" w1]
    by (auto simp: deadline_def m)
  have inv: "sync_inv meta {} z" using sync_loop_inv [OF c inv_initial [OF c y0(1)] z(1)] .
  have no: "final_failures meta anchor z = []" using z an by (simp add: final_failures_Nil going_well_def)
  obtain now w3 where mm: "se_monotonic env w2 = (now, w3)" by fastforce
  have "synchronize env w = (Inr \<lparr>hr_history = build_history meta anchor time z (now - started),
      hr_deadline = started + history_sync_budget_seconds (se_settings env), hr_failures = []\<rparr>, w3)"
    using m a an y0 z mm no
    by (simp add: synchronize_def Let_def abind_def deadline_def [symmetric] resolve_anchor_def)
  moreover have "hs_complete (build_history meta anchor time z (now - started))"
    using retrieved_all_without_failure [OF inv no] no by (simp add: build_history_def Let_def)
  moreover have "hs_meta (build_history meta anchor time z (now - started)) = meta"
    by (simp add: build_history_def Let_def)
  ultimately show ?thesis by simp
qed

subsection \<open>The number of requests\<close>

text \<open>The same collaborators, with a counter of the chunk requests they were sent.\<close>

definition uncounted :: "('w, 'a) act \<Rightarrow> ('w \<times> nat, 'a) act" where
  "uncounted m s = (case m (fst s) of (r, w') \<Rightarrow> (r, (w', snd s)))"

definition counting :: "'w sync_env \<Rightarrow> ('w \<times> nat) sync_env" where
  "counting env = \<lparr>se_settings = se_settings env,
     se_monotonic = (\<lambda>s. case se_monotonic env (fst s) of (t, w') \<Rightarrow> (t, (w', snd s))),
     se_utc_now = (\<lambda>s. case se_utc_now env (fst s) of (t, w') \<Rightarrow> (t, (w', snd s))),
     se_sleep = uncounted (se_sleep env),
     se_records_per_chunk = uncounted (se_records_per_chunk env),
     se_get_meta = (\<lambda>t. uncounted (se_get_meta env t)),
     se_get_current = (\<lambda>t. uncounted (se_get_current env t)),
     se_get_chunk = (\<lambda>t i a n s. case se_get_chunk env t i a n (fst s) of (r, w') \<Rightarrow> (r, (w', snd s + 1))),
     se_anchor = (\<lambda>s. se_anchor env (fst s)),
     se_publish = (\<lambda>t c u. uncounted (se_publish env t c u))\<rparr>"

lemma counting_sel [simp]:
  "se_settings (counting env) = se_settings env"
  "snd (snd (se_monotonic (counting env) s)) = snd s"
  "snd (snd (se_utc_now (counting env) s)) = snd s"
  "snd (snd (se_sleep (counting env) s)) = snd s"
  "snd (snd (se_records_per_chunk (counting env) s)) = snd s"
  "snd (snd (se_get_meta (counting env) t s)) = snd s"
  "snd (snd (se_get_current (counting env) t s)) = snd s"
  "snd (snd (se_publish (counting env) t c u s)) = snd s"
  "snd (snd (se_get_chunk (counting env) t i a n s)) = snd s + 1"
  by (simp_all add: counting_def uncounted_def split: prod.splits)

lemma counting_step:
  "se_monotonic (counting env) s = (t, s') \<Longrightarrow> snd s' = snd s"
  "se_utc_now (counting env) s = (u, s') \<Longrightarrow> snd s' = snd s"
  "se_sleep (counting env) s = (x, s') \<Longrightarrow> snd s' = snd s"
  "se_records_per_chunk (counting env) s = (y, s') \<Longrightarrow> snd s' = snd s"
  "timed_call (counting env) d (se_get_meta (counting env)) s = (m, s') \<Longrightarrow> snd s' = snd s"
  subgoal using counting_sel(2) [of env s] by simp
  subgoal using counting_sel(3) [of env s] by simp
  subgoal using counting_sel(4) [of env s] by simp
  subgoal using counting_sel(5) [of env s] by simp
  subgoal
    by (auto simp: timed_call_def Let_def counting_def uncounted_def split: prod.splits if_splits)
  done

lemma fetch_chunk_requests:
  "snd (snd (fetch_chunk (counting env) d i a n attempts e s)) \<le> snd s + attempts"
proof (induction "counting env" d i a n attempts e s rule: fetch_chunk.induct)
  case (2 d i a n attempts e s)
  obtain r s' where c: "timed_call (counting env) d (\<lambda>t. se_get_chunk (counting env) t i a n) s = (r, s')"
    by (metis surj_pair)
  then have "snd s' \<le> snd s + 1"
    by (auto simp: timed_call_def Let_def counting_def split: prod.splits if_splits)
  then show ?case
    using 2 [OF c [symmetric]] c by (force split: sum.splits if_splits)
qed simp

lemma sync_turn_requests:
  assumes "sync_turn (counting env) d boot tot i y s = (r, s')"
  shows "snd s' \<le> snd s + (history_chunk_retry_count (se_settings env) + 1)"
proof -
  obtain cap s1 where cap: "se_records_per_chunk (counting env) s = (cap, s1)" by (metis surj_pair)
  have s1: "snd s1 = snd s" using counting_step(4) [OF cap] .
  show ?thesis
  proof (cases cap)
    case (Inr n)
    let ?n = "min n (entry_of (y_remaining y) i)"
    obtain f s2 where f: "fetch_chunk (counting env) d i (entry_of (y_next y) i) ?n
        (history_chunk_retry_count (se_settings env) + 1) None s1 = (f, s2)" by (metis surj_pair)
    have s2: "snd s2 \<le> snd s + (history_chunk_retry_count (se_settings env) + 1)"
      using fetch_chunk_requests [of env d i "entry_of (y_next y) i" ?n
          "history_chunk_retry_count (se_settings env) + 1" None s1] f s1 by simp
    have "snd s' = snd s2"
      using assms cap Inr f
      by (cases f) (auto simp: sync_turn_def abind_def Let_def turn_failed_def turn_fetched_def
          dest!: counting_step split: option.splits prod.splits sum.splits if_splits)
    then show ?thesis using s2 by simp
  qed (use assms cap s1 in \<open>auto simp: sync_turn_def abind_def\<close>)
qed

lemma sync_loop_requests:
  "sync_loop (counting env) d boot tot y s = (r, s') \<Longrightarrow>
    snd s' \<le> snd s + (history_chunk_retry_count (se_settings env) + 1) * work_left y"
proof (induction "work_left y" arbitrary: y s rule: less_induct)
  case less
  let ?k = "history_chunk_retry_count (se_settings env) + 1"
  show ?case
  proof (cases "y_pending y")
    case Nil
    then show ?thesis using less.prems by (subst (asm) sync_loop.simps) simp
  next
    case (Cons i p)
    obtain now s1 where m: "se_monotonic (counting env) s = (now, s1)" by (metis surj_pair)
    note s1 = counting_step(1) [OF m]
    have w: "1 \<le> work_left y" using Cons by (simp add: work_left_def)
    obtain x s2 where t: "sync_turn (counting env) d boot tot i (y\<lparr>y_pending := p\<rparr>) s1 = (x, s2)"
      by (metis surj_pair)
    have s2: "snd s2 \<le> snd s + ?k" using sync_turn_requests [OF t] s1 by simp
    also have "\<dots> \<le> snd s + ?k * work_left y" using w by (metis add_left_mono mult.right_neutral mult_le_mono2)
    finally have stop: "snd s2 \<le> snd s + ?k * work_left y" .
    show ?thesis
    proof (cases "now < d \<and> (\<exists>z. x = Inr (True, z))")
      case True
      then obtain z where z: "x = Inr (True, z)" by blast
      have dec: "work_left z < work_left y" using sync_turn_decreases_loop [OF Cons t [unfolded z]] .
      have "sync_loop (counting env) d boot tot z s2 = (r, s')"
        using less.prems Cons m t z True by (subst (asm) sync_loop.simps) simp
      from less.hyps [OF dec this] s2 have "snd s' \<le> snd s + ?k * Suc (work_left z)" by simp
      also have "\<dots> \<le> snd s + ?k * work_left y"
        using dec by (metis Suc_leI add_left_mono mult_le_mono2)
      finally show ?thesis .
    next
      case False
      then have "s' = s1 \<or> s' = s2"
        using less.prems Cons m t by (subst (asm) sync_loop.simps) (auto split: sum.splits if_splits bool.splits)
      then show ?thesis using stop s1 by auto
    qed
  qed
qed

lemma resolve_anchor_requests:
  "resolve_anchor (counting env) d meta known s = (r, s') \<Longrightarrow> snd s' = snd s"
  by (auto simp: resolve_anchor_def fresh_anchor_def abind_def counting_def uncounted_def timed_call_def
      Let_def split: option.splits prod.splits sum.splits if_splits)

lemma map_sensor_indices: "map (\<lambda>s. f (xs ! nat (s - 1))) [1..int (length xs)] = map f xs"
  by (rule nth_equalityI) (simp_all add: nth_upto)

lemma work_left_initial:
  assumes "initial_sync meta = Inr y"
  shows "work_left y \<le> length (meta_counts meta) + sum_list (map nat (meta_counts meta))"
proof -
  let ?ps = "filter (\<lambda>s. 0 < meta_counts meta ! nat (s - 1)) [1..int (length (meta_counts meta))]"
  have y: "y_pending y = ?ps" "y_remaining y = map (\<lambda>s. (s, meta_counts meta ! nat (s - 1))) ?ps"
    using assms by (auto simp: initial_sync_def Let_def rbind_Inr_iff)
  have "length ?ps \<le> length [1..int (length (meta_counts meta))]" by (rule length_filter_le)
  moreover have "sum_list (map f (filter P xs)) \<le> sum_list (map f xs)" for f :: "int \<Rightarrow> nat" and P xs
    by (induction xs) auto
  then have "sum_list (map (\<lambda>s. nat (meta_counts meta ! nat (s - 1))) ?ps) \<le> sum_list (map nat (meta_counts meta))"
    using map_sensor_indices [of nat "meta_counts meta"] by metis
  ultimately show ?thesis unfolding work_left_def y by (simp add: comp_def del: set_filter)
qed

text \<open>
  C4: a retrieval sends at most \<open>retries + 1\<close> chunk requests for every announced record and every
  sensor, whatever the device answers: it cannot keep the link busy for ever.
\<close>

theorem history_request_bound:
  assumes "synchronize (counting env) (w, 0) = (Inr r, (w', requests))"
  shows "requests \<le> (history_chunk_retry_count (se_settings env) + 1)
    * (length (meta_counts (hs_meta (hr_history r))) + sum_list (map nat (meta_counts (hs_meta (hr_history r)))))"
  using assms
proof (rule synchronize_Inr)
  fix meta anchor anchor_time y y0 elapsed deadline w1 w2 w3
  assume a: "timed_call (counting env) deadline (se_get_meta (counting env))
      (snd (se_monotonic (counting env) (w, 0))) = (Inr meta, w1)"
    and b: "resolve_anchor (counting env) deadline meta
      (se_anchor (counting env) (snd (se_monotonic (counting env) (w, 0)))) w1 = (Inr (anchor, anchor_time), w2)"
    and c: "initial_sync meta = Inr y0"
    and d: "sync_loop (counting env) deadline (meta_boot_id meta) (sum_list (meta_counts meta)) y0 w2 = (Inr y, w3)"
    and e: "hr_history r = build_history meta anchor anchor_time y elapsed"
    and f: "(w', requests) = snd (se_monotonic (counting env) w3)"
  let ?k = "history_chunk_retry_count (se_settings env) + 1"
  have "snd w2 = 0" using counting_step(5) [OF a] resolve_anchor_requests [OF b] by simp
  moreover have "requests = snd w3" using f counting_sel(2) [of env w3] by (metis snd_conv)
  ultimately have "requests \<le> ?k * work_left y0" using sync_loop_requests [OF d] by simp
  also have "\<dots> \<le> ?k * (length (meta_counts meta) + sum_list (map nat (meta_counts meta)))"
    using work_left_initial [OF c] by (rule mult_le_mono2)
  finally show ?thesis using e by (simp add: build_history_def Let_def)
qed

subsection \<open>What the client guarantees to the retrieval\<close>

text \<open>
  The metadata that \<open>get_history_meta\<close> returns meets the hypothesis on the counts: the packet
  layout has unsigned 16-bit fields for them.
\<close>

lemma decode_history_meta_counts:
  assumes "decode_history_meta r = Inr m"
  shows "counts_ok m" "length (meta_counts m) = 2" "length (meta_oldest_sequences m) = 2"
proof -
  obtain vals where u: "unpack_layout ''history_meta_response'' (resp_payload r) = Inr vals"
    and m: "m = \<lparr>meta_boot_id = fld vals ''boot_id'', meta_newest_sequence = fld vals ''newest_sequence'',
            meta_counts = map (\<lambda>s. fld vals (sensor_field s ''count'')) sensor_ids,
            meta_oldest_sequences = map (\<lambda>s. fld vals (sensor_field s ''oldest_sequence'')) sensor_ids\<rparr>"
    using assms by (auto simp: decode_history_meta_def rbind_Inr_iff split: if_splits)
  have ids: "sensor_ids = [1, 2]"
    "sensor_field 1 ''count'' = ''sensor_1_count''" "sensor_field 2 ''count'' = ''sensor_2_count''" by code_simp+
  have "0 \<le> fld vals ''sensor_1_count'' \<and> fld vals ''sensor_1_count'' < 65536
      \<and> 0 \<le> fld vals ''sensor_2_count'' \<and> fld vals ''sensor_2_count'' < 65536"
    using u unpack_layout_iff [OF layout_lookup(5) layout_struct_eqs(5)]
    by (auto simp: map_fst_Cons_iff values_fit_def fld_def)
  then show "counts_ok m" "length (meta_counts m) = 2" "length (meta_oldest_sequences m) = 2"
    by (simp_all add: m counts_ok_def ids)
qed

lemma get_history_meta_counts: "get_history_meta g s = (Inr m, s') \<Longrightarrow> counts_ok m"
  using decode_history_meta_counts(1) by (auto simp: get_history_meta_def abind_Inr alift_def)

subsection \<open>Witnesses\<close>

definition steady_meta :: history_meta where
  "steady_meta = \<lparr>meta_boot_id = 9, meta_newest_sequence = 0, meta_counts = [2, 1],
     meta_oldest_sequences = [4294967295, 7]\<rparr>"

definition steady_anchor :: current_snapshot where
  "steady_anchor = \<lparr>cur_boot_id = 9, cur_newest_sequence = 0, cur_sensors = [], cur_average_c = None\<rparr>"

text \<open>A device that serves one record per request, across the wrap-around of the sequence.\<close>

definition steady_env :: "unit sync_env" where
  "steady_env = \<lparr>se_settings = CONFIG_service, se_monotonic = (\<lambda>w. (0, w)), se_utc_now = (\<lambda>w. (0, w)),
     se_sleep = areturn (), se_records_per_chunk = areturn 1, se_get_meta = (\<lambda>_. areturn steady_meta),
     se_get_current = (\<lambda>_. areturn steady_anchor),
     se_get_chunk = (\<lambda>_ i a n. areturn \<lparr>chunk_sensor_id = i, chunk_start_sequence = a,
        chunk_records = [\<lparr>rec_sequence = a, rec_temperature_c = None, rec_data_status = DISCONNECTED_DS\<rparr>]\<rparr>),
     se_anchor = (\<lambda>_. (Some steady_anchor, Some 1000000)), se_publish = (\<lambda>_ _ _. areturn ())\<rparr>"

lemma steady_counts: "device_counts_ok steady_env" "device_counts_ok (counting steady_env)"
  by (auto simp: device_counts_ok_def steady_env_def counting_def uncounted_def steady_meta_def counts_ok_def)

lemma steady_returns:
  "\<exists>r. synchronize steady_env () = (Inr r, ()) \<and> sensors_of (hs_meta (hr_history r)) = {1, 2}
    \<and> hs_complete (hr_history r)"
proof -
  have "(case synchronize steady_env () of
      (Inr r, _) \<Rightarrow> length (meta_counts (hs_meta (hr_history r))) = 2 \<and> hs_complete (hr_history r)
    | (Inl _, _) \<Rightarrow> False)" by code_simp
  moreover have "{1..2::int} = {1, 2}" by auto
  ultimately show ?thesis by (auto simp: sensors_of_def split: prod.splits sum.splits)
qed

theorem history_records_in_window_witness:
  "\<exists>r. synchronize steady_env () = (Inr r, ()) \<and> history_offsets (hr_history r) 1 = [0..expected_of (hs_meta (hr_history r)) 1 - 1]"
proof -
  obtain r where r: "synchronize steady_env () = (Inr r, ())" "1 \<in> sensors_of (hs_meta (hr_history r))"
    "hs_complete (hr_history r)" using steady_returns by auto
  show ?thesis using history_records_in_window [OF r(1) steady_counts(1) refl r(2)] r(1,3) by auto
qed

theorem history_incomplete_has_reason_witness:
  "\<exists>r. synchronize steady_env () = (Inr r, ()) \<and> hr_failures r = [] \<and> hs_failure_reason (hr_history r) = None"
proof -
  obtain r where r: "synchronize steady_env () = (Inr r, ())" "hs_complete (hr_history r)"
    using steady_returns by auto
  show ?thesis using history_incomplete_has_reason [OF r(1) steady_counts(1)] r by auto
qed

theorem timestamp_exact_witness:
  "timestamp 4294967295 0 2 (of_int SAMPLE_PERIOD_MS / 1000) = 3000000"
proof -
  have "u32_mask (4294967295 + 3) = 2" by (simp add: u32_mask_mod)
  then show ?thesis using timestamp_exact [of 3 4294967295 0] by (simp add: SAMPLE_PERIOD_MS_def)
qed

theorem history_complete_when_responsive_witness:
  "\<exists>r w'. synchronize steady_env () = (Inr r, w') \<and> hs_complete (hr_history r) \<and> hr_failures r = []
    \<and> hs_meta (hr_history r) = steady_meta"
proof (rule history_complete_when_responsive)
  have "transfer_deadline_of 0 10 = 9" by (simp add: transfer_deadline_of_def)
  then show "responsive steady_env () steady_meta"
    by (simp add: responsive_def steady_env_def steady_meta_def steady_anchor_def counts_ok_def
        CONFIG_service_def validate_chunk_def)
qed

theorem history_request_bound_witness:
  "\<exists>r w' k. synchronize (counting steady_env) ((), 0) = (Inr r, (w', k))
    \<and> k \<le> 3 * (length (meta_counts (hs_meta (hr_history r))) + sum_list (map nat (meta_counts (hs_meta (hr_history r)))))"
proof -
  have "(case synchronize (counting steady_env) ((), 0) of (Inr r, _) \<Rightarrow> True | (Inl _, _) \<Rightarrow> False)"
    by code_simp
  then obtain r w' k where r: "synchronize (counting steady_env) ((), 0) = (Inr r, (w', k))"
    by (cases "synchronize (counting steady_env) ((), 0)") (auto split: sum.splits)
  have "history_chunk_retry_count (se_settings steady_env) + 1 = 3"
    by (simp add: steady_env_def CONFIG_service_def)
  then show ?thesis using history_request_bound [OF r] r by auto
qed

end
