(* ===== verification/Ble_Props.thy ===== *)
theory Ble_Props
  imports Ble_Client
begin

section \<open>What the GATT client guarantees\<close>

text \<open>
  The link after failures and after \<open>close\<close>, the size of history chunks against the MTU, the
  matching of responses to requests, the compact fallback, and the discovery filter; each over an
  arbitrary transport.
\<close>

subsection \<open>The size of a history chunk\<close>

text \<open>
  On every link whose MTU is at least the Bluetooth minimum of 23, the number of records the
  client asks for is between one and the protocol maximum, and the whole response, its header,
  its prefix and that many records of the format in use, fits in one ATT read response.
\<close>

theorem chunk_fits_mtu:
  assumes "23 \<le> mtu_size g s"
  shows "let n = records_per_chunk g s;
             is_compact = (cl_compact_supported (fst s) \<noteq> Some False);
             size = (if is_compact then int COMPACT_HISTORY_RECORD_SIZE else int HISTORY_RECORD_SIZE)
         in 1 \<le> n
          \<and> n \<le> (if is_compact then MAX_COMPACT_HISTORY_RECORDS_PER_CHUNK else MAX_HISTORY_RECORDS_PER_CHUNK)
          \<and> int HEADER_SIZE + int HISTORY_CHUNK_PREFIX_SIZE + n * size + 1 \<le> mtu_size g s"
  using assms by (auto simp: records_per_chunk_def Let_def config_defs max_def min_def)

subsection \<open>Matching responses to requests\<close>

lemma exchange_Inr:
  assumes "exchange_packet g packet opcode rid allow s = (Inr r, s')"
  obtains h raw w' where "cl_client (fst s) = Some h" "g_write g h packet (snd s) = (Inr (), w')"
    "g_read g h w' = (Inr raw, snd s')" "fst s' = fst s"
    "parse_response raw (Some opcode) (Some rid) allow = Inr r"
  using assms
  by (auto simp: exchange_packet_def on_snd_def gatt_failed_def abind_def split: if_splits option.splits
      prod.splits sum.splits)

text \<open>
  C7: a request returns a response only if the transport accepted the request and delivered a
  packet that carries the opcode and the identifier of this very request and the status success.
\<close>

theorem request_answered_by_its_response:
  assumes "request g opcode payload s = (Inr r, s')"
  shows "resp_opcode r = opcode \<and> resp_status r = SUCCESS
    \<and> resp_request_id r = u16_mask (cl_request_id (fst s) + 1)
    \<and> (\<exists>h packet raw w' flags hd. cl_client (fst s) = Some h
        \<and> build_request opcode (resp_request_id r) payload = Inr packet
        \<and> g_write g h packet (snd s) = (Inr (), w') \<and> g_read g h w' = (Inr raw, snd s')
        \<and> raw = hd @ resp_payload r
        \<and> pack_layout ''header'' (hdr PROTOCOL_VERSION (opcode_value opcode) (resp_request_id r)
            (int (length (resp_payload r))) 0 flags) = Inr hd)"
proof -
  let ?id = "u16_mask (cl_request_id (fst s) + 1)"
  let ?s = "((fst s)\<lparr>cl_request_id := ?id\<rparr>, snd s)"
  obtain packet where b: "build_request opcode ?id payload = Inr packet"
    and x: "exchange_packet g packet opcode ?id False ?s = (Inr r, s')"
    using assms by (auto simp: request_def next_request_id_def Let_def abind_def alift_def
        split: sum.splits prod.splits)
  from exchange_Inr [OF x] obtain h raw w' where e: "cl_client (fst ?s) = Some h"
    "g_write g h packet (snd s) = (Inr (), w')" "g_read g h w' = (Inr raw, snd s')"
    "parse_response raw (Some opcode) (Some ?id) False = Inr r" by (metis snd_conv)
  from e(4) obtain flags hd where p: "raw = hd @ resp_payload r" "resp_opcode r = opcode"
    "resp_request_id r = ?id" "resp_status r = SUCCESS"
    "pack_layout ''header'' (hdr PROTOCOL_VERSION (opcode_value (resp_opcode r)) (resp_request_id r)
      (int (length (resp_payload r))) (status_value (resp_status r)) flags) = Inr hd"
    by (auto simp: parse_response_iff)
  then have "pack_layout ''header'' (hdr PROTOCOL_VERSION (opcode_value opcode) (resp_request_id r)
      (int (length (resp_payload r))) 0 flags) = Inr hd" by simp
  then show ?thesis using e b p by auto
qed

subsection \<open>Assertions on the client that its operations keep\<close>

text \<open>
  The exchanges and the disconnections change the client only by dropping the link; the other
  operations also advance the request identifier and store a passkey or the chunk format. Only
  \<open>connect\<close> sets the link. What is closed under these updates is kept by every operation.
\<close>

locale link_invariant =
  fixes P :: "'h client \<Rightarrow> bool"
  assumes drop_link: "P c \<Longrightarrow> P (c\<lparr>cl_client := None\<rparr>)"
begin

lemma keeps_transport: "keeps (\<lambda>s. P (fst s)) (on_snd m)"
  by (rule keeps_on_snd) simp

lemma keeps_disconnect: "keeps (\<lambda>s. P (fst s)) (disconnect_current g)"
  by (auto simp: keeps_def disconnect_current_def drop_link split: option.splits)

lemma keeps_gatt_failed: "keeps (\<lambda>s. P (fst s)) (gatt_failed g operation e)"
  by (auto simp: gatt_failed_def intro!: keeps_intros keeps_disconnect)

lemma gatt_failed_P: "P (fst s) \<Longrightarrow> P (fst (snd (gatt_failed g operation e s)))"
  using keepsD [OF keeps_gatt_failed, of s] by simp

lemma keeps_exchange: "keeps (\<lambda>s. P (fst s)) (exchange_packet g packet opcode rid allow)"
  by (auto simp: keeps_def exchange_packet_def on_snd_def gatt_failed_P
      split: option.splits prod.splits sum.splits)

end

locale client_invariant = link_invariant +
  assumes set_request_id: "P c \<Longrightarrow> P (c\<lparr>cl_request_id := i\<rparr>)"
    and set_passkey: "P c \<Longrightarrow> P (c\<lparr>cl_passkey := k\<rparr>)"
    and set_compact: "P c \<Longrightarrow> P (c\<lparr>cl_compact_supported := b\<rparr>)"
begin

lemma keeps_next_id: "keeps (\<lambda>s. P (fst s)) next_request_id"
  by (simp add: keeps_def next_request_id_def Let_def set_request_id)

lemma keeps_credential: "keeps (\<lambda>s. P (fst s)) (credential passkey)"
  by (auto simp: keeps_def credential_def set_passkey split: option.splits sum.splits)

lemma keeps_set_compact: "keeps (\<lambda>s. P (fst s)) (set_compact_supported b)"
  by (simp add: keeps_def set_compact_supported_def set_compact)

lemmas keeps_steps = keeps_intros keeps_transport keeps_disconnect keeps_exchange keeps_next_id
  keeps_credential keeps_set_compact

lemma keeps_request: "keeps (\<lambda>s. P (fst s)) (request g opcode payload)"
  unfolding request_def by (intro keeps_steps)

lemma keeps_authenticate: "keeps (\<lambda>s. P (fst s)) (authenticate g passkey)"
  unfolding authenticate_def begin_authentication_def by (intro keeps_steps keeps_request)

lemma keeps_queries:
  "keeps (\<lambda>s. P (fst s)) (get_current g)" "keeps (\<lambda>s. P (fst s)) (get_history_meta g)"
  "keeps (\<lambda>s. P (fst s)) (request_bond_reset g)" "keeps (\<lambda>s. P (fst s)) (set_display g i b)"
  unfolding get_current_def get_history_meta_def request_bond_reset_def set_display_def
  by (intro keeps_steps keeps_request)+

lemma keeps_chunk_exchange: "keeps (\<lambda>s. P (fst s)) (chunk_exchange g c i a n)"
  unfolding chunk_exchange_def Let_def by (intro keeps_steps)

lemma keeps_chunk_loop: "P (fst s) \<Longrightarrow> P (fst (snd (chunk_loop g i a n c s)))"
proof (induction g i a n c s rule: chunk_loop.induct)
  case (1 g i a n c s)
  obtain r t where x: "chunk_exchange g c i a n s = (r, t)" by (cases "chunk_exchange g c i a n s")
  have t: "P (fst t)" using keepsD [OF keeps_chunk_exchange "1.prems"] x by (metis snd_conv)
  have t': "P (fst (snd (set_compact_supported b t)))" for b
    using t by (rule keepsD [OF keeps_set_compact])
  show ?case
    using "1.IH" [OF x [symmetric]] t t'
    by (subst chunk_loop.simps) (auto simp: x abind_def set_compact_supported_def split: sum.splits)
qed

lemma keeps_pairing: "keeps (\<lambda>s. P (fst s)) (pair_client g cfg passkey)"
  "keeps (\<lambda>s. P (fst s)) (forget_pairing g cfg)"
  unfolding pair_client_def forget_pairing_def by (intro keeps_steps; simp add: keeps_steps)+

lemmas after_operation = keeps_disconnect [THEN keepsD] keeps_pairing [THEN keepsD]
  keeps_authenticate [THEN keepsD] keeps_queries [THEN keepsD] keeps_chunk_loop

end

text \<open>A client that was closed, and the link of a client once it can no longer be another one.\<close>

definition closed_down :: "'h client \<Rightarrow> bool" where
  "closed_down c \<longleftrightarrow> cl_closed c \<and> cl_client c = None"

interpretation closed: client_invariant closed_down
  by unfold_locales (simp_all add: closed_down_def)

interpretation linked: client_invariant "\<lambda>c. cl_client c = None \<or> cl_client c = link" for link
  by unfold_locales auto

interpretation counted: link_invariant "\<lambda>c. cl_request_id c = i \<and> cl_compact_supported c = b" for i b
  by unfold_locales simp

subsection \<open>After a failure and after closing\<close>

definition transport_failure :: "('h, 'w) gatt \<Rightarrow> 'h \<Rightarrow> bytes \<Rightarrow> 'w \<Rightarrow> string \<Rightarrow> exc \<Rightarrow> bool" where
  "transport_failure g h packet w operation e \<longleftrightarrow>
     (case g_write g h packet w of
        (Inl e', _) \<Rightarrow> operation = ''request write'' \<and> e' = e
      | (Inr _, w') \<Rightarrow> operation = ''response read'' \<and> fst (g_read g h w') = Inl e)"

text \<open>
  C9: when the write of a request or the read of its response fails on an established link, the
  client has no link afterwards and the caller gets a \<open>RuntimeError\<close> that names the failed step,
  unless the release of the link was itself cancelled.
\<close>

theorem transport_failure_drops_link:
  assumes "is_connected g s" and "cl_client (fst s) = Some h"
    and "transport_failure g h packet (snd s) operation e" and "is_exception e"
  shows "case exchange_packet g packet opcode rid allow s of (r, s') \<Rightarrow>
    cl_client (fst s') = None
    \<and> (\<exists>e'. r = Inl e' \<and> (\<not> is_exception e' \<or>
         exc_class e' = RuntimeErrorC \<and> exc_cause e' = Some e
         \<and> exc_text e' = ''GATT '' @ operation @ '' failed: '' @ describe_ble_error e))"
  using assms
  by (auto simp: transport_failure_def exchange_packet_def on_snd_def gatt_failed_def disconnect_current_def
      asuppress_def acatch_def abind_def is_exception_def split: option.splits prod.splits sum.splits if_splits)

text \<open>The operations of a client, with their arguments; their results are dropped.\<close>

datatype client_op =
  OpConnect "string option" bool bool | OpDisconnect | OpClose | OpPair "string option" | OpForget
| OpAuthenticate "string option" | OpCurrent | OpMeta | OpChunk int int int | OpDisplay int bool
| OpBondReset

fun client_exec :: "('h, 'w) gatt \<Rightarrow> client_setup \<Rightarrow> client_op \<Rightarrow> 'h client \<times> 'w \<Rightarrow> 'h client \<times> 'w" where
  "client_exec g cfg (OpConnect p ens auth) s = snd (connect_client g cfg p ens auth s)"
| "client_exec g cfg OpDisconnect s = snd (disconnect_current g s)"
| "client_exec g cfg OpClose s = snd (close_client g s)"
| "client_exec g cfg (OpPair p) s = snd (pair_client g cfg p s)"
| "client_exec g cfg OpForget s = snd (forget_pairing g cfg s)"
| "client_exec g cfg (OpAuthenticate p) s = snd (authenticate g p s)"
| "client_exec g cfg OpCurrent s = snd (get_current g s)"
| "client_exec g cfg OpMeta s = snd (get_history_meta g s)"
| "client_exec g cfg (OpChunk i a n) s = snd (get_history_chunk g i a n s)"
| "client_exec g cfg (OpDisplay i b) s = snd (set_display g i b s)"
| "client_exec g cfg OpBondReset s = snd (request_bond_reset g s)"

lemma closed_exec: "closed_down (fst s) \<Longrightarrow> closed_down (fst (client_exec g cfg op s))"
proof (cases op)
  case (OpConnect p ens auth)
  then show "closed_down (fst s) \<Longrightarrow> ?thesis" by (simp add: connect_client_def closed_down_def)
next
  case OpClose
  then show "closed_down (fst s) \<Longrightarrow> ?thesis" by (simp add: close_client_def disconnect_current_def closed_down_def)
qed (simp_all add: closed.after_operation get_history_chunk_def)

text \<open>
  C10: a closed client never has a link again: after \<open>close\<close>, even one whose disconnection raised,
  no sequence of operations opens a link, and every attempt to connect is refused.
\<close>

theorem closed_client_stays_down:
  "let s' = fold (client_exec g cfg) ops (snd (close_client g s)) in
     cl_client (fst s') = None
     \<and> connect_client g cfg passkey ensure auth s' = (raise RuntimeErrorC ''client has been closed'', s')"
proof -
  have "closed_down (fst (snd (close_client g s)))"
    by (auto simp: close_client_def disconnect_current_def closed_down_def split: option.splits)
  then have "closed_down (fst (fold (client_exec g cfg) ops (snd (close_client g s))))"
    by (induction ops arbitrary: s rule: rev_induct) (simp_all add: closed_exec)
  then show ?thesis by (simp add: Let_def connect_client_def closed_down_def)
qed

lemma acatch_Inl_split: "acatch m p h s = (Inl e, t) \<longleftrightarrow>
    (\<exists>e' s'. m s = (Inl e', s') \<and> (if p e' then h e' s' = (Inl e, t) else e = e' \<and> t = s'))"
  by (auto simp: acatch_def split: prod.splits sum.splits)

lemma acatch_Inr_split: "acatch m p h s = (Inr v, t) \<longleftrightarrow>
    m s = (Inr v, t) \<or> (\<exists>e' s'. m s = (Inl e', s') \<and> p e' \<and> h e' s' = (Inr v, t))"
  by (auto simp: acatch_def split: prod.splits sum.splits)

text \<open>An attempt to open the link leaves the client as it was until it has succeeded.\<close>

lemma keeps_client_on_snd: "keeps (\<lambda>t. fst t = c) (on_snd m)"
  by (rule keeps_on_snd) simp

lemma keeps_open_attempt: "keeps (\<lambda>t. fst t = c) (open_attempt g h)"
proof -
  have "keeps (\<lambda>t. fst t = c) (check_service g h)" by (simp add: keeps_def check_service_def)
  then show ?thesis
    unfolding open_attempt_def open_failed_def dispose_partial_client_def
    by (intro keeps_intros keeps_client_on_snd)
qed

lemma open_client_outcome:
  "\<exists>w. (\<exists>e. open_client g s = (Inl e, (fst s, w)))
    \<or> (\<exists>h. open_client g s = (Inr (), ((fst s)\<lparr>cl_client := Some h\<rparr>, w)))"
proof -
  obtain r t where Pair: "on_snd (g_create g) s = (r, t)" by (cases "on_snd (g_create g) s") blast
  have t: "fst t = fst s" using keepsD [OF keeps_client_on_snd, of s "fst s" "g_create g"] Pair by simp
  show ?thesis
  proof (cases r)
    case (Inr h)
    obtain r' u where u: "open_attempt g h t = (r', u)" by (cases "open_attempt g h t")
    then have "fst u = fst s" using keepsD [OF keeps_open_attempt, of t "fst s" g h] t by simp
    then show ?thesis using Pair Inr u by (cases r'; cases u) (auto simp: open_client_def abind_def)
  qed (use Pair t in \<open>cases t; auto simp: open_client_def abind_def\<close>)
qed

lemma asuppress_disconnect: "cl_client (fst (snd (asuppress (disconnect_current g) s))) = None"
  by (auto simp: asuppress_def acatch_def abind_def disconnect_current_def on_snd_def
      split: option.splits prod.splits sum.splits if_splits)

lemma pair_link: "cl_client (fst (snd (pair_client g cfg p s))) \<in> {None, cl_client (fst s)}"
  using linked.after_operation(2) [of s "cl_client (fst s)" g cfg p] by auto

lemma credential_link [simp]: "cl_client (fst (snd (credential p s))) = cl_client (fst s)"
  by (auto simp: credential_def split: option.splits sum.splits)

lemma credential_Inr: "credential p s = (Inr k, t) \<Longrightarrow> cl_passkey (fst t) = Some k"
  by (auto simp: credential_def validate_passkey_def split: option.splits if_splits)

lemma authenticate_keeps_link:
  assumes "authenticate g p s = (Inr (), t)"
  shows "cl_client (fst t) = cl_client (fst s)" "cl_client (fst t) \<noteq> None"
  using assms
  by (auto simp: authenticate_def begin_authentication_def request_def abind_Inr next_request_id_def
      credential_def alift_def Let_def elim!: exchange_Inr split: option.splits sum.splits if_splits)

lemma connect_steps:
  assumes "connect_client g cfg passkey ensure True s = (r, s')" "\<not> is_connected g s"
  shows "(\<exists>e. r = Inl e \<and> cl_client (fst s') \<in> {None, cl_client (fst s)})
    \<or> (\<exists>k h t. \<not> cl_closed (fst s) \<and> cl_client (fst t) = Some h
        \<and> acatch (authenticate g (Some k)) is_exception
            (\<lambda>e. abind (asuppress (disconnect_current g)) (\<lambda>_. araise e)) t = (r, s'))"
proof (cases "cl_closed (fst s) \<or> (\<exists>e. cs_factory cfg = MissingBleak e)")
  case True
  then obtain e where "connect_client g cfg passkey ensure True s = (Inl e, s)"
    using assms(2) by (cases "cl_closed (fst s)") (auto simp: connect_client_def)
  then show ?thesis using assms(1) by auto
next
  case False
  let ?auth = "\<lambda>k. acatch (authenticate g (Some k)) is_exception
    (\<lambda>e. abind (asuppress (disconnect_current g)) (\<lambda>_. araise e))"
  have run: "abind (credential passkey) (\<lambda>k.
       abind (if ensure then pair_client g cfg (Some k) else areturn ()) (\<lambda>_.
       abind (open_client g) (\<lambda>_. ?auth k))) s = (r, s')"
    using assms False by (auto simp: connect_client_def split: client_factory.splits)
  obtain r1 s1 where c: "credential passkey s = (r1, s1)" by (cases "credential passkey s") blast
  then have l1: "cl_client (fst s1) = cl_client (fst s)" using credential_link [of passkey s] by simp
  show ?thesis
  proof (cases r1)
    case (Inr k)
    obtain r2 s2 where p: "(if ensure then pair_client g cfg (Some k) else areturn ()) s1 = (r2, s2)"
      by (cases "(if ensure then pair_client g cfg (Some k) else areturn ()) s1") blast
    have l2: "cl_client (fst s2) \<in> {None, cl_client (fst s)}"
      using p l1 pair_link [of g cfg "Some k" s1] by (auto split: if_splits)
    show ?thesis
    proof (cases r2)
      case (Inr u)
      have run': "abind (open_client g) (\<lambda>_. ?auth k) s2 = (r, s')"
        using run c p \<open>r1 = Inr k\<close> Inr by (simp add: abind_def)
      obtain w where "(\<exists>e. open_client g s2 = (Inl e, (fst s2, w)))
          \<or> (\<exists>h. open_client g s2 = (Inr (), ((fst s2)\<lparr>cl_client := Some h\<rparr>, w)))"
        using open_client_outcome [of g s2] by (elim exE)
      then show ?thesis
      proof (elim disjE exE)
        fix e assume "open_client g s2 = (Inl e, (fst s2, w))"
        then have "r = Inl e \<and> s' = (fst s2, w)" using run' by (simp add: abind_def)
        then show ?thesis using l2 by simp
      next
        fix h assume "open_client g s2 = (Inr (), ((fst s2)\<lparr>cl_client := Some h\<rparr>, w))"
        then have "?auth k ((fst s2)\<lparr>cl_client := Some h\<rparr>, w) = (r, s')"
          using run' by (simp add: abind_def)
        moreover have "cl_client (fst ((fst s2)\<lparr>cl_client := Some h\<rparr>, w)) = Some h" by simp
        ultimately show ?thesis using False by blast
      qed
    qed (use run c p \<open>r1 = Inr k\<close> l2 in \<open>auto simp: abind_def\<close>)
  qed (use run c l1 in \<open>auto simp: abind_def\<close>)
qed


subsection \<open>The compact history format\<close>

lemma chunk_exchange_counts:
  assumes "chunk_exchange g c i a n s = (r, t)"
  shows "cl_request_id (fst t) = u16_mask (cl_request_id (fst s) + 1)"
    "cl_compact_supported (fst t) = cl_compact_supported (fst s)"
proof -
  let ?id = "u16_mask (cl_request_id (fst s) + 1)"
  let ?P = "\<lambda>u. cl_request_id (fst u) = ?id \<and> cl_compact_supported (fst u) = cl_compact_supported (fst s)"
  have rest: "keeps ?P (abind (areads (records_per_chunk g)) (\<lambda>capacity.
      abind (alift (build_history_chunk_request c ?id i a (min n capacity)))
        (\<lambda>packet. exchange_packet g packet (if c then GET_HISTORY_CHUNK_COMPACT else GET_HISTORY_CHUNK) ?id False)))"
    by (intro keeps_intros counted.keeps_exchange)
  have "?P t"
    using assms keepsD [OF rest, of "((fst s)\<lparr>cl_request_id := ?id\<rparr>, snd s)"]
    by (simp add: chunk_exchange_def abind_def [of next_request_id] next_request_id_def Let_def)
  then show "cl_request_id (fst t) = ?id" "cl_compact_supported (fst t) = cl_compact_supported (fst s)"
    by auto
qed

lemma u16_mask_add: "u16_mask (u16_mask x + y) = u16_mask (x + y)"
  by (simp add: u16_mask_mod mod_simps)

text \<open>
  Retrieving a chunk costs one request, or two, never more: the second one is sent only when
  the compact format was not yet known to be unsupported, and from then on it is known to be. A
  retrieved chunk leaves the format of its response recorded.
\<close>

theorem history_chunk_costs_two_requests:
  assumes "get_history_chunk g i a n s = (r, s')"
  shows "cl_request_id (fst s') = u16_mask (cl_request_id (fst s) + 1)
         \<and> (\<forall>chunk. r = Inr chunk \<longrightarrow>
              cl_compact_supported (fst s') = Some (cl_compact_supported (fst s) \<noteq> Some False))
    \<or> cl_request_id (fst s') = u16_mask (cl_request_id (fst s) + 2)
         \<and> cl_compact_supported (fst s) \<noteq> Some False \<and> cl_compact_supported (fst s') = Some False"
proof -
  let ?c = "cl_compact_supported (fst s) \<noteq> Some False"
  obtain r1 t where x: "chunk_exchange g ?c i a n s = (r1, t)"
    by (cases "chunk_exchange g ?c i a n s") blast
  note first = chunk_exchange_counts [OF x]
  have run: "chunk_loop g i a n ?c s = (r, s')" using assms by (simp add: get_history_chunk_def)
  show ?thesis
  proof (cases "\<exists>e. r1 = Inl e \<and> ?c \<and> is_protocol_error_with INVALID_COMMAND e")
    case True
    let ?t = "((fst t)\<lparr>cl_compact_supported := Some False\<rparr>, snd t)"
    have second: "chunk_loop g i a n False ?t = (r, s')"
      using run x True by (subst (asm) chunk_loop.simps) (auto simp: abind_def set_compact_supported_def)
    obtain r2 u where y: "chunk_exchange g False i a n ?t = (r2, u)"
      by (cases "chunk_exchange g False i a n ?t") blast
    have "cl_request_id (fst s') = cl_request_id (fst u) \<and> cl_compact_supported (fst s') = Some False"
      using second y chunk_exchange_counts(2) [OF y]
      by (subst (asm) chunk_loop.simps) (auto simp: abind_def set_compact_supported_def split: sum.splits)
    then show ?thesis
      using True first chunk_exchange_counts(1) [OF y] by (auto simp: u16_mask_add add.commute [of "cl_request_id (fst s)"])
  next
    case False
    then have "fst s' = fst t \<and> (\<exists>e. r = Inl e)
        \<or> cl_request_id (fst s') = cl_request_id (fst t) \<and> cl_compact_supported (fst s') = Some ?c"
      using run x by (subst (asm) chunk_loop.simps)
        (auto simp: abind_def set_compact_supported_def split: sum.splits if_splits)
    then show ?thesis using first by auto
  qed
qed

subsection \<open>Stale responses\<close>

lemma parse_response_determines_id:
  assumes "parse_response raw oc (Some i) b = Inr r" shows "resp_request_id r = i"
  using assms by (auto simp: parse_response_iff)

lemma parse_response_unique:
  assumes "parse_response raw oc i b = Inr r" "parse_response raw oc' i' b' = Inr r'"
  shows "r = r'"
  using assms
  by (auto simp: parse_response_def Let_def rbind_Inr_iff split: if_splits option.splits)

lemma u16_mask_shift: "0 < k \<Longrightarrow> k < 65536 \<Longrightarrow> u16_mask (x - k) \<noteq> u16_mask x"
  by (simp add: u16_mask_mod mod_eq_dvd_iff zdvd_not_zless)

text \<open>
  C8: a packet that answered one of the 65535 requests before this one never passes for its
  response: if the transport delivers it again, the request raises.
\<close>

theorem stale_response_rejected:
  assumes "0 < k" "k < 65536"
    and "parse_response raw (Some opcode') (Some (u16_mask (cl_request_id (fst s) + 1 - k))) allow = Inr stale"
    and "\<And>w. fst (g_read g h w) = Inr raw"
    and "cl_client (fst s) = Some h"
  shows "\<exists>e. fst (request g opcode payload s) = Inl e"
proof (rule ccontr)
  assume no: "\<nexists>e. fst (request g opcode payload s) = Inl e"
  obtain x s' where "request g opcode payload s = (x, s')"
    by (cases "request g opcode payload s") blast
  with no obtain r where run: "request g opcode payload s = (Inr r, s')" by (cases x) auto
  let ?id = "u16_mask (cl_request_id (fst s) + 1)"
  define t where "t = ((fst s)\<lparr>cl_request_id := ?id\<rparr>, snd s)"
  have client: "cl_client (fst t) = Some h" using assms(5) by (simp add: t_def)
  obtain packet where x: "exchange_packet g packet opcode ?id False t = (Inr r, s')"
    using run by (auto simp: t_def request_def next_request_id_def Let_def abind_def alift_def
        split: sum.splits prod.splits)
  from exchange_Inr [OF x] obtain h' raw' w' where "cl_client (fst t) = Some h'"
    "g_read g h' w' = (Inr raw', snd s')" and p: "parse_response raw' (Some opcode) (Some ?id) False = Inr r"
    by blast
  then have "raw' = raw" using assms(4) [of w'] client by simp
  then have "r = stale" using p assms(3) parse_response_unique by blast
  then have "?id = u16_mask (cl_request_id (fst s) + 1 - k)"
    using parse_response_determines_id [OF p] parse_response_determines_id [OF assms(3)] by simp
  then show False using u16_mask_shift [OF assms(1,2), of "cl_request_id (fst s) + 1"] by simp
qed

subsection \<open>Discovery\<close>

definition advertises :: "scan_entry \<Rightarrow> bool" where
  "advertises entry \<longleftrightarrow>
     (\<exists>adv us u. scan_advertisement entry = Some adv \<and> adv_service_uuids adv = Some us
        \<and> u \<in> set us \<and> py_lower u = SERVICE_UUID)"

lemma scan_result_iff: "scan_result entry \<noteq> None \<longleftrightarrow> advertises entry"
  by (auto simp: scan_result_def advertises_def Let_def split: option.splits) (metis imageI)+

lemma scan_result_address: "scan_result entry = Some d \<Longrightarrow> dt_address d = scan_address entry"
  by (auto simp: scan_result_def Let_def split: option.splits if_splits prod.splits)

lemma display_name_nonempty: "display_name n a \<noteq> []"
  by (auto simp: display_name_def DEVICE_NAME_PREFIX_def Let_def split: option.splits)

lemma scan_result_name: "scan_result entry = Some d \<Longrightarrow> dt_name d \<noteq> []"
  by (auto simp: scan_result_def Let_def display_name_nonempty split: option.splits if_splits prod.splits)

lemma addresses_of_scan:
  "map dt_address (List.map_filter scan_result es) = map scan_address (filter advertises es)"
proof (induction es)
  case (Cons e es)
  then show ?case
    using scan_result_iff [of e] scan_result_address [of e]
    by (cases "scan_result e") (simp_all add: List.map_filter_simps)
qed (simp add: List.map_filter_simps)

text \<open>
  Discovery returns exactly the devices that advertise the thermometer service, whatever the
  case of the identifier and whatever their names, one entry per scanned device, sorted by name
  without regard to case; every entry has a name.
\<close>

theorem discover_exact:
  assumes "discover None (Inr entries) = Inr ds"
  shows "mset (map dt_address ds) = mset (map scan_address (filter advertises entries))
    \<and> sorted (map (\<lambda>d. py_lower (dt_name d)) ds) \<and> (\<forall>d \<in> set ds. dt_name d \<noteq> [])"
proof -
  have ds: "ds = sort_key (\<lambda>item. py_lower (dt_name item)) (List.map_filter scan_result entries)"
    using assms by (simp add: discover_def)
  have "mset (map dt_address ds) = mset (map dt_address (List.map_filter scan_result entries))"
    by (simp add: ds)
  moreover have "sorted (map (\<lambda>d. py_lower (dt_name d)) ds)"
    using sorted_sort_key [of "\<lambda>item. py_lower (dt_name item)"] by (simp add: ds)
  moreover have "dt_name d \<noteq> []" if "d \<in> set ds" for d
    using that by (auto simp: ds List.map_filter_def scan_result_name)
  ultimately show ?thesis using addresses_of_scan by metis
qed

subsection \<open>Witnesses\<close>

text \<open>A transport that answers every request with the next packet of a script.\<close>

fun scripted_read :: "(bytes list, bytes) act" where
  "scripted_read [] = (raise OSErrorC ''no response'', [])"
| "scripted_read (p # ps) = (Inr p, ps)"

definition scripted_gatt :: "(unit, bytes list) gatt" where
  "scripted_gatt = \<lparr>g_create = areturn (), g_connect = (\<lambda>_. areturn ()),
     g_has_service = (\<lambda>_ _. Some True), g_is_connected = (\<lambda>_ _. True),
     g_disconnect = (\<lambda>_. areturn ()), g_dispose = (\<lambda>_. areturn ()),
     g_write = (\<lambda>_ _. areturn ()), g_read = (\<lambda>_. scripted_read), g_name = (\<lambda>_ _. None),
     g_max_write = (\<lambda>_ _. Some 244), g_mtu = (\<lambda>_ _. None), g_pair = (\<lambda>_ _ _. areturn ()),
     g_forget = (\<lambda>_. areturn ()), g_hmac = (\<lambda>_ _. replicate 32 0)\<rparr>"

definition linked_client :: "unit client" where
  "linked_client = \<lparr>cl_passkey = Some ''123456'', cl_compact_supported = None, cl_client = Some (),
     cl_request_id = 0, cl_closed = False\<rparr>"

definition sample_setup :: client_setup where
  "sample_setup = \<lparr>cs_target_address = Some ''AA:BB:CC:DD:EE:FF'', cs_target_name = None,
     cs_factory = OtherFactory, cs_host = detect_ble_host ''linux'' Map.empty\<rparr>"

lemmas script_defs = scripted_gatt_def linked_client_def sample_setup_def

theorem chunk_fits_mtu_witness:
  "records_per_chunk scripted_gatt (linked_client, []) = 72
    \<and> int HEADER_SIZE + int HISTORY_CHUNK_PREFIX_SIZE + 72 * 3 + 1 \<le> mtu_size scripted_gatt (linked_client, [])"
proof -
  have "23 \<le> mtu_size scripted_gatt (linked_client, [])" and
    n: "records_per_chunk scripted_gatt (linked_client, []) = 72" by code_simp+
  from chunk_fits_mtu [OF this(1)] n show ?thesis
    by (simp add: Let_def linked_client_def size_defs)
qed

theorem request_answered_by_its_response_witness:
  "\<exists>r s'. request scripted_gatt RESET_BOND [] (linked_client, [[2, 7, 1, 0, 0, 0, 0, 1]]) = (Inr r, s')
     \<and> resp_opcode r = RESET_BOND \<and> resp_request_id r = 1"
proof -
  let ?s = "(linked_client, [[2, 7, 1, 0, 0, 0, 0, 1 :: byte]])"
  have ok: "(case fst (request scripted_gatt RESET_BOND [] ?s) of Inr _ \<Rightarrow> True | Inl _ \<Rightarrow> False)"
    by code_simp
  then obtain r s' where run: "request scripted_gatt RESET_BOND [] ?s = (Inr r, s')"
    by (cases "request scripted_gatt RESET_BOND [] ?s") (auto split: sum.splits)
  have "u16_mask (cl_request_id (fst ?s) + 1) = 1" by code_simp
  then show ?thesis using request_answered_by_its_response [OF run] run by auto
qed

theorem transport_failure_drops_link_witness:
  "\<exists>s'. snd (exchange_packet scripted_gatt [] GET_CURRENT 1 False (linked_client, [])) = s'
     \<and> cl_client (fst s') = None"
proof -
  have c: "is_connected scripted_gatt (linked_client, [])" "cl_client (fst (linked_client, [] :: bytes list)) = Some ()"
    "transport_failure scripted_gatt () [] (snd (linked_client, [])) ''response read''
       (Exc OSErrorC ''no response'' None [] None)" "is_exception (Exc OSErrorC ''no response'' None [] None)"
    by (simp_all add: is_connected_def script_defs transport_failure_def is_exception_def)
  from transport_failure_drops_link [OF c, of GET_CURRENT 1 False] show ?thesis
    by (auto split: prod.splits)
qed

definition auth_script :: "bytes list" where
  "auth_script = [[2, 5, 1, 0, 26, 0, 0, 1] @ replicate 26 7, [2, 6, 2, 0, 0, 0, 0, 1]]"


theorem history_chunk_costs_two_requests_witness:
  "\<exists>r s'. get_history_chunk scripted_gatt 1 5 1 (linked_client,
       [[2, 8, 1, 0, 0, 0, 1, 1], [2, 4, 2, 0, 14, 0, 0, 1] @ [1, 5, 0, 0, 0, 1, 7] @ [5, 0, 0, 0, 10, 0, 0]])
     = (Inr r, s') \<and> cl_request_id (fst s') = 2 \<and> cl_compact_supported (fst s') = Some False"
proof -
  let ?s = "(linked_client, [[2, 8, 1, 0, 0, 0, 1, 1 :: byte],
    [2, 4, 2, 0, 14, 0, 0, 1] @ [1, 5, 0, 0, 0, 1, 7] @ [5, 0, 0, 0, 10, 0, 0]])"
  have ok: "(case get_history_chunk scripted_gatt 1 5 1 ?s of
      (Inr _, s') \<Rightarrow> cl_request_id (fst s') = 2 | (Inl _, _) \<Rightarrow> False)" by code_simp
  then obtain r s' where run: "get_history_chunk scripted_gatt 1 5 1 ?s = (Inr r, s')"
    and two: "cl_request_id (fst s') = 2"
    by (cases "get_history_chunk scripted_gatt 1 5 1 ?s") (auto split: sum.splits)
  have "u16_mask (cl_request_id (fst ?s) + 1) = 1" "u16_mask (cl_request_id (fst ?s) + 2) = 2"
    by code_simp+
  then show ?thesis using history_chunk_costs_two_requests [OF run] run two by auto
qed

theorem stale_response_rejected_witness:
  "\<exists>e. fst (request (scripted_gatt\<lparr>g_read := \<lambda>_ w. (Inr [2, 7, 0, 0, 0, 0, 0, 1], w)\<rparr>) RESET_BOND []
     (linked_client, [])) = Inl e"
proof -
  let ?old = "u16_mask (cl_request_id (fst (linked_client, [] :: bytes list)) + 1 - 1)"
  have "(case parse_response [2, 7, 0, 0, 0, 0, 0, 1] (Some RESET_BOND) (Some ?old) False of
      Inr _ \<Rightarrow> True | Inl _ \<Rightarrow> False)" by code_simp
  then obtain r where "parse_response [2, 7, 0, 0, 0, 0, 0, 1] (Some RESET_BOND) (Some ?old) False = Inr r"
    by (auto split: sum.splits)
  from stale_response_rejected [OF _ _ this,
      of "scripted_gatt\<lparr>g_read := \<lambda>_ w. (Inr [2, 7, 0, 0, 0, 0, 0, 1], w)\<rparr>" "()"]
  show ?thesis by (simp add: linked_client_def)
qed

theorem discover_exact_witness:
  "\<exists>ds. discover None (Inr [\<lparr>scan_device_name = None, scan_address = ''AA:BB:CC:DD:EE:FF'',
       scan_device_rssi = None, scan_advertisement = Some \<lparr>adv_local_name = Some ''Unknown'',
         adv_service_uuids = Some [''7E570001-7E57-4A11-9D8B-5F21D8A0C001''], adv_rssi = Some (- 60)\<rparr>\<rparr>])
     = Inr ds \<and> map dt_address ds = [''AA:BB:CC:DD:EE:FF'']"
proof -
  let ?e = "\<lparr>scan_device_name = None, scan_address = ''AA:BB:CC:DD:EE:FF'',
       scan_device_rssi = None, scan_advertisement = Some \<lparr>adv_local_name = Some ''Unknown'',
         adv_service_uuids = Some [''7E570001-7E57-4A11-9D8B-5F21D8A0C001''], adv_rssi = Some (- 60)\<rparr>\<rparr>"
  have l: "py_lower ''7E570001-7E57-4A11-9D8B-5F21D8A0C001'' = SERVICE_UUID" by code_simp
  obtain ds where d: "discover None (Inr [?e]) = Inr ds" by (simp add: discover_def)
  have "filter advertises [?e] = [?e]" using l by (simp add: advertises_def)
  then have "mset (map dt_address ds) = {#''AA:BB:CC:DD:EE:FF''#}"
    using discover_exact [OF d] by simp
  then show ?thesis using d by (metis mset_single_iff_right)
qed

end
