(* ===== verification/Credentials.thy ===== *)
theory Credentials
  imports Protocol_Props Actions "HOL-Library.List_Lexorder" "HOL-Library.Char_ord"
begin

section \<open>The credential registry\<close>

text \<open>
  \<open>backend/pc_client/credential_registry.py\<close>: Bluetooth addresses in canonical form, and the
  registry of enrolled devices, a dictionary in memory backed by a CSV file that is replaced
  atomically. The file is the list of rows of its fields (the quoting of the \<open>csv\<close> module, which
  reads back the rows it writes, is below the model). A step of the write that raises is an
  input, and so are the texts of timestamps: \<open>isoformat\<close>, \<open>fromisoformat\<close> and the time zone test
  are the fields of a record, and what the code relies on is \<open>iso_ok\<close>.
\<close>

subsection \<open>Bluetooth addresses\<close>

definition is_hex_char :: "char \<Rightarrow> bool" where
  "is_hex_char c \<longleftrightarrow> is_ascii_digit c \<or> in_range 65 70 (code_of c) \<or> in_range 97 102 (code_of c)"

text \<open>
  \<open>int(s, 16)\<close> of a text of letters and digits succeeds on hexadecimal digits, also behind the
  prefix \<open>0x\<close>.
\<close>

definition int16_accepts :: "string \<Rightarrow> bool" where
  "int16_accepts s \<longleftrightarrow>
     s \<noteq> [] \<and> list_all is_hex_char s
     \<or> (case s of a # b # r \<Rightarrow> a = CHR ''0'' \<and> (b = CHR ''x'' \<or> b = CHR ''X'') \<and> r \<noteq> [] \<and> list_all is_hex_char r
        | _ \<Rightarrow> False)"

definition mac_address_hex :: "string \<Rightarrow> string res" where
  "mac_address_hex address =
     (let compact' = filter py_isalnum_char address in
      if length compact' \<noteq> 12 then value_error (''invalid Bluetooth address: '' @ address)
      else if \<not> int16_accepts compact' then
        raise_from ValueErrorC (''invalid Bluetooth address: '' @ address)
          (Exc ValueErrorC (''invalid literal for int() with base 16: '' @ py_repr compact') None [] None)
      else Inr (py_upper compact'))"

fun pairs_of :: "string \<Rightarrow> string list" where
  "pairs_of (a # b # r) = [a, b] # pairs_of r"
| "pairs_of [a] = [[a]]"
| "pairs_of [] = []"

definition normalize_mac_address :: "string \<Rightarrow> string res" where
  "normalize_mac_address address =
     rbind (mac_address_hex address) (\<lambda>compact'. Inr (py_join '':'' (pairs_of compact')))"

subsection \<open>Records, rows and the file\<close>

record 't device_credential =
  dc_mac_address :: string
  dc_device_name :: string
  dc_pairing_passkey :: string
  dc_enrolled_at :: 't
  dc_last_connected_at :: 't

record 't iso_codec =
  iso_text :: "'t \<Rightarrow> string"
  iso_parse :: "string \<Rightarrow> 't option"
  iso_aware :: "'t \<Rightarrow> bool"

text \<open>\<open>fromisoformat\<close> reads back what \<open>isoformat\<close> wrote.\<close>

definition iso_ok :: "'t iso_codec \<Rightarrow> bool" where
  "iso_ok ic \<longleftrightarrow> (\<forall>t. iso_parse ic (iso_text ic t) = Some t)"

type_synonym csv_rows = "string list list"

record csv_disk =
  disk_file :: "csv_rows option"
  disk_temporary :: "csv_rows option"

record 't registry =
  reg_records :: "(string, 't device_credential) dict"
  reg_disk :: csv_disk

definition CSV_FIELDS :: "string list" where
  "CSV_FIELDS = [''mac_address'', ''device_name'', ''pairing_passkey'', ''enrolled_at_utc'',
     ''last_connected_at_utc'']"

definition row_of :: "'t iso_codec \<Rightarrow> 't device_credential \<Rightarrow> string list" where
  "row_of ic r = [dc_mac_address r, dc_device_name r, dc_pairing_passkey r,
     iso_text ic (dc_enrolled_at r), iso_text ic (dc_last_connected_at r)]"

text \<open>
  One data row: \<open>csv.DictReader\<close> gives \<open>None\<close> for the columns a short row lacks, which makes it
  invalid, and ignores extra columns.
\<close>

definition parse_row :: "'t iso_codec \<Rightarrow> nat \<Rightarrow> string list \<Rightarrow> (string \<times> 't device_credential) res" where
  "parse_row ic row_number row =
     (let invalid = value_error (''credential registry row '' @ show_nat row_number @ '' is invalid'') in
      case row of
        address # name # key # enrolled # last_connected # _ \<Rightarrow>
          (case (normalize_mac_address address, validate_passkey key, iso_parse ic enrolled, iso_parse ic last_connected) of
             (Inr normalized, Inr passkey, Some e, Some c) \<Rightarrow>
               if iso_aware ic e \<and> iso_aware ic c then
                 Inr (normalized, \<lparr>dc_mac_address = normalized, dc_device_name = name,
                   dc_pairing_passkey = passkey, dc_enrolled_at = e, dc_last_connected_at = c\<rparr>)
               else invalid
           | _ \<Rightarrow> invalid)
      | _ \<Rightarrow> invalid)"

fun parse_rows ::
    "'t iso_codec \<Rightarrow> nat \<Rightarrow> csv_rows \<Rightarrow> (string, 't device_credential) dict
     \<Rightarrow> (string, 't device_credential) dict res" where
  "parse_rows ic n [] records = Inr records"
| "parse_rows ic n (row # rows) records =
     (if row = [] then parse_rows ic n rows records
      else rbind (parse_row ic n row) (\<lambda>(address, r).
             parse_rows ic (n + 1) rows (dict_set address r records)))"

definition read_all ::
    "'t iso_codec \<Rightarrow> string \<Rightarrow> csv_rows option \<Rightarrow> (string, 't device_credential) dict res" where
  "read_all ic path file =
     (case file of
        None \<Rightarrow> Inr []
      | Some rows \<Rightarrow>
          (case rows of
             [] \<Rightarrow> value_error (''credential registry has an invalid header: '' @ path)
           | header # rest \<Rightarrow>
               if header \<noteq> CSV_FIELDS then
                 value_error (''credential registry has an invalid header: '' @ path)
               else parse_rows ic 2 rest []))"

text \<open>
  The steps of \<open>_write_all\<close> that can raise: making the directory or the temporary file, writing
  it, changing its mode, renaming it over the registry; and the removal of a left-over temporary
  file in the \<open>finally\<close> clause. A write comes with the first step that raises, if one does.
\<close>

datatype write_step = StepDirectory | StepCreate | StepWrite | StepMode | StepReplace

record write_fault =
  wf_step :: "(write_step \<times> exc) option"
  wf_unlink :: "exc option"

definition no_fault :: write_fault where
  "no_fault = \<lparr>wf_step = None, wf_unlink = None\<rparr>"

definition rows_of :: "'t iso_codec \<Rightarrow> (string, 't device_credential) dict \<Rightarrow> csv_rows" where
  "rows_of ic records = CSV_FIELDS #
     map (\<lambda>address. row_of ic (the (dict_get records address))) (sorted_list_of_set (set (dict_keys records)))"

definition write_all ::
    "'t iso_codec \<Rightarrow> write_fault \<Rightarrow> (string, 't device_credential) dict \<Rightarrow> (csv_disk, unit) act" where
  "write_all ic fault records d =
     (let rows = rows_of ic records;
          cleanup = (\<lambda>e d'. case wf_unlink fault of
             None \<Rightarrow> (Inl e, d'\<lparr>disk_temporary := None\<rparr>) | Some e' \<Rightarrow> (Inl e', d'))
      in case wf_step fault of
           Some (StepDirectory, e) \<Rightarrow> (Inl e, d)
         | Some (StepCreate, e) \<Rightarrow> (Inl e, d)
         | Some (_, e) \<Rightarrow> cleanup e (d\<lparr>disk_temporary := Some rows\<rparr>)
         | None \<Rightarrow> (Inr (), d\<lparr>disk_file := Some rows, disk_temporary := None\<rparr>))"

subsection \<open>The operations of the registry\<close>

definition open_registry :: "'t iso_codec \<Rightarrow> string \<Rightarrow> csv_disk \<Rightarrow> 't registry res" where
  "open_registry ic path d =
     rbind (read_all ic path (disk_file d)) (\<lambda>records. Inr \<lparr>reg_records = records, reg_disk = d\<rparr>)"

definition lookup_credential :: "string \<Rightarrow> 't registry \<Rightarrow> 't device_credential option res" where
  "lookup_credential address g =
     rbind (normalize_mac_address address) (\<lambda>normalized. Inr (dict_get (reg_records g) normalized))"

definition list_all_credentials :: "'t registry \<Rightarrow> 't device_credential list" where
  "list_all_credentials g =
     map (\<lambda>address. the (dict_get (reg_records g) address)) (sorted_list_of_set (set (dict_keys (reg_records g))))"

text \<open>\<open>with self._lock\<close>: write the updated dictionary, then keep it.\<close>

definition commit_records ::
    "'t iso_codec \<Rightarrow> write_fault \<Rightarrow> (string, 't device_credential) dict \<Rightarrow> ('t registry, unit) act" where
  "commit_records ic fault updated g =
     (case write_all ic fault updated (reg_disk g) of
        (Inl e, d) \<Rightarrow> (Inl e, g\<lparr>reg_disk := d\<rparr>)
      | (Inr _, d) \<Rightarrow> (Inr (), \<lparr>reg_records = updated, reg_disk = d\<rparr>))"

definition save_verified ::
    "'t iso_codec \<Rightarrow> write_fault \<Rightarrow> string \<Rightarrow> string \<Rightarrow> string \<Rightarrow> 't
     \<Rightarrow> ('t registry, 't device_credential) act" where
  "save_verified ic fault address device_name passkey observed_at g =
     (case rbind (normalize_mac_address address) (\<lambda>normalized.
           rbind (validate_passkey passkey) (\<lambda>key. Inr (normalized, key))) of
        Inl e \<Rightarrow> (Inl e, g)
      | Inr (normalized, key) \<Rightarrow>
          if \<not> iso_aware ic observed_at then
            (value_error ''connected_at_utc must be timezone-aware'', g)
          else
            let r = \<lparr>dc_mac_address = normalized, dc_device_name = device_name, dc_pairing_passkey = key,
                  dc_enrolled_at = (case dict_get (reg_records g) normalized of
                     Some existing \<Rightarrow> dc_enrolled_at existing | None \<Rightarrow> observed_at),
                  dc_last_connected_at = observed_at\<rparr>
            in abind (commit_records ic fault (dict_set normalized r (reg_records g))) (\<lambda>_. areturn r) g)"

definition delete_credential :: "'t iso_codec \<Rightarrow> write_fault \<Rightarrow> string \<Rightarrow> ('t registry, bool) act" where
  "delete_credential ic fault address g =
     (case normalize_mac_address address of
        Inl e \<Rightarrow> (Inl e, g)
      | Inr normalized \<Rightarrow>
          if dict_get (reg_records g) normalized \<noteq> None then
            abind (commit_records ic fault (dict_del normalized (reg_records g))) (\<lambda>_. areturn True) g
          else (Inr False, g))"

subsection \<open>Resetting every pairing\<close>

text \<open>
  \<open>backend/pc_client/pairing_reset.py\<close>: every enrolled device is unpaired from the operating
  system (\<open>forget\<close>, an action on a world of its own) and its credential deleted only then; a
  device that cannot be unpaired keeps its credential and is reported at the end.
\<close>

fun reset_loop ::
    "(string \<Rightarrow> ('g, bool) act) \<Rightarrow> (string \<Rightarrow> ('w, unit) act) \<Rightarrow> 't device_credential list \<Rightarrow> string list
     \<Rightarrow> ('g \<times> 'w, string list) act" where
  "reset_loop delete forget [] failures s = (Inr failures, s)"
| "reset_loop delete forget (r # rs) failures s =
     (case forget (dc_mac_address r) (snd s) of
        (Inl e, w) \<Rightarrow>
          if is_exception e then
            let message = py_strip (exc_text e);
                detail = (if message \<noteq> [] then message else class_name (exc_class e))
            in reset_loop delete forget rs
                 (failures @ [dc_device_name r @ '' ('' @ dc_mac_address r @ ''): '' @ detail]) (fst s, w)
          else (Inl e, (fst s, w))
      | (Inr _, w) \<Rightarrow>
          (case delete (dc_mac_address r) (fst s) of
             (Inl e, g) \<Rightarrow> (Inl e, (g, w))
           | (Inr _, g) \<Rightarrow> reset_loop delete forget rs failures (g, w)))"

definition reset_all_pairings ::
    "'t iso_codec \<Rightarrow> (string \<Rightarrow> write_fault) \<Rightarrow> (string \<Rightarrow> ('w, unit) act)
     \<Rightarrow> ('t registry \<times> 'w, 't device_credential list) act" where
  "reset_all_pairings ic faults forget s =
     (let records = list_all_credentials (fst s) in
      abind (reset_loop (\<lambda>k. delete_credential ic (faults k) k) forget records []) (\<lambda>failures.
        if failures \<noteq> [] then
          araise (Exc RuntimeErrorC (''could not remove every thermometer bond:'' @ [CHR 0x0A] @ ''- ''
            @ py_join ([CHR 0x0A] @ ''- '') failures) None [] None)
        else areturn records) s)"

text \<open>The command: its exit status, with the backend of the host as \<open>_forgetter\<close> chooses it.\<close>

definition forgetter :: "string \<Rightarrow> string \<Rightarrow> 'f \<Rightarrow> 'f \<Rightarrow> 'f res" where
  "forgetter pairing family winrt_forget bluez_forget =
     (if pairing = ''winrt'' then Inr winrt_forget
      else if pairing = ''bluez'' then Inr bluez_forget
      else raise RuntimeErrorC (''pairing reset is not supported on '' @ family))"

definition reset_main ::
    "'t iso_codec \<Rightarrow> (string \<Rightarrow> write_fault) \<Rightarrow> (string \<Rightarrow> ('w, unit) act) res \<Rightarrow> bool
     \<Rightarrow> ('t registry \<times> 'w, int) act" where
  "reset_main ic faults chosen all_flag s =
     (if \<not> all_flag then (raise (OtherErrorC ''SystemExit'') ''2'', s)
      else if list_all_credentials (fst s) = [] then (Inr 0, s)
      else case chosen of
        Inl e \<Rightarrow> (Inr 1, s)
      | Inr forget \<Rightarrow>
          acatch (abind (reset_all_pairings ic faults forget) (\<lambda>_. areturn 0)) is_exception
            (\<lambda>_. areturn 1) s)"

end
