(* ===== verification/Credential_Props.thy ===== *)
theory Credential_Props
  imports Credentials
begin

section \<open>What the credential registry guarantees\<close>

text \<open>
  Canonical addresses, the agreement of the file with the dictionary after any sequence of
  operations and faults, and the removal of the operating-system pairings
  (\<open>backend/pc_client/pairing_reset.py\<close>), which uses the registry through the contract of the
  locale \<open>credential_store\<close>.
\<close>

subsection \<open>Canonical addresses\<close>

definition mac_char :: "char \<Rightarrow> bool" where
  "mac_char c \<longleftrightarrow> is_hex_char c \<or> c = CHR ''x'' \<or> c = CHR ''X''"

lemma code_of_x: "code_of d = 88 \<longleftrightarrow> d = CHR ''X''" "code_of d = 120 \<longleftrightarrow> d = CHR ''x''"
proof -
  have "d = char_of (code_of d)" by (simp add: code_of_def)
  moreover have "char_of (88 :: nat) = CHR ''X''" "char_of (120 :: nat) = CHR ''x''"
    "code_of (CHR ''X'') = 88" "code_of (CHR ''x'') = 120" by code_simp+
  ultimately show "code_of d = 88 \<longleftrightarrow> d = CHR ''X''" "code_of d = 120 \<longleftrightarrow> d = CHR ''x''" by metis+
qed

lemma mac_char_upper:
  assumes "mac_char c"
  shows "mac_char (upper_char c)" "upper_char (upper_char c) = upper_char c" "py_isalnum_char (upper_char c)"
    "is_hex_char c \<Longrightarrow> is_hex_char (upper_char c)" "py_isalnum_char c"
proof -
  have hex: "is_hex_char d \<longleftrightarrow> in_range 48 57 (code_of d) \<or> in_range 65 70 (code_of d) \<or> in_range 97 102 (code_of d)" for d
    by (simp add: is_hex_char_def is_ascii_digit_def)
  have m: "mac_char d \<longleftrightarrow> in_range 48 57 (code_of d) \<or> in_range 65 70 (code_of d) \<or> in_range 97 102 (code_of d)
      \<or> code_of d = 120 \<or> code_of d = 88" for d
    unfolding mac_char_def hex code_of_x by blast
  have up: "code_of (upper_char d) = (if in_range 97 122 (code_of d) then code_of d - 32 else code_of d)"
    if "mac_char d" for d
    using that unfolding m upper_char_def by (auto simp: is_ascii_lower_def in_range_def)
  show "mac_char (upper_char c)" using assms unfolding m up [OF assms] by (auto simp: in_range_def)
  show "is_hex_char c \<Longrightarrow> is_hex_char (upper_char c)" unfolding hex up [OF assms] by (auto simp: in_range_def)
  have al: "py_isalnum_char d" if "in_range 48 57 (code_of d) \<or> in_range 65 90 (code_of d) \<or> in_range 97 122 (code_of d)" for d
    using that by (auto simp: py_isalnum_char_def py_isdigit_char_def is_ascii_digit_def is_ascii_upper_def is_ascii_lower_def)
  show "py_isalnum_char (upper_char c)" "py_isalnum_char c"
    using assms unfolding m by (auto intro!: al simp: up [OF assms] in_range_def)
  have "code_of (upper_char (upper_char c)) = code_of (upper_char c)"
    using assms unfolding up [OF \<open>mac_char (upper_char c)\<close>] up [OF assms] m by (auto simp: in_range_def)
  then show "upper_char (upper_char c) = upper_char c" by (simp add: code_of_def)
qed

lemma int16_mac_chars: "int16_accepts s \<Longrightarrow> list_all mac_char s"
  by (auto simp: int16_accepts_def list_all_iff mac_char_def is_hex_char_def is_ascii_digit_def
      code_of_def in_range_def split: list.splits)

lemma int16_upper: "int16_accepts s \<Longrightarrow> int16_accepts (py_upper s)"
proof -
  have hex: "list_all is_hex_char (map upper_char r)" if "list_all is_hex_char r" for r
    using that mac_char_upper(4) by (auto simp: list_all_iff mac_char_def)
  have hex1: "is_hex_char (upper_char c)" if "is_hex_char c" for c
    using that mac_char_upper(4) by (simp add: mac_char_def)
  have "upper_char (CHR ''0'') = CHR ''0''" "upper_char (CHR ''x'') = CHR ''X''"
    "upper_char (CHR ''X'') = CHR ''X''" by code_simp+
  then show "int16_accepts s \<Longrightarrow> ?thesis"
    by (auto simp: int16_accepts_def py_upper_def hex hex1 split: list.splits)
qed

lemma filter_join_pairs:
  "filter py_isalnum_char (py_join '':'' (pairs_of s)) = filter py_isalnum_char s"
proof (induction s rule: pairs_of.induct)
  case (1 a b r)
  have "\<not> py_isalnum_char (CHR '':'')" by code_simp
  with 1 show ?case by (cases "pairs_of r") auto
qed simp_all

lemma normalize_Inr:
  assumes "normalize_mac_address a = Inr n"
  shows "normalize_mac_address n = Inr n"
proof -
  let ?c = "filter py_isalnum_char a"
  from assms have c: "length ?c = 12" "int16_accepts ?c" "n = py_join '':'' (pairs_of (py_upper ?c))"
    by (auto simp: normalize_mac_address_def mac_address_hex_def Let_def rbind_Inr_iff split: if_splits)
  have chars: "list_all mac_char ?c" using c(2) by (rule int16_mac_chars)
  have f: "filter py_isalnum_char n = py_upper ?c"
    unfolding c(3) filter_join_pairs using chars mac_char_upper(3)
    by (auto simp: filter_id_conv py_upper_def list_all_iff)
  have "py_upper (py_upper ?c) = py_upper ?c"
    using chars mac_char_upper(2) by (auto simp: py_upper_def list_all_iff)
  then show ?thesis
    using c(1) int16_upper [OF c(2)] by (simp add: normalize_mac_address_def mac_address_hex_def f Let_def) (simp add: c(3))
qed

subsection \<open>The file agrees with the dictionary\<close>

definition record_ok :: "'t iso_codec \<Rightarrow> string \<Rightarrow> 't device_credential \<Rightarrow> bool" where
  "record_ok ic k r \<longleftrightarrow> dc_mac_address r = k \<and> normalize_mac_address k = Inr k
     \<and> validate_passkey (dc_pairing_passkey r) = Inr (dc_pairing_passkey r)
     \<and> iso_aware ic (dc_enrolled_at r) \<and> iso_aware ic (dc_last_connected_at r)"

definition records_ok :: "'t iso_codec \<Rightarrow> (string, 't device_credential) dict \<Rightarrow> bool" where
  "records_ok ic d \<longleftrightarrow> (\<forall>k r. dict_get d k = Some r \<longrightarrow> record_ok ic k r)"

lemma validate_passkey_same: "validate_passkey p = Inr q \<Longrightarrow> q = p"
  by (auto simp: validate_passkey_def split: if_splits)

lemma validate_passkey_twice: "validate_passkey p = Inr q \<Longrightarrow> validate_passkey q = Inr q"
  by (auto simp: validate_passkey_def split: if_splits)

lemma parse_row_ok: "parse_row ic n row = Inr (k, r) \<Longrightarrow> record_ok ic k r"
  by (auto simp: parse_row_def record_ok_def Let_def dest: normalize_Inr validate_passkey_twice
      split: list.splits sum.splits option.splits if_splits)

lemma parse_rows_ok: "records_ok ic d \<Longrightarrow> parse_rows ic n rows d = Inr d' \<Longrightarrow> records_ok ic d'"
proof (induction ic n rows d rule: parse_rows.induct)
  case (2 ic n row rows d)
  show ?case
  proof (cases "row = []")
    case False
    with "2.prems" obtain k r where r: "parse_row ic n row = Inr (k, r)"
      "parse_rows ic (n + 1) rows (dict_set k r d) = Inr d'" by (auto simp: rbind_Inr_iff)
    have "records_ok ic (dict_set k r d)"
      using "2.prems"(1) parse_row_ok [OF r(1)] by (auto simp: records_ok_def)
    then show ?thesis using "2.IH"(2) [OF False r(1)] r by auto
  qed (use 2 in auto)
qed simp

lemma read_all_ok: "read_all ic path f = Inr d \<Longrightarrow> records_ok ic d"
  using parse_rows_ok [of ic "[]"]
  by (auto simp: read_all_def split: option.splits list.splits if_splits) (simp_all add: records_ok_def)

lemma parse_row_of:
  assumes "iso_ok ic" "record_ok ic k r" shows "parse_row ic n (row_of ic r) = Inr (k, r)"
  using assms by (auto simp: parse_row_def row_of_def record_ok_def iso_ok_def Let_def)

lemma parse_rows_map:
  assumes "iso_ok ic" "\<forall>k \<in> set ks. record_ok ic k (f k)"
  shows "parse_rows ic n (map (\<lambda>k. row_of ic (f k)) ks) d = Inr (foldl (\<lambda>d k. dict_set k (f k) d) d ks)"
  using assms(2)
proof (induction ks arbitrary: n d)
  case (Cons k ks)
  then show ?case using parse_row_of [OF assms(1), of k "f k" n] by (simp add: row_of_def [of _ "f k"])
qed simp

lemma get_foldl_set:
  "dict_get (foldl (\<lambda>d k. dict_set k (f k) d) d ks) k = (if k \<in> set ks then Some (f k) else dict_get d k)"
  by (induction ks arbitrary: d) auto

lemma read_rows_of:
  assumes "iso_ok ic" "records_ok ic d"
  shows "\<exists>d'. read_all ic path (Some (rows_of ic d)) = Inr d' \<and> dict_get d' = dict_get d"
proof -
  let ?ks = "sorted_list_of_set (set (dict_keys d))"
  have "\<forall>k \<in> set ?ks. record_ok ic k (the (dict_get d k))"
  proof
    fix k assume "k \<in> set ?ks"
    then obtain r where "dict_get d k = Some r"
      using dict_get_None_iff [of d k] by (auto simp del: map_of_eq_None_iff)
    then show "record_ok ic k (the (dict_get d k))" using assms(2) by (simp add: records_ok_def)
  qed
  from parse_rows_map [OF assms(1) this, of 2 "[]"]
  have "read_all ic path (Some (rows_of ic d)) = Inr (foldl (\<lambda>d' k. dict_set k (the (dict_get d k)) d') [] ?ks)"
    by (simp add: read_all_def rows_of_def)
  moreover have "dict_get (foldl (\<lambda>d' k. dict_set k (the (dict_get d k)) d') [] ?ks) k = dict_get d k" for k
    unfolding get_foldl_set using dict_get_None_iff [of d k] by (cases "dict_get d k") auto
  ultimately show ?thesis by blast
qed

subsection \<open>Sequences of operations\<close>

datatype 't registry_op =
  SaveVerified write_fault string string string 't | DeleteCredential write_fault string

fun registry_exec :: "'t iso_codec \<Rightarrow> 't registry_op \<Rightarrow> 't registry \<Rightarrow> 't registry" where
  "registry_exec ic (SaveVerified fault a n p t) g = snd (save_verified ic fault a n p t g)"
| "registry_exec ic (DeleteCredential fault a) g = snd (delete_credential ic fault a g)"

definition registry_inv :: "'t iso_codec \<Rightarrow> 't registry \<Rightarrow> bool" where
  "registry_inv ic g \<longleftrightarrow> records_ok ic (reg_records g)
     \<and> (\<forall>path. \<exists>d. read_all ic path (disk_file (reg_disk g)) = Inr d \<and> dict_get d = dict_get (reg_records g))"

lemma read_all_path: "read_all ic path f = Inr d \<Longrightarrow> read_all ic path' f = Inr d"
  by (auto simp: read_all_def split: option.splits list.splits if_splits)

lemma registry_inv_open: "open_registry ic path d = Inr g \<Longrightarrow> registry_inv ic g"
proof -
  assume "open_registry ic path d = Inr g"
  then have r: "read_all ic path (disk_file d) = Inr (reg_records g)" "reg_disk g = d"
    by (auto simp: open_registry_def rbind_Inr_iff)
  have "\<exists>d'. read_all ic p (disk_file (reg_disk g)) = Inr d' \<and> dict_get d' = dict_get (reg_records g)" for p
    using read_all_path [OF r(1)] r(2) by (intro exI [of _ "reg_records g"]) simp
  then show ?thesis using read_all_ok [OF r(1)] by (simp add: registry_inv_def)
qed

lemma write_all_outcome:
  "write_all ic fault d k = (Inr u, k') \<Longrightarrow> disk_file k' = Some (rows_of ic d)"
  "write_all ic fault d k = (Inl e, k') \<Longrightarrow> disk_file k' = disk_file k"
  by (auto simp: write_all_def Let_def split: option.splits prod.splits write_step.splits)

lemma commit_cases:
  assumes "commit_records ic fault d g = (r, g')"
  obtains e where "r = Inl e" "reg_records g' = reg_records g" "disk_file (reg_disk g') = disk_file (reg_disk g)"
  | "r = Inr ()" "reg_records g' = d" "disk_file (reg_disk g') = Some (rows_of ic d)"
  using assms by (auto simp: commit_records_def dest: write_all_outcome split: prod.splits sum.splits)

lemma registry_inv_commit:
  assumes "iso_ok ic" "registry_inv ic g" "records_ok ic d"
  shows "registry_inv ic (snd (commit_records ic fault d g))"
proof -
  obtain r g' where c: "commit_records ic fault d g = (r, g')" by (metis surj_pair)
  then have "registry_inv ic g'"
    by (rule commit_cases) (use assms read_rows_of [OF assms(1,3)] in \<open>auto simp: registry_inv_def\<close>)
  then show ?thesis using c by simp
qed

lemma snd_abind_areturn: "snd (abind m (\<lambda>_. areturn v) s) = snd (m s)"
  by (auto simp: abind_def split: prod.splits sum.splits)

lemma registry_inv_save:
  assumes "iso_ok ic" "registry_inv ic g"
  shows "registry_inv ic (snd (save_verified ic fault a n p t g))"
proof (cases "\<exists>k q. normalize_mac_address a = Inr k \<and> validate_passkey p = Inr q \<and> iso_aware ic t")
  case False
  then show ?thesis
    using assms(2) by (auto simp: save_verified_def rbind_def split: sum.splits)
next
  case True
  then obtain k q where k: "normalize_mac_address a = Inr k" "validate_passkey p = Inr q" "iso_aware ic t" by blast
  let ?r = "\<lparr>dc_mac_address = k, dc_device_name = n, dc_pairing_passkey = q,
    dc_enrolled_at = (case dict_get (reg_records g) k of Some x \<Rightarrow> dc_enrolled_at x | None \<Rightarrow> t),
    dc_last_connected_at = t\<rparr>"
  have "record_ok ic k ?r"
    using assms(2) normalize_Inr [OF k(1)] validate_passkey_twice [OF k(2)] k(3)
    by (auto simp: record_ok_def registry_inv_def records_ok_def split: option.splits)
  then have "records_ok ic (dict_set k ?r (reg_records g))"
    using assms(2) by (auto simp: registry_inv_def records_ok_def)
  from registry_inv_commit [OF assms this] show ?thesis
    using k by (simp add: save_verified_def Let_def snd_abind_areturn)
qed

lemma registry_inv_delete:
  assumes "iso_ok ic" "registry_inv ic g"
  shows "registry_inv ic (snd (delete_credential ic fault a g))"
proof -
  have "records_ok ic (dict_del k (reg_records g))" for k
    using assms(2) by (auto simp: registry_inv_def records_ok_def)
  then show ?thesis
    using assms(2) registry_inv_commit [OF assms]
    by (auto simp: delete_credential_def snd_abind_areturn split: sum.splits)
qed

lemma registry_inv_run:
  "iso_ok ic \<Longrightarrow> registry_inv ic g \<Longrightarrow> registry_inv ic (fold (registry_exec ic) ops g)"
proof (induction ops arbitrary: g)
  case (Cons op ops)
  have "registry_inv ic (registry_exec ic op g)"
    using Cons.prems registry_inv_save registry_inv_delete by (cases op) auto
  then show ?case using Cons by simp
qed simp

text \<open>
  C16: after any sequence of enrolments and removals, some of which may have failed at any step of
  the write, a restart reads from the file exactly the credentials that were in memory: no
  enrolment is lost, none comes back, and the file is never left half written.
\<close>

theorem registry_survives_restart:
  assumes "iso_ok ic" and "open_registry ic path d = Inr g0" and "g = fold (registry_exec ic) ops g0"
  shows "\<exists>g'. open_registry ic path (reg_disk g) = Inr g'
    \<and> (\<forall>a. lookup_credential a g' = lookup_credential a g)"
proof -
  have "registry_inv ic g"
    using registry_inv_run [OF assms(1) registry_inv_open [OF assms(2)]] assms(3) by simp
  then obtain d' where "read_all ic path (disk_file (reg_disk g)) = Inr d'" "dict_get d' = dict_get (reg_records g)"
    unfolding registry_inv_def by blast
  then show ?thesis by (simp add: open_registry_def lookup_credential_def)
qed

text \<open>
  Enrolling a device makes its credential, with the passkey given and the date of its first
  enrolment, the answer to every spelling of its address, and changes no other entry; an enrolment
  that raises changes none.
\<close>

theorem save_verified_exact:
  assumes "save_verified ic fault address name passkey t g = (x, g')"
  shows "case x of
      Inl e \<Rightarrow> reg_records g' = reg_records g
    | Inr r \<Rightarrow> (\<exists>k. normalize_mac_address address = Inr k \<and> dc_mac_address r = k
        \<and> dc_pairing_passkey r = passkey \<and> dc_device_name r = name \<and> dc_last_connected_at r = t
        \<and> dc_enrolled_at r = (case dict_get (reg_records g) k of Some old \<Rightarrow> dc_enrolled_at old | None \<Rightarrow> t)
        \<and> (\<forall>a. lookup_credential a g' =
              (if normalize_mac_address a = Inr k then Inr (Some r) else lookup_credential a g)))"
proof (cases "\<exists>k q. normalize_mac_address address = Inr k \<and> validate_passkey passkey = Inr q \<and> iso_aware ic t")
  case False
  then show ?thesis using assms by (auto simp: save_verified_def rbind_def split: sum.splits)
next
  case True
  then obtain k where k: "normalize_mac_address address = Inr k" "validate_passkey passkey = Inr passkey" "iso_aware ic t"
    using validate_passkey_same by blast
  define r where "r = \<lparr>dc_mac_address = k, dc_device_name = name, dc_pairing_passkey = passkey,
    dc_enrolled_at = (case dict_get (reg_records g) k of Some x \<Rightarrow> dc_enrolled_at x | None \<Rightarrow> t),
    dc_last_connected_at = t\<rparr>"
  have run: "abind (commit_records ic fault (dict_set k r (reg_records g))) (\<lambda>_. areturn r) g = (x, g')"
    using assms k by (simp add: save_verified_def Let_def r_def)
  obtain c h where c: "commit_records ic fault (dict_set k r (reg_records g)) g = (c, h)" by (metis surj_pair)
  then show ?thesis
  proof (rule commit_cases)
    assume "c = Inr ()" "reg_records h = dict_set k r (reg_records g)"
    then have "x = Inr r" "reg_records g' = dict_set k r (reg_records g)" using run c by (simp_all add: abind_def)
    then show ?thesis using k by (auto simp: r_def lookup_credential_def rbind_def split: sum.splits)
  qed (use run c in \<open>auto simp: abind_def\<close>)
qed

subsection \<open>Removing every pairing\<close>

text \<open>
  What the reset relies on: a successful deletion removes the entry of its key and no other, one
  that raises removes none, and the key of an entry is its address.
\<close>

locale credential_store =
  fixes entries :: "'g \<Rightarrow> string \<Rightarrow> 't device_credential option"
    and delete :: "string \<Rightarrow> ('g, bool) act"
    and ok :: "'g \<Rightarrow> bool"
  assumes ok_delete: "ok g \<Longrightarrow> ok (snd (delete k g))"
    and entry_key: "ok g \<Longrightarrow> entries g k = Some r \<Longrightarrow> dc_mac_address r = k"
    and deleted: "ok g \<Longrightarrow> entries g k = Some r \<Longrightarrow> delete k g = (Inr b, g') \<Longrightarrow> entries g' = (entries g)(k := None)"
    and not_deleted: "ok g \<Longrightarrow> delete k g = (Inl e, g') \<Longrightarrow> entries g' = entries g"
begin

definition unpaired :: "(string \<Rightarrow> ('w, unit) act) \<Rightarrow> string \<Rightarrow> bool" where
  "unpaired forget k \<longleftrightarrow> (\<exists>w. fst (forget k w) = Inr ())"

lemma reset_loop_outcome:
  assumes "ok g" "distinct (map dc_mac_address rs)" "\<forall>r \<in> set rs. entries g (dc_mac_address r) = Some r"
    and "reset_loop delete forget rs fs (g, w) = (x, (g', w'))"
  shows "\<exists>K \<subseteq> dc_mac_address ` set rs. (\<forall>k \<in> K. unpaired forget k)
    \<and> entries g' = (\<lambda>k. if k \<in> K then None else entries g k)
    \<and> (\<forall>fs'. x = Inr fs' \<longrightarrow> length fs' + card K = length fs + length rs)"
  using assms
proof (induction rs arbitrary: g fs w)
  case Nil
  then show ?case by auto
next
  case (Cons r rs)
  let ?k = "dc_mac_address r"
  obtain y w1 where f: "forget ?k w = (y, w1)" by (metis surj_pair)
  show ?case
  proof (cases y)
    case (Inl e)
    show ?thesis
    proof (cases "is_exception e")
      case True
      let ?m = "py_strip (exc_text e)"
      let ?fs = "fs @ [dc_device_name r @ '' ('' @ ?k @ ''): '' @ (if ?m \<noteq> [] then ?m else class_name (exc_class e))]"
      have "reset_loop delete forget rs ?fs (g, w1) = (x, (g', w'))"
        using Cons.prems(4) f Inl True by (simp add: Let_def)
      from Cons.IH [OF Cons.prems(1) _ _ this] Cons.prems(2,3) obtain K where
        "K \<subseteq> dc_mac_address ` set rs" "\<forall>k \<in> K. unpaired forget k"
        "entries g' = (\<lambda>k. if k \<in> K then None else entries g k)"
        "\<forall>fs'. x = Inr fs' \<longrightarrow> length fs' + card K = length ?fs + length rs" by auto
      then show ?thesis by (intro exI [of _ K]) auto
    next
      case False
      then show ?thesis using Cons.prems(4) f Inl by (intro exI [of _ "{}"]) auto
    qed
  next
    case (Inr u)
    then have un: "unpaired forget ?k" using f unfolding unpaired_def by (intro exI [of _ w]) simp
    obtain z g1 where d: "delete ?k g = (z, g1)" by (metis surj_pair)
    have ok1: "ok g1" using ok_delete [OF Cons.prems(1), of ?k] d by simp
    show ?thesis
    proof (cases z)
      case (Inl e)
      then have "g' = g1" "x = Inl e" using Cons.prems(4) f Inr d by auto
      then show ?thesis using not_deleted [OF Cons.prems(1)] d Inl by (intro exI [of _ "{}"]) auto
    next
      case (Inr b)
      have e1: "entries g1 = (entries g)(?k := None)"
        using deleted [OF Cons.prems(1) _ d [unfolded Inr]] Cons.prems(3) by auto
      have "reset_loop delete forget rs fs (g1, w1) = (x, (g', w'))"
        using Cons.prems(4) f \<open>y = Inr u\<close> d Inr by simp
      moreover have "\<forall>q \<in> set rs. entries g1 (dc_mac_address q) = Some q"
      proof
        fix q assume q: "q \<in> set rs"
        have "dc_mac_address q \<noteq> ?k" using Cons.prems(2) q by (metis distinct.simps(2) image_eqI list.simps(9) list.set_map)
        then show "entries g1 (dc_mac_address q) = Some q" using Cons.prems(3) q by (simp add: e1)
      qed
      ultimately obtain K where K: "K \<subseteq> dc_mac_address ` set rs" "\<forall>k \<in> K. unpaired forget k"
        "entries g' = (\<lambda>k. if k \<in> K then None else entries g1 k)"
        "\<forall>fs'. x = Inr fs' \<longrightarrow> length fs' + card K = length fs + length rs"
        using Cons.IH [OF ok1, of fs w1] Cons.prems(2) by auto
      have "?k \<notin> K" "finite K" using K(1) Cons.prems(2) finite_subset by auto
      then show ?thesis using K un e1 by (intro exI [of _ "insert ?k K"]) auto
    qed
  qed
qed

lemma reset_loop_complete:
  assumes "ok g" "distinct (map dc_mac_address rs)" "\<forall>r \<in> set rs. entries g (dc_mac_address r) = Some r"
    and "reset_loop delete forget rs [] (g, w) = (Inr [], (g', w'))"
  shows "entries g' = (\<lambda>k. if k \<in> dc_mac_address ` set rs then None else entries g k)"
proof -
  obtain K where K: "K \<subseteq> dc_mac_address ` set rs" "entries g' = (\<lambda>k. if k \<in> K then None else entries g k)"
    "card K = length rs"
    using reset_loop_outcome [OF assms] by auto
  have "card (dc_mac_address ` set rs) = length rs"
    using assms(2) by (metis distinct_card length_map list.set_map)
  then have "K = dc_mac_address ` set rs" using K by (intro card_subset_eq) auto
  then show ?thesis using K(2) by simp
qed

end

text \<open>The registry provides the contract, whatever writes fail.\<close>

interpretation registry_store:
  credential_store "\<lambda>g. dict_get (reg_records g)" "\<lambda>k. delete_credential ic (faults k) k"
    "\<lambda>g. records_ok ic (reg_records g)" for ic :: "'t iso_codec" and faults
proof unfold_locales
  fix g :: "'t registry" and k r b g' e
  have del: "fst (delete_credential ic (faults k) k g) = Inl e \<Longrightarrow>
      reg_records (snd (delete_credential ic (faults k) k g)) = reg_records g" for e
    by (auto simp: delete_credential_def commit_records_def abind_def
        split: sum.splits prod.splits if_splits)
  have ok: "fst (delete_credential ic (faults k) k g) = Inr b \<Longrightarrow> \<exists>n. normalize_mac_address k = Inr n \<and>
      dict_get (reg_records (snd (delete_credential ic (faults k) k g))) = (dict_get (reg_records g))(n := None)" for b
    by (auto simp: delete_credential_def commit_records_def abind_def fun_eq_iff
        split: sum.splits prod.splits if_splits)
  show "records_ok ic (reg_records (snd (delete_credential ic (faults k) k g)))" if "records_ok ic (reg_records g)"
  proof (cases "fst (delete_credential ic (faults k) k g)")
    case (Inr b)
    from ok [OF this] that show ?thesis by (auto simp: records_ok_def split: if_splits)
  qed (use del that in auto)
  show "records_ok ic (reg_records g) \<Longrightarrow> dict_get (reg_records g) k = Some r \<Longrightarrow> dc_mac_address r = k"
    by (auto simp: records_ok_def record_ok_def)
  show "records_ok ic (reg_records g) \<Longrightarrow> dict_get (reg_records g) k = Some r \<Longrightarrow>
      delete_credential ic (faults k) k g = (Inr b, g') \<Longrightarrow>
      dict_get (reg_records g') = (dict_get (reg_records g))(k := None)"
    using ok [of b] by (auto simp: records_ok_def record_ok_def)
  show "records_ok ic (reg_records g) \<Longrightarrow> delete_credential ic (faults k) k g = (Inl e, g') \<Longrightarrow>
      dict_get (reg_records g') = dict_get (reg_records g)"
    using del [of e] by simp
qed

lemma list_all_entries:
  assumes "records_ok ic (reg_records g)"
  shows "distinct (map dc_mac_address (list_all_credentials g))"
    "\<forall>r \<in> set (list_all_credentials g). dict_get (reg_records g) (dc_mac_address r) = Some r"
    "dc_mac_address ` set (list_all_credentials g) = dom (dict_get (reg_records g))"
proof -
  let ?ks = "sorted_list_of_set (set (dict_keys (reg_records g)))"
  have key: "\<exists>r. dict_get (reg_records g) k = Some r \<and> dc_mac_address r = k" if "k \<in> set ?ks" for k
    using that assms dict_get_None_iff [of "reg_records g" k]
    by (cases "dict_get (reg_records g) k") (auto simp: records_ok_def record_ok_def)
  then have m: "map dc_mac_address (list_all_credentials g) = ?ks"
  proof -
    have "dc_mac_address (the (dict_get (reg_records g) k)) = k" if "k \<in> set ?ks" for k
      using key [OF that] by auto
    then show ?thesis unfolding list_all_credentials_def map_map comp_def by (rule map_idI)
  qed
  then show "distinct (map dc_mac_address (list_all_credentials g))" by simp
  show "dc_mac_address ` set (list_all_credentials g) = dom (dict_get (reg_records g))"
    using m by (metis dom_map_of_conv_image_fst finite_set list.set_map set_sorted_list_of_set)
  show "\<forall>r \<in> set (list_all_credentials g). dict_get (reg_records g) (dc_mac_address r) = Some r"
    using key by (fastforce simp: list_all_credentials_def)
qed

text \<open>
  C17: a reset deletes a credential only after the operating system has unpaired its device; when
  it reports success, every device was unpaired and no credential is left.
\<close>

theorem reset_deletes_unpaired_only:
  assumes "records_ok ic (reg_records g)"
    and "reset_all_pairings ic faults forget (g, w) = (x, (g', w'))"
  shows "(\<forall>k. dict_get (reg_records g') k \<noteq> dict_get (reg_records g) k \<longrightarrow>
            dict_get (reg_records g') k = None \<and> (\<exists>w. fst (forget k w) = Inr ()))
    \<and> (\<forall>rs. x = Inr rs \<longrightarrow> rs = list_all_credentials g \<and> list_all_credentials g' = [])"
proof -
  let ?rs = "list_all_credentials g" and ?del = "\<lambda>k. delete_credential ic (faults k) k"
  note entries = list_all_entries [OF assms(1)]
  obtain y where l: "reset_loop ?del forget ?rs [] (g, w) = (y, (g', w'))"
    and x: "\<And>rs. x = Inr rs \<Longrightarrow> y = Inr [] \<and> rs = ?rs"
  proof -
    obtain y s where r: "reset_loop ?del forget ?rs [] (g, w) = (y, s)" by (metis surj_pair)
    have "s = (g', w')" using assms(2) r
      by (cases y) (simp_all add: reset_all_pairings_def abind_def araise_def areturn_def split: if_splits)
    moreover have "y = Inr [] \<and> rs = ?rs" if "x = Inr rs" for rs using assms(2) r that
      by (cases y) (simp_all add: reset_all_pairings_def abind_def araise_def areturn_def split: if_splits)
    ultimately show ?thesis using that r by blast
  qed
  from registry_store.reset_loop_outcome [OF assms(1) entries(1,2) l]
  have "\<forall>k. dict_get (reg_records g') k \<noteq> dict_get (reg_records g) k \<longrightarrow>
      dict_get (reg_records g') k = None \<and> (\<exists>w. fst (forget k w) = Inr ())"
    by (auto simp: registry_store.unpaired_def)
  moreover have "list_all_credentials g' = []" if "x = Inr rs" for rs
  proof -
    have "y = Inr []" using x that by blast
    note all = registry_store.reset_loop_complete [OF assms(1) entries(1,2) l [unfolded this]]
    have none: "dict_get (reg_records g') k = None" for k
      unfolding fun_cong [OF all, of k] entries(3) by (simp add: domIff)
    have "dict_keys (reg_records g') = []"
    proof (rule ccontr)
      assume "dict_keys (reg_records g') \<noteq> []"
      then obtain k where "k \<in> set (dict_keys (reg_records g'))" by (cases "dict_keys (reg_records g')") auto
      then show False using none [of k] dict_get_None_iff [of "reg_records g'" k] by blast
    qed
    then show ?thesis by (simp add: list_all_credentials_def)
  qed
  ultimately show ?thesis using x by blast
qed

text \<open>A concrete codec of timestamps for the witnesses: texts, aware when they end in \<open>Z\<close>.\<close>

definition text_codec :: "string iso_codec" where
  "text_codec = \<lparr>iso_text = id, iso_parse = Some, iso_aware = (\<lambda>t. last t = CHR ''Z'')\<rparr>"

definition one_row_disk :: csv_disk where
  "one_row_disk = \<lparr>disk_file = Some [CSV_FIELDS,
     [''aa-bb-cc-dd-ee-01'', ''Kitchen'', ''123456'', ''2024-01-01Z'', ''2024-02-01Z'']], disk_temporary = None\<rparr>"

definition one_row_registry :: "string registry" where
  "one_row_registry = (case open_registry text_codec ''r.csv'' one_row_disk of Inr g \<Rightarrow> g | Inl _ \<Rightarrow> undefined)"

lemma text_codec_ok: "iso_ok text_codec"
  by (simp add: iso_ok_def text_codec_def)

lemma open_one_row: "open_registry text_codec ''r.csv'' one_row_disk = Inr one_row_registry"
  by code_simp

lemma one_row_ok: "records_ok text_codec (reg_records one_row_registry)"
  using registry_inv_open [OF open_one_row] by (simp add: registry_inv_def)

theorem registry_survives_restart_witness:
  "\<exists>g'. open_registry text_codec ''r.csv'' (reg_disk (fold (registry_exec text_codec)
        [SaveVerified no_fault ''AA:BB:CC:DD:EE:02'' ''Roof'' ''654321'' ''2024-03-01Z'',
         SaveVerified \<lparr>wf_step = Some (StepReplace, Exc OSErrorC ''disk'' None [] None), wf_unlink = None\<rparr>
           ''AA:BB:CC:DD:EE:03'' ''Cellar'' ''654321'' ''2024-03-01Z'',
         DeleteCredential no_fault ''aabbccddee01''] one_row_registry)) = Inr g'
    \<and> (\<forall>a. lookup_credential a g' = lookup_credential a (fold (registry_exec text_codec)
        [SaveVerified no_fault ''AA:BB:CC:DD:EE:02'' ''Roof'' ''654321'' ''2024-03-01Z'',
         SaveVerified \<lparr>wf_step = Some (StepReplace, Exc OSErrorC ''disk'' None [] None), wf_unlink = None\<rparr>
           ''AA:BB:CC:DD:EE:03'' ''Cellar'' ''654321'' ''2024-03-01Z'',
         DeleteCredential no_fault ''aabbccddee01''] one_row_registry))"
  by (rule registry_survives_restart [OF text_codec_ok open_one_row refl])

definition saved_example :: "(exc + string device_credential) \<times> string registry" where
  "saved_example = save_verified text_codec no_fault ''AA:BB:CC:DD:EE:02'' ''Roof'' ''654321'' ''2024-03-01Z'' one_row_registry"

lemma saved_example_eq:
  "save_verified text_codec no_fault ''AA:BB:CC:DD:EE:02'' ''Roof'' ''654321'' ''2024-03-01Z'' one_row_registry
     = (fst saved_example, snd saved_example)"
  by (simp add: saved_example_def)

theorem save_verified_exact_witness:
  "case fst saved_example of
      Inl e \<Rightarrow> False
    | Inr r \<Rightarrow> dc_pairing_passkey r = ''654321'' \<and> lookup_credential ''aabbccddee02'' (snd saved_example) = Inr (Some r)
        \<and> lookup_credential ''aabbccddee01'' (snd saved_example) = lookup_credential ''aabbccddee01'' one_row_registry"
proof -
  obtain r where r: "fst saved_example = Inr r"
  proof (cases "fst saved_example")
    case (Inl e)
    moreover have "\<not> isl (fst saved_example)" by code_simp
    ultimately show ?thesis by simp
  qed
  have n: "normalize_mac_address ''AA:BB:CC:DD:EE:02'' = Inr ''AA:BB:CC:DD:EE:02''"
    "normalize_mac_address ''aabbccddee02'' = Inr ''AA:BB:CC:DD:EE:02''"
    "normalize_mac_address ''aabbccddee01'' = Inr ''AA:BB:CC:DD:EE:01''" by code_simp+
  show ?thesis using save_verified_exact [OF saved_example_eq] by (auto simp: r n)
qed

definition reset_example :: "(exc + string device_credential list) \<times> string registry \<times> nat" where
  "reset_example = reset_all_pairings text_codec (\<lambda>_. no_fault) (\<lambda>_ n. (Inr (), n + 1)) (one_row_registry, 0)"

lemma reset_example_eq:
  "reset_all_pairings text_codec (\<lambda>_. no_fault) (\<lambda>_ n. (Inr (), n + 1)) (one_row_registry, 0)
     = (fst reset_example, (fst (snd reset_example), snd (snd reset_example)))"
  by (simp add: reset_example_def)

theorem reset_deletes_unpaired_only_witness:
  "list_all_credentials one_row_registry \<noteq> [] \<and> list_all_credentials (fst (snd reset_example)) = []"
proof -
  have ne: "list_all_credentials one_row_registry \<noteq> []" by code_simp
  have "\<not> isl (fst reset_example)" by code_simp
  then obtain rs where "fst reset_example = Inr rs" by (cases "fst reset_example") simp_all
  then show ?thesis using reset_deletes_unpaired_only [OF one_row_ok reset_example_eq] ne by blast
qed

end
