(* ===== verification/Mysql_Adapter.thy ===== *)
theory Mysql_Adapter
  imports Database_Adapter Actions Layouts
begin

section \<open>The MySQL adapter\<close>

text \<open>
  \<open>backend/pc_client/mysql_adapter.py\<close> over the table \<open>temperature_samples\<close> of
  \<open>backend/database/schema.sql\<close>. The statements of the adapter are translated as what they do to
  the rows: an \<open>INSERT\<close> under the unique key (boot_id, sample_seq), the ordered assignments of
  \<open>ON DUPLICATE KEY UPDATE\<close>, the \<open>SELECT\<close> and the \<open>DELETE\<close> of the reconciliation. Each statement
  is atomic (autocommit) and may fail instead, as a list of faults decides. The rounding of the
  server to \<open>DATETIME\<close> and \<open>DECIMAL(5,2)\<close> columns is a parameter.
\<close>

record sample_row =
  row_id :: nat
  row_boot_id :: "int option"
  row_sample_seq :: "int option"
  row_observed_at :: utc
  row_sensor1_c :: "rat option"
  row_sensor1_status :: string
  row_sensor2_c :: "rat option"
  row_sensor2_status :: string
  row_average_c :: "rat option"
  row_average_valid :: bool
  row_record_source :: string
  row_failure_reason :: "string option"

record sql_columns =
  col_datetime :: "utc \<Rightarrow> utc"
  col_decimal :: "rat \<Rightarrow> rat"

record sql_table =
  tb_rows :: "sample_row list"
  tb_next_id :: nat

record mysql =
  my_pool :: bool
  my_table :: sql_table
  my_faults :: "exc option list"

subsection \<open>Parameters of a row\<close>

text \<open>\<open>{reading.sensor_id: reading for ...}\<close>: the last reading of a sensor counts.\<close>

definition readings_by_id :: "sensor_reading list \<Rightarrow> (int, sensor_reading) dict" where
  "readings_by_id rs = foldl (\<lambda>d r. dict_set (sr_sensor_id r) r d) [] rs"

text \<open>The row to insert; the server assigns its identifier.\<close>

definition sample_params :: "sql_columns \<Rightarrow> sample_record \<Rightarrow> sample_row res" where
  "sample_params col sample =
     (let d = readings_by_id (sa_readings sample) in
      case (dict_get d 1, dict_get d 2) of
        (Some sensor1, Some sensor2) \<Rightarrow>
          Inr \<lparr>row_id = 0, row_boot_id = sa_boot_id sample, row_sample_seq = sa_sequence sample,
               row_observed_at = col_datetime col (sa_observed_at sample),
               row_sensor1_c = map_option (col_decimal col) (sr_temperature_c sensor1),
               row_sensor1_status = sr_status sensor1,
               row_sensor2_c = map_option (col_decimal col) (sr_temperature_c sensor2),
               row_sensor2_status = sr_status sensor2,
               row_average_c = map_option (col_decimal col) (sa_average sample),
               row_average_valid = (sa_average sample \<noteq> None),
               row_record_source = sa_source sample,
               row_failure_reason = sa_failure_reason sample\<rparr>
      | _ \<Rightarrow> value_error (''expected sensor_readings for sensor_id 1 and 2, got ['' @
               py_join '', '' (map show_int (sorted_list_of_set (set (dict_keys d)))) @ '']''))"

subsection \<open>Statements\<close>

definition same_key :: "sample_row \<Rightarrow> sample_row \<Rightarrow> bool" where
  "same_key r r' \<longleftrightarrow> row_boot_id r \<noteq> None \<and> row_sample_seq r \<noteq> None
     \<and> row_boot_id r = row_boot_id r' \<and> row_sample_seq r = row_sample_seq r'"

definition append_row :: "sample_row \<Rightarrow> sql_table \<Rightarrow> sql_table" where
  "append_row r t = \<lparr>tb_rows = tb_rows t @ [r\<lparr>row_id := tb_next_id t\<rparr>], tb_next_id = tb_next_id t + 1\<rparr>"

definition duplicate_entry :: exc where
  "duplicate_entry = Exc (OtherErrorC ''IntegrityError'') ''Duplicate entry'' None [(''args[0]'', 1062)] None"

definition insert_row :: "sample_row \<Rightarrow> sql_table \<Rightarrow> unit res \<times> sql_table" where
  "insert_row r t =
     (if list_ex (same_key r) (tb_rows t) then (Inl duplicate_entry, t) else (Inr (), append_row r t))"

text \<open>The assignments of the duplicate update, in their order: each sees the ones before it.\<close>

definition set_sensor1_c :: "sample_row \<Rightarrow> sample_row \<Rightarrow> sample_row" where
  "set_sensor1_c incoming r =
     (if row_record_source r = ''HISTORY'' \<and> row_sensor1_status r = ''NOT_RETRIEVED''
         \<and> row_sensor1_status incoming \<noteq> ''NOT_RETRIEVED''
      then r\<lparr>row_sensor1_c := row_sensor1_c incoming\<rparr> else r)"

definition set_sensor1_status :: "sample_row \<Rightarrow> sample_row \<Rightarrow> sample_row" where
  "set_sensor1_status incoming r =
     (if row_record_source r = ''HISTORY'' \<and> row_sensor1_status r = ''NOT_RETRIEVED''
         \<and> row_sensor1_status incoming \<noteq> ''NOT_RETRIEVED''
      then r\<lparr>row_sensor1_status := row_sensor1_status incoming\<rparr> else r)"

definition set_sensor2_c :: "sample_row \<Rightarrow> sample_row \<Rightarrow> sample_row" where
  "set_sensor2_c incoming r =
     (if row_record_source r = ''HISTORY'' \<and> row_sensor2_status r = ''NOT_RETRIEVED''
         \<and> row_sensor2_status incoming \<noteq> ''NOT_RETRIEVED''
      then r\<lparr>row_sensor2_c := row_sensor2_c incoming\<rparr> else r)"

definition set_sensor2_status :: "sample_row \<Rightarrow> sample_row \<Rightarrow> sample_row" where
  "set_sensor2_status incoming r =
     (if row_record_source r = ''HISTORY'' \<and> row_sensor2_status r = ''NOT_RETRIEVED''
         \<and> row_sensor2_status incoming \<noteq> ''NOT_RETRIEVED''
      then r\<lparr>row_sensor2_status := row_sensor2_status incoming\<rparr> else r)"

definition set_average_c :: "sql_columns \<Rightarrow> sample_row \<Rightarrow> sample_row" where
  "set_average_c col r =
     (case (row_sensor1_c r, row_sensor2_c r) of
        (Some a, Some b) \<Rightarrow>
          if row_record_source r = ''HISTORY'' then r\<lparr>row_average_c := Some (col_decimal col ((a + b) / 2))\<rparr> else r
      | _ \<Rightarrow> r)"

definition set_average_valid :: "sample_row \<Rightarrow> sample_row" where
  "set_average_valid r =
     (if row_record_source r = ''HISTORY'' \<and> row_sensor1_c r \<noteq> None \<and> row_sensor2_c r \<noteq> None
      then r\<lparr>row_average_valid := True\<rparr> else r)"

definition merge_row :: "sql_columns \<Rightarrow> sample_row \<Rightarrow> sample_row \<Rightarrow> sample_row" where
  "merge_row col incoming r =
     set_average_valid (set_average_c col (set_sensor2_status incoming (set_sensor2_c incoming
       (set_sensor1_status incoming (set_sensor1_c incoming r)))))"

definition upsert_row :: "sql_columns \<Rightarrow> sql_table \<Rightarrow> sample_row \<Rightarrow> sql_table" where
  "upsert_row col t r =
     (if list_ex (same_key r) (tb_rows t)
      then t\<lparr>tb_rows := map (\<lambda>q. if same_key r q then merge_row col r q else q) (tb_rows t),
             tb_next_id := tb_next_id t + 1\<rparr>
      else append_row r t)"

definition upsert_rows :: "sql_columns \<Rightarrow> sample_row list \<Rightarrow> sql_table \<Rightarrow> unit res \<times> sql_table" where
  "upsert_rows col rs t = (Inr (), foldl (upsert_row col) t rs)"

definition select_provisional :: "utc \<Rightarrow> utc \<Rightarrow> sql_table \<Rightarrow> (nat \<times> utc) list" where
  "select_provisional window_start window_end t =
     map (\<lambda>r. (row_id r, row_observed_at r)) (filter (\<lambda>r. row_record_source r = ''PROVISIONAL''
       \<and> window_start \<le> row_observed_at r \<and> row_observed_at r \<le> window_end) (tb_rows t))"

definition delete_provisional :: "nat list \<Rightarrow> sql_table \<Rightarrow> sql_table" where
  "delete_provisional ids t =
     t\<lparr>tb_rows := filter (\<lambda>r. \<not> (row_record_source r = ''PROVISIONAL'' \<and> row_id r \<in> set ids)) (tb_rows t)\<rparr>"

subsection \<open>The adapter\<close>

definition new_mysql :: "sql_table \<Rightarrow> exc option list \<Rightarrow> mysql" where
  "new_mysql t fs = \<lparr>my_pool = False, my_table = t, my_faults = fs\<rparr>"

text \<open>One exchange with the server: it fails when a fault is due, and then changes nothing.\<close>

definition execute :: "(sql_table \<Rightarrow> 'a res \<times> sql_table) \<Rightarrow> (mysql, 'a) act" where
  "execute f m =
     (let m' = m\<lparr>my_faults := tl (my_faults m)\<rparr> in
      if my_faults m \<noteq> [] \<and> hd (my_faults m) \<noteq> None then (Inl (the (hd (my_faults m))), m')
      else case f (my_table m) of
        (Inl e, _) \<Rightarrow> (Inl e, m')
      | (Inr v, t) \<Rightarrow> (Inr v, m'\<lparr>my_table := t\<rparr>))"

definition mysql_start :: "(mysql, unit) act" where
  "mysql_start = abind (execute (\<lambda>t. (Inr (), t))) (\<lambda>_ m. (Inr (), m\<lparr>my_pool := True\<rparr>))"

definition mysql_close :: "(mysql, unit) act" where
  "mysql_close m = (Inr (), m\<lparr>my_pool := False\<rparr>)"

definition acquire :: "(mysql, 'a) act \<Rightarrow> (mysql, 'a) act" where
  "acquire body m =
     (if \<not> my_pool m then (raise RuntimeErrorC
        ''MySQLDatabaseAdapter.start() was never called or failed; no connection pool is open'', m)
      else abind (execute (\<lambda>t. (Inr (), t))) (\<lambda>_. body) m)"

definition mysql_last_boot_id :: "device_identity \<Rightarrow> (mysql, int option) act" where
  "mysql_last_boot_id device =
     acquire (execute (\<lambda>t. (Inr (case filter (\<lambda>r. row_boot_id r \<noteq> None) (rev (tb_rows t)) of
        [] \<Rightarrow> None | r # _ \<Rightarrow> row_boot_id r), t)))"

definition insert_sample :: "sql_columns \<Rightarrow> sample_record \<Rightarrow> (mysql, unit) act" where
  "insert_sample col sample =
     acquire (abind (alift (sample_params col sample)) (\<lambda>r. execute (insert_row r)))"

definition stored :: "string option \<Rightarrow> persistence_result" where
  "stored detail = \<lparr>pr_configured = True, pr_persisted = True, pr_detail = detail\<rparr>"

definition not_stored :: "string \<Rightarrow> persistence_result" where
  "not_stored detail = \<lparr>pr_configured = True, pr_persisted = False, pr_detail = Some detail\<rparr>"

definition is_duplicate :: "exc \<Rightarrow> bool" where
  "is_duplicate e \<longleftrightarrow> exc_class e = OtherErrorC ''IntegrityError'' \<and> map_of (exc_attrs e) ''args[0]'' = Some 1062"

definition publish_one :: "sql_columns \<Rightarrow> sample_record \<Rightarrow> (mysql, persistence_result) act" where
  "publish_one col sample =
     acatch (abind (insert_sample col sample) (\<lambda>_. areturn (stored None))) is_duplicate
       (\<lambda>_. areturn (not_stored ''duplicate sample rejected: boot_id/sample_seq already recorded''))"

definition HISTORY_BATCH_SIZE :: nat where "HISTORY_BATCH_SIZE = 100"

function upsert_chunks :: "sql_columns \<Rightarrow> sample_record list \<Rightarrow> (mysql, unit) act" where
  "upsert_chunks col samples m =
     (if samples = [] then (Inr (), m)
      else abind (alift (rmap (sample_params col) (take HISTORY_BATCH_SIZE samples))) (\<lambda>rs.
           abind (execute (upsert_rows col rs)) (\<lambda>_.
             upsert_chunks col (drop HISTORY_BATCH_SIZE samples))) m)"
  by pat_completeness auto
termination
  by (relation "measure (\<lambda>(col, samples, m). length samples)") (auto simp: HISTORY_BATCH_SIZE_def)

declare upsert_chunks.simps [simp del]

definition upsert_history :: "sql_columns \<Rightarrow> history_batch \<Rightarrow> (mysql, persistence_result) act" where
  "upsert_history col batch =
     abind (acquire (upsert_chunks col (hb_samples batch))) (\<lambda>_. areturn (stored (Some (''history batch: ''
       @ show_nat (length (hb_samples batch)) @ '' samples stored or already present''))))"

text \<open>Half a sample period, in microseconds.\<close>

definition tolerance :: int where "tolerance = 500000"

definition stale_ids_of :: "utc list \<Rightarrow> (nat \<times> utc) list \<Rightarrow> nat list" where
  "stale_ids_of sample_times candidates =
     map fst (filter (\<lambda>(_, observed_at). list_ex (\<lambda>t. \<bar>observed_at - t\<bar> \<le> tolerance) sample_times) candidates)"

definition reconcile :: "history_batch \<Rightarrow> (mysql, persistence_result) act" where
  "reconcile batch m =
     (if hb_samples batch = [] then (Inr (stored (Some ''no history samples to reconcile against'')), m)
      else
        let sample_times = sort (map sa_observed_at (hb_samples batch));
            window_start = hd sample_times - tolerance;
            window_end = last sample_times + tolerance
        in abind (acquire (
             abind (execute (\<lambda>t. (Inr (select_provisional window_start window_end t), t))) (\<lambda>candidates.
               let stale_ids = stale_ids_of sample_times candidates in
               if stale_ids \<noteq> [] then
                 abind (execute (\<lambda>t. (Inr (), delete_provisional stale_ids t))) (\<lambda>_. areturn stale_ids)
               else areturn stale_ids))) (\<lambda>stale_ids.
             areturn (stored (Some (''removed '' @ show_nat (length stale_ids)
               @ '' provisional row(s) superseded by recovered history'')))) m)"

definition mysql_connection_state :: "connection_state_record \<Rightarrow> (mysql, persistence_result) act" where
  "mysql_connection_state s = areturn (not_stored ''no connection_state table; scope decision pending'')"

definition mysql_display_result :: "display_state_record \<Rightarrow> (mysql, persistence_result) act" where
  "mysql_display_result r = areturn (not_stored ''no display_result table; scope decision pending'')"

fun mysql_call :: "sql_columns \<Rightarrow> db_call \<Rightarrow> (mysql, persistence_result) act" where
  "mysql_call col (PublishCurrentSample s) = publish_one col s"
| "mysql_call col (PublishMissingInterval s) = publish_one col s"
| "mysql_call col (UpsertHistory b) = upsert_history col b"
| "mysql_call col (ReconcileProvisional b) = reconcile b"
| "mysql_call col (PublishConnectionState s) = mysql_connection_state s"
| "mysql_call col (PublishDisplayResult r) = mysql_display_result r"

end
