(* ===== verification/Mysql_Props.thy ===== *)
theory Mysql_Props
  imports Mysql_Adapter
begin

section \<open>What the MySQL adapter guarantees\<close>

text \<open>
  The rows of \<open>temperature_samples\<close> under any sequence of writes and faults: the unique key, the
  measured values that no write removes, the retry of an interrupted history batch, and the
  placeholders that a batch replaces.
\<close>

subsection \<open>Rows and keys\<close>

definition row_key :: "sample_row \<Rightarrow> (int \<times> int) option" where
  "row_key r = (case (row_boot_id r, row_sample_seq r) of (Some b, Some s) \<Rightarrow> Some (b, s) | _ \<Rightarrow> None)"

lemma same_key_iff: "same_key r q \<longleftrightarrow> row_key r \<noteq> None \<and> row_key r = row_key q"
  by (auto simp: same_key_def row_key_def split: option.splits)

text \<open>Each assignment writes its own column, and only in a row of the history.\<close>

definition only_column :: "(sample_row \<Rightarrow> sample_row) \<Rightarrow> bool" where
  "only_column f \<longleftrightarrow> (\<forall>q. row_id (f q) = row_id q \<and> row_record_source (f q) = row_record_source q
     \<and> row_key (f q) = row_key q \<and> row_observed_at (f q) = row_observed_at q
     \<and> (row_record_source q \<noteq> ''HISTORY'' \<longrightarrow> f q = q))"

lemma only_columns:
  "only_column (set_sensor1_c r)" "only_column (set_sensor1_status r)" "only_column (set_sensor2_c r)"
  "only_column (set_sensor2_status r)" "only_column (set_average_c col)" "only_column set_average_valid"
proof -
  have key: "row_key (q\<lparr>row_sensor1_c := a\<rparr>) = row_key q" "row_key (q\<lparr>row_sensor1_status := u\<rparr>) = row_key q"
    "row_key (q\<lparr>row_sensor2_c := a\<rparr>) = row_key q" "row_key (q\<lparr>row_sensor2_status := u\<rparr>) = row_key q"
    "row_key (q\<lparr>row_average_c := a\<rparr>) = row_key q" "row_key (q\<lparr>row_average_valid := v\<rparr>) = row_key q" for q a u v
    by (simp_all add: row_key_def)
  show "only_column (set_sensor1_c r)" unfolding only_column_def set_sensor1_c_def by (simp add: key)
  show "only_column (set_sensor1_status r)" unfolding only_column_def set_sensor1_status_def by (simp add: key)
  show "only_column (set_sensor2_c r)" unfolding only_column_def set_sensor2_c_def by (simp add: key)
  show "only_column (set_sensor2_status r)" unfolding only_column_def set_sensor2_status_def by (simp add: key)
  show "only_column (set_average_c col)" unfolding only_column_def set_average_c_def by (simp add: key split: option.split)
  show "only_column set_average_valid" unfolding only_column_def set_average_valid_def by (simp add: key)
qed

lemma only_column_comp: "only_column f \<Longrightarrow> only_column g \<Longrightarrow> only_column (\<lambda>q. f (g q))"
  by (simp add: only_column_def)

lemma only_column_merge: "only_column (merge_row col r)"
proof -
  note 1 = only_column_comp [OF only_columns(2) [of r] only_columns(1) [of r]]
  note 2 = only_column_comp [OF only_columns(4) [of r] only_column_comp [OF only_columns(3) [of r] 1]]
  from only_column_comp [OF only_columns(6) only_column_comp [OF only_columns(5) [of col] 2]]
  show ?thesis by (simp add: merge_row_def [abs_def])
qed

lemma merge_row_fixed [simp]:
  "row_id (merge_row col r q) = row_id q" "row_record_source (merge_row col r q) = row_record_source q"
  "row_key (merge_row col r q) = row_key q" "row_observed_at (merge_row col r q) = row_observed_at q"
  using only_column_merge [of col r] by (simp_all add: only_column_def)

lemma merge_row_other: "row_record_source q \<noteq> ''HISTORY'' \<Longrightarrow> merge_row col r q = q"
  using only_column_merge [of col r] by (simp add: only_column_def)

text \<open>The columns of a merged row.\<close>

definition wants :: "string \<Rightarrow> string \<Rightarrow> string \<Rightarrow> bool" where
  "wants src old new \<longleftrightarrow> src = ''HISTORY'' \<and> old = ''NOT_RETRIEVED'' \<and> new \<noteq> ''NOT_RETRIEVED''"

lemma merge_row_columns:
  "row_sensor1_c (merge_row col r q) =
     (if wants (row_record_source q) (row_sensor1_status q) (row_sensor1_status r) then row_sensor1_c r else row_sensor1_c q)"
  "row_sensor1_status (merge_row col r q) =
     (if wants (row_record_source q) (row_sensor1_status q) (row_sensor1_status r) then row_sensor1_status r else row_sensor1_status q)"
  "row_sensor2_c (merge_row col r q) =
     (if wants (row_record_source q) (row_sensor2_status q) (row_sensor2_status r) then row_sensor2_c r else row_sensor2_c q)"
  "row_sensor2_status (merge_row col r q) =
     (if wants (row_record_source q) (row_sensor2_status q) (row_sensor2_status r) then row_sensor2_status r else row_sensor2_status q)"
proof -
  let ?a = "set_sensor1_c r q"
  let ?b = "set_sensor1_status r ?a"
  let ?c = "set_sensor2_c r ?b"
  let ?d = "set_sensor2_status r ?c"
  have av: "row_sensor1_c (set_average_valid (set_average_c col x)) = row_sensor1_c x"
    "row_sensor1_status (set_average_valid (set_average_c col x)) = row_sensor1_status x"
    "row_sensor2_c (set_average_valid (set_average_c col x)) = row_sensor2_c x"
    "row_sensor2_status (set_average_valid (set_average_c col x)) = row_sensor2_status x" for x
    by (simp_all add: set_average_valid_def set_average_c_def split: option.split)
  have a: "row_sensor1_c ?a = (if wants (row_record_source q) (row_sensor1_status q) (row_sensor1_status r) then row_sensor1_c r else row_sensor1_c q)"
    "row_sensor1_status ?a = row_sensor1_status q" "row_sensor2_c ?a = row_sensor2_c q"
    "row_sensor2_status ?a = row_sensor2_status q" "row_record_source ?a = row_record_source q"
    by (simp_all add: set_sensor1_c_def wants_def)
  have b: "row_sensor1_status ?b = (if wants (row_record_source q) (row_sensor1_status q) (row_sensor1_status r) then row_sensor1_status r else row_sensor1_status q)"
    "row_sensor1_c ?b = row_sensor1_c ?a" "row_sensor2_c ?b = row_sensor2_c q"
    "row_sensor2_status ?b = row_sensor2_status q" "row_record_source ?b = row_record_source q"
    unfolding set_sensor1_status_def [of r ?a] a(2-) by (simp_all add: wants_def a)
  have c: "row_sensor2_c ?c = (if wants (row_record_source q) (row_sensor2_status q) (row_sensor2_status r) then row_sensor2_c r else row_sensor2_c q)"
    "row_sensor1_status ?c = row_sensor1_status ?b" "row_sensor1_c ?c = row_sensor1_c ?b"
    "row_sensor2_status ?c = row_sensor2_status q" "row_record_source ?c = row_record_source q"
    unfolding set_sensor2_c_def [of r ?b] b(3-) by (simp_all add: wants_def b)
  have d: "row_sensor2_status ?d = (if wants (row_record_source q) (row_sensor2_status q) (row_sensor2_status r) then row_sensor2_status r else row_sensor2_status q)"
    "row_sensor1_status ?d = row_sensor1_status ?c" "row_sensor1_c ?d = row_sensor1_c ?c"
    "row_sensor2_c ?d = row_sensor2_c ?c"
    unfolding set_sensor2_status_def [of r ?c] c(4-) by (simp_all add: wants_def c(4))
  show "row_sensor1_c (merge_row col r q) =
     (if wants (row_record_source q) (row_sensor1_status q) (row_sensor1_status r) then row_sensor1_c r else row_sensor1_c q)"
    unfolding merge_row_def av d(3) c(3) b(2) a(1) ..
  show "row_sensor1_status (merge_row col r q) =
     (if wants (row_record_source q) (row_sensor1_status q) (row_sensor1_status r) then row_sensor1_status r else row_sensor1_status q)"
    unfolding merge_row_def av d(2) c(2) b(1) ..
  show "row_sensor2_c (merge_row col r q) =
     (if wants (row_record_source q) (row_sensor2_status q) (row_sensor2_status r) then row_sensor2_c r else row_sensor2_c q)"
    unfolding merge_row_def av d(4) c(1) ..
  show "row_sensor2_status (merge_row col r q) =
     (if wants (row_record_source q) (row_sensor2_status q) (row_sensor2_status r) then row_sensor2_status r else row_sensor2_status q)"
    unfolding merge_row_def av d(1) ..
qed

lemma merge_row_measured:
  "row_sensor1_status q \<noteq> ''NOT_RETRIEVED'' \<Longrightarrow>
     row_sensor1_c (merge_row col r q) = row_sensor1_c q \<and> row_sensor1_status (merge_row col r q) = row_sensor1_status q"
  "row_sensor2_status q \<noteq> ''NOT_RETRIEVED'' \<Longrightarrow>
     row_sensor2_c (merge_row col r q) = row_sensor2_c q \<and> row_sensor2_status (merge_row col r q) = row_sensor2_status q"
  by (simp_all add: merge_row_columns wants_def)

definition merge_into :: "sql_columns \<Rightarrow> sample_row \<Rightarrow> sample_row \<Rightarrow> sample_row" where
  "merge_into col r q = (if same_key r q then merge_row col r q else q)"

lemma merge_into_fixed [simp]:
  "row_id (merge_into col r q) = row_id q" "row_record_source (merge_into col r q) = row_record_source q"
  "row_key (merge_into col r q) = row_key q"
  by (simp_all add: merge_into_def)

lemma upsert_row_rows:
  "tb_rows (upsert_row col t r) = (if list_ex (same_key r) (tb_rows t) then map (merge_into col r) (tb_rows t)
     else tb_rows t @ [r\<lparr>row_id := tb_next_id t\<rparr>])"
  by (simp add: upsert_row_def append_row_def merge_into_def)

lemma upsert_row_next [simp]: "tb_next_id (upsert_row col t r) = tb_next_id t + 1"
  by (simp add: upsert_row_def append_row_def)

subsection \<open>What every write keeps\<close>

definition table_ok :: "sql_table \<Rightarrow> bool" where
  "table_ok t \<longleftrightarrow> sorted_wrt (<) (map row_id (tb_rows t)) \<and> (\<forall>r \<in> set (tb_rows t). row_id r < tb_next_id t)
     \<and> distinct (filter (\<lambda>k. k \<noteq> None) (map row_key (tb_rows t)))"

text \<open>No measured value is lost from one table to a later one.\<close>

definition row_kept :: "sample_row \<Rightarrow> sample_row \<Rightarrow> bool" where
  "row_kept q q' \<longleftrightarrow> row_id q' = row_id q \<and> row_key q' = row_key q \<and> row_record_source q' = row_record_source q
     \<and> (row_record_source q = ''LIVE'' \<longrightarrow> q' = q)
     \<and> (row_sensor1_status q \<noteq> ''NOT_RETRIEVED'' \<longrightarrow>
          row_sensor1_c q' = row_sensor1_c q \<and> row_sensor1_status q' = row_sensor1_status q)
     \<and> (row_sensor2_status q \<noteq> ''NOT_RETRIEVED'' \<longrightarrow>
          row_sensor2_c q' = row_sensor2_c q \<and> row_sensor2_status q' = row_sensor2_status q)"

definition data_kept :: "sql_table \<Rightarrow> sql_table \<Rightarrow> bool" where
  "data_kept t t' \<longleftrightarrow> (\<forall>q \<in> set (tb_rows t). row_record_source q \<noteq> ''PROVISIONAL'' \<longrightarrow>
     (\<exists>q' \<in> set (tb_rows t'). row_kept q q'))"

lemma row_kept_refl [simp]: "row_kept q q"
  by (simp add: row_kept_def)

lemma row_kept_trans: "row_kept q q' \<Longrightarrow> row_kept q' q'' \<Longrightarrow> row_kept q q''"
  by (auto simp: row_kept_def)

lemma data_kept_refl [simp]: "data_kept t t"
  unfolding data_kept_def using row_kept_refl by blast

lemma data_kept_trans: "data_kept t t' \<Longrightarrow> data_kept t' t'' \<Longrightarrow> data_kept t t''"
proof -
  assume a: "data_kept t t'" "data_kept t' t''"
  show ?thesis unfolding data_kept_def
  proof (intro ballI impI)
    fix q assume q: "q \<in> set (tb_rows t)" "row_record_source q \<noteq> ''PROVISIONAL''"
    with a(1) obtain q' where q': "q' \<in> set (tb_rows t')" "row_kept q q'" unfolding data_kept_def by blast
    then have "row_record_source q' \<noteq> ''PROVISIONAL''" using q(2) by (metis row_kept_def)
    with a(2) q' obtain q'' where "q'' \<in> set (tb_rows t'')" "row_kept q' q''" unfolding data_kept_def by blast
    then show "\<exists>q'' \<in> set (tb_rows t''). row_kept q q''" using row_kept_trans [OF q'(2)] by blast
  qed
qed

lemma row_kept_merge: "row_kept q (merge_into col r q)"
proof -
  have "row_record_source q = ''LIVE'' \<Longrightarrow> merge_row col r q = q" by (simp add: merge_row_other)
  then have "row_kept q (merge_row col r q)"
    unfolding row_kept_def using merge_row_measured by simp
  then show ?thesis by (simp add: merge_into_def)
qed

lemma data_kept_rows: "set (tb_rows t) \<subseteq> set (tb_rows t') \<Longrightarrow> data_kept t t'"
  unfolding data_kept_def using row_kept_refl by blast

lemma table_ok_append:
  assumes "table_ok t" "\<not> list_ex (same_key r) (tb_rows t)"
  shows "table_ok (append_row r t)"
proof -
  have k: "row_key (r\<lparr>row_id := i\<rparr>) = row_key r" for i by (simp add: row_key_def)
  have "row_key r = None \<or> row_key r \<notin> row_key ` set (tb_rows t)"
    using assms(2) by (auto simp: list_ex_iff same_key_iff)
  then show ?thesis
    using assms(1) by (auto simp: table_ok_def append_row_def sorted_wrt_append k less_Suc_eq)
qed

lemma insert_row_keeps:
  assumes "table_ok t" "insert_row r t = (x, t')"
  shows "table_ok t'" "data_kept t t'"
  using assms table_ok_append by (auto simp: insert_row_def append_row_def intro: data_kept_rows split: if_splits)

lemma upsert_row_keeps:
  assumes "table_ok t"
  shows "table_ok (upsert_row col t r)" "data_kept t (upsert_row col t r)"
proof -
  have m: "map row_id (map (merge_into col r) qs) = map row_id qs" "map row_key (map (merge_into col r) qs) = map row_key qs"
    for qs by simp_all
  show "table_ok (upsert_row col t r)"
  proof (cases "list_ex (same_key r) (tb_rows t)")
    case True
    then show ?thesis using assms unfolding table_ok_def upsert_row_rows upsert_row_next if_P [OF True] m
      by (auto simp: less_Suc_eq)
  next
    case False
    then show ?thesis using table_ok_append [OF assms False] by (simp add: upsert_row_def)
  qed
  show "data_kept t (upsert_row col t r)"
  proof (cases "list_ex (same_key r) (tb_rows t)")
    case True
    then show ?thesis unfolding data_kept_def upsert_row_rows using row_kept_merge by auto
  next
    case False
    then show ?thesis by (intro data_kept_rows) (auto simp: upsert_row_rows)
  qed
qed

lemma upsert_rows_keeps:
  "table_ok t \<Longrightarrow> table_ok (foldl (upsert_row col) t rs) \<and> data_kept t (foldl (upsert_row col) t rs)"
proof (induction rs arbitrary: t)
  case (Cons r rs)
  from Cons.IH [OF upsert_row_keeps(1) [OF Cons.prems, of col r]] show ?case
    using data_kept_trans [OF upsert_row_keeps(2) [OF Cons.prems, of col r]] by simp
qed simp

lemma delete_keeps:
  assumes "table_ok t"
  shows "table_ok (delete_provisional ids t)" "data_kept t (delete_provisional ids t)"
proof -
  let ?P = "\<lambda>r. \<not> (row_record_source r = ''PROVISIONAL'' \<and> row_id r \<in> set ids)"
  have "distinct (filter (\<lambda>k. k \<noteq> None) (map row_key (filter ?P rs)))"
    if "distinct (filter (\<lambda>k. k \<noteq> None) (map row_key rs))" for rs
    using that by (induction rs) (fastforce split: if_splits)+
  moreover have "sorted_wrt (<) (map row_id (filter ?P rs))" if "sorted_wrt (<) (map row_id rs)" for rs
    using that by (simp add: sorted_wrt_map sorted_wrt_filter)
  ultimately show "table_ok (delete_provisional ids t)"
    using assms by (auto simp: table_ok_def delete_provisional_def)
  show "data_kept t (delete_provisional ids t)"
    unfolding data_kept_def delete_provisional_def using row_kept_refl by fastforce
qed

text \<open>A relation between the tables before and after that every statement respects.\<close>

definition grows :: "sql_table \<Rightarrow> sql_table \<Rightarrow> bool" where
  "grows t0 t \<longleftrightarrow> table_ok t \<and> data_kept t0 t"

lemma keeps_execute:
  "(\<And>t. grows t0 t \<Longrightarrow> grows t0 (snd (f t))) \<Longrightarrow> keeps (\<lambda>m. grows t0 (my_table m)) (execute f)"
proof -
  assume f: "\<And>t. grows t0 t \<Longrightarrow> grows t0 (snd (f t))"
  have "grows t0 t'" if "grows t0 (my_table m)" "f (my_table m) = (x, t')" for m x t'
    using f [OF that(1)] that(2) by simp
  then show ?thesis unfolding keeps_def execute_def Let_def by (auto split: prod.splits sum.splits)
qed

lemma keeps_acquire: "keeps (\<lambda>m. grows t0 (my_table m)) b \<Longrightarrow> keeps (\<lambda>m. grows t0 (my_table m)) (acquire b)"
proof -
  assume b: "keeps (\<lambda>m. grows t0 (my_table m)) b"
  have "keeps (\<lambda>m. grows t0 (my_table m)) (abind (execute (\<lambda>t. (Inr (), t))) (\<lambda>_. b))"
    using b by (intro keeps_intros keeps_execute) simp_all
  then show ?thesis by (auto simp: acquire_def keeps_def)
qed

lemma grows_step: "grows t0 t \<Longrightarrow> table_ok t' \<Longrightarrow> data_kept t t' \<Longrightarrow> grows t0 t'"
  unfolding grows_def using data_kept_trans by blast

lemma keeps_upsert_chunks:
  "grows t0 (my_table m) \<Longrightarrow> grows t0 (my_table (snd (upsert_chunks col samples m)))"
proof (induction col samples m rule: upsert_chunks.induct)
  case (1 col samples m)
  show ?case
  proof (cases "samples = []")
    case False
    obtain x where x: "rmap (sample_params col) (take HISTORY_BATCH_SIZE samples) = x" by blast
    show ?thesis
    proof (cases x)
      case (Inr rs)
      have k: "keeps (\<lambda>m. grows t0 (my_table m)) (execute (upsert_rows col rs))"
      proof (rule keeps_execute)
        fix t assume t: "grows t0 t"
        then have "table_ok t" by (simp add: grows_def)
        from grows_step [OF t] upsert_rows_keeps [OF this, of col rs]
        show "grows t0 (snd (upsert_rows col rs t))" by (simp add: upsert_rows_def)
      qed
      obtain y m' where e: "execute (upsert_rows col rs) m = (y, m')" by (metis surj_pair)
      have g: "grows t0 (my_table m')" using keepsD [OF k 1(2)] e by simp
      show ?thesis
      proof (cases y)
        case (Inl e')
        then show ?thesis using False x Inr e g by (subst upsert_chunks.simps) (simp add: abind_def)
      next
        case (Inr u)
        have "grows t0 (my_table (snd (upsert_chunks col (drop HISTORY_BATCH_SIZE samples) m')))"
          using "1.IH" [of rs m] x \<open>x = Inr rs\<close> e Inr g False by auto
        then show ?thesis using False x \<open>x = Inr rs\<close> e Inr by (subst upsert_chunks.simps) (simp add: abind_def)
      qed
    qed (use 1(2) False x in \<open>subst upsert_chunks.simps, simp add: abind_def\<close>)
  qed (use 1(2) in \<open>subst upsert_chunks.simps, simp\<close>)
qed

lemma keeps_mysql_call: "keeps (\<lambda>m. grows t0 (my_table m)) (mysql_call col c)"
proof -
  have insert: "keeps (\<lambda>m. grows t0 (my_table m)) (execute (insert_row r))" for r
    using insert_row_keeps by (intro keeps_execute) (metis grows_def grows_step surj_pair snd_conv)
  have publish: "keeps (\<lambda>m. grows t0 (my_table m)) (publish_one col s)" for s
    unfolding publish_one_def insert_sample_def by (intro keeps_intros keeps_acquire insert)
  have chunks: "keeps (\<lambda>m. grows t0 (my_table m)) (upsert_chunks col ss)" for ss
    using keeps_upsert_chunks by (simp add: keeps_def)
  have upsert: "keeps (\<lambda>m. grows t0 (my_table m)) (upsert_history col b)" for b
    unfolding upsert_history_def by (intro keeps_intros keeps_acquire chunks)
  have sel: "keeps (\<lambda>m. grows t0 (my_table m)) (execute (\<lambda>t. (r t, t)))" for r :: "sql_table \<Rightarrow> (nat \<times> utc) list res"
    by (intro keeps_execute) simp
  have del: "keeps (\<lambda>m. grows t0 (my_table m)) (execute (\<lambda>t. (Inr (), delete_provisional ids t)))" for ids
    by (intro keeps_execute) (simp add: grows_def delete_keeps data_kept_trans [OF _ delete_keeps(2)])
  have reconcile: "keeps (\<lambda>m. grows t0 (my_table m)) (reconcile b)" for b
  proof (cases "hb_samples b = []")
    case False
    show ?thesis unfolding reconcile_def Let_def if_not_P [OF False]
      by (intro keeps_intros keeps_acquire sel del)
  qed (simp add: reconcile_def keeps_def)
  show ?thesis by (cases c) (simp_all add: publish upsert reconcile mysql_connection_state_def mysql_display_result_def)
qed

definition mysql_run :: "sql_columns \<Rightarrow> db_call list \<Rightarrow> mysql \<Rightarrow> mysql" where
  "mysql_run col cs m = fold (\<lambda>c m. snd (mysql_call col c m)) cs m"

text \<open>
  C19: whatever is written and whichever statements fail, no two rows share a boot and a sequence
  number, a live row is never changed, and a temperature once measured for a sample of the
  history is never removed or replaced: only placeholders are.
\<close>

theorem measured_values_kept:
  assumes "table_ok (my_table m)"
  shows "table_ok (my_table (mysql_run col cs m)) \<and> data_kept (my_table m) (my_table (mysql_run col cs m))"
proof -
  have "grows t0 (my_table m) \<Longrightarrow> grows t0 (my_table (mysql_run col cs m))" for t0
    unfolding mysql_run_def using keeps_mysql_call by (induction cs arbitrary: m) (auto simp: keeps_def)
  from this [of "my_table m"] show ?thesis using assms by (simp add: grows_def)
qed

subsection \<open>An interrupted batch\<close>

text \<open>The row of a key, whatever its identifier, and the rows without a key.\<close>

definition row_at :: "sql_table \<Rightarrow> int \<times> int \<Rightarrow> sample_row option" where
  "row_at t k = find (\<lambda>q. row_key q = Some k) (tb_rows t)"

definition row_content :: "sql_table \<Rightarrow> int \<times> int \<Rightarrow> sample_row option" where
  "row_content t k = map_option (\<lambda>q. q\<lparr>row_id := 0\<rparr>) (row_at t k)"

definition unkeyed :: "sql_table \<Rightarrow> sample_row list" where
  "unkeyed t = filter (\<lambda>q. row_key q = None) (tb_rows t)"

definition history_row :: "sql_columns \<Rightarrow> sample_row \<Rightarrow> bool" where
  "history_row col r \<longleftrightarrow> row_record_source r = ''HISTORY''
     \<and> (\<forall>a b. row_sensor1_c r = Some a \<longrightarrow> row_sensor2_c r = Some b \<longrightarrow>
          row_average_c r = Some (col_decimal col ((a + b) / 2)) \<and> row_average_valid r)"

lemma row_key_id [simp]: "row_key (q\<lparr>row_id := i\<rparr>) = row_key q"
  by (simp add: row_key_def)

lemma merge_row_id: "merge_row col r (q\<lparr>row_id := i\<rparr>) = (merge_row col r q)\<lparr>row_id := i\<rparr>"
proof -
  have 1: "set_sensor1_c r (q\<lparr>row_id := i\<rparr>) = (set_sensor1_c r q)\<lparr>row_id := i\<rparr>" for q by (simp add: set_sensor1_c_def)
  have 2: "set_sensor1_status r (q\<lparr>row_id := i\<rparr>) = (set_sensor1_status r q)\<lparr>row_id := i\<rparr>" for q
    by (simp add: set_sensor1_status_def)
  have 3: "set_sensor2_c r (q\<lparr>row_id := i\<rparr>) = (set_sensor2_c r q)\<lparr>row_id := i\<rparr>" for q by (simp add: set_sensor2_c_def)
  have 4: "set_sensor2_status r (q\<lparr>row_id := i\<rparr>) = (set_sensor2_status r q)\<lparr>row_id := i\<rparr>" for q
    by (simp add: set_sensor2_status_def)
  have 5: "set_average_c col (q\<lparr>row_id := i\<rparr>) = (set_average_c col q)\<lparr>row_id := i\<rparr>" for q
    by (simp add: set_average_c_def split: option.split)
  have 6: "set_average_valid (q\<lparr>row_id := i\<rparr>) = (set_average_valid q)\<lparr>row_id := i\<rparr>" for q
    unfolding set_average_valid_def by (cases "row_sensor1_c q"; cases "row_sensor2_c q") simp_all
  show ?thesis by (simp only: merge_row_def 1 2 3 4 5 6)
qed

lemma not_wanted:
  "\<not> wants (row_record_source q) (row_sensor1_status q) (row_sensor1_status r) \<Longrightarrow>
     set_sensor1_c r q = q \<and> set_sensor1_status r q = q"
  "\<not> wants (row_record_source q) (row_sensor2_status q) (row_sensor2_status r) \<Longrightarrow>
     set_sensor2_c r q = q \<and> set_sensor2_status r q = q"
  unfolding wants_def set_sensor1_c_def set_sensor1_status_def set_sensor2_c_def set_sensor2_status_def
  by (auto simp only: if_False simp_thms)

lemma set_average_twice:
  "set_average_valid (set_average_c col (set_average_valid (set_average_c col q))) = set_average_valid (set_average_c col q)"
  by (simp add: set_average_valid_def set_average_c_def split: option.split)

lemma merge_row_twice: "merge_row col r (merge_row col r q) = merge_row col r q"
proof -
  let ?q = "merge_row col r q"
  have "\<not> wants (row_record_source ?q) (row_sensor1_status ?q) (row_sensor1_status r)"
    "\<not> wants (row_record_source ?q) (row_sensor2_status ?q) (row_sensor2_status r)"
    unfolding merge_row_columns merge_row_fixed by (auto simp: wants_def)
  then have "merge_row col r ?q = set_average_valid (set_average_c col ?q)"
    unfolding merge_row_def [of col r ?q] using not_wanted by simp
  also have "\<dots> = ?q" unfolding merge_row_def [of col r q] by (rule set_average_twice)
  finally show ?thesis .
qed

lemma merge_row_self:
  assumes "history_row col r" shows "merge_row col r (r\<lparr>row_id := i\<rparr>) = r\<lparr>row_id := i\<rparr>"
proof -
  have "merge_row col r r = set_average_valid (set_average_c col r)"
    unfolding merge_row_def using not_wanted [of r r] by (simp add: wants_def)
  also have "\<dots> = r"
    using assms unfolding history_row_def set_average_valid_def set_average_c_def by (simp split: option.split)
  finally show ?thesis by (simp add: merge_row_id)
qed

definition merged :: "sql_columns \<Rightarrow> sample_row \<Rightarrow> sample_row option \<Rightarrow> sample_row" where
  "merged col r c = (case c of None \<Rightarrow> r\<lparr>row_id := 0\<rparr> | Some q \<Rightarrow> merge_row col r q)"

lemma merged_twice: "history_row col r \<Longrightarrow> merged col r (Some (merged col r c)) = merged col r c"
  by (simp add: merged_def merge_row_twice merge_row_self split: option.split)

lemma find_map_same: "(\<And>x. P (f x) = P x) \<Longrightarrow> find P (map f xs) = map_option f (find P xs)"
  by (induction xs) auto

lemma find_snoc: "find P (xs @ ys) = (case find P xs of None \<Rightarrow> find P ys | Some x \<Rightarrow> Some x)"
  by (induction xs) auto

lemma content_upsert_row:
  assumes "row_key r = Some k0"
  shows "row_content (upsert_row col t r) k = (if k = k0 then Some (merged col r (row_content t k)) else row_content t k)"
proof (cases "list_ex (same_key r) (tb_rows t)")
  case True
  have at': "row_at (upsert_row col t r) k = map_option (merge_into col r) (row_at t k)"
    unfolding row_at_def upsert_row_rows if_P [OF True] by (rule find_map_same) simp
  show ?thesis
  proof (cases "row_at t k")
    case None
    have "k \<noteq> k0"
    proof
      assume "k = k0"
      with None have "\<forall>q \<in> set (tb_rows t). row_key q \<noteq> Some k0" by (auto simp: row_at_def find_None_iff)
      then show False using True assms by (auto simp: list_ex_iff same_key_iff)
    qed
    then show ?thesis using None at' by (simp add: row_content_def)
  next
    case (Some q)
    then have "row_key q = Some k" by (auto simp: row_at_def find_Some_iff)
    then have "merge_into col r q = (if k = k0 then merge_row col r q else q)"
      using assms by (auto simp: merge_into_def same_key_iff)
    then show ?thesis using Some at' by (auto simp: row_content_def merged_def merge_row_id)
  qed
next
  case False
  then have none: "row_at t k0 = None"
    using assms by (auto simp: row_at_def find_None_iff list_ex_iff same_key_iff)
  have "row_at (upsert_row col t r) k =
      (case row_at t k of None \<Rightarrow> if k = k0 then Some (r\<lparr>row_id := tb_next_id t\<rparr>) else None | Some q \<Rightarrow> Some q)"
    unfolding row_at_def upsert_row_rows if_not_P [OF False] find_snoc using assms by (auto split: option.split)
  then show ?thesis using none by (auto simp: row_content_def merged_def split: option.split)
qed

lemma unkeyed_upsert_row: "row_key r \<noteq> None \<Longrightarrow> unkeyed (upsert_row col t r) = unkeyed t"
proof -
  assume k: "row_key r \<noteq> None"
  have "map (merge_into col r) (filter (\<lambda>q. row_key q = None) qs) = filter (\<lambda>q. row_key q = None) qs" for qs
    using k by (intro map_idI) (auto simp: merge_into_def same_key_iff)
  then show ?thesis using k unfolding unkeyed_def upsert_row_rows by (auto simp: filter_map comp_def)
qed

lemma upsert_all:
  assumes "\<forall>r \<in> set rs. row_key r \<noteq> None" "distinct (map row_key rs)"
  shows "row_content (foldl (upsert_row col) t rs) k = (case find (\<lambda>r. row_key r = Some k) rs of
      None \<Rightarrow> row_content t k | Some r \<Rightarrow> Some (merged col r (row_content t k)))"
    "unkeyed (foldl (upsert_row col) t rs) = unkeyed t"
proof -
  show "row_content (foldl (upsert_row col) t rs) k = (case find (\<lambda>r. row_key r = Some k) rs of
      None \<Rightarrow> row_content t k | Some r \<Rightarrow> Some (merged col r (row_content t k)))"
    using assms
  proof (induction rs arbitrary: t)
    case (Cons r rs)
    obtain k0 where k0: "row_key r = Some k0" using Cons.prems by auto
    have "find (\<lambda>r. row_key r = Some k0) rs = None" using Cons.prems(2) k0 by (force simp: find_None_iff)
    moreover have "\<forall>r \<in> set rs. row_key r \<noteq> None" "distinct (map row_key rs)" using Cons.prems by auto
    note IH = Cons.IH [OF this]
    ultimately show ?case using k0
      by (cases "k = k0") (auto simp: IH content_upsert_row [OF k0] split: option.split)
  qed simp
  show "unkeyed (foldl (upsert_row col) t rs) = unkeyed t"
    using assms(1) by (induction rs arbitrary: t) (auto simp: unkeyed_upsert_row)
qed

lemma upsert_prefix_then_all:
  assumes "\<forall>r \<in> set rs. row_key r \<noteq> None \<and> history_row col r" "distinct (map row_key rs)"
  shows "row_content (foldl (upsert_row col) (foldl (upsert_row col) t (take n rs)) rs) = row_content (foldl (upsert_row col) t rs)"
proof
  fix k
  have tk: "\<forall>r \<in> set (take n rs). row_key r \<noteq> None" "distinct (map row_key (take n rs))"
    using assms by (auto dest: in_set_takeD simp: take_map [symmetric] distinct_take)
  have all: "\<forall>r \<in> set rs. row_key r \<noteq> None" using assms(1) by blast
  have f: "find P rs = (case find P (take n rs) of None \<Rightarrow> find P (drop n rs) | Some x \<Rightarrow> Some x)" for P
    by (metis append_take_drop_id find_snoc)
  show "row_content (foldl (upsert_row col) (foldl (upsert_row col) t (take n rs)) rs) k = row_content (foldl (upsert_row col) t rs) k"
  proof (cases "find (\<lambda>r. row_key r = Some k) (take n rs)")
    case None
    show ?thesis unfolding upsert_all(1) [OF all assms(2)] upsert_all(1) [OF tk] None option.case ..
  next
    case (Some r)
    then have "r \<in> set rs" by (metis find_Some_iff in_set_takeD nth_mem)
    then have "history_row col r" using assms(1) by blast
    then show ?thesis using Some f [of "\<lambda>r. row_key r = Some k"]
      unfolding upsert_all(1) [OF all assms(2)] upsert_all(1) [OF tk] by (simp add: merged_twice)
  qed
qed

lemma rmap_take: "rmap f xs = Inr ys \<Longrightarrow> rmap f (take n xs) = Inr (take n ys)"
  by (induction xs arbitrary: n ys) (auto simp: rbind_Inr_iff take_Cons split: nat.split)

lemma rmap_drop: "rmap f xs = Inr ys \<Longrightarrow> rmap f (drop n xs) = Inr (drop n ys)"
  by (induction xs arbitrary: n ys) (auto simp: rbind_Inr_iff drop_Cons split: nat.split)

lemma execute_cases:
  assumes "execute f m = (x, m')"
  obtains e where "x = Inl e" "my_table m' = my_table m" "my_pool m' = my_pool m" "my_faults m' = tl (my_faults m)"
      "my_faults m = [] \<Longrightarrow> fst (f (my_table m)) = Inl e"
  | v where "x = Inr v" "f (my_table m) = (Inr v, my_table m')" "my_pool m' = my_pool m" "my_faults m' = tl (my_faults m)"
  using assms by (auto simp: execute_def Let_def split: if_splits prod.splits sum.splits)

lemma upsert_chunks_effect:
  assumes "rmap (sample_params col) samples = Inr rs" "upsert_chunks col samples m = (x, m')"
  shows "\<exists>n. my_table m' = foldl (upsert_row col) (my_table m) (take n rs) \<and> my_pool m' = my_pool m
    \<and> (x = Inr () \<longrightarrow> take n rs = rs) \<and> (my_faults m = [] \<longrightarrow> x = Inr ())"
  using assms
proof (induction col samples m arbitrary: rs rule: upsert_chunks.induct)
  case (1 col samples m)
  show ?case
  proof (cases "samples = []")
    case True
    then show ?thesis using "1.prems" by (intro exI [of _ 0]) (simp add: upsert_chunks.simps)
  next
    case False
    let ?k = HISTORY_BATCH_SIZE
    note t = rmap_take [OF "1.prems"(1), of ?k] and d = rmap_drop [OF "1.prems"(1), of ?k]
    obtain y m1 where e: "execute (upsert_rows col (take ?k rs)) m = (y, m1)" by (metis surj_pair)
    from e show ?thesis
    proof (cases rule: execute_cases)
      case (1 e')
      then have "x = Inl e'" "m' = m1" using "1.prems"(2) False t e by (auto simp: upsert_chunks.simps abind_def)
      then show ?thesis using 1 by (intro exI [of _ 0]) (auto simp: upsert_rows_def)
    next
      case (2 v)
      then have run: "upsert_chunks col (drop ?k samples) m1 = (x, m')"
        using "1.prems"(2) False t e by (simp add: upsert_chunks.simps [of col samples m] abind_def)
      from "1.IH" [OF False _ _ d run] t e 2(1) obtain n where n:
        "my_table m' = foldl (upsert_row col) (my_table m1) (take n (drop ?k rs))" "my_pool m' = my_pool m1"
        "x = Inr () \<longrightarrow> take n (drop ?k rs) = drop ?k rs" "my_faults m1 = [] \<longrightarrow> x = Inr ()" by fastforce
      have "my_table m1 = foldl (upsert_row col) (my_table m) (take ?k rs)" using 2(2) by (simp add: upsert_rows_def)
      moreover have "take (?k + n) rs = take ?k rs @ take n (drop ?k rs)" by (rule take_add)
      ultimately show ?thesis using n 2 by (intro exI [of _ "?k + n"]) (auto simp del: take_append)
    qed
  qed
qed

text \<open>A sample as \<open>_build_history_batch\<close> makes it, with temperatures that the columns hold exactly.\<close>

definition history_sample :: "sql_columns \<Rightarrow> sample_record \<Rightarrow> bool" where
  "history_sample col s \<longleftrightarrow> sa_source s = ''HISTORY'' \<and> sa_boot_id s \<noteq> None \<and> sa_sequence s \<noteq> None
     \<and> map sr_sensor_id (sa_readings s) = [1, 2]
     \<and> (\<forall>r \<in> set (sa_readings s). map_option (col_decimal col) (sr_temperature_c r) = sr_temperature_c r)
     \<and> (\<forall>a b. map sr_temperature_c (sa_readings s) = [Some a, Some b] \<longrightarrow> sa_average s = Some ((a + b) / 2))"

lemma history_sample_row:
  assumes "history_sample col s"
  shows "\<exists>r. sample_params col s = Inr r \<and> history_row col r
    \<and> row_key r = Some (the (sa_boot_id s), the (sa_sequence s))"
proof -
  obtain r1 r2 where r: "sa_readings s = [r1, r2]" "sr_sensor_id r1 = 1" "sr_sensor_id r2 = 2"
    using assms by (auto simp: history_sample_def)
  obtain b q where k: "sa_boot_id s = Some b" "sa_sequence s = Some q" using assms by (auto simp: history_sample_def)
  have d: "readings_by_id [r1, r2] = [(1, r1), (2, r2)]" by (simp add: readings_by_id_def r)
  show ?thesis using assms unfolding history_sample_def
    by (cases "sr_temperature_c r1"; cases "sr_temperature_c r2")
      (simp_all add: sample_params_def d r history_row_def row_key_def k Let_def)
qed

lemma rmap_ex: "(\<And>x. x \<in> set xs \<Longrightarrow> \<exists>y. f x = Inr y \<and> P x y) \<Longrightarrow> \<exists>ys. rmap f xs = Inr ys \<and> list_all2 P xs ys"
proof (induction xs)
  case (Cons x xs)
  obtain y where "f x = Inr y" "P x y" using Cons.prems [of x] by auto
  moreover obtain ys where "rmap f xs = Inr ys" "list_all2 P xs ys" using Cons by auto
  ultimately show ?case by simp
qed simp

lemma upsert_history_effect:
  assumes "rmap (sample_params col) (hb_samples batch) = Inr rs" "my_pool m" "upsert_history col batch m = (x, m')"
  shows "\<exists>n. my_table m' = foldl (upsert_row col) (my_table m) (take n rs) \<and> my_pool m'
    \<and> (my_faults m = [] \<longrightarrow> take n rs = rs \<and> x = Inr (stored (Some (''history batch: ''
         @ show_nat (length (hb_samples batch)) @ '' samples stored or already present''))))"
proof -
  obtain y m0 where e: "execute (\<lambda>t. (Inr (), t)) m = (y, m0)" by (metis surj_pair)
  from e show ?thesis
  proof (cases rule: execute_cases)
    case (1 e')
    then show ?thesis using assms(2,3) e
      by (intro exI [of _ 0]) (auto simp: upsert_history_def acquire_def abind_def)
  next
    case (2 v)
    obtain w m1 where c: "upsert_chunks col (hb_samples batch) m0 = (w, m1)" by (metis surj_pair)
    from upsert_chunks_effect [OF assms(1) c] obtain n where n: "my_table m1 = foldl (upsert_row col) (my_table m0) (take n rs)"
      "my_pool m1 = my_pool m0" "w = Inr () \<longrightarrow> take n rs = rs" "my_faults m0 = [] \<longrightarrow> w = Inr ()" by blast
    have "m' = m1" "w = Inr () \<longrightarrow> x = Inr (stored (Some (''history batch: ''
         @ show_nat (length (hb_samples batch)) @ '' samples stored or already present'')))"
      using assms(2,3) e 2(1) c by (cases w; simp add: upsert_history_def acquire_def abind_def)+
    then show ?thesis using n 2 assms(2) by (intro exI [of _ n]) auto
  qed
qed


subsection \<open>Placeholders replaced by recovered samples\<close>

definition superseded :: "history_batch \<Rightarrow> sample_row \<Rightarrow> bool" where
  "superseded batch r \<longleftrightarrow> row_record_source r = ''PROVISIONAL''
     \<and> (\<exists>s \<in> set (hb_samples batch). \<bar>row_observed_at r - sa_observed_at s\<bar> \<le> tolerance)"

lemma stale_ids_exact:
  assumes "ts \<noteq> []" "\<And>t. t \<in> set ts \<Longrightarrow> lo \<le> t - tolerance \<and> t + tolerance \<le> hi"
  shows "stale_ids_of ts (select_provisional lo hi t) = map row_id (filter (\<lambda>r. row_record_source r = ''PROVISIONAL''
    \<and> (\<exists>x \<in> set ts. \<bar>row_observed_at r - x\<bar> \<le> tolerance)) (tb_rows t))"
proof -
  have in_window: "lo \<le> a \<and> a \<le> hi" if "x \<in> set ts" "\<bar>a - x\<bar> \<le> tolerance" for a x
    using assms(2) [OF that(1)] that(2) by linarith
  show ?thesis unfolding stale_ids_of_def select_provisional_def filter_map map_map filter_filter comp_def
    by (rule arg_cong2 [where f = map]) (auto simp: list_ex_iff intro!: filter_cong dest: in_window)
qed

text \<open>
  When no statement fails, the reconciliation removes exactly the placeholders that lie within
  half a sample period of a recovered sample, reports how many, and leaves every other row in its
  place.
\<close>

theorem reconcile_exact:
  assumes "table_ok (my_table m)" and "my_pool m" and "my_faults m = []" and "hb_samples batch \<noteq> []"
  shows "reconcile batch m = (Inr (stored (Some (''removed ''
      @ show_nat (length (filter (superseded batch) (tb_rows (my_table m))))
      @ '' provisional row(s) superseded by recovered history''))),
    m\<lparr>my_table := (my_table m)\<lparr>tb_rows := filter (\<lambda>r. \<not> superseded batch r) (tb_rows (my_table m))\<rparr>\<rparr>)"
proof -
  let ?t = "my_table m"
  let ?times = "sort (map sa_observed_at (hb_samples batch))"
  let ?lo = "hd ?times - tolerance" and ?hi = "last ?times + tolerance"
  let ?gone = "filter (superseded batch) (tb_rows ?t)"
  have ne: "?times \<noteq> []" using assms(4) by (metis length_0_conv length_map length_sort)
  have "hd ts \<le> x \<and> x \<le> last ts" if "sorted ts" "x \<in> set ts" for ts and x :: int
    using that by (induction ts) (auto split: if_splits)
  note bounds = this [OF sorted_sort]
  have "stale_ids_of ?times (select_provisional ?lo ?hi ?t) = map row_id ?gone"
  proof (subst stale_ids_exact [OF ne])
    show "?lo \<le> x - tolerance \<and> x + tolerance \<le> ?hi" if "x \<in> set ?times" for x
      using bounds [OF that] by simp
  qed (simp add: superseded_def [abs_def])
  note ids = this
  have only: "row_id r \<in> row_id ` set ?gone \<longleftrightarrow> superseded batch r" if "r \<in> set (tb_rows ?t)" for r
  proof -
    have "inj_on row_id (set (tb_rows ?t))"
      using assms(1) by (metis distinct_map strict_sorted_iff table_ok_def)
    then show ?thesis using that by (auto dest: inj_onD)
  qed
  have del: "delete_provisional (map row_id ?gone) ?t = ?t\<lparr>tb_rows := filter (\<lambda>r. \<not> superseded batch r) (tb_rows ?t)\<rparr>"
  proof -
    have "filter (\<lambda>r. \<not> (row_record_source r = ''PROVISIONAL'' \<and> row_id r \<in> set (map row_id ?gone))) (tb_rows ?t)
        = filter (\<lambda>r. \<not> superseded batch r) (tb_rows ?t)"
    proof (rule filter_cong [OF refl])
      fix r assume "r \<in> set (tb_rows ?t)"
      from only [OF this] show "(\<not> (row_record_source r = ''PROVISIONAL'' \<and> row_id r \<in> set (map row_id ?gone)))
          = (\<not> superseded batch r)" unfolding set_map by (auto simp only: superseded_def)
    qed
    then show ?thesis unfolding delete_provisional_def by (simp only:)
  qed
  have ex: "execute f m = (case f ?t of (Inl e, _) \<Rightarrow> (Inl e, m) | (Inr v, t) \<Rightarrow> (Inr v, m\<lparr>my_table := t\<rparr>))"
    for f :: "sql_table \<Rightarrow> 'a res \<times> sql_table"
    unfolding execute_def Let_def using assms(3) by (simp split: prod.split sum.split)
  have same: "m\<lparr>my_table := ?t\<rparr> = m" "?t\<lparr>tb_rows := tb_rows ?t\<rparr> = ?t" by simp_all
  show ?thesis
  proof (cases "?gone = []")
    case True
    then have "filter (\<lambda>r. \<not> superseded batch r) (tb_rows ?t) = tb_rows ?t"
      by (simp add: filter_empty_conv filter_id_conv)
    then show ?thesis using assms(2,4) True
      by (simp add: reconcile_def acquire_def abind_def ex ids Let_def same)
  next
    case False
    then show ?thesis using assms(2,4)
      by (simp add: reconcile_def acquire_def abind_def ex ids Let_def same del)
  qed
qed

subsection \<open>Witnesses\<close>

text \<open>Columns that hold every value exactly, a table with a live row and a placeholder, and two partial samples.\<close>

definition plain_columns :: sql_columns where
  "plain_columns = \<lparr>col_datetime = id, col_decimal = id\<rparr>"

definition sample_row_of :: "nat \<Rightarrow> int option \<Rightarrow> utc \<Rightarrow> string \<Rightarrow> sample_row" where
  "sample_row_of i k t src = \<lparr>row_id = i, row_boot_id = map_option (\<lambda>_. 7) k, row_sample_seq = k, row_observed_at = t,
     row_sensor1_c = Some 20, row_sensor1_status = ''VALID'', row_sensor2_c = Some 21, row_sensor2_status = ''VALID'',
     row_average_c = None, row_average_valid = False, row_record_source = src, row_failure_reason = None\<rparr>"

definition small_table :: sql_table where
  "small_table = \<lparr>tb_rows = [sample_row_of 1 (Some 1) 1000000 ''LIVE'', sample_row_of 2 None 2000000 ''PROVISIONAL''],
     tb_next_id = 3\<rparr>"

definition small_sample :: "int \<Rightarrow> utc \<Rightarrow> rat option \<Rightarrow> sample_record" where
  "small_sample k t c = \<lparr>sa_device = None, sa_observed_at = t, sa_boot_id = Some 7, sa_sequence = Some k,
     sa_readings = [\<lparr>sr_sensor_id = 1, sr_temperature_c = Some 19, sr_status = ''VALID'', sr_display_enabled = None\<rparr>,
       \<lparr>sr_sensor_id = 2, sr_temperature_c = c, sr_status = (if c = None then ''NOT_RETRIEVED'' else ''VALID''),
        sr_display_enabled = None\<rparr>],
     sa_average = map_option (\<lambda>x. (19 + x) / 2) c, sa_source = ''HISTORY'', sa_provisional = False, sa_failure_reason = None\<rparr>"

definition small_batch :: history_batch where
  "small_batch = \<lparr>hb_device = \<lparr>dev_address = ''A'', dev_name = ''T''\<rparr>, hb_boot_id = 7, hb_previous_boot_id = None,
     hb_new_boot = False, hb_samples = [small_sample 2 2000000 (Some 21), small_sample 3 3000000 None],
     hb_expected_counts = [2, 2], hb_retrieved_counts = [2, 1], hb_complete = False, hb_elapsed_seconds = 1,
     hb_failure_reason = None\<rparr>"

definition small_mysql :: "exc option list \<Rightarrow> mysql" where
  "small_mysql fs = \<lparr>my_pool = True, my_table = small_table, my_faults = fs\<rparr>"

lemma small_table_ok: "table_ok (my_table (small_mysql fs))"
  by (simp add: table_ok_def small_mysql_def small_table_def sample_row_of_def row_key_def)

theorem measured_values_kept_witness:
  "table_ok (my_table (mysql_run plain_columns [UpsertHistory small_batch, ReconcileProvisional small_batch] (small_mysql [])))"
  using measured_values_kept [OF small_table_ok] by blast

definition lost_connection :: exc where
  "lost_connection = Exc (OtherErrorC ''OperationalError'') ''lost connection'' None [] None"


theorem reconcile_exact_witness:
  "reconcile small_batch (small_mysql []) = (Inr (stored (Some ''removed 1 provisional row(s) superseded by recovered history'')),
     (small_mysql [])\<lparr>my_table := small_table\<lparr>tb_rows := [sample_row_of 1 (Some 1) 1000000 ''LIVE'']\<rparr>\<rparr>)"
proof -
  have f: "filter (superseded small_batch) (tb_rows (my_table (small_mysql []))) = [sample_row_of 2 None 2000000 ''PROVISIONAL'']"
    "filter (\<lambda>r. \<not> superseded small_batch r) (tb_rows (my_table (small_mysql []))) = [sample_row_of 1 (Some 1) 1000000 ''LIVE'']"
    by (simp_all add: small_mysql_def small_table_def sample_row_of_def superseded_def small_batch_def small_sample_def tolerance_def)
  have n: "show_nat 1 = ''1''" by code_simp
  show ?thesis
    using reconcile_exact [OF small_table_ok, of "[]" small_batch] n unfolding f
    by (simp add: small_mysql_def small_batch_def)
qed

end
