(* ===== verification/Coroutines.thy ===== *)
theory Coroutines
  imports Actions
begin

section \<open>Coroutines: code with suspension points\<close>

text \<open>
  An \<open>async def\<close> of the controller is a tree: it has returned or raised (\<open>Finished\<close>), it does a
  piece of work on the shared state without giving up the event loop (\<open>Work\<close>), or it is suspended
  at an \<open>await\<close> on something outside it (\<open>Await\<close>), where every other task may run and any answer
  may come, a result or an exception, a cancellation too. So the code between two suspension
  points is atomic and nothing else is, as in \<open>asyncio\<close>.
\<close>

datatype ('q, 'r, 's, 'a) coro =
  Finished "'a res"
| Work "'s \<Rightarrow> ('q, 'r, 's, 'a) coro \<times> 's"
| Await 'q "'r res \<Rightarrow> ('q, 'r, 's, 'a) coro"

definition creturn :: "'a \<Rightarrow> ('q, 'r, 's, 'a) coro" where
  "creturn v = Finished (Inr v)"

definition craise :: "exc \<Rightarrow> ('q, 'r, 's, 'a) coro" where
  "craise e = Finished (Inl e)"

text \<open>A synchronous piece of code, and a suspension that returns the answer.\<close>

definition work :: "('s, 'a) act \<Rightarrow> ('q, 'r, 's, 'a) coro" where
  "work m = Work (\<lambda>s. case m s of (r, s') \<Rightarrow> (Finished r, s'))"

definition await :: "'q \<Rightarrow> ('q, 'r, 's, 'r) coro" where
  "await q = Await q Finished"

primrec cbind :: "('q, 'r, 's, 'a) coro \<Rightarrow> ('a \<Rightarrow> ('q, 'r, 's, 'b) coro) \<Rightarrow> ('q, 'r, 's, 'b) coro" where
  "cbind (Finished r) f = (case r of Inl e \<Rightarrow> Finished (Inl e) | Inr v \<Rightarrow> f v)"
| "cbind (Work g) f = Work (map_prod (\<lambda>c. cbind c f) id \<circ> g)"
| "cbind (Await q k) f = Await q (\<lambda>r. cbind (k r) f)"

primrec ccatch ::
    "('q, 'r, 's, 'a) coro \<Rightarrow> (exc \<Rightarrow> bool) \<Rightarrow> (exc \<Rightarrow> ('q, 'r, 's, 'a) coro) \<Rightarrow> ('q, 'r, 's, 'a) coro" where
  "ccatch (Finished r) p h = (case r of Inl e \<Rightarrow> if p e then h e else Finished (Inl e) | Inr v \<Rightarrow> Finished (Inr v))"
| "ccatch (Work g) p h = Work (map_prod (\<lambda>c. ccatch c p h) id \<circ> g)"
| "ccatch (Await q k) p h = Await q (\<lambda>r. ccatch (k r) p h)"

text \<open>\<open>cthen\<close>: one coroutine after another; \<open>cread\<close>: a branch on the state at this moment.\<close>

definition cthen :: "('q, 'r, 's, 'a) coro \<Rightarrow> ('q, 'r, 's, 'b) coro \<Rightarrow> ('q, 'r, 's, 'b) coro" where
  "cthen c d = cbind c (\<lambda>_. d)"

definition cread :: "('s \<Rightarrow> ('q, 'r, 's, 'a) coro) \<Rightarrow> ('q, 'r, 's, 'a) coro" where
  "cread f = Work (\<lambda>s. (f s, s))"

text \<open>The outcome of a coroutine as a value, and \<open>try: c finally: d\<close>.\<close>

definition cattempt :: "('q, 'r, 's, 'a) coro \<Rightarrow> ('q, 'r, 's, 'a res) coro" where
  "cattempt c = ccatch (cbind c (\<lambda>v. creturn (Inr v))) (\<lambda>_. True) (\<lambda>e. creturn (Inl e))"

definition cfinally :: "('q, 'r, 's, 'a) coro \<Rightarrow> ('q, 'r, 's, unit) coro \<Rightarrow> ('q, 'r, 's, 'a) coro" where
  "cfinally c d = cbind (cattempt c) (\<lambda>r. cthen d (Finished r))"

text \<open>Run up to the next suspension point or the end.\<close>

primrec advance :: "('q, 'r, 's, 'a) coro \<Rightarrow> 's \<Rightarrow> ('q, 'r, 's, 'a) coro \<times> 's" where
  "advance (Finished r) = (\<lambda>s. (Finished r, s))"
| "advance (Work g) = (\<lambda>s. case map_prod advance id (g s) of (run, s') \<Rightarrow> run s')"
| "advance (Await q k) = (\<lambda>s. (Await q k, s))"

subsection \<open>Assertions that every piece of work keeps\<close>

primrec ckeeps :: "('s \<Rightarrow> bool) \<Rightarrow> ('q, 'r, 's, 'a) coro \<Rightarrow> bool" where
  "ckeeps P (Finished r) = True"
| "ckeeps P (Work g) = (\<forall>s. P s \<longrightarrow> (case map_prod (ckeeps P) id (g s) of (b, s') \<Rightarrow> b \<and> P s'))"
| "ckeeps P (Await q k) = (\<forall>r. ckeeps P (k r))"

lemma ckeeps_Work: "ckeeps P (Work g) \<longleftrightarrow> (\<forall>s. P s \<longrightarrow> ckeeps P (fst (g s)) \<and> P (snd (g s)))"
  by (simp add: case_prod_beta)

lemma ckeeps_basic [intro!, simp]: "ckeeps P (creturn v)" "ckeeps P (craise e)" "ckeeps P (await q)"
  by (simp_all add: creturn_def craise_def await_def)

lemma ckeeps_work: "keeps P m \<Longrightarrow> ckeeps P (work m)"
  unfolding work_def ckeeps_Work keeps_def by (simp add: case_prod_beta)

lemma ckeeps_cbind: "ckeeps P c \<Longrightarrow> (\<And>v. ckeeps P (f v)) \<Longrightarrow> ckeeps P (cbind c f)"
proof (induction c)
  case (Work g)
  have "ckeeps P (cbind (fst (g s)) f) \<and> P (snd (g s))" if "P s" for s
  proof -
    have "fst (g s) \<in> Basic_BNFs.fsts (g s)" by (cases "g s") simp
    then show ?thesis using Work.IH [of "g s" "fst (g s)"] Work.prems that unfolding ckeeps_Work by blast
  qed
  then show ?case unfolding cbind.simps ckeeps_Work by (simp add: case_prod_beta)
qed (auto split: sum.split)

lemma ckeeps_ccatch: "ckeeps P c \<Longrightarrow> (\<And>e. ckeeps P (h e)) \<Longrightarrow> ckeeps P (ccatch c p h)"
proof (induction c)
  case (Work g)
  have "ckeeps P (ccatch (fst (g s)) p h) \<and> P (snd (g s))" if "P s" for s
  proof -
    have "fst (g s) \<in> Basic_BNFs.fsts (g s)" by (cases "g s") simp
    then show ?thesis using Work.IH [of "g s" "fst (g s)"] Work.prems that unfolding ckeeps_Work by blast
  qed
  then show ?case unfolding ccatch.simps ckeeps_Work by (simp add: case_prod_beta)
qed (auto split: sum.split)

lemma ckeeps_cthen: "ckeeps P c \<Longrightarrow> ckeeps P d \<Longrightarrow> ckeeps P (cthen c d)"
  unfolding cthen_def by (rule ckeeps_cbind)

lemma ckeeps_cread: "(\<And>s. P s \<Longrightarrow> ckeeps P (f s)) \<Longrightarrow> ckeeps P (cread f)"
  unfolding cread_def ckeeps_Work by simp

lemma ckeeps_cattempt: "ckeeps P c \<Longrightarrow> ckeeps P (cattempt c)"
  unfolding cattempt_def by (intro ckeeps_ccatch ckeeps_cbind ckeeps_basic)

lemma ckeeps_cfinally: "ckeeps P c \<Longrightarrow> ckeeps P d \<Longrightarrow> ckeeps P (cfinally c d)"
  unfolding cfinally_def by (intro ckeeps_cbind ckeeps_cattempt ckeeps_cthen) simp_all

lemmas ckeeps_intros = ckeeps_basic ckeeps_cbind ckeeps_ccatch ckeeps_cthen ckeeps_cattempt ckeeps_cfinally

lemma ckeeps_advance:
  "ckeeps P c \<Longrightarrow> P s \<Longrightarrow> ckeeps P (fst (advance c s)) \<and> P (snd (advance c s))"
proof (induction c arbitrary: s)
  case (Work g)
  have "fst (g s) \<in> Basic_BNFs.fsts (g s)" by (cases "g s") simp
  moreover have "ckeeps P (fst (g s)) \<and> P (snd (g s))" using Work.prems unfolding ckeeps_Work by blast
  ultimately show ?case using Work.IH [of "g s" "fst (g s)" "snd (g s)"] by (simp add: case_prod_beta)
qed auto

subsection \<open>What a coroutine achieves among others\<close>

text \<open>
  \<open>cwp R F c Q s\<close>: started in \<open>s\<close>, whenever the others change the state at the suspension points
  as \<open>R\<close> allows and the answers are as \<open>F\<close> allows, \<open>c\<close> ends with an outcome and a state in \<open>Q\<close>.
\<close>

primrec cwp ::
    "('s \<Rightarrow> 's \<Rightarrow> bool) \<Rightarrow> ('q \<Rightarrow> 'r res \<Rightarrow> bool) \<Rightarrow> ('q, 'r, 's, 'a) coro
     \<Rightarrow> ('a res \<Rightarrow> 's \<Rightarrow> bool) \<Rightarrow> 's \<Rightarrow> bool" where
  "cwp R F (Finished r) = (\<lambda>Q s. Q r s)"
| "cwp R F (Work g) = (\<lambda>Q s. case map_prod (cwp R F) id (g s) of (p, s') \<Rightarrow> p Q s')"
| "cwp R F (Await q k) = (\<lambda>Q s. \<forall>r s'. F q r \<longrightarrow> R s s' \<longrightarrow> cwp R F (k r) Q s')"

lemma cwp_Work: "cwp R F (Work g) Q s = cwp R F (fst (g s)) Q (snd (g s))"
  by (simp add: case_prod_beta)

lemma cwp_creturn [simp]: "cwp R F (creturn v) Q s = Q (Inr v) s" by (simp add: creturn_def)
lemma cwp_craise [simp]: "cwp R F (craise e) Q s = Q (Inl e) s" by (simp add: craise_def)
lemma cwp_await [simp]: "cwp R F (await q) Q s = (\<forall>r s'. F q r \<longrightarrow> R s s' \<longrightarrow> Q r s')"
  by (simp add: await_def)
lemma cwp_work [simp]: "cwp R F (work m) Q s = (case m s of (r, s') \<Rightarrow> Q r s')"
  by (simp add: work_def case_prod_beta)
lemma cwp_cread [simp]: "cwp R F (cread f) Q s = cwp R F (f s) Q s" by (simp add: cread_def)

lemmas cwp_basic = cwp_creturn cwp_craise cwp_await cwp_work cwp_cread

lemma cwp_cbind:
  "cwp R F (cbind c f) Q s =
     cwp R F c (\<lambda>r s. case r of Inl e \<Rightarrow> Q (Inl e) s | Inr v \<Rightarrow> cwp R F (f v) Q s) s"
proof (induction c arbitrary: s)
  case (Work g)
  have "fst (g s) \<in> Basic_BNFs.fsts (g s)" by (cases "g s") simp
  from Work.IH [OF _ this, of "snd (g s)"] show ?case by (simp add: case_prod_beta)
qed (auto split: sum.split)

lemma cwp_ccatch:
  "cwp R F (ccatch c p h) Q s =
     cwp R F c (\<lambda>r s. case r of Inl e \<Rightarrow> if p e then cwp R F (h e) Q s else Q (Inl e) s | Inr v \<Rightarrow> Q (Inr v) s) s"
proof (induction c arbitrary: s)
  case (Work g)
  have "fst (g s) \<in> Basic_BNFs.fsts (g s)" by (cases "g s") simp
  from Work.IH [OF _ this, of "snd (g s)"] show ?case by (simp add: case_prod_beta)
qed (auto split: sum.split)

lemma cwp_cthen:
  "cwp R F (cthen c d) Q s = cwp R F c (\<lambda>r s. case r of Inl e \<Rightarrow> Q (Inl e) s | Inr v \<Rightarrow> cwp R F d Q s) s"
  by (simp add: cthen_def cwp_cbind)

lemma cwp_mono: "cwp R F c Q s \<Longrightarrow> (\<And>r s. Q r s \<Longrightarrow> Q' r s) \<Longrightarrow> cwp R F c Q' s"
proof (induction c arbitrary: s)
  case (Work g)
  have "fst (g s) \<in> Basic_BNFs.fsts (g s)" by (cases "g s") simp
  from Work.IH [OF _ this, of "snd (g s)"] show ?case using Work.prems by (simp add: case_prod_beta)
next
  case (Await q k)
  show ?case unfolding cwp.simps
  proof (intro allI impI)
    fix r s' assume "F q r" "R s s'"
    then have "cwp R F (k r) Q s'" using Await.prems(1) by simp
    then show "cwp R F (k r) Q' s'" using Await.IH [OF rangeI] Await.prems(2) by blast
  qed
qed simp

lemma cwp_cattempt: "cwp R F (cattempt c) Q s = cwp R F c (\<lambda>r s. Q (Inr r) s) s"
  unfolding cattempt_def cwp_ccatch cwp_cbind cwp_basic sum.case if_True
  by (rule iffI; erule cwp_mono) (auto split: sum.splits)

lemma cwp_cfinally:
  "cwp R F (cfinally c d) Q s = cwp R F c (\<lambda>r s. cwp R F d (\<lambda>x s. case x of Inl e \<Rightarrow> Q (Inl e) s | Inr _ \<Rightarrow> Q r s) s) s"
  unfolding cfinally_def cwp_cbind cwp_cattempt by (simp add: cwp_cthen cong del: sum.case_cong_weak)

lemma cwp_conj: "cwp R F c Q s \<Longrightarrow> cwp R F c Q' s \<Longrightarrow> cwp R F c (\<lambda>r s. Q r s \<and> Q' r s) s"
proof (induction c arbitrary: s)
  case (Work g)
  have "fst (g s) \<in> Basic_BNFs.fsts (g s)" by (cases "g s") simp
  from Work.IH [OF _ this, of "snd (g s)"] show ?case using Work.prems by (simp add: case_prod_beta)
qed auto

text \<open>What holds at the end holds of any assertion that the work and the others keep.\<close>

lemma cwp_keeps:
  "ckeeps P c \<Longrightarrow> P s \<Longrightarrow> (\<And>s s'. R s s' \<Longrightarrow> P s \<Longrightarrow> P s') \<Longrightarrow> cwp R F c (\<lambda>r s. P s) s"
proof (induction c arbitrary: s)
  case (Work g)
  have f: "fst (g s) \<in> Basic_BNFs.fsts (g s)" by (cases "g s") simp
  have "ckeeps P (fst (g s)) \<and> P (snd (g s))" using Work.prems unfolding ckeeps_Work by blast
  then show ?case using Work.IH [OF _ f, of "snd (g s)"] Work.prems(3) by (auto simp: cwp_Work simp del: cwp.simps)
next
  case (Await q k)
  then show ?case by (auto intro!: Await.IH) 
qed simp

subsection \<open>Tasks\<close>

text \<open>
  The event loop: a step starts a coroutine, resumes a suspended one with an answer, or lets the
  world outside the process move. \<open>answers q r s\<close> says which answers are possible, \<open>outside\<close> what
  the world may change.
\<close>

type_synonym ('q, 'r, 's) pool = "nat \<Rightarrow> ('q, 'r, 's, unit) coro"

inductive loop_step ::
    "('q, 'r, 's, unit) coro set \<Rightarrow> ('q \<Rightarrow> 'r res \<Rightarrow> 's \<Rightarrow> bool) \<Rightarrow> ('s \<Rightarrow> 's \<Rightarrow> bool)
     \<Rightarrow> 's \<times> ('q, 'r, 's) pool \<Rightarrow> 's \<times> ('q, 'r, 's) pool \<Rightarrow> bool"
  for calls answers outside where
  Start: "c \<in> calls \<Longrightarrow> p t = Finished r \<Longrightarrow> advance c s = (c', s')
    \<Longrightarrow> loop_step calls answers outside (s, p) (s', p(t := c'))"
| Resume: "p t = Await q k \<Longrightarrow> answers q r s \<Longrightarrow> advance (k r) s = (c', s')
    \<Longrightarrow> loop_step calls answers outside (s, p) (s', p(t := c'))"
| Outside: "outside s s' \<Longrightarrow> loop_step calls answers outside (s, p) (s', p)"

inductive loop_reaches ::
    "('q, 'r, 's, unit) coro set \<Rightarrow> ('q \<Rightarrow> 'r res \<Rightarrow> 's \<Rightarrow> bool) \<Rightarrow> ('s \<Rightarrow> 's \<Rightarrow> bool)
     \<Rightarrow> 's \<times> ('q, 'r, 's) pool \<Rightarrow> 's \<times> ('q, 'r, 's) pool \<Rightarrow> bool"
  for calls answers outside where
  Here: "loop_reaches calls answers outside x x"
| There: "loop_reaches calls answers outside x y \<Longrightarrow> loop_step calls answers outside y z
    \<Longrightarrow> loop_reaches calls answers outside x z"

inductive_cases loop_stepE: "loop_step calls answers outside x y"

lemma loop_invariant_step:
  assumes "loop_step calls answers outside x y"
    and "\<And>c. c \<in> calls \<Longrightarrow> ckeeps P c" and "\<And>s s'. outside s s' \<Longrightarrow> P s \<Longrightarrow> P s'"
    and "P (fst x)" and "\<And>t. ckeeps P (snd x t)"
  shows "P (fst y) \<and> (\<forall>t. ckeeps P (snd y t))"
  using assms(1)
proof cases
  case (Start c p t r s c' s')
  from ckeeps_advance [OF assms(2) [OF Start(3)], of s] assms(4,5) show ?thesis using Start by auto
next
  case (Resume p t q k r s c' s')
  have "ckeeps P (k r)" using assms(5) [of t] Resume by simp
  from ckeeps_advance [OF this, of s] assms(4,5) show ?thesis using Resume by auto
next
  case (Outside s s' p)
  then show ?thesis using assms by auto
qed

lemma loop_invariant:
  assumes "loop_reaches calls answers outside x y"
    and "\<And>c. c \<in> calls \<Longrightarrow> ckeeps P c" and "\<And>s s'. outside s s' \<Longrightarrow> P s \<Longrightarrow> P s'"
    and "P (fst x)" and "\<And>t. ckeeps P (snd x t)"
  shows "P (fst y) \<and> (\<forall>t. ckeeps P (snd y t))"
  using assms(1,4,5)
proof induction
  case (There x y z)
  then have y: "P (fst y)" "\<And>t. ckeeps P (snd y t)" by blast+
  show ?case by (rule loop_invariant_step [OF There.hyps(2) _ _ y]) (fact assms(2), fact assms(3))
qed simp

end
