(* ===== verification/Service_Core.thy ===== *)
theory Service_Core
  imports Coroutines Persistence History_Sync Credentials Scheduler
begin

section \<open>The controller: state and synchronous operations\<close>

text \<open>
  \<open>backend/pc_client/ble_service.py\<close>: the state of \<open>ThermometerBleService\<close> and the methods that run
  without suspension: transitions, lifecycle events, tracked operations, names and targets, the
  cached diagnostic and the reported status. The host (clocks, \<open>uuid4\<close>, the client factory, the
  properties of a client, the database adapter) is a record of functions of a world of its own.
\<close>

subsection \<open>Data\<close>

datatype operation_state = QUEUED | RUNNING | SUCCEEDED | FAILED | CANCELLED_OP

record current_diagnostic =
  cd_available :: bool
  cd_received_at :: "utc option"
  cd_snapshot :: "current_snapshot option"
  cd_error :: "string option"

record history_result =
  hx_expected_counts :: "int list"
  hx_retrieved_counts :: "int list"
  hx_complete :: bool
  hx_elapsed_seconds :: rat
  hx_sample_count :: nat
  hx_persisted :: bool
  hx_failure_reason :: "string option"

datatype operation_result =
  ConnectResult "string option" bool
| ForgetResult string
| HistoryResult history_result

record tracked_operation =
  op_id :: string
  op_kind :: string
  op_state :: operation_state
  op_created_at :: utc
  op_updated_at :: utc
  op_progress :: rat
  op_persistence_configured :: bool
  op_persistence_succeeded :: "bool option"
  op_result :: "operation_result option"
  op_error :: "(string \<times> string) option"

text \<open>The last history retrieval as the status shows it.\<close>

datatype history_status =
  HistoryRunning string string
| HistoryProgress rat string string
| HistoryCancelled string string string
| HistoryFailed string string string
| HistoryFinished string string history_result

record service_status =
  ss_phase :: connection_phase
  ss_desired_connected :: bool
  ss_target :: "device_identity option"
  ss_connected :: bool
  ss_ready :: bool
  ss_credential_state :: credential_state
  ss_state_revision :: int
  ss_state_changed_at :: utc
  ss_transition_reason :: string
  ss_retry_count :: int
  ss_next_retry_at :: "utc option"
  ss_last_seen :: "utc option"
  ss_last_error :: "string option"
  ss_last_database_error :: "string option"
  ss_protocol_version :: int
  ss_persistence_configured :: bool
  ss_active_operation_ids :: "string list"
  ss_manager_running :: bool
  ss_attempt_id :: int
  ss_next_action_at :: "utc option"
  ss_persistence_pending :: nat
  ss_persistence_capacity :: nat
  ss_persistence_overflow_count :: nat
  ss_history_sync :: "history_status option"

datatype service_event =
  EvSimple string
| EvMessage string string
| EvDatabaseError string string
| EvDevices "discovered_thermometer list"
| EvSnapshot current_snapshot
| EvHistory history_sync
| EvDisplay display_result
| EvServiceStatus service_status

text \<open>The value of a lifecycle event: nothing, devices, or the client that lost its link.\<close>

datatype 'h event_value = NoValue | ObservedDevices "discovered_thermometer list" | LostClient 'h

type_synonym service_state = "discovered_thermometer controller_state"

record ('h, 'w) svc =
  sv_started :: bool
  sv_state :: service_state
  sv_generation :: int
  sv_verified_bond :: "string option"
  sv_attempt_id :: int
  sv_passkey :: "string option"
  sv_from_registry :: bool
  sv_known :: "(string, discovered_thermometer) dict"
  sv_client :: "'h option"
  sv_current :: current_diagnostic
  sv_boot_id :: "int option"
  sv_previous_boot_id :: "int option"
  sv_is_new_boot :: bool
  sv_last_history :: "history_status option"
  sv_last_database_error :: "string option"
  sv_database_errors :: "(string, string) dict"
  sv_persistence :: "db_call persist_worker"
  sv_events :: "'h event_value lifecycle_event list"
  sv_pending_discovery :: "discovered_thermometer list option"
  sv_lock :: bool
  sv_manager_running :: bool
  sv_publish_queue :: "service_state list"
  sv_history_task :: "(string \<times> bool) option"
  sv_scan_running :: bool
  sv_history_operation :: "string option"
  sv_operations :: "(string, tracked_operation) dict"
  sv_completed :: "(string, bool) dict"
  sv_pending_connect :: "string option"
  sv_registry :: "utc registry"
  sv_world :: 'w

record ('h, 'w) host =
  ho_settings :: service_config
  ho_auto_discover :: bool
  ho_has_handler :: bool
  ho_has_last_boot :: bool
  ho_codec :: "utc iso_codec"
  ho_utc_now :: "'w \<Rightarrow> utc \<times> 'w"
  ho_monotonic :: "'w \<Rightarrow> rat \<times> 'w"
  ho_uuid :: "'w \<Rightarrow> string \<times> 'w"
  ho_make_client :: "discovered_thermometer \<Rightarrow> 'w \<Rightarrow> 'h \<times> 'w"
  ho_is_connected :: "'h \<Rightarrow> 'w \<Rightarrow> bool"
  ho_device_name :: "'h \<Rightarrow> 'w \<Rightarrow> string option"
  ho_configured :: "'w \<Rightarrow> bool"
  ho_write_fault :: "'w \<Rightarrow> write_fault"
  ho_show_g :: "rat \<Rightarrow> string"

type_synonym ('h, 'w, 'a) sact = "(('h, 'w) svc, 'a) act"

definition modify :: "('s \<Rightarrow> 's) \<Rightarrow> ('s, unit) act" where
  "modify f s = (Inr (), f s)"

definition host_call :: "('w \<Rightarrow> 'a \<times> 'w) \<Rightarrow> ('h, 'w, 'a) sact" where
  "host_call f s = (case f (sv_world s) of (v, w) \<Rightarrow> (Inr v, s\<lparr>sv_world := w\<rparr>))"

abbreviation utc_now :: "('h, 'w) host \<Rightarrow> ('h, 'w, utc) sact" where
  "utc_now h \<equiv> host_call (ho_utc_now h)"

abbreviation monotonic :: "('h, 'w) host \<Rightarrow> ('h, 'w, rat) sact" where
  "monotonic h \<equiv> host_call (ho_monotonic h)"

subsection \<open>A new service\<close>

definition initial_state :: "utc \<Rightarrow> service_state" where
  "initial_state t = \<lparr>st_phase = STOPPED, st_desired_connected = False, st_target = None, st_connected = False,
     st_ready = False, st_credential_state = CRED_MISSING, st_retry_count = 0, st_next_retry_at = None,
     st_last_seen = None, st_last_error = None, st_revision = 0, st_changed_at = t,
     st_reason = ''service created''\<rparr>"

definition new_service ::
    "('h, 'w) host \<Rightarrow> utc registry \<Rightarrow> 'w \<Rightarrow> ('h, 'w) svc res" where
  "new_service h registry w0 =
     (case ho_utc_now h w0 of (t, w) \<Rightarrow>
        rbind (new_worker (persistence_queue_capacity (ho_settings h))) (\<lambda>worker.
        Inr \<lparr>sv_started = False, sv_state = initial_state t, sv_generation = 0, sv_verified_bond = None,
             sv_attempt_id = 0, sv_passkey = None, sv_from_registry = False, sv_known = [], sv_client = None,
             sv_current = \<lparr>cd_available = False, cd_received_at = None, cd_snapshot = None, cd_error = None\<rparr>,
             sv_boot_id = None, sv_previous_boot_id = None, sv_is_new_boot = False, sv_last_history = None,
             sv_last_database_error = None, sv_database_errors = [], sv_persistence = worker, sv_events = [],
             sv_pending_discovery = None, sv_lock = False, sv_manager_running = False, sv_publish_queue = [],
             sv_history_task = None, sv_scan_running = False, sv_history_operation = None, sv_operations = [], sv_completed = [],
             sv_pending_connect = None, sv_registry = registry, sv_world = w\<rparr>))"

subsection \<open>Transitions and lifecycle events\<close>

definition transition ::
    "('h, 'w) host \<Rightarrow> connection_phase option \<Rightarrow> discovered_thermometer state_changes \<Rightarrow> string
     \<Rightarrow> ('h, 'w, unit) sact" where
  "transition h phase changes reason =
     abind (utc_now h) (\<lambda>t s. case transition_state (sv_state s) t phase reason changes of
       Inl e \<Rightarrow> (Inl e, s) | Inr st \<Rightarrow> (Inr (), s\<lparr>sv_state := st\<rparr>))"

text \<open>The change most transitions make: the link is down.\<close>

definition link_down :: "discovered_thermometer state_changes" where
  "link_down = no_changes\<lparr>ch_connected := Some False, ch_ready := Some False\<rparr>"

definition post_event ::
    "lifecycle_event_type \<Rightarrow> string \<Rightarrow> 'h event_value \<Rightarrow> int option \<Rightarrow> ('h, 'w, unit) sact" where
  "post_event kind reason v generation = modify (\<lambda>s.
     if \<not> sv_started s \<and> kind \<noteq> EV_STOP then s
     else s\<lparr>sv_events := sv_events s @ [\<lparr>ev_kind = kind,
       ev_generation = (case generation of None \<Rightarrow> sv_generation s | Some g \<Rightarrow> g),
       ev_reason = reason, ev_value = v\<rparr>]\<rparr>)"

definition notify_connection_manager :: "('h, 'w, unit) sact" where
  "notify_connection_manager = post_event EV_INTENT_CHANGED ''connection intent changed'' NoValue None"

text \<open>The callback of a client whose transport reports a disconnection, run by the event loop.\<close>

definition on_transport_disconnected :: "'h \<Rightarrow> ('h, 'w, unit) sact" where
  "on_transport_disconnected client s =
     (if \<not> sv_started s \<or> st_phase (sv_state s) = DISCONNECTING \<or> sv_client s \<noteq> Some client then (Inr (), s)
      else post_event EV_LINK_LOST ''BLE session ended unexpectedly'' (LostClient client) None s)"

definition publish_connection_state :: "('h, 'w, unit) sact" where
  "publish_connection_state = modify (\<lambda>s. s\<lparr>sv_publish_queue := sv_publish_queue s @ [sv_state s]\<rparr>)"

abbreviation is_ready :: "('h, 'w) svc \<Rightarrow> bool" where
  "is_ready s \<equiv> st_ready (sv_state s)"

abbreviation target_of :: "('h, 'w) svc \<Rightarrow> discovered_thermometer option" where
  "target_of s \<equiv> st_target (sv_state s)"

definition device_identity_of :: "discovered_thermometer option \<Rightarrow> device_identity option" where
  "device_identity_of t = map_option (\<lambda>d. \<lparr>dev_address = dt_address d, dev_name = dt_name d\<rparr>) t"

definition required_client :: "('h, 'w) host \<Rightarrow> ('h, 'w, 'h) sact" where
  "required_client h s =
     (case sv_client s of
        Some c \<Rightarrow> if ho_is_connected h c (sv_world s) then (Inr c, s)
                  else (raise ServiceUnavailableErrorC ''thermometer is not connected'', s)
      | None \<Rightarrow> (raise ServiceUnavailableErrorC ''thermometer is not connected'', s))"

subsection \<open>Names and targets\<close>

definition has_useful_device_name :: "string option \<Rightarrow> string \<Rightarrow> bool" where
  "has_useful_device_name name address =
     (case name of
        None \<Rightarrow> False
      | Some n \<Rightarrow> py_strip n \<noteq> []
          \<and> (let normalized_name = py_lower (py_strip n) in
             normalized_name \<notin> {''unknown'', ''(unknown)''} \<and> normalized_name \<noteq> py_lower (py_strip address)))"

definition with_best_known_name :: "discovered_thermometer \<Rightarrow> ('h, 'w, discovered_thermometer) sact" where
  "with_best_known_name device s =
     (if has_useful_device_name (Some (dt_name device)) (dt_address device) then (Inr device, s)
      else
        let known = dict_get (sv_known s) (py_lower (dt_address device));
            known_name = map_option dt_name known
        in if has_useful_device_name known_name (dt_address device)
           then (Inr (device\<lparr>dt_name := the known_name\<rparr>), s)
           else (case lookup_credential (dt_address device) (sv_registry s) of
             Inl e \<Rightarrow> (Inl e, s)
           | Inr stored \<Rightarrow>
               let stored_name = map_option dc_device_name stored in
               if has_useful_device_name stored_name (dt_address device)
               then (Inr (device\<lparr>dt_name := py_strip (the stored_name)\<rparr>), s)
               else (Inr (device\<lparr>dt_name := display_name None (dt_address device)\<rparr>), s)))"

text \<open>A target as the callers give it: a discovered device, an address, or an object with attributes.\<close>

datatype target_arg =
  TargetDevice discovered_thermometer | TargetAddress string | TargetObject "string option" "string option"

definition resolve_target :: "target_arg \<Rightarrow> ('h, 'w, discovered_thermometer) sact" where
  "resolve_target target s =
     (case target of
        TargetDevice d \<Rightarrow> (Inr d, s)
      | _ \<Rightarrow>
          (case (case target of TargetAddress a \<Rightarrow> Some a | TargetObject a n \<Rightarrow> a | TargetDevice d \<Rightarrow> None) of
             None \<Rightarrow> (value_error ''a non-empty BLE address is required'', s)
           | Some address \<Rightarrow>
               if py_strip address = [] then (value_error ''a non-empty BLE address is required'', s)
               else (case dict_get (sv_known s) (py_lower address) of
                 Some known \<Rightarrow> (Inr known, s)
               | None \<Rightarrow> (Inr \<lparr>dt_name = display_name (case target of TargetObject a n \<Rightarrow> n | _ \<Rightarrow> None) address,
                              dt_address = address, dt_rssi = None\<rparr>, s))))"

subsection \<open>Tracked operations\<close>

definition op_finished :: "tracked_operation \<Rightarrow> bool" where
  "op_finished p \<longleftrightarrow> op_state p \<notin> {QUEUED, RUNNING}"

definition update_operation :: "string \<Rightarrow> (tracked_operation \<Rightarrow> tracked_operation) \<Rightarrow> ('h, 'w) svc \<Rightarrow> ('h, 'w) svc" where
  "update_operation i f s = (case dict_get (sv_operations s) i of
     None \<Rightarrow> s | Some p \<Rightarrow> s\<lparr>sv_operations := dict_set i (f p) (sv_operations s)\<rparr>)"

definition set_completed :: "string \<Rightarrow> ('h, 'w) svc \<Rightarrow> ('h, 'w) svc" where
  "set_completed i s = (case dict_get (sv_completed s) i of
     None \<Rightarrow> s | Some _ \<Rightarrow> s\<lparr>sv_completed := dict_set i True (sv_completed s)\<rparr>)"

definition prune_operations :: "('h, 'w) host \<Rightarrow> ('h, 'w, unit) sact" where
  "prune_operations h = abind (utc_now h) (\<lambda>t. modify (\<lambda>s.
     let cutoff = t - timedelta_us (completed_operation_retention_seconds (ho_settings h));
         expired = map fst (filter (\<lambda>(_, p). op_finished p \<and> op_updated_at p < cutoff) (sv_operations s))
     in s\<lparr>sv_operations := fold dict_del expired (sv_operations s),
          sv_completed := fold dict_del expired (sv_completed s)\<rparr>))"

definition new_operation :: "('h, 'w) host \<Rightarrow> string \<Rightarrow> ('h, 'w, string) sact" where
  "new_operation h kind =
     abind (prune_operations h) (\<lambda>_.
     abind (utc_now h) (\<lambda>t.
     abind (host_call (ho_uuid h)) (\<lambda>i s.
       (Inr i, s\<lparr>sv_operations := dict_set i \<lparr>op_id = i, op_kind = kind, op_state = QUEUED, op_created_at = t,
                   op_updated_at = t, op_progress = 0, op_persistence_configured = ho_configured h (sv_world s),
                   op_persistence_succeeded = None, op_result = None, op_error = None\<rparr> (sv_operations s),
                 sv_completed := dict_set i False (sv_completed s)\<rparr>))))"

definition run_operation :: "('h, 'w) host \<Rightarrow> string \<Rightarrow> ('h, 'w, unit) sact" where
  "run_operation h i = abind (utc_now h) (\<lambda>t. modify (update_operation i (\<lambda>p. p\<lparr>op_state := RUNNING, op_updated_at := t\<rparr>)))"

definition succeed_operation :: "('h, 'w) host \<Rightarrow> string \<Rightarrow> operation_result \<Rightarrow> ('h, 'w, unit) sact" where
  "succeed_operation h i result = abind (utc_now h) (\<lambda>t. modify (\<lambda>s.
     set_completed i (update_operation i (\<lambda>p. p\<lparr>op_state := SUCCEEDED, op_progress := 1, op_result := Some result,
       op_updated_at := t\<rparr>) s)))"

definition fail_operation :: "('h, 'w) host \<Rightarrow> string \<Rightarrow> exc \<Rightarrow> ('h, 'w, unit) sact" where
  "fail_operation h i e = abind (utc_now h) (\<lambda>t. modify (\<lambda>s.
     set_completed i (update_operation i (\<lambda>p. p\<lparr>op_state := FAILED,
       op_error := Some (class_name (exc_class e), describe_ble_error e), op_updated_at := t\<rparr>) s)))"

definition cancel_operation :: "('h, 'w) host \<Rightarrow> string \<Rightarrow> string \<Rightarrow> ('h, 'w, unit) sact" where
  "cancel_operation h i reason s =
     (case dict_get (sv_operations s) i of
        None \<Rightarrow> (Inr (), s)
      | Some p \<Rightarrow>
          if op_finished p then (Inr (), s)
          else abind (utc_now h) (\<lambda>t. modify (\<lambda>s.
            set_completed i (update_operation i (\<lambda>p. p\<lparr>op_state := CANCELLED_OP,
              op_error := Some (''CancelledError'', reason), op_updated_at := t\<rparr>) s))) s)"

definition complete_pending_connect :: "('h, 'w) host \<Rightarrow> ('h, 'w, unit) sact" where
  "complete_pending_connect h s =
     (case sv_pending_connect s of
        None \<Rightarrow> (Inr (), s)
      | Some i \<Rightarrow>
          abind (if dict_get (sv_operations s) i \<noteq> None
                 then succeed_operation h i (ConnectResult (map_option dt_address (target_of s)) False)
                 else areturn ())
            (\<lambda>_. modify (\<lambda>s. s\<lparr>sv_pending_connect := None\<rparr>)) s)"

definition fail_pending_connect :: "('h, 'w) host \<Rightarrow> string \<Rightarrow> ('h, 'w, unit) sact" where
  "fail_pending_connect h message s =
     (case sv_pending_connect s of
        None \<Rightarrow> (Inr (), s)
      | Some i \<Rightarrow>
          abind (if dict_get (sv_operations s) i \<noteq> None
                 then fail_operation h i (Exc RuntimeErrorC message None [] None) else areturn ())
            (\<lambda>_. modify (\<lambda>s. s\<lparr>sv_pending_connect := None\<rparr>)) s)"

definition cancel_pending_connect :: "('h, 'w) host \<Rightarrow> string \<Rightarrow> ('h, 'w, unit) sact" where
  "cancel_pending_connect h reason s =
     (case sv_pending_connect s of
        None \<Rightarrow> (Inr (), s)
      | Some i \<Rightarrow> abind (cancel_operation h i reason) (\<lambda>_. modify (\<lambda>s. s\<lparr>sv_pending_connect := None\<rparr>)) s)"

definition get_operation :: "('h, 'w) host \<Rightarrow> string \<Rightarrow> ('h, 'w, tracked_operation) sact" where
  "get_operation h i = abind (prune_operations h) (\<lambda>_ s.
     case dict_get (sv_operations s) i of
       Some p \<Rightarrow> (Inr p, s)
     | None \<Rightarrow> (raise_from OperationNotFoundErrorC (''operation '' @ py_repr i @ '' was not found'')
                 (Exc KeyErrorC (py_repr i) None [] None), s))"

subsection \<open>Status\<close>

definition active_operation_ids :: "('h, 'w) svc \<Rightarrow> string list" where
  "active_operation_ids s = map fst (filter (\<lambda>(_, p). op_state p \<in> {QUEUED, RUNNING}) (sv_operations s))"

definition removeprefix :: "string \<Rightarrow> string \<Rightarrow> string" where
  "removeprefix p s = (if py_startswith s p then drop (length p) s else s)"

definition history_status_of :: "('h, 'w) svc \<Rightarrow> history_status option" where
  "history_status_of s =
     (case sv_history_operation s of
        None \<Rightarrow> sv_last_history s
      | Some i \<Rightarrow>
          (case dict_get (sv_operations s) i of
             Some p \<Rightarrow> if op_state p = RUNNING
               then Some (HistoryProgress (op_progress p) (op_id p) (removeprefix ''history_sync:'' (op_kind p)))
               else sv_last_history s
           | None \<Rightarrow> sv_last_history s))"

definition status_from_state :: "('h, 'w) host \<Rightarrow> service_state \<Rightarrow> ('h, 'w) svc \<Rightarrow> service_status" where
  "status_from_state h st s =
     (let health = worker_health (sv_persistence s) in
      \<lparr>ss_phase = st_phase st, ss_desired_connected = st_desired_connected st,
       ss_target = device_identity_of (st_target st), ss_connected = st_connected st, ss_ready = st_ready st,
       ss_credential_state = st_credential_state st, ss_state_revision = st_revision st,
       ss_state_changed_at = st_changed_at st, ss_transition_reason = st_reason st,
       ss_retry_count = st_retry_count st, ss_next_retry_at = st_next_retry_at st, ss_last_seen = st_last_seen st,
       ss_last_error = st_last_error st, ss_last_database_error = sv_last_database_error s,
       ss_protocol_version = PROTOCOL_VERSION, ss_persistence_configured = ho_configured h (sv_world s),
       ss_active_operation_ids = active_operation_ids s, ss_manager_running = sv_manager_running s,
       ss_attempt_id = sv_attempt_id s, ss_next_action_at = st_next_retry_at st,
       ss_persistence_pending = ph_pending health, ss_persistence_capacity = ph_capacity health,
       ss_persistence_overflow_count = ph_overflow_count health, ss_history_sync = history_status_of s\<rparr>)"

definition get_status :: "('h, 'w) host \<Rightarrow> ('h, 'w, service_status) sact" where
  "get_status h = abind (prune_operations h) (\<lambda>_ s. (Inr (status_from_state h (sv_state s) s), s))"

subsection \<open>The cached diagnostic\<close>

definition unavailable :: "string \<Rightarrow> ('h, 'w) svc \<Rightarrow> ('h, 'w) svc" where
  "unavailable reason s = s\<lparr>sv_current := \<lparr>cd_available = False, cd_received_at = cd_received_at (sv_current s),
     cd_snapshot = None, cd_error = Some reason\<rparr>\<rparr>"

definition update_cached_display :: "display_result \<Rightarrow> ('h, 'w) svc \<Rightarrow> ('h, 'w) svc" where
  "update_cached_display r s =
     (case cd_snapshot (sv_current s) of
        None \<Rightarrow> s
      | Some snap \<Rightarrow>
          s\<lparr>sv_current := (sv_current s)\<lparr>cd_snapshot := Some (snap\<lparr>cur_sensors :=
            map (\<lambda>x. if snap_sensor_id x = disp_sensor_id r
                     then x\<lparr>snap_visible_state := disp_visible_state r, snap_display_enabled := disp_display_enabled r\<rparr>
                     else x) (cur_sensors snap)\<rparr>)\<rparr>\<rparr>)"

end
