(* ===== verification/Service_Data.thy ===== *)
theory Service_Data
  imports Service_Core
begin

section \<open>The controller: samples, history and persistence\<close>

text \<open>
  \<open>backend/pc_client/ble_service.py\<close>: the publication of samples, missing slots and states, the
  history retrieval with its batch, and the calls of the database adapter. The suspension points
  of the whole controller are the queries below, with their answers; a call whose outcome is
  another component's (a scan, an exchange under the scheduler, the retrieval of the history, a
  database write) is one suspension.
\<close>

datatype ble_action = SetDisplayAction int bool | GetCurrentAction

datatype 'h query =
  QScan rat rat
| QScanTask
| QPair 'h "string option" rat
| QConnect 'h "string option" rat
| QAuthenticate 'h "string option" rat
| QInitialCurrent 'h rat
| QClose 'h rat
| QBondReset 'h
| QForget 'h
| QSubmit request_priority string ble_action "rat option"
| QSleep rat
| QWakeup "rat option"
| QEmit service_event
| QLock
| QTurn
| QCancelTask string
| QLastBoot "device_identity option"
| QHistory string
| QStored "nat list" "rat option"
| QDatabase db_call
| QDatabaseStart
| QDatabaseClose
| QStateQueue
| QFlush rat
| QSchedulerStop
| QPersistenceStop
| QCompletion string "rat option"

datatype boot_value = BootInt int | BootOther

datatype reply =
  RUnit
| RDevices "discovered_thermometer list"
| RSnapshot current_snapshot
| RDisplay display_result
| RBoot "boot_value option"
| RRetrieval history_retrieval
| RStored "persistence_result list"

type_synonym ('h, 'w, 'a) scoro = "('h query, reply, ('h, 'w) svc, 'a) coro"

text \<open>An answer of another kind than the query asks for does not occur; it is an error of its own.\<close>

definition unexpected_reply :: exc where
  "unexpected_reply = Exc TypeErrorC ''unexpected reply'' None [] None"

definition await_unit :: "'h query \<Rightarrow> ('h, 'w, unit) scoro" where
  "await_unit q = cbind (await q) (\<lambda>_. creturn ())"

definition await_devices :: "'h query \<Rightarrow> ('h, 'w, discovered_thermometer list) scoro" where
  "await_devices q = cbind (await q) (\<lambda>r. case r of RDevices ds \<Rightarrow> creturn ds | _ \<Rightarrow> craise unexpected_reply)"

definition await_snapshot :: "'h query \<Rightarrow> ('h, 'w, current_snapshot) scoro" where
  "await_snapshot q = cbind (await q) (\<lambda>r. case r of RSnapshot v \<Rightarrow> creturn v | _ \<Rightarrow> craise unexpected_reply)"

definition await_display :: "'h query \<Rightarrow> ('h, 'w, display_result) scoro" where
  "await_display q = cbind (await q) (\<lambda>r. case r of RDisplay v \<Rightarrow> creturn v | _ \<Rightarrow> craise unexpected_reply)"

definition await_boot :: "'h query \<Rightarrow> ('h, 'w, boot_value option) scoro" where
  "await_boot q = cbind (await q) (\<lambda>r. case r of RBoot v \<Rightarrow> creturn v | _ \<Rightarrow> craise unexpected_reply)"

definition await_retrieval :: "'h query \<Rightarrow> ('h, 'w, history_retrieval) scoro" where
  "await_retrieval q = cbind (await q) (\<lambda>r. case r of RRetrieval v \<Rightarrow> creturn v | _ \<Rightarrow> craise unexpected_reply)"

definition await_stored :: "'h query \<Rightarrow> ('h, 'w, persistence_result list) scoro" where
  "await_stored q = cbind (await q) (\<lambda>r. case r of RStored v \<Rightarrow> creturn v | _ \<Rightarrow> craise unexpected_reply)"

text \<open>A suspension that only lets the event loop turn: nothing can be raised there.\<close>

definition cturn :: "('h, 'w, 'a) scoro \<Rightarrow> ('h, 'w, 'a) scoro" where
  "cturn c = Await QTurn (\<lambda>_. c)"

definition emit :: "('h, 'w) host \<Rightarrow> service_event \<Rightarrow> ('h, 'w, unit) scoro" where
  "emit h ev = (if ho_has_handler h
     then ccatch (await_unit (QEmit ev)) is_exception (\<lambda>_. creturn ()) else creturn ())"

definition enqueue :: "('h, 'w) host \<Rightarrow> db_call \<Rightarrow> ('h, 'w, nat) sact" where
  "enqueue h call s = (case worker_enqueue (ho_configured h (sv_world s)) call (sv_persistence s) of
     (f, w) \<Rightarrow> (Inr f, s\<lparr>sv_persistence := w\<rparr>))"

text \<open>\<open>if future.done(): return future.result()\<close>, and a result that says the write is queued.\<close>

definition enqueue_outcome :: "('h, 'w) host \<Rightarrow> string \<Rightarrow> nat \<Rightarrow> ('h, 'w, persistence_result) sact" where
  "enqueue_outcome h message f s =
     (case pw_futures (sv_persistence s) f of
        Some (Result v) \<Rightarrow> (Inr v, s)
      | Some (Error e) \<Rightarrow> (Inl e, s)
      | Some Cancelled \<Rightarrow> (raise CancelledErrorC '''', s)
      | _ \<Rightarrow> (Inr \<lparr>pr_configured = ho_configured h (sv_world s), pr_persisted = False, pr_detail = Some message\<rparr>, s))"

subsection \<open>Samples\<close>

definition average_of :: "sensor_reading list \<Rightarrow> rat option" where
  "average_of readings =
     (let temperatures = List.map_filter sr_temperature_c readings
      in if int (length temperatures) = SENSOR_COUNT then Some (sum_list temperatures / of_int SENSOR_COUNT) else None)"

definition live_readings :: "current_snapshot \<Rightarrow> sensor_reading list" where
  "live_readings snapshot = map (\<lambda>x. \<lparr>sr_sensor_id = snap_sensor_id x, sr_temperature_c = snap_temperature_c x,
     sr_status = data_status_name (if snap_temperature_c x \<noteq> None then VALID else DISCONNECTED_DS),
     sr_display_enabled = Some (snap_display_enabled x)\<rparr>) (cur_sensors snapshot)"

definition live_sample :: "device_identity option \<Rightarrow> current_snapshot \<Rightarrow> utc \<Rightarrow> sample_record" where
  "live_sample identity snapshot t =
     \<lparr>sa_device = identity, sa_observed_at = t, sa_boot_id = Some (cur_boot_id snapshot),
      sa_sequence = Some (cur_newest_sequence snapshot), sa_readings = live_readings snapshot,
      sa_average = average_of (live_readings snapshot), sa_source = ''LIVE'', sa_provisional = False,
      sa_failure_reason = None\<rparr>"

definition store_current :: "('h, 'w) host \<Rightarrow> current_snapshot \<Rightarrow> utc \<Rightarrow> ('h, 'w, nat) sact" where
  "store_current h snapshot observed_at s =
     (let sample = live_sample (device_identity_of (target_of s)) snapshot observed_at in
      abind (modify (\<lambda>s. s\<lparr>sv_current := \<lparr>cd_available = True, cd_received_at = Some observed_at,
               cd_snapshot = Some snapshot, cd_error = None\<rparr>\<rparr>)) (\<lambda>_.
      abind (if Some observed_at \<noteq> st_last_seen (sv_state s)
             then transition h None (no_changes\<lparr>ch_last_seen := Some (Some observed_at)\<rparr>) ''current snapshot received''
             else areturn ()) (\<lambda>_.
      enqueue h (PublishCurrentSample sample))) s)"

definition publish_current_snapshot ::
    "('h, 'w) host \<Rightarrow> current_snapshot \<Rightarrow> utc \<Rightarrow> ('h, 'w, persistence_result) scoro" where
  "publish_current_snapshot h snapshot observed_at =
     cbind (work (store_current h snapshot observed_at)) (\<lambda>f.
     cthen (emit h (EvSnapshot snapshot)) (work (enqueue_outcome h ''current sample queued for persistence'' f)))"

definition missing_sample :: "device_identity option \<Rightarrow> utc \<Rightarrow> string \<Rightarrow> sample_record" where
  "missing_sample identity t reason =
     \<lparr>sa_device = identity, sa_observed_at = t, sa_boot_id = None, sa_sequence = None,
      sa_readings = map (\<lambda>i. \<lparr>sr_sensor_id = i, sr_temperature_c = None, sr_status = ''MISSING'',
        sr_display_enabled = None\<rparr>) [1..SENSOR_COUNT],
      sa_average = None, sa_source = ''PROVISIONAL'', sa_provisional = True, sa_failure_reason = Some reason\<rparr>"

definition publish_missing_interval ::
    "('h, 'w) host \<Rightarrow> utc \<Rightarrow> string \<Rightarrow> ('h, 'w, persistence_result) sact" where
  "publish_missing_interval h observed_at reason s =
     abind (enqueue h (PublishMissingInterval (missing_sample (device_identity_of (target_of s)) observed_at reason)))
       (enqueue_outcome h ''missing interval queued for persistence'') (unavailable reason s)"

subsection \<open>The history batch\<close>

definition group_by_sequence ::
    "timed_history_record list \<Rightarrow> (int, (int, timed_history_record) dict) dict" where
  "group_by_sequence records =
     foldl (\<lambda>d r. dict_set (th_sequence r) (dict_set (th_sensor_id r) r
       (case dict_get d (th_sequence r) of Some m \<Rightarrow> m | None \<Rightarrow> [])) d) [] records"

definition history_reading :: "(int, timed_history_record) dict \<Rightarrow> int \<Rightarrow> sensor_reading" where
  "history_reading sensor_records sensor_id =
     (case dict_get sensor_records sensor_id of
        None \<Rightarrow> \<lparr>sr_sensor_id = sensor_id, sr_temperature_c = None, sr_status = ''NOT_RETRIEVED'',
                 sr_display_enabled = None\<rparr>
      | Some r \<Rightarrow> \<lparr>sr_sensor_id = sensor_id, sr_temperature_c = th_temperature_c r,
                   sr_status = data_status_name (th_data_status r), sr_display_enabled = None\<rparr>)"

text \<open>The time of the last sensor that has a record.\<close>

definition sample_time :: "(int, timed_history_record) dict \<Rightarrow> utc option" where
  "sample_time sensor_records =
     foldl (\<lambda>t i. case dict_get sensor_records i of None \<Rightarrow> t | Some r \<Rightarrow> Some (th_sampled_at r)) None [1..SENSOR_COUNT]"

definition history_sample_of ::
    "('h, 'w) host \<Rightarrow> device_identity \<Rightarrow> int \<Rightarrow> int \<times> (int, timed_history_record) dict
     \<Rightarrow> ('h, 'w, sample_record) sact" where
  "history_sample_of h identity boot_id entry =
     (let (q, sensor_records) = entry;
          readings = map (history_reading sensor_records) [1..SENSOR_COUNT]
      in abind (case sample_time sensor_records of Some t \<Rightarrow> areturn t | None \<Rightarrow> utc_now h) (\<lambda>t.
           areturn \<lparr>sa_device = Some identity, sa_observed_at = t, sa_boot_id = Some boot_id, sa_sequence = Some q,
             sa_readings = readings, sa_average = average_of readings, sa_source = ''HISTORY'',
             sa_provisional = False, sa_failure_reason = None\<rparr>))"

primrec amap :: "('a \<Rightarrow> ('s, 'b) act) \<Rightarrow> 'a list \<Rightarrow> ('s, 'b list) act" where
  "amap f [] = areturn []"
| "amap f (x # xs) = abind (f x) (\<lambda>y. abind (amap f xs) (\<lambda>ys. areturn (y # ys)))"

definition build_history_batch :: "('h, 'w) host \<Rightarrow> history_sync \<Rightarrow> ('h, 'w, history_batch) sact" where
  "build_history_batch h history s =
     (case device_identity_of (target_of s) of
        None \<Rightarrow> (raise ServiceUnavailableErrorC ''history has no associated device'', s)
      | Some identity \<Rightarrow>
          abind (amap (history_sample_of h identity (meta_boot_id (hs_meta history)))
                   (group_by_sequence (hs_records history))) (\<lambda>samples s.
            (Inr \<lparr>hb_device = identity, hb_boot_id = meta_boot_id (hs_meta history),
                  hb_previous_boot_id = sv_previous_boot_id s, hb_new_boot = sv_is_new_boot s,
                  hb_samples = sort_key sa_observed_at samples,
                  hb_expected_counts = hs_expected_counts history,
                  hb_retrieved_counts = hs_retrieved_counts history, hb_complete = hs_complete history,
                  hb_elapsed_seconds = hs_elapsed_seconds history,
                  hb_failure_reason = hs_failure_reason history\<rparr>, s)) s)"

subsection \<open>The history retrieval of the service\<close>

text \<open>\<open>dict.fromkeys(xs)\<close>: the first occurrence of every value.\<close>

definition dict_fromkeys :: "'a list \<Rightarrow> 'a list" where
  "dict_fromkeys xs = map fst (foldl (\<lambda>d x. dict_set x () d) [] xs)"

definition detail_or :: "persistence_result \<Rightarrow> string \<Rightarrow> string" where
  "detail_or r d = (case pr_detail r of Some m \<Rightarrow> if m \<noteq> [] then m else d | None \<Rightarrow> d)"

text \<open>Both writes awaited within the rest of the budget: whether they are stored, and what failed.\<close>

definition await_history_writes ::
    "('h, 'w) host \<Rightarrow> nat \<Rightarrow> nat \<Rightarrow> rat \<Rightarrow> ('h, 'w, bool \<times> string list) scoro" where
  "await_history_writes h upsert_future reconcile_future remaining_budget =
     (if 0 < remaining_budget then
        ccatch (cbind (await_stored (QStored [upsert_future, reconcile_future] (Some remaining_budget))) (\<lambda>rs.
          case rs of
            [upsert, reconcile] \<Rightarrow> cread (\<lambda>s.
              let persisted = pr_persisted upsert \<and> pr_persisted reconcile
              in creturn (persisted,
                   if ho_configured h (sv_world s) \<and> \<not> persisted
                   then [''history persistence failed: '' @ detail_or upsert ''upsert incomplete'' @ ''; ''
                         @ detail_or reconcile ''reconciliation incomplete''] else []))
          | _ \<Rightarrow> craise unexpected_reply))
          (\<lambda>e. exc_class e = TimeoutErrorC)
          (\<lambda>_. creturn (False, [''history persistence exceeded its time budget'']))
      else creturn (False, [''history persistence exceeded its time budget'']))"

definition history_with_outcome :: "history_sync \<Rightarrow> string list \<Rightarrow> rat \<Rightarrow> bool \<Rightarrow> history_sync" where
  "history_with_outcome history failures elapsed persisted =
     (if failures \<noteq> []
      then history\<lparr>hs_complete := False, hs_elapsed_seconds := elapsed,
             hs_failure_reason := Some (py_join ''; '' (dict_fromkeys failures)), hs_persisted := persisted\<rparr>
      else history\<lparr>hs_elapsed_seconds := elapsed, hs_persisted := persisted\<rparr>)"

definition synchronize_history :: "('h, 'w) host \<Rightarrow> string \<Rightarrow> ('h, 'w, history_sync) scoro" where
  "synchronize_history h operation =
     cbind (await_retrieval (QHistory operation)) (\<lambda>retrieval.
     cread (\<lambda>s.
       let history = (hr_history retrieval)\<lparr>hs_persistence_configured := ho_configured h (sv_world s)\<rparr>;
           deadline = hr_deadline retrieval;
           started = deadline - history_sync_budget_seconds (ho_settings h)
       in cbind (work (build_history_batch h history)) (\<lambda>batch.
          cbind (work (enqueue h (UpsertHistory batch))) (\<lambda>upsert_future.
          cbind (work (enqueue h (ReconcileProvisional batch))) (\<lambda>reconcile_future.
          cbind (work (monotonic h)) (\<lambda>now.
          cbind (await_history_writes h upsert_future reconcile_future (deadline - now)) (\<lambda>(persisted, more).
          cbind (work (monotonic h)) (\<lambda>finish.
            let result = history_with_outcome history (hr_failures retrieval @ more) (finish - started) persisted
            in cthen (work (modify (update_operation operation (\<lambda>p. p\<lparr>op_persistence_succeeded := Some persisted\<rparr>))))
                 (cthen (emit h (EvHistory result)) (creturn result)))))))))) "

definition history_result_of :: "history_sync \<Rightarrow> history_result" where
  "history_result_of history =
     \<lparr>hx_expected_counts = hs_expected_counts history, hx_retrieved_counts = hs_retrieved_counts history,
      hx_complete = hs_complete history, hx_elapsed_seconds = hs_elapsed_seconds history,
      hx_sample_count = card (th_sequence ` set (hs_records history)), hx_persisted = hs_persisted history,
      hx_failure_reason = hs_failure_reason history\<rparr>"

text \<open>
  \<open>_start_history_sync\<close>: the operation that runs already, or a new one; \<open>Some\<close> the generation with
  which its task starts.
\<close>

definition start_history_sync ::
    "('h, 'w) host \<Rightarrow> string \<Rightarrow> ('h, 'w, string \<times> int option) sact" where
  "start_history_sync h source s =
     (case sv_history_task s of
        Some (_, False) \<Rightarrow>
          (case sv_history_operation s of
             None \<Rightarrow> (raise (OtherErrorC ''AssertionError'') '''', s)
           | Some i \<Rightarrow> if dict_get (sv_operations s) i \<noteq> None then (Inr (i, None), s)
                       else (raise KeyErrorC (py_repr i), s))
      | _ \<Rightarrow>
          abind (new_operation h (''history_sync:'' @ source)) (\<lambda>i.
          abind (modify (\<lambda>s. s\<lparr>sv_last_history := Some (HistoryRunning i source)\<rparr>)) (\<lambda>_.
          abind (run_operation h i) (\<lambda>_ s.
            (Inr (i, Some (sv_generation s)), s\<lparr>sv_history_operation := Some i, sv_history_task := Some (i, False)\<rparr>)))) s)"

text \<open>The done callback of the task: whether the retrieval should be tried again.\<close>

definition history_finished ::
    "('h, 'w) host \<Rightarrow> string \<Rightarrow> string \<Rightarrow> history_sync res \<Rightarrow> ('h, 'w, bool) sact" where
  "history_finished h i source outcome =
     abind (case outcome of
         Inl e \<Rightarrow>
           if \<not> is_exception e then
             abind (cancel_operation h i ''history sync cancelled'') (\<lambda>_.
             abind (modify (\<lambda>s. s\<lparr>sv_last_history := Some (HistoryCancelled i source ''history sync cancelled'')\<rparr>))
               (\<lambda>_. areturn False))
           else
             abind (fail_operation h i e) (\<lambda>_.
             abind (modify (\<lambda>s. s\<lparr>sv_last_history := Some (HistoryFailed i source (describe_ble_error e))\<rparr>))
               (\<lambda>_. areturn True))
       | Inr history \<Rightarrow>
           abind (modify (\<lambda>s. s\<lparr>sv_last_history := Some (HistoryFinished i source (history_result_of history))\<rparr>)) (\<lambda>_.
           abind (succeed_operation h i (HistoryResult (history_result_of history)))
             (\<lambda>_. areturn (\<not> hs_complete history))))
       (\<lambda>retry s. (Inr retry,
          if map_option fst (sv_history_task s) = Some i
          then s\<lparr>sv_history_task := None, sv_history_operation := None\<rparr> else s))"

definition history_retry :: "('h, 'w) host \<Rightarrow> int \<Rightarrow> ('h, 'w, (string \<times> int option) option) scoro" where
  "history_retry h generation =
     cthen (await_unit (QSleep (max (1 / 10) (auto_discovery_interval_seconds (ho_settings h))))) (cread (\<lambda>s.
       if sv_started s \<and> is_ready s \<and> generation = sv_generation s
       then cbind (work (start_history_sync h ''automatic'')) (\<lambda>x. creturn (Some x)) else creturn None))"

text \<open>The whole background task of one retrieval, its callback and its retry.\<close>

definition history_task :: "('h, 'w) host \<Rightarrow> string \<Rightarrow> string \<Rightarrow> int \<Rightarrow> ('h, 'w, unit) scoro" where
  "history_task h i source generation =
     cbind (cattempt (synchronize_history h i)) (\<lambda>outcome.
     cthen (work (modify (\<lambda>s. if sv_history_task s = Some (i, False) then s\<lparr>sv_history_task := Some (i, True)\<rparr> else s)))
     (cturn (cbind (work (history_finished h i source outcome)) (\<lambda>retry. cread (\<lambda>s.
       if source = ''automatic'' \<and> retry \<and> sv_started s
       then cbind (history_retry h generation) (\<lambda>_. creturn ()) else creturn ())))))"

definition cancel_history :: "('h, 'w) host \<Rightarrow> string \<Rightarrow> ('h, 'w, unit) scoro" where
  "cancel_history h reason = cread (\<lambda>s.
     case sv_history_task s of
       Some (i, False) \<Rightarrow>
         cthen (await_unit (QCancelTask i)) (work (abind
           (\<lambda>s. case sv_history_operation s of Some j \<Rightarrow> cancel_operation h j reason s | None \<Rightarrow> (Inr (), s))
           (\<lambda>_. modify (\<lambda>s. s\<lparr>sv_history_task := None, sv_history_operation := None\<rparr>))))
     | _ \<Rightarrow> creturn ())"

definition request_history_sync :: "('h, 'w) host \<Rightarrow> ('h, 'w, string \<times> int option) sact" where
  "request_history_sync h s =
     (if \<not> is_ready s then (raise ServiceUnavailableErrorC ''thermometer is not connected'', s)
      else start_history_sync h ''manual'' s)"

subsection \<open>Database calls and state publication\<close>

definition database_failed :: "string \<Rightarrow> string \<Rightarrow> ('h, 'w) svc \<Rightarrow> ('h, 'w) svc" where
  "database_failed method message s =
     s\<lparr>sv_database_errors := dict_set method message (sv_database_errors s), sv_last_database_error := Some message\<rparr>"

definition database_worked :: "string \<Rightarrow> ('h, 'w) svc \<Rightarrow> ('h, 'w) svc" where
  "database_worked method s =
     (let errors = dict_del method (sv_database_errors s)
      in s\<lparr>sv_database_errors := errors,
           sv_last_database_error := (if errors = [] then None else Some (snd (last errors)))\<rparr>)"

definition database_call :: "('h, 'w) host \<Rightarrow> db_call \<Rightarrow> ('h, 'w, persistence_result) scoro" where
  "database_call h call =
     ccatch (cbind (await_stored (QDatabase call)) (\<lambda>rs.
         case rs of [r] \<Rightarrow> cthen (work (modify (database_worked (method_name call)))) (creturn r)
         | _ \<Rightarrow> craise unexpected_reply))
       is_exception (\<lambda>e.
         let message = describe_ble_error e in
         cthen (work (modify (database_failed (method_name call) message)))
         (cthen (emit h (EvDatabaseError (method_name call) message))
         (cread (\<lambda>s. creturn \<lparr>pr_configured = ho_configured h (sv_world s), pr_persisted = False,
            pr_detail = Some message\<rparr>))))"

definition connection_record :: "service_state \<Rightarrow> connection_state_record" where
  "connection_record st = \<lparr>cs_device = device_identity_of (st_target st), cs_observed_at = st_changed_at st,
     cs_phase = st_phase st, cs_connected = st_connected st, cs_last_seen = st_last_seen st,
     cs_error = st_last_error st, cs_ready = st_ready st, cs_state_revision = st_revision st,
     cs_transition_reason = st_reason st\<rparr>"

text \<open>One turn of the loop of \<open>_state_publisher\<close>: the states leave the queue in order.\<close>

definition pop_state :: "('h, 'w, service_state option) sact" where
  "pop_state s = (case sv_publish_queue s of
     [] \<Rightarrow> (Inr None, s) | st # rest \<Rightarrow> (Inr (Some st), s\<lparr>sv_publish_queue := rest\<rparr>))"

definition state_publisher_turn :: "('h, 'w) host \<Rightarrow> ('h, 'w, unit) scoro" where
  "state_publisher_turn h =
     cthen (await_unit QStateQueue) (cbind (work pop_state) (\<lambda>v. case v of
         None \<Rightarrow> creturn ()
       | Some st \<Rightarrow>
           cbind (work (enqueue h (PublishConnectionState (connection_record st)))) (\<lambda>f.
           cthen (await_unit (QStored [f] None))
           (cread (\<lambda>s. emit h (EvServiceStatus (status_from_state h st s)))))))"

definition read_last_persisted_boot ::
    "('h, 'w) host \<Rightarrow> discovered_thermometer \<Rightarrow> ('h, 'w, int option) scoro" where
  "read_last_persisted_boot h target =
     (if \<not> ho_has_last_boot h then creturn None
      else ccatch (cbind (await_boot (QLastBoot (device_identity_of (Some target)))) (\<lambda>v.
          case v of
            None \<Rightarrow> creturn None
          | Some (BootInt b) \<Rightarrow> if 0 \<le> b \<and> b \<le> 0xFFFFFFFF then creturn (Some b)
              else craise (Exc ValueErrorC ''database returned an invalid boot ID'' None [] None)
          | Some BootOther \<Rightarrow> craise (Exc ValueErrorC ''database returned an invalid boot ID'' None [] None)))
        is_exception (\<lambda>e.
          cthen (work (modify (database_failed ''get_last_boot_id'' (describe_ble_error e)))) (creturn None)))"

end
