(* ===== verification/Service_Link.thy ===== *)
theory Service_Link
  imports Service_Data
begin

section \<open>The controller: discovery, the link and the connection manager\<close>

text \<open>
  \<open>backend/pc_client/ble_service.py\<close>: scans, the attempt that opens a verified link, closing and
  losing it, one turn of the loop of the connection manager and of its supervisor, and one turn
  of the poller. A \<open>continue\<close> or \<open>return\<close> of the loop body is the end of its turn.
\<close>

subsection \<open>Discovery\<close>

definition remember_devices :: "discovered_thermometer list \<Rightarrow> ('h, 'w) svc \<Rightarrow> ('h, 'w) svc" where
  "remember_devices devices s =
     s\<lparr>sv_known := foldl (\<lambda>d x. dict_set (py_lower (dt_address x)) x d) (sv_known s) devices\<rparr>"

definition perform_scan :: "('h, 'w) host \<Rightarrow> rat \<Rightarrow> ('h, 'w, discovered_thermometer list) scoro" where
  "perform_scan h timeout =
     (let scan_deadline = timeout + auto_discovery_interval_seconds (ho_settings h) in
      cbind (ccatch (await_devices (QScan timeout scan_deadline)) (\<lambda>e. exc_class e = TimeoutErrorC)
        (\<lambda>e. craise (Exc ServiceUnavailableErrorC (''BLE discovery did not finish within ''
           @ ho_show_g h scan_deadline @ '' seconds'') None [] (Some e)))) (\<lambda>discovered.
      cbind (work (amap with_best_known_name discovered)) (\<lambda>devices.
      cthen (work (modify (remember_devices devices)))
      (cthen (emit h (EvDevices devices)) (creturn devices)))))"

text \<open>The shared scan: the task that scans, and what each caller awaits.\<close>

definition scan_task :: "('h, 'w) host \<Rightarrow> rat \<Rightarrow> ('h, 'w, discovered_thermometer list) scoro" where
  "scan_task h timeout =
     cfinally (perform_scan h timeout) (work (modify (\<lambda>s. s\<lparr>sv_scan_running := False\<rparr>)))"

definition scan_for_devices :: "('h, 'w) host \<Rightarrow> ('h, 'w, discovered_thermometer list) scoro" where
  "scan_for_devices h =
     cthen (work (modify (\<lambda>s. s\<lparr>sv_scan_running := True\<rparr>))) (await_devices QScanTask)"

definition next_discovery_observation :: "('h, 'w) host \<Rightarrow> ('h, 'w, discovered_thermometer list) scoro" where
  "next_discovery_observation h = cread (\<lambda>s.
     case sv_pending_discovery s of
       Some ds \<Rightarrow> cthen (work (modify (\<lambda>s. s\<lparr>sv_pending_discovery := None\<rparr>))) (creturn ds)
     | None \<Rightarrow> scan_for_devices h)"

definition stale :: "int \<Rightarrow> ('h, 'w) svc \<Rightarrow> bool" where
  "stale generation s \<longleftrightarrow> \<not> st_desired_connected (sv_state s) \<or> generation \<noteq> sv_generation s"

definition find_reconnect_target ::
    "('h, 'w) host \<Rightarrow> discovered_thermometer \<Rightarrow> int \<Rightarrow> ('h, 'w, discovered_thermometer option) scoro" where
  "find_reconnect_target h selected generation =
     cbind (ccatch (scan_for_devices h) is_exception (\<lambda>_. creturn [])) (\<lambda>devices. cread (\<lambda>s.
       if stale generation s then creturn None
       else
         let refreshed = (case find (\<lambda>d. py_lower (dt_address d) = py_lower (dt_address selected)) devices of
                            None \<Rightarrow> selected | Some d \<Rightarrow> d)
         in cthen (work (transition h (Some RECONNECTING) (link_down\<lparr>ch_target := Some (Some refreshed)\<rparr>)
                ''selected thermometer rediscovered''))
            (cthen (work publish_connection_state) (creturn (Some refreshed)))))"

subsection \<open>Closing a client\<close>

definition with_lock :: "('h, 'w, 'a) scoro \<Rightarrow> ('h, 'w, 'a) scoro" where
  "with_lock c = cthen (await_unit QLock) (cthen (work (modify (\<lambda>s. s\<lparr>sv_lock := True\<rparr>)))
     (cfinally c (work (modify (\<lambda>s. s\<lparr>sv_lock := False\<rparr>)))))"

definition close_client_instance :: "('h, 'w) host \<Rightarrow> 'h \<Rightarrow> ('h, 'w, unit) scoro" where
  "close_client_instance h client =
     ccatch (await_unit (QClose client (min (connect_timeout_seconds CONFIG_client)
         (auto_discovery_interval_seconds (ho_settings h))))) is_exception (\<lambda>_. creturn ())"

definition close_service_client :: "('h, 'w) host \<Rightarrow> ('h, 'w, unit) scoro" where
  "close_service_client h = with_lock (cread (\<lambda>s.
     cthen (work (modify (\<lambda>s. s\<lparr>sv_client := None\<rparr>)))
       (case sv_client s of None \<Rightarrow> creturn () | Some c \<Rightarrow> close_client_instance h c)))"

subsection \<open>Opening a verified link\<close>

definition run_connection_step ::
    "('h, 'w) host \<Rightarrow> string \<Rightarrow> rat \<Rightarrow> ('h, 'w, 'a) scoro \<Rightarrow> ('h, 'w, 'a) scoro" where
  "run_connection_step h step_name timeout action =
     ccatch action (\<lambda>e. exc_class e = TimeoutErrorC)
       (\<lambda>e. craise (Exc ServiceUnavailableErrorC (step_name @ '' timed out after '' @ ho_show_g h timeout
          @ '' seconds'') None [] (Some e)))"

definition step_timeout :: "('h, 'w) host \<Rightarrow> rat option \<Rightarrow> rat \<Rightarrow> ('h, 'w, rat) sact" where
  "step_timeout h recovery_deadline maximum =
     (case recovery_deadline of
        None \<Rightarrow> areturn maximum
      | Some d \<Rightarrow> abind (monotonic h) (\<lambda>now.
          let remaining = d - now in
          if remaining \<le> 0
          then araise (Exc TimeoutErrorC ''connection recovery exceeded its end-to-end deadline'' None [] None)
          else areturn (min maximum remaining)))"

definition clear_client :: "'h \<Rightarrow> ('h, 'w) svc \<Rightarrow> ('h, 'w) svc" where
  "clear_client client s = (if sv_client s = Some client then s\<lparr>sv_client := None\<rparr> else s)"

text \<open>The steps of an attempt; each says whether the attempt goes on.\<close>

definition ensure_bond ::
    "('h, 'w) host \<Rightarrow> 'h \<Rightarrow> string \<Rightarrow> int \<Rightarrow> string option \<Rightarrow> rat option \<Rightarrow> ('h, 'w, bool) scoro" where
  "ensure_bond h client normalized_address generation passkey deadline = cread (\<lambda>s.
     if sv_verified_bond s \<noteq> Some normalized_address then
       cthen (work (transition h (Some PAIRING) (link_down\<lparr>ch_credential_state := Some CRED_AVAILABLE,
           ch_next_retry_at := Some None\<rparr>) ''ensuring authenticated Windows bond''))
       (cthen (work publish_connection_state)
       (cbind (work (step_timeout h deadline (pairing_timeout_seconds CONFIG_client))) (\<lambda>t.
        cthen (run_connection_step h ''Windows pairing verification'' t (await_unit (QPair client passkey t)))
        (cread (\<lambda>s. if stale generation s then cthen (close_client_instance h client) (creturn False)
           else cthen (work (modify (\<lambda>s. s\<lparr>sv_verified_bond := Some normalized_address\<rparr>))) (creturn True))))))
     else creturn True)"

definition open_transport ::
    "('h, 'w) host \<Rightarrow> 'h \<Rightarrow> int \<Rightarrow> string option \<Rightarrow> rat option \<Rightarrow> ('h, 'w, bool) scoro" where
  "open_transport h client generation passkey deadline =
     cthen (work (transition h (Some CONNECTING) link_down ''opening GATT transport with process-verified bond''))
     (cthen (work publish_connection_state)
     (cbind (work (step_timeout h deadline (connect_timeout_seconds CONFIG_client))) (\<lambda>t.
      cthen (run_connection_step h ''GATT connection and service discovery'' t (await_unit (QConnect client passkey t)))
      (cread (\<lambda>s. if stale generation s then cthen (close_client_instance h client) (creturn False)
         else
           cthen (work (modify (\<lambda>s. s\<lparr>sv_client := Some client\<rparr>)))
           (cthen (work (transition h (Some VERIFYING)
              (no_changes\<lparr>ch_connected := Some True, ch_ready := Some False\<rparr>)
              ''verifying application authentication and protocol''))
           (cthen (work publish_connection_state) (creturn True))))))))"

definition authenticate_client ::
    "('h, 'w) host \<Rightarrow> 'h \<Rightarrow> int \<Rightarrow> string option \<Rightarrow> rat option \<Rightarrow> ('h, 'w, bool) scoro" where
  "authenticate_client h client generation passkey deadline =
     cbind (work (step_timeout h deadline (connect_timeout_seconds CONFIG_client))) (\<lambda>t.
     cthen (run_connection_step h ''application authentication'' t (await_unit (QAuthenticate client passkey t)))
     (cread (\<lambda>s. if stale generation s
        then cthen (close_client_instance h client)
          (cthen (work (modify (clear_client client))) (creturn False))
        else creturn True)))"

definition first_snapshot ::
    "('h, 'w) host \<Rightarrow> 'h \<Rightarrow> rat option \<Rightarrow> ('h, 'w, current_snapshot) scoro" where
  "first_snapshot h client deadline =
     cbind (work (step_timeout h deadline (connect_timeout_seconds CONFIG_client))) (\<lambda>t.
     run_connection_step h ''initial protected temperature request'' t (await_snapshot (QInitialCurrent client t)))"

definition attempt_steps ::
    "('h, 'w) host \<Rightarrow> 'h \<Rightarrow> string \<Rightarrow> int \<Rightarrow> string option \<Rightarrow> rat option \<Rightarrow> ('h, 'w, current_snapshot option) scoro" where
  "attempt_steps h client normalized_address generation passkey deadline =
     cbind (ensure_bond h client normalized_address generation passkey deadline) (\<lambda>go.
     if \<not> go then creturn None
     else cbind (open_transport h client generation passkey deadline) (\<lambda>go.
     if \<not> go then creturn None
     else cbind (authenticate_client h client generation passkey deadline) (\<lambda>go.
     if \<not> go then creturn None
     else cbind (first_snapshot h client deadline) (\<lambda>snapshot. creturn (Some snapshot)))))"

definition open_connection ::
    "('h, 'w) host \<Rightarrow> discovered_thermometer \<Rightarrow> int \<Rightarrow> string option \<Rightarrow> ('h, 'w, current_snapshot option) scoro" where
  "open_connection h selected generation passkey = with_lock (
     cbind (work (host_call (ho_make_client h selected))) (\<lambda>client. cread (\<lambda>s.
     cbind (work (if sv_from_registry s
         then abind (monotonic h) (\<lambda>now. areturn (Some (now + recovery_deadline_seconds (ho_settings h))))
         else areturn None)) (\<lambda>deadline.
     cbind (ccatch (attempt_steps h client (py_lower (dt_address selected)) generation passkey deadline) (\<lambda>_. True)
       (\<lambda>e. cthen (close_client_instance h client)
          (cthen (work (modify (clear_client client))) (craise e)))) (\<lambda>snapshot.
     case snapshot of
       None \<Rightarrow> creturn None
     | Some v \<Rightarrow> cread (\<lambda>s. if stale generation s
         then cthen (close_client_instance h client) (creturn None) else creturn (Some v)))))))"

subsection \<open>Losing the link and waking up\<close>

definition connection_lost :: "('h, 'w) host \<Rightarrow> string \<Rightarrow> bool \<Rightarrow> ('h, 'w, unit) scoro" where
  "connection_lost h reason also_close = cread (\<lambda>s.
     if \<not> st_connected (sv_state s) \<and> st_phase (sv_state s) \<in> {RECONNECTING, DISCONNECTED} then creturn ()
     else
       let desired = st_desired_connected (sv_state s) in
       cthen (work (modify (unavailable reason)))
       (cthen (work (abind (if desired then abind (utc_now h) (\<lambda>t. areturn (Some t)) else areturn None) (\<lambda>retry_at.
          transition h (Some (if desired then RECONNECTING else DISCONNECTED))
            (link_down\<lparr>ch_retry_count := Some (if desired then max 1 (st_retry_count (sv_state s)) else 0),
               ch_next_retry_at := Some retry_at, ch_last_error := Some (Some reason)\<rparr>)
            ''BLE transport disconnected'')))
       (cthen (cancel_history h ''connection lost'')
       (cthen (if also_close then close_service_client h else creturn ())
       (cthen (work publish_connection_state) (work notify_connection_manager))))))"

definition pop_event :: "('h, 'w, 'h event_value lifecycle_event option) sact" where
  "pop_event s = (case sv_events s of [] \<Rightarrow> (Inr None, s) | e # es \<Rightarrow> (Inr (Some e), s\<lparr>sv_events := es\<rparr>))"

definition handle_event :: "('h, 'w) host \<Rightarrow> 'h event_value lifecycle_event \<Rightarrow> ('h, 'w, unit) scoro" where
  "handle_event h ev = cread (\<lambda>s.
     if ev_kind ev = EV_DISCOVERY_RESULT \<and> ev_generation ev = sv_generation s \<and> target_of s = None then
       work (modify (\<lambda>s. s\<lparr>sv_pending_discovery :=
         Some (case ev_value ev of ObservedDevices ds \<Rightarrow> ds | _ \<Rightarrow> [])\<rparr>))
     else if ev_kind ev = EV_LINK_LOST then
       (if ev_generation ev = sv_generation s
           \<and> (case ev_value ev of LostClient c \<Rightarrow> sv_client s = Some c | NoValue \<Rightarrow> sv_client s = None
              | ObservedDevices _ \<Rightarrow> False)
        then connection_lost h (ev_reason ev) True else creturn ())
     else creturn ())"

definition wait_for_wakeup :: "('h, 'w) host \<Rightarrow> rat option \<Rightarrow> ('h, 'w, unit) scoro" where
  "wait_for_wakeup h timeout =
     cbind (cattempt (await_unit (QWakeup timeout))) (\<lambda>r. case r of
       Inl e \<Rightarrow> if exc_class e = TimeoutErrorC then creturn () else craise e
     | Inr _ \<Rightarrow> cbind (work pop_event) (\<lambda>ev. case ev of None \<Rightarrow> creturn () | Some e \<Rightarrow> handle_event h e))"

subsection \<open>One turn of the connection manager\<close>

definition discovery_interval :: "('h, 'w) host \<Rightarrow> rat" where
  "discovery_interval h = auto_discovery_interval_seconds (ho_settings h)"

definition seconds_from_now :: "('h, 'w) host \<Rightarrow> rat \<Rightarrow> ('h, 'w, utc) sact" where
  "seconds_from_now h seconds = abind (utc_now h) (\<lambda>t. areturn (t + timedelta_us seconds))"

definition manager_idle :: "('h, 'w) host \<Rightarrow> ('h, 'w, unit) scoro" where
  "manager_idle h = cread (\<lambda>s.
     cthen (if st_phase (sv_state s) \<noteq> DISCONNECTED
        then cthen (work (transition h (Some DISCONNECTED) link_down ''automatic connection is disabled''))
          (work publish_connection_state)
        else creturn ())
     (wait_for_wakeup h None))"

definition manager_ready :: "('h, 'w) host \<Rightarrow> ('h, 'w, unit) scoro" where
  "manager_ready h =
     cthen (wait_for_wakeup h (Some (discovery_interval h))) (cread (\<lambda>s.
       if st_desired_connected (sv_state s)
          \<and> (case sv_client s of None \<Rightarrow> True | Some c \<Rightarrow> \<not> ho_is_connected h c (sv_world s))
       then connection_lost h ''BLE session ended unexpectedly'' True else creturn ()))"

definition next_attempt :: "('h, 'w, unit) sact" where
  "next_attempt = modify (\<lambda>s. s\<lparr>sv_attempt_id := sv_attempt_id s + 1\<rparr>)"

text \<open>Discovery of a target: whether the turn goes on to the connection.\<close>

definition discovered_one :: "('h, 'w) host \<Rightarrow> discovered_thermometer \<Rightarrow> ('h, 'w, bool) scoro" where
  "discovered_one h selected =
     cthen (work (modify (\<lambda>s. s\<lparr>sv_generation := sv_generation s + 1\<rparr>)))
     (cbind (work (\<lambda>s. (lookup_credential (dt_address selected) (sv_registry s), s))) (\<lambda>known. case known of
        None \<Rightarrow>
          cthen (work (modify (\<lambda>s. s\<lparr>sv_passkey := None, sv_from_registry := False\<rparr>)))
          (cthen (work (transition h (Some AUTHENTICATION_REQUIRED) (link_down\<lparr>ch_target := Some (Some selected),
              ch_credential_state := Some CRED_MISSING, ch_next_retry_at := Some None, ch_last_error := Some None\<rparr>)
              ''discovered device requires enrollment''))
          (cthen (work publish_connection_state) (cthen (wait_for_wakeup h None) (creturn False))))
      | Some c \<Rightarrow>
          cthen (work (modify (\<lambda>s. s\<lparr>sv_passkey := Some (dc_pairing_passkey c), sv_from_registry := True\<rparr>)))
          (cthen (work (transition h (Some PAIRING) (link_down\<lparr>ch_target := Some (Some selected),
              ch_credential_state := Some CRED_AVAILABLE, ch_retry_count := Some 0, ch_next_retry_at := Some None,
              ch_last_error := Some None\<rparr>) ''registered device discovered''))
          (creturn True))))"

definition discovered_many :: "('h, 'w) host \<Rightarrow> ('h, 'w, bool) scoro" where
  "discovered_many h =
     cthen (work (transition h (Some SELECTION_REQUIRED) (link_down\<lparr>ch_target := Some None,
         ch_retry_count := Some 0, ch_next_retry_at := Some None, ch_last_error := Some None\<rparr>)
         ''multiple compatible thermometers discovered''))
     (cthen (work publish_connection_state) (cthen (wait_for_wakeup h None) (creturn False)))"

definition discovered_none :: "('h, 'w) host \<Rightarrow> ('h, 'w, bool) scoro" where
  "discovered_none h =
     cthen (work (abind (seconds_from_now h (discovery_interval h)) (\<lambda>t.
       transition h (Some DISCOVERING) (link_down\<lparr>ch_next_retry_at := Some (Some t)\<rparr>)
         ''no compatible thermometer found; next probe scheduled'')))
     (cthen (work publish_connection_state)
     (cthen (wait_for_wakeup h (Some (discovery_interval h))) (creturn False)))"

definition manager_discover :: "('h, 'w) host \<Rightarrow> ('h, 'w, bool) scoro" where
  "manager_discover h =
     cthen (work next_attempt) (cread (\<lambda>s.
       let discovery_generation = sv_generation s in
       cthen (work (transition h (Some DISCOVERING) (link_down\<lparr>ch_credential_state := Some CRED_MISSING,
           ch_next_retry_at := Some None, ch_last_error := Some None\<rparr>) ''running the next automatic discovery probe''))
       (cthen (work publish_connection_state)
       (cbind (next_discovery_observation h) (\<lambda>devices. cread (\<lambda>s.
          if discovery_generation \<noteq> sv_generation s \<or> target_of s \<noteq> None then creturn False
          else (case devices of
              [selected] \<Rightarrow> discovered_one h selected
            | [] \<Rightarrow> discovered_none h
            | _ \<Rightarrow> discovered_many h)))))))"

definition assertion_error :: exc where
  "assertion_error = Exc (OtherErrorC ''AssertionError'') '''' None [] None"

text \<open>A passkey for the target: whether the turn goes on.\<close>

definition manager_credential :: "('h, 'w) host \<Rightarrow> ('h, 'w, bool) scoro" where
  "manager_credential h = cread (\<lambda>s.
     if sv_passkey s \<noteq> None then creturn True
     else case target_of s of
       None \<Rightarrow> craise assertion_error
     | Some selected \<Rightarrow>
         if st_phase (sv_state s) = AUTHENTICATION_REQUIRED \<and> st_credential_state (sv_state s) = CRED_REJECTED
         then cthen (wait_for_wakeup h None) (creturn False)
         else cbind (work (\<lambda>s. (lookup_credential (dt_address selected) (sv_registry s), s))) (\<lambda>known.
           case known of
             None \<Rightarrow>
               cthen (work (transition h (Some AUTHENTICATION_REQUIRED)
                  (link_down\<lparr>ch_credential_state := Some CRED_MISSING\<rparr>) ''device credential is not enrolled''))
               (cthen (work publish_connection_state) (cthen (wait_for_wakeup h None) (creturn False)))
           | Some c \<Rightarrow>
               cthen (work (modify (\<lambda>s. s\<lparr>sv_passkey := Some (dc_pairing_passkey c), sv_from_registry := True\<rparr>)))
               (creturn True)))"

text \<open>What the manager keeps of a verified link, the credential included.\<close>

definition note_boot :: "int option \<Rightarrow> current_snapshot \<Rightarrow> ('h, 'w) svc \<Rightarrow> ('h, 'w) svc" where
  "note_boot previous snapshot s =
     s\<lparr>sv_previous_boot_id := previous,
       sv_is_new_boot := (previous \<noteq> None \<and> previous \<noteq> Some (cur_boot_id snapshot)),
       sv_boot_id := Some (cur_boot_id snapshot)\<rparr>"

definition save_credential ::
    "('h, 'w) host \<Rightarrow> discovered_thermometer \<Rightarrow> utc \<Rightarrow> ('h, 'w, unit) sact" where
  "save_credential h selected t s =
     (case sv_passkey s of
        None \<Rightarrow> (rbind (normalize_mac_address (dt_address selected))
            (\<lambda>_. raise TypeErrorC (''object of type '' @ py_repr ''NoneType'' @ '' has no len()'')), s)
      | Some passkey \<Rightarrow>
          (case save_verified (ho_codec h) (ho_write_fault h (sv_world s)) (dt_address selected) (dt_name selected)
              passkey t (sv_registry s) of
             (Inl e, g) \<Rightarrow> (Inl e, s\<lparr>sv_registry := g\<rparr>)
           | (Inr _, g) \<Rightarrow> (Inr (), s\<lparr>sv_registry := g\<rparr>)))"

definition named_target ::
    "('h, 'w) host \<Rightarrow> discovered_thermometer \<Rightarrow> ('h, 'w) svc \<Rightarrow> discovered_thermometer" where
  "named_target h selected s =
     (let connected_name = (case sv_client s of None \<Rightarrow> None | Some c \<Rightarrow> ho_device_name h c (sv_world s)) in
      if has_useful_device_name connected_name (dt_address selected)
      then selected\<lparr>dt_name := py_strip (the connected_name)\<rparr> else selected)"

definition accept_link ::
    "('h, 'w) host \<Rightarrow> discovered_thermometer \<Rightarrow> current_snapshot \<Rightarrow> int option \<Rightarrow> ('h, 'w, utc) sact" where
  "accept_link h selected snapshot previous =
     abind (modify (note_boot previous snapshot)) (\<lambda>_.
     abind (utc_now h) (\<lambda>observed_at.
     abind (modify (\<lambda>s. s\<lparr>sv_current := \<lparr>cd_available = True, cd_received_at = Some observed_at,
        cd_snapshot = Some snapshot, cd_error = None\<rparr>\<rparr>)) (\<lambda>_ s.
       let selected = named_target h selected s in
       abind (save_credential h selected observed_at) (\<lambda>_.
       abind (modify (\<lambda>s. s\<lparr>sv_from_registry := True\<rparr>)) (\<lambda>_.
       abind (transition h (Some CONNECTED) (no_changes\<lparr>ch_target := Some (Some selected), ch_connected := Some True,
          ch_ready := Some True, ch_credential_state := Some CRED_VERIFIED, ch_retry_count := Some 0,
          ch_next_retry_at := Some None, ch_last_seen := Some (Some observed_at), ch_last_error := Some None\<rparr>)
          ''protected protocol verified'') (\<lambda>_.
       abind publish_connection_state (\<lambda>_.
       abind (complete_pending_connect h) (\<lambda>_. areturn observed_at))))) s)))"

definition manager_accept ::
    "('h, 'w) host \<Rightarrow> discovered_thermometer \<Rightarrow> bool \<Rightarrow> current_snapshot \<Rightarrow> ('h, 'w, unit) scoro" where
  "manager_accept h selected reconnecting snapshot = cread (\<lambda>s.
     cbind (case sv_boot_id s of Some b \<Rightarrow> creturn (Some b) | None \<Rightarrow> read_last_persisted_boot h selected) (\<lambda>previous.
     cbind (work (accept_link h selected snapshot previous)) (\<lambda>observed_at.
     cbind (publish_current_snapshot h snapshot observed_at) (\<lambda>_.
     cthen (emit h (EvSimple (if reconnecting then ''reconnected'' else ''connected'')))
     (cbind (work (start_history_sync h ''automatic'')) (\<lambda>_. creturn ()))))))"

text \<open>
  The attempt runs as a task of its own, so the event loop turns before its first step and after
  its last; a cancelled attempt ends the turn, unless the whole service stops.
\<close>

definition manager_connect ::
    "('h, 'w) host \<Rightarrow> bool \<Rightarrow> discovered_thermometer \<Rightarrow> int \<Rightarrow> ('h, 'w, unit) scoro" where
  "manager_connect h reconnecting selected generation = cread (\<lambda>s.
     cbind (cturn (cbind (cattempt (open_connection h selected generation (sv_passkey s))) (\<lambda>r. cturn (creturn r)))) (\<lambda>r.
     case r of
       Inl e \<Rightarrow> if exc_class e = CancelledErrorC
         then cread (\<lambda>s. if \<not> sv_started s then craise e else creturn ()) else craise e
     | Inr None \<Rightarrow> creturn ()
     | Inr (Some snapshot) \<Rightarrow> manager_accept h selected reconnecting snapshot))"

definition manager_target :: "('h, 'w) host \<Rightarrow> bool \<Rightarrow> ('h, 'w, unit) scoro" where
  "manager_target h attempt_started = cread (\<lambda>s.
     let reconnecting = (st_phase (sv_state s) = RECONNECTING) in
     case target_of s of
       None \<Rightarrow> craise assertion_error
     | Some selected \<Rightarrow>
         let generation = sv_generation s in
         cthen (if attempt_started then creturn () else work next_attempt)
         (if reconnecting then
            cbind (find_reconnect_target h selected generation) (\<lambda>refreshed. case refreshed of
              None \<Rightarrow> creturn () | Some t \<Rightarrow> manager_connect h True t generation)
          else manager_connect h False selected generation))"

definition manager_body :: "('h, 'w) host \<Rightarrow> ('h, 'w, unit) scoro" where
  "manager_body h = cread (\<lambda>s.
     if \<not> st_desired_connected (sv_state s) then manager_idle h
     else if is_ready s then manager_ready h
     else
       let discovering = (target_of s = None) in
       cbind (if discovering then manager_discover h else creturn True) (\<lambda>go.
       if \<not> go then creturn ()
       else cbind (manager_credential h) (\<lambda>go.
       if \<not> go then creturn () else manager_target h discovering)))"

subsection \<open>Failures of a turn\<close>

definition authentication_failure :: "exc \<Rightarrow> bool" where
  "authentication_failure e \<longleftrightarrow> exc_class e = ProtocolErrorC \<and> exc_status e \<in>
     {Some AUTHENTICATION_REQUIRED_ST, Some AUTHENTICATION_FAILED, Some AUTHENTICATION_LOCKED}"

definition attempt_superseded :: "('h, 'w) host \<Rightarrow> ('h, 'w, unit) scoro" where
  "attempt_superseded h =
     cthen (close_service_client h) (cread (\<lambda>s.
       if st_phase (sv_state s) \<noteq> DISCONNECTED
       then cthen (work (transition h (Some DISCONNECTED) (link_down\<lparr>ch_next_retry_at := Some None\<rparr>)
            ''connection attempt superseded by disconnect'')) (work publish_connection_state)
       else creturn ()))"

definition credential_rejected :: "('h, 'w) host \<Rightarrow> string \<Rightarrow> ('h, 'w, unit) scoro" where
  "credential_rejected h message =
     cthen (work (modify (\<lambda>s. s\<lparr>sv_passkey := None, sv_from_registry := False\<rparr>)))
     (cthen (work (fail_pending_connect h message))
     (cthen (work (transition h (Some AUTHENTICATION_REQUIRED) (link_down\<lparr>ch_credential_state := Some CRED_REJECTED,
         ch_next_retry_at := Some None, ch_last_error := Some (Some message)\<rparr>)
         ''device rejected the stored or supplied credential''))
     (cthen (close_service_client h)
     (cthen (work publish_connection_state) (wait_for_wakeup h None)))))"

definition retry_later :: "('h, 'w) host \<Rightarrow> string \<Rightarrow> ('h, 'w, unit) scoro" where
  "retry_later h message =
     cthen (work (fail_pending_connect h message)) (cread (\<lambda>s.
       let retry_phase = (if target_of s = None then DISCOVERING else RECONNECTING);
           discovering = (retry_phase = DISCOVERING)
       in cthen (work (abind (seconds_from_now h (discovery_interval h)) (\<lambda>t.
            transition h (Some retry_phase) (link_down\<lparr>ch_retry_count := Some (st_retry_count (sv_state s) + 1),
              ch_next_retry_at := Some (Some t), ch_last_error := Some (Some message)\<rparr>)
              (if discovering then ''discovery probe failed; next probe scheduled''
               else ''connection attempt failed; retry scheduled''))))
          (cthen (close_service_client h)
          (cthen (work publish_connection_state)
          (cthen (emit h (EvMessage (if discovering then ''discovery_error'' else ''connection_lost'')
             ((if discovering then ''Discovery unavailable; retrying automatically: ''
               else ''Connection unavailable; retrying automatically: '') @ message)))
          (wait_for_wakeup h (Some (discovery_interval h))))))))"

definition manager_failed :: "('h, 'w) host \<Rightarrow> exc \<Rightarrow> ('h, 'w, unit) scoro" where
  "manager_failed h e = cread (\<lambda>s.
     let message = describe_ble_error e in
     if \<not> st_desired_connected (sv_state s) then attempt_superseded h
     else if authentication_failure e then credential_rejected h message
     else retry_later h message)"

definition manager_turn :: "('h, 'w) host \<Rightarrow> ('h, 'w, unit) scoro" where
  "manager_turn h = ccatch (manager_body h) is_exception (manager_failed h)"

text \<open>The supervisor: what escapes a turn of the manager is recorded, and the manager starts again.\<close>

definition manager_crashed :: "('h, 'w) host \<Rightarrow> exc \<Rightarrow> ('h, 'w, unit) scoro" where
  "manager_crashed h e = cread (\<lambda>s.
     let message = ''connection manager failed: '' @ describe_ble_error e;
         phase = (if \<not> st_desired_connected (sv_state s) then DISCONNECTED
                  else if target_of s = None then DISCOVERING else RECONNECTING)
     in cthen (work (transition h (Some phase) (link_down\<lparr>ch_last_error := Some (Some message)\<rparr>)
          ''connection manager recovered from an unexpected failure''))
        (cthen (work publish_connection_state) (await_unit (QSleep (discovery_interval h)))))"

definition manager_stopped :: "('h, 'w, unit) scoro" where
  "manager_stopped = work (modify (\<lambda>s. s\<lparr>sv_manager_running := False\<rparr>))"

definition supervise_turn :: "('h, 'w) host \<Rightarrow> ('h, 'w, unit) scoro" where
  "supervise_turn h = cread (\<lambda>s.
     if sv_started s then
       ccatch (ccatch (manager_turn h) is_exception (manager_crashed h)) (\<lambda>_. True)
         (\<lambda>e. cthen manager_stopped (craise e))
     else manager_stopped)"

end
