(* ===== verification/Service_Calls.thy ===== *)
theory Service_Calls
  imports Service_Link
begin

section \<open>The controller: poller and calls\<close>

text \<open>
  \<open>backend/pc_client/ble_service.py\<close>: the poller, and the methods the HTTP and Tk callers use:
  start and stop, scan, connect and pair, reconnect, disconnect, forgetting a pairing, the display
  command and the waiting for an operation.
\<close>

definition submit_ble ::
    "request_priority \<Rightarrow> string \<Rightarrow> ble_action \<Rightarrow> rat option \<Rightarrow> ('h, 'w, reply) scoro" where
  "submit_ble priority name action timeout = cread (\<lambda>s.
     if \<not> sv_started s \<or> \<not> is_ready s
     then craise (Exc ServiceUnavailableErrorC ''thermometer is not connected'' None [] None)
     else ccatch (await (QSubmit priority name action timeout))
       (\<lambda>e. is_runtime_error e \<and> exc_text e = ''thermometer is not connected'')
       (\<lambda>e. craise (Exc ServiceUnavailableErrorC (exc_text e) None [] (Some e))))"

definition submit_current :: "string \<Rightarrow> rat option \<Rightarrow> ('h, 'w, current_snapshot) scoro" where
  "submit_current name timeout =
     cbind (submit_ble PRIO_CURRENT name GetCurrentAction timeout) (\<lambda>r. case r of
       RSnapshot v \<Rightarrow> creturn v | _ \<Rightarrow> craise unexpected_reply)"

subsection \<open>The poller\<close>

definition slot_time :: "rat \<Rightarrow> utc \<Rightarrow> rat \<Rightarrow> utc" where
  "slot_time monotonic_anchor utc_anchor deadline = utc_anchor + timedelta_us (deadline - monotonic_anchor)"

text \<open>The inner loop over the slots that were missed, with fuel.\<close>

primrec poll_catch_up ::
    "('h, 'w) host \<Rightarrow> rat \<Rightarrow> utc \<Rightarrow> nat \<Rightarrow> rat \<Rightarrow> ('h, 'w, rat) sact" where
  "poll_catch_up h m u 0 next_deadline = areturn next_deadline"
| "poll_catch_up h m u (Suc fuel) next_deadline =
     abind (monotonic h) (\<lambda>now.
       let interval = poll_interval_seconds (ho_settings h) in
       if next_deadline + interval \<le> now then
         abind (publish_missing_interval h (slot_time m u next_deadline) ''current polling deadline was missed'')
           (\<lambda>_. poll_catch_up h m u fuel (next_deadline + interval))
       else areturn next_deadline)"

definition poll_sample :: "('h, 'w) host \<Rightarrow> utc \<Rightarrow> ('h, 'w, unit) scoro" where
  "poll_sample h scheduled_at = cread (\<lambda>s.
     if is_ready s then
       ccatch (cbind (submit_current ''scheduled current sample'' None) (\<lambda>snapshot.
          cbind (work (utc_now h)) (\<lambda>t. cbind (publish_current_snapshot h snapshot t) (\<lambda>_. creturn ()))))
         is_exception (\<lambda>e.
          let message = describe_ble_error e in
          cbind (work (publish_missing_interval h scheduled_at message)) (\<lambda>_.
          work (post_event EV_LINK_LOST message NoValue None)))
     else
       cbind (work (publish_missing_interval h scheduled_at
          (case st_last_error (sv_state s) of Some m \<Rightarrow> if m \<noteq> [] then m else ''thermometer is not connected''
           | None \<Rightarrow> ''thermometer is not connected''))) (\<lambda>_. creturn ()))"

text \<open>One turn of \<open>_poll_current\<close>: the deadline of the next slot.\<close>

definition poll_turn :: "('h, 'w) host \<Rightarrow> nat \<Rightarrow> rat \<Rightarrow> utc \<Rightarrow> rat \<Rightarrow> ('h, 'w, rat) scoro" where
  "poll_turn h fuel m u next_deadline =
     cbind (work (monotonic h)) (\<lambda>now.
     cthen (await_unit (QSleep (max 0 (next_deadline - now))))
     (cbind (work (poll_catch_up h m u fuel next_deadline)) (\<lambda>next_deadline.
      cthen (poll_sample h (slot_time m u next_deadline))
      (cbind (work (monotonic h)) (\<lambda>_. creturn (next_deadline + poll_interval_seconds (ho_settings h)))))))"

subsection \<open>Start and stop\<close>

definition start_service :: "('h, 'w) host \<Rightarrow> ('h, 'w, unit) scoro" where
  "start_service h = cread (\<lambda>s.
     if sv_started s then creturn ()
     else
       cthen (work (modify (\<lambda>s. s\<lparr>sv_started := True, sv_events := [], sv_pending_discovery := None\<rparr>)))
       (cthen (work (transition h (Some (if ho_auto_discover h then DISCOVERING else DISCONNECTED))
          (link_down\<lparr>ch_desired_connected := Some (ho_auto_discover h), ch_credential_state := Some CRED_MISSING,
             ch_retry_count := Some 0, ch_next_retry_at := Some None, ch_last_error := Some None\<rparr>) ''service started''))
       (cthen (ccatch (await_unit QDatabaseStart) is_exception
          (\<lambda>e. work (modify (database_failed ''start'' (describe_ble_error e)))))
       (cthen (work (modify (\<lambda>s. s\<lparr>sv_persistence := worker_start (sv_persistence s), sv_manager_running := True\<rparr>)))
       (cthen (work (post_event EV_START ''service started'' NoValue None))
              (work publish_connection_state))))))"

definition stop_service :: "('h, 'w) host \<Rightarrow> ('h, 'w, unit) scoro" where
  "stop_service h = cread (\<lambda>s.
     if \<not> sv_started s then creturn ()
     else
       cthen (work (modify (\<lambda>s. s\<lparr>sv_started := False\<rparr>)))
       (cthen (work (transition h (Some DISCONNECTING) (no_changes\<lparr>ch_desired_connected := Some False,
          ch_ready := Some False, ch_next_retry_at := Some None\<rparr>) ''service stopping''))
       (cthen (work (post_event EV_STOP ''service stopping'' NoValue None))
       (cthen (work (cancel_pending_connect h ''service stopped''))
       (cthen (cancel_history h ''service stopped'')
       (cthen (await_unit (QCancelTask ''manager, poller and background tasks''))
       (cthen manager_stopped
       (cthen (close_service_client h)
       (cthen (await_unit QSchedulerStop)
       (cthen (work (transition h (Some STOPPED) link_down ''service stopped''))
       (cthen (work publish_connection_state)
       (cthen (ccatch (await_unit (QFlush 1)) (\<lambda>e. exc_class e = TimeoutErrorC) (\<lambda>_. creturn ()))
       (cthen (await_unit (QCancelTask ''state publisher''))
       (cthen (await_unit QPersistenceStop)
       (cthen (work (\<lambda>s. modify (\<lambda>s. s\<lparr>sv_persistence := worker_stop (ho_configured h (sv_world s)) (sv_persistence s)\<rparr>) s))
              (ccatch (await_unit QDatabaseClose) is_exception (\<lambda>_. creturn ())))))))))))))))))"

subsection \<open>Scan, connect and pair\<close>

definition scan_call :: "('h, 'w) host \<Rightarrow> ('h, 'w, discovered_thermometer list) scoro" where
  "scan_call h = cread (\<lambda>s.
     if st_connected (sv_state s) \<or> st_phase (sv_state s) \<in> {PAIRING, CONNECTING, VERIFYING, CONNECTED,
          RECONNECTING, DISCONNECTING}
     then craise (Exc ServiceConflictErrorC ''cannot scan while a BLE connection is active'' None [] None)
     else
       let discovery_generation = sv_generation s in
       ccatch (cbind (scan_for_devices h) (\<lambda>devices. cread (\<lambda>s.
           cthen (if discovery_generation = sv_generation s \<and> target_of s = None
             then cthen (work (modify (\<lambda>s. s\<lparr>sv_pending_discovery := Some devices\<rparr>)))
                (work (post_event EV_DISCOVERY_RESULT ''manual discovery completed'' (ObservedDevices devices)
                   (Some discovery_generation)))
             else creturn ()) (creturn devices))))
         is_exception (\<lambda>e. craise (Exc ServiceUnavailableErrorC (''BLE discovery failed: ''
            @ describe_ble_error e) None [] (Some e))))"

definition passkey_required :: "'a res" where
  "passkey_required = raise AuthenticationRequiredErrorC ''a six-digit passkey is required to enroll this device''"

definition refuse_enrollment :: "('h, 'w) host \<Rightarrow> discovered_thermometer \<Rightarrow> ('h, 'w, string) scoro" where
  "refuse_enrollment h selected =
     cthen (work (modify (\<lambda>s. s\<lparr>sv_generation := sv_generation s + 1\<rparr>)))
     (cthen (work (transition h (Some AUTHENTICATION_REQUIRED) (link_down\<lparr>ch_desired_connected := Some True,
        ch_target := Some (Some selected), ch_credential_state := Some CRED_MISSING, ch_next_retry_at := Some None,
        ch_last_error := Some (Some ''a six-digit passkey is required to enroll this device'')\<rparr>)
        ''device credential is not enrolled''))
     (cthen (work publish_connection_state) (Finished passkey_required)))"

text \<open>The operation of the request, which supersedes a pending one.\<close>

definition pending_operation :: "('h, 'w) host \<Rightarrow> string \<Rightarrow> ('h, 'w, string) sact" where
  "pending_operation h kind =
     abind (new_operation h kind) (\<lambda>i.
     abind (\<lambda>s. case sv_pending_connect s of
          Some j \<Rightarrow> cancel_operation h j ''superseded by another connect request'' s | None \<Rightarrow> (Inr (), s)) (\<lambda>_.
     abind (modify (\<lambda>s. s\<lparr>sv_pending_connect := Some i\<rparr>)) (\<lambda>_.
     abind (run_operation h i) (\<lambda>_. areturn i))))"

definition leave_other_device :: "('h, 'w) host \<Rightarrow> ('h, 'w, unit) scoro" where
  "leave_other_device h =
     cthen (work (transition h (Some DISCONNECTING) (no_changes\<lparr>ch_ready := Some False\<rparr>) ''switching selected thermometer''))
     (cthen (cancel_history h ''target changed'') (close_service_client h))"

definition begin_pairing ::
    "('h, 'w) host \<Rightarrow> discovered_thermometer \<Rightarrow> string \<Rightarrow> bool \<Rightarrow> string \<Rightarrow> ('h, 'w, unit) sact" where
  "begin_pairing h selected passkey from_registry kind =
     abind (modify (\<lambda>s. s\<lparr>sv_generation := sv_generation s + 1, sv_passkey := Some passkey,
        sv_from_registry := from_registry,
        sv_known := dict_set (py_lower (dt_address selected)) selected (sv_known s)\<rparr>)) (\<lambda>_.
     abind (transition h (Some PAIRING) (link_down\<lparr>ch_desired_connected := Some True,
        ch_target := Some (Some selected), ch_credential_state := Some CRED_AVAILABLE, ch_next_retry_at := Some None,
        ch_last_error := Some None\<rparr>) (kind @ '' requested'')) (\<lambda>_.
     abind (post_event EV_INTENT_CHANGED (kind @ '' requested'') NoValue None) (\<lambda>_. publish_connection_state)))"

text \<open>The passkey of a request: the one supplied, or the one enrolled.\<close>

definition request_credential ::
    "string option \<Rightarrow> discovered_thermometer \<Rightarrow> ('h, 'w, (string \<times> bool) option) sact" where
  "request_credential supplied selected s =
     (case supplied of
        Some p \<Rightarrow> (Inr (Some (p, False)), s)
      | None \<Rightarrow> (rbind (lookup_credential (dt_address selected) (sv_registry s))
          (\<lambda>c. Inr (map_option (\<lambda>c. (dc_pairing_passkey c, True)) c)), s))"

definition begin_connection ::
    "('h, 'w) host \<Rightarrow> target_arg \<Rightarrow> string option \<Rightarrow> string \<Rightarrow> ('h, 'w, string) scoro" where
  "begin_connection h target passkey kind =
     cbind (work (resolve_target target)) (\<lambda>selected. cread (\<lambda>s.
       let current_address = map_option (\<lambda>d. py_lower (dt_address d)) (target_of s);
           same = (current_address = Some (py_lower (dt_address selected)))
       in cbind (Finished (case passkey of None \<Rightarrow> Inr None | Some p \<Rightarrow> rbind (validate_passkey p) (\<lambda>q. Inr (Some q))))
            (\<lambda>supplied.
          cbind (work (request_credential supplied selected)) (\<lambda>found.
          if is_ready s \<and> same then
            cbind (work (new_operation h kind)) (\<lambda>i.
            cthen (work (succeed_operation h i (ConnectResult (Some (dt_address selected)) True))) (creturn i))
          else case found of
            None \<Rightarrow> refuse_enrollment h selected
          | Some (k, from_registry) \<Rightarrow>
              cbind (work (pending_operation h kind)) (\<lambda>i.
              cthen (if st_connected (sv_state s) \<and> \<not> same then leave_other_device h else creturn ())
              (cthen (work (begin_pairing h selected k from_registry kind)) (creturn i)))))))"

definition reconnect_call :: "('h, 'w) host \<Rightarrow> ('h, 'w, string) scoro" where
  "reconnect_call h = cread (\<lambda>s. case target_of s of
     None \<Rightarrow> craise (Exc ServiceConflictErrorC ''no device has been selected in this process'' None [] None)
   | Some t \<Rightarrow> begin_connection h (TargetDevice t) None ''connect'')"

definition disconnect_call :: "('h, 'w) host \<Rightarrow> ('h, 'w, unit) scoro" where
  "disconnect_call h =
     cthen (work (modify (\<lambda>s. s\<lparr>sv_generation := sv_generation s + 1\<rparr>)))
     (cthen (work (transition h (Some DISCONNECTING) (no_changes\<lparr>ch_desired_connected := Some False,
        ch_ready := Some False, ch_next_retry_at := Some None\<rparr>) ''explicit disconnect requested''))
     (cthen (work (post_event EV_INTENT_CHANGED ''explicit disconnect requested'' NoValue None))
     (cthen (cancel_history h ''explicitly disconnected'')
     (cthen (await_unit (QCancelTask ''connection attempt''))
     (cthen (close_service_client h)
     (cthen (work (modify (unavailable ''explicitly disconnected'')))
     (cthen (work (transition h (Some DISCONNECTED) (link_down\<lparr>ch_retry_count := Some 0,
        ch_last_error := Some None\<rparr>) ''explicitly disconnected''))
     (cthen (work (cancel_pending_connect h ''explicitly disconnected''))
     (cthen (work publish_connection_state) (emit h (EvSimple ''disconnected'')))))))))))"

subsection \<open>Forgetting a pairing\<close>

text \<open>The stages of the reset: the first that raises ends them.\<close>

primrec run_stages ::
    "(string \<times> ('h, 'w, unit) scoro) list \<Rightarrow> ('h, 'w, (string \<times> exc) option) scoro" where
  "run_stages [] = creturn None"
| "run_stages (x # xs) = cbind (cattempt (snd x)) (\<lambda>r. case r of
     Inr _ \<Rightarrow> run_stages xs
   | Inl e \<Rightarrow> if is_exception e then creturn (Some (fst x, e)) else craise e)"

definition delete_saved :: "('h, 'w) host \<Rightarrow> string \<Rightarrow> ('h, 'w, unit) sact" where
  "delete_saved h address s =
     (case delete_credential (ho_codec h) (ho_write_fault h (sv_world s)) address (sv_registry s) of
        (Inl e, g) \<Rightarrow> (Inl e, s\<lparr>sv_registry := g\<rparr>) | (Inr _, g) \<Rightarrow> (Inr (), s\<lparr>sv_registry := g\<rparr>))"

definition reset_stages :: "('h, 'w) host \<Rightarrow> 'h \<Rightarrow> string \<Rightarrow> (string \<times> ('h, 'w, unit) scoro) list" where
  "reset_stages h client address =
     [(''ESP32 authorization'', await_unit (QBondReset client)),
      (''BLE disconnection'', close_service_client h),
      (''Windows bond removal'',
         cthen (work (modify (\<lambda>s. s\<lparr>sv_verified_bond := None\<rparr>))) (await_unit (QForget client))),
      (''credential registry removal'', work (delete_saved h address))]"

definition perform_reset :: "('h, 'w) host \<Rightarrow> discovered_thermometer \<Rightarrow> ('h, 'w, operation_result) scoro" where
  "perform_reset h selected =
     cbind (work (required_client h)) (\<lambda>client.
     cbind (run_stages (reset_stages h client (dt_address selected))) (\<lambda>failed. case failed of
       Some (stage, e) \<Rightarrow>
         let message = ''pairing reset failed during '' @ stage @ '': '' @ describe_ble_error e in
         cthen (close_service_client h)
         (cthen (work (transition h (Some DISCONNECTED) (link_down\<lparr>ch_last_error := Some (Some message)\<rparr>)
            ''pairing reset partially failed''))
         (cthen (work publish_connection_state) (craise (Exc RuntimeErrorC message None [] (Some e)))))
     | None \<Rightarrow>
         cthen (work (modify (\<lambda>s. s\<lparr>sv_passkey := None, sv_from_registry := False\<rparr>)))
         (cthen (work (transition h (Some DISCONNECTED) (link_down\<lparr>ch_credential_state := Some CRED_MISSING,
            ch_last_error := Some None\<rparr>) ''pairing reset completed''))
         (cthen (work publish_connection_state)
         (cthen (emit h (EvSimple ''pairing_reset'')) (creturn (ForgetResult (dt_address selected))))))))"

definition operation_task ::
    "('h, 'w) host \<Rightarrow> string \<Rightarrow> ('h, 'w, operation_result) scoro \<Rightarrow> ('h, 'w, unit) scoro" where
  "operation_task h i body =
     cthen (work (run_operation h i))
     (cbind (cattempt body) (\<lambda>r. case r of
        Inr result \<Rightarrow> work (succeed_operation h i result)
      | Inl e \<Rightarrow> if is_exception e then work (fail_operation h i e)
          else cthen (work (cancel_operation h i ''operation cancelled'')) (craise e)))"

definition forget_pairing_call :: "('h, 'w) host \<Rightarrow> target_arg \<Rightarrow> ('h, 'w, string) scoro" where
  "forget_pairing_call h target =
     cbind (work (resolve_target target)) (\<lambda>selected. cread (\<lambda>s.
       if \<not> is_ready s \<or> map_option (\<lambda>d. py_lower (dt_address d)) (target_of s) \<noteq> Some (py_lower (dt_address selected))
       then craise (Exc ServiceConflictErrorC
          ''an authenticated connection to this device is required to reset its bond'' None [] None)
       else
         cthen (work (modify (\<lambda>s. s\<lparr>sv_generation := sv_generation s + 1\<rparr>)))
         (cthen (work (transition h (Some DISCONNECTING) (no_changes\<lparr>ch_desired_connected := Some False,
            ch_target := Some (Some selected), ch_ready := Some False\<rparr>) ''authorized pairing reset requested''))
         (cthen (work notify_connection_manager)
         (cthen (cancel_history h ''pairing reset'')
         (cthen (work publish_connection_state)
         (work (new_operation h ''forget_pairing''))))))))"

subsection \<open>The display command\<close>

record confirmed_display =
  cf_result :: display_result
  cf_observed_at :: utc
  cf_persistence :: persistence_result

definition sensor_id_in_range :: "int \<Rightarrow> bool" where
  "sensor_id_in_range sensor_id \<longleftrightarrow> 1 \<le> sensor_id \<and> sensor_id \<le> SENSOR_COUNT"

text \<open>The command timed out: the state of the device decides.\<close>

definition confirmed_by :: "int \<Rightarrow> bool \<Rightarrow> current_snapshot \<Rightarrow> display_result res" where
  "confirmed_by sensor_id enabled confirmation =
     (case find (\<lambda>x. snap_sensor_id x = sensor_id) (cur_sensors confirmation) of
        None \<Rightarrow> raise StopIterationC ''''
      | Some x \<Rightarrow>
          if snap_display_enabled x \<noteq> enabled
          then value_error ''device state did not match requested display state''
          else Inr \<lparr>disp_sensor_id = sensor_id, disp_visible_state = snap_visible_state x,
                 disp_display_enabled = snap_display_enabled x\<rparr>)"

definition confirm_display :: "('h, 'w) host \<Rightarrow> int \<Rightarrow> bool \<Rightarrow> ('h, 'w, display_result) scoro" where
  "confirm_display h sensor_id enabled =
     ccatch
       (cbind (submit_current (''confirm display '' @ show_int sensor_id)
           (Some (max 2 (display_command_timeout_seconds (ho_settings h))))) (\<lambda>confirmation.
        cbind (Finished (confirmed_by sensor_id enabled confirmation)) (\<lambda>result.
        cbind (work (utc_now h)) (\<lambda>t.
        cbind (publish_current_snapshot h confirmation t) (\<lambda>_. creturn result)))))
       (\<lambda>e. exc_class e \<in> {TimeoutErrorC, StopIterationC, ValueErrorC} \<or> is_runtime_error e)
       (\<lambda>e. craise (Exc DisplayTimeoutErrorC
          ''the ESP32 did not confirm the display state before the timeout'' None [] (Some e)))"

definition command_display :: "('h, 'w) host \<Rightarrow> int \<Rightarrow> bool \<Rightarrow> ('h, 'w, display_result) scoro" where
  "command_display h sensor_id enabled =
     ccatch (cbind (submit_ble PRIO_DISPLAY (''set display '' @ show_int sensor_id)
          (SetDisplayAction sensor_id enabled) (Some (display_command_timeout_seconds (ho_settings h)))) (\<lambda>r.
        case r of RDisplay v \<Rightarrow> creturn v | _ \<Rightarrow> craise unexpected_reply))
       (\<lambda>e. exc_class e = TimeoutErrorC) (\<lambda>_. confirm_display h sensor_id enabled)"

definition display_record ::
    "device_identity \<Rightarrow> utc \<Rightarrow> int \<Rightarrow> bool \<Rightarrow> display_result \<Rightarrow> display_state_record" where
  "display_record identity t sensor_id enabled r =
     \<lparr>ds_device = identity, ds_observed_at = t, ds_sensor_id = sensor_id, ds_requested_enabled = enabled,
      ds_confirmed_enabled = disp_display_enabled r, ds_visible_state = visible_state_name (disp_visible_state r)\<rparr>"

definition set_display_call :: "('h, 'w) host \<Rightarrow> int \<Rightarrow> bool \<Rightarrow> ('h, 'w, confirmed_display) scoro" where
  "set_display_call h sensor_id enabled = cread (\<lambda>s.
     if \<not> sensor_id_in_range sensor_id then
       Finished (value_error (''sensor_id must be between 1 and '' @ show_int SENSOR_COUNT))
     else if \<not> is_ready s then
       craise (Exc ServiceUnavailableErrorC ''thermometer is not connected'' None [] None)
     else
       cbind (work (monotonic h)) (\<lambda>command_started.
       cbind (command_display h sensor_id enabled) (\<lambda>result.
       cbind (work (utc_now h)) (\<lambda>observed_at. cread (\<lambda>s.
         case device_identity_of (target_of s) of
           None \<Rightarrow> craise assertion_error
         | Some identity \<Rightarrow>
             cbind (work (enqueue h (PublishDisplayResult (display_record identity observed_at sensor_id enabled result)))) (\<lambda>f.
             cbind (work (monotonic h)) (\<lambda>now.
             let remaining = display_command_timeout_seconds (ho_settings h) - (now - command_started) in
             cbind (ccatch (cbind (await_stored (QStored [f] (Some (max (1 / 1000) remaining)))) (\<lambda>rs.
                  case rs of [r] \<Rightarrow> creturn r | _ \<Rightarrow> craise unexpected_reply))
                (\<lambda>e. exc_class e = TimeoutErrorC)
                (\<lambda>_. cread (\<lambda>s. creturn \<lparr>pr_configured = ho_configured h (sv_world s), pr_persisted = False,
                   pr_detail = Some ''display result persistence is still pending''\<rparr>))) (\<lambda>persistence.
             cthen (work (modify (update_cached_display result)))
             (cthen (emit h (EvDisplay result))
             (cthen (cread (\<lambda>s. case cd_snapshot (sv_current s) of
                  None \<Rightarrow> creturn () | Some snap \<Rightarrow> emit h (EvSnapshot snap)))
             (creturn \<lparr>cf_result = result, cf_observed_at = observed_at, cf_persistence = persistence\<rparr>))))))))))) "

subsection \<open>Waiting for an operation\<close>

definition wait_for_operation ::
    "('h, 'w) host \<Rightarrow> string \<Rightarrow> rat option \<Rightarrow> ('h, 'w, tracked_operation) scoro" where
  "wait_for_operation h i timeout =
     cbind (work (get_operation h i)) (\<lambda>p.
       if op_finished p then creturn p
       else cthen (await_unit (QCompletion i timeout)) (work (get_operation h i)))"

subsection \<open>Everything the event loop runs\<close>

definition discard :: "('h, 'w, 'a) scoro \<Rightarrow> ('h, 'w, unit) scoro" where
  "discard c = cbind c (\<lambda>_. creturn ())"

text \<open>
  The coroutines that the event loop starts: the calls, the background tasks and the turns of the
  loops, with any arguments. Starting one more often than the code does only adds behaviour.
\<close>

definition service_calls :: "('h, 'w) host \<Rightarrow> ('h, 'w, unit) scoro set" where
  "service_calls h =
     {start_service h, stop_service h, disconnect_call h, supervise_turn h, state_publisher_turn h,
      discard (scan_call h), discard (reconnect_call h), discard (work (request_history_sync h)),
      discard (work (get_status h))}
     \<union> range (\<lambda>(target, passkey, kind). discard (begin_connection h target passkey kind))
     \<union> range (\<lambda>target. discard (forget_pairing_call h target))
     \<union> range (\<lambda>(i, selected). operation_task h i (perform_reset h selected))
     \<union> range (\<lambda>(sensor_id, enabled). discard (set_display_call h sensor_id enabled))
     \<union> range (\<lambda>(i, timeout). discard (wait_for_operation h i timeout))
     \<union> range (\<lambda>(i, source, generation). history_task h i source generation)
     \<union> range (\<lambda>timeout. discard (scan_task h timeout))
     \<union> range (\<lambda>(fuel, m, u, deadline). discard (poll_turn h fuel m u deadline))
     \<union> range (\<lambda>call. discard (database_call h call))
     \<union> range (\<lambda>client. work (on_transport_disconnected client))"

end
