(* ===== verification/Service_Keeps.thy ===== *)
theory Service_Keeps
  imports Service_Calls Credential_Props
begin

section \<open>Assertions that the whole controller keeps\<close>

text \<open>
  An assertion about the state of the controller that its primitive operations keep is kept by
  every coroutine, at every suspension point. The locale states what the primitives owe; the
  interpretation at the end of \<open>Service_Props\<close> discharges it for the invariant of the service.
\<close>

named_theorems act_keeps \<open>actions of the controller keep the assertion\<close>
named_theorems flow_keeps \<open>coroutines of the controller keep the assertion\<close>

text \<open>The part of the state an assertion may read.\<close>

definition core :: "('h, 'w) svc \<Rightarrow> service_state \<times> service_state list \<times> (string, tracked_operation) dict
    \<times> (string, bool) dict \<times> db_call persist_worker \<times> utc registry" where
  "core s = (sv_state s, sv_publish_queue s, sv_operations s, sv_completed s, sv_persistence s, sv_registry s)"

lemma keeps_Let: "(\<And>x. x = v \<Longrightarrow> keeps P (f x)) \<Longrightarrow> keeps P (Let v f)" by simp
lemma keeps_option: "keeps P m \<Longrightarrow> (\<And>x. keeps P (f x)) \<Longrightarrow> keeps P (case v of None \<Rightarrow> m | Some x \<Rightarrow> f x)"
  by (cases v) auto
lemma keeps_sum: "(\<And>x. keeps P (f x)) \<Longrightarrow> (\<And>x. keeps P (g x)) \<Longrightarrow> keeps P (case v of Inl x \<Rightarrow> f x | Inr x \<Rightarrow> g x)"
  by (cases v) auto
lemma keeps_modify: "(\<And>s. P s \<Longrightarrow> P (f s)) \<Longrightarrow> keeps P (modify f)"
  by (simp add: keeps_def modify_def)
lemma keeps_at: "(\<And>s. P s \<Longrightarrow> P (snd (m s))) \<Longrightarrow> keeps P m"
  by (simp add: keeps_def)
lemma keeps_same: "(\<And>s. snd (m s) = s) \<Longrightarrow> keeps P m"
  by (simp add: keeps_def)
lemma keeps_amap: "(\<And>x. keeps P (f x)) \<Longrightarrow> keeps P (amap f xs)"
  by (induction xs) (auto intro!: keeps_abind)
lemma keeps_run: "keeps P m \<Longrightarrow> P s \<Longrightarrow> P (snd (m s))"
  by (rule keepsD)

lemma ckeeps_if: "(b \<Longrightarrow> ckeeps P c) \<Longrightarrow> (\<not> b \<Longrightarrow> ckeeps P d) \<Longrightarrow> ckeeps P (if b then c else d)" by simp
lemma ckeeps_Let: "(\<And>x. ckeeps P (f x)) \<Longrightarrow> ckeeps P (Let v f)" by simp
lemma ckeeps_option: "ckeeps P c \<Longrightarrow> (\<And>x. ckeeps P (f x)) \<Longrightarrow> ckeeps P (case v of None \<Rightarrow> c | Some x \<Rightarrow> f x)"
  by (cases v) auto
lemma ckeeps_sum: "(\<And>x. ckeeps P (f x)) \<Longrightarrow> (\<And>x. ckeeps P (g x)) \<Longrightarrow> ckeeps P (case v of Inl x \<Rightarrow> f x | Inr x \<Rightarrow> g x)"
  by (cases v) auto
lemma ckeeps_list: "ckeeps P c \<Longrightarrow> (\<And>x xs. ckeeps P (f x xs)) \<Longrightarrow> ckeeps P (case v of [] \<Rightarrow> c | x # xs \<Rightarrow> f x xs)"
  by (cases v) auto
lemma ckeeps_prod: "(\<And>x y. ckeeps P (f x y)) \<Longrightarrow> ckeeps P (case v of (x, y) \<Rightarrow> f x y)"
  by (cases v) auto
lemma ckeeps_bool: "ckeeps P c \<Longrightarrow> ckeeps P d \<Longrightarrow> ckeeps P (case v of True \<Rightarrow> c | False \<Rightarrow> d)"
  by (cases v) auto
lemma ckeeps_boot: "(\<And>b. ckeeps P (f b)) \<Longrightarrow> ckeeps P c \<Longrightarrow> ckeeps P (case v of BootInt b \<Rightarrow> f b | BootOther \<Rightarrow> c)"
  by (cases v) auto
lemma ckeeps_reply:
  "ckeeps P a \<Longrightarrow> (\<And>x. ckeeps P (b x)) \<Longrightarrow> (\<And>x. ckeeps P (c x)) \<Longrightarrow> (\<And>x. ckeeps P (d x)) \<Longrightarrow> (\<And>x. ckeeps P (e x))
    \<Longrightarrow> (\<And>x. ckeeps P (f x)) \<Longrightarrow> (\<And>x. ckeeps P (g x))
    \<Longrightarrow> ckeeps P (case v of RUnit \<Rightarrow> a | RDevices x \<Rightarrow> b x | RSnapshot x \<Rightarrow> c x | RDisplay x \<Rightarrow> d x | RBoot x \<Rightarrow> e x
       | RRetrieval x \<Rightarrow> f x | RStored x \<Rightarrow> g x)"
  by (cases v) auto
lemma ckeeps_Finished: "ckeeps P (Finished r)" by simp
lemma ckeeps_cturn: "ckeeps P c \<Longrightarrow> ckeeps P (cturn c)" by (simp add: cturn_def)

lemma ckeeps_awaits:
  "ckeeps P (await_unit q)" "ckeeps P (await_devices q)" "ckeeps P (await_snapshot q)" "ckeeps P (await_display q)"
  "ckeeps P (await_boot q)" "ckeeps P (await_retrieval q)" "ckeeps P (await_stored q)"
  unfolding await_unit_def await_devices_def await_snapshot_def await_display_def await_boot_def
    await_retrieval_def await_stored_def
  by (intro ckeeps_intros ckeeps_reply)+

lemmas ckeeps_structure = ckeeps_Finished ckeeps_intros ckeeps_if ckeeps_Let ckeeps_option ckeeps_sum ckeeps_list
  ckeeps_prod ckeeps_bool ckeeps_boot ckeeps_reply ckeeps_cturn ckeeps_awaits ckeeps_cread ckeeps_work

lemmas keeps_structure = keeps_intros keeps_Let keeps_option keeps_sum keeps_amap

locale service_assertion =
  fixes h :: "('h, 'w) host" and P :: "('h, 'w) svc \<Rightarrow> bool"
  assumes same_core: "core s' = core s \<Longrightarrow> P s \<Longrightarrow> P s'"
    and keeps_transition [act_keeps]: "keeps P (transition h phase changes reason)"
    and keeps_publish [act_keeps]: "keeps P publish_connection_state"
    and keeps_pop_state [act_keeps]: "keeps P pop_state"
    and keeps_new_operation [act_keeps]: "keeps P (new_operation h kind)"
    and keeps_prune [act_keeps]: "keeps P (prune_operations h)"
    and keeps_run_operation [act_keeps]: "keeps P (run_operation h i)"
    and keeps_succeed [act_keeps]: "keeps P (succeed_operation h i result)"
    and keeps_fail [act_keeps]: "keeps P (fail_operation h i e)"
    and keeps_cancel [act_keeps]: "keeps P (cancel_operation h i cause)"
    and persisted_flag: "P s \<Longrightarrow> P (update_operation i (\<lambda>p. p\<lparr>op_persistence_succeeded := x\<rparr>) s)"
    and keeps_enqueue [act_keeps]: "keeps P (enqueue h call)"
    and worker_step: "P s \<Longrightarrow> P (s\<lparr>sv_persistence := worker_exec ev (sv_persistence s)\<rparr>)"
    and keeps_save [act_keeps]: "keeps P (save_credential h selected t)"
    and keeps_delete [act_keeps]: "keeps P (delete_saved h address)"
begin

lemma keeps_core: "(\<And>s. core (snd (m s)) = core s) \<Longrightarrow> keeps P m"
  unfolding keeps_def using same_core by blast

lemma modify_core: "(\<And>s. core (f s) = core s) \<Longrightarrow> keeps P (modify f)"
  by (rule keeps_core) (simp add: modify_def)

lemma neutral_host [act_keeps]: "keeps P (host_call f)"
  by (rule keeps_core) (simp add: host_call_def core_def split: prod.split)

lemma neutral_modify [act_keeps]:
  "keeps P (modify (\<lambda>s. s\<lparr>sv_generation := sv_generation s + 1\<rparr>))"
  "keeps P (modify (\<lambda>s. s\<lparr>sv_passkey := k, sv_from_registry := b\<rparr>))"
  "keeps P (modify (\<lambda>s. s\<lparr>sv_from_registry := b\<rparr>))"
  "keeps P (modify (\<lambda>s. s\<lparr>sv_verified_bond := a\<rparr>))"
  "keeps P (modify (\<lambda>s. s\<lparr>sv_client := c\<rparr>))"
  "keeps P (modify (\<lambda>s. s\<lparr>sv_lock := b\<rparr>))"
  "keeps P (modify (\<lambda>s. s\<lparr>sv_scan_running := b\<rparr>))"
  "keeps P (modify (\<lambda>s. s\<lparr>sv_manager_running := b\<rparr>))"
  "keeps P (modify (\<lambda>s. s\<lparr>sv_pending_discovery := ds\<rparr>))"
  "keeps P (modify (\<lambda>s. s\<lparr>sv_pending_connect := i\<rparr>))"
  "keeps P (modify (\<lambda>s. s\<lparr>sv_current := d\<rparr>))"
  "keeps P (modify (\<lambda>s. s\<lparr>sv_last_history := x\<rparr>))"
  "keeps P (modify (\<lambda>s. s\<lparr>sv_history_task := y, sv_history_operation := i\<rparr>))"
  "keeps P (modify (\<lambda>s. if sv_history_task s = y then s\<lparr>sv_history_task := z\<rparr> else s))"
  "keeps P (modify (\<lambda>s. s\<lparr>sv_started := b\<rparr>))"
  "keeps P (modify (\<lambda>s. s\<lparr>sv_started := b, sv_events := es, sv_pending_discovery := ds\<rparr>))"
  "keeps P (modify (\<lambda>s. s\<lparr>sv_generation := sv_generation s + 1, sv_passkey := k, sv_from_registry := b,
      sv_known := dict_set q t (sv_known s)\<rparr>))"
  by (rule modify_core; simp add: core_def)+

lemma neutral_functions [act_keeps]:
  "keeps P (modify (unavailable m))" "keeps P (modify (clear_client c))" "keeps P (modify (remember_devices ds))"
  "keeps P (modify (update_cached_display r))" "keeps P (modify (database_failed n m))"
  "keeps P (modify (database_worked n))" "keeps P (modify (note_boot b v))" "keeps P next_attempt"
  "keeps P (post_event kind m ev g)" "keeps P notify_connection_manager" "keeps P pop_event"
proof -
  have post: "keeps P (post_event kind m ev g)" for kind m ev g
    unfolding post_event_def by (rule modify_core) (simp add: core_def)
  show "keeps P (post_event kind m ev g)" "keeps P notify_connection_manager"
    by (simp_all add: post notify_connection_manager_def)
  show "keeps P (modify (unavailable m))" "keeps P (modify (clear_client c))" "keeps P (modify (remember_devices ds))"
    "keeps P (modify (database_failed n m))" "keeps P (modify (note_boot b v))" "keeps P next_attempt"
    unfolding next_attempt_def
    by (rule modify_core; simp add: core_def unavailable_def clear_client_def remember_devices_def
        database_failed_def note_boot_def)+
  show "keeps P (modify (database_worked n))"
    by (rule modify_core) (simp add: core_def database_worked_def Let_def)
  show "keeps P (modify (update_cached_display r))"
    by (rule modify_core) (simp add: core_def update_cached_display_def split: option.split)
  show "keeps P pop_event"
    by (rule keeps_core) (simp add: core_def pop_event_def split: list.split)
qed

lemma reading_keeps [act_keeps]:
  "keeps P (required_client h)" "keeps P (with_best_known_name d)" "keeps P (resolve_target target)"
  "keeps P (request_credential supplied selected)" "keeps P (\<lambda>s. (f s, s))" "keeps P (enqueue_outcome h m i)"
proof -
  show "keeps P (required_client h)" by (rule keeps_same) (simp add: required_client_def split: option.split)
  show "keeps P (with_best_known_name d)"
    by (rule keeps_same) (simp add: with_best_known_name_def Let_def split: sum.split)
  show "keeps P (resolve_target target)"
    by (rule keeps_same) (simp add: resolve_target_def split: target_arg.split option.split)
  show "keeps P (request_credential supplied selected)"
    by (rule keeps_same) (simp add: request_credential_def split: option.split)
  show "keeps P (\<lambda>s. (f s, s))" by (rule keeps_same) simp
  show "keeps P (enqueue_outcome h m i)"
    by (rule keeps_same) (simp add: enqueue_outcome_def split: option.split fut.split)
qed

text \<open>An action given by its result in each state: the branches are actions themselves.\<close>

lemma keeps_branch: "(\<And>s. \<exists>m. f s = m s \<and> keeps P m) \<Longrightarrow> keeps P f"
  unfolding keeps_def by metis

lemma pending_keeps [act_keeps]:
  "keeps P (complete_pending_connect h)" "keeps P (fail_pending_connect h m)" "keeps P (cancel_pending_connect h m)"
proof -
  have clear: "keeps P (abind m (\<lambda>_. modify (\<lambda>s. s\<lparr>sv_pending_connect := None\<rparr>)))" if "keeps P m" for m :: "('h, 'w, unit) sact"
    by (intro keeps_abind that act_keeps)
  show "keeps P (complete_pending_connect h)"
    by (rule keeps_at) (auto simp: complete_pending_connect_def split: option.split
        intro!: keeps_run [OF clear] keeps_run [OF neutral_modify(10)] act_keeps)
  show "keeps P (fail_pending_connect h m)"
    by (rule keeps_at) (auto simp: fail_pending_connect_def split: option.split
        intro!: keeps_run [OF clear] keeps_run [OF neutral_modify(10)] act_keeps)
  show "keeps P (cancel_pending_connect h m)"
    by (rule keeps_at) (auto simp: cancel_pending_connect_def split: option.split
        intro!: keeps_run [OF clear] act_keeps)
qed

lemma keeps_at_state: "(\<And>s. keeps P (f s)) \<Longrightarrow> keeps P (\<lambda>s. f s s)"
  by (simp add: keeps_def)

lemma sample_keeps [act_keeps]:
  "keeps P (store_current h snapshot t)" "keeps P (publish_missing_interval h t m)"
  "keeps P (history_sample_of h identity b entry)" "keeps P (build_history_batch h history)"
proof -
  show "keeps P (store_current h snapshot t)"
  proof (rule keeps_at)
    fix s assume "P s"
    then show "P (snd (store_current h snapshot t s))" unfolding store_current_def Let_def
      by (rule keeps_run [where P = P, rotated]) (intro keeps_structure act_keeps)
  qed
  show "keeps P (publish_missing_interval h t m)"
  proof (rule keeps_at)
    fix s assume "P s"
    then have "P (unavailable m s)" using neutral_functions(1) [of m] by (simp add: keeps_def modify_def)
    then show "P (snd (publish_missing_interval h t m s))" unfolding publish_missing_interval_def
      by (rule keeps_run [where P = P, rotated]) (intro keeps_structure act_keeps)
  qed
  show s: "keeps P (history_sample_of h identity b entry)" for identity b entry
    unfolding history_sample_of_def Let_def by (cases entry) (auto intro!: keeps_structure act_keeps)
  show "keeps P (build_history_batch h history)"
  proof (rule keeps_at)
    fix s assume "P s"
    have "P (snd (abind (amap (history_sample_of h identity (meta_boot_id (hs_meta history)))
        (group_by_sequence (hs_records history))) (\<lambda>samples s. (Inr (f samples s), s)) s))"
      for identity and f :: "sample_record list \<Rightarrow> ('h, 'w) svc \<Rightarrow> history_batch"
      using \<open>P s\<close> by (rule keeps_run [where P = P, rotated]) (intro keeps_abind keeps_amap s keeps_same; simp)
    then show "P (snd (build_history_batch h history s))"
      unfolding build_history_batch_def using \<open>P s\<close> by (simp split: option.split)
  qed
qed

lemma history_keeps [act_keeps]:
  "keeps P (start_history_sync h source)" "keeps P (history_finished h i source outcome)"
  "keeps P (request_history_sync h)"
proof -
  have start: "keeps P (\<lambda>s. (Inr (i, Some (sv_generation s)), s\<lparr>sv_history_operation := Some i, sv_history_task := Some (i, False)\<rparr>))"
    for i by (rule keeps_core) (simp add: core_def)
  show s: "keeps P (start_history_sync h source)" for source
  proof (rule keeps_at)
    fix s assume P: "P s"
    have new: "P (snd ((abind (new_operation h (''history_sync:'' @ source)) (\<lambda>i.
          abind (modify (\<lambda>s. s\<lparr>sv_last_history := Some (HistoryRunning i source)\<rparr>)) (\<lambda>_.
          abind (run_operation h i) (\<lambda>_ s.
            (Inr (i, Some (sv_generation s)), s\<lparr>sv_history_operation := Some i, sv_history_task := Some (i, False)\<rparr>))))) s))"
      by (rule keeps_run [where P = P, OF _ P]) (intro keeps_abind act_keeps start)
    show "P (snd (start_history_sync h source s))"
      unfolding start_history_sync_def using P new by (auto split: option.split bool.split)
  qed
  have clear: "keeps P (\<lambda>s. (Inr r, if map_option fst (sv_history_task s) = Some i
      then s\<lparr>sv_history_task := None, sv_history_operation := None\<rparr> else s))" for r :: bool
    by (rule keeps_core) (simp add: core_def)
  show "keeps P (history_finished h i source outcome)"
    unfolding history_finished_def by (intro keeps_structure act_keeps clear)
  show "keeps P (request_history_sync h)"
    by (rule keeps_at) (auto simp: request_history_sync_def intro!: keeps_run [OF s])
qed

lemma link_keeps [act_keeps]:
  "keeps P (step_timeout h deadline m)" "keeps P (seconds_from_now h x)" "keeps P (accept_link h selected snapshot b)"
proof -
  show "keeps P (step_timeout h deadline m)"
    unfolding step_timeout_def by (intro keeps_structure act_keeps)
  show "keeps P (seconds_from_now h x)"
    unfolding seconds_from_now_def by (intro keeps_structure act_keeps)
  have named: "keeps P (\<lambda>s. let selected = named_target h selected s in f selected s)"
    if "\<And>t. keeps P (f t)" for f :: "discovered_thermometer \<Rightarrow> ('h, 'w, utc) sact"
    unfolding Let_def by (rule keeps_at_state) (rule that)
  show "keeps P (accept_link h selected snapshot b)"
    unfolding accept_link_def by (intro keeps_abind act_keeps named keeps_basic)
qed

lemma call_keeps [act_keeps]:
  "keeps P (poll_catch_up h m u fuel deadline)" "keeps P (pending_operation h kind)"
  "keeps P (begin_pairing h selected k b kind)" "keeps P (get_operation h i)" "keeps P (get_status h)"
proof -
  show "keeps P (poll_catch_up h m u fuel deadline)" for deadline
    by (induction fuel arbitrary: deadline) (auto simp: Let_def intro!: keeps_structure act_keeps)
  have cancel: "keeps P (\<lambda>s. case sv_pending_connect s of Some j \<Rightarrow> cancel_operation h j m s | None \<Rightarrow> (Inr (), s))" for m
    by (rule keeps_at) (auto split: option.split intro!: keeps_run [OF keeps_cancel])
  show "keeps P (pending_operation h kind)"
    unfolding pending_operation_def by (intro keeps_abind act_keeps cancel keeps_basic)
  show "keeps P (begin_pairing h selected k b kind)"
    unfolding begin_pairing_def by (intro keeps_abind act_keeps)
  show "keeps P (get_operation h i)"
    unfolding get_operation_def
    by (intro keeps_abind act_keeps keeps_same) (simp split: option.split)
  show "keeps P (get_status h)"
    unfolding get_status_def by (intro keeps_abind act_keeps)
qed

lemma worker_keeps [act_keeps]:
  "keeps P (modify (\<lambda>s. s\<lparr>sv_persistence := worker_start (sv_persistence s), sv_manager_running := b\<rparr>))"
  "keeps P (\<lambda>s. modify (\<lambda>s. s\<lparr>sv_persistence := worker_stop (ho_configured h (sv_world s)) (sv_persistence s)\<rparr>) s)"
  "keeps P (modify (update_operation i (\<lambda>p. p\<lparr>op_persistence_succeeded := x\<rparr>)))"
proof -
  have "P (s\<lparr>sv_persistence := worker_start (sv_persistence s), sv_manager_running := b\<rparr>)" if "P s" for s
    using worker_step [OF that, of StartWorker]
    by (rule same_core [rotated]) (simp add: core_def worker_exec_def)
  then show "keeps P (modify (\<lambda>s. s\<lparr>sv_persistence := worker_start (sv_persistence s), sv_manager_running := b\<rparr>))"
    by (rule keeps_modify)
  show "keeps P (\<lambda>s. modify (\<lambda>s. s\<lparr>sv_persistence := worker_stop (ho_configured h (sv_world s)) (sv_persistence s)\<rparr>) s)"
    using worker_step [of _ "StopWorker _"] by (auto simp: keeps_def modify_def worker_exec_def)
  show "keeps P (modify (update_operation i (\<lambda>p. p\<lparr>op_persistence_succeeded := x\<rparr>)))"
    by (rule keeps_modify) (rule persisted_flag)
qed

lemma data_flow [flow_keeps]:
  "ckeeps P (emit h ev)" "ckeeps P (publish_current_snapshot h snapshot t)"
  "ckeeps P (await_history_writes h f g x)" "ckeeps P (synchronize_history h i)" "ckeeps P (history_retry h gen)"
  "ckeeps P (history_task h i source gen)" "ckeeps P (cancel_history h m)" "ckeeps P (database_call h call)"
  "ckeeps P (state_publisher_turn h)" "ckeeps P (read_last_persisted_boot h target)"
proof -
  show e: "ckeeps P (emit h ev)" for ev
    unfolding emit_def by (intro ckeeps_structure)
  show "ckeeps P (publish_current_snapshot h snapshot t)"
    unfolding publish_current_snapshot_def by (intro ckeeps_structure act_keeps e)
  show w: "ckeeps P (await_history_writes h f g x)" for f g x
    unfolding await_history_writes_def by (intro ckeeps_structure)
  show s: "ckeeps P (synchronize_history h i)" for i
    unfolding synchronize_history_def by (intro ckeeps_structure act_keeps e w)
  show r: "ckeeps P (history_retry h gen)" for gen
    unfolding history_retry_def by (intro ckeeps_structure act_keeps)
  show "ckeeps P (history_task h i source gen)"
    unfolding history_task_def by (intro ckeeps_structure act_keeps s r)
  have c: "keeps P (\<lambda>s. case sv_history_operation s of Some j \<Rightarrow> cancel_operation h j m s | None \<Rightarrow> (Inr (), s))" for m
    by (rule keeps_at) (auto split: option.split intro!: keeps_run [OF keeps_cancel])
  show "ckeeps P (cancel_history h m)"
    unfolding cancel_history_def by (intro ckeeps_structure keeps_abind act_keeps c)
  show "ckeeps P (database_call h call)"
    unfolding database_call_def by (intro ckeeps_structure act_keeps e)
  show "ckeeps P (state_publisher_turn h)"
    unfolding state_publisher_turn_def by (intro ckeeps_structure act_keeps e)
  show "ckeeps P (read_last_persisted_boot h target)"
    unfolding read_last_persisted_boot_def by (intro ckeeps_structure act_keeps)
qed

lemma link_flow [flow_keeps]:
  "ckeeps P (perform_scan h t)" "ckeeps P (scan_task h t)" "ckeeps P (scan_for_devices h)"
  "ckeeps P (next_discovery_observation h)" "ckeeps P (find_reconnect_target h selected gen)"
  "ckeeps P (close_client_instance h c)" "ckeeps P (close_service_client h)"
  "ckeeps P (open_connection h selected gen k)" "ckeeps P (connection_lost h m b)" "ckeeps P (handle_event h event)"
  "ckeeps P (wait_for_wakeup h timeout)"
proof -
  note base = ckeeps_structure keeps_structure act_keeps
  show p: "ckeeps P (perform_scan h t)" for t
    unfolding perform_scan_def by (intro base data_flow)
  show "ckeeps P (scan_task h t)" unfolding scan_task_def by (intro base p)
  show s: "ckeeps P (scan_for_devices h)" unfolding scan_for_devices_def by (intro base)
  show "ckeeps P (next_discovery_observation h)" unfolding next_discovery_observation_def by (intro base s)
  show "ckeeps P (find_reconnect_target h selected gen)" unfolding find_reconnect_target_def by (intro base s)
  show c: "ckeeps P (close_client_instance h c)" for c
    unfolding close_client_instance_def by (intro base)
  show close: "ckeeps P (close_service_client h)"
    unfolding close_service_client_def with_lock_def by (intro base c)
  have steps: "ckeeps P (ensure_bond h client a gen k d)" "ckeeps P (open_transport h client gen k d)"
    "ckeeps P (authenticate_client h client gen k d)" for client a gen k d
    unfolding ensure_bond_def open_transport_def authenticate_client_def
    by (intro base c; unfold run_connection_step_def; intro base c)+
  have first: "ckeeps P (first_snapshot h client d)" for client d
    unfolding first_snapshot_def run_connection_step_def by (intro base)
  have attempt: "ckeeps P (attempt_steps h client a gen k d)" for client a gen k d
    unfolding attempt_steps_def by (intro base steps first)
  show "ckeeps P (open_connection h selected gen k)"
    unfolding open_connection_def with_lock_def by (intro base attempt c)
  show lost: "ckeeps P (connection_lost h m b)" for m b
    unfolding connection_lost_def by (intro base data_flow close)
  show handle: "ckeeps P (handle_event h event)" for event
    unfolding handle_event_def by (intro base lost)
  show "ckeeps P (wait_for_wakeup h timeout)"
    unfolding wait_for_wakeup_def by (intro base handle)
qed

lemma manager_flow [flow_keeps]:
  "ckeeps P (manager_body h)" "ckeeps P (manager_failed h e)" "ckeeps P (supervise_turn h)"
proof -
  note base = ckeeps_structure keeps_structure act_keeps data_flow link_flow
  have idle: "ckeeps P (manager_idle h)" unfolding manager_idle_def by (intro base)
  have ready: "ckeeps P (manager_ready h)" unfolding manager_ready_def by (intro base)
  have one: "ckeeps P (discovered_one h d)" for d unfolding discovered_one_def by (intro base)
  have many: "ckeeps P (discovered_many h)" unfolding discovered_many_def by (intro base)
  have none: "ckeeps P (discovered_none h)" unfolding discovered_none_def by (intro base)
  have discover: "ckeeps P (manager_discover h)" unfolding manager_discover_def by (intro base one many none)
  have credential: "ckeeps P (manager_credential h)" unfolding manager_credential_def by (intro base)
  have accept: "ckeeps P (manager_accept h d b v)" for d b v unfolding manager_accept_def by (intro base)
  have connect: "ckeeps P (manager_connect h b d g)" for b d g unfolding manager_connect_def by (intro base accept)
  have target: "ckeeps P (manager_target h b)" for b unfolding manager_target_def by (intro base connect)
  show body: "ckeeps P (manager_body h)"
    unfolding manager_body_def by (intro base idle ready discover credential target)
  have superseded: "ckeeps P (attempt_superseded h)" unfolding attempt_superseded_def by (intro base)
  have rejected: "ckeeps P (credential_rejected h m)" for m unfolding credential_rejected_def by (intro base)
  have retry: "ckeeps P (retry_later h m)" for m unfolding retry_later_def by (intro base)
  show failed: "ckeeps P (manager_failed h e)" for e
    unfolding manager_failed_def by (intro base superseded rejected retry)
  have turn: "ckeeps P (manager_turn h)" unfolding manager_turn_def by (intro base body failed)
  have stopped: "ckeeps P manager_stopped" unfolding manager_stopped_def by (intro base)
  have crashed: "ckeeps P (manager_crashed h e)" for e unfolding manager_crashed_def by (intro base)
  show "ckeeps P (supervise_turn h)" unfolding supervise_turn_def by (intro base turn stopped crashed)
qed

lemma call_flow [flow_keeps]:
  "ckeeps P (start_service h)" "ckeeps P (stop_service h)" "ckeeps P (scan_call h)"
  "ckeeps P (begin_connection h target k kind)" "ckeeps P (reconnect_call h)" "ckeeps P (disconnect_call h)"
  "ckeeps P (forget_pairing_call h target)" "ckeeps P (perform_reset h selected)"
  "ckeeps P (set_display_call h i b)" "ckeeps P (wait_for_operation h j timeout)" "ckeeps P (poll_turn h fuel m u d)"
proof -
  note base = ckeeps_structure keeps_structure act_keeps data_flow link_flow
  have stopped: "ckeeps P manager_stopped" unfolding manager_stopped_def by (intro base)
  show "ckeeps P (start_service h)" unfolding start_service_def by (intro base)
  show "ckeeps P (stop_service h)" unfolding stop_service_def by (intro base stopped)
  show "ckeeps P (scan_call h)" unfolding scan_call_def by (intro base)
  have refuse: "ckeeps P (refuse_enrollment h d)" for d unfolding refuse_enrollment_def by (intro base)
  have leave: "ckeeps P (leave_other_device h)" unfolding leave_other_device_def by (intro base)
  show connect: "ckeeps P (begin_connection h target k kind)" for target k kind
    unfolding begin_connection_def by (intro base refuse leave)
  show "ckeeps P (reconnect_call h)" unfolding reconnect_call_def by (intro base connect)
  show "ckeeps P (disconnect_call h)" unfolding disconnect_call_def by (intro base)
  show "ckeeps P (forget_pairing_call h target)" unfolding forget_pairing_call_def by (intro base)
  have stages: "(\<And>x. x \<in> set xs \<Longrightarrow> ckeeps P (snd x)) \<Longrightarrow> ckeeps P (run_stages xs)"
    for xs :: "(string \<times> ('h, 'w, unit) scoro) list"
  proof (induction xs)
    case (Cons x xs)
    have "ckeeps P (snd x)" "ckeeps P (run_stages xs)" using Cons by auto
    then show ?case by (simp, intro base)
  qed simp
  have reset: "ckeeps P (run_stages (reset_stages h c a))" for c a
  proof (rule stages)
    fix x assume "x \<in> set (reset_stages h c a)"
    then consider "snd x = await_unit (QBondReset c)" | "snd x = close_service_client h"
      | "snd x = cthen (work (modify (\<lambda>s. s\<lparr>sv_verified_bond := None\<rparr>))) (await_unit (QForget c))"
      | "snd x = work (delete_saved h a)" unfolding reset_stages_def by auto
    then show "ckeeps P (snd x)" by cases (simp_all only:, (intro base)+)
  qed
  show "ckeeps P (perform_reset h selected)" unfolding perform_reset_def by (intro base reset)
  have submit: "ckeeps P (submit_ble p n a t)" for p n a t unfolding submit_ble_def by (intro base)
  have current: "ckeeps P (submit_current n t)" for n t unfolding submit_current_def by (intro base submit)
  have confirm: "ckeeps P (confirm_display h i b)" for i b unfolding confirm_display_def by (intro base current)
  have command: "ckeeps P (command_display h i b)" for i b
    unfolding command_display_def by (intro base submit confirm)
  show "ckeeps P (set_display_call h i b)" unfolding set_display_call_def by (intro base command)
  show "ckeeps P (wait_for_operation h j timeout)" unfolding wait_for_operation_def by (intro base)
  have sample: "ckeeps P (poll_sample h t)" for t unfolding poll_sample_def by (intro base current)
  show "ckeeps P (poll_turn h fuel m u d)" unfolding poll_turn_def by (intro base sample)
qed

lemma calls_keep: "c \<in> service_calls h \<Longrightarrow> ckeeps P c"
proof -
  have lost: "keeps P (on_transport_disconnected client)" for client
    by (rule keeps_at) (auto simp: on_transport_disconnected_def intro!: keeps_run [OF neutral_functions(9)])
  show "c \<in> service_calls h \<Longrightarrow> ckeeps P c"
    unfolding service_calls_def operation_task_def discard_def
    by (auto intro!: ckeeps_structure act_keeps flow_keeps lost)
qed

end

end
