(* ===== verification/Service_Example.thy ===== *)
theory Service_Example
  imports Service_Keeps
begin

section \<open>A concrete host\<close>

text \<open>
  A host of the controller on which the witnesses run: its codec of timestamps, its clock and its
  names, a service just created on an empty registry, and the same service with a target.
\<close>

text \<open>A counter is the clock and the source of the names.\<close>

definition unary_codec :: "utc iso_codec" where
  "unary_codec = \<lparr>iso_text = (\<lambda>t. (if t < 0 then CHR ''-'' else CHR ''+'') # replicate (nat \<bar>t\<bar>) CHR ''I''),
     iso_parse = (\<lambda>x. case x of [] \<Rightarrow> None
       | c # r \<Rightarrow> Some (if c = CHR ''-'' then - int (length r) else int (length r))),
     iso_aware = (\<lambda>_. True)\<rparr>"

lemma unary_codec_ok: "iso_ok unary_codec"
  by (auto simp: iso_ok_def unary_codec_def)

definition counter_host :: "(int, int) host" where
  "counter_host = \<lparr>ho_settings = CONFIG_service, ho_auto_discover = True, ho_has_handler = False,
     ho_has_last_boot = False, ho_codec = unary_codec, ho_utc_now = (\<lambda>w. (w, w + 1)),
     ho_monotonic = (\<lambda>w. (of_int w, w + 1)), ho_uuid = (\<lambda>w. (''op-'' @ show_int w, w + 1)),
     ho_make_client = (\<lambda>_ w. (w, w + 1)), ho_is_connected = (\<lambda>_ _. True), ho_device_name = (\<lambda>_ _. None),
     ho_configured = (\<lambda>_. False), ho_write_fault = (\<lambda>_. no_fault), ho_show_g = (\<lambda>_. [])\<rparr>"

definition empty_registry :: "utc registry" where
  "empty_registry = \<lparr>reg_records = [], reg_disk = \<lparr>disk_file = None, disk_temporary = None\<rparr>\<rparr>"

lemma open_empty: "open_registry (ho_codec counter_host) ''r.csv'' \<lparr>disk_file = None, disk_temporary = None\<rparr>
    = Inr empty_registry"
  by (simp add: open_registry_def read_all_def empty_registry_def)

definition counter_service :: "(int, int) svc" where
  "counter_service = (case new_service counter_host empty_registry 0 of Inr s \<Rightarrow> s | Inl _ \<Rightarrow> undefined)"

lemma counter_service_new: "new_service counter_host empty_registry 0 = Inr counter_service"
proof -
  have "new_service counter_host empty_registry 0 \<noteq> Inl e" for e
    by (simp add: new_service_def counter_host_def new_worker_def CONFIG_service_def)
  then show ?thesis unfolding counter_service_def by (cases "new_service counter_host empty_registry 0") auto
qed

definition kitchen :: discovered_thermometer where
  "kitchen = \<lparr>dt_name = ''Kitchen'', dt_address = ''AA:BB:CC:DD:EE:01'', dt_rssi = None\<rparr>"

definition two_sensors :: current_snapshot where
  "two_sensors = \<lparr>cur_boot_id = 7, cur_newest_sequence = 41, cur_sensors =
     [\<lparr>snap_sensor_id = 1, snap_temperature_c = Some (43 / 2), snap_visible_state = ON, snap_display_enabled = True\<rparr>,
      \<lparr>snap_sensor_id = 2, snap_temperature_c = None, snap_visible_state = DISCONNECTED_VS, snap_display_enabled = False\<rparr>],
     cur_average_c = None\<rparr>"

end
