(* ===== verification/Service_Props.thy ===== *)
theory Service_Props
  imports Service_Example
begin

section \<open>What the controller guarantees\<close>

text \<open>
  The invariant of the service over every interleaving of its coroutines, the conditions under
  which an attempt yields a link, and the behaviour of single calls among others.
\<close>

subsection \<open>The invariant\<close>

definition published_ok :: "('h, 'w) svc \<Rightarrow> bool" where
  "published_ok s \<longleftrightarrow> sorted (map st_revision (sv_publish_queue s @ [sv_state s]))
     \<and> (\<forall>st \<in> set (sv_publish_queue s). state_ok st) \<and> state_ok (sv_state s)"

definition operations_ok :: "('h, 'w) svc \<Rightarrow> bool" where
  "operations_ok s \<longleftrightarrow> (\<forall>i p. dict_get (sv_operations s) i = Some p \<longrightarrow>
     op_id p = i \<and> (\<exists>b. dict_get (sv_completed s) i = Some b \<and> (op_finished p \<longrightarrow> b)))"

definition service_inv :: "('h, 'w) host \<Rightarrow> ('h, 'w) svc \<Rightarrow> bool" where
  "service_inv h s \<longleftrightarrow> published_ok s \<and> operations_ok s \<and> worker_inv (sv_persistence s)
     \<and> registry_inv (ho_codec h) (sv_registry s)"

lemma service_inv_core: "core s' = core s \<Longrightarrow> service_inv h s' = service_inv h s"
  by (simp add: core_def service_inv_def published_ok_def operations_ok_def)

lemma service_inv_state:
  assumes "service_inv h s" "st_revision (sv_state s) \<le> st_revision st" "state_ok st"
  shows "service_inv h (s\<lparr>sv_state := st\<rparr>)"
  using assms by (auto simp: service_inv_def published_ok_def operations_ok_def sorted_append)

lemma transition_state_ok: "transition_state p t phase reason ch = Inr st \<Longrightarrow> state_ok st"
  by (auto simp: transition_state_def state_ok_def Let_def split: if_splits)

lemma transition_state_revision: "transition_state p t phase reason ch = Inr st \<Longrightarrow> st_revision st = st_revision p + 1"
  by (auto simp: transition_state_def replaced_state_def Let_def split: if_splits)

lemma host_call_effect: "host_call f s = (Inr (fst (f (sv_world s))), s\<lparr>sv_world := snd (f (sv_world s))\<rparr>)"
  by (simp add: host_call_def case_prod_beta)

lemma keeps_service_host: "keeps (service_inv h) (host_call f)"
proof (rule keeps_at)
  fix s :: "('a, 'b) svc" assume "service_inv h s"
  then show "service_inv h (snd (host_call f s))"
    by (subst service_inv_core [where s = s]) (simp_all add: host_call_effect core_def)
qed

lemma keeps_service_transition: "keeps (service_inv h) (transition h phase ch reason)"
proof -
  have "keeps (service_inv h) (\<lambda>s. case transition_state (sv_state s) t phase reason ch of
       Inl e \<Rightarrow> (Inl e, s) | Inr st \<Rightarrow> (Inr (), s\<lparr>sv_state := st\<rparr>))" for t
    by (rule keeps_at) (auto split: sum.split intro!: service_inv_state
        dest: transition_state_ok transition_state_revision)
  then show ?thesis unfolding transition_def by (intro keeps_abind keeps_service_host)
qed

lemma fold_dict_del: "dict_get (fold dict_del ks d) k = (if k \<in> set ks then None else dict_get d k)"
  by (induction ks arbitrary: d) auto

lemma service_inv_operations:
  assumes "service_inv h s" "operations_ok s'" "sv_state s' = sv_state s" "sv_publish_queue s' = sv_publish_queue s"
    "sv_persistence s' = sv_persistence s" "sv_registry s' = sv_registry s"
  shows "service_inv h s'"
  using assms by (simp add: service_inv_def published_ok_def)

lemma keeps_service_operations:
  assumes "\<And>s. operations_ok s \<Longrightarrow> operations_ok (f s)"
    "\<And>s. sv_state (f s) = sv_state s \<and> sv_publish_queue (f s) = sv_publish_queue s
       \<and> sv_persistence (f s) = sv_persistence s \<and> sv_registry (f s) = sv_registry s"
  shows "keeps (service_inv h) (modify f)"
proof (rule keeps_modify)
  fix s :: "('a, 'b) svc" assume inv: "service_inv h s"
  show "service_inv h (f s)"
    by (rule service_inv_operations [OF inv]) (use inv assms in \<open>auto simp: service_inv_def\<close>)
qed

lemma update_operation_other [simp]:
  "sv_state (update_operation i f s) = sv_state s" "sv_publish_queue (update_operation i f s) = sv_publish_queue s"
  "sv_persistence (update_operation i f s) = sv_persistence s" "sv_registry (update_operation i f s) = sv_registry s"
  "sv_completed (update_operation i f s) = sv_completed s"
  by (simp_all add: update_operation_def split: option.split)

lemma set_completed_other [simp]:
  "sv_state (set_completed i s) = sv_state s" "sv_publish_queue (set_completed i s) = sv_publish_queue s"
  "sv_persistence (set_completed i s) = sv_persistence s" "sv_registry (set_completed i s) = sv_registry s"
  "sv_operations (set_completed i s) = sv_operations s"
  by (simp_all add: set_completed_def split: option.split)

lemma operations_ok_update:
  assumes "operations_ok s" "\<And>p. op_id (f p) = op_id p" "\<And>p. op_finished (f p) \<Longrightarrow> op_finished p"
  shows "operations_ok (update_operation i f s)"
  using assms by (fastforce simp: operations_ok_def update_operation_def split: option.splits if_splits)

lemma operations_ok_finish:
  assumes "operations_ok s" "\<And>p. op_id (f p) = op_id p"
  shows "operations_ok (set_completed i (update_operation i f s))"
  using assms by (fastforce simp: operations_ok_def update_operation_def set_completed_def split: option.splits if_splits)

lemma keeps_service_prune: "keeps (service_inv h) (prune_operations h)"
proof -
  have "keeps (service_inv h) (modify (\<lambda>s. let cutoff = c; expired = f cutoff (sv_operations s)
     in s\<lparr>sv_operations := fold dict_del expired (sv_operations s),
          sv_completed := fold dict_del expired (sv_completed s)\<rparr>))" for c :: utc and f
    unfolding Let_def by (rule keeps_service_operations) (auto simp: operations_ok_def fold_dict_del split: if_splits)
  then show ?thesis unfolding prune_operations_def by (intro keeps_abind keeps_service_host)
qed

lemma keeps_service_new: "keeps (service_inv h) (new_operation h kind)"
proof -
  have "keeps (service_inv h) (\<lambda>s. (Inr i, s\<lparr>sv_operations := dict_set i \<lparr>op_id = i, op_kind = kind, op_state = QUEUED,
      op_created_at = t, op_updated_at = t, op_progress = 0, op_persistence_configured = ho_configured h (sv_world s),
      op_persistence_succeeded = None, op_result = None, op_error = None\<rparr> (sv_operations s),
      sv_completed := dict_set i False (sv_completed s)\<rparr>))" for i t
    by (rule keeps_at, rule service_inv_operations, assumption)
      (auto simp: operations_ok_def op_finished_def service_inv_def)
  then show ?thesis unfolding new_operation_def
    by (intro keeps_abind keeps_service_prune keeps_service_host)
qed

lemma keeps_service_publish: "keeps (service_inv h) publish_connection_state"
proof -
  have "published_ok (s\<lparr>sv_publish_queue := sv_publish_queue s @ [sv_state s]\<rparr>)" if "published_ok s" for s :: "('a, 'b) svc"
    using that by (auto simp: published_ok_def sorted_append)
  then show ?thesis unfolding publish_connection_state_def
    by (intro keeps_modify) (simp add: service_inv_def operations_ok_def)
qed

lemma keeps_service_pop: "keeps (service_inv h) pop_state"
proof (rule keeps_at)
  fix s :: "('a, 'b) svc" assume inv: "service_inv h s"
  show "service_inv h (snd (pop_state s))"
  proof (cases "sv_publish_queue s")
    case (Cons st rest)
    then have "published_ok (s\<lparr>sv_publish_queue := rest\<rparr>)" using inv by (simp add: service_inv_def published_ok_def)
    then show ?thesis using inv Cons by (simp add: pop_state_def service_inv_def operations_ok_def)
  qed (simp add: pop_state_def inv)
qed

lemma service_inv_worker: "service_inv h s \<Longrightarrow> worker_inv w \<Longrightarrow> service_inv h (s\<lparr>sv_persistence := w\<rparr>)"
  by (simp add: service_inv_def published_ok_def operations_ok_def)

lemma service_inv_queue: "service_inv h s \<Longrightarrow> worker_inv (sv_persistence s)"
  by (simp add: service_inv_def)

lemma service_inv_registry:
  "service_inv h s \<Longrightarrow> registry_inv (ho_codec h) g \<Longrightarrow> service_inv h (s\<lparr>sv_registry := g\<rparr>)"
  by (simp add: service_inv_def published_ok_def operations_ok_def)

interpretation service: service_assertion h "\<lambda>s. iso_ok (ho_codec h) \<and> service_inv h s" for h :: "('h, 'w) host"
proof
  fix s s' :: "('h, 'w) svc" and phase changes reason kind i result e cause x call ev selected t address
  let ?P = "\<lambda>s. iso_ok (ho_codec h) \<and> service_inv h s"
  have lift: "keeps ?P m" if "iso_ok (ho_codec h) \<Longrightarrow> keeps (service_inv h) m" for m :: "('h, 'w, 'z) sact"
    using that by (auto simp: keeps_def)
  show "core s' = core s \<Longrightarrow> ?P s \<Longrightarrow> ?P s'" using service_inv_core [of s' s h] by blast
  show "keeps ?P (transition h phase changes reason)" by (rule lift) (rule keeps_service_transition)
  show "keeps ?P publish_connection_state" by (rule lift) (rule keeps_service_publish)
  show "keeps ?P pop_state" by (rule lift) (rule keeps_service_pop)
  show "keeps ?P (new_operation h kind)" by (rule lift) (rule keeps_service_new)
  show "keeps ?P (prune_operations h)" by (rule lift) (rule keeps_service_prune)
  have upd: "keeps (service_inv h) (modify (update_operation i f))"
    if "\<And>p. op_id (f p) = op_id p" "\<And>p. op_finished (f p) \<Longrightarrow> op_finished p" for i f
    using that by (intro keeps_service_operations operations_ok_update) auto
  have fin: "keeps (service_inv h) (modify (\<lambda>s. set_completed i (update_operation i f s)))"
    if "\<And>p. op_id (f p) = op_id p" for i f
    using that by (intro keeps_service_operations operations_ok_finish) auto
  show "keeps ?P (run_operation h i)"
    unfolding run_operation_def
    by (rule lift) (intro keeps_abind keeps_service_host upd; simp add: op_finished_def)
  show "keeps ?P (succeed_operation h i result)" "keeps ?P (fail_operation h i e)"
    unfolding succeed_operation_def fail_operation_def
    by (rule lift, intro keeps_abind keeps_service_host fin; simp)+
  have c: "keeps (service_inv h) (abind (utc_now h) (\<lambda>t. modify (\<lambda>s. set_completed i (update_operation i
      (\<lambda>p. p\<lparr>op_state := CANCELLED_OP, op_error := Some (''CancelledError'', cause), op_updated_at := t\<rparr>) s))))"
    by (intro keeps_abind keeps_service_host fin; simp)
  show "keeps ?P (cancel_operation h i cause)"
    by (rule lift, rule keeps_at) (auto simp: cancel_operation_def split: option.split intro!: keepsD [OF c])
  show "?P s \<Longrightarrow> ?P (update_operation i (\<lambda>p. p\<lparr>op_persistence_succeeded := x\<rparr>) s)"
    using upd [of "\<lambda>p. p\<lparr>op_persistence_succeeded := x\<rparr>" i] by (simp add: keeps_def modify_def op_finished_def)
  show "keeps ?P (enqueue h call)"
  proof (rule keeps_at)
    fix s assume P: "?P s"
    then have "worker_inv (snd (worker_enqueue (ho_configured h (sv_world s)) call (sv_persistence s)))"
      by (simp add: worker_inv_enqueue service_inv_def)
    then show "?P (snd (enqueue h call s))"
      using P by (simp add: enqueue_def case_prod_beta service_inv_worker)
  qed
  show "?P s \<Longrightarrow> ?P (s\<lparr>sv_persistence := worker_exec ev (sv_persistence s)\<rparr>)"
    using service_inv_worker [of h s, OF _ worker_inv_exec [OF service_inv_queue]] by blast
  show "keeps ?P (save_credential h selected t)"
  proof (rule keeps_at)
    fix s assume P: "?P s"
    then have g: "registry_inv (ho_codec h) (snd (save_verified (ho_codec h) f a n k t (sv_registry s)))" for f a n k t
      using registry_inv_save by (auto simp: service_inv_def)
    show "?P (snd (save_credential h selected t s))"
      using P service_inv_registry [OF conjunct2 [OF P] g]
      by (auto simp: save_credential_def case_prod_beta split: option.split sum.split)
  qed
  show "keeps ?P (delete_saved h address)"
  proof (rule keeps_at)
    fix s assume P: "?P s"
    then have g: "registry_inv (ho_codec h) (snd (delete_credential (ho_codec h) f a (sv_registry s)))" for f a
      using registry_inv_delete by (auto simp: service_inv_def)
    show "?P (snd (delete_saved h address s))"
      using P service_inv_registry [OF conjunct2 [OF P] g] by (auto simp: delete_saved_def case_prod_beta split: sum.split)
  qed
qed

text \<open>
  What happens outside the event loop: clocks, links and files move, and the persistence worker
  takes and settles its requests.
\<close>

definition outside_step :: "('h, 'w) svc \<Rightarrow> ('h, 'w) svc \<Rightarrow> bool" where
  "outside_step s s' \<longleftrightarrow> (\<exists>w. s' = s\<lparr>sv_world := w\<rparr>)
     \<or> (\<exists>ev. s' = s\<lparr>sv_persistence := worker_exec ev (sv_persistence s)\<rparr>)"

definition no_tasks :: "nat \<Rightarrow> ('h, 'w, unit) scoro" where
  "no_tasks t = Finished (Inr ())"

lemma service_inv_new:
  assumes "open_registry (ho_codec h) path disk = Inr g" "new_service h g w0 = Inr s0"
  shows "service_inv h s0"
proof -
  obtain t w where t: "ho_utc_now h w0 = (t, w)" by fastforce
  obtain q :: "db_call persist_worker" where q: "new_worker (persistence_queue_capacity (ho_settings h)) = Inr q"
    using assms(2) by (auto simp: new_service_def t rbind_Inr_iff)
  show ?thesis using assms(2) worker_inv_new [OF q] registry_inv_open [OF assms(1)]
    by (auto simp: new_service_def t q service_inv_def published_ok_def operations_ok_def initial_state_def state_ok_def)
qed

text \<open>
  C21: whatever calls, tasks and turns of the loops run, however they interleave at their
  suspension points and whatever the radio, the database and the clocks answer, cancellations
  included, the service stays consistent: every state it holds or queued for publication is one of
  the consistent ones and the queue is in the order of the revisions; every tracked operation is
  filed under its own identifier with a completion event, and a finished operation has the event
  set, so no caller waits for it in vain; the persistence worker forgets no waiting caller; and the
  credential registry agrees with its file.
\<close>

theorem service_always_consistent:
  assumes "iso_ok (ho_codec h)" and "open_registry (ho_codec h) path disk = Inr g"
    and "new_service h g w0 = Inr s0"
    and "loop_reaches (service_calls h) answers outside_step (s0, no_tasks) (s, p)"
  shows "state_ok (sv_state s) \<and> (\<forall>st \<in> set (sv_publish_queue s). state_ok st)
    \<and> sorted (map st_revision (sv_publish_queue s @ [sv_state s]))
    \<and> (\<forall>i q. dict_get (sv_operations s) i = Some q \<longrightarrow>
         op_id q = i \<and> (\<exists>b. dict_get (sv_completed s) i = Some b \<and> (op_finished q \<longrightarrow> b)))
    \<and> worker_inv (sv_persistence s) \<and> registry_inv (ho_codec h) (sv_registry s)"
proof -
  let ?P = "\<lambda>s. iso_ok (ho_codec h) \<and> service_inv h s"
  have out: "?P y" if "outside_step x y" "?P x" for x y :: "('a, 'b) svc"
    using that(1) unfolding outside_step_def
  proof (elim disjE exE)
    fix w assume "y = x\<lparr>sv_world := w\<rparr>"
    then show "?P y" using that(2) service_inv_core [of y x h] by (simp add: core_def)
  next
    fix ev assume "y = x\<lparr>sv_persistence := worker_exec ev (sv_persistence x)\<rparr>"
    then show "?P y" using service.worker_step [OF that(2)] by simp
  qed
  have init: "?P (fst (s0, no_tasks :: nat \<Rightarrow> ('a, 'b, unit) scoro))"
    using assms(1) service_inv_new [OF assms(2,3)] by simp
  have idle: "ckeeps ?P (snd (s0, no_tasks :: nat \<Rightarrow> ('a, 'b, unit) scoro) t)" for t
    by (simp add: no_tasks_def)
  have "?P (fst (s, p)) \<and> (\<forall>t. ckeeps ?P (snd (s, p) t))"
    by (rule loop_invariant [OF assms(4)]) (rule service.calls_keep out init idle; assumption)+
  then show ?thesis by (simp add: service_inv_def published_ok_def operations_ok_def)
qed

definition started_counter :: "(int, int, unit) scoro \<times> (int, int) svc" where
  "started_counter = advance (start_service counter_host) counter_service"

lemma counter_started:
  "loop_reaches (service_calls counter_host) (\<lambda>_ _ _. True) outside_step (counter_service, no_tasks)
     (snd started_counter, no_tasks(0 := fst started_counter))"
proof (rule There [OF Here], rule Start)
  show "start_service counter_host \<in> service_calls counter_host" by (simp add: service_calls_def)
  show "(no_tasks :: nat \<Rightarrow> (int, int, unit) scoro) 0 = Finished (Inr ())" by (simp add: no_tasks_def)
  show "advance (start_service counter_host) counter_service = (fst started_counter, snd started_counter)"
    by (simp add: started_counter_def)
qed

theorem service_always_consistent_witness:
  "state_ok (sv_state (snd started_counter)) \<and> sv_started (snd started_counter)
    \<and> st_phase (sv_state (snd started_counter)) = DISCOVERING"
proof -
  have "sv_started (snd started_counter) \<and> st_phase (sv_state (snd started_counter)) = DISCOVERING"
    by code_simp
  then show ?thesis
    using service_always_consistent [OF _ open_empty counter_service_new counter_started] unary_codec_ok
    by (simp add: counter_host_def)
qed

end
