(* ===== verification/Service_Attempts.thy ===== *)
theory Service_Attempts
  imports Service_Example
begin

section \<open>Attempts to connect\<close>

text \<open>
  When an attempt of the connection manager yields a link, and when it makes none: rules for the
  successful outcomes of a coroutine under the rely of the lifecycle lock, and the theorems of
  \<open>_open_connection\<close>, \<open>_connection_manager\<close> and \<open>disconnect\<close>.
\<close>

subsection \<open>Rules for successful outcomes\<close>

definition on_success :: "('a \<Rightarrow> 's \<Rightarrow> bool) \<Rightarrow> 'a res \<Rightarrow> 's \<Rightarrow> bool" where
  "on_success Q r s \<longleftrightarrow> (case r of Inl e \<Rightarrow> True | Inr v \<Rightarrow> Q v s)"

lemma on_success_simps [simp]: "on_success Q (Inl e) s" "on_success Q (Inr v) s = Q v s"
  by (simp_all add: on_success_def)

lemma cwp_success_bind:
  "cwp R F c (on_success (\<lambda>v. cwp R F (f v) (on_success Q))) s \<Longrightarrow> cwp R F (cbind c f) (on_success Q) s"
  unfolding cwp_cbind by (erule cwp_mono) (auto split: sum.splits simp: on_success_def)

lemma cwp_success_then:
  "cwp R F c (on_success (\<lambda>_. cwp R F d (on_success Q))) s \<Longrightarrow> cwp R F (cthen c d) (on_success Q) s"
  unfolding cthen_def by (rule cwp_success_bind)

lemma ckeeps_True: "ckeeps (\<lambda>_. True) c"
proof (induction c)
  case (Work g)
  have "ckeeps (\<lambda>_. True) (fst (g s))" for s
    by (rule Work.IH [OF rangeI, of _ s]) (cases "g s", simp)
  then show ?case by (simp add: ckeeps_Work del: ckeeps.simps)
qed simp_all

lemma cwp_true: "cwp R F c (\<lambda>r s. True) s"
  using cwp_keeps [of "\<lambda>_. True" c s R F] ckeeps_True [of c] by simp

lemma cwp_success_mono: "cwp R F c (on_success Q) s \<Longrightarrow> (\<And>v t. Q v t \<Longrightarrow> Q' v t) \<Longrightarrow> cwp R F c (on_success Q') s"
  by (erule cwp_mono) (auto simp: on_success_def split: sum.splits)

lemma cwp_success_any: "(\<And>v t. Q v t) \<Longrightarrow> cwp R F c (on_success Q) s"
  by (rule cwp_mono [OF cwp_true]) (simp add: on_success_def split: sum.split)

text \<open>A coroutine that never returns a value, and a handler that only raises.\<close>

definition only_raises :: "('q, 'r, 's, 'a) coro \<Rightarrow> bool" where
  "only_raises c \<longleftrightarrow> (\<forall>R F s. cwp R F c (\<lambda>r s. isl r) s)"

lemma only_raises_craise [simp]: "only_raises (craise e)"
  by (simp add: only_raises_def)

lemma only_raises_cthen: "only_raises d \<Longrightarrow> only_raises (cthen c d)"
  unfolding only_raises_def cwp_cthen
  by (intro allI, rule cwp_mono [OF cwp_true]) (simp split: sum.split)

lemma cwp_success_catch:
  assumes "cwp R F c (on_success Q) s" "\<And>e. only_raises (f e)"
  shows "cwp R F (ccatch c p f) (on_success Q) s"
  unfolding cwp_ccatch
  by (rule cwp_mono [OF assms(1)])
    (auto simp: on_success_def split: sum.splits intro!: cwp_mono [OF assms(2) [unfolded only_raises_def, rule_format]])

lemma cwp_success_work: "keeps J m \<Longrightarrow> J s \<Longrightarrow> (\<And>v t. J t \<Longrightarrow> Q v t) \<Longrightarrow> cwp R F (work m) (on_success Q) s"
  by (auto simp: keeps_def on_success_def split: prod.splits sum.splits dest: spec [of _ s])

lemma cwp_success_keeps:
  "ckeeps J c \<Longrightarrow> J s \<Longrightarrow> (\<And>s s'. R s s' \<Longrightarrow> J s \<Longrightarrow> J s') \<Longrightarrow> (\<And>v t. J t \<Longrightarrow> Q v t)
    \<Longrightarrow> cwp R F c (on_success Q) s"
  by (rule cwp_mono [OF cwp_keeps [where P = J]]) (auto simp: on_success_def split: sum.splits)

subsection \<open>A verified link\<close>

text \<open>
  What the holder of the lifecycle lock relies on: nobody else releases it or changes the client.
\<close>

definition lock_rely :: "('h, 'w) svc \<Rightarrow> ('h, 'w) svc \<Rightarrow> bool" where
  "lock_rely s s' \<longleftrightarrow> (sv_lock s \<longrightarrow> sv_lock s' \<and> sv_client s' = sv_client s)"

definition holds_lock :: "('h, 'w) svc \<Rightarrow> bool" where
  "holds_lock s \<longleftrightarrow> sv_lock s"

definition holds_client :: "'h \<Rightarrow> ('h, 'w) svc \<Rightarrow> bool" where
  "holds_client c s \<longleftrightarrow> sv_lock s \<and> sv_client s = Some c"

lemma rely_holds: "lock_rely s s' \<Longrightarrow> holds_lock s \<Longrightarrow> holds_lock s'"
  "lock_rely s s' \<Longrightarrow> holds_client c s \<Longrightarrow> holds_client c s'"
  by (auto simp: lock_rely_def holds_lock_def holds_client_def)

text \<open>Actions that touch neither the lock nor the client.\<close>

definition link_neutral :: "('h, 'w, 'a) sact \<Rightarrow> bool" where
  "link_neutral m \<longleftrightarrow> (\<forall>s. sv_lock (snd (m s)) = sv_lock s \<and> sv_client (snd (m s)) = sv_client s)"

lemma neutral_holds: "link_neutral m \<Longrightarrow> keeps holds_lock m" "link_neutral m \<Longrightarrow> keeps (holds_client c) m"
  by (auto simp: link_neutral_def keeps_def holds_lock_def holds_client_def)

lemma link_neutral_modify: "(\<And>s. sv_lock (f s) = sv_lock s \<and> sv_client (f s) = sv_client s) \<Longrightarrow> link_neutral (modify f)"
  by (simp add: link_neutral_def modify_def)

lemma link_neutral_abind: "link_neutral m \<Longrightarrow> (\<And>v. link_neutral (f v)) \<Longrightarrow> link_neutral (abind m f)"
  by (auto simp: link_neutral_def abind_def split: prod.splits sum.splits) (metis snd_conv)+

lemma link_neutral_host: "link_neutral (host_call f)"
  by (simp add: link_neutral_def host_call_def split: prod.split)

lemma link_neutral_transition: "link_neutral (transition h phase ch reason)"
proof -
  have "link_neutral (\<lambda>s. case transition_state (sv_state s) t phase reason ch of
       Inl e \<Rightarrow> (Inl e, s) | Inr st \<Rightarrow> (Inr (), s\<lparr>sv_state := st\<rparr>))" for t
    by (simp add: link_neutral_def split: sum.split)
  then show ?thesis unfolding transition_def by (intro link_neutral_abind link_neutral_host)
qed

lemma link_neutral_publish: "link_neutral publish_connection_state"
  unfolding publish_connection_state_def by (rule link_neutral_modify) simp

lemma link_neutral_basic: "link_neutral (areturn v)" "link_neutral (araise e)"
  by (simp_all add: link_neutral_def)

lemma link_neutral_timeout: "link_neutral (step_timeout h deadline m)"
  unfolding step_timeout_def
  by (cases deadline) (auto simp: Let_def intro!: link_neutral_abind link_neutral_host link_neutral_basic)

lemmas neutral_rules = link_neutral_transition link_neutral_publish link_neutral_timeout link_neutral_host link_neutral_abind link_neutral_basic

text \<open>A step of the attempt ends normally only with the answer of its query.\<close>

lemma step_answered:
  assumes "\<And>x t. F q (Inr x) \<Longrightarrow> lock_rely s t \<Longrightarrow> Q () t"
  shows "cwp lock_rely F (run_connection_step h name timeout (await_unit q)) (on_success Q) s"
  unfolding run_connection_step_def await_unit_def cwp_ccatch cwp_cbind
  using assms by (auto simp: on_success_def split: sum.splits)

lemma snapshot_answered:
  assumes "\<And>v t. F q (Inr (RSnapshot v)) \<Longrightarrow> lock_rely s t \<Longrightarrow> Q v t"
  shows "cwp lock_rely F (run_connection_step h name timeout (await_snapshot q)) (on_success Q) s"
  unfolding run_connection_step_def await_snapshot_def cwp_ccatch cwp_cbind
  using assms by (auto simp: on_success_def split: sum.splits reply.splits)

definition answered :: "('h query \<Rightarrow> reply res \<Rightarrow> bool) \<Rightarrow> (rat \<Rightarrow> 'h query) \<Rightarrow> bool" where
  "answered F q \<longleftrightarrow> (\<exists>t x. F (q t) (Inr x))"

lemma holds_client_lock: "holds_client c s \<Longrightarrow> holds_lock s"
  by (simp add: holds_client_def holds_lock_def)

lemma ckeeps_close: "ckeeps P (close_client_instance h c)"
  unfolding close_client_instance_def by (intro ckeeps_structure)

lemma ensure_bond_holds:
  assumes "holds_lock s"
  shows "cwp lock_rely F (ensure_bond h c a g k d) (on_success (\<lambda>_. holds_lock)) s"
proof (rule cwp_success_keeps [where J = holds_lock, OF _ assms rely_holds(1)])
  have bond: "link_neutral (modify (\<lambda>s. s\<lparr>sv_verified_bond := x\<rparr>))" for x
    by (rule link_neutral_modify) simp
  show "ckeeps holds_lock (ensure_bond h c a g k d)"
    unfolding ensure_bond_def run_connection_step_def
    by (intro ckeeps_structure ckeeps_close neutral_holds neutral_rules bond)
qed

lemma open_transport_success:
  assumes "holds_lock s"
  shows "cwp lock_rely F (open_transport h c g k d) (on_success (\<lambda>go t. holds_lock t \<and>
    (go \<longrightarrow> holds_client c t \<and> answered F (QConnect c k)))) s"
proof -
  have install: "cwp lock_rely F (cthen (work (modify (\<lambda>s. s\<lparr>sv_client := Some c\<rparr>)))
      (cthen (work (transition h p ch m)) (cthen (work publish_connection_state) (creturn True))))
      (on_success (\<lambda>go t. holds_lock t \<and> (go \<longrightarrow> holds_client c t \<and> answered F (QConnect c k)))) t"
    if "holds_lock t" "answered F (QConnect c k)" for t p ch m
  proof (rule cwp_success_then)
    have "cwp lock_rely F (cthen (work (transition h p ch m)) (cthen (work publish_connection_state) (creturn True)))
        (on_success (\<lambda>go t. holds_lock t \<and> (go \<longrightarrow> holds_client c t \<and> answered F (QConnect c k)))) u"
      if "holds_client c u" for u
      by (rule cwp_success_keeps [where J = "holds_client c", OF _ that rely_holds(2)])
        (intro ckeeps_structure neutral_holds neutral_rules, simp_all add: holds_client_lock \<open>answered F _\<close>)
    moreover have "holds_client c (t\<lparr>sv_client := Some c\<rparr>)"
      using that by (simp add: holds_client_def holds_lock_def)
    ultimately show "cwp lock_rely F (work (modify (\<lambda>s. s\<lparr>sv_client := Some c\<rparr>))) (on_success (\<lambda>_. cwp lock_rely F
        (cthen (work (transition h p ch m)) (cthen (work publish_connection_state) (creturn True)))
        (on_success (\<lambda>go t. holds_lock t \<and> (go \<longrightarrow> holds_client c t \<and> answered F (QConnect c k)))))) t"
      by (simp add: modify_def)
  qed
  have stale_end: "cwp lock_rely F (cthen (close_client_instance h c) (creturn False))
      (on_success (\<lambda>go t. holds_lock t \<and> (go \<longrightarrow> holds_client c t \<and> answered F (QConnect c k)))) t"
    if "holds_lock t" for t
    by (rule cwp_success_then, rule cwp_success_keeps [where J = holds_lock, OF ckeeps_close that rely_holds(1)]) simp_all
  have ans: "answered F (QConnect c k)" if "F (QConnect c k t) (Inr x)" for t x
    using that unfolding answered_def by blast
  show ?thesis unfolding open_transport_def
    by (intro cwp_success_then cwp_success_bind cwp_success_work [where J = holds_lock, OF _ assms]
        cwp_success_work [where J = holds_lock] neutral_holds neutral_rules step_answered)
      (auto simp only: cwp_cread split: if_splits dest: rely_holds(1) intro!: stale_end install ans)
qed

lemma authenticate_success:
  assumes "holds_client c s"
  shows "cwp lock_rely F (authenticate_client h c g k d) (on_success (\<lambda>go t.
    go \<longrightarrow> holds_client c t \<and> answered F (QAuthenticate c k))) s"
proof -
  have stale_end: "cwp lock_rely F (cthen (close_client_instance h c) (cthen (work (modify (clear_client c))) (creturn False)))
      (on_success (\<lambda>go t. go \<longrightarrow> holds_client c t \<and> answered F (QAuthenticate c k))) t" for t
    by (rule cwp_success_then, rule cwp_success_keeps [where J = "\<lambda>_. True", OF ckeeps_True], simp, simp)
      (simp add: cwp_cthen modify_def)
  have ans: "answered F (QAuthenticate c k)" if "F (QAuthenticate c k t) (Inr x)" for t x
    using that unfolding answered_def by blast
  show ?thesis unfolding authenticate_client_def
    by (intro cwp_success_then cwp_success_bind cwp_success_work [where J = "holds_client c", OF _ assms]
        neutral_holds neutral_rules step_answered)
      (auto simp only: cwp_cread cwp_creturn on_success_simps split: if_splits dest: rely_holds(2) intro!: stale_end ans)
qed

lemma first_snapshot_success:
  assumes "holds_client c s"
  shows "cwp lock_rely F (first_snapshot h c d) (on_success (\<lambda>v t.
    holds_client c t \<and> (\<exists>x. F (QInitialCurrent c x) (Inr (RSnapshot v))))) s"
  unfolding first_snapshot_def
  by (intro cwp_success_bind cwp_success_work [where J = "holds_client c", OF _ assms] neutral_holds neutral_rules
      snapshot_answered) (auto dest: rely_holds(2))

text \<open>What an attempt with the client \<open>c\<close> has seen when it yields the snapshot \<open>v\<close>.\<close>

definition link_verified ::
    "('h query \<Rightarrow> reply res \<Rightarrow> bool) \<Rightarrow> string option \<Rightarrow> 'h \<Rightarrow> current_snapshot \<Rightarrow> bool" where
  "link_verified F k c v \<longleftrightarrow> answered F (QConnect c k) \<and> answered F (QAuthenticate c k)
     \<and> (\<exists>t. F (QInitialCurrent c t) (Inr (RSnapshot v)))"

lemma attempt_success:
  assumes "holds_lock s"
  shows "cwp lock_rely F (attempt_steps h c a g k d) (on_success (\<lambda>r t.
    case r of None \<Rightarrow> True | Some v \<Rightarrow> holds_client c t \<and> link_verified F k c v)) s"
proof -
  let ?Q = "on_success (\<lambda>r t. case r of None \<Rightarrow> True | Some v \<Rightarrow> holds_client c t \<and> link_verified F k c v)"
  have snap: "cwp lock_rely F (cbind (first_snapshot h c d) (\<lambda>v. creturn (Some v))) ?Q t"
    if "holds_client c t" "answered F (QConnect c k)" "answered F (QAuthenticate c k)" for t
    by (rule cwp_success_bind, rule cwp_success_mono [OF first_snapshot_success [OF that(1)]])
      (use that(2,3) in \<open>simp add: link_verified_def\<close>)
  have auth: "cwp lock_rely F (cbind (authenticate_client h c g k d) (\<lambda>go. if \<not> go then creturn None
      else cbind (first_snapshot h c d) (\<lambda>v. creturn (Some v)))) ?Q t"
    if "holds_client c t" "answered F (QConnect c k)" for t
    by (rule cwp_success_bind, rule cwp_success_mono [OF authenticate_success [OF that(1)]])
      (use that(2) snap in simp)
  have open': "cwp lock_rely F (cbind (open_transport h c g k d) (\<lambda>go. if \<not> go then creturn None
      else cbind (authenticate_client h c g k d) (\<lambda>go. if \<not> go then creturn None
      else cbind (first_snapshot h c d) (\<lambda>v. creturn (Some v))))) ?Q t" if "holds_lock t" for t
    by (rule cwp_success_bind, rule cwp_success_mono [OF open_transport_success [OF that]]) (use auth in simp)
  show ?thesis unfolding attempt_steps_def
    by (rule cwp_success_bind, rule cwp_success_mono [OF ensure_bond_holds [OF assms]]) (use open' in simp)
qed

lemma cwp_success_finally:
  assumes "cwp R F c (on_success (\<lambda>v. cwp R F d (on_success (\<lambda>_. Q v)))) s"
  shows "cwp R F (cfinally c d) (on_success Q) s"
  unfolding cwp_cfinally
  by (rule cwp_mono [OF assms])
    (auto simp: on_success_def split: sum.splits intro: cwp_mono [OF cwp_true] elim!: cwp_mono)

text \<open>What an attempt promises of its result, which the release of the lock does not change.\<close>

definition attempt_result ::
    "('h query \<Rightarrow> reply res \<Rightarrow> bool) \<Rightarrow> int \<Rightarrow> string option \<Rightarrow> current_snapshot option \<Rightarrow> ('h, 'w) svc \<Rightarrow> bool" where
  "attempt_result F generation k r s \<longleftrightarrow> (case r of None \<Rightarrow> True | Some v \<Rightarrow>
     \<not> stale generation s \<and> (\<exists>c. sv_client s = Some c \<and> link_verified F k c v))"

lemma attempt_result_None [simp]: "attempt_result F generation k None s"
  by (simp add: attempt_result_def)

lemma release_result:
  "cwp R F (work (modify (\<lambda>s. s\<lparr>sv_lock := False\<rparr>))) (on_success (\<lambda>_. attempt_result F g k r)) s
     = attempt_result F g k r s"
  by (simp add: modify_def attempt_result_def stale_def cong: option.case_cong)

text \<open>The last check of the attempt, and the attempt with its cleanup.\<close>

lemma last_check_success:
  assumes "case r of None \<Rightarrow> True | Some v \<Rightarrow> holds_client c t \<and> link_verified F k c v"
  shows "cwp lock_rely F (case r of None \<Rightarrow> creturn None
     | Some v \<Rightarrow> cread (\<lambda>s. if stale g s
         then cthen (close_client_instance h c) (creturn None) else creturn (Some v))) (on_success (attempt_result F g k)) t"
proof (cases r)
  case (Some v)
  have "cwp lock_rely F (cthen (close_client_instance h c) (creturn None)) (on_success (attempt_result F g k)) t"
    by (rule cwp_success_then, rule cwp_success_any) simp
  then show ?thesis using assms Some by (auto simp: attempt_result_def holds_client_def)
qed simp

lemma guarded_attempt_success:
  assumes "holds_lock u"
  shows "cwp lock_rely F (cbind (ccatch (attempt_steps h c a g k d) (\<lambda>_. True)
       (\<lambda>e. cthen (close_client_instance h c) (cthen (work (modify (clear_client c))) (craise e)))) (\<lambda>r.
     case r of None \<Rightarrow> creturn None
     | Some v \<Rightarrow> cread (\<lambda>s. if stale g s
         then cthen (close_client_instance h c) (creturn None) else creturn (Some v)))) (on_success (attempt_result F g k)) u"
  by (rule cwp_success_bind, rule cwp_success_catch, rule cwp_success_mono [OF attempt_success [OF assms]],
      erule last_check_success) (simp add: only_raises_cthen)

lemma locked_attempt_success:
  assumes "holds_lock t"
  shows "cwp lock_rely F (cbind (work (host_call (ho_make_client h selected))) (\<lambda>client. cread (\<lambda>s.
     cbind (work (if sv_from_registry s
         then abind (monotonic h) (\<lambda>now. areturn (Some (now + recovery_deadline_seconds (ho_settings h))))
         else areturn None)) (\<lambda>deadline.
     cbind (ccatch (attempt_steps h client a g k deadline) (\<lambda>_. True)
       (\<lambda>e. cthen (close_client_instance h client)
          (cthen (work (modify (clear_client client))) (craise e)))) (\<lambda>snapshot.
     case snapshot of
       None \<Rightarrow> creturn None
     | Some v \<Rightarrow> cread (\<lambda>s. if stale g s
         then cthen (close_client_instance h client) (creturn None) else creturn (Some v)))))))
     (on_success (attempt_result F g k)) t"
proof (intro cwp_success_bind cwp_success_work [where J = holds_lock, OF _ assms] neutral_holds neutral_rules)
  fix c and u :: "('a, 'b) svc" assume "holds_lock u"
  have "keeps holds_lock (if b then abind (monotonic h) (\<lambda>now. areturn (Some (now + x))) else areturn None)" for b x
    by (simp, intro conjI impI neutral_holds neutral_rules)
  note step = cwp_success_work [where J = holds_lock, OF this \<open>holds_lock u\<close> guarded_attempt_success]
  show "cwp lock_rely F (cread (\<lambda>s.
     cbind (work (if sv_from_registry s
         then abind (monotonic h) (\<lambda>now. areturn (Some (now + recovery_deadline_seconds (ho_settings h))))
         else areturn None)) (\<lambda>deadline.
     cbind (ccatch (attempt_steps h c a g k deadline) (\<lambda>_. True)
       (\<lambda>e. cthen (close_client_instance h c)
          (cthen (work (modify (clear_client c))) (craise e)))) (\<lambda>snapshot.
     case snapshot of
       None \<Rightarrow> creturn None
     | Some v \<Rightarrow> cread (\<lambda>s. if stale g s
         then cthen (close_client_instance h c) (creturn None) else creturn (Some v)))))) (on_success (attempt_result F g k)) u"
    unfolding cwp_cread by (rule cwp_success_bind, rule step)
qed

text \<open>
  C22: whatever the radio answers and whatever the others do meanwhile, short of taking the client
  away while the lifecycle lock is held (every place that sets it holds the lock), an attempt that yields a
  snapshot has passed every step: the client it installed, still the client of the service,
  answered the connection, accepted the authentication with the passkey of the attempt and
  delivered that very snapshot as its first protected answer, and the user still wants this target.
  An attempt that times out, is refused, cancelled or superseded yields no snapshot, so no sample
  or enrolment comes of it.
\<close>

theorem open_connection_verified:
  "cwp lock_rely F (open_connection h selected generation passkey) (on_success (\<lambda>r s. case r of
       None \<Rightarrow> True
     | Some v \<Rightarrow> \<not> stale generation s
         \<and> (\<exists>c. sv_client s = Some c \<and> answered F (QConnect c passkey) \<and> answered F (QAuthenticate c passkey)
              \<and> (\<exists>t. F (QInitialCurrent c t) (Inr (RSnapshot v)))))) s"
proof -
  have locked: "cwp lock_rely F (cfinally c (work (modify (\<lambda>s. s\<lparr>sv_lock := False\<rparr>))))
      (on_success (attempt_result F generation passkey)) t"
    if "cwp lock_rely F c (on_success (attempt_result F generation passkey)) t" for c t
    by (rule cwp_success_finally, rule cwp_success_mono [OF that]) (simp only: release_result)
  have "cwp lock_rely F (open_connection h selected generation passkey) (on_success (attempt_result F generation passkey)) s"
    unfolding open_connection_def with_lock_def
    by (rule cwp_success_then, rule cwp_success_any, rule cwp_success_then)
      (simp add: modify_def locked locked_attempt_success holds_lock_def)
  then show ?thesis unfolding attempt_result_def [abs_def] link_verified_def .
qed

subsection \<open>The end of an attempt\<close>

lemma transition_eq:
  "transition h phase ch reason s =
     (let (t, w) = ho_utc_now h (sv_world s) in
      case transition_state (sv_state s) t phase reason ch of
        Inl e \<Rightarrow> (Inl e, s\<lparr>sv_world := w\<rparr>) | Inr st \<Rightarrow> (Inr (), s\<lparr>sv_world := w, sv_state := st\<rparr>))"
  by (simp add: transition_def host_call_def abind_def case_prod_beta split: sum.split)

lemma transition_connected:
  assumes "ch_connected ch = Some True" "ch_ready ch = Some True"
  shows "transition h (Some CONNECTED) ch reason s =
    (Inr (), s\<lparr>sv_world := snd (ho_utc_now h (sv_world s)),
      sv_state := replaced_state (sv_state s) (fst (ho_utc_now h (sv_world s))) (Some CONNECTED) reason ch\<rparr>)"
  using assms by (simp add: transition_eq case_prod_beta transition_state_def)

lemma save_verified_enrolled:
  assumes "save_verified ic fault a n p t g = (Inr r, g')"
  shows "lookup_credential a g' = Inr (Some r)" "dc_pairing_passkey r = p" "dc_last_connected_at r = t"
proof -
  obtain k q where k: "normalize_mac_address a = Inr k" "validate_passkey p = Inr q"
    using assms by (auto simp: save_verified_def rbind_def split: sum.splits)
  then have q: "q = p" using validate_passkey_same by blast
  obtain c g2 where c: "commit_records ic fault (dict_set k r (reg_records g)) g = (c, g2)" by (metis surj_pair)
  have r: "dc_pairing_passkey r = p \<and> dc_last_connected_at r = t \<and> dict_get (reg_records g') k = Some r"
    using assms k q by (auto simp: save_verified_def Let_def abind_def commit_records_def split: if_splits prod.splits sum.splits)
  then show "lookup_credential a g' = Inr (Some r)" "dc_pairing_passkey r = p" "dc_last_connected_at r = t"
    using k by (simp_all add: lookup_credential_def)
qed

lemma save_credential_cases:
  assumes "save_credential h selected t s = (x, s')"
  obtains g where "s' = s\<lparr>sv_registry := g\<rparr>"
    "\<And>u. x = Inr u \<Longrightarrow> \<exists>k r. sv_passkey s = Some k \<and> lookup_credential (dt_address selected) g = Inr (Some r)
       \<and> dc_pairing_passkey r = k \<and> dc_last_connected_at r = t"
proof (cases "sv_passkey s")
  case None
  then have "s' = s\<lparr>sv_registry := sv_registry s\<rparr>" "isl x"
    using assms by (auto simp: save_credential_def rbind_def split: sum.splits)
  then show thesis by (intro that [of "sv_registry s"]) auto
next
  case (Some k)
  obtain y g where y: "save_verified (ho_codec h) (ho_write_fault h (sv_world s)) (dt_address selected) (dt_name selected)
      k t (sv_registry s) = (y, g)" by (metis surj_pair)
  show thesis
  proof (rule that [of g])
    show "s' = s\<lparr>sv_registry := g\<rparr>" using assms Some y by (auto simp: save_credential_def split: sum.splits)
    fix u assume "x = Inr u"
    then obtain r where "y = Inr r" using assms Some y by (auto simp: save_credential_def split: sum.splits)
    then show "\<exists>k r. sv_passkey s = Some k \<and> lookup_credential (dt_address selected) g = Inr (Some r)
       \<and> dc_pairing_passkey r = k \<and> dc_last_connected_at r = t"
      using save_verified_enrolled [OF y [unfolded \<open>y = Inr r\<close>]] Some by blast
  qed
qed

text \<open>The rest of the acceptance touches only the operations and the clock.\<close>

lemma complete_pending_frame:
  assumes "complete_pending_connect h s = (x, s')"
  shows "x = Inr () \<and> sv_pending_connect s' = None \<and> sv_state s' = sv_state s \<and> sv_current s' = sv_current s
    \<and> sv_boot_id s' = sv_boot_id s \<and> sv_registry s' = sv_registry s \<and> sv_publish_queue s' = sv_publish_queue s
    \<and> sv_client s' = sv_client s \<and> sv_generation s' = sv_generation s"
proof -
  have u: "sv_pending_connect (set_completed i s) = sv_pending_connect s" "sv_state (set_completed i s) = sv_state s"
    "sv_current (set_completed i s) = sv_current s" "sv_boot_id (set_completed i s) = sv_boot_id s"
    "sv_registry (set_completed i s) = sv_registry s" "sv_publish_queue (set_completed i s) = sv_publish_queue s"
    "sv_client (set_completed i s) = sv_client s" "sv_generation (set_completed i s) = sv_generation s"
    for i and s :: "('a, 'b) svc"
    by (simp_all add: set_completed_def split: option.split)
  have o: "sv_pending_connect (update_operation i f s) = sv_pending_connect s" "sv_state (update_operation i f s) = sv_state s"
    "sv_current (update_operation i f s) = sv_current s" "sv_boot_id (update_operation i f s) = sv_boot_id s"
    "sv_registry (update_operation i f s) = sv_registry s" "sv_publish_queue (update_operation i f s) = sv_publish_queue s"
    "sv_client (update_operation i f s) = sv_client s" "sv_generation (update_operation i f s) = sv_generation s"
    for i f and s :: "('a, 'b) svc"
    by (simp_all add: update_operation_def split: option.split)
  show ?thesis
    using assms by (auto simp: complete_pending_connect_def succeed_operation_def abind_def host_call_def modify_def
        case_prod_beta u o split: option.splits if_splits)
qed

lemma abind_modify: "abind (modify f) k s = k () (f s)"
  by (simp add: abind_def modify_def)

lemma abind_host: "abind (host_call f) k s = k (fst (f (sv_world s))) (s\<lparr>sv_world := snd (f (sv_world s))\<rparr>)"
  by (simp add: abind_def host_call_def case_prod_beta)

text \<open>The announcement of a link whose credential is saved.\<close>

lemma announce_link:
  assumes "abind (modify (\<lambda>s. s\<lparr>sv_from_registry := True\<rparr>)) (\<lambda>_.
       abind (transition h (Some CONNECTED) (no_changes\<lparr>ch_target := Some (Some d), ch_connected := Some True,
          ch_ready := Some True, ch_credential_state := Some CRED_VERIFIED, ch_retry_count := Some 0,
          ch_next_retry_at := Some None, ch_last_seen := Some (Some t), ch_last_error := Some None\<rparr>) m) (\<lambda>_.
       abind publish_connection_state (\<lambda>_.
       abind (complete_pending_connect h) (\<lambda>_. areturn t)))) s = (x, s')"
  shows "x = Inr t \<and> st_phase (sv_state s') = CONNECTED \<and> st_connected (sv_state s') \<and> st_ready (sv_state s')
    \<and> st_credential_state (sv_state s') = CRED_VERIFIED \<and> st_last_error (sv_state s') = None
    \<and> target_of s' = Some d \<and> sv_publish_queue s' = sv_publish_queue s @ [sv_state s']
    \<and> sv_current s' = sv_current s \<and> sv_boot_id s' = sv_boot_id s \<and> sv_registry s' = sv_registry s
    \<and> sv_pending_connect s' = None"
proof -
  define ch where "ch = no_changes\<lparr>ch_target := Some (Some d), ch_connected := Some True,
    ch_ready := Some True, ch_credential_state := Some CRED_VERIFIED, ch_retry_count := Some 0,
    ch_next_retry_at := Some None, ch_last_seen := Some (Some t), ch_last_error := Some None\<rparr>"
  define s3 where "s3 = s\<lparr>sv_from_registry := True, sv_world := snd (ho_utc_now h (sv_world s)),
    sv_state := replaced_state (sv_state s) (fst (ho_utc_now h (sv_world s))) (Some CONNECTED) m ch\<rparr>"
  have ch: "ch_connected ch = Some True" "ch_ready ch = Some True" by (simp_all add: ch_def)
  obtain z s5 where z: "complete_pending_connect h (s3\<lparr>sv_publish_queue := sv_publish_queue s3 @ [sv_state s3]\<rparr>) = (z, s5)"
    by (metis surj_pair)
  note frame = complete_pending_frame [OF z]
  have "(x, s') = (Inr t, s5)"
    using assms z frame transition_connected [OF ch, of h m "s\<lparr>sv_from_registry := True\<rparr>"]
    by (simp add: abind_def modify_def publish_connection_state_def ch_def s3_def)
  then show ?thesis using frame by (simp add: s3_def ch_def replaced_state_def)
qed

lemma named_target_address: "dt_address (named_target h selected s) = dt_address selected"
  by (simp add: named_target_def Let_def)


definition accepting_counter :: "(int, int) svc" where
  "accepting_counter = counter_service\<lparr>sv_started := True, sv_passkey := Some ''123456'', sv_client := Some 3\<rparr>"

definition accepted_counter :: "(exc + utc) \<times> (int, int) svc" where
  "accepted_counter = accept_link counter_host kitchen two_sensors None accepting_counter"


subsection \<open>A disconnect and a rejected credential\<close>

text \<open>Running a coroutine up to its first suspension.\<close>

lemma cbind_assoc: "cbind (cbind c f) g = cbind c (\<lambda>x. cbind (f x) g)"
proof (induction c)
  case (Work p)
  have "map_prod (\<lambda>c. cbind (cbind c f) g) id (p s) = map_prod (\<lambda>c. cbind c (\<lambda>x. cbind (f x) g)) id (p s)" for s
    using Work.IH [OF rangeI, of _ s] by (cases "p s") simp
  then show ?case by (simp add: fun_eq_iff prod.map_comp comp_def id_def)
qed (simp_all split: sum.split)

lemma cthen_assoc: "cthen (cthen a b) c = cthen a (cthen b c)"
  by (simp add: cthen_def cbind_assoc)

lemma advance_work_then:
  "advance (cthen (work m) c) s = (case m s of (Inl e, t) \<Rightarrow> (Finished (Inl e), t) | (Inr _, t) \<Rightarrow> advance c t)"
  by (simp add: cthen_def work_def split: prod.split sum.split)

lemma advance_cread: "advance (cread f) s = advance (f s) s" "advance (cthen (cread f) c) s = advance (cthen (f s) c) s"
  by (simp_all add: cread_def cthen_def)

lemma advance_creturn_then: "advance (cthen (creturn v) c) s = advance c s"
  by (simp add: cthen_def creturn_def)

lemma advance_await_then: "advance (cthen (await_unit q) c) s
    = (Await q (\<lambda>r. cthen (case r of Inl e \<Rightarrow> Finished (Inl e) | Inr _ \<Rightarrow> creturn ()) c), s)"
  by (simp add: cthen_def await_unit_def await_def cong: sum.case_cong)

lemmas advance_rules = advance_work_then advance_cread advance_creturn_then advance_await_then cthen_assoc

text \<open>
  C24: an explicit disconnect takes effect before anything else can run: by its first suspension
  the service wants no connection, is not ready, is disconnecting and has a new generation, so that
  every attempt in flight, of whatever generation, is stale and gives up at its next check, and what
  it waits for first is the end of the history retrieval or of the attempt.
\<close>

theorem disconnect_supersedes_attempts:
  "case advance (disconnect_call h) s of (c, s') \<Rightarrow>
     (\<forall>g. stale g s') \<and> sv_generation s' = sv_generation s + 1 \<and> \<not> st_ready (sv_state s')
     \<and> st_phase (sv_state s') = DISCONNECTING \<and> (\<exists>i k. c = Await (QCancelTask i) k)"
proof -
  have tr: "transition h (Some DISCONNECTING) (no_changes\<lparr>ch_desired_connected := Some False, ch_ready := Some False,
        ch_next_retry_at := Some None\<rparr>) m s
      = (Inr (), s\<lparr>sv_world := snd (ho_utc_now h (sv_world s)), sv_state := replaced_state (sv_state s)
          (fst (ho_utc_now h (sv_world s))) (Some DISCONNECTING) m (no_changes\<lparr>ch_desired_connected := Some False,
          ch_ready := Some False, ch_next_retry_at := Some None\<rparr>)\<rparr>)" for m and s :: "('a, 'b) svc"
    by (simp add: transition_eq case_prod_beta transition_state_def no_changes_def)
  let ?s = "snd (post_event EV_INTENT_CHANGED ''explicit disconnect requested'' NoValue None
    (snd (transition h (Some DISCONNECTING) (no_changes\<lparr>ch_desired_connected := Some False,
        ch_ready := Some False, ch_next_retry_at := Some None\<rparr>) ''explicit disconnect requested''
        (s\<lparr>sv_generation := sv_generation s + 1\<rparr>))))"
  have "\<exists>i k. advance (disconnect_call h) s = (Await (QCancelTask i) k, ?s)"
    by (auto simp: disconnect_call_def advance_rules tr modify_def post_event_def cancel_history_def
        split: option.split bool.split)
  then obtain i k where "advance (disconnect_call h) s = (Await (QCancelTask i) k, ?s)" by blast
  then show ?thesis by (simp add: tr post_event_def modify_def stale_def)
qed

text \<open>
  After the device rejected the passkey the manager waits for the user: with the credential of
  the target rejected and no new passkey supplied, a turn of the manager only waits for the next
  lifecycle event, without a time limit; it neither scans nor connects nor reads the registry, and
  leaves the state as it is.
\<close>

theorem rejected_credential_waits:
  assumes "st_desired_connected (sv_state s)" and "\<not> is_ready s" and "target_of s \<noteq> None"
    and "sv_passkey s = None" and "st_phase (sv_state s) = AUTHENTICATION_REQUIRED"
    and "st_credential_state (sv_state s) = CRED_REJECTED"
  shows "\<exists>k. advance (manager_turn h) s = (Await (QWakeup None) k, s)"
  using assms by (auto simp: manager_turn_def manager_body_def manager_credential_def cread_def
      wait_for_wakeup_def await_unit_def await_def creturn_def cthen_def cattempt_def Let_def)

definition rejected_counter :: "(int, int) svc" where
  "rejected_counter = counter_service\<lparr>sv_started := True, sv_state := (sv_state counter_service)\<lparr>
     st_phase := AUTHENTICATION_REQUIRED, st_desired_connected := True, st_target := Some kitchen,
     st_credential_state := CRED_REJECTED\<rparr>\<rparr>"

theorem rejected_credential_waits_witness:
  "\<exists>k. advance (manager_turn counter_host) rejected_counter = (Await (QWakeup None) k, rejected_counter)"
proof (rule rejected_credential_waits)
  have "sv_passkey counter_service = None \<and> \<not> st_ready (sv_state counter_service)" by code_simp
  then show "\<not> is_ready rejected_counter" "sv_passkey rejected_counter = None"
    by (simp_all add: rejected_counter_def)
qed (simp_all add: rejected_counter_def)

subsection \<open>Two limits of the code\<close>

text \<open>
  A connection requested while the service stops is not refused, and the last transition of the
  stop then raises, before the persistence worker and the database are closed.
\<close>

theorem stop_raises_when_wanted:
  assumes "st_desired_connected (sv_state s)"
  shows "fst (transition h (Some STOPPED) link_down reason s) = value_error ''a stopped service cannot request a connection''"
  using assms by (simp add: transition_eq transition_state_def link_down_def no_changes_def case_prod_beta)

text \<open>
  The event that the poller posts after a failed sample carries no client, so as long as the service
  has one the manager ignores it.
\<close>

theorem poll_failure_event_ignored:
  assumes "ev_kind event = EV_LINK_LOST" "ev_value event = NoValue" "sv_client s = Some c"
  shows "advance (handle_event h event) s = (Finished (Inr ()), s)"
  using assms by (simp add: handle_event_def cread_def creturn_def)

end
