(* ===== verification/Service_Samples.thy ===== *)
theory Service_Samples
  imports Service_Example Mysql_Props
begin

section \<open>Samples of the controller\<close>

text \<open>
  The batch that the controller builds of a retrieval, against a specification by the records
  themselves, and the accounting of the slots the poller missed.
\<close>

subsection \<open>The history batch\<close>

text \<open>The record of a sensor in a sample: the last one retrieved.\<close>

definition record_of :: "timed_history_record list \<Rightarrow> int \<Rightarrow> int \<Rightarrow> timed_history_record option" where
  "record_of records q i = find (\<lambda>r. th_sequence r = q \<and> th_sensor_id r = i) (rev records)"

lemma group_snoc:
  "group_by_sequence (rs @ [r]) = dict_set (th_sequence r) (dict_set (th_sensor_id r) r
     (case dict_get (group_by_sequence rs) (th_sequence r) of Some m \<Rightarrow> m | None \<Rightarrow> [])) (group_by_sequence rs)"
  by (simp add: group_by_sequence_def)

lemma group_keys: "set (dict_keys (group_by_sequence rs)) = th_sequence ` set rs \<and> distinct (dict_keys (group_by_sequence rs))"
proof (induction rs rule: rev_induct)
  case (snoc r rs)
  then show ?case unfolding group_snoc by (simp only: dict_set_keys distinct_dict_set set_append image_Un) simp
qed (simp add: group_by_sequence_def)

lemma group_get:
  "(case dict_get (group_by_sequence rs) q of Some m \<Rightarrow> dict_get m i | None \<Rightarrow> None) = record_of rs q i"
proof (induction rs rule: rev_induct)
  case (snoc r rs)
  then show ?case by (auto simp: group_snoc record_of_def split: option.splits)
qed (simp add: group_by_sequence_def record_of_def)

lemma group_entry: "(q, m) \<in> set (group_by_sequence rs) \<Longrightarrow> dict_get m i = record_of rs q i"
  using group_get [where rs = rs and q = q and i = i] group_keys [of rs] map_of_is_SomeI [of "group_by_sequence rs" q m]
  by simp

lemma record_of_Some: "record_of rs q i = Some r \<Longrightarrow> r \<in> set rs \<and> th_sequence r = q \<and> th_sensor_id r = i"
  unfolding record_of_def find_Some_iff by (metis (mono_tags, lifting) nth_mem set_rev)

lemma record_of_ex: "r \<in> set rs \<Longrightarrow> record_of rs (th_sequence r) (th_sensor_id r) \<noteq> None"
  by (auto simp: record_of_def find_None_iff)

text \<open>The sample of a sequence number, by the records.\<close>

definition expected_reading :: "timed_history_record list \<Rightarrow> int \<Rightarrow> int \<Rightarrow> sensor_reading" where
  "expected_reading records q i = (case record_of records q i of
     None \<Rightarrow> \<lparr>sr_sensor_id = i, sr_temperature_c = None, sr_status = ''NOT_RETRIEVED'', sr_display_enabled = None\<rparr>
   | Some r \<Rightarrow> \<lparr>sr_sensor_id = i, sr_temperature_c = th_temperature_c r, sr_status = data_status_name (th_data_status r),
       sr_display_enabled = None\<rparr>)"

lemma sensors_12: "[1..SENSOR_COUNT] = [1, 2 :: int]"
  by (simp add: SENSOR_COUNT_def upto_rec1)

lemma readings_of_entry:
  "(q, m) \<in> set (group_by_sequence rs) \<Longrightarrow>
     map (history_reading m) [1..SENSOR_COUNT] = [expected_reading rs q 1, expected_reading rs q 2]"
  by (simp add: sensors_12 history_reading_def expected_reading_def group_entry)

text \<open>The time of a sample is that of one of its records.\<close>

lemma time_of_entry:
  assumes "(q, m) \<in> set (group_by_sequence rs)" "\<forall>r \<in> set rs. th_sensor_id r \<in> {1..SENSOR_COUNT}"
  shows "\<exists>r \<in> set rs. th_sequence r = q \<and> sample_time m = Some (th_sampled_at r)"
proof -
  have "q \<in> th_sequence ` set rs" using assms(1) group_keys [of rs] by force
  then obtain r where r: "r \<in> set rs" "th_sequence r = q" by blast
  then have "th_sensor_id r = 1 \<or> th_sensor_id r = 2" using assms(2) by (auto simp: SENSOR_COUNT_def)
  then have "record_of rs q 1 \<noteq> None \<or> record_of rs q 2 \<noteq> None" using record_of_ex [OF r(1)] r(2) by auto
  then have some: "record_of rs q 2 = None \<Longrightarrow> record_of rs q 1 \<noteq> None" by blast
  have t: "sample_time m = (case record_of rs q 2 of None \<Rightarrow> map_option th_sampled_at (record_of rs q 1)
      | Some r \<Rightarrow> Some (th_sampled_at r))"
    by (cases "record_of rs q 1"; cases "record_of rs q 2") (simp_all add: sample_time_def sensors_12 group_entry [OF assms(1)])
  show ?thesis
  proof (cases "record_of rs q 2")
    case None
    with some obtain x where "record_of rs q 1 = Some x" by blast
    with record_of_Some [OF this] None t show ?thesis by auto
  next
    case (Some x)
    with record_of_Some [OF this] t show ?thesis by auto
  qed
qed

text \<open>What one entry becomes, and all of them.\<close>

lemma amap_same:
  assumes "amap f xs s = (Inr ys, s')" "\<And>x. x \<in> set xs \<Longrightarrow> f x = areturn (g x)"
  shows "ys = map g xs \<and> s' = s"
  using assms
proof (induction xs arbitrary: ys)
  case (Cons x xs)
  then show ?case by (auto simp: abind_Inr)
qed simp

lemma sample_of_entry:
  assumes "(q, m) \<in> set (group_by_sequence rs)" "sample_time m = Some t"
  shows "history_sample_of h identity b (q, m) = areturn
    \<lparr>sa_device = Some identity, sa_observed_at = t, sa_boot_id = Some b, sa_sequence = Some q,
     sa_readings = [expected_reading rs q 1, expected_reading rs q 2],
     sa_average = average_of [expected_reading rs q 1, expected_reading rs q 2], sa_source = ''HISTORY'',
     sa_provisional = False, sa_failure_reason = None\<rparr>"
  unfolding history_sample_of_def Let_def prod.case readings_of_entry [OF assms(1)]
  by (rule ext) (simp add: assms(2))

lemma average_of_two:
  "sr_temperature_c a = Some x \<Longrightarrow> sr_temperature_c b = Some y \<Longrightarrow> average_of [a, b] = Some ((x + y) / 2)"
  by (simp add: average_of_def SENSOR_COUNT_def List.map_filter_simps)

lemma expected_reading_fits:
  assumes "\<forall>r \<in> set rs. map_option (col_decimal col) (th_temperature_c r) = th_temperature_c r"
  shows "map_option (col_decimal col) (sr_temperature_c (expected_reading rs q i)) = sr_temperature_c (expected_reading rs q i)"
  using assms record_of_Some [of rs q i] by (auto simp: expected_reading_def split: option.split)

lemma expected_reading_id: "sr_sensor_id (expected_reading rs q i) = i"
  by (simp add: expected_reading_def split: option.split)

definition sample_of ::
    "history_sync \<Rightarrow> device_identity \<Rightarrow> int \<times> (int, timed_history_record) dict \<Rightarrow> sample_record" where
  "sample_of history identity entry =
     (let q = fst entry; readings = [expected_reading (hs_records history) q 1, expected_reading (hs_records history) q 2] in
      \<lparr>sa_device = Some identity, sa_observed_at = the (sample_time (snd entry)),
       sa_boot_id = Some (meta_boot_id (hs_meta history)), sa_sequence = Some q, sa_readings = readings,
       sa_average = average_of readings, sa_source = ''HISTORY'', sa_provisional = False, sa_failure_reason = None\<rparr>)"

lemma build_history_batch_samples:
  assumes "build_history_batch h history s = (Inr batch, s')" "device_identity_of (target_of s) = Some identity"
    and "\<forall>r \<in> set (hs_records history). th_sensor_id r \<in> {1..SENSOR_COUNT}"
  shows "s' = s \<and> hb_samples batch
    = sort_key sa_observed_at (map (sample_of history identity) (group_by_sequence (hs_records history)))"
proof -
  obtain ys t where a: "amap (history_sample_of h identity (meta_boot_id (hs_meta history)))
      (group_by_sequence (hs_records history)) s = (Inr ys, t)" "hb_samples batch = sort_key sa_observed_at ys" "s' = t"
    using assms(1,2) by (auto simp: build_history_batch_def abind_Inr)
  have "history_sample_of h identity (meta_boot_id (hs_meta history)) x = areturn (sample_of history identity x)"
    if x: "x \<in> set (group_by_sequence (hs_records history))" for x
  proof -
    obtain q m where q: "x = (q, m)" by (cases x)
    obtain r where "r \<in> set (hs_records history)" "sample_time m = Some (th_sampled_at r)"
      using time_of_entry [OF x [unfolded q] assms(3)] by blast
    from sample_of_entry [OF x [unfolded q] this(2)] this(2) q show ?thesis by (simp add: sample_of_def Let_def)
  qed
  with amap_same [OF a(1)] a(2,3) show ?thesis by blast
qed

text \<open>
  The batch written after a retrieval holds one sample for every sequence number retrieved and
  no other, in the order of their times; the sample is dated like a record of that sequence number,
  carries the boot of the retrieval and holds for each sensor what its last retrieved record says,
  \<open>NOT_RETRIEVED\<close> where there is none; with temperatures the columns can hold, every sample is one
  for which writing the batch again after a failure is harmless.
\<close>

theorem history_batch_exact:
  assumes "build_history_batch h history s = (Inr batch, s')"
    and "\<forall>r \<in> set (hs_records history). th_sensor_id r \<in> {1..SENSOR_COUNT}
      \<and> map_option (col_decimal col) (th_temperature_c r) = th_temperature_c r"
  shows "set (map sa_sequence (hb_samples batch)) = Some ` th_sequence ` set (hs_records history)
    \<and> distinct (map sa_sequence (hb_samples batch)) \<and> sorted (map sa_observed_at (hb_samples batch))
    \<and> (\<forall>x \<in> set (hb_samples batch). history_sample col x
        \<and> sa_boot_id x = Some (meta_boot_id (hs_meta history))
        \<and> (\<exists>r \<in> set (hs_records history). sa_sequence x = Some (th_sequence r) \<and> sa_observed_at x = th_sampled_at r
             \<and> sa_readings x = map (expected_reading (hs_records history) (th_sequence r)) [1..SENSOR_COUNT]))"
proof -
  let ?rs = "hs_records history"
  have ids: "\<forall>r \<in> set ?rs. th_sensor_id r \<in> {1..SENSOR_COUNT}"
    and fits: "\<forall>r \<in> set ?rs. map_option (col_decimal col) (th_temperature_c r) = th_temperature_c r"
    using assms(2) by blast+
  obtain identity where i: "device_identity_of (target_of s) = Some identity"
    using assms(1) by (cases "device_identity_of (target_of s)") (simp_all add: build_history_batch_def)
  note samples = conjunct2 [OF build_history_batch_samples [OF assms(1) i ids]]
  let ?ys = "map (sample_of history identity) (group_by_sequence ?rs)"
  have "map sa_sequence ?ys = map Some (dict_keys (group_by_sequence ?rs))"
    by (simp add: sample_of_def Let_def)
  then have seqs: "set (map sa_sequence ?ys) = Some ` th_sequence ` set ?rs" "distinct (map sa_sequence ?ys)"
    using group_keys [of ?rs] by (simp_all only: set_map [of Some] distinct_map [of Some]) simp_all
  have one: "history_sample col x \<and> sa_boot_id x = Some (meta_boot_id (hs_meta history))
      \<and> (\<exists>r \<in> set ?rs. sa_sequence x = Some (th_sequence r) \<and> sa_observed_at x = th_sampled_at r
           \<and> sa_readings x = map (expected_reading ?rs (th_sequence r)) [1..SENSOR_COUNT])" if x: "x \<in> set ?ys" for x
  proof -
    obtain q m where q: "(q, m) \<in> set (group_by_sequence ?rs)" "x = sample_of history identity (q, m)" using x by auto
    obtain r where "r \<in> set ?rs" "th_sequence r = q" "sample_time m = Some (th_sampled_at r)"
      using time_of_entry [OF q(1) ids] by blast
    then show ?thesis
      using expected_reading_fits [OF fits] by (auto simp: q(2) sample_of_def Let_def history_sample_def
          expected_reading_id average_of_two sensors_12 intro!: bexI [of _ r])
  qed
  have "mset (map sa_sequence (hb_samples batch)) = mset (map sa_sequence ?ys)" unfolding samples mset_map by simp
  then have "set (map sa_sequence (hb_samples batch)) = set (map sa_sequence ?ys)"
    "distinct (map sa_sequence (hb_samples batch)) = distinct (map sa_sequence ?ys)"
    by (rule mset_eq_setD, rule mset_eq_imp_distinct_iff)
  then show ?thesis using seqs one unfolding samples by simp
qed

subsection \<open>The slots the poller missed\<close>

lemma enqueue_effect:
  "map pq_call (pw_queue (snd (worker_enqueue b c w))) =
     map pq_call (pw_queue w) @ (if length (pw_queue w) < pw_capacity w then [c] else [])"
  "pw_capacity (snd (worker_enqueue b c w)) = pw_capacity w"
  "pw_overflow (snd (worker_enqueue b c w)) = pw_overflow w + (if length (pw_queue w) < pw_capacity w then 0 else 1)"
  "pw_futures (snd (worker_enqueue b c w)) (fst (worker_enqueue b c w)) \<in> {Some Pending} \<union> range (\<lambda>v. Some (Result v))"
  by (simp_all add: worker_enqueue_def fifo_put_def Let_def settle_def not_persisted_def)

definition missing_slot :: "('h, 'w) svc \<Rightarrow> utc \<Rightarrow> string \<Rightarrow> db_call" where
  "missing_slot s t reason = PublishMissingInterval (missing_sample (device_identity_of (target_of s)) t reason)"

lemma publish_missing_effect:
  "\<exists>v. publish_missing_interval h t reason s = (Inr v, (unavailable reason s)\<lparr>sv_persistence :=
     snd (worker_enqueue (ho_configured h (sv_world s)) (missing_slot s t reason) (sv_persistence s))\<rparr>)"
proof -
  obtain f w where f: "worker_enqueue (ho_configured h (sv_world s)) (missing_slot s t reason) (sv_persistence s) = (f, w)"
    by (metis surj_pair)
  with enqueue_effect(4) [of "ho_configured h (sv_world s)" "missing_slot s t reason" "sv_persistence s"]
  have "pw_futures w f = Some Pending \<or> (\<exists>v. pw_futures w f = Some (Result v))" by auto
  then show ?thesis
    using f by (auto simp: publish_missing_interval_def abind_def enqueue_def enqueue_outcome_def unavailable_def missing_slot_def)
qed

text \<open>The queue after \<open>calls\<close> were handed to the worker: those that fit, in order; the rest is counted.\<close>

definition handed_over :: "db_call list \<Rightarrow> db_call persist_worker \<Rightarrow> db_call persist_worker \<Rightarrow> bool" where
  "handed_over calls w w' \<longleftrightarrow> pw_capacity w' = pw_capacity w
     \<and> map pq_call (pw_queue w') = map pq_call (pw_queue w) @ take (pw_capacity w - length (pw_queue w)) calls
     \<and> pw_overflow w' = pw_overflow w + (length calls - (pw_capacity w - length (pw_queue w)))"

lemma handed_over_Nil [simp]: "handed_over [] w w"
  by (simp add: handed_over_def)

lemma handed_over_Cons:
  assumes "handed_over calls (snd (worker_enqueue b c w)) w'"
  shows "handed_over (c # calls) w w'"
proof -
  have "length (pw_queue (snd (worker_enqueue b c w))) = length (pw_queue w) + (if length (pw_queue w) < pw_capacity w then 1 else 0)"
    using arg_cong [OF enqueue_effect(1) [of b c w], of length] by simp
  then show ?thesis
    using assms by (cases "length (pw_queue w) < pw_capacity w")
      (auto simp: handed_over_def enqueue_effect take_Cons' Suc_diff_Suc)
qed

abbreviation missed :: string where
  "missed \<equiv> ''current polling deadline was missed''"

text \<open>The reading of the clock at the \<open>n\<close>-th look from now, when only the loop looks.\<close>

definition reading :: "('h, 'w) host \<Rightarrow> 'w \<Rightarrow> nat \<Rightarrow> rat" where
  "reading h w n = fst (ho_monotonic h (((\<lambda>w. snd (ho_monotonic h w)) ^^ n) w))"

lemma reading_0: "reading h w 0 = fst (ho_monotonic h w)"
  by (simp add: reading_def)

lemma reading_Suc: "reading h (snd (ho_monotonic h w)) n = reading h w (Suc n)"
  unfolding reading_def funpow_Suc_right comp_apply ..

abbreviation period :: "('h, 'w) host \<Rightarrow> rat" where
  "period h \<equiv> poll_interval_seconds (ho_settings h)"

lemma missing_slot_target: "target_of s = target_of s' \<Longrightarrow> missing_slot s t r = missing_slot s' t r"
  by (simp add: missing_slot_def)

lemma poll_catch_up_slots:
  assumes "poll_catch_up h m u fuel d s = (r, s')"
  shows "\<exists>k \<le> fuel. r = Inr (d + of_nat k * period h) \<and> target_of s' = target_of s
    \<and> handed_over (map (\<lambda>j. missing_slot s (slot_time m u (d + of_nat j * period h)) missed) [0..<k])
        (sv_persistence s) (sv_persistence s')
    \<and> (\<forall>j < k. d + of_nat (j + 1) * period h \<le> reading h (sv_world s) j)
    \<and> (k < fuel \<longrightarrow> reading h (sv_world s) k < d + of_nat (k + 1) * period h)"
  using assms
proof (induction fuel arbitrary: d s)
  case 0
  then show ?case by simp
next
  case (Suc fuel)
  define s1 where "s1 = s\<lparr>sv_world := snd (ho_monotonic h (sv_world s))\<rparr>"
  show ?case
  proof (cases "d + period h \<le> fst (ho_monotonic h (sv_world s))")
    case False
    then have "r = Inr d" "s' = s1"
      using Suc.prems by (auto simp: abind_def host_call_def case_prod_beta Let_def s1_def)
    then show ?thesis using False by (intro exI [of _ 0]) (simp add: s1_def reading_0)
  next
    case True
    obtain v where v: "publish_missing_interval h (slot_time m u d) missed s1 = (Inr v, (unavailable missed s1)\<lparr>sv_persistence :=
        snd (worker_enqueue (ho_configured h (sv_world s1)) (missing_slot s1 (slot_time m u d) missed) (sv_persistence s1))\<rparr>)"
      using publish_missing_effect by blast
    define s2 where "s2 = (unavailable missed s1)\<lparr>sv_persistence :=
        snd (worker_enqueue (ho_configured h (sv_world s1)) (missing_slot s1 (slot_time m u d) missed) (sv_persistence s1))\<rparr>"
    have rec: "poll_catch_up h m u fuel (d + period h) s2 = (r, s')"
      using Suc.prems True v by (simp add: abind_def host_call_def case_prod_beta Let_def s1_def s2_def)
    have t: "target_of s2 = target_of s" "target_of s1 = target_of s" "sv_persistence s1 = sv_persistence s"
      by (simp_all add: s1_def s2_def unavailable_def)
    have w: "sv_world s2 = snd (ho_monotonic h (sv_world s))" by (simp add: s1_def s2_def unavailable_def)
    have q: "sv_persistence s2 = snd (worker_enqueue (ho_configured h (sv_world s1))
        (missing_slot s (slot_time m u d) missed) (sv_persistence s))"
      using missing_slot_target [OF t(2)] t(3) by (simp add: s2_def)
    note same = missing_slot_target [OF t(1)] missing_slot_target [OF t(2)]
    have shift: "d + period h + of_nat j * period h = d + of_nat (Suc j) * period h" for j by (simp add: algebra_simps)
    from Suc.IH [OF rec] obtain k where k: "k \<le> fuel" "r = Inr (d + of_nat (Suc k) * period h)" "target_of s' = target_of s"
      "handed_over (map (\<lambda>j. missing_slot s (slot_time m u (d + of_nat (Suc j) * period h)) missed) [0..<k])
         (snd (worker_enqueue (ho_configured h (sv_world s1)) (missing_slot s (slot_time m u d) missed) (sv_persistence s)))
         (sv_persistence s')"
      "\<forall>j < k. d + of_nat (Suc j + 1) * period h \<le> reading h (sv_world s) (Suc j)"
      "k < fuel \<longrightarrow> reading h (sv_world s) (Suc k) < d + of_nat (Suc k + 1) * period h"
      unfolding shift same t w q reading_Suc add.assoc by (auto simp: algebra_simps)
    have "map (\<lambda>j. missing_slot s (slot_time m u (d + of_nat j * period h)) missed) [0..<Suc k]
        = missing_slot s (slot_time m u d) missed
          # map (\<lambda>j. missing_slot s (slot_time m u (d + of_nat (Suc j) * period h)) missed) [0..<k]"
      by (simp only: map_upt_Suc) simp
    then have "handed_over (map (\<lambda>j. missing_slot s (slot_time m u (d + of_nat j * period h)) missed) [0..<Suc k])
        (sv_persistence s) (sv_persistence s')"
      using handed_over_Cons [OF k(4)] by simp
    moreover have "d + of_nat (j + 1) * period h \<le> reading h (sv_world s) j" if "j < Suc k" for j
      using k(5) True that by (cases j) (auto simp: reading_0)
    ultimately show ?thesis using k(1,2,3,6) by (intro exI [of _ "Suc k"]) simp
  qed
qed

text \<open>
  The poller accounts for every slot it missed, whatever the clock does: it hands over one
  missing interval for each slot that is over before it looks at the present one, dated slot by slot
  from the anchors without drift and in order, the writes that do not fit into the queue being
  counted, and goes on with the first slot that is not over. The loop ends before its fuel does as
  long as the clock does not run through that many slots while it runs.
\<close>

theorem missed_slots_exact:
  assumes "poll_catch_up h m u fuel d s = (r, s')" and "0 < fuel"
    and "\<forall>n < fuel. reading h (sv_world s) n < d + of_nat fuel * poll_interval_seconds (ho_settings h)"
  shows "\<exists>k < fuel. r = Inr (d + of_nat k * poll_interval_seconds (ho_settings h))
    \<and> handed_over (map (\<lambda>j. PublishMissingInterval (missing_sample (device_identity_of (target_of s))
          (slot_time m u (d + of_nat j * poll_interval_seconds (ho_settings h)))
          ''current polling deadline was missed'')) [0..<k]) (sv_persistence s) (sv_persistence s')
    \<and> (\<forall>j < k. d + of_nat (j + 1) * poll_interval_seconds (ho_settings h) \<le> reading h (sv_world s) j)
    \<and> reading h (sv_world s) k < d + of_nat (k + 1) * poll_interval_seconds (ho_settings h)"
proof -
  from poll_catch_up_slots [OF assms(1)] obtain k where k: "k \<le> fuel" "r = Inr (d + of_nat k * period h)"
    "handed_over (map (\<lambda>j. missing_slot s (slot_time m u (d + of_nat j * period h)) missed) [0..<k])
       (sv_persistence s) (sv_persistence s')"
    "\<forall>j < k. d + of_nat (j + 1) * period h \<le> reading h (sv_world s) j"
    "k < fuel \<longrightarrow> reading h (sv_world s) k < d + of_nat (k + 1) * period h" by blast
  have "k \<noteq> fuel"
  proof
    assume "k = fuel"
    then have "d + of_nat fuel * period h \<le> reading h (sv_world s) (fuel - 1)"
      using k(4) assms(2) by (auto dest: spec [of _ "fuel - 1"])
    moreover have "fuel - 1 < fuel" using assms(2) by simp
    ultimately show False using assms(3) by fastforce
  qed
  then have "k < fuel" using k(1) by simp
  then show ?thesis using k(2-5) unfolding missing_slot_def by blast
qed

text \<open>The witnesses: a batch of three records, and a poller three slots late.\<close>

definition late_records :: "timed_history_record list" where
  "late_records = [\<lparr>th_sensor_id = 1, th_sequence = 8, th_sampled_at = 2000000, th_temperature_c = Some 21, th_data_status = VALID\<rparr>,
     \<lparr>th_sensor_id = 1, th_sequence = 7, th_sampled_at = 1000000, th_temperature_c = Some 20, th_data_status = VALID\<rparr>,
     \<lparr>th_sensor_id = 2, th_sequence = 7, th_sampled_at = 1000000, th_temperature_c = Some 22, th_data_status = VALID\<rparr>]"

definition late_history :: history_sync where
  "late_history = \<lparr>hs_meta = \<lparr>meta_boot_id = 7, meta_newest_sequence = 8, meta_counts = [2, 1], meta_oldest_sequences = [7, 7]\<rparr>,
     hs_anchor = two_sensors, hs_records = late_records, hs_expected_counts = [2, 1], hs_retrieved_counts = [2, 1],
     hs_complete = True, hs_elapsed_seconds = 1, hs_failure_reason = None, hs_persistence_configured = False,
     hs_persisted = False\<rparr>"

definition targeted_counter :: "(int, int) svc" where
  "targeted_counter = counter_service\<lparr>sv_state := (sv_state counter_service)\<lparr>st_target := Some kitchen\<rparr>\<rparr>"

definition late_batch :: "(exc + history_batch) \<times> (int, int) svc" where
  "late_batch = build_history_batch counter_host late_history targeted_counter"

theorem history_batch_exact_witness:
  "\<exists>batch. fst late_batch = Inr batch \<and> set (map sa_sequence (hb_samples batch)) = {Some 7, Some 8}
     \<and> sorted (map sa_observed_at (hb_samples batch))"
proof -
  have "\<not> isl (fst late_batch)" by code_simp
  then obtain batch where b: "fst late_batch = Inr batch" by (cases "fst late_batch") simp_all
  then have eq: "build_history_batch counter_host late_history targeted_counter = (Inr batch, snd late_batch)"
    by (metis late_batch_def prod.collapse)
  have "set (map sa_sequence (hb_samples batch)) = {Some 7, Some 8}"
    using history_batch_exact [OF eq, of plain_columns]
    by (auto simp: late_history_def late_records_def SENSOR_COUNT_def plain_columns_def)
  moreover have "sorted (map sa_observed_at (hb_samples batch))"
    using history_batch_exact [OF eq, of plain_columns]
    by (simp add: late_history_def late_records_def SENSOR_COUNT_def plain_columns_def)
  ultimately show ?thesis using b by blast
qed

text \<open>A clock that counts tenths.\<close>

definition tenths_host :: "(int, int) host" where
  "tenths_host = counter_host\<lparr>ho_monotonic := (\<lambda>w. (of_int w / 10, w + 1))\<rparr>"

definition late_poller :: "(exc + rat) \<times> (int, int) svc" where
  "late_poller = poll_catch_up tenths_host 0 0 9 1 (targeted_counter\<lparr>sv_world := 35\<rparr>)"

lemma tenths_reading: "reading tenths_host w n = (of_int w + of_nat n) / 10"
proof -
  have "((\<lambda>w. snd (ho_monotonic tenths_host w)) ^^ n) w = w + int n" for w
    by (induction n) (simp_all add: tenths_host_def)
  then show ?thesis by (simp add: reading_def tenths_host_def)
qed

theorem missed_slots_exact_witness:
  "fst late_poller = Inr 3 \<and> length (pw_queue (sv_persistence (snd late_poller))) = 2"
proof -
  let ?s = "targeted_counter\<lparr>sv_world := 35\<rparr>"
  have eq: "poll_catch_up tenths_host 0 0 9 1 ?s = (fst late_poller, snd late_poller)"
    by (simp add: late_poller_def)
  have p: "poll_interval_seconds (ho_settings tenths_host) = 1"
    by (simp add: tenths_host_def counter_host_def CONFIG_service_def)
  have w: "pw_queue (sv_persistence targeted_counter) = [] \<and> pw_capacity (sv_persistence targeted_counter) = 300"
    by code_simp
  have "\<forall>n < 9. reading tenths_host (sv_world ?s) n < 1 + of_nat 9 * poll_interval_seconds (ho_settings tenths_host)"
    by (auto simp: tenths_reading p)
  from missed_slots_exact [OF eq _ this] obtain k where k: "fst late_poller = Inr (1 + of_nat k)"
    "\<forall>j < k. 1 + of_nat (j + 1) \<le> reading tenths_host 35 j" "reading tenths_host 35 k < 1 + of_nat (k + 1)"
    "handed_over (map (\<lambda>j. PublishMissingInterval (missing_sample (device_identity_of (target_of targeted_counter))
        (slot_time 0 0 (1 + of_nat j)) missed)) [0..<k]) (sv_persistence targeted_counter) (sv_persistence (snd late_poller))"
    by (auto simp: p)
  have q: "length (pw_queue (sv_persistence (snd late_poller))) = min k 300"
    using arg_cong [OF conjunct1 [OF conjunct2 [OF k(4) [unfolded handed_over_def]]], of length] w by simp
  have "k = 2"
  proof (rule antisym)
    show "k \<le> 2" using k(2) by (rule_tac ccontr) (auto simp: tenths_reading dest: spec [of _ 2])
    show "2 \<le> k" using k(3) by (simp add: tenths_reading field_simps)
  qed
  then show ?thesis using k(1) q by simp
qed

end
