(* ===== verification/Json_Values.thy ===== *)
theory Json_Values
  imports Layouts
begin

section \<open>Parsed JSON values\<close>

text \<open>
  What \<open>json.loads\<close> returns, and the operations of Python that the validator and the generator of
  the firmware header apply to it. An object keeps the order of its keys. Numbers are exact (an
  arithmetic of the code on floats is one on rationals here), \<open>NaN\<close> and the infinities are left
  out. A wrong type raises what the operation of Python raises; the texts of those built-in errors
  are generic. \<open>repr\<close> of a float is a parameter.
\<close>

datatype json =
  JNull | JBool bool | JInt int | JFloat rat | JStr string | JArr "json list" | JObj "(string \<times> json) list"

subsection \<open>Operations on parsed values\<close>

definition type_error :: "'a res" where
  "type_error = raise TypeErrorC ''unsupported operand''"

definition attribute_error :: "'a res" where
  "attribute_error = raise (OtherErrorC ''AttributeError'') ''no such attribute''"

lemma builtin_errors [simp]: "type_error \<noteq> Inr x" "attribute_error \<noteq> Inr x"
  by (simp_all add: type_error_def attribute_error_def)

text \<open>\<open>v[k]\<close>, \<open>v.get(k, otherwise)\<close>, the number a value compares as, and its truth value.\<close>

definition j_index :: "json \<Rightarrow> string \<Rightarrow> json res" where
  "j_index v k = (case v of
     JObj d \<Rightarrow> (case dict_get d k of Some x \<Rightarrow> Inr x | None \<Rightarrow> raise KeyErrorC (py_repr k))
   | _ \<Rightarrow> type_error)"

definition j_get :: "json \<Rightarrow> string \<Rightarrow> json \<Rightarrow> json res" where
  "j_get v k otherwise = (case v of
     JObj d \<Rightarrow> Inr (case dict_get d k of Some x \<Rightarrow> x | None \<Rightarrow> otherwise) | _ \<Rightarrow> attribute_error)"

definition num_view :: "json \<Rightarrow> rat option" where
  "num_view v = (case v of JInt i \<Rightarrow> Some (of_int i) | JFloat x \<Rightarrow> Some x | JBool b \<Rightarrow> Some (of_bool b) | _ \<Rightarrow> None)"

definition j_num :: "json \<Rightarrow> rat res" where
  "j_num v = (case num_view v of Some x \<Rightarrow> Inr x | None \<Rightarrow> type_error)"

definition j_true :: "json \<Rightarrow> bool" where
  "j_true v = (case v of JNull \<Rightarrow> False | JStr s \<Rightarrow> s \<noteq> [] | JArr xs \<Rightarrow> xs \<noteq> [] | JObj d \<Rightarrow> d \<noteq> []
     | JInt i \<Rightarrow> i \<noteq> 0 | JFloat x \<Rightarrow> x \<noteq> 0 | JBool b \<Rightarrow> b)"

definition j_len :: "json \<Rightarrow> nat res" where
  "j_len v = (case v of JStr s \<Rightarrow> Inr (length s) | JArr xs \<Rightarrow> Inr (length xs) | JObj d \<Rightarrow> Inr (length d) | _ \<Rightarrow> type_error)"

definition is_int :: "json \<Rightarrow> bool" where
  "is_int v = (case v of JInt _ \<Rightarrow> True | JBool _ \<Rightarrow> True | _ \<Rightarrow> False)"

text \<open>\<open>for x in v\<close>.\<close>

definition j_iterate :: "json \<Rightarrow> json list res" where
  "j_iterate v = (case v of
     JArr xs \<Rightarrow> Inr xs | JStr s \<Rightarrow> Inr (map (\<lambda>c. JStr [c]) s) | JObj d \<Rightarrow> Inr (map (JStr \<circ> fst) d) | _ \<Rightarrow> type_error)"

text \<open>What a set of values compares: numbers by their value, texts, and nothing unhashable.\<close>

definition hash_view :: "json \<Rightarrow> (rat + string option) res" where
  "hash_view v = (case v of
     JStr s \<Rightarrow> Inr (Inr (Some s)) | JNull \<Rightarrow> Inr (Inr None) | JArr _ \<Rightarrow> type_error | JObj _ \<Rightarrow> type_error
   | _ \<Rightarrow> (case num_view v of Some x \<Rightarrow> Inr (Inl x) | None \<Rightarrow> type_error))"

text \<open>A chained comparison \<open>a <= b <= ...\<close>: an operand is evaluated when the ones before it hold.\<close>

fun ascending :: "json res list \<Rightarrow> bool res" where
  "ascending (a # b # rest) = rbind a (\<lambda>x. rbind b (\<lambda>y. rbind (j_num x) (\<lambda>p. rbind (j_num y) (\<lambda>q.
     if p \<le> q then ascending (Inr y # rest) else Inr False))))"
| "ascending _ = Inr True"

definition require :: "bool \<Rightarrow> string \<Rightarrow> unit res" where
  "require ok message = (if ok then Inr () else value_error message)"

definition require_that :: "bool res \<Rightarrow> string \<Rightarrow> unit res" where
  "require_that ok message = rbind ok (\<lambda>b. require b message)"

fun all_of :: "unit res list \<Rightarrow> unit res" where
  "all_of [] = Inr ()"
| "all_of (c # cs) = rbind c (\<lambda>_. all_of cs)"

subsection \<open>The text of a value\<close>

text \<open>\<open>repr\<close> of a value, and its text in a formatted string.\<close>

fun json_repr :: "(rat \<Rightarrow> string) \<Rightarrow> json \<Rightarrow> string" where
  "json_repr float_repr JNull = ''None''"
| "json_repr float_repr (JBool b) = (if b then ''True'' else ''False'')"
| "json_repr float_repr (JInt i) = show_int i"
| "json_repr float_repr (JFloat x) = float_repr x"
| "json_repr float_repr (JStr s) = py_repr s"
| "json_repr float_repr (JArr xs) = ''['' @ py_join '', '' (map (json_repr float_repr) xs) @ '']''"
| "json_repr float_repr (JObj d) =
     ''{'' @ py_join '', '' (map (\<lambda>(k, v). py_repr k @ '': '' @ json_repr float_repr v) d) @ ''}''"

definition json_text :: "(rat \<Rightarrow> string) \<Rightarrow> json \<Rightarrow> string" where
  "json_text float_repr v = (case v of JStr s \<Rightarrow> s | _ \<Rightarrow> json_repr float_repr v)"

text \<open>\<open>json.dumps\<close> with \<open>ensure_ascii\<close>.\<close>

definition escape_char :: "char \<Rightarrow> string" where
  "escape_char c =
     (if c = CHR 0x22 then [CHR 0x5C, CHR 0x22]
      else if c = CHR 0x5C then [CHR 0x5C, CHR 0x5C]
      else if c = CHR 0x0A then [CHR 0x5C, CHR ''n'']
      else if c = CHR 0x0D then [CHR 0x5C, CHR ''r'']
      else if c = CHR 0x09 then [CHR 0x5C, CHR ''t'']
      else if c = CHR 0x0C then [CHR 0x5C, CHR ''f'']
      else if c = CHR 0x08 then [CHR 0x5C, CHR ''b'']
      else if in_range 32 126 (code_of c) then [c]
      else [CHR 0x5C, CHR ''u'', CHR ''0'', CHR ''0''] @ py_lower (show_hex2 (int (code_of c))))"

definition quoted :: "string \<Rightarrow> string" where
  "quoted s = [CHR 0x22] @ concat (map escape_char s) @ [CHR 0x22]"

fun json_dumps :: "(rat \<Rightarrow> string) \<Rightarrow> json \<Rightarrow> string" where
  "json_dumps float_repr JNull = ''null''"
| "json_dumps float_repr (JBool b) = (if b then ''true'' else ''false'')"
| "json_dumps float_repr (JInt i) = show_int i"
| "json_dumps float_repr (JFloat x) = float_repr x"
| "json_dumps float_repr (JStr s) = quoted s"
| "json_dumps float_repr (JArr xs) = ''['' @ py_join '', '' (map (json_dumps float_repr) xs) @ '']''"
| "json_dumps float_repr (JObj d) =
     ''{'' @ py_join '', '' (map (\<lambda>(k, v). quoted k @ '': '' @ json_dumps float_repr v) d) @ ''}''"

subsection \<open>Arithmetic of numbers\<close>

definition int_view :: "json \<Rightarrow> int option" where
  "int_view v = (case v of JInt i \<Rightarrow> Some i | JBool b \<Rightarrow> Some (of_bool b) | _ \<Rightarrow> None)"

text \<open>Integers stay integers; with a float the result is one.\<close>

definition j_arith :: "(int \<Rightarrow> int \<Rightarrow> int) \<Rightarrow> (rat \<Rightarrow> rat \<Rightarrow> rat) \<Rightarrow> json \<Rightarrow> json \<Rightarrow> json res" where
  "j_arith on_int on_float v w =
     (case (int_view v, int_view w) of
        (Some a, Some b) \<Rightarrow> Inr (JInt (on_int a b))
      | _ \<Rightarrow> rbind (j_num v) (\<lambda>a. rbind (j_num w) (\<lambda>b. Inr (JFloat (on_float a b)))))"

end
