(* ===== verification/Shared_Config.thy ===== *)
theory Shared_Config
  imports Json_Values Credentials "HOL-Library.List_Lexorder" "HOL-Library.Char_ord"
begin

section \<open>The shared configuration\<close>

text \<open>
  \<open>protocol/shared_config.py\<close>: the validator of the JSON file that the Python client and the
  generator of the firmware header both read. Reading and parsing the file is not modelled: the
  model starts at the parsed value. \<open>windows\<close> says which flavour \<open>Path\<close> has.
\<close>

subsection \<open>Layouts\<close>

definition TYPE_SIZES :: "(string \<times> int) list" where
  "TYPE_SIZES = [(''u8'', 1), (''i8'', 1), (''u16'', 2), (''i16'', 2), (''u32'', 4), (''i32'', 4),
     (''bytes6'', 6), (''bytes16'', 16), (''bytes32'', 32)]"

fun layout_fields :: "(rat \<Rightarrow> string) \<Rightarrow> json list \<Rightarrow> int \<Rightarrow> (string, int) dict \<Rightarrow> (int \<times> (string, int) dict) res" where
  "layout_fields fr [] offset offsets = Inr (offset, offsets)"
| "layout_fields fr (f # fs) offset offsets =
     rbind (j_get f ''name'' JNull) (\<lambda>name.
     rbind (j_get f ''type'' JNull) (\<lambda>field_type.
     case name of
       JStr n \<Rightarrow>
         if n = [] then value_error ''layout fields require a non-empty name''
         else rbind (hash_view field_type) (\<lambda>_.
           case (case field_type of JStr t \<Rightarrow> dict_get TYPE_SIZES t | _ \<Rightarrow> None) of
             None \<Rightarrow> value_error (''unsupported field type: '' @ json_text fr field_type)
           | Some width \<Rightarrow>
               if dict_get offsets n \<noteq> None then value_error (''duplicate layout field: '' @ n)
               else layout_fields fr fs (offset + width) (dict_set n offset offsets))
     | _ \<Rightarrow> value_error ''layout fields require a non-empty name''))"

definition layout_details :: "(rat \<Rightarrow> string) \<Rightarrow> json \<Rightarrow> (int \<times> (string, int) dict) res" where
  "layout_details fr layout = rbind (j_iterate layout) (\<lambda>fs. layout_fields fr fs 0 [])"

definition layout_size :: "(rat \<Rightarrow> string) \<Rightarrow> json \<Rightarrow> int res" where
  "layout_size fr layout = rbind (layout_details fr layout) (\<lambda>(total, _). Inr total)"

subsection \<open>Sections\<close>

definition positive :: "json \<Rightarrow> string \<Rightarrow> string list \<Rightarrow> unit res" where
  "positive section section_name names = all_of (map (\<lambda>name.
     rbind (j_get section name JNull) (\<lambda>v.
       require (case v of JInt i \<Rightarrow> 0 < i | JFloat x \<Rightarrow> 0 < x | _ \<Rightarrow> False)
         (section_name @ ''.'' @ name @ '' must be positive''))) names)"

text \<open>The texts \<open>UUID\<close> accepts: \<open>int(hex, 16)\<close> of 32 characters; no minus is left in them, so the number fits.\<close>

fun remove_all :: "nat \<Rightarrow> string \<Rightarrow> string \<Rightarrow> string" where
  "remove_all 0 p s = s"
| "remove_all (Suc n) p s = (case s of [] \<Rightarrow> []
     | c # r \<Rightarrow> if p \<noteq> [] \<and> take (length p) s = p then remove_all n p (drop (length p) s) else c # remove_all n p r)"

definition strip_chars :: "char set \<Rightarrow> string \<Rightarrow> string" where
  "strip_chars cs s = rev (dropWhile (\<lambda>c. c \<in> cs) (rev (dropWhile (\<lambda>c. c \<in> cs) s)))"

text \<open>What \<open>int\<close> strips: the spaces of C, and the two of Latin-1.\<close>

definition int_spaces :: "char set" where
  "int_spaces = {CHR 0x09, CHR 0x0A, CHR 0x0B, CHR 0x0C, CHR 0x0D, CHR 0x20, CHR 0x85, CHR 0xA0}"

fun grouped_digits :: "string \<Rightarrow> bool" where
  "grouped_digits [] = False"
| "grouped_digits [c] = is_hex_char c"
| "grouped_digits (c # d # r) = (is_hex_char c \<and> (if d = CHR ''_'' then grouped_digits r else grouped_digits (d # r)))"

definition int16_text :: "string \<Rightarrow> bool" where
  "int16_text s =
     (let t = strip_chars int_spaces s;
          u = (if t \<noteq> [] \<and> (hd t = CHR ''-'' \<or> hd t = CHR ''+'') then tl t else t);
          prefixed = (length u \<ge> 2 \<and> u ! 0 = CHR ''0'' \<and> (u ! 1 = CHR ''x'' \<or> u ! 1 = CHR ''X''));
          d = (if prefixed then (if length u > 2 \<and> u ! 2 = CHR ''_'' then drop 3 u else drop 2 u) else u)
      in grouped_digits d)"

definition parse_uuid :: "string \<Rightarrow> unit res" where
  "parse_uuid value =
     (let h = remove_all (length value) ''urn:'' value;
          h = remove_all (length h) ''uuid:'' h;
          h = filter (\<lambda>c. c \<noteq> CHR ''-'') (strip_chars {CHR ''{'', CHR ''}''} h)
      in if length h \<noteq> 32 then value_error ''badly formed hexadecimal UUID string''
         else if \<not> int16_text h then value_error (''invalid literal for int() with base 16: '' @ py_repr h)
         else Inr ())"

definition validate_uuid :: "json \<Rightarrow> string \<Rightarrow> unit res" where
  "validate_uuid value name = (case value of
     JStr s \<Rightarrow> (case parse_uuid s of
         Inr _ \<Rightarrow> Inr ()
       | Inl e \<Rightarrow> raise_from ValueErrorC (''bluetooth.'' @ name @ '' is not a valid UUID'') e)
   | _ \<Rightarrow> value_error (''bluetooth.'' @ name @ '' must be a UUID string''))"

definition UUID_NAMES :: "string list" where
  "UUID_NAMES = [''service_uuid'', ''request_characteristic_uuid'', ''response_characteristic_uuid'']"

definition utf8_length :: "string \<Rightarrow> nat" where
  "utf8_length s = sum_list (map (\<lambda>c. if is_ascii_char c then 1 else 2) s)"

definition lower_text :: "json \<Rightarrow> string res" where
  "lower_text v = (case v of JStr s \<Rightarrow> Inr (py_lower s) | _ \<Rightarrow> attribute_error)"

text \<open>The supervision timeout must exceed two connection intervals at full latency.\<close>

definition supervision_ok :: "json \<Rightarrow> unit res" where
  "supervision_ok connection =
     rbind (rbind (j_index connection ''peripheral_latency'') j_num) (\<lambda>latency.
     rbind (rbind (j_index connection ''maximum_interval_ms'') j_num) (\<lambda>longest.
     rbind (rbind (j_index connection ''supervision_timeout_ms'') j_num) (\<lambda>timeout.
     require (2 * (latency + 1) * longest < timeout) ''Bluetooth supervision timeout is too short'')))"

definition validate_bluetooth :: "json \<Rightarrow> unit res" where
  "validate_bluetooth bluetooth =
     rbind (all_of (map (\<lambda>name. rbind (j_get bluetooth name JNull) (\<lambda>v. validate_uuid v name)) UUID_NAMES)) (\<lambda>_.
     rbind (rmap (\<lambda>name. rbind (j_index bluetooth name) lower_text) UUID_NAMES) (\<lambda>uuids.
     rbind (require (card (set uuids) = 3) ''service and characteristic UUIDs must be unique'') (\<lambda>_.
     rbind (j_get bluetooth ''device_name_prefix'' JNull) (\<lambda>prefix.
     rbind (require (case prefix of JStr s \<Rightarrow> s \<noteq> [] \<and> utf8_length s \<le> 17 | _ \<Rightarrow> False)
       ''bluetooth.device_name_prefix must be 1 to 17 UTF-8 bytes'') (\<lambda>_.
     rbind (require_that (ascending [Inr (JInt 23), j_get bluetooth ''preferred_att_mtu'' (JInt 0), Inr (JInt 517)])
       ''bluetooth.preferred_att_mtu must be between 23 and 517'') (\<lambda>_.
     rbind (j_index bluetooth ''advertising_interval_ms'') (\<lambda>advertising.
     rbind (require_that (ascending [Inr (JInt 20), j_index advertising ''minimum'', j_index advertising ''maximum'',
         Inr (JInt 10240)]) ''Bluetooth advertising interval range is invalid'') (\<lambda>_.
     rbind (j_index bluetooth ''preferred_connection'') (\<lambda>connection.
     rbind (require_that (ascending [Inr (JFloat (15 / 2)), j_index connection ''minimum_interval_ms'',
         j_index connection ''maximum_interval_ms'', Inr (JInt 4000)]) ''Bluetooth connection interval range is invalid'') (\<lambda>_.
     rbind (require_that (ascending [Inr (JInt 0), j_index connection ''peripheral_latency'', Inr (JInt 499)])
       ''Bluetooth peripheral latency must be between 0 and 499'') (\<lambda>_.
     supervision_ok connection)))))))))))"

definition validate_device :: "json \<Rightarrow> unit res" where
  "validate_device device =
     rbind (j_get device ''sensor_count'' JNull) (\<lambda>n.
     rbind (require (num_view n = Some 2) ''this protocol revision requires exactly two sensors'') (\<lambda>_.
     rbind (positive device ''device'' [''history_capacity_records'', ''sample_period_ms'', ''sampling_task_stack_bytes'',
       ''sampling_task_priority'', ''failed_reads_before_disconnected'', ''successful_reads_before_reconnected'']) (\<lambda>_.
     rbind (rbind (j_index device ''history_capacity_records'') j_num) (\<lambda>capacity.
     rbind (require (capacity \<le> 65535) ''device.history_capacity_records must fit in u16'') (\<lambda>_.
     require_that (ascending [Inr (JInt 0), j_index device ''default_backlight_percent'', Inr (JInt 100)])
       ''device.default_backlight_percent must be between 0 and 100'')))))"

definition validate_simulation :: "json \<Rightarrow> json \<Rightarrow> unit res" where
  "validate_simulation simulation device =
     rbind (j_get simulation ''sensors'' (JArr [])) (\<lambda>sensors.
     rbind (j_len sensors) (\<lambda>n.
     rbind (j_index device ''sensor_count'') (\<lambda>count.
     require (num_view count = Some (of_nat n)) ''simulation.sensors must contain one entry per sensor'')))"

definition validate_client :: "json \<Rightarrow> unit res" where
  "validate_client client =
     rbind (positive client ''client'' [''connect_timeout_seconds'', ''scan_timeout_seconds'', ''pairing_timeout_seconds'']) (\<lambda>_.
     rbind (j_get client ''use_cached_gatt_services'' JNull) (\<lambda>v.
     require (case v of JBool _ \<Rightarrow> True | _ \<Rightarrow> False) ''client.use_cached_gatt_services must be true or false''))"

text \<open>\<open>Path(s).name == s\<close>: no separator, no drive, and not a dot.\<close>

definition plain_name :: "bool \<Rightarrow> string \<Rightarrow> bool" where
  "plain_name windows s \<longleftrightarrow> s \<noteq> ''.'' \<and> CHR ''/'' \<notin> set s
     \<and> (windows \<longrightarrow> CHR 0x5C \<notin> set s \<and> \<not> (2 \<le> length s \<and> s ! 1 = CHR '':''))"

definition validate_service :: "bool \<Rightarrow> json \<Rightarrow> unit res" where
  "validate_service windows service =
     rbind (j_get service ''api_host'' JNull) (\<lambda>host.
     rbind (require (host = JStr ''127.0.0.1'') ''service.api_host must remain loopback-only (127.0.0.1)'') (\<lambda>_.
     rbind (require_that (ascending [Inr (JInt 1), j_get service ''api_port'' (JInt 0), Inr (JInt 65535)])
       ''service.api_port must be between 1 and 65535'') (\<lambda>_.
     rbind (positive service ''service'' [''startup_scan_timeout_seconds'', ''auto_discovery_interval_seconds'',
       ''recovery_deadline_seconds'', ''poll_interval_seconds'', ''poll_tolerance_seconds'', ''history_sync_budget_seconds'',
       ''display_command_timeout_seconds'', ''completed_operation_retention_seconds'', ''persistence_queue_capacity'']) (\<lambda>_.
     rbind (rbind (j_index service ''poll_tolerance_seconds'') j_num) (\<lambda>tolerance.
     rbind (rbind (j_index service ''poll_interval_seconds'') j_num) (\<lambda>interval.
     rbind (require (tolerance < interval) ''service.poll_tolerance_seconds must be shorter than the poll interval'') (\<lambda>_.
     rbind (j_get service ''history_chunk_retry_count'' JNull) (\<lambda>retries.
     rbind (require (is_int retries \<and> (case num_view retries of Some x \<Rightarrow> 0 \<le> x | None \<Rightarrow> False))
       ''service.history_chunk_retry_count cannot be negative'') (\<lambda>_.
     rbind (j_get service ''credential_registry_filename'' (JStr [])) (\<lambda>filename.
     case filename of
       JStr s \<Rightarrow> require (drop (length s - 4) s = ''.csv'' \<and> plain_name windows s)
         ''service.credential_registry_filename must name a CSV file''
     | _ \<Rightarrow> attribute_error))))))))))"

definition validate_authentication :: "json \<Rightarrow> unit res" where
  "validate_authentication authentication =
     rbind (j_get authentication ''domain_separator'' JNull) (\<lambda>domain.
     case domain of
       JStr s \<Rightarrow>
         rbind (require (s \<noteq> []) ''authentication.domain_separator cannot be empty'') (\<lambda>_.
         rbind (if py_isascii s then Inr () else raise_from ValueErrorC ''authentication.domain_separator must be ASCII''
             (Exc (OtherErrorC ''UnicodeEncodeError'') ''ordinal not in range(128)'' None [] None)) (\<lambda>_.
         rbind (j_get authentication ''nonce_size_bytes'' JNull) (\<lambda>nonce.
         rbind (require (num_view nonce = Some 16) ''authentication.nonce_size_bytes must be 16'') (\<lambda>_.
         rbind (j_get authentication ''proof_size_bytes'' JNull) (\<lambda>proof.
         rbind (require (num_view proof = Some 32) ''authentication.proof_size_bytes must be 32'') (\<lambda>_.
         positive authentication ''authentication'' [''challenge_timeout_seconds'', ''maximum_failures'', ''lockout_seconds'']))))))
     | _ \<Rightarrow> value_error ''authentication.domain_separator cannot be empty'')"

subsection \<open>The protocol section\<close>

definition validate_collection :: "json \<Rightarrow> string \<Rightarrow> unit res" where
  "validate_collection protocol name =
     (let unique = ''protocol.'' @ name @ '' values must be unique'' in
      rbind (j_get protocol name (JObj [])) (\<lambda>v.
      if \<not> j_true v then value_error unique
      else case v of
        JObj d \<Rightarrow>
          rbind (rmap (hash_view \<circ> snd) d) (\<lambda>keys.
          rbind (require (distinct keys) unique) (\<lambda>_.
          require (list_all (\<lambda>x. is_int (snd x) \<and> (case num_view (snd x) of Some q \<Rightarrow> 0 \<le> q \<and> q \<le> 255 | None \<Rightarrow> False)) d)
            (''protocol.'' @ name @ '' values must fit in u8'')))
      | _ \<Rightarrow> attribute_error))"

definition REQUIRED_LAYOUTS :: "string list" where
  "REQUIRED_LAYOUTS = [''header'', ''current_response'', ''set_display_request'', ''set_display_response'',
     ''history_meta_response'', ''history_chunk_request'', ''history_chunk_prefix'', ''history_record'',
     ''compact_history_record'', ''auth_begin_response'', ''auth_prove_request'']"

definition validate_layouts :: "(rat \<Rightarrow> string) \<Rightarrow> json \<Rightarrow> unit res" where
  "validate_layouts fr shapes = (case shapes of
     JObj d \<Rightarrow>
       rbind (require (set REQUIRED_LAYOUTS \<subseteq> set (dict_keys d)) ''protocol.layouts is incomplete'') (\<lambda>_.
       all_of (map (\<lambda>(_, l). rbind (layout_details fr l) (\<lambda>_. Inr ())) d))
   | _ \<Rightarrow> attribute_error)"

text \<open>A history response of the most records must fit into one ATT Read Response.\<close>

definition count_in_range :: "json \<Rightarrow> string \<Rightarrow> rat res" where
  "count_in_range protocol key =
     rbind (j_get protocol key (JInt 0)) (\<lambda>v.
     rbind (require_that (ascending [Inr (JInt 1), Inr v, Inr (JInt 255)]) (key @ '' must be between 1 and 255'')) (\<lambda>_. j_num v))"

definition size_at :: "(rat \<Rightarrow> string) \<Rightarrow> json \<Rightarrow> string \<Rightarrow> int res" where
  "size_at fr shapes name = rbind (j_index shapes name) (layout_size fr)"

definition require_fit :: "json \<Rightarrow> rat \<Rightarrow> string \<Rightarrow> unit res" where
  "require_fit bluetooth packet_size message =
     rbind (rbind (j_index bluetooth ''preferred_att_mtu'') j_num) (\<lambda>mtu. require (packet_size \<le> mtu - 1) message)"

definition validate_chunk_fits :: "(rat \<Rightarrow> string) \<Rightarrow> json \<Rightarrow> json \<Rightarrow> json \<Rightarrow> unit res" where
  "validate_chunk_fits fr protocol shapes bluetooth =
     rbind (count_in_range protocol ''max_history_records_per_chunk'') (\<lambda>maximum_records.
     rbind (size_at fr shapes ''header'') (\<lambda>header_size.
     rbind (size_at fr shapes ''history_chunk_prefix'') (\<lambda>prefix_size.
     rbind (size_at fr shapes ''history_record'') (\<lambda>record_size.
     rbind (require_fit bluetooth (of_int (header_size + prefix_size) + maximum_records * of_int record_size)
       ''maximum history response does not fit one ATT Read Response'') (\<lambda>_.
     rbind (count_in_range protocol ''max_compact_history_records_per_chunk'') (\<lambda>compact_records.
     rbind (size_at fr shapes ''compact_history_record'') (\<lambda>compact_size.
     require_fit bluetooth (of_int (header_size + prefix_size) + compact_records * of_int compact_size)
       ''maximum compact history response does not fit one ATT Read Response'')))))))"

definition validate_protocol :: "(rat \<Rightarrow> string) \<Rightarrow> json \<Rightarrow> json \<Rightarrow> unit res" where
  "validate_protocol fr protocol bluetooth =
     rbind (require_that (ascending [Inr (JInt 1), j_get protocol ''version'' (JInt 0), Inr (JInt 255)])
       ''protocol.version must be between 1 and 255'') (\<lambda>_.
     rbind (j_get protocol ''byte_order'' JNull) (\<lambda>order.
     rbind (require (order = JStr ''little'') ''implementations currently support little endian only'') (\<lambda>_.
     rbind (all_of (map (validate_collection protocol) [''opcodes'', ''status_codes'', ''visible_states'', ''data_statuses''])) (\<lambda>_.
     rbind (j_get protocol ''layouts'' (JObj [])) (\<lambda>shapes.
     rbind (validate_layouts fr shapes) (\<lambda>_.
     validate_chunk_fits fr protocol shapes bluetooth))))))"

subsection \<open>The whole file\<close>

definition REQUIRED_SECTIONS :: "string list" where
  "REQUIRED_SECTIONS = [''bluetooth'', ''device'', ''simulation'', ''client'', ''service'', ''authentication'', ''protocol'']"

definition load_and_validate :: "(rat \<Rightarrow> string) \<Rightarrow> bool \<Rightarrow> json \<Rightarrow> json res" where
  "load_and_validate fr windows config = (case config of
     JObj d \<Rightarrow>
       let absent = filter (\<lambda>s. s \<notin> set (dict_keys d)) REQUIRED_SECTIONS in
       rbind (require (absent = []) (''shared configuration is missing: '' @ py_join '', '' (sort absent))) (\<lambda>_.
       rbind (j_index config ''bluetooth'') (\<lambda>bluetooth. rbind (validate_bluetooth bluetooth) (\<lambda>_.
       rbind (j_index config ''device'') (\<lambda>device. rbind (validate_device device) (\<lambda>_.
       rbind (j_index config ''simulation'') (\<lambda>simulation. rbind (validate_simulation simulation device) (\<lambda>_.
       rbind (j_index config ''client'') (\<lambda>client. rbind (validate_client client) (\<lambda>_.
       rbind (j_index config ''service'') (\<lambda>service. rbind (validate_service windows service) (\<lambda>_.
       rbind (j_index config ''authentication'') (\<lambda>authentication. rbind (validate_authentication authentication) (\<lambda>_.
       rbind (j_index config ''protocol'') (\<lambda>protocol. rbind (validate_protocol fr protocol bluetooth) (\<lambda>_.
       Inr config)))))))))))))))
   | _ \<Rightarrow> attribute_error)"

end
