(* ===== verification/Shipped_Config.thy ===== *)
theory Shipped_Config
  imports Shared_Config
begin

section \<open>The shared definition of the repository\<close>

text \<open>
  \<open>protocol/thermometer_protocol.json\<close> as the parsed value the validator and the generator get.
  The layouts are those of theory Layouts, from which the Python client builds its structs.
\<close>

definition shipped_bluetooth :: json where
  "shipped_bluetooth = JObj
     [(''device_name_prefix'', JStr ''Thermometer-''),
      (''service_uuid'', JStr ''7e570001-7e57-4a11-9d8b-5f21d8a0c001''),
      (''request_characteristic_uuid'', JStr ''7e570002-7e57-4a11-9d8b-5f21d8a0c001''),
      (''response_characteristic_uuid'', JStr ''7e570003-7e57-4a11-9d8b-5f21d8a0c001''),
      (''preferred_att_mtu'', JInt 247),
      (''advertising_interval_ms'', JObj [(''minimum'', JInt 800), (''maximum'', JInt 1000)]),
      (''preferred_connection'', JObj
        [(''minimum_interval_ms'', JInt 50), (''maximum_interval_ms'', JInt 50),
         (''peripheral_latency'', JInt 1), (''supervision_timeout_ms'', JInt 6000)])]"

definition shipped_device :: json where
  "shipped_device = JObj
     [(''sensor_count'', JInt 2), (''history_capacity_records'', JInt 300), (''sample_period_ms'', JInt 1000),
      (''sampling_task_stack_bytes'', JInt 3072), (''sampling_task_priority'', JInt 5),
      (''failed_reads_before_disconnected'', JInt 1), (''successful_reads_before_reconnected'', JInt 1),
      (''default_backlight_percent'', JInt 100)]"

definition shipped_simulation :: json where
  "shipped_simulation = JObj
     [(''simulate_disconnects'', JBool True), (''disconnect_cycle_samples'', JInt 60),
      (''sensors'', JArr
        [JObj [(''center_centi_c'', JInt 2000), (''amplitude_centi_c'', JInt 300), (''wave_period_samples'', JInt 30),
           (''wave_offset_samples'', JInt 0), (''disconnect_start_sample'', JInt 55), (''disconnect_end_sample'', JInt 60)],
         JObj [(''center_centi_c'', JInt 2250), (''amplitude_centi_c'', JInt 220), (''wave_period_samples'', JInt 40),
           (''wave_offset_samples'', JInt 9), (''disconnect_start_sample'', JInt 25), (''disconnect_end_sample'', JInt 30)]])]"

definition shipped_client :: json where
  "shipped_client = JObj
     [(''connect_timeout_seconds'', JFloat 20), (''scan_timeout_seconds'', JFloat 5),
      (''pairing_timeout_seconds'', JFloat 30), (''use_cached_gatt_services'', JBool False)]"

definition shipped_service :: json where
  "shipped_service = JObj
     [(''api_host'', JStr ''127.0.0.1''), (''api_port'', JInt 8000), (''startup_scan_timeout_seconds'', JFloat (5 / 2)),
      (''auto_discovery_interval_seconds'', JFloat 2), (''recovery_deadline_seconds'', JFloat 10),
      (''poll_interval_seconds'', JFloat 1), (''poll_tolerance_seconds'', JFloat (1 / 10)),
      (''history_sync_budget_seconds'', JFloat 10), (''history_chunk_retry_count'', JInt 2),
      (''display_command_timeout_seconds'', JFloat 5), (''completed_operation_retention_seconds'', JFloat 600),
      (''persistence_queue_capacity'', JInt 300), (''credential_registry_filename'', JStr ''paired_devices.csv'')]"

definition shipped_authentication :: json where
  "shipped_authentication = JObj
     [(''domain_separator'', JStr ''THERMOMETER-AUTH-V2''), (''nonce_size_bytes'', JInt 16),
      (''proof_size_bytes'', JInt 32), (''challenge_timeout_seconds'', JFloat 5), (''maximum_failures'', JInt 3),
      (''lockout_seconds'', JFloat 30)]"

definition shipped_layouts :: "(string \<times> json) list" where
  "shipped_layouts = map (\<lambda>(n, fields).
     (n, JArr (map (\<lambda>(f, t). JObj [(''name'', JStr f), (''type'', JStr t)]) fields))) layouts"

definition shipped_protocol :: json where
  "shipped_protocol = JObj
     [(''version'', JInt 2), (''byte_order'', JStr ''little''), (''response_flag'', JInt 1),
      (''max_history_records_per_chunk'', JInt 32), (''max_compact_history_records_per_chunk'', JInt 72),
      (''opcodes'', JObj
        [(''get_current'', JInt 1), (''set_display'', JInt 2), (''get_history_meta'', JInt 3),
         (''get_history_chunk'', JInt 4), (''auth_begin'', JInt 5), (''auth_prove'', JInt 6),
         (''reset_bond'', JInt 7), (''get_history_chunk_compact'', JInt 8)]),
      (''status_codes'', JObj
        [(''success'', JInt 0), (''invalid_command'', JInt 1), (''invalid_sensor'', JInt 2), (''invalid_value'', JInt 3),
         (''not_available'', JInt 4), (''internal_error'', JInt 5), (''unsupported_version'', JInt 6),
         (''authentication_required'', JInt 7), (''authentication_failed'', JInt 8), (''authentication_locked'', JInt 9)]),
      (''visible_states'', JObj [(''off'', JInt 0), (''on'', JInt 1), (''disconnected'', JInt 2)]),
      (''data_statuses'', JObj [(''valid'', JInt 0), (''disconnected'', JInt 1)]),
      (''layouts'', JObj shipped_layouts)]"

definition shipped_config :: json where
  "shipped_config = JObj
     [(''bluetooth'', shipped_bluetooth), (''device'', shipped_device), (''simulation'', shipped_simulation),
      (''client'', shipped_client), (''service'', shipped_service), (''authentication'', shipped_authentication),
      (''protocol'', shipped_protocol)]"

end
