(* ===== verification/Firmware_Header.thy ===== *)
theory Firmware_Header
  imports Shipped_Config
begin

section \<open>The generated firmware header\<close>

text \<open>
  \<open>protocol/generate_firmware_config.py\<close>: the C constants that the firmware compiles against,
  generated from the configuration the validator of theory Shared_Config accepted. The command line
  and the writing of the file are not modelled. The arithmetic on a section's numbers assumes they
  are numbers, as the validator demands of them; anything else is a \<open>TypeError\<close> here.
\<close>

subsection \<open>Names, texts and units\<close>

text \<open>\<open>upper()\<close> of a Latin-1 text as far as ASCII goes: only the sharp s becomes two letters.\<close>

definition upper_ascii :: "string \<Rightarrow> string" where
  "upper_ascii s = concat (map (\<lambda>c. if c = CHR 0xDF then ''SS'' else if is_ascii_lower c then [upper_char c] else [c]) s)"

text \<open>A run of other characters becomes one underscore.\<close>

fun collapse :: "bool \<Rightarrow> string \<Rightarrow> string" where
  "collapse in_run [] = []"
| "collapse in_run (c # cs) =
     (if is_ascii_upper c \<or> is_ascii_digit c then c # collapse False cs
      else if in_run then collapse True cs else CHR ''_'' # collapse True cs)"

definition macro_name :: "string \<Rightarrow> string" where
  "macro_name value = strip_chars {CHR ''_''} (collapse False (upper_ascii value))"

definition c_string :: "(rat \<Rightarrow> string) \<Rightarrow> json \<Rightarrow> string" where
  "c_string fr value = json_dumps fr value"

definition divides_exactly :: "json \<Rightarrow> int \<Rightarrow> bool" where
  "divides_exactly v d = (case v of JInt i \<Rightarrow> i mod d = 0 | JFloat x \<Rightarrow> of_int (floor (x / of_int d)) = x / of_int d | _ \<Rightarrow> False)"

definition integer_units :: "(rat \<Rightarrow> string) \<Rightarrow> json \<Rightarrow> int \<Rightarrow> int \<Rightarrow> string \<Rightarrow> json res" where
  "integer_units fr milliseconds numerator denominator name =
     rbind (j_arith (*) (*) milliseconds (JInt numerator)) (\<lambda>scaled.
     if \<not> divides_exactly scaled denominator then
       value_error (name @ ''='' @ json_text fr milliseconds @ '' ms cannot be represented exactly'')
     else j_arith (\<lambda>a b. a div b) (\<lambda>a b. of_int (floor (a / b))) scaled (JInt denominator))"

definition validate_pairing_passkey :: "string \<Rightarrow> unit res" where
  "validate_pairing_passkey pairing_passkey =
     require (length pairing_passkey = 6 \<and> list_all is_ascii_digit pairing_passkey)
       ''pairing passkey must contain exactly six digits''"

definition digits_value :: "string \<Rightarrow> int" where
  "digits_value s = foldl (\<lambda>n c. 10 * n + (int (code_of c) - 48)) 0 s"

text \<open>\<open>int(v * 1000)\<close>.\<close>

definition thousandths :: "json \<Rightarrow> int res" where
  "thousandths v = rbind (j_arith (*) (*) v (JInt 1000)) (\<lambda>p. case p of
     JInt i \<Rightarrow> Inr i
   | JFloat x \<Rightarrow> Inr (if x < 0 then - floor (- x) else floor x)
   | _ \<Rightarrow> type_error)"

subsection \<open>Lines\<close>

definition define_raw :: "string \<Rightarrow> string \<Rightarrow> string" where
  "define_raw macro value = ''#define '' @ macro @ '' '' @ value"

definition define_u :: "(rat \<Rightarrow> string) \<Rightarrow> string \<Rightarrow> json \<Rightarrow> string" where
  "define_u fr macro v = define_raw macro (json_text fr v @ ''U'')"

definition entry :: "(rat \<Rightarrow> string) \<Rightarrow> json \<Rightarrow> string \<times> string \<Rightarrow> string res" where
  "entry fr section mk = rbind (j_index section (snd mk)) (\<lambda>v. Inr (define_u fr (fst mk) v))"

definition text_entry :: "(rat \<Rightarrow> string) \<Rightarrow> json \<Rightarrow> string \<times> string \<Rightarrow> string res" where
  "text_entry fr section mk = rbind (j_index section (snd mk)) (\<lambda>v. Inr (define_raw (fst mk) (c_string fr v)))"

definition units_entry :: "(rat \<Rightarrow> string) \<Rightarrow> json \<Rightarrow> string \<times> string \<times> int \<times> int \<times> string \<Rightarrow> string res" where
  "units_entry fr section e = (case e of (macro, key, numerator, denominator, name) \<Rightarrow>
     rbind (j_index section key) (\<lambda>v. rbind (integer_units fr v numerator denominator name) (\<lambda>u. Inr (define_u fr macro u))))"

definition items_of :: "json \<Rightarrow> (string \<times> json) list res" where
  "items_of v = (case v of JObj d \<Rightarrow> Inr d | _ \<Rightarrow> attribute_error)"

definition identity_lines :: "(rat \<Rightarrow> string) \<Rightarrow> json \<Rightarrow> string \<Rightarrow> string \<Rightarrow> string list res" where
  "identity_lines fr bluetooth source_name pairing_passkey =
     rbind (rmap (text_entry fr bluetooth)
       [(''THERMOMETER_BLE_DEVICE_NAME_PREFIX'', ''device_name_prefix''),
        (''THERMOMETER_BLE_SERVICE_UUID'', ''service_uuid''),
        (''THERMOMETER_BLE_REQUEST_UUID'', ''request_characteristic_uuid''),
        (''THERMOMETER_BLE_RESPONSE_UUID'', ''response_characteristic_uuid'')]) (\<lambda>texts.
     rbind (entry fr bluetooth (''THERMOMETER_BLE_PREFERRED_ATT_MTU'', ''preferred_att_mtu'')) (\<lambda>mtu.
     Inr ([''#pragma once'', [],
        ''/* Generated from '' @ source_name @ ''. Do not edit this file directly. */'', []] @ texts
       @ [define_u fr ''THERMOMETER_BLE_PAIRING_PASSKEY'' (JInt (digits_value pairing_passkey)),
          define_raw ''THERMOMETER_BLE_PAIRING_PASSKEY_TEXT'' (c_string fr (JStr pairing_passkey)), mtu])))"

definition radio_lines :: "(rat \<Rightarrow> string) \<Rightarrow> json \<Rightarrow> string list res" where
  "radio_lines fr bluetooth =
     rbind (j_index bluetooth ''advertising_interval_ms'') (\<lambda>advertising.
     rbind (j_index bluetooth ''preferred_connection'') (\<lambda>connection.
     rbind (rmap (units_entry fr advertising)
       [(''THERMOMETER_BLE_ADV_INTERVAL_MIN_UNITS'', ''minimum'', 8, 5, ''advertising minimum''),
        (''THERMOMETER_BLE_ADV_INTERVAL_MAX_UNITS'', ''maximum'', 8, 5, ''advertising maximum'')]) (\<lambda>a.
     rbind (rmap (units_entry fr connection)
       [(''THERMOMETER_BLE_CONN_INTERVAL_MIN_UNITS'', ''minimum_interval_ms'', 4, 5, ''connection minimum''),
        (''THERMOMETER_BLE_CONN_INTERVAL_MAX_UNITS'', ''maximum_interval_ms'', 4, 5, ''connection maximum'')]) (\<lambda>c.
     rbind (entry fr connection (''THERMOMETER_BLE_PERIPHERAL_LATENCY'', ''peripheral_latency'')) (\<lambda>l.
     rbind (units_entry fr connection
       (''THERMOMETER_BLE_SUPERVISION_TIMEOUT_UNITS'', ''supervision_timeout_ms'', 1, 10, ''supervision timeout'')) (\<lambda>s.
     Inr (a @ c @ [l, s, []])))))))"

definition device_lines :: "(rat \<Rightarrow> string) \<Rightarrow> json \<Rightarrow> string list res" where
  "device_lines fr device = rmap (entry fr device)
     [(''THERMOMETER_SENSOR_COUNT'', ''sensor_count''),
      (''THERMOMETER_HISTORY_CAPACITY'', ''history_capacity_records''),
      (''THERMOMETER_SAMPLE_PERIOD_MS'', ''sample_period_ms''),
      (''THERMOMETER_SAMPLING_TASK_STACK_BYTES'', ''sampling_task_stack_bytes''),
      (''THERMOMETER_SAMPLING_TASK_PRIORITY'', ''sampling_task_priority''),
      (''THERMOMETER_FAILED_READ_LIMIT'', ''failed_reads_before_disconnected''),
      (''THERMOMETER_SUCCESSFUL_READ_LIMIT'', ''successful_reads_before_reconnected''),
      (''THERMOMETER_DEFAULT_BACKLIGHT_PERCENT'', ''default_backlight_percent'')]"

definition disconnect_lines :: "(rat \<Rightarrow> string) \<Rightarrow> json \<Rightarrow> string list res" where
  "disconnect_lines fr simulation =
     rbind (j_index simulation ''simulate_disconnects'') (\<lambda>v.
     rbind (entry fr simulation (''THERMOMETER_FAKE_DISCONNECT_CYCLE_SAMPLES'', ''disconnect_cycle_samples'')) (\<lambda>cycle.
     Inr [[], define_u fr ''THERMOMETER_FAKE_DISCONNECTS'' (JInt (if j_true v then 1 else 0)), cycle]))"

definition sensor_lines :: "(rat \<Rightarrow> string) \<Rightarrow> nat \<times> json \<Rightarrow> string list res" where
  "sensor_lines fr e = rbind (items_of (snd e)) (\<lambda>d.
     Inr (map (\<lambda>(key, value). define_raw
       (''THERMOMETER_FAKE_SENSOR_'' @ show_nat (fst e) @ ''_'' @ macro_name key) (json_text fr value)) d))"

definition authentication_lines :: "(rat \<Rightarrow> string) \<Rightarrow> json \<Rightarrow> string list res" where
  "authentication_lines fr authentication =
     rbind (text_entry fr authentication (''THERMOMETER_AUTH_DOMAIN'', ''domain_separator'')) (\<lambda>domain.
     rbind (rmap (entry fr authentication)
       [(''THERMOMETER_AUTH_NONCE_SIZE'', ''nonce_size_bytes''), (''THERMOMETER_AUTH_PROOF_SIZE'', ''proof_size_bytes'')]) (\<lambda>sizes.
     rbind (rbind (j_index authentication ''challenge_timeout_seconds'') thousandths) (\<lambda>challenge.
     rbind (entry fr authentication (''THERMOMETER_AUTH_MAX_FAILURES'', ''maximum_failures'')) (\<lambda>failures.
     rbind (rbind (j_index authentication ''lockout_seconds'') thousandths) (\<lambda>lockout.
     Inr ([[], domain] @ sizes @ [define_u fr ''THERMOMETER_AUTH_CHALLENGE_TIMEOUT_MS'' (JInt challenge), failures,
       define_u fr ''THERMOMETER_AUTH_LOCKOUT_MS'' (JInt lockout), []]))))))"

definition version_lines :: "(rat \<Rightarrow> string) \<Rightarrow> json \<Rightarrow> string list res" where
  "version_lines fr protocol = rmap (entry fr protocol)
     [(''THERMOMETER_PROTOCOL_VERSION'', ''version''),
      (''PROTOCOL_RESPONSE_FLAG'', ''response_flag''),
      (''PROTOCOL_MAX_HISTORY_RECORDS'', ''max_history_records_per_chunk''),
      (''PROTOCOL_MAX_COMPACT_HISTORY_RECORDS'', ''max_compact_history_records_per_chunk'')]"

definition group_lines :: "(rat \<Rightarrow> string) \<Rightarrow> json \<Rightarrow> string \<times> string \<Rightarrow> string list res" where
  "group_lines fr protocol g =
     rbind (rbind (j_index protocol (fst g)) items_of) (\<lambda>d.
     Inr (map (\<lambda>(name, value). define_u fr (snd g @ ''_'' @ macro_name name) value) d))"

definition layout_lines :: "(rat \<Rightarrow> string) \<Rightarrow> string \<times> json \<Rightarrow> string list res" where
  "layout_lines fr e =
     rbind (layout_details fr (snd e)) (\<lambda>(total, offsets).
     let prefix = ''PROTOCOL_'' @ macro_name (fst e) in
     Inr ([[], define_u fr (prefix @ ''_SIZE'') (JInt total)]
       @ map (\<lambda>(field_name, offset). define_u fr (prefix @ ''_'' @ macro_name field_name @ ''_OFFSET'') (JInt offset)) offsets))"

definition response_size :: "json \<Rightarrow> string \<Rightarrow> int \<Rightarrow> int \<Rightarrow> json res" where
  "response_size protocol count_key fixed record_size =
     rbind (j_index protocol count_key) (\<lambda>count.
     rbind (j_arith (*) (*) count (JInt record_size)) (\<lambda>records. j_arith (+) (+) (JInt fixed) records))"

definition packet_size_line :: "(rat \<Rightarrow> string) \<Rightarrow> json \<Rightarrow> json \<Rightarrow> string list res" where
  "packet_size_line fr protocol shapes =
     rbind (size_at fr shapes ''header'') (\<lambda>header_size.
     rbind (size_at fr shapes ''history_chunk_prefix'') (\<lambda>prefix_size.
     rbind (size_at fr shapes ''history_record'') (\<lambda>record_size.
     rbind (size_at fr shapes ''compact_history_record'') (\<lambda>compact_record_size.
     rbind (response_size protocol ''max_history_records_per_chunk'' (header_size + prefix_size) record_size) (\<lambda>a.
     rbind (response_size protocol ''max_compact_history_records_per_chunk'' (header_size + prefix_size) compact_record_size) (\<lambda>b.
     rbind (j_num a) (\<lambda>x. rbind (j_num b) (\<lambda>y.
     Inr [[], define_u fr ''PROTOCOL_MAX_PACKET_SIZE'' (if x < y then b else a), []]))))))))"

subsection \<open>The header\<close>

definition header_lines :: "(rat \<Rightarrow> string) \<Rightarrow> json \<Rightarrow> string \<Rightarrow> string \<Rightarrow> string list res" where
  "header_lines fr config source_name pairing_passkey =
     rbind (validate_pairing_passkey pairing_passkey) (\<lambda>_.
     rbind (j_index config ''bluetooth'') (\<lambda>bluetooth.
     rbind (j_index config ''device'') (\<lambda>device.
     rbind (j_index config ''simulation'') (\<lambda>simulation.
     rbind (j_index config ''authentication'') (\<lambda>authentication.
     rbind (j_index config ''protocol'') (\<lambda>protocol.
     rbind (j_index protocol ''layouts'') (\<lambda>shapes.
     rbind (identity_lines fr bluetooth source_name pairing_passkey) (\<lambda>l1.
     rbind (radio_lines fr bluetooth) (\<lambda>l2.
     rbind (device_lines fr device) (\<lambda>l3.
     rbind (disconnect_lines fr simulation) (\<lambda>l4.
     rbind (rbind (j_index simulation ''sensors'') j_iterate) (\<lambda>sensors.
     rbind (rmap (sensor_lines fr) (enumerate 1 sensors)) (\<lambda>l5.
     rbind (authentication_lines fr authentication) (\<lambda>l6.
     rbind (version_lines fr protocol) (\<lambda>l7.
     rbind (rmap (group_lines fr protocol)
       [(''opcodes'', ''PROTOCOL_OPCODE_VALUE''), (''status_codes'', ''PROTOCOL_STATUS_VALUE''),
        (''visible_states'', ''PROTOCOL_VISIBLE_STATE_VALUE''), (''data_statuses'', ''PROTOCOL_DATA_STATUS_VALUE'')]) (\<lambda>l8.
     rbind (items_of shapes) (\<lambda>d.
     rbind (rmap (layout_lines fr) d) (\<lambda>l9.
     rbind (packet_size_line fr protocol shapes) (\<lambda>l10.
     Inr (l1 @ l2 @ l3 @ l4 @ concat l5 @ l6 @ l7 @ concat l8 @ concat l9 @ l10))))))))))))))))))))"

definition generate_header :: "(rat \<Rightarrow> string) \<Rightarrow> json \<Rightarrow> string \<Rightarrow> string \<Rightarrow> string res" where
  "generate_header fr config source_name pairing_passkey =
     rbind (header_lines fr config source_name pairing_passkey) (\<lambda>ls. Inr (py_join [CHR 0x0A] ls))"

end
