(* ===== verification/Config_Props.thy ===== *)
theory Config_Props
  imports Firmware_Header
begin

section \<open>What the configuration guarantees\<close>

text \<open>
  Facts of theories Shared_Config and Firmware_Header: the offsets the generator writes for the
  firmware are the ones at which the struct codec of the Python client reads, and an accepted
  configuration keeps every history response within one ATT Read Response.
\<close>

lemma rbind_InrE: "rbind m f = Inr w \<Longrightarrow> (\<And>v. m = Inr v \<Longrightarrow> f v = Inr w \<Longrightarrow> P) \<Longrightarrow> P"
  by (auto simp: rbind_Inr_iff)

subsection \<open>Layouts\<close>

text \<open>The name and type of a well-formed field.\<close>

definition json_field :: "json \<Rightarrow> (string \<times> string) option" where
  "json_field f = (case f of
     JObj d \<Rightarrow> (case (dict_get d ''name'', dict_get d ''type'') of
       (Some (JStr n), Some (JStr t)) \<Rightarrow> if n = [] then None else Some (n, t) | _ \<Rightarrow> None)
   | _ \<Rightarrow> None)"

lemma TYPE_SIZES_codes: "dict_get TYPE_SIZES t = map_option (\<lambda>c. int (code_size c)) (struct_codes t)"
  by (simp add: TYPE_SIZES_def struct_codes_def)

lemma hash_view_JStr [simp]: "hash_view (JStr s) = Inr (Inr (Some s))"
  by (simp add: hash_view_def)

lemma json_field_SomeD:
  assumes "json_field f = Some (n, t)"
  shows "j_get f ''name'' JNull = Inr (JStr n)" "j_get f ''type'' JNull = Inr (JStr t)" "n \<noteq> []"
  using assms by (auto simp: json_field_def j_get_def split: json.splits option.splits if_splits)

lemma field_SomeI:
  "j_get f ''name'' JNull = Inr (JStr n) \<Longrightarrow> j_get f ''type'' JNull = Inr (JStr t) \<Longrightarrow> n \<noteq> [] \<Longrightarrow> json_field f = Some (n, t)"
  by (cases f) (auto simp: json_field_def j_get_def split: option.splits)

lemma layout_fields_Cons_iff:
  "layout_fields fr (f # fs) offset offsets = Inr r \<longleftrightarrow>
     (\<exists>n t c. json_field f = Some (n, t) \<and> struct_codes t = Some c \<and> n \<notin> set (dict_keys offsets)
        \<and> layout_fields fr fs (offset + int (code_size c)) (offsets @ [(n, offset)]) = Inr r)"
  (is "?l \<longleftrightarrow> ?r")
proof
  assume ?l
  then obtain nm ty where v: "j_get f ''name'' JNull = Inr nm" "j_get f ''type'' JNull = Inr ty"
    "(case nm of JStr n \<Rightarrow>
         if n = [] then value_error ''layout fields require a non-empty name''
         else rbind (hash_view ty) (\<lambda>_. case (case ty of JStr t \<Rightarrow> dict_get TYPE_SIZES t | _ \<Rightarrow> None) of
             None \<Rightarrow> value_error (''unsupported field type: '' @ json_text fr ty)
           | Some width \<Rightarrow> if dict_get offsets n \<noteq> None then value_error (''duplicate layout field: '' @ n)
               else layout_fields fr fs (offset + width) (dict_set n offset offsets))
     | _ \<Rightarrow> value_error ''layout fields require a non-empty name'') = Inr r"
    by (simp only: layout_fields.simps) (elim rbind_InrE)
  from v(3) obtain n where n: "nm = JStr n" "n \<noteq> []" by (cases nm) (simp_all split: if_splits)
  from v(3) obtain t width where t: "ty = JStr t" "dict_get TYPE_SIZES t = Some width" "dict_get offsets n = None"
    "layout_fields fr fs (offset + width) (dict_set n offset offsets) = Inr r"
    by (cases ty) (simp_all add: n rbind_Inr_iff split: option.splits if_splits)
  show ?r using field_SomeI [OF v(1,2) [unfolded n t] n(2)] t(2-4)
    by (auto simp: TYPE_SIZES_codes dict_get_None_iff dict_set_new)
next
  assume ?r
  then obtain n t c where f: "json_field f = Some (n, t)" "struct_codes t = Some c" "n \<notin> set (dict_keys offsets)"
    "layout_fields fr fs (offset + int (code_size c)) (offsets @ [(n, offset)]) = Inr r" by blast
  have "dict_get offsets n = None" using f(3) by (simp only: dict_get_None_iff not_False_eq_True)
  then show ?l
    by (simp only: layout_fields.simps json_field_SomeD [OF f(1)] rbind_simps json.case TYPE_SIZES_codes f(2)
        option.map option.case hash_view_JStr if_False simp_thms dict_set_new [OF f(3)] f(4))
qed

text \<open>The offsets of the fields from a start, as the fields are laid side by side.\<close>

fun field_offsets :: "int \<Rightarrow> string list \<Rightarrow> struct_code list \<Rightarrow> (string, int) dict" where
  "field_offsets offset (n # ns) (c # cs) = (n, offset) # field_offsets (offset + int (code_size c)) ns cs"
| "field_offsets offset _ _ = []"

lemma field_offsets_nth:
  "length ns = length cs \<Longrightarrow>
     field_offsets offset ns cs = map (\<lambda>k. (ns ! k, offset + int (struct_size (take k cs)))) [0..<length cs]"
  by (induction offset ns cs rule: field_offsets.induct)
    (auto simp: upt_conv_Cons map_Suc_upt [symmetric] o_def add.assoc simp del: upt_Suc)

lemma layout_fields_iff:
  "layout_fields fr fs offset offsets = Inr (whole, out) \<longleftrightarrow>
     (\<exists>named cs. map json_field fs = map Some named \<and> map (\<lambda>f. struct_codes (snd f)) named = map Some cs
        \<and> distinct (map fst named) \<and> set (map fst named) \<inter> set (dict_keys offsets) = {}
        \<and> whole = offset + int (struct_size cs) \<and> out = offsets @ field_offsets offset (map fst named) cs)"
proof (induction fs arbitrary: offset offsets)
  case Nil then show ?case by auto
next
  case (Cons f fs)
  show ?case (is "?l \<longleftrightarrow> ?r")
  proof
    assume ?l
    then obtain n t c where f: "json_field f = Some (n, t)" "struct_codes t = Some c" "n \<notin> set (dict_keys offsets)"
      "layout_fields fr fs (offset + int (code_size c)) (offsets @ [(n, offset)]) = Inr (whole, out)"
      unfolding layout_fields_Cons_iff by blast
    from f(4) obtain named cs where r: "map json_field fs = map Some named" "map (\<lambda>f. struct_codes (snd f)) named = map Some cs"
      "distinct (map fst named)" "set (map fst named) \<inter> set (dict_keys (offsets @ [(n, offset)])) = {}"
      "whole = offset + int (code_size c) + int (struct_size cs)"
      "out = (offsets @ [(n, offset)]) @ field_offsets (offset + int (code_size c)) (map fst named) cs"
      unfolding Cons.IH by blast
    show ?r
      by (rule exI [of _ "(n, t) # named"], rule exI [of _ "c # cs"]) (use f(1-3) r in auto)
  next
    assume ?r
    then obtain n t c named cs where r: "json_field f = Some (n, t)" "struct_codes t = Some c"
      "map json_field fs = map Some named" "map (\<lambda>f. struct_codes (snd f)) named = map Some cs"
      "distinct (n # map fst named)" "set (n # map fst named) \<inter> set (dict_keys offsets) = {}"
      "whole = offset + int (struct_size (c # cs))" "out = offsets @ field_offsets offset (n # map fst named) (c # cs)"
      by (auto simp: map_eq_Cons_conv Cons_eq_map_conv)
    have "layout_fields fr fs (offset + int (code_size c)) (offsets @ [(n, offset)]) = Inr (whole, out)"
      unfolding Cons.IH
      by (rule exI [of _ named], rule exI [of _ cs]) (use r(3-8) in auto)
    then show ?l unfolding layout_fields_Cons_iff using r(1,2,6) by auto
  qed
qed

text \<open>
  The offsets and the size that the generator computes for a layout are those of the struct
  codec of the Python client: it accepts a list of fields exactly when every field has a name and a
  type the codec knows and no name repeats, the size is the size of the struct, and the offset of a
  field is the size of the fields before it.
\<close>

theorem layout_details_exact:
  "layout_details fr (JArr fs) = Inr (whole, offsets) \<longleftrightarrow>
     (\<exists>named cs. map json_field fs = map Some named \<and> map (\<lambda>f. struct_codes (snd f)) named = map Some cs
        \<and> distinct (map fst named) \<and> whole = int (struct_size cs)
        \<and> offsets = map (\<lambda>k. (fst (named ! k), int (struct_size (take k cs)))) [0..<length cs])"
  (is "?l \<longleftrightarrow> (\<exists>named cs. ?r named cs)")
proof -
  have "field_offsets 0 (map fst named) cs = map (\<lambda>k. (fst (named ! k), int (struct_size (take k cs)))) [0..<length cs]"
    if "map (\<lambda>f. struct_codes (snd f)) named = map Some cs" for named :: "(string \<times> string) list" and cs
    using map_eq_imp_length_eq [OF that] by (auto simp: field_offsets_nth)
  then show ?thesis
    by (auto simp: layout_details_def j_iterate_def layout_fields_iff)
qed

subsection \<open>The header\<close>

text \<open>The value at a path of keys.\<close>

fun json_at :: "json \<Rightarrow> string list \<Rightarrow> json option" where
  "json_at v [] = Some v"
| "json_at (JObj d) (k # ks) = (case dict_get d k of None \<Rightarrow> None | Some w \<Rightarrow> json_at w ks)"
| "json_at v (k # ks) = None"

lemma j_index_iff: "j_index v k = Inr w \<longleftrightarrow> (\<exists>d. v = JObj d \<and> dict_get d k = Some w)"
  by (cases v) (auto simp: j_index_def split: option.splits)

lemma j_num_iff: "j_num v = Inr q \<longleftrightarrow> num_view v = Some q"
  by (simp add: j_num_def split: option.splits)

lemma struct_unpack_at:
  "k < length cs \<Longrightarrow>
     struct_unpack cs bs ! k = unpack_value (cs ! k) (take (code_size (cs ! k)) (drop (struct_size (take k cs)) bs))"
  by (induction cs arbitrary: k bs) (auto simp: nth_Cons ac_simps split: nat.splits)

text \<open>The parts of the header that speak of the protocol.\<close>

lemma header_parts:
  assumes "header_lines fr config source_name key = Inr ls"
  obtains protocol shapes d parts last where
    "j_index config ''protocol'' = Inr protocol" "j_index protocol ''layouts'' = Inr shapes" "shapes = JObj d"
    "rmap (layout_lines fr) d = Inr parts" "packet_size_line fr protocol shapes = Inr last"
    "set (concat parts) \<subseteq> set ls" "set last \<subseteq> set ls"
proof -
  from assms obtain protocol shapes d parts last where p:
    "j_index config ''protocol'' = Inr protocol" "j_index protocol ''layouts'' = Inr shapes" "items_of shapes = Inr d"
    "rmap (layout_lines fr) d = Inr parts" "packet_size_line fr protocol shapes = Inr last"
    "set (concat parts) \<subseteq> set ls" "set last \<subseteq> set ls"
    unfolding header_lines_def by (elim rbind_InrE) (force simp del: rbind_simps)
  moreover have "shapes = JObj d" using p(3) by (cases shapes) (auto simp: items_of_def)
  ultimately show ?thesis by (intro that)
qed

lemma layout_lines_of:
  assumes "layout_lines fr (name, JArr fs) = Inr part"
  shows "\<exists>named cs. map json_field fs = map Some named \<and> map (\<lambda>f. struct_codes (snd f)) named = map Some cs
    \<and> define_u fr (''PROTOCOL_'' @ macro_name name @ ''_SIZE'') (JInt (int (struct_size cs))) \<in> set part
    \<and> (\<forall>k<length cs. define_u fr (''PROTOCOL_'' @ macro_name name @ ''_'' @ macro_name (fst (named ! k)) @ ''_OFFSET'')
         (JInt (int (struct_size (take k cs)))) \<in> set part)"
proof -
  from assms obtain whole offsets where l: "layout_details fr (JArr fs) = Inr (whole, offsets)"
    "part = [[], define_u fr ((''PROTOCOL_'' @ macro_name name) @ ''_SIZE'') (JInt whole)]
       @ map (\<lambda>(f, pos). define_u fr ((''PROTOCOL_'' @ macro_name name) @ ''_'' @ macro_name f @ ''_OFFSET'') (JInt pos)) offsets"
    by (auto simp: layout_lines_def rbind_Inr_iff Let_def)
  from l(1) obtain named cs where n: "map json_field fs = map Some named" "map (\<lambda>f. struct_codes (snd f)) named = map Some cs"
    "distinct (map fst named)" "whole = 0 + int (struct_size cs)" "offsets = [] @ field_offsets 0 (map fst named) cs"
    unfolding layout_details_def j_iterate_def json.case rbind_simps layout_fields_iff by blast
  have len: "length (map fst named) = length cs" using map_eq_imp_length_eq [OF n(2)] by simp
  have "(fst (named ! k), int (struct_size (take k cs))) \<in> set offsets" if "k < length cs" for k
    using that len by (auto simp: n(5) field_offsets_nth [OF len] image_iff)
  then show ?thesis
    by (intro exI [of _ named] exI [of _ cs]) (force simp: n(1,2,4) l(2))
qed

text \<open>
  C25: The firmware and the Python client agree on every packet layout: when the header is generated,
  every layout of the configuration has its size and the offset of each of its fields among the
  generated constants, and the struct codec of the client, on any packet, reads that field exactly at
  that offset.
\<close>

theorem header_offsets_exact:
  assumes "header_lines fr config source_name key = Inr ls"
    and "json_at config [''protocol'', ''layouts''] = Some (JObj d)" and "(name, JArr fs) \<in> set d"
  shows "\<exists>named cs. map json_field fs = map Some named \<and> map (\<lambda>f. struct_codes (snd f)) named = map Some cs
    \<and> define_u fr (''PROTOCOL_'' @ macro_name name @ ''_SIZE'') (JInt (int (struct_size cs))) \<in> set ls
    \<and> (\<forall>k<length cs. \<exists>pos. define_u fr (''PROTOCOL_'' @ macro_name name @ ''_'' @ macro_name (fst (named ! k)) @ ''_OFFSET'')
           (JInt (int pos)) \<in> set ls
         \<and> (\<forall>packet. struct_unpack cs packet ! k = unpack_value (cs ! k) (take (code_size (cs ! k)) (drop pos packet))))"
proof -
  obtain protocol shapes d' parts last where p:
    "j_index config ''protocol'' = Inr protocol" "j_index protocol ''layouts'' = Inr shapes" "shapes = JObj d'"
    "rmap (layout_lines fr) d' = Inr parts" "packet_size_line fr protocol shapes = Inr last"
    "set (concat parts) \<subseteq> set ls" "set last \<subseteq> set ls"
    using assms(1) by (rule header_parts)
  have "d' = d" using p(1-3) assms(2) by (auto simp: j_index_iff)
  then obtain i where i: "i < length d'" "d' ! i = (name, JArr fs)" using assms(3) by (auto simp: in_set_conv_nth)
  have part: "layout_lines fr (name, JArr fs) = Inr (parts ! i)" using rmap_Inr_nth [OF p(4) i(1)] i(2) by simp
  have "parts ! i \<in> set parts" using i(1) rmap_Inr_length [OF p(4)] by simp
  then have sub: "set (parts ! i) \<subseteq> set ls" using p(6) by auto
  from layout_lines_of [OF part] obtain named cs where n: "map json_field fs = map Some named"
    "map (\<lambda>f. struct_codes (snd f)) named = map Some cs"
    "define_u fr (''PROTOCOL_'' @ macro_name name @ ''_SIZE'') (JInt (int (struct_size cs))) \<in> set (parts ! i)"
    "\<forall>k<length cs. define_u fr (''PROTOCOL_'' @ macro_name name @ ''_'' @ macro_name (fst (named ! k)) @ ''_OFFSET'')
       (JInt (int (struct_size (take k cs)))) \<in> set (parts ! i)"
    by blast
  show ?thesis
    by (intro exI [of _ named] exI [of _ cs] conjI n(1,2) allI impI, use sub n(3) in blast)
      (use sub n(4) struct_unpack_at in blast)
qed

text \<open>The shared definition is accepted, and its header is generated.\<close>

lemmas entry_defs = entry_def text_entry_def units_entry_def j_index_def

lemma shipped_small_parts:
  "\<exists>l. identity_lines fr shipped_bluetooth source_name key = Inr l" "\<exists>l. device_lines fr shipped_device = Inr l"
  "\<exists>l. disconnect_lines fr shipped_simulation = Inr l" "\<exists>l. version_lines fr shipped_protocol = Inr l"
  "\<exists>l. authentication_lines fr shipped_authentication = Inr l"
  by (simp_all add: identity_lines_def device_lines_def disconnect_lines_def version_lines_def authentication_lines_def
      entry_defs shipped_bluetooth_def shipped_device_def shipped_simulation_def shipped_protocol_def
      shipped_authentication_def thousandths_def j_arith_def int_view_def num_view_def j_num_def)

lemma shipped_radio: "\<exists>l. radio_lines fr shipped_bluetooth = Inr l"
  by (simp add: radio_lines_def entry_defs shipped_bluetooth_def integer_units_def j_arith_def int_view_def divides_exactly_def)


lemma shipped_lists:
  "rbind (j_index shipped_simulation ''sensors'') j_iterate = Inr ss \<Longrightarrow> \<exists>l. rmap (sensor_lines fr) (enumerate 1 ss) = Inr l"
  "\<exists>l. rmap (group_lines fr shipped_protocol)
       [(''opcodes'', ''PROTOCOL_OPCODE_VALUE''), (''status_codes'', ''PROTOCOL_STATUS_VALUE''),
        (''visible_states'', ''PROTOCOL_VISIBLE_STATE_VALUE''), (''data_statuses'', ''PROTOCOL_DATA_STATUS_VALUE'')] = Inr l"
  by (auto simp: shipped_simulation_def j_index_def j_iterate_def sensor_lines_def group_lines_def items_of_def shipped_protocol_def)

lemma not_isl_ex: "\<not> isl m \<Longrightarrow> \<exists>v. m = Inr v"
  by (cases m) auto

lemma shipped_layout_details: "list_all (\<lambda>e. \<not> isl (layout_details (\<lambda>_. []) (snd e))) shipped_layouts"
  by code_simp

lemma rmap_ok: "(\<And>x. x \<in> set xs \<Longrightarrow> \<exists>y. f x = Inr y) \<Longrightarrow> \<exists>ys. rmap f xs = Inr ys"
  by (induction xs) force+

lemma shipped_layout_lines: "\<exists>l. rmap (layout_lines (\<lambda>_. [])) shipped_layouts = Inr l"
proof (rule rmap_ok)
  fix e assume "e \<in> set shipped_layouts"
  then have "\<not> isl (layout_details (\<lambda>_. []) (snd e))" using shipped_layout_details by (simp add: list_all_iff)
  then show "\<exists>l. layout_lines (\<lambda>_. []) e = Inr l"
    by (cases "layout_details (\<lambda>_. []) (snd e)") (auto simp: layout_lines_def Let_def)
qed

lemma shipped_packet_size: "\<not> isl (packet_size_line (\<lambda>_. []) shipped_protocol (JObj shipped_layouts))"
  by code_simp

lemma shipped_sections:
  "j_index shipped_config ''bluetooth'' = Inr shipped_bluetooth" "j_index shipped_config ''device'' = Inr shipped_device"
  "j_index shipped_config ''simulation'' = Inr shipped_simulation" "j_index shipped_config ''protocol'' = Inr shipped_protocol"
  "j_index shipped_config ''authentication'' = Inr shipped_authentication"
  "j_index shipped_protocol ''layouts'' = Inr (JObj shipped_layouts)" "items_of (JObj shipped_layouts) = Inr shipped_layouts"
  by (simp_all add: j_index_def shipped_config_def shipped_protocol_def items_of_def)

lemma shipped_header: "\<exists>ls. header_lines (\<lambda>_. []) shipped_config ''thermometer_protocol.json'' ''012345'' = Inr ls"
proof -
  obtain z where z: "packet_size_line (\<lambda>_. []) shipped_protocol (JObj shipped_layouts) = Inr z"
    using not_isl_ex [OF shipped_packet_size] by blast
  obtain ss where ss: "rbind (j_index shipped_simulation ''sensors'') j_iterate = Inr ss"
    by (simp add: j_index_def j_iterate_def shipped_simulation_def)
  have k: "validate_pairing_passkey ''012345'' = Inr ()"
    by (simp add: validate_pairing_passkey_def require_def is_ascii_digit_def in_range_def code_of_def)
  note small = shipped_small_parts [of "\<lambda>_. []"]
  obtain l1 l2 l3 l4 l6 l7 where l: "identity_lines (\<lambda>_. []) shipped_bluetooth ''thermometer_protocol.json'' ''012345'' = Inr l1"
    "radio_lines (\<lambda>_. []) shipped_bluetooth = Inr l2" "device_lines (\<lambda>_. []) shipped_device = Inr l3"
    "disconnect_lines (\<lambda>_. []) shipped_simulation = Inr l4" "authentication_lines (\<lambda>_. []) shipped_authentication = Inr l6"
    "version_lines (\<lambda>_. []) shipped_protocol = Inr l7"
    using small(1) small(2-5) shipped_radio [of "\<lambda>_. []"] by blast
  obtain l5 where l5: "rmap (sensor_lines (\<lambda>_. [])) (enumerate 1 ss) = Inr l5" using shipped_lists(1) [OF ss] by blast
  obtain l8 where l8: "rmap (group_lines (\<lambda>_. []) shipped_protocol)
       [(''opcodes'', ''PROTOCOL_OPCODE_VALUE''), (''status_codes'', ''PROTOCOL_STATUS_VALUE''),
        (''visible_states'', ''PROTOCOL_VISIBLE_STATE_VALUE''), (''data_statuses'', ''PROTOCOL_DATA_STATUS_VALUE'')] = Inr l8"
    using shipped_lists(2) by blast
  obtain l9 where l9: "rmap (layout_lines (\<lambda>_. [])) shipped_layouts = Inr l9" using shipped_layout_lines by blast
  show ?thesis
    unfolding header_lines_def k shipped_sections rbind_simps ss z l l5 l8 l9 by blast
qed

lemma shipped_accepted: "load_and_validate (\<lambda>_. []) False shipped_config = Inr shipped_config"
  by code_simp

lemma shipped_layouts_at: "json_at shipped_config [''protocol'', ''layouts''] = Some (JObj shipped_layouts)"
  by (simp add: shipped_config_def shipped_protocol_def)

theorem header_offsets_exact_witness:
  "\<exists>ls. header_lines (\<lambda>_. []) shipped_config ''thermometer_protocol.json'' ''012345'' = Inr ls
     \<and> define_u (\<lambda>_. []) (''PROTOCOL_'' @ macro_name ''compact_history_record'' @ ''_SIZE'') (JInt 3) \<in> set ls"
proof -
  obtain ls where ls: "header_lines (\<lambda>_. []) shipped_config ''thermometer_protocol.json'' ''012345'' = Inr ls"
    using shipped_header by blast
  have "(''compact_history_record'', JArr [JObj [(''name'', JStr ''temperature_centi_c''), (''type'', JStr ''i16'')],
      JObj [(''name'', JStr ''data_status''), (''type'', JStr ''u8'')]]) \<in> set shipped_layouts"
    by (simp add: shipped_layouts_def layouts_def)
  from header_offsets_exact [OF ls shipped_layouts_at this] show ?thesis
    using ls by (auto simp: json_field_def struct_codes_def map_eq_Cons_conv Cons_eq_map_conv)
qed

text \<open>What a range check that passed says.\<close>

lemma ascending_range:
  assumes "require_that (ascending [Inr (JInt lo), m, Inr (JInt hi)]) message = Inr ()"
  shows "\<exists>x q. m = Inr x \<and> num_view x = Some q \<and> of_int lo \<le> q \<and> q \<le> of_int hi"
  using assms
  by (cases m) (auto simp: require_that_def rbind_Inr_iff require_def j_num_iff num_view_def split: if_splits json.splits)

lemma require_iff [simp]: "require b message = Inr u \<longleftrightarrow> b"
  by (simp add: require_def)

lemma count_in_rangeD:
  assumes "count_in_range protocol key = Inr n"
  shows "\<exists>v. j_get protocol key (JInt 0) = Inr v \<and> num_view v = Some n \<and> 1 \<le> n \<and> n \<le> 255"
proof -
  obtain v u where v: "j_get protocol key (JInt 0) = Inr v" "num_view v = Some n"
    "require_that (ascending [Inr (JInt 1), Inr v, Inr (JInt 255)]) (key @ '' must be between 1 and 255'') = Inr ()"
    using assms unfolding count_in_range_def by (elim rbind_InrE) (simp add: j_num_iff)
  then show ?thesis using ascending_range [OF v(3)] by auto
qed

lemma require_fitD:
  "require_fit bluetooth n message = Inr u \<Longrightarrow>
     \<exists>v mtu. j_index bluetooth ''preferred_att_mtu'' = Inr v \<and> num_view v = Some mtu \<and> n \<le> mtu - 1"
  by (auto simp: require_fit_def rbind_Inr_iff j_num_iff)

text \<open>The generator recomputes the greater of the two sizes the validator compared.\<close>

lemma response_size_num:
  assumes "response_size protocol key fixed width = Inr v" "count_in_range protocol key = Inr n"
  shows "num_view v = Some (of_int fixed + n * of_int width)"
proof -
  obtain c w where c: "j_index protocol key = Inr c" "j_arith (*) (*) c (JInt width) = Inr w"
    "j_arith (+) (+) (JInt fixed) w = Inr v"
    using assms(1) by (auto simp: response_size_def rbind_Inr_iff)
  have "num_view c = Some n"
    using count_in_rangeD [OF assms(2)] c(1) by (auto simp: j_index_iff j_get_def)
  then show ?thesis
    using c(2,3) by (cases c)
      (auto simp: j_arith_def int_view_def num_view_def j_num_def split: if_splits option.splits json.splits)
qed

lemma num_view_le_json: "num_view a = Some x \<Longrightarrow> num_view b = Some y \<Longrightarrow> num_view (if x < y then b else a) = Some (max x y)"
  by (auto simp: max_def)

lemma packet_size_lineD:
  assumes "packet_size_line fr protocol shapes = Inr l" "validate_chunk_fits fr protocol shapes bluetooth = Inr u"
  shows "\<exists>v n m mtu. define_u fr ''PROTOCOL_MAX_PACKET_SIZE'' v \<in> set l \<and> num_view v = Some n
    \<and> j_index bluetooth ''preferred_att_mtu'' = Inr m \<and> num_view m = Some mtu \<and> n \<le> mtu - 1"
proof -
  from assms(2) obtain nr h p r cr c where v:
    "count_in_range protocol ''max_history_records_per_chunk'' = Inr nr" "size_at fr shapes ''header'' = Inr h"
    "size_at fr shapes ''history_chunk_prefix'' = Inr p" "size_at fr shapes ''history_record'' = Inr r"
    "require_fit bluetooth (of_int (h + p) + nr * of_int r) ''maximum history response does not fit one ATT Read Response'' = Inr ()"
    "count_in_range protocol ''max_compact_history_records_per_chunk'' = Inr cr"
    "size_at fr shapes ''compact_history_record'' = Inr c"
    "require_fit bluetooth (of_int (h + p) + cr * of_int c) ''maximum compact history response does not fit one ATT Read Response'' = Inr ()"
    unfolding validate_chunk_fits_def by (elim rbind_InrE) simp
  from assms(1) obtain a b x y where g:
    "response_size protocol ''max_history_records_per_chunk'' (h + p) r = Inr a"
    "response_size protocol ''max_compact_history_records_per_chunk'' (h + p) c = Inr b"
    "num_view a = Some x" "num_view b = Some y"
    "l = [[], define_u fr ''PROTOCOL_MAX_PACKET_SIZE'' (if x < y then b else a), []]"
    unfolding packet_size_line_def v rbind_simps by (elim rbind_InrE) (simp add: j_num_iff)
  have "x = of_int (h + p) + nr * of_int r" "y = of_int (h + p) + cr * of_int c"
    using response_size_num [OF g(1) v(1)] response_size_num [OF g(2) v(6)] g(3,4) by simp_all
  moreover obtain m mtu where "j_index bluetooth ''preferred_att_mtu'' = Inr m" "num_view m = Some mtu"
    "of_int (h + p) + nr * of_int r \<le> mtu - 1" "of_int (h + p) + cr * of_int c \<le> mtu - 1"
    using require_fitD [OF v(5)] require_fitD [OF v(8)] by auto
  ultimately show ?thesis
    using num_view_le_json [OF g(3,4)]
    by (intro exI [of _ "if x < y then b else a"] exI [of _ "max x y"] exI [of _ m] exI [of _ mtu]) (auto simp: g(5))
qed

lemma load_and_validateD:
  assumes "load_and_validate fr windows config = Inr c"
  obtains bluetooth device service protocol shapes where "c = config"
    "j_index config ''bluetooth'' = Inr bluetooth" "validate_bluetooth bluetooth = Inr ()"
    "j_index config ''device'' = Inr device" "validate_device device = Inr ()"
    "j_index config ''service'' = Inr service" "validate_service windows service = Inr ()"
    "j_index config ''protocol'' = Inr protocol" "j_get protocol ''layouts'' (JObj []) = Inr shapes"
    "validate_chunk_fits fr protocol shapes bluetooth = Inr ()"
proof -
  obtain d where d: "config = JObj d"
    using assms by (cases config) (auto simp: load_and_validate_def)
  from assms obtain bluetooth device service protocol where v: "c = config"
    "j_index config ''bluetooth'' = Inr bluetooth" "validate_bluetooth bluetooth = Inr ()"
    "j_index config ''device'' = Inr device" "validate_device device = Inr ()"
    "j_index config ''service'' = Inr service" "validate_service windows service = Inr ()"
    "j_index config ''protocol'' = Inr protocol" "validate_protocol fr protocol bluetooth = Inr ()"
    unfolding load_and_validate_def d json.case Let_def by (elim rbind_InrE) simp
  from v(9) obtain shapes where "j_get protocol ''layouts'' (JObj []) = Inr shapes"
    "validate_chunk_fits fr protocol shapes bluetooth = Inr ()"
    unfolding validate_protocol_def by (elim rbind_InrE) simp
  with v show ?thesis by (intro that) auto
qed

lemma json_at_2: "j_index config s = Inr v \<Longrightarrow> json_at config [s, k] = json_at v [k]"
  by (auto simp: j_index_iff)

lemma json_at_1: "j_index v k = Inr w \<longleftrightarrow> json_at v [k] = Some w"
  by (cases v) (auto simp: j_index_def split: option.splits)

text \<open>
  C26: Every response the firmware is compiled to send fits the link: of an accepted configuration
  the generated header states a maximum packet size, and that size is at most the preferred ATT MTU
  less one byte, in which one ATT Read Response fits.
\<close>

theorem accepted_packets_fit:
  assumes "load_and_validate fr windows config = Inr c" and "header_lines fr config source_name key = Inr ls"
  shows "\<exists>v n m mtu. define_u fr ''PROTOCOL_MAX_PACKET_SIZE'' v \<in> set ls \<and> num_view v = Some n
    \<and> json_at config [''bluetooth'', ''preferred_att_mtu''] = Some m \<and> num_view m = Some mtu \<and> n \<le> mtu - 1"
proof -
  obtain bluetooth device service protocol shapes where c:
    "j_index config ''bluetooth'' = Inr bluetooth" "j_index config ''protocol'' = Inr protocol"
    "j_get protocol ''layouts'' (JObj []) = Inr shapes" "validate_chunk_fits fr protocol shapes bluetooth = Inr ()"
    using assms(1) by (rule load_and_validateD)
  obtain protocol' shapes' d parts last where h:
    "j_index config ''protocol'' = Inr protocol'" "j_index protocol' ''layouts'' = Inr shapes'" "shapes' = JObj d"
    "rmap (layout_lines fr) d = Inr parts" "packet_size_line fr protocol' shapes' = Inr last"
    "set (concat parts) \<subseteq> set ls" "set last \<subseteq> set ls"
    using assms(2) by (rule header_parts)
  have "protocol' = protocol" "shapes' = shapes" using c h(1,2) by (auto simp: j_index_iff j_get_def)
  then have "packet_size_line fr protocol shapes = Inr last" using h(5) by simp
  from packet_size_lineD [OF this c(4)] h(7) show ?thesis
    unfolding json_at_2 [OF c(1)] json_at_1 by blast
qed

theorem accepted_packets_fit_witness:
  "\<exists>ls v n. header_lines (\<lambda>_. []) shipped_config ''thermometer_protocol.json'' ''012345'' = Inr ls
     \<and> define_u (\<lambda>_. []) ''PROTOCOL_MAX_PACKET_SIZE'' v \<in> set ls \<and> num_view v = Some n \<and> n \<le> 246"
proof -
  obtain ls where ls: "header_lines (\<lambda>_. []) shipped_config ''thermometer_protocol.json'' ''012345'' = Inr ls"
    using shipped_header by blast
  from accepted_packets_fit [OF shipped_accepted ls] show ?thesis
    using ls by (auto simp: shipped_config_def shipped_bluetooth_def num_view_def)
qed

lemma all_of_mem: "all_of cs = Inr u \<Longrightarrow> c \<in> set cs \<Longrightarrow> c = Inr ()"
  by (induction cs) (auto simp: rbind_Inr_iff)

lemma positiveD:
  assumes "positive section name keys = Inr u" "k \<in> set keys"
  shows "\<exists>v q. j_get section k JNull = Inr v \<and> num_view v = Some q \<and> 0 < q"
proof -
  have "rbind (j_get section k JNull) (\<lambda>v. require (case v of JInt i \<Rightarrow> 0 < i | JFloat x \<Rightarrow> 0 < x | _ \<Rightarrow> False)
      (name @ ''.'' @ k @ '' must be positive'')) = Inr ()"
    using all_of_mem [OF assms(1) [unfolded positive_def]] assms(2) by auto
  then obtain v where "j_get section k JNull = Inr v" "case v of JInt i \<Rightarrow> 0 < i | JFloat x \<Rightarrow> 0 < x | _ \<Rightarrow> False"
    by (elim rbind_InrE) simp
  then show ?thesis by (cases v) (auto simp: num_view_def)
qed

lemma j_get_json_at: "j_get v k dflt = Inr w \<Longrightarrow> w \<noteq> dflt \<Longrightarrow> json_at v [k] = Some w"
  by (cases v) (auto simp: j_get_def split: option.splits)

text \<open>
  What the rest of the program takes for granted of an accepted configuration: the HTTP API
  listens on the loopback address only, on a valid port; there are exactly two sensors; the ring of
  the firmware has a positive number of records that fits 16 bits; and the poll tolerance is positive
  and shorter than the poll interval.
\<close>

theorem accepted_settings_safe:
  assumes "load_and_validate fr windows config = Inr c"
  shows "c = config \<and> json_at config [''service'', ''api_host''] = Some (JStr ''127.0.0.1'')
    \<and> (\<exists>v p. json_at config [''service'', ''api_port''] = Some v \<and> num_view v = Some p \<and> 1 \<le> p \<and> p \<le> 65535)
    \<and> (\<exists>v. json_at config [''device'', ''sensor_count''] = Some v \<and> num_view v = Some 2)
    \<and> (\<exists>v n. json_at config [''device'', ''history_capacity_records''] = Some v \<and> num_view v = Some n \<and> 0 < n \<and> n \<le> 65535)
    \<and> (\<exists>v w t i. json_at config [''service'', ''poll_tolerance_seconds''] = Some v \<and> num_view v = Some t
         \<and> json_at config [''service'', ''poll_interval_seconds''] = Some w \<and> num_view w = Some i \<and> 0 < t \<and> t < i)"
proof -
  obtain device service where c: "c = config"
    "j_index config ''device'' = Inr device" "validate_device device = Inr ()"
    "j_index config ''service'' = Inr service" "validate_service windows service = Inr ()"
    using assms by (rule load_and_validateD)
  from c(3) obtain sc hc n where d: "j_get device ''sensor_count'' JNull = Inr sc" "num_view sc = Some 2"
    "j_index device ''history_capacity_records'' = Inr hc" "num_view hc = Some n" "n \<le> 65535"
    "positive device ''device'' [''history_capacity_records'', ''sample_period_ms'', ''sampling_task_stack_bytes'',
       ''sampling_task_priority'', ''failed_reads_before_disconnected'', ''successful_reads_before_reconnected''] = Inr ()"
    unfolding validate_device_def by (elim rbind_InrE) (simp add: j_num_iff)
  from c(5) obtain vt t vi i where s: "j_get service ''api_host'' JNull = Inr (JStr ''127.0.0.1'')"
    "require_that (ascending [Inr (JInt 1), j_get service ''api_port'' (JInt 0), Inr (JInt 65535)])
       ''service.api_port must be between 1 and 65535'' = Inr ()"
    "j_index service ''poll_tolerance_seconds'' = Inr vt" "num_view vt = Some t"
    "j_index service ''poll_interval_seconds'' = Inr vi" "num_view vi = Some i" "t < i"
    "positive service ''service'' [''startup_scan_timeout_seconds'', ''auto_discovery_interval_seconds'',
       ''recovery_deadline_seconds'', ''poll_interval_seconds'', ''poll_tolerance_seconds'', ''history_sync_budget_seconds'',
       ''display_command_timeout_seconds'', ''completed_operation_retention_seconds'', ''persistence_queue_capacity''] = Inr ()"
    unfolding validate_service_def by (elim rbind_InrE) (simp add: j_num_iff)
  have "0 < n" using positiveD [OF d(6), of "''history_capacity_records''"] d(3,4) by (auto simp: j_index_iff j_get_def)
  moreover have "0 < t" using positiveD [OF s(8), of "''poll_tolerance_seconds''"] s(3,4) by (auto simp: j_index_iff j_get_def)
  moreover obtain vp p where "j_get service ''api_port'' (JInt 0) = Inr vp" "num_view vp = Some p" "1 \<le> p" "p \<le> 65535"
    using ascending_range [OF s(2)] by auto
  moreover from this have "json_at service [''api_port''] = Some vp" by (intro j_get_json_at) (auto simp: num_view_def)
  moreover have "json_at device [''sensor_count''] = Some sc" using d(1,2) by (intro j_get_json_at) (auto simp: num_view_def)
  ultimately show ?thesis
    using c(1) d(2-5) s(3-7) j_get_json_at [OF s(1)] unfolding json_at_2 [OF c(2)] json_at_2 [OF c(4)] json_at_1 by auto
qed

theorem accepted_settings_safe_witness:
  "json_at shipped_config [''service'', ''api_host''] = Some (JStr ''127.0.0.1'')"
  using accepted_settings_safe [OF shipped_accepted] by blast

subsection \<open>What the validator lets through\<close>

text \<open>
  The validator admits a connection interval of 7.5 ms, the least the Bluetooth specification knows.
  The generator finds it representable, but its quotient is a float, and so is its text.
\<close>

lemma fractional_interval_is_float:
  "integer_units fr (JFloat (15 / 2)) 4 5 name = Inr (JFloat 6)"
  "define_u fr macro (JFloat 6) = define_raw macro (fr 6 @ ''U'')"
  by (simp_all add: integer_units_def j_arith_def int_view_def j_num_def num_view_def divides_exactly_def define_u_def json_text_def)

text \<open>The generator needs keys that the validator does not ask for.\<close>

lemma generator_needs_response_flag:
  "\<lbrakk>j_index protocol ''version'' = Inr v; json_at protocol [''response_flag''] = None\<rbrakk> \<Longrightarrow>
     version_lines fr protocol = raise KeyErrorC (py_repr ''response_flag'')"
  by (cases protocol) (auto simp: version_lines_def entry_def j_index_def split: option.splits)

end
