(* ===== verification/Traced_Calls.thy ===== *)
theory Traced_Calls
  imports Coroutines
begin

section \<open>Conversations with the operating system\<close>

text \<open>
  The pairing backends talk to the Bluetooth stack of the operating system, which may answer a call
  with anything, an exception and a cancellation included. Their state is the trace of the calls made
  so far with their answers: what a backend did is read off it. \<open>conversation c Q\<close> says that \<open>Q\<close>
  holds of the outcome and the trace of \<open>c\<close> whatever the answers are.
\<close>

type_synonym ('q, 'r) trace = "('q \<times> 'r res) list"

type_synonym ('q, 'r, 'a) talk = "('q, 'r, ('q, 'r) trace, 'a) coro"

definition note_call :: "'q \<Rightarrow> 'r res \<Rightarrow> (('q, 'r) trace, unit) act" where
  "note_call q r t = (Inr (), t @ [(q, r)])"

definition ask :: "'q \<Rightarrow> ('q, 'r, 'r) talk" where
  "ask q = cbind (cattempt (await q)) (\<lambda>r. cthen (work (note_call q r)) (Finished r))"

text \<open>An answer read as a value of the kind the call has.\<close>

definition ask_as :: "('r \<Rightarrow> 'a option) \<Rightarrow> 'q \<Rightarrow> ('q, 'r, 'a) talk" where
  "ask_as pick q = cbind (ask q) (\<lambda>r. case pick r of Some v \<Rightarrow> creturn v
     | None \<Rightarrow> craise (Exc TypeErrorC ''unexpected reply'' None [] None))"

text \<open>\<open>try: c except Exception: pass\<close>.\<close>

definition ignoring :: "(exc \<Rightarrow> bool) \<Rightarrow> ('q, 'r, 'a) talk \<Rightarrow> ('q, 'r, unit) talk" where
  "ignoring p c = ccatch (cbind c (\<lambda>_. creturn ())) p (\<lambda>_. creturn ())"

definition conversation :: "('q, 'r, 'a) talk \<Rightarrow> ('a res \<Rightarrow> ('q, 'r) trace \<Rightarrow> bool) \<Rightarrow> ('q, 'r) trace \<Rightarrow> bool" where
  "conversation c Q t = cwp (=) (\<lambda>_ _. True) c Q t"

lemma conversation_ask [simp]: "conversation (ask q) Q t \<longleftrightarrow> (\<forall>r. Q r (t @ [(q, r)]))"
  by (simp add: conversation_def ask_def cwp_cbind cwp_cattempt cwp_cthen note_call_def)

lemma conversation_basic [simp]:
  "conversation (creturn v) Q t \<longleftrightarrow> Q (Inr v) t" "conversation (craise e) Q t \<longleftrightarrow> Q (Inl e) t"
  "conversation (Finished r) Q t \<longleftrightarrow> Q r t" "conversation (work m) Q t \<longleftrightarrow> (case m t of (r, t') \<Rightarrow> Q r t')"
  "conversation (if b then c else d) Q t \<longleftrightarrow> (if b then conversation c Q t else conversation d Q t)"
  by (simp_all add: conversation_def)

lemma conversation_cbind:
  "conversation (cbind c f) Q t \<longleftrightarrow>
     conversation c (\<lambda>r t. (\<forall>e. r = Inl e \<longrightarrow> Q (Inl e) t) \<and> (\<forall>v. r = Inr v \<longrightarrow> conversation (f v) Q t)) t"
  unfolding conversation_def cwp_cbind by (rule iffI; erule cwp_mono) (auto split: sum.splits)

lemma conversation_cthen:
  "conversation (cthen c d) Q t \<longleftrightarrow>
     conversation c (\<lambda>r t. (\<forall>e. r = Inl e \<longrightarrow> Q (Inl e) t) \<and> (\<forall>v. r = Inr v \<longrightarrow> conversation d Q t)) t"
  unfolding cthen_def conversation_cbind ..

lemma conversation_ccatch:
  "conversation (ccatch c p h) Q t \<longleftrightarrow>
     conversation c (\<lambda>r t. (\<forall>e. r = Inl e \<longrightarrow> (if p e then conversation (h e) Q t else Q (Inl e) t))
       \<and> (\<forall>v. r = Inr v \<longrightarrow> Q (Inr v) t)) t"
  unfolding conversation_def cwp_ccatch by (rule iffI; erule cwp_mono) (auto split: sum.splits)

lemma conversation_cfinally:
  "conversation (cfinally c d) Q t \<longleftrightarrow>
     conversation c (\<lambda>r t. conversation d (\<lambda>x t. (\<forall>e. x = Inl e \<longrightarrow> Q (Inl e) t) \<and> (\<forall>v. x = Inr v \<longrightarrow> Q r t)) t) t"
  unfolding conversation_def cwp_cfinally
  by (rule iffI; erule cwp_mono; erule cwp_mono) (auto split: sum.splits)

lemma conversation_ask_as:
  "conversation (ask_as pick q) Q t \<longleftrightarrow>
     (\<forall>e. Q (Inl e) (t @ [(q, Inl e)])) \<and> (\<forall>r v. pick r = Some v \<longrightarrow> Q (Inr v) (t @ [(q, Inr r)]))
     \<and> (\<forall>r. pick r = None \<longrightarrow> Q (Inl (Exc TypeErrorC ''unexpected reply'' None [] None)) (t @ [(q, Inr r)]))"
  unfolding ask_as_def conversation_cbind conversation_ask
  by (auto split: option.splits)

lemma conversation_mono:
  "conversation c Q t \<Longrightarrow> (\<And>r t. Q r t \<Longrightarrow> Q' r t) \<Longrightarrow> conversation c Q' t"
  unfolding conversation_def by (rule cwp_mono)

lemma conversation_conj:
  "conversation c Q t \<Longrightarrow> conversation c Q' t \<Longrightarrow> conversation c (\<lambda>r t. Q r t \<and> Q' r t) t"
  unfolding conversation_def by (rule cwp_conj)

text \<open>An assertion on the trace that every new call keeps.\<close>

lemma conversation_ignoring:
  "conversation (ignoring p c) Q t \<longleftrightarrow>
     conversation c (\<lambda>r t. (\<forall>e. r = Inl e \<longrightarrow> (if p e then Q (Inr ()) t else Q (Inl e) t)) \<and> (\<forall>v. r = Inr v \<longrightarrow> Q (Inr ()) t)) t"
  unfolding ignoring_def conversation_ccatch conversation_cbind
  by (rule iffI; erule conversation_mono) auto

lemmas conversation_rules = conversation_cbind conversation_cthen conversation_ccatch conversation_cfinally
  conversation_ask_as conversation_ignoring

text \<open>The conversation when the answers are a given list; it stops where the list ends.\<close>

primrec replay :: "('q, 'r, 's, 'a) coro \<Rightarrow> 'r res list \<Rightarrow> 's \<Rightarrow> ('a res option \<times> 's)" where
  "replay (Finished r) = (\<lambda>answers s. (Some r, s))"
| "replay (Work g) = (\<lambda>answers s. case map_prod replay id (g s) of (run, s') \<Rightarrow> run answers s')"
| "replay (Await q k) = (\<lambda>answers s. case answers of [] \<Rightarrow> (None, s) | r # rs \<Rightarrow> replay (k r) rs s)"

lemma replay_conversation:
  assumes "conversation c Q t" "replay c answers t = (Some r, t')" shows "Q r t'"
  using assms
proof (induction c arbitrary: answers t)
  case (Work g)
  have "fst (g t) \<in> Basic_BNFs.fsts (g t)" by (cases "g t") simp
  from Work.IH [OF _ this, of "snd (g t)"] Work.prems show ?case
    by (simp add: conversation_def case_prod_beta)
next
  case (Await q k)
  then obtain a rest where "answers = a # rest" "replay (k a) rest t = (Some r, t')" by (cases answers) auto
  then show ?case using Await.IH [OF rangeI] Await.prems(1) by (auto simp: conversation_def)
qed (simp add: conversation_def)

subsection \<open>What a piece of a conversation adds to the trace\<close>

text \<open>\<open>ends c P\<close>: whatever the answers, \<open>c\<close> adds calls to the trace such that \<open>P\<close> holds of its outcome and them.\<close>

definition ends :: "('q, 'r, 'a) talk \<Rightarrow> ('a res \<Rightarrow> ('q, 'r) trace \<Rightarrow> bool) \<Rightarrow> bool" where
  "ends c P \<longleftrightarrow> (\<forall>t. conversation c (\<lambda>r t'. \<exists>x. t' = t @ x \<and> P r x) t)"

lemma ends_Finished: "P r [] \<Longrightarrow> ends (Finished r) P"
  by (simp add: ends_def)

lemma ends_creturn: "P (Inr v) [] \<Longrightarrow> ends (creturn v) P"
  by (simp add: ends_def)

lemma ends_ask: "(\<And>r. P r [(q, r)]) \<Longrightarrow> ends (ask q) P"
  by (simp add: ends_def)

lemma ends_ask_as:
  assumes "\<And>e. P (Inl e) [(q, Inl e)]" "\<And>r v. pick r = Some v \<Longrightarrow> P (Inr v) [(q, Inr r)]"
    and "\<And>r e. pick r = None \<Longrightarrow> P (Inl e) [(q, Inr r)]"
  shows "ends (ask_as pick q) P"
  using assms by (simp add: ends_def conversation_ask_as)

lemma ends_work: "(\<And>t. \<exists>x. m t = (Inr v, t @ x) \<and> P (Inr v) x) \<Longrightarrow> ends (work m) P"
  unfolding ends_def conversation_basic by (metis (mono_tags, lifting) case_prod_conv)

lemma ends_mono: "ends c P \<Longrightarrow> (\<And>r x. P r x \<Longrightarrow> Q r x) \<Longrightarrow> ends c Q"
  unfolding ends_def by (blast intro: conversation_mono)

lemma ends_if: "(b \<Longrightarrow> ends c P) \<Longrightarrow> (\<not> b \<Longrightarrow> ends d P) \<Longrightarrow> ends (if b then c else d) P"
  by simp

lemma ends_follow:
  assumes "ends c P" "\<And>x. P r x \<Longrightarrow> ends d (\<lambda>r' y. Q r' (x @ y))" "P r x"
  shows "conversation d (\<lambda>r' t'. \<exists>z. t' = t @ z \<and> Q r' z) (t @ x)"
proof -
  have "conversation d (\<lambda>r' t'. \<exists>y. t' = (t @ x) @ y \<and> Q r' (x @ y)) (t @ x)"
    using assms(2) [OF assms(3)] unfolding ends_def by blast
  then show ?thesis by (rule conversation_mono) auto
qed

lemma ends_cbind:
  assumes "ends c P" "\<And>e x. P (Inl e) x \<Longrightarrow> Q (Inl e) x" "\<And>v x. P (Inr v) x \<Longrightarrow> ends (f v) (\<lambda>r y. Q r (x @ y))"
  shows "ends (cbind c f) Q"
  unfolding ends_def conversation_cbind
proof
  fix t
  have "conversation c (\<lambda>r t'. \<exists>x. t' = t @ x \<and> P r x) t" using assms(1) by (simp add: ends_def)
  then show "conversation c (\<lambda>r t'. (\<forall>e. r = Inl e \<longrightarrow> (\<exists>x. t' = t @ x \<and> Q (Inl e) x))
      \<and> (\<forall>v. r = Inr v \<longrightarrow> conversation (f v) (\<lambda>r t'. \<exists>x. t' = t @ x \<and> Q r x) t')) t"
    by (rule conversation_mono) (use assms(2) ends_follow [OF assms(1,3)] in blast)
qed

lemma ends_cthen:
  assumes "ends c P" "\<And>e x. P (Inl e) x \<Longrightarrow> Q (Inl e) x" "\<And>v x. P (Inr v) x \<Longrightarrow> ends d (\<lambda>r y. Q r (x @ y))"
  shows "ends (cthen c d) Q"
  unfolding cthen_def using assms by (rule ends_cbind)

lemma ends_ccatch:
  assumes "ends c P" "\<And>e x. P (Inl e) x \<Longrightarrow> \<not> p e \<Longrightarrow> Q (Inl e) x" "\<And>v x. P (Inr v) x \<Longrightarrow> Q (Inr v) x"
    and "\<And>e x. P (Inl e) x \<Longrightarrow> p e \<Longrightarrow> ends (h e) (\<lambda>r y. Q r (x @ y))"
  shows "ends (ccatch c p h) Q"
  unfolding ends_def conversation_ccatch
proof
  fix t
  have f: "conversation (h e) (\<lambda>r' t'. \<exists>z. t' = t @ z \<and> Q r' z) (t @ x)" if "P (Inl e) x" "p e" for e x
    by (rule ends_follow [OF assms(1) assms(4)]) (use that in auto)
  have "conversation c (\<lambda>r t'. \<exists>x. t' = t @ x \<and> P r x) t" using assms(1) by (simp add: ends_def)
  then show "conversation c (\<lambda>r t'. (\<forall>e. r = Inl e \<longrightarrow> (if p e then conversation (h e) (\<lambda>r t'. \<exists>x. t' = t @ x \<and> Q r x) t'
        else \<exists>x. t' = t @ x \<and> Q (Inl e) x)) \<and> (\<forall>v. r = Inr v \<longrightarrow> (\<exists>x. t' = t @ x \<and> Q (Inr v) x))) t"
    by (rule conversation_mono) (use assms(2,3) f in auto)
qed

lemma ends_cfinally:
  assumes "ends c P" "\<And>r x. P r x \<Longrightarrow> ends d (\<lambda>u y. Q (case u of Inl e \<Rightarrow> Inl e | Inr _ \<Rightarrow> r) (x @ y))"
  shows "ends (cfinally c d) Q"
  unfolding ends_def conversation_cfinally
proof
  fix t
  have "conversation d (\<lambda>u t'. \<exists>z. t' = t @ z \<and> Q (case u of Inl e \<Rightarrow> Inl e | Inr _ \<Rightarrow> r) z) (t @ x)" if "P r x" for r x
    by (rule ends_follow [OF assms(1,2) that])
  note follow = this
  have f: "conversation d (\<lambda>u t'. (\<forall>e. u = Inl e \<longrightarrow> (\<exists>z. t' = t @ z \<and> Q (Inl e) z))
      \<and> (\<forall>v. u = Inr v \<longrightarrow> (\<exists>z. t' = t @ z \<and> Q r z))) (t @ x)" if "P r x" for r x
    by (rule conversation_mono [OF follow [OF that]]) auto
  have "conversation c (\<lambda>r t'. \<exists>x. t' = t @ x \<and> P r x) t" using assms(1) by (simp add: ends_def)
  then show "conversation c (\<lambda>r t'. conversation d (\<lambda>u t'. (\<forall>e. u = Inl e \<longrightarrow> (\<exists>z. t' = t @ z \<and> Q (Inl e) z))
      \<and> (\<forall>v. u = Inr v \<longrightarrow> (\<exists>z. t' = t @ z \<and> Q r z))) t') t"
    by (rule conversation_mono) (use f in blast)
qed

lemma ends_ignoring:
  assumes "ends c P" "\<And>e x. P (Inl e) x \<Longrightarrow> \<not> p e \<Longrightarrow> Q (Inl e) x" "\<And>r x. P r x \<Longrightarrow> Q (Inr ()) x"
  shows "ends (ignoring p c) Q"
  unfolding ignoring_def
proof (rule ends_ccatch [where P = "\<lambda>r x. (\<forall>e. r = Inl e \<longrightarrow> P (Inl e) x) \<and> (\<forall>u. r = Inr u \<longrightarrow> Q (Inr ()) x)"])
  show "ends (cbind c (\<lambda>_. creturn ())) (\<lambda>r x. (\<forall>e. r = Inl e \<longrightarrow> P (Inl e) x) \<and> (\<forall>u. r = Inr u \<longrightarrow> Q (Inr ()) x))"
    by (rule ends_cbind [OF assms(1)]) (auto intro!: ends_creturn assms(3))
qed (auto intro!: ends_creturn assms)

lemma ends_conj: "ends c P \<Longrightarrow> ends c Q \<Longrightarrow> ends c (\<lambda>r x. P r x \<and> Q r x)"
  unfolding ends_def
proof
  fix t
  assume "\<forall>t. conversation c (\<lambda>r t'. \<exists>x. t' = t @ x \<and> P r x) t" "\<forall>t. conversation c (\<lambda>r t'. \<exists>x. t' = t @ x \<and> Q r x) t"
  then have "conversation c (\<lambda>r t'. (\<exists>x. t' = t @ x \<and> P r x) \<and> (\<exists>x. t' = t @ x \<and> Q r x)) t"
    by (intro conversation_conj) auto
  then show "conversation c (\<lambda>r t'. \<exists>x. t' = t @ x \<and> P r x \<and> Q r x) t" by (rule conversation_mono) auto
qed

text \<open>One call whose answer is read as a value.\<close>

lemma ends_read:
  "ends (ask_as pick q) (\<lambda>r x. \<exists>a. x = [(q, a)] \<and> (\<forall>v. r = Inr v \<longrightarrow> (\<exists>w. a = Inr w \<and> pick w = Some v))
     \<and> (\<forall>e. r = Inl e \<longrightarrow> (\<forall>w. a = Inr w \<longrightarrow> pick w = None)))"
  by (rule ends_ask_as) auto

lemma ends_cbind_read:
  assumes "\<And>e a. (\<And>w. a = Inr w \<Longrightarrow> pick w = None) \<Longrightarrow> P (Inl e) [(q, a)]"
    and "\<And>v w. pick w = Some v \<Longrightarrow> ends (f v) (\<lambda>r y. P r ((q, Inr w) # y))"
  shows "ends (cbind (ask_as pick q) f) P"
proof (rule ends_cbind [OF ends_read], goal_cases)
  case (2 v x)
  then obtain w where "x = [(q, Inr w)]" "pick w = Some v" by auto
  then show ?case using assms(2) by simp
qed (use assms(1) in auto)

lemma ends_replay:
  assumes "ends c P" "replay c answers [] = (Some r, t)" shows "P r t"
proof -
  have "conversation c (\<lambda>r t'. \<exists>x. t' = [] @ x \<and> P r x) []" using assms(1) unfolding ends_def by blast
  from replay_conversation [OF this assms(2)] show ?thesis by simp
qed

end
