(* ===== verification/Windows_Pairing.thy ===== *)
theory Windows_Pairing
  imports Traced_Calls Credentials
begin

section \<open>Pairing on Windows\<close>

text \<open>
  \<open>backend/pc_client/windows_pairing.py\<close>: passkey pairing through WinRT, and the removal of a bond.
  Every call of a WinRT object, and every read of a property of one, is a call of the trace; the
  objects that Windows hands out are numbers. While Windows pairs, it may ask for ceremonies: each is
  handled by \<open>handle_pairing_request\<close>. \<open>show_g\<close> renders a float with \<open>:g\<close>. The module does nothing
  on a host without WinRT, where its imports fail.
\<close>

datatype pairing_kind = PROVIDE_PIN | OtherCeremony string

datatype protection = ENCRYPTION_AND_AUTHENTICATION | OtherProtection string

datatype pairing_status = PAIRED | ALREADY_PAIRED | OtherPairing string

datatype unpairing_status = UNPAIRED | ALREADY_UNPAIRED | OtherUnpairing string

datatype win_call =
  FromBluetoothAddress int | DeviceId nat | CreateFromId string | IsPaired nat | ProtectionLevel nat
| CanPair nat | CustomPairing nat | AddPairingRequested nat | PairWithProtection nat
| AcceptWithPin string | RemovePairingRequested nat nat | UnpairAsync nat | CloseHandle nat

datatype win_answer =
  WDone | WObject "nat option" | WText string | WBool bool | WProtection protection
| WPairing "pairing_kind list" "pairing_status res" | WUnpairing unpairing_status

type_synonym 'a win = "(win_call, win_answer, 'a) talk"

fun pick_object :: "win_answer \<Rightarrow> nat option" where
  "pick_object (WObject (Some n)) = Some n" | "pick_object _ = None"

fun pick_device :: "win_answer \<Rightarrow> nat option option" where
  "pick_device (WObject d) = Some d" | "pick_device _ = None"

fun pick_text :: "win_answer \<Rightarrow> string option" where
  "pick_text (WText s) = Some s" | "pick_text _ = None"

fun pick_bool :: "win_answer \<Rightarrow> bool option" where
  "pick_bool (WBool b) = Some b" | "pick_bool _ = None"

fun pick_protection :: "win_answer \<Rightarrow> protection option" where
  "pick_protection (WProtection p) = Some p" | "pick_protection _ = None"

fun pick_pairing :: "win_answer \<Rightarrow> (pairing_kind list \<times> pairing_status res) option" where
  "pick_pairing (WPairing ks s) = Some (ks, s)" | "pick_pairing _ = None"

fun pick_unpairing :: "win_answer \<Rightarrow> unpairing_status option" where
  "pick_unpairing (WUnpairing s) = Some s" | "pick_unpairing _ = None"

definition windows_error :: "string \<Rightarrow> 'a res" where
  "windows_error m = raise WindowsPairingErrorC m"

text \<open>\<open>_status_name\<close> of the members of the enumerations.\<close>

fun kind_name :: "pairing_kind \<Rightarrow> string" where
  "kind_name PROVIDE_PIN = ''PROVIDE_PIN''" | "kind_name (OtherCeremony n) = n"

fun pairing_name :: "pairing_status \<Rightarrow> string" where
  "pairing_name PAIRED = ''PAIRED''" | "pairing_name ALREADY_PAIRED = ''ALREADY_PAIRED''"
| "pairing_name (OtherPairing n) = n"

fun unpairing_name :: "unpairing_status \<Rightarrow> string" where
  "unpairing_name UNPAIRED = ''UNPAIRED''" | "unpairing_name ALREADY_UNPAIRED = ''ALREADY_UNPAIRED''"
| "unpairing_name (OtherUnpairing n) = n"

definition PAIRING_SUCCEEDED :: "pairing_status set" where
  "PAIRING_SUCCEEDED = {PAIRED, ALREADY_PAIRED}"

definition UNPAIRING_SUCCEEDED :: "unpairing_status set" where
  "UNPAIRING_SUCCEEDED = {UNPAIRED, ALREADY_UNPAIRED}"

subsection \<open>Addresses and handles\<close>

definition hex_digit_value :: "char \<Rightarrow> int" where
  "hex_digit_value c = (if is_ascii_digit c then int (code_of c) - 48
     else if in_range 65 70 (code_of c) then int (code_of c) - 55 else int (code_of c) - 87)"

definition int16_value :: "string \<Rightarrow> int" where
  "int16_value s =
     (let d = (if take 2 s = ''0x'' \<or> take 2 s = ''0X'' then drop 2 s else s)
      in foldl (\<lambda>n c. 16 * n + hex_digit_value c) 0 d)"

definition address_as_integer :: "string \<Rightarrow> int res" where
  "address_as_integer address = (case mac_address_hex address of
     Inr h \<Rightarrow> Inr (int16_value h)
   | Inl e \<Rightarrow> if exc_class e = ValueErrorC then raise_from WindowsPairingErrorC (''invalid Bluetooth address: '' @ address) e
       else Inl e)"

definition open_bluetooth_device :: "string \<Rightarrow> nat win" where
  "open_bluetooth_device address =
     cbind (Finished (address_as_integer address)) (\<lambda>number.
     cbind (ask_as pick_device (FromBluetoothAddress number)) (\<lambda>device. case device of
       Some d \<Rightarrow> creturn d
     | None \<Rightarrow> Finished (windows_error (''Windows could not resolve BLE device '' @ address
         @ ''; scan again and make sure the ESP32 is still advertising''))))"

definition fresh_device_information :: "string \<Rightarrow> nat win" where
  "fresh_device_information device_id = ask_as pick_object (CreateFromId device_id)"

text \<open>\<open>with suppress(OSError)\<close>.\<close>

definition close_device_handle :: "nat \<Rightarrow> unit win" where
  "close_device_handle d = ignoring (\<lambda>e. exc_class e = OSErrorC) (ask (CloseHandle d))"

definition require_authenticated_bond :: "nat \<Rightarrow> unit win" where
  "require_authenticated_bond info =
     cbind (ask_as pick_bool (IsPaired info)) (\<lambda>paired.
     if \<not> paired then Finished (windows_error ''Windows did not retain the BLE pairing'')
     else cbind (ask_as pick_protection (ProtectionLevel info)) (\<lambda>level.
       if level \<noteq> ENCRYPTION_AND_AUTHENTICATION then
         Finished (windows_error ''Windows bond is not authenticated. Select Reset Pairing in the app and pair again'')
       else creturn ()))"

subsection \<open>The ceremony\<close>

text \<open>The callback: it answers a request for a PIN with the passkey, and only that.\<close>

definition handle_pairing_request :: "string \<Rightarrow> pairing_kind \<Rightarrow> (win_call \<times> win_answer res) list" where
  "handle_pairing_request passkey kind = (if kind = PROVIDE_PIN then [(AcceptWithPin passkey, Inr WDone)] else [])"

definition run_callbacks :: "string \<Rightarrow> pairing_kind list \<Rightarrow> ((win_call, win_answer) trace, unit) act" where
  "run_callbacks passkey kinds t = (Inr (), t @ concat (map (handle_pairing_request passkey) kinds))"

text \<open>The status of the pairing operation and the names of the ceremonies asked for.\<close>

definition pairing_operation :: "string \<Rightarrow> nat \<Rightarrow> (pairing_status \<times> string list) win" where
  "pairing_operation passkey custom =
     cbind (ask_as pick_pairing (PairWithProtection custom)) (\<lambda>(kinds, result).
     cthen (work (run_callbacks passkey kinds))
     (cbind (Finished result) (\<lambda>s. creturn (s, map kind_name kinds))))"

definition pairing_failure :: "(rat \<Rightarrow> string) \<Rightarrow> rat \<Rightarrow> exc \<Rightarrow> 'a res" where
  "pairing_failure show_g timeout e =
     (if exc_class e = TimeoutErrorC then
        raise_from WindowsPairingErrorC (''Windows pairing timed out after '' @ show_g timeout @ '' seconds'') e
      else
        let stripped = py_strip (exc_text e);
            detail = (if stripped \<noteq> [] then stripped else class_name (exc_class e))
        in raise_from WindowsPairingErrorC (''Windows could not start BLE pairing: '' @ detail) e)"

definition guarded_operation ::
    "(rat \<Rightarrow> string) \<Rightarrow> string \<Rightarrow> rat \<Rightarrow> nat \<Rightarrow> nat \<Rightarrow> (pairing_status \<times> string list) win" where
  "guarded_operation show_g passkey timeout custom token =
     cfinally
       (ccatch (pairing_operation passkey custom) is_exception (\<lambda>e. Finished (pairing_failure show_g timeout e)))
       (cthen (ask (RemovePairingRequested custom token)) (creturn ()))"

definition finish_bond :: "string \<Rightarrow> pairing_status \<Rightarrow> string list \<Rightarrow> unit win" where
  "finish_bond device_id result requested_ceremonies =
     (if result \<notin> PAIRING_SUCCEEDED then
        let joined = py_join '', '' requested_ceremonies; ceremonies = (if joined \<noteq> [] then joined else ''none'') in
        Finished (windows_error (''Windows pairing failed: '' @ pairing_name result @ '' (ceremonies: '' @ ceremonies
          @ ''). Select Reset Pairing and try again''))
      else cbind (fresh_device_information device_id) require_authenticated_bond)"

definition create_bond :: "(rat \<Rightarrow> string) \<Rightarrow> string \<Rightarrow> rat \<Rightarrow> string \<Rightarrow> nat \<Rightarrow> unit win" where
  "create_bond show_g passkey timeout device_id endpoint =
     cbind (ask_as pick_object (CustomPairing endpoint)) (\<lambda>custom.
     cbind (ask_as pick_object (AddPairingRequested custom)) (\<lambda>token.
     cbind (guarded_operation show_g passkey timeout custom token) (\<lambda>(result, requested_ceremonies).
     finish_bond device_id result requested_ceremonies)))"

definition passkey_ok :: "string \<Rightarrow> bool" where
  "passkey_ok passkey \<longleftrightarrow> length passkey = 6 \<and> py_isascii passkey \<and> py_isdigit passkey"

definition pair_with_device :: "(rat \<Rightarrow> string) \<Rightarrow> string \<Rightarrow> rat \<Rightarrow> nat \<Rightarrow> unit win" where
  "pair_with_device show_g passkey timeout device =
     cbind (ask_as pick_text (DeviceId device)) (\<lambda>device_id.
     cbind (fresh_device_information device_id) (\<lambda>endpoint.
     cbind (ask_as pick_bool (IsPaired endpoint)) (\<lambda>paired.
     if paired then require_authenticated_bond endpoint
     else cbind (ask_as pick_bool (CanPair endpoint)) (\<lambda>can_pair.
       if \<not> can_pair then Finished (windows_error ''Windows reports that this device cannot be paired'')
       else create_bond show_g passkey timeout device_id endpoint))))"

definition windows_pair_device :: "(rat \<Rightarrow> string) \<Rightarrow> string \<Rightarrow> string \<Rightarrow> rat \<Rightarrow> unit win" where
  "windows_pair_device show_g address passkey timeout =
     (if \<not> passkey_ok passkey then Finished (value_error ''passkey must contain exactly six ASCII digits'')
      else cbind (open_bluetooth_device address) (\<lambda>device.
        cfinally (pair_with_device show_g passkey timeout device) (close_device_handle device)))"

subsection \<open>Removing a bond\<close>

definition unpair_from_device :: "nat \<Rightarrow> unit win" where
  "unpair_from_device device =
     cbind (ask_as pick_text (DeviceId device)) (\<lambda>device_id.
     cbind (fresh_device_information device_id) (\<lambda>endpoint.
     cbind (ask_as pick_bool (IsPaired endpoint)) (\<lambda>paired.
     if \<not> paired then creturn ()
     else cbind (ask_as pick_unpairing (UnpairAsync endpoint)) (\<lambda>result.
       if result \<notin> UNPAIRING_SUCCEEDED then
         Finished (windows_error (''Windows could not reset pairing: '' @ unpairing_name result))
       else creturn ()))))"

definition windows_forget_device :: "string \<Rightarrow> unit win" where
  "windows_forget_device address =
     cbind (open_bluetooth_device address) (\<lambda>device.
       cfinally (unpair_from_device device) (close_device_handle device))"

end
