(* ===== verification/Pairing_Props.thy ===== *)
theory Pairing_Props
  imports Windows_Pairing
begin

section \<open>What a pairing backend guarantees\<close>

text \<open>
  Facts of theory Windows_Pairing, of every conversation with the operating system: success
  is reported only after the system itself reported an authenticated bond, and whatever happens the
  handle of the device is closed, the callback is removed, and the passkey is given away only as the
  answer to a request for it.
\<close>

subsection \<open>Windows\<close>

lemma pick_Some: "pick_object a = Some n \<longleftrightarrow> a = WObject (Some n)" "pick_device a = Some d \<longleftrightarrow> a = WObject d"
  "pick_text a = Some s \<longleftrightarrow> a = WText s" "pick_bool a = Some b \<longleftrightarrow> a = WBool b" "pick_protection a = Some p \<longleftrightarrow> a = WProtection p"
  "pick_pairing a = Some kr \<longleftrightarrow> a = WPairing (fst kr) (snd kr)" "pick_unpairing a = Some u \<longleftrightarrow> a = WUnpairing u"
  by (cases a rule: pick_object.cases; auto) (cases a; auto)+

text \<open>
  The last two calls asked a fresh information object, one of \<open>known\<close> or one created in the trace, and
  the answers were: paired, authenticated.
\<close>

definition ends_confirmed :: "nat set \<Rightarrow> (win_call, win_answer) trace \<Rightarrow> bool" where
  "ends_confirmed known t \<longleftrightarrow> (\<exists>pre i. t = pre @ [(IsPaired i, Inr (WBool True)),
     (ProtectionLevel i, Inr (WProtection ENCRYPTION_AND_AUTHENTICATION))]
     \<and> (i \<in> known \<or> (\<exists>id. (CreateFromId id, Inr (WObject (Some i))) \<in> set pre)))"

text \<open>Every callback that was added was removed; the passkey was given as the answer to a request only.\<close>

definition callbacks_removed :: "(win_call, win_answer) trace \<Rightarrow> bool" where
  "callbacks_removed t \<longleftrightarrow> (\<forall>c k. (AddPairingRequested c, Inr (WObject (Some k))) \<in> set t
     \<longrightarrow> (\<exists>a. (RemovePairingRequested c k, a) \<in> set t))"

definition only_passkey :: "string \<Rightarrow> (win_call, win_answer) trace \<Rightarrow> bool" where
  "only_passkey passkey t \<longleftrightarrow> (\<forall>p a. (AcceptWithPin p, a) \<in> set t
     \<longrightarrow> p = passkey \<and> (\<exists>c ks r. (PairWithProtection c, Inr (WPairing ks r)) \<in> set t \<and> PROVIDE_PIN \<in> set ks))"

lemma bond_ends:
  "ends (require_authenticated_bond i) (\<lambda>r x. fst ` set x \<subseteq> {IsPaired i, ProtectionLevel i}
     \<and> (r = Inr () \<longrightarrow> x = [(IsPaired i, Inr (WBool True)), (ProtectionLevel i, Inr (WProtection ENCRYPTION_AND_AUTHENTICATION))]))"
  unfolding require_authenticated_bond_def windows_error_def
  by (rule ends_cbind [OF ends_ask_as [where P = "\<lambda>r x. \<exists>a. x = [(IsPaired i, a)] \<and> (\<forall>b. r = Inr b \<longrightarrow> a = Inr (WBool b))"]])
    (auto simp: pick_Some intro!: ends_if ends_Finished ends_creturn
      ends_cbind [OF ends_ask_as [where P = "\<lambda>r x. \<exists>a. x = [(ProtectionLevel i, a)] \<and> (\<forall>p. r = Inr p \<longrightarrow> a = Inr (WProtection p))"]])

lemma operation_ends:
  "ends (pairing_operation passkey c) (\<lambda>r x. fst ` set x \<subseteq> {PairWithProtection c, AcceptWithPin passkey} \<and> only_passkey passkey x)"
  unfolding pairing_operation_def
proof (rule ends_cbind)
  show "ends (ask_as pick_pairing (PairWithProtection c)) (\<lambda>r x. \<exists>a. x = [(PairWithProtection c, a)]
      \<and> (\<forall>ks s. r = Inr (ks, s) \<longrightarrow> a = Inr (WPairing ks s)))"
    by (rule ends_ask_as) (auto simp: pick_Some)
next
  fix v and x :: "(win_call, win_answer) trace"
  assume "\<exists>a. x = [(PairWithProtection c, a)] \<and> (\<forall>ks s. (Inr v :: (pairing_kind list \<times> pairing_status res) res) = Inr (ks, s) \<longrightarrow> a = Inr (WPairing ks s))"
  then obtain ks s where v: "v = (ks, s)" "x = [(PairWithProtection c, Inr (WPairing ks s))]" by (cases v) auto
  have "set (concat (map (handle_pairing_request passkey) ks))
      = (if PROVIDE_PIN \<in> set ks then {(AcceptWithPin passkey, Inr WDone)} else {})"
    by (auto simp: handle_pairing_request_def)
  then have w: "ends (work (run_callbacks passkey ks)) (\<lambda>r y. r = Inr ()
      \<and> set y = (if PROVIDE_PIN \<in> set ks then {(AcceptWithPin passkey, Inr WDone)} else {}))"
    by (intro ends_work) (simp add: run_callbacks_def)
  show "ends (case v of (kinds, result) \<Rightarrow> cthen (work (run_callbacks passkey kinds))
      (cbind (Finished result) (\<lambda>s. creturn (s, map kind_name kinds))))
    (\<lambda>r y. fst ` set (x @ y) \<subseteq> {PairWithProtection c, AcceptWithPin passkey} \<and> only_passkey passkey (x @ y))"
    unfolding v prod.case
  proof (rule ends_cthen [OF w])
    fix u and y :: "(win_call, win_answer) trace"
    assume y: "(Inr u :: unit res) = Inr () \<and> set y = (if PROVIDE_PIN \<in> set ks then {(AcceptWithPin passkey, Inr WDone)} else {})"
    have "ends (cbind (Finished s) (\<lambda>s. creturn (s, map kind_name ks))) (\<lambda>r z. z = ([] :: (win_call, win_answer) trace))"
      by (cases s) (simp_all add: ends_Finished ends_creturn)
    then show "ends (cbind (Finished s) (\<lambda>s. creturn (s, map kind_name ks)))
      (\<lambda>r z. fst ` set ([(PairWithProtection c, Inr (WPairing ks s))] @ y @ z) \<subseteq> {PairWithProtection c, AcceptWithPin passkey}
        \<and> only_passkey passkey ([(PairWithProtection c, Inr (WPairing ks s))] @ y @ z))"
      by (rule ends_mono) (use y in \<open>auto simp: only_passkey_def split: if_splits\<close>)
  qed simp
qed (auto simp: only_passkey_def)

lemma only_passkey_append: "only_passkey k x \<Longrightarrow> only_passkey k y \<Longrightarrow> only_passkey k (x @ y)"
  unfolding only_passkey_def by (simp only: set_append Un_iff) blast

lemma callbacks_removed_append: "callbacks_removed x \<Longrightarrow> callbacks_removed y \<Longrightarrow> callbacks_removed (x @ y)"
  unfolding callbacks_removed_def by (simp only: set_append Un_iff) blast

lemma quiet_calls:
  assumes "fst ` set x \<subseteq> C" "\<And>p. AcceptWithPin p \<notin> C" "\<And>c. AddPairingRequested c \<notin> C"
  shows "only_passkey k x" "callbacks_removed x"
  using assms by (auto simp: only_passkey_def callbacks_removed_def image_subset_iff)

lemma ends_confirmed_append:
  assumes "ends_confirmed known y" shows "ends_confirmed known (x @ y)"
proof -
  from assms obtain pre i where "y = pre @ [(IsPaired i, Inr (WBool True)),
      (ProtectionLevel i, Inr (WProtection ENCRYPTION_AND_AUTHENTICATION))]"
    "i \<in> known \<or> (\<exists>id. (CreateFromId id, Inr (WObject (Some i))) \<in> set pre)"
    unfolding ends_confirmed_def by blast
  then show ?thesis unfolding ends_confirmed_def by (intro exI [of _ "x @ pre"] exI [of _ i]) auto
qed

lemma guarded_operation_ends:
  "ends (guarded_operation show_g passkey timeout c token) (\<lambda>r x. only_passkey passkey x \<and> callbacks_removed x \<and> (\<exists>a. (RemovePairingRequested c token, a) \<in> set x))"
  unfolding guarded_operation_def
proof (rule ends_cfinally [OF ends_ccatch [OF operation_ends, where Q = "\<lambda>r x. only_passkey passkey x \<and> callbacks_removed x"]])
  show "ends (Finished (pairing_failure show_g timeout e)) (\<lambda>r y. only_passkey passkey (x @ y) \<and> callbacks_removed (x @ y))"
    if "fst ` set x \<subseteq> {PairWithProtection c, AcceptWithPin passkey} \<and> only_passkey passkey x" for e and x :: "(win_call, win_answer) trace"
    by (rule ends_Finished) (use that in \<open>auto simp: callbacks_removed_def image_subset_iff\<close>)
next
  fix r and x :: "(win_call, win_answer) trace"
  assume x: "only_passkey passkey x \<and> callbacks_removed x"
  have q: "only_passkey passkey [(RemovePairingRequested c token, a)]" "callbacks_removed [(RemovePairingRequested c token, a)]" for a
    by (rule quiet_calls [where C = "{RemovePairingRequested c token}"]; simp)+
  show "ends (cthen (ask (RemovePairingRequested c token)) (creturn ())) (\<lambda>u y. only_passkey passkey (x @ y)
      \<and> callbacks_removed (x @ y) \<and> (\<exists>a. (RemovePairingRequested c token, a) \<in> set (x @ y)))"
    by (rule ends_cthen [OF ends_ask [where P = "\<lambda>r y. \<exists>a. y = [(RemovePairingRequested c token, a)]"]])
      (use x q in \<open>auto intro!: ends_creturn simp: only_passkey_append callbacks_removed_append\<close>)
qed (auto simp: callbacks_removed_def image_subset_iff)

text \<open>What \<open>pair_device\<close> guarantees of the part of its trace inside the open handle.\<close>

definition pairing_contract :: "nat set \<Rightarrow> string \<Rightarrow> unit res \<Rightarrow> (win_call, win_answer) trace \<Rightarrow> bool" where
  "pairing_contract known k r x \<longleftrightarrow> (r = Inr () \<longrightarrow> ends_confirmed known x) \<and> only_passkey k x \<and> callbacks_removed x"

lemma contract_prefix:
  "only_passkey k x \<Longrightarrow> callbacks_removed x \<Longrightarrow> pairing_contract known k r y \<Longrightarrow> pairing_contract known k r (x @ y)"
  by (simp add: pairing_contract_def ends_confirmed_append only_passkey_append callbacks_removed_append)

lemma contract_failure: "only_passkey k x \<Longrightarrow> callbacks_removed x \<Longrightarrow> pairing_contract known k (Inl e) x"
  by (simp add: pairing_contract_def)

lemma one_call_quiet:
  "(\<And>p. q \<noteq> AcceptWithPin p) \<Longrightarrow> (\<And>c. q \<noteq> AddPairingRequested c) \<Longrightarrow> only_passkey k [(q, a)] \<and> callbacks_removed [(q, a)]"
  by (auto simp: only_passkey_def callbacks_removed_def)

lemma contract_read:
  assumes "\<And>p. q \<noteq> AcceptWithPin p" "\<And>c. q \<noteq> AddPairingRequested c" "\<And>v. ends (f v) (pairing_contract known k)"
  shows "ends (cbind (ask_as pick q) f) (pairing_contract known k)"
proof (rule ends_cbind_read)
  fix v w
  have "only_passkey k [(q, Inr w)]" "callbacks_removed [(q, Inr w)]" using one_call_quiet [OF assms(1,2)] by auto
  then show "ends (f v) (\<lambda>r y. pairing_contract known k r ((q, Inr w) # y))"
    using ends_mono [OF assms(3)] contract_prefix [of k "[(q, Inr w)]"] by fastforce
qed (use one_call_quiet [OF assms(1,2)] in \<open>auto intro: contract_failure\<close>)

lemma contract_fresh:
  assumes "\<And>i. ends (f i) (pairing_contract (insert i known) k)"
  shows "ends (cbind (fresh_device_information d) f) (pairing_contract known k)"
  unfolding fresh_device_information_def
proof (rule ends_cbind_read)
  fix i w assume "pick_object w = Some i"
  then have w: "w = WObject (Some i)" by (simp add: pick_Some)
  have "ends_confirmed known ((CreateFromId d, Inr w) # y)" if c: "ends_confirmed (insert i known) y" for y
  proof -
    from c obtain pre i' where y: "y = pre @ [(IsPaired i', Inr (WBool True)),
        (ProtectionLevel i', Inr (WProtection ENCRYPTION_AND_AUTHENTICATION))]"
      "i' \<in> insert i known \<or> (\<exists>id. (CreateFromId id, Inr (WObject (Some i'))) \<in> set pre)"
      unfolding ends_confirmed_def by blast
    show ?thesis unfolding ends_confirmed_def
      by (rule exI [of _ "(CreateFromId d, Inr w) # pre"], rule exI [of _ i']) (use y w in auto)
  qed
  then have "pairing_contract known k r ((CreateFromId d, Inr w) # y)" if "pairing_contract (insert i known) k r y" for r y
    using that by (auto simp: pairing_contract_def only_passkey_def callbacks_removed_def)
  then show "ends (f i) (\<lambda>r y. pairing_contract known k r ((CreateFromId d, Inr w) # y))"
    by (rule ends_mono [OF assms])
qed (auto simp: pairing_contract_def only_passkey_def callbacks_removed_def)

lemma contract_raise: "ends (Finished (Inl e)) (pairing_contract known k)"
  by (rule ends_Finished) (simp add: pairing_contract_def only_passkey_def callbacks_removed_def)

lemma contract_bond: "ends (require_authenticated_bond i) (pairing_contract (insert i known) k)"
proof (rule ends_mono [OF bond_ends])
  fix r :: "unit res" and x :: "(win_call, win_answer) trace"
  assume x: "fst ` set x \<subseteq> {IsPaired i, ProtectionLevel i}
    \<and> (r = Inr () \<longrightarrow> x = [(IsPaired i, Inr (WBool True)), (ProtectionLevel i, Inr (WProtection ENCRYPTION_AND_AUTHENTICATION))])"
  then have "only_passkey k x" "callbacks_removed x" by (auto intro: quiet_calls)
  then show "pairing_contract (insert i known) k r x"
    using x by (simp add: pairing_contract_def ends_confirmed_def)
qed

lemma finish_bond_ends: "ends (finish_bond device_id result requested) (pairing_contract known k)"
  by (simp add: finish_bond_def Let_def windows_error_def contract_raise contract_fresh contract_bond)

lemma create_bond_ends: "ends (create_bond show_g passkey timeout device_id endpoint) (pairing_contract known passkey)"
  unfolding create_bond_def
proof (rule contract_read, simp, simp, rule ends_cbind_read)
  fix c k w
  assume "pick_object w = Some k"
  then have w: "w = WObject (Some k)" by (simp add: pick_Some)
  define x :: "(win_call, win_answer) trace" where "x = [(AddPairingRequested c, Inr w)]"
  have joined: "only_passkey passkey (x @ y) \<and> callbacks_removed (x @ y)"
    if "only_passkey passkey y \<and> callbacks_removed y \<and> (\<exists>a. (RemovePairingRequested c k, a) \<in> set y)" for y
    using that by (auto simp: x_def w only_passkey_def callbacks_removed_def)
  have "ends (cbind (guarded_operation show_g passkey timeout c k) (\<lambda>(result, requested). finish_bond device_id result requested))
      (\<lambda>r y. pairing_contract known passkey r (x @ y))"
  proof (rule ends_cbind [OF guarded_operation_ends])
    fix v and y :: "(win_call, win_answer) trace"
    assume y: "only_passkey passkey y \<and> callbacks_removed y \<and> (\<exists>a. (RemovePairingRequested c k, a) \<in> set y)"
    have "ends (case v of (result, requested) \<Rightarrow> finish_bond device_id result requested) (pairing_contract known passkey)"
      by (cases v) (simp add: finish_bond_ends)
    then show "ends (case v of (result, requested) \<Rightarrow> finish_bond device_id result requested)
        (\<lambda>r z. pairing_contract known passkey r (x @ y @ z))"
      by (rule ends_mono) (use contract_prefix joined [OF y] in fastforce)
  qed (use joined in \<open>blast intro: contract_failure\<close>)
  then show "ends (cbind (guarded_operation show_g passkey timeout c k) (\<lambda>(result, requested). finish_bond device_id result requested))
      (\<lambda>r y. pairing_contract known passkey r ((AddPairingRequested c, Inr w) # y))"
    by (simp add: x_def)
qed (auto simp: pick_Some only_passkey_def callbacks_removed_def pairing_contract_def)

lemma pair_with_device_ends: "ends (pair_with_device show_g passkey timeout device) (pairing_contract {} passkey)"
  unfolding pair_with_device_def
  by (intro contract_read contract_fresh ends_if)
    (auto simp: windows_error_def intro: contract_raise create_bond_ends contract_bond)

text \<open>A piece of work inside an open handle: the handle is closed last, with any answer.\<close>

lemma in_handle_ends:
  assumes "\<And>d. ends (body d) P"
  shows "ends (cbind (open_bluetooth_device address) (\<lambda>d. cfinally (body d) (close_device_handle d)))
    (\<lambda>r t. (\<exists>e. r = Inl e \<and> (t = [] \<or> (\<exists>n a. t = [(FromBluetoothAddress n, a)] \<and> (\<forall>d. a \<noteq> Inr (WObject (Some d))))))
       \<or> (\<exists>n d x c u. t = (FromBluetoothAddress n, Inr (WObject (Some d))) # x @ [(CloseHandle d, c)]
            \<and> P u x \<and> (r = u \<or> (\<exists>e. r = Inl e))))"
    (is "ends _ ?Q")
proof (rule ends_cbind [where P = "\<lambda>r t. (\<exists>e. r = Inl e \<and> (t = [] \<or> (\<exists>n a. t = [(FromBluetoothAddress n, a)] \<and> (\<forall>d. a \<noteq> Inr (WObject (Some d))))))
    \<or> (\<exists>n d. r = Inr d \<and> t = [(FromBluetoothAddress n, Inr (WObject (Some d)))])"])
  show "ends (open_bluetooth_device address) (\<lambda>r t. (\<exists>e. r = Inl e \<and> (t = []
       \<or> (\<exists>n a. t = [(FromBluetoothAddress n, a)] \<and> (\<forall>d. a \<noteq> Inr (WObject (Some d))))))
    \<or> (\<exists>n d. r = Inr d \<and> t = [(FromBluetoothAddress n, Inr (WObject (Some d)))]))" (is "ends _ ?P")
  proof (cases "address_as_integer address")
    case (Inr n)
    have "ends (cbind (ask_as pick_device (FromBluetoothAddress n)) (\<lambda>device. case device of Some d \<Rightarrow> creturn d
      | None \<Rightarrow> Finished (windows_error (''Windows could not resolve BLE device '' @ address
         @ ''; scan again and make sure the ESP32 is still advertising'')))) ?P"
      by (rule ends_cbind_read)
        (auto simp: pick_Some windows_error_def split: option.splits intro!: ends_Finished ends_creturn)
    then show ?thesis unfolding open_bluetooth_device_def Inr cbind.simps sum.case .
  qed (simp add: open_bluetooth_device_def ends_Finished)
next
  fix d and t :: "(win_call, win_answer) trace"
  assume "(\<exists>e. (Inr d :: nat res) = Inl e \<and> (t = [] \<or> (\<exists>n a. t = [(FromBluetoothAddress n, a)] \<and> (\<forall>d. a \<noteq> Inr (WObject (Some d))))))
    \<or> (\<exists>n d'. Inr d = (Inr d' :: nat res) \<and> t = [(FromBluetoothAddress n, Inr (WObject (Some d')))])"
  then obtain n where t: "t = [(FromBluetoothAddress n, Inr (WObject (Some d)))]" by auto
  have close: "ends (close_device_handle d) (\<lambda>r y. \<exists>c. y = [(CloseHandle d, c)])"
    unfolding close_device_handle_def by (rule ends_ignoring [OF ends_ask]) auto
  show "ends (cfinally (body d) (close_device_handle d)) (\<lambda>r y. ?Q r (t @ y))"
  proof (rule ends_cfinally [OF assms])
    fix u and x :: "(win_call, win_answer) trace" assume p: "P u x"
    show "ends (close_device_handle d) (\<lambda>v y. ?Q (case v of Inl e \<Rightarrow> Inl e | Inr _ \<Rightarrow> u) (t @ x @ y))"
      by (rule ends_mono [OF close]) (use p t in \<open>auto split: sum.splits\<close>)
  qed
qed auto

text \<open>
  C27: Pairing on Windows, whatever the operating system answers, cancellations and exceptions at every
  call included: either no handle of the device was opened and an exception was raised, or the last
  call closes the handle; a normal return means that the two calls before it asked a freshly created
  information object and Windows answered that the device is paired and that the bond is encrypted and
  authenticated; every callback that was added is removed; and the passkey, six ASCII digits, was given
  only as the answer to a request for it.
\<close>

theorem windows_pairing_safe:
  assumes "replay (windows_pair_device show_g address passkey timeout) answers [] = (Some r, t)"
  shows "(\<exists>e. r = Inl e \<and> (t = [] \<or> (\<exists>n a. t = [(FromBluetoothAddress n, a)] \<and> (\<forall>d. a \<noteq> Inr (WObject (Some d))))))
    \<or> (\<exists>n d x c. t = (FromBluetoothAddress n, Inr (WObject (Some d))) # x @ [(CloseHandle d, c)] \<and> passkey_ok passkey
         \<and> (r = Inr () \<longrightarrow> ends_confirmed {} x) \<and> only_passkey passkey x \<and> callbacks_removed x)"
proof (cases "passkey_ok passkey")
  case True
  have "replay (cbind (open_bluetooth_device address) (\<lambda>d. cfinally (pair_with_device show_g passkey timeout d) (close_device_handle d)))
      answers [] = (Some r, t)"
    using assms True by (simp add: windows_pair_device_def)
  from ends_replay [OF in_handle_ends [OF pair_with_device_ends] this] show ?thesis
  proof (elim disjE exE conjE)
    fix n d x c u assume "t = (FromBluetoothAddress n, Inr (WObject (Some d))) # x @ [(CloseHandle d, c)]"
      "pairing_contract {} passkey u x" "r = u"
    then show ?thesis using True unfolding pairing_contract_def by blast
  next
    fix n d x c u e assume "t = (FromBluetoothAddress n, Inr (WObject (Some d))) # x @ [(CloseHandle d, c)]"
      "pairing_contract {} passkey u x" "r = Inl e"
    then show ?thesis using True unfolding pairing_contract_def by blast
  qed blast+
next
  case False
  then show ?thesis using assms by (auto simp: windows_pair_device_def)
qed

definition paired_answers :: "win_answer res list" where
  "paired_answers = map Inr [WObject (Some 1), WText ''id'', WObject (Some 2), WBool False, WBool True, WObject (Some 3),
     WObject (Some 4), WPairing [PROVIDE_PIN] (Inr PAIRED), WDone, WObject (Some 5), WBool True,
     WProtection ENCRYPTION_AND_AUTHENTICATION, WDone]"

theorem windows_pairing_safe_witness:
  "\<exists>t. replay (windows_pair_device (\<lambda>_. []) ''11:22:33:44:55:66'' ''123456'' 30) paired_answers [] = (Some (Inr ()), t)
     \<and> (\<exists>x d c. t = (FromBluetoothAddress 0x112233445566, Inr (WObject (Some d))) # x @ [(CloseHandle d, c)] \<and> ends_confirmed {} x)"
proof -
  define t where "t = snd (replay (windows_pair_device (\<lambda>_. []) ''11:22:33:44:55:66'' ''123456'' 30) paired_answers [])"
  have f: "fst (replay (windows_pair_device (\<lambda>_. []) ''11:22:33:44:55:66'' ''123456'' 30) paired_answers []) = Some (Inr ())"
    "fst (hd (snd (replay (windows_pair_device (\<lambda>_. []) ''11:22:33:44:55:66'' ''123456'' 30) paired_answers [])))
       = FromBluetoothAddress 0x112233445566"
    by code_simp+
  then have r: "replay (windows_pair_device (\<lambda>_. []) ''11:22:33:44:55:66'' ''123456'' 30) paired_answers [] = (Some (Inr ()), t)"
    by (simp add: t_def prod_eq_iff)
  from windows_pairing_safe [OF r] r f(2) show ?thesis by (auto simp: t_def [symmetric])
qed

text \<open>
  Removing a bond on Windows reports success only when Windows said so: a normal return means that
  a freshly created information object answered that there is no bond, or that the request to unpair
  it was answered with one of the two statuses of success.
\<close>

theorem windows_forget_confirmed:
  assumes "replay (windows_forget_device address) answers [] = (Some (Inr ()), t)"
  shows "\<exists>id i x d c. t = x @ [(CloseHandle d, c)] \<and> (CreateFromId id, Inr (WObject (Some i))) \<in> set x
    \<and> (last x = (IsPaired i, Inr (WBool False)) \<or> (\<exists>s. last x = (UnpairAsync i, Inr (WUnpairing s)) \<and> s \<in> {UNPAIRED, ALREADY_UNPAIRED}))"
proof -
  define P :: "unit res \<Rightarrow> (win_call, win_answer) trace \<Rightarrow> bool" where "P = (\<lambda>r x. r = Inr () \<longrightarrow> (\<exists>id i. (CreateFromId id, Inr (WObject (Some i))) \<in> set x
    \<and> (last x = (IsPaired i, Inr (WBool False))
       \<or> (\<exists>s. last x = (UnpairAsync i, Inr (WUnpairing s)) \<and> s \<in> {UNPAIRED, ALREADY_UNPAIRED}))))"
  have "ends (unpair_from_device d) P" for d
    unfolding unpair_from_device_def fresh_device_information_def
    by (intro ends_cbind_read ends_if ends_creturn ends_Finished)
      (auto simp: P_def pick_Some windows_error_def UNPAIRING_SUCCEEDED_def)
  from ends_replay [OF in_handle_ends [OF this] assms [unfolded windows_forget_device_def]]
  obtain n d x c where t: "t = (FromBluetoothAddress n, Inr (WObject (Some d))) # x @ [(CloseHandle d, c)]" "P (Inr ()) x"
    by blast
  from t(2) obtain id i where x: "(CreateFromId id, Inr (WObject (Some i))) \<in> set x"
    "last x = (IsPaired i, Inr (WBool False)) \<or> (\<exists>s. last x = (UnpairAsync i, Inr (WUnpairing s)) \<and> s \<in> {UNPAIRED, ALREADY_UNPAIRED})"
    unfolding P_def by blast
  have "last ((FromBluetoothAddress n, Inr (WObject (Some d))) # x) = last x" using x(1) by (cases x) auto
  then show ?thesis
    by (intro exI [of _ id] exI [of _ i] exI [of _ "(FromBluetoothAddress n, Inr (WObject (Some d))) # x"] exI [of _ d] exI [of _ c])
      (use x t(1) in simp)
qed

definition unpaired_answers :: "win_answer res list" where
  "unpaired_answers = map Inr [WObject (Some 1), WText ''id'', WObject (Some 2), WBool True, WUnpairing UNPAIRED, WDone]"

theorem windows_forget_confirmed_witness:
  "\<exists>t x d c. replay (windows_forget_device ''11:22:33:44:55:66'') unpaired_answers [] = (Some (Inr ()), t) \<and> t = x @ [(CloseHandle d, c)]"
proof -
  define t where "t = snd (replay (windows_forget_device ''11:22:33:44:55:66'') unpaired_answers [])"
  have "fst (replay (windows_forget_device ''11:22:33:44:55:66'') unpaired_answers []) = Some (Inr ())" by code_simp
  then have r: "replay (windows_forget_device ''11:22:33:44:55:66'') unpaired_answers [] = (Some (Inr ()), t)"
    by (simp add: t_def prod_eq_iff)
  from windows_forget_confirmed [OF r] r show ?thesis by blast
qed

end
