(* ===== verification/Linux_Pairing.thy ===== *)
theory Linux_Pairing
  imports Traced_Calls Credentials
begin

section \<open>Pairing on Linux\<close>

text \<open>
  \<open>backend/pc_client/linux_pairing.py\<close>: passkey pairing through BlueZ on the system D-Bus, and the
  removal of a device. Every call on the bus is a call of the trace, among them the introspections,
  the creation of an interface, and the half seconds that a discovery waits. The agent object is the
  passkey it answers with, as text and as number (\<open>agent_method\<close>). The imports of
  \<open>dbus_fast\<close> after the first one cannot fail any more. \<open>show_g\<close> renders a float with \<open>:g\<close>.
\<close>

datatype dbus_call =
  ImportDBus | ConnectBus | DisconnectBus nat | Introspect string | GetInterface string string
| ManagedObjects | SetDiscoveryFilter string | StartDiscovery string | StopDiscovery string | SleepHalfSecond
| GetPaired string | GetConnected string | DevicePair string | DeviceDisconnect string | RemoveDevice string string
| ExportAgent string string int | UnexportAgent string | RegisterAgent string string
| RequestDefaultAgent string | UnregisterAgent string

datatype dbus_answer =
  LDone | LBus nat | LBool bool | LObjects "(string \<times> string list) list"

type_synonym 'a bluez = "(dbus_call, dbus_answer, 'a) talk"

fun pick_bus :: "dbus_answer \<Rightarrow> nat option" where
  "pick_bus (LBus n) = Some n" | "pick_bus _ = None"

fun pick_flag :: "dbus_answer \<Rightarrow> bool option" where
  "pick_flag (LBool b) = Some b" | "pick_flag _ = None"

fun pick_objects :: "dbus_answer \<Rightarrow> (string \<times> string list) list option" where
  "pick_objects (LObjects d) = Some d" | "pick_objects _ = None"

definition linux_error :: "string \<Rightarrow> 'a res" where
  "linux_error m = raise LinuxPairingErrorC m"

definition linux_error_from :: "string \<Rightarrow> exc \<Rightarrow> 'a res" where
  "linux_error_from m e = raise_from LinuxPairingErrorC m e"

definition dbus_error :: "exc \<Rightarrow> bool" where
  "dbus_error e \<longleftrightarrow> exc_class e = OtherErrorC ''DBusError''"

text \<open>\<open>part in text\<close>.\<close>

definition py_contains :: "string \<Rightarrow> string \<Rightarrow> bool" where
  "py_contains part s \<longleftrightarrow> list_ex (\<lambda>n. take (length part) (drop n s) = part) [0..<Suc (length s)]"

subsection \<open>Addresses, paths and the passkey\<close>

definition normalize_address :: "string \<Rightarrow> string res" where
  "normalize_address address = (case normalize_mac_address address of
     Inr a \<Rightarrow> Inr a
   | Inl e \<Rightarrow> if exc_class e = ValueErrorC then linux_error_from (exc_text e) e else Inl e)"

definition device_object_path :: "string \<Rightarrow> string \<Rightarrow> string res" where
  "device_object_path adapter_path address =
     rbind (normalize_address address) (\<lambda>a.
     Inr (adapter_path @ ''/dev_'' @ map (\<lambda>c. if c = CHR '':'' then CHR ''_'' else c) a))"

definition require_passkey :: "string \<Rightarrow> string res" where
  "require_passkey passkey =
     (if length passkey \<noteq> 6 \<or> \<not> py_isascii passkey \<or> \<not> py_isdigit passkey
      then value_error ''passkey must contain exactly six ASCII digits'' else Inr passkey)"

definition pin_number :: "string \<Rightarrow> int" where
  "pin_number s = foldl (\<lambda>n c. 10 * n + (int (code_of c) - 48)) 0 s"

subsection \<open>The bus\<close>

definition enter_bus :: "nat bluez" where
  "enter_bus =
     cthen (ccatch (ask ImportDBus) (\<lambda>e. exc_class e = OtherErrorC ''ImportError'')
       (\<lambda>e. Finished (linux_error_from ''dbus-fast is required for Linux BLE pairing (installed with bleak)'' e)))
     (ccatch (ask_as pick_bus ConnectBus) is_exception
       (\<lambda>e. Finished (linux_error_from (''could not connect to the system D-Bus (is this user in group bluetooth?): ''
         @ exc_text e) e)))"

definition exit_bus :: "nat \<Rightarrow> unit bluez" where
  "exit_bus bus = cthen (ask (DisconnectBus bus)) (creturn ())"

text \<open>\<open>async with _BlueZBus() as bus: body\<close>.\<close>

definition with_bus :: "'a bluez \<Rightarrow> 'a bluez" where
  "with_bus body = cbind enter_bus (\<lambda>bus. cfinally body (exit_bus bus))"

text \<open>\<open>introspect\<close>, \<open>get_proxy_object\<close> and \<open>get_interface\<close>.\<close>

definition interface_of :: "string \<Rightarrow> string \<Rightarrow> unit bluez" where
  "interface_of path name = cthen (ask (Introspect path)) (cthen (ask (GetInterface path name)) (creturn ()))"

definition managed_objects :: "(string \<times> string list) list bluez" where
  "managed_objects = cthen (interface_of ''/'' ''org.freedesktop.DBus.ObjectManager'') (ask_as pick_objects ManagedObjects)"

definition adapter_path :: "string bluez" where
  "adapter_path = cbind managed_objects (\<lambda>objects.
     case find (\<lambda>(path, interfaces). ''org.bluez.Adapter1'' \<in> set interfaces) objects of
       Some (path, _) \<Rightarrow> creturn path
     | None \<Rightarrow> Finished (linux_error ''no BlueZ adapter is available''))"

definition has_device :: "(string \<times> string list) list \<Rightarrow> string \<Rightarrow> bool" where
  "has_device objects path \<longleftrightarrow> (case dict_get objects path of
     None \<Rightarrow> False | Some interfaces \<Rightarrow> ''org.bluez.Device1'' \<in> set interfaces)"

subsection \<open>Discovery\<close>

primrec wait_for_device :: "nat \<Rightarrow> string \<Rightarrow> unit bluez" where
  "wait_for_device 0 device_path = creturn ()"
| "wait_for_device (Suc n) device_path =
     cthen (ask SleepHalfSecond)
     (cbind managed_objects (\<lambda>objects.
      if has_device objects device_path then creturn () else wait_for_device n device_path))"

definition discover_until_present :: "string \<Rightarrow> string \<Rightarrow> unit bluez" where
  "discover_until_present adapter device_path =
     cthen (interface_of adapter ''org.bluez.Adapter1'')
     (cthen (ignoring is_exception (ask (SetDiscoveryFilter adapter)))
     (cfinally (cthen (ask (StartDiscovery adapter)) (wait_for_device 8 device_path))
       (ignoring is_exception (ask (StopDiscovery adapter)))))"

text \<open>\<open>device_interface\<close>: the path of the device whose interface it returns.\<close>

definition device_interface :: "string \<Rightarrow> bool \<Rightarrow> string option bluez" where
  "device_interface address discover =
     cbind adapter_path (\<lambda>adapter.
     cbind (Finished (device_object_path adapter address)) (\<lambda>path.
     let present = (\<lambda>objects.
       if \<not> has_device objects path then creturn None
       else cthen (interface_of path ''org.bluez.Device1'') (creturn (Some path))) in
     cbind managed_objects (\<lambda>objects.
     if \<not> has_device objects path then
       if \<not> discover then creturn None
       else cthen (discover_until_present adapter path) (cbind managed_objects present)
     else present objects)))"

subsection \<open>The agent\<close>

definition agent_path :: string where
  "agent_path = ''/ece4880/agent1''"

datatype agent_request =
  Release | RequestPinCode | DisplayPinCode | RequestPasskey | DisplayPasskey | RequestConfirmation
| RequestAuthorization | AuthorizeService | Cancel

datatype agent_reply = NoReply | PinText string | PinNumber int

text \<open>The methods of the exported object, whose state is the passkey.\<close>

definition agent_method :: "string \<Rightarrow> agent_request \<Rightarrow> agent_reply" where
  "agent_method pin request = (case request of
     RequestPinCode \<Rightarrow> PinText pin | RequestPasskey \<Rightarrow> PinNumber (pin_number pin) | _ \<Rightarrow> NoReply)"

definition enter_agent :: "string \<Rightarrow> unit bluez" where
  "enter_agent passkey =
     cthen (ask (ExportAgent agent_path passkey (pin_number passkey)))
     (cthen (interface_of ''/org/bluez'' ''org.bluez.AgentManager1'')
     (cthen (ask (RegisterAgent agent_path ''KeyboardDisplay''))
       (ignoring is_exception (ask (RequestDefaultAgent agent_path)))))"

definition exit_agent :: "unit bluez" where
  "exit_agent =
     cthen (ignoring is_exception (cthen (interface_of ''/org/bluez'' ''org.bluez.AgentManager1'') (ask (UnregisterAgent agent_path))))
       (ignoring is_exception (ask (UnexportAgent agent_path)))"

text \<open>\<open>async with _PasskeyAgent(bus, passkey): body\<close>.\<close>

definition with_agent :: "string \<Rightarrow> 'a bluez \<Rightarrow> 'a bluez" where
  "with_agent passkey body = cthen (enter_agent passkey) (cfinally body exit_agent)"

subsection \<open>Pairing and removing on one bus\<close>

definition already_exists :: "exc \<Rightarrow> bool" where
  "already_exists e \<longleftrightarrow> dbus_error e \<and> (py_contains ''AlreadyExists'' (exc_text e) \<or> py_contains ''Already Exists'' (exc_text e))"

text \<open>The pairing call: \<open>True\<close> when the bond still has to be checked, \<open>False\<close> for the early return.\<close>

definition request_pairing :: "(rat \<Rightarrow> string) \<Rightarrow> string \<Rightarrow> rat \<Rightarrow> bool bluez" where
  "request_pairing show_g device timeout =
     ccatch (cthen (ask (DevicePair device)) (creturn True)) (\<lambda>e. exc_class e = TimeoutErrorC \<or> dbus_error e)
       (\<lambda>e. if exc_class e = TimeoutErrorC then
              Finished (linux_error_from (''BlueZ pairing timed out after '' @ show_g timeout @ '' seconds'') e)
            else if already_exists e then creturn False
            else Finished (linux_error_from (''BlueZ pairing failed: '' @ exc_text e) e))"

definition bus_pair :: "(rat \<Rightarrow> string) \<Rightarrow> string \<Rightarrow> string \<Rightarrow> rat \<Rightarrow> unit bluez" where
  "bus_pair show_g address passkey timeout =
     cbind (device_interface address True) (\<lambda>d. case d of
       None \<Rightarrow> Finished (linux_error (''BlueZ does not know device '' @ address @ ''; scan again while the ESP32 is advertising''))
     | Some device \<Rightarrow>
         cbind (ask_as pick_flag (GetPaired device)) (\<lambda>paired.
         if paired then creturn ()
         else cbind (with_agent passkey (request_pairing show_g device timeout)) (\<lambda>check.
           if \<not> check then creturn ()
           else cbind (ask_as pick_flag (GetPaired device)) (\<lambda>retained.
             if \<not> retained then Finished (linux_error ''BlueZ did not retain the BLE pairing'') else creturn ()))))"

definition disconnect_if_connected :: "string \<Rightarrow> unit bluez" where
  "disconnect_if_connected device =
     ignoring is_exception (cbind (ask_as pick_flag (GetConnected device)) (\<lambda>connected.
       if connected then cthen (ask (DeviceDisconnect device)) (creturn ()) else creturn ()))"

definition bus_remove :: "string \<Rightarrow> unit bluez" where
  "bus_remove address =
     cbind adapter_path (\<lambda>adapter.
     cbind (Finished (device_object_path adapter address)) (\<lambda>path.
     cbind managed_objects (\<lambda>objects.
     if dict_get objects path = None then creturn ()
     else cbind (device_interface address False) (\<lambda>d.
       cthen (case d of None \<Rightarrow> creturn () | Some device \<Rightarrow> disconnect_if_connected device)
       (cthen (interface_of adapter ''org.bluez.Adapter1'')
       (ccatch (cthen (ask (RemoveDevice adapter path)) (creturn ())) dbus_error
         (\<lambda>e. if py_contains ''DoesNotExist'' (exc_text e) \<or> py_contains ''Does Not Exist'' (exc_text e) then creturn ()
              else Finished (linux_error_from (''BlueZ could not reset pairing: '' @ exc_text e) e))))))))"

subsection \<open>The backend and its two callers\<close>

record bluez_backend =
  bz_is_paired :: "string \<Rightarrow> bool bluez"
  bz_pair :: "string \<Rightarrow> string \<Rightarrow> rat \<Rightarrow> unit bluez"
  bz_remove :: "string \<Rightarrow> unit bluez"

definition dbus_is_paired :: "string \<Rightarrow> bool bluez" where
  "dbus_is_paired address = with_bus (cbind (device_interface address False) (\<lambda>d. case d of
     None \<Rightarrow> creturn False | Some device \<Rightarrow> ask_as pick_flag (GetPaired device)))"

definition dbus_backend :: "(rat \<Rightarrow> string) \<Rightarrow> bluez_backend" where
  "dbus_backend show_g =
     \<lparr>bz_is_paired = dbus_is_paired,
      bz_pair = (\<lambda>address passkey timeout. with_bus (bus_pair show_g address passkey timeout)),
      bz_remove = (\<lambda>address. with_bus (bus_remove address))\<rparr>"

definition linux_pair_device :: "bluez_backend \<Rightarrow> string \<Rightarrow> string \<Rightarrow> rat \<Rightarrow> unit bluez" where
  "linux_pair_device session address passkey timeout =
     cbind (Finished (require_passkey passkey)) (\<lambda>credential.
     cbind (Finished (normalize_address address)) (\<lambda>normalized.
     cbind (bz_is_paired session normalized) (\<lambda>paired.
     if paired then creturn () else bz_pair session normalized credential timeout)))"

definition linux_forget_device :: "bluez_backend \<Rightarrow> string \<Rightarrow> unit bluez" where
  "linux_forget_device session address =
     cbind (Finished (normalize_address address)) (\<lambda>normalized. bz_remove session normalized)"

end
