(* ===== verification/Linux_Pairing_Props.thy ===== *)
theory Linux_Pairing_Props
  imports Linux_Pairing
begin

section \<open>What pairing through BlueZ guarantees\<close>

text \<open>
  Facts of theory Linux_Pairing, of every conversation with the bus: what a normal return of
  \<open>pair_device\<close> rests on, and that no connection to the bus and no discovery is left behind.
\<close>

text \<open>
  Every connection but those of \<open>B\<close> is closed, every discovery but those of \<open>D\<close> was told to stop,
  and every agent knows the passkey \<open>k\<close>.
\<close>

definition tidy :: "string \<Rightarrow> nat set \<Rightarrow> string set \<Rightarrow> (dbus_call, dbus_answer) trace \<Rightarrow> bool" where
  "tidy k B D t \<longleftrightarrow>
     (\<forall>n. (ConnectBus, Inr (LBus n)) \<in> set t \<longrightarrow> n \<in> B \<or> (\<exists>a. (DisconnectBus n, a) \<in> set t))
     \<and> (\<forall>d a. (StartDiscovery d, a) \<in> set t \<longrightarrow> d \<in> D \<or> (\<exists>b. (StopDiscovery d, b) \<in> set t))
     \<and> (\<forall>p q n a. (ExportAgent p q n, a) \<in> set t \<longrightarrow> q = k)"

lemma tidy_Nil [simp]: "tidy k B D []"
  by (simp add: tidy_def)

lemma tidy_append: "tidy k B D x \<Longrightarrow> tidy k B D y \<Longrightarrow> tidy k B D (x @ y)"
  unfolding tidy_def set_append Un_iff by blast

lemma tidy_mono: "tidy k B D x \<Longrightarrow> B \<subseteq> B' \<Longrightarrow> D \<subseteq> D' \<Longrightarrow> tidy k B' D' x"
  unfolding tidy_def by blast

lemma tidy_stopped:
  "tidy k B {d} x \<Longrightarrow> tidy k B {} y \<Longrightarrow> (StopDiscovery d, a) \<in> set y \<Longrightarrow> tidy k B {} (x @ y)"
  unfolding tidy_def set_append Un_iff by blast

lemma tidy_disconnected:
  "tidy k {n} D x \<Longrightarrow> tidy k {} D y \<Longrightarrow> (DisconnectBus n, a) \<in> set y \<Longrightarrow> tidy k {} D (x @ y)"
  unfolding tidy_def set_append Un_iff by blast

text \<open>A call that opens nothing.\<close>

definition harmless :: "dbus_call \<Rightarrow> bool" where
  "harmless q \<longleftrightarrow> q \<noteq> ConnectBus \<and> (\<forall>d. q \<noteq> StartDiscovery d) \<and> (\<forall>p k n. q \<noteq> ExportAgent p k n)"

lemma tidy_harmless: "harmless q \<Longrightarrow> tidy k B D [(q, a)]"
  by (auto simp: tidy_def harmless_def)

definition cleans :: "string \<Rightarrow> string set \<Rightarrow> 'a bluez \<Rightarrow> bool" where
  "cleans k D c \<longleftrightarrow> ends c (\<lambda>r. tidy k {} D)"

lemma cleans_Finished [simp]: "cleans k D (Finished r)" "cleans k D (creturn v)"
  by (simp_all add: cleans_def ends_Finished ends_creturn)

lemma cleans_ask: "harmless q \<Longrightarrow> cleans k D (ask q)"
  by (simp add: cleans_def ends_ask tidy_harmless)

lemma cleans_ask_as: "harmless q \<Longrightarrow> cleans k D (ask_as pick q)"
  by (simp add: cleans_def ends_ask_as tidy_harmless)

lemma cleans_cbind: "cleans k D c \<Longrightarrow> (\<And>v. cleans k D (f v)) \<Longrightarrow> cleans k D (cbind c f)"
  unfolding cleans_def by (rule ends_cbind, assumption) (auto intro: ends_mono tidy_append)

lemma cleans_cthen: "cleans k D c \<Longrightarrow> cleans k D d \<Longrightarrow> cleans k D (cthen c d)"
  unfolding cthen_def by (rule cleans_cbind)

lemma cleans_ccatch: "cleans k D c \<Longrightarrow> (\<And>e. cleans k D (h e)) \<Longrightarrow> cleans k D (ccatch c p h)"
  unfolding cleans_def by (rule ends_ccatch, assumption) (auto intro: ends_mono tidy_append)

lemma cleans_cfinally: "cleans k D c \<Longrightarrow> cleans k D d \<Longrightarrow> cleans k D (cfinally c d)"
  unfolding cleans_def by (rule ends_cfinally, assumption) (auto intro: ends_mono tidy_append)

lemma cleans_ignoring: "cleans k D c \<Longrightarrow> cleans k D (ignoring p c)"
  unfolding cleans_def by (rule ends_ignoring, assumption) auto

lemma cleans_if: "(b \<Longrightarrow> cleans k D c) \<Longrightarrow> (\<not> b \<Longrightarrow> cleans k D d) \<Longrightarrow> cleans k D (if b then c else d)"
  by simp

lemma cleans_option: "cleans k D c \<Longrightarrow> (\<And>v. cleans k D (f v)) \<Longrightarrow> cleans k D (case m of None \<Rightarrow> c | Some v \<Rightarrow> f v)"
  by (cases m) simp_all

lemmas cleans_intros = cleans_Finished cleans_ask cleans_ask_as cleans_cbind cleans_cthen cleans_ccatch cleans_cfinally
  cleans_ignoring cleans_if cleans_option

lemma harmless_calls [simp]:
  "harmless (Introspect p)" "harmless (GetInterface p i)" "harmless ManagedObjects" "harmless (SetDiscoveryFilter p)"
  "harmless (StopDiscovery p)" "harmless SleepHalfSecond" "harmless (GetPaired p)" "harmless (GetConnected p)"
  "harmless (DevicePair p)" "harmless (DeviceDisconnect p)" "harmless (RemoveDevice p q)" "harmless (UnexportAgent p)"
  "harmless (RegisterAgent p c)" "harmless (RequestDefaultAgent p)" "harmless (UnregisterAgent p)" "harmless ImportDBus"
  "harmless (DisconnectBus n)"
  by (simp_all add: harmless_def)

lemma interface_cleans: "cleans k D (interface_of p n)"
  unfolding interface_of_def by (intro cleans_intros) simp_all

lemma objects_cleans: "cleans k D managed_objects"
  unfolding managed_objects_def by (intro cleans_intros interface_cleans) simp_all

lemma adapter_cleans: "cleans k D adapter_path"
  unfolding adapter_path_def linux_error_def
  by (intro cleans_intros objects_cleans) (auto split: prod.splits)

lemma wait_cleans: "cleans k D (wait_for_device n p)"
  by (induction n) (auto intro!: cleans_intros objects_cleans)

lemma discover_cleans: "cleans k {} (discover_until_present adapter p)"
  unfolding discover_until_present_def
proof (intro cleans_cthen interface_cleans cleans_ignoring cleans_ask harmless_calls)
  have s: "cleans k {adapter} (ask (StartDiscovery adapter))"
    unfolding cleans_def by (rule ends_ask) (auto simp: tidy_def)
  have b: "ends (cthen (ask (StartDiscovery adapter)) (wait_for_device 8 p)) (\<lambda>r. tidy k {} {adapter})"
    using cleans_cthen [OF s wait_cleans] by (simp add: cleans_def)
  have d: "ends (ignoring is_exception (ask (StopDiscovery adapter))) (\<lambda>r y. \<exists>a. y = [(StopDiscovery adapter, a)])"
    by (rule ends_ignoring [OF ends_ask]) auto
  show "cleans k {} (cfinally (cthen (ask (StartDiscovery adapter)) (wait_for_device 8 p))
      (ignoring is_exception (ask (StopDiscovery adapter))))"
    unfolding cleans_def
    by (rule ends_cfinally [OF b], rule ends_mono [OF d])
      (auto intro!: tidy_stopped [where d = adapter] tidy_harmless)
qed

lemma device_interface_cleans: "cleans k {} (device_interface address discover)"
  unfolding device_interface_def Let_def
  by (intro cleans_intros adapter_cleans objects_cleans discover_cleans interface_cleans)

lemma agent_parts_clean: "cleans k {} (enter_agent k)" "cleans k {} exit_agent"
proof -
  have "cleans k {} (ask (ExportAgent agent_path k (pin_number k)))"
    unfolding cleans_def by (rule ends_ask) (auto simp: tidy_def)
  moreover have "cleans k {} (cthen (interface_of ''/org/bluez'' ''org.bluez.AgentManager1'')
      (cthen (ask (RegisterAgent agent_path ''KeyboardDisplay'')) (ignoring is_exception (ask (RequestDefaultAgent agent_path)))))"
    "cleans k {} exit_agent"
    unfolding exit_agent_def by (intro cleans_intros interface_cleans harmless_calls)+
  ultimately show "cleans k {} (enter_agent k)" "cleans k {} exit_agent"
    unfolding enter_agent_def by (blast intro: cleans_cthen)+
qed

lemma agent_cleans: "cleans k {} body \<Longrightarrow> cleans k {} (with_agent k body)"
  unfolding with_agent_def by (intro cleans_cthen cleans_cfinally agent_parts_clean)


lemma bus_pair_cleans: "cleans k {} (bus_pair show_g address k timeout)"
  unfolding bus_pair_def request_pairing_def linux_error_def linux_error_from_def
  by (intro cleans_intros device_interface_cleans agent_cleans) simp_all

lemma bus_remove_cleans: "cleans k {} (bus_remove address)"
  unfolding bus_remove_def disconnect_if_connected_def linux_error_from_def
  by (intro cleans_intros device_interface_cleans adapter_cleans objects_cleans interface_cleans) simp_all

text \<open>A connection is opened, used and closed.\<close>

lemma with_bus_cleans:
  assumes "cleans k {} body" shows "cleans k {} (with_bus body)"
proof -
  have pick: "pick_bus a = Some n \<longleftrightarrow> a = LBus n" for a n by (cases a) auto
  have opened: "tidy k {} {} [(ConnectBus, a)]" if "\<forall>n. a \<noteq> Inr (LBus n)" for a
    using that by (auto simp: tidy_def)
  have none: "tidy k {} {} [(ConnectBus, Inr a)]" if "pick_bus a = None" for a
    using that by (cases a) (auto simp: tidy_def)
  have opened_bus: "tidy k {n} {} [(ConnectBus, Inr (LBus n))]" for n by (simp add: tidy_def)
  have e: "ends enter_bus (\<lambda>r x. case r of Inl e \<Rightarrow> tidy k {} {} x | Inr n \<Rightarrow> tidy k {n} {} x)"
    unfolding enter_bus_def linux_error_from_def
  proof (rule ends_cthen)
    show "ends (ccatch (ask ImportDBus) (\<lambda>e. exc_class e = OtherErrorC ''ImportError'')
      (\<lambda>e. Finished (raise_from LinuxPairingErrorC ''dbus-fast is required for Linux BLE pairing (installed with bleak)'' e)))
      (\<lambda>r. tidy k {} {})"
      using cleans_ccatch [OF cleans_ask [of ImportDBus k "{}"] cleans_Finished(1)] by (simp add: cleans_def)
  next
    fix v and x :: "(dbus_call, dbus_answer) trace"
    assume x: "tidy k {} {} x"
    show "ends (ccatch (ask_as pick_bus ConnectBus) is_exception (\<lambda>e. Finished (raise_from LinuxPairingErrorC
        (''could not connect to the system D-Bus (is this user in group bluetooth?): '' @ exc_text e) e)))
      (\<lambda>r y. case r of Inl e \<Rightarrow> tidy k {} {} (x @ y) | Inr n \<Rightarrow> tidy k {n} {} (x @ y))"
      by (rule ends_ccatch [OF ends_ask_as [where P = "\<lambda>r y. (case r of Inl e \<Rightarrow> tidy k {} {} y | Inr n \<Rightarrow> tidy k {n} {} y)"]])
        (use x opened opened_bus none in \<open>auto simp: pick tidy_append tidy_mono intro!: ends_Finished\<close>)
  qed auto
  show ?thesis unfolding with_bus_def cleans_def
  proof (rule ends_cbind [OF e])
    fix n and x :: "(dbus_call, dbus_answer) trace"
    assume x: "case Inr n :: nat res of Inl e \<Rightarrow> tidy k {} {} x | Inr n \<Rightarrow> tidy k {n} {} x"
    have d: "ends (exit_bus n) (\<lambda>r y. \<exists>a. y = [(DisconnectBus n, a)])"
      unfolding exit_bus_def
      by (rule ends_cthen [OF ends_ask [where P = "\<lambda>r y. \<exists>a. y = [(DisconnectBus n, a)]"]]) (auto intro: ends_creturn)
    have b: "ends body (\<lambda>r. tidy k {} {})" using assms by (simp add: cleans_def)
    show "ends (cfinally body (exit_bus n)) (\<lambda>r y. tidy k {} {} (x @ y))"
      by (rule ends_cfinally [OF b], rule ends_mono [OF d])
        (use x tidy_append tidy_mono [of k "{}" "{}" _ "{n}" "{}"] in \<open>auto intro!: tidy_disconnected [of k n] tidy_harmless\<close>)
  qed simp
qed

text \<open>What a normal return rests on.\<close>

definition bond_evidence :: "(dbus_call, dbus_answer) trace \<Rightarrow> bool" where
  "bond_evidence t \<longleftrightarrow> (\<exists>d. (GetPaired d, Inr (LBool True)) \<in> set t
     \<or> (\<exists>e. (DevicePair d, Inl e) \<in> set t \<and> already_exists e))"

lemma bond_evidence_append: "bond_evidence x \<or> bond_evidence y \<Longrightarrow> bond_evidence (x @ y)"
  unfolding bond_evidence_def by auto

lemma pick_flag_Some: "pick_flag a = Some b \<longleftrightarrow> a = LBool b"
  by (cases a) auto

text \<open>Work whose outcome is not looked at.\<close>

lemma shows_after:
  assumes "cleans k D c" "\<And>v. ends (f v) (\<lambda>r y. r = Inr () \<longrightarrow> bond_evidence y)"
  shows "ends (cbind c f) (\<lambda>r y. r = Inr () \<longrightarrow> bond_evidence y)"
proof (rule ends_cbind)
  show "ends c (\<lambda>r. tidy k {} D)" using assms(1) by (simp add: cleans_def)
next
  fix v and x :: "(dbus_call, dbus_answer) trace"
  show "ends (f v) (\<lambda>r y. r = Inr () \<longrightarrow> bond_evidence (x @ y))"
    by (rule ends_mono [OF assms(2)]) (auto intro: bond_evidence_append)
qed auto

lemma shows_raise: "ends (Finished (Inl e)) (\<lambda>r y. r = Inr () \<longrightarrow> bond_evidence y)"
  by (simp add: ends_Finished)

lemma request_ends: "ends (request_pairing show_g d timeout) (\<lambda>r x. r = Inr False \<longrightarrow> bond_evidence x)"
  unfolding request_pairing_def linux_error_from_def
proof (rule ends_ccatch)
  show "ends (cthen (ask (DevicePair d)) (creturn True)) (\<lambda>r x. r = Inr True \<or> (\<exists>e. r = Inl e \<and> x = [(DevicePair d, Inl e)]))"
    by (rule ends_cthen [OF ends_ask [where P = "\<lambda>r x. x = [(DevicePair d, r)]"]]) (auto intro: ends_creturn)
qed (auto simp: bond_evidence_def intro!: ends_Finished ends_creturn split: if_splits)

lemma agent_ends:
  assumes "ends body P" "\<And>v x y. P (Inr v) x \<Longrightarrow> P (Inr v) (x @ y)" "\<And>v x y. P (Inr v) y \<Longrightarrow> P (Inr v) (x @ y)"
  shows "ends (with_agent k body) (\<lambda>r x. \<forall>v. r = Inr v \<longrightarrow> P (Inr v) x)"
proof -
  have e: "ends (enter_agent k) (\<lambda>r. tidy k {} {})" and x: "ends exit_agent (\<lambda>r. tidy k {} {})"
    using agent_parts_clean by (simp_all add: cleans_def)
  have b: "ends (cfinally body exit_agent) (\<lambda>r x. \<forall>v. r = Inr v \<longrightarrow> P (Inr v) x)"
    by (rule ends_cfinally [OF assms(1)], rule ends_mono [OF x]) (auto split: sum.splits intro: assms(2))
  show ?thesis unfolding with_agent_def
    by (rule ends_cthen [OF e]) (auto intro: ends_mono [OF b] assms(3))
qed

lemma bus_pair_evidence: "ends (bus_pair show_g address k timeout) (\<lambda>r y. r = Inr () \<longrightarrow> bond_evidence y)"
  unfolding bus_pair_def
proof (rule shows_after [OF device_interface_cleans])
  fix d :: "string option"
  have after: "ends (cbind (with_agent k (request_pairing show_g device timeout)) (\<lambda>check. if \<not> check then creturn ()
      else cbind (ask_as pick_flag (GetPaired device)) (\<lambda>retained. if \<not> retained
        then Finished (linux_error ''BlueZ did not retain the BLE pairing'') else creturn ())))
      (\<lambda>r y. r = Inr () \<longrightarrow> bond_evidence y)" for device
  proof (rule ends_cbind [OF agent_ends [OF request_ends]])
    fix check and x :: "(dbus_call, dbus_answer) trace"
    assume "\<forall>v. (Inr check :: bool res) = Inr v \<longrightarrow> (Inr v :: bool res) = Inr False \<longrightarrow> bond_evidence x"
    then have x: "\<not> check \<Longrightarrow> bond_evidence x" by (cases check) blast+
    show "ends (if \<not> check then creturn () else cbind (ask_as pick_flag (GetPaired device)) (\<lambda>retained. if \<not> retained
        then Finished (linux_error ''BlueZ did not retain the BLE pairing'') else creturn ()))
      (\<lambda>r y. r = Inr () \<longrightarrow> bond_evidence (x @ y))"
      by (intro ends_if ends_cbind_read ends_creturn ends_Finished)
        (use x in \<open>auto simp: pick_flag_Some linux_error_def bond_evidence_def\<close>)
  qed (auto intro: bond_evidence_append)
  show "ends (case d of None \<Rightarrow> Finished (linux_error (''BlueZ does not know device '' @ address
        @ ''; scan again while the ESP32 is advertising''))
     | Some device \<Rightarrow> cbind (ask_as pick_flag (GetPaired device)) (\<lambda>paired. if paired then creturn ()
         else cbind (with_agent k (request_pairing show_g device timeout)) (\<lambda>check. if \<not> check then creturn ()
           else cbind (ask_as pick_flag (GetPaired device)) (\<lambda>retained. if \<not> retained
             then Finished (linux_error ''BlueZ did not retain the BLE pairing'') else creturn ()))))
      (\<lambda>r y. r = Inr () \<longrightarrow> bond_evidence y)"
  proof (cases d)
    case (Some device)
    have m: "ends (cbind (with_agent k (request_pairing show_g device timeout)) (\<lambda>check. if \<not> check then creturn ()
      else cbind (ask_as pick_flag (GetPaired device)) (\<lambda>retained. if \<not> retained
        then Finished (linux_error ''BlueZ did not retain the BLE pairing'') else creturn ())))
      (\<lambda>r y. r = Inr () \<longrightarrow> bond_evidence ((q, a) # y))" for q a
      by (rule ends_mono [OF after]) (auto simp: bond_evidence_def)
    show ?thesis unfolding Some option.case
      by (rule ends_cbind_read) (auto simp: pick_flag_Some bond_evidence_def [of "[_]"] intro!: ends_creturn m)
  qed (simp add: linux_error_def shows_raise)
qed

lemma with_bus_ends:
  assumes "ends body (\<lambda>r y. r = Inr v \<longrightarrow> bond_evidence y)"
  shows "ends (with_bus body) (\<lambda>r y. r = Inr v \<longrightarrow> bond_evidence y)"
proof -
  have any: "ends enter_bus (\<lambda>_ _. True)"
    unfolding enter_bus_def linux_error_from_def
    by (rule ends_cthen [where P = "\<lambda>_ _. True"] ends_ccatch [where P = "\<lambda>_ _. True"] ends_ask ends_ask_as ends_Finished TrueI)+
  have exit: "ends (exit_bus n) (\<lambda>_ _. True)" for n
    unfolding exit_bus_def by (rule ends_cthen [where P = "\<lambda>_ _. True"] ends_ask ends_creturn TrueI)+
  show ?thesis unfolding with_bus_def
  proof (rule ends_cbind [OF any])
    fix n and x :: "(dbus_call, dbus_answer) trace"
    show "ends (cfinally body (exit_bus n)) (\<lambda>r y. r = Inr v \<longrightarrow> bond_evidence (x @ y))"
      by (rule ends_cfinally [OF assms], rule ends_mono [OF exit]) (auto split: sum.splits intro: bond_evidence_append)
  qed simp
qed

text \<open>\<open>is_paired\<close> answers \<open>True\<close> only on an answer of the bus.\<close>

lemma is_paired_ends: "ends (dbus_is_paired address) (\<lambda>r y. r = Inr True \<longrightarrow> bond_evidence y)"
  unfolding dbus_is_paired_def
proof (rule with_bus_ends, rule ends_cbind)
  show "ends (device_interface address False) (\<lambda>r. tidy [] {} {})"
    using device_interface_cleans by (simp add: cleans_def)
next
  fix m :: "string option" and x :: "(dbus_call, dbus_answer) trace"
  show "ends (case m of None \<Rightarrow> creturn False | Some device \<Rightarrow> ask_as pick_flag (GetPaired device))
      (\<lambda>r y. r = Inr True \<longrightarrow> bond_evidence (x @ y))"
    by (cases m) (auto simp: pick_flag_Some bond_evidence_def intro!: ends_creturn ends_ask_as)
qed simp

lemma is_paired_cleans: "cleans k {} (dbus_is_paired address)"
  unfolding dbus_is_paired_def by (intro with_bus_cleans cleans_intros device_interface_cleans harmless_calls)

lemma linux_pair_evidence:
  "ends (linux_pair_device (dbus_backend show_g) address k timeout) (\<lambda>r y. r = Inr () \<longrightarrow> bond_evidence y)"
proof (cases "require_passkey k"; cases "normalize_address address")
  fix credential normalized assume ok: "require_passkey k = Inr credential" "normalize_address address = Inr normalized"
  show ?thesis unfolding linux_pair_device_def ok cbind.simps sum.case
  proof (rule ends_cbind)
    show "ends (bz_is_paired (dbus_backend show_g) normalized) (\<lambda>r y. r = Inr True \<longrightarrow> bond_evidence y)"
      by (simp add: dbus_backend_def is_paired_ends)
  next
    fix paired and x :: "(dbus_call, dbus_answer) trace"
    assume x: "(Inr paired :: bool res) = Inr True \<longrightarrow> bond_evidence x"
    show "ends (if paired then creturn () else bz_pair (dbus_backend show_g) normalized credential timeout)
        (\<lambda>r y. r = Inr () \<longrightarrow> bond_evidence (x @ y))"
      unfolding dbus_backend_def bluez_backend.simps
      by (intro ends_if ends_creturn ends_mono [OF with_bus_ends [OF bus_pair_evidence]])
        (use x in \<open>auto intro: bond_evidence_append\<close>)
  qed simp
qed (simp_all add: linux_pair_device_def ends_Finished)

lemma linux_pair_cleans: "cleans k {} (linux_pair_device (dbus_backend show_g) address k timeout)"
proof (cases "require_passkey k"; cases "normalize_address address")
  fix credential normalized assume ok: "require_passkey k = Inr credential" "normalize_address address = Inr normalized"
  have "credential = k" using ok(1) by (simp add: require_passkey_def split: if_splits)
  then show ?thesis unfolding linux_pair_device_def ok cbind.simps sum.case dbus_backend_def bluez_backend.simps
    by (auto intro!: cleans_intros is_paired_cleans with_bus_cleans bus_pair_cleans)
qed (simp_all add: linux_pair_device_def)

lemma linux_forget_cleans: "cleans [] {} (linux_forget_device (dbus_backend show_g) address)"
  unfolding linux_forget_device_def dbus_backend_def bluez_backend.simps
  by (intro cleans_intros with_bus_cleans bus_remove_cleans)

text \<open>
  C28: Pairing on Linux, whatever the bus answers, cancellations and exceptions at every call included:
  a normal return means that BlueZ answered that the device is paired, or that it refused the pairing
  call with an \<open>AlreadyExists\<close> error; every connection to the system bus that was opened was closed,
  every discovery that was started was told to stop, and every agent that was exported answers with the
  passkey of the call.
\<close>

theorem linux_pairing_safe:
  assumes "replay (linux_pair_device (dbus_backend show_g) address passkey timeout) answers [] = (Some r, t)"
  shows "(r = Inr () \<longrightarrow> (\<exists>d. (GetPaired d, Inr (LBool True)) \<in> set t
           \<or> (\<exists>e. (DevicePair d, Inl e) \<in> set t \<and> already_exists e)))
    \<and> (\<forall>n. (ConnectBus, Inr (LBus n)) \<in> set t \<longrightarrow> (\<exists>a. (DisconnectBus n, a) \<in> set t))
    \<and> (\<forall>d a. (StartDiscovery d, a) \<in> set t \<longrightarrow> (\<exists>b. (StopDiscovery d, b) \<in> set t))
    \<and> (\<forall>p q n a. (ExportAgent p q n, a) \<in> set t \<longrightarrow> q = passkey)"
  using ends_replay [OF linux_pair_evidence assms] ends_replay [OF linux_pair_cleans [unfolded cleans_def] assms]
  unfolding bond_evidence_def tidy_def by simp

definition bluez_objects :: dbus_answer where
  "bluez_objects = LObjects [(''/org/bluez/hci0'', [''org.bluez.Adapter1'']),
     (''/org/bluez/hci0/dev_11_22_33_44_55_66'', [''org.bluez.Device1''])]"

definition bluez_answers :: "dbus_answer res list" where
  "bluez_answers = map Inr (
     [LDone, LBus 1, LDone, LDone, bluez_objects, LDone, LDone, bluez_objects, LDone, LDone, LBool False, LDone]
     @ [LDone, LBus 2, LDone, LDone, bluez_objects, LDone, LDone, bluez_objects, LDone, LDone, LBool False]
     @ [LDone, LDone, LDone, LDone, LDone] @ [LDone] @ [LDone, LDone, LDone, LDone] @ [LBool True, LDone])"

theorem linux_pairing_safe_witness:
  "\<exists>t d. replay (linux_pair_device (dbus_backend (\<lambda>_. [])) ''11:22:33:44:55:66'' ''123456'' 30) bluez_answers []
       = (Some (Inr ()), t)
     \<and> ((GetPaired d, Inr (LBool True)) \<in> set t \<or> (\<exists>e. (DevicePair d, Inl e) \<in> set t \<and> already_exists e))"
proof -
  define t where "t = snd (replay (linux_pair_device (dbus_backend (\<lambda>_. [])) ''11:22:33:44:55:66'' ''123456'' 30) bluez_answers [])"
  have "fst (replay (linux_pair_device (dbus_backend (\<lambda>_. [])) ''11:22:33:44:55:66'' ''123456'' 30) bluez_answers [])
      = Some (Inr ())" by code_simp
  then have r: "replay (linux_pair_device (dbus_backend (\<lambda>_. [])) ''11:22:33:44:55:66'' ''123456'' 30) bluez_answers []
      = (Some (Inr ()), t)"
    by (simp add: t_def prod_eq_iff)
  from linux_pairing_safe [OF r] r show ?thesis by blast
qed

text \<open>The two answers of an exported agent are the same six digits.\<close>

lemma digits_bound: "list_all is_ascii_digit s \<Longrightarrow> 0 \<le> pin_number s \<and> pin_number s < 10 ^ length s"
proof (induction s rule: rev_induct)
  case (snoc c s)
  then have "0 \<le> pin_number s" "pin_number s < 10 ^ length s" "is_ascii_digit c" by auto
  moreover have "pin_number (s @ [c]) = 10 * pin_number s + (int (code_of c) - 48)" by (simp add: pin_number_def)
  ultimately show ?case by (simp add: is_ascii_digit_def in_range_def)
qed (simp add: pin_number_def)

lemma agent_answers_passkey:
  assumes "require_passkey passkey = Inr k"
  shows "agent_method k RequestPinCode = PinText passkey"
    and "\<exists>n. agent_method k RequestPasskey = PinNumber n \<and> 0 \<le> n \<and> n \<le> 999999"
proof -
  have k: "k = passkey" "length k = 6" "py_isascii k" "py_isdigit k"
    using assms by (auto simp: require_passkey_def split: if_splits)
  have "list_all is_ascii_digit k"
    using k(3,4) isdigit_ascii by (auto simp: py_isascii_def py_isdigit_def list_all_iff)
  from digits_bound [OF this] show "\<exists>n. agent_method k RequestPasskey = PinNumber n \<and> 0 \<le> n \<and> n \<le> 999999"
    by (simp add: agent_method_def k(2))
  show "agent_method k RequestPinCode = PinText passkey" by (simp add: agent_method_def k(1))
qed

end
