(* ===== verification/Service_Api.thy ===== *)
theory Service_Api
  imports Service_Calls Platform
begin

section \<open>The HTTP adapter\<close>

text \<open>
  \<open>backend/pc_client/service_api.py\<close>: the response models, the JSON bodies, the routes over the calls
  of the controller, the exception handlers and the CORS origins. FastAPI is below the model: a
  request arrives parsed, its constraints (\<open>min_length\<close>, \<open>ge\<close>, \<open>le\<close>) are checked before the route runs,
  and a rejection has the status 422. An operation that a route has just received is read back from
  the table of operations under its identifier.
\<close>

subsection \<open>Bodies and their models\<close>

datatype api_value =
  ANull | ABool bool | AInt int | AFloat rat | AStr string | ATime utc
| AList "api_value list" | ADict "(string \<times> api_value) list"

datatype api_schema =
  TyBool | TyInt | TyFloat | TyStr | TyTime | TyOptional api_schema | TyList api_schema
| TyModel "(string \<times> api_schema) list" | TyAnyDict | TyStrDict

definition opt :: "('a \<Rightarrow> api_value) \<Rightarrow> 'a option \<Rightarrow> api_value" where
  "opt f v = (case v of None \<Rightarrow> ANull | Some x \<Rightarrow> f x)"

definition DeviceResponse :: api_schema where
  "DeviceResponse = TyModel [(''name'', TyStr), (''address'', TyStr), (''rssi'', TyOptional TyInt)]"

definition SensorResponse :: api_schema where
  "SensorResponse = TyModel [(''sensor_id'', TyInt), (''temperature_c'', TyOptional TyFloat),
     (''visible_state'', TyStr), (''display_enabled'', TyBool), (''connected'', TyBool)]"

definition SnapshotResponse :: api_schema where
  "SnapshotResponse = TyModel [(''boot_id'', TyInt), (''newest_sequence'', TyInt),
     (''average_c'', TyOptional TyFloat), (''sensors'', TyList SensorResponse)]"

definition HealthResponse :: api_schema where
  "HealthResponse = TyModel [(''ready'', TyBool), (''controller_state'', TyStr), (''connected'', TyBool),
     (''database_adapter_available'', TyBool), (''persistence_configured'', TyBool), (''verification_contract'', TyInt)]"

definition DisplayStatusResponse :: api_schema where
  "DisplayStatusResponse = TyModel [(''sensor_id'', TyInt), (''enabled'', TyBool)]"

definition StatusResponse :: api_schema where
  "StatusResponse = TyModel
     [(''phase'', TyStr), (''desired_connected'', TyBool), (''target'', TyOptional DeviceResponse),
      (''connected'', TyBool), (''ready'', TyBool), (''credential_state'', TyStr), (''state_revision'', TyInt),
      (''state_changed_at_utc'', TyTime), (''transition_reason'', TyStr), (''retry_count'', TyInt),
      (''next_retry_at_utc'', TyOptional TyTime), (''last_seen_utc'', TyOptional TyTime),
      (''last_error'', TyOptional TyStr), (''last_database_error'', TyOptional TyStr), (''protocol_version'', TyInt),
      (''persistence_configured'', TyBool), (''active_operation_ids'', TyList TyStr), (''manager_running'', TyBool),
      (''attempt_id'', TyInt), (''next_action_at_utc'', TyOptional TyTime), (''persistence_pending'', TyInt),
      (''persistence_capacity'', TyInt), (''persistence_overflow_count'', TyInt),
      (''history_sync'', TyOptional TyAnyDict), (''host_os'', TyStr), (''pairing_backend'', TyStr),
      (''auto_discover_on_start'', TyBool), (''displays'', TyList DisplayStatusResponse)]"

definition ScanResponse :: api_schema where
  "ScanResponse = TyModel [(''devices'', TyList DeviceResponse)]"

definition OperationResponse :: api_schema where
  "OperationResponse = TyModel
     [(''operation_id'', TyStr), (''kind'', TyStr), (''state'', TyStr), (''created_at_utc'', TyTime),
      (''updated_at_utc'', TyTime), (''progress'', TyFloat), (''persistence_configured'', TyBool),
      (''persistence_succeeded'', TyOptional TyBool), (''result'', TyOptional TyAnyDict), (''error'', TyOptional TyStrDict)]"

definition DisconnectResponse :: api_schema where
  "DisconnectResponse = TyModel [(''disconnected'', TyBool)]"

definition CurrentResponse :: api_schema where
  "CurrentResponse = TyModel [(''available'', TyBool), (''received_at_utc'', TyOptional TyTime),
     (''snapshot'', TyOptional SnapshotResponse), (''error'', TyOptional TyStr)]"

definition DisplayResponse :: api_schema where
  "DisplayResponse = TyModel [(''sensor_id'', TyInt), (''visible_state'', TyStr), (''enabled'', TyBool),
     (''observed_at_utc'', TyTime), (''persistence_configured'', TyBool), (''persisted'', TyBool),
     (''persistence_detail'', TyOptional TyStr)]"

subsection \<open>The bodies\<close>

fun phase_value :: "connection_phase \<Rightarrow> string" where
  "phase_value STOPPED = ''STOPPED''" | "phase_value DISCOVERING = ''DISCOVERING''"
| "phase_value SELECTION_REQUIRED = ''SELECTION_REQUIRED''"
| "phase_value AUTHENTICATION_REQUIRED = ''AUTHENTICATION_REQUIRED''" | "phase_value PAIRING = ''PAIRING''"
| "phase_value CONNECTING = ''CONNECTING''" | "phase_value VERIFYING = ''VERIFYING''"
| "phase_value CONNECTED = ''CONNECTED''" | "phase_value RECONNECTING = ''RECONNECTING''"
| "phase_value DISCONNECTING = ''DISCONNECTING''" | "phase_value DISCONNECTED = ''DISCONNECTED''"

fun credential_value :: "credential_state \<Rightarrow> string" where
  "credential_value CRED_MISSING = ''MISSING''" | "credential_value CRED_AVAILABLE = ''AVAILABLE''"
| "credential_value CRED_VERIFIED = ''VERIFIED''" | "credential_value CRED_REJECTED = ''REJECTED''"

fun operation_state_value :: "operation_state \<Rightarrow> string" where
  "operation_state_value QUEUED = ''QUEUED''" | "operation_state_value RUNNING = ''RUNNING''"
| "operation_state_value SUCCEEDED = ''SUCCEEDED''" | "operation_state_value FAILED = ''FAILED''"
| "operation_state_value CANCELLED_OP = ''CANCELLED''"

definition device_json :: "string \<Rightarrow> string \<Rightarrow> int option \<Rightarrow> api_value" where
  "device_json name address rssi = ADict [(''name'', AStr name), (''address'', AStr address), (''rssi'', opt AInt rssi)]"

definition thermometer_json :: "discovered_thermometer \<Rightarrow> api_value" where
  "thermometer_json d = device_json (dt_name d) (dt_address d) (dt_rssi d)"

text \<open>The identity of a device has no \<open>rssi\<close>.\<close>

definition identity_json :: "device_identity \<Rightarrow> api_value" where
  "identity_json d = device_json (dev_name d) (dev_address d) None"

definition sensor_json :: "sensor_snapshot \<Rightarrow> api_value" where
  "sensor_json x = ADict [(''sensor_id'', AInt (snap_sensor_id x)), (''temperature_c'', opt AFloat (snap_temperature_c x)),
     (''visible_state'', AStr (visible_state_name (snap_visible_state x))),
     (''display_enabled'', ABool (snap_display_enabled x)), (''connected'', ABool (snap_connected x))]"

definition snapshot_json :: "current_snapshot \<Rightarrow> api_value" where
  "snapshot_json snap = ADict [(''boot_id'', AInt (cur_boot_id snap)), (''newest_sequence'', AInt (cur_newest_sequence snap)),
     (''average_c'', opt AFloat (cur_average_c snap)), (''sensors'', AList (map sensor_json (cur_sensors snap)))]"

text \<open>The dictionaries the controller keeps as the last history retrieval and as the result of an operation.\<close>

definition history_numbers :: "history_result \<Rightarrow> (string \<times> api_value) list" where
  "history_numbers r = [(''expected_counts'', AList (map AInt (hx_expected_counts r))),
     (''retrieved_counts'', AList (map AInt (hx_retrieved_counts r)))]"

fun history_status_json :: "history_status \<Rightarrow> api_value" where
  "history_status_json (HistoryRunning i source) =
     ADict [(''state'', AStr ''RUNNING''), (''operation_id'', AStr i), (''source'', AStr source)]"
| "history_status_json (HistoryProgress progress i source) =
     ADict [(''state'', AStr ''RUNNING''), (''progress'', AFloat progress), (''operation_id'', AStr i), (''source'', AStr source)]"
| "history_status_json (HistoryCancelled i source reason) =
     ADict [(''state'', AStr ''CANCELLED''), (''operation_id'', AStr i), (''source'', AStr source), (''failure_reason'', AStr reason)]"
| "history_status_json (HistoryFailed i source reason) =
     ADict [(''state'', AStr ''FAILED''), (''operation_id'', AStr i), (''source'', AStr source), (''failure_reason'', AStr reason)]"
| "history_status_json (HistoryFinished i source r) =
     ADict ([(''state'', AStr (if hx_complete r then ''COMPLETE'' else ''INCOMPLETE'')), (''operation_id'', AStr i),
       (''source'', AStr source)] @ history_numbers r
       @ [(''sample_count'', AInt (int (hx_sample_count r))), (''elapsed_seconds'', AFloat (hx_elapsed_seconds r)),
          (''persisted'', ABool (hx_persisted r)), (''failure_reason'', opt AStr (hx_failure_reason r))])"

fun operation_result_json :: "operation_result \<Rightarrow> api_value" where
  "operation_result_json (ConnectResult address already) =
     ADict ((''address'', opt AStr address) # (if already then [(''already_connected'', ABool True)] else []))"
| "operation_result_json (ForgetResult address) = ADict [(''address'', AStr address), (''forgotten'', ABool True)]"
| "operation_result_json (HistoryResult r) =
     ADict (history_numbers r @ [(''complete'', ABool (hx_complete r)), (''elapsed_seconds'', AFloat (hx_elapsed_seconds r)),
       (''sample_count'', AInt (int (hx_sample_count r))), (''persisted'', ABool (hx_persisted r)),
       (''failure_reason'', opt AStr (hx_failure_reason r))])"

definition status_json :: "ble_host_runtime \<Rightarrow> service_status \<Rightarrow> current_diagnostic \<Rightarrow> api_value" where
  "status_json runtime st current = ADict
     [(''phase'', AStr (phase_value (ss_phase st))), (''desired_connected'', ABool (ss_desired_connected st)),
      (''target'', opt identity_json (ss_target st)), (''connected'', ABool (ss_connected st)), (''ready'', ABool (ss_ready st)),
      (''credential_state'', AStr (credential_value (ss_credential_state st))),
      (''state_revision'', AInt (ss_state_revision st)), (''state_changed_at_utc'', ATime (ss_state_changed_at st)),
      (''transition_reason'', AStr (ss_transition_reason st)), (''retry_count'', AInt (ss_retry_count st)),
      (''next_retry_at_utc'', opt ATime (ss_next_retry_at st)), (''last_seen_utc'', opt ATime (ss_last_seen st)),
      (''last_error'', opt AStr (ss_last_error st)), (''last_database_error'', opt AStr (ss_last_database_error st)),
      (''protocol_version'', AInt (ss_protocol_version st)), (''persistence_configured'', ABool (ss_persistence_configured st)),
      (''active_operation_ids'', AList (map AStr (ss_active_operation_ids st))), (''manager_running'', ABool (ss_manager_running st)),
      (''attempt_id'', AInt (ss_attempt_id st)), (''next_action_at_utc'', opt ATime (ss_next_action_at st)),
      (''persistence_pending'', AInt (int (ss_persistence_pending st))),
      (''persistence_capacity'', AInt (int (ss_persistence_capacity st))),
      (''persistence_overflow_count'', AInt (int (ss_persistence_overflow_count st))),
      (''history_sync'', opt history_status_json (ss_history_sync st)), (''host_os'', AStr (host_family runtime)),
      (''pairing_backend'', AStr (host_pairing runtime)), (''auto_discover_on_start'', ABool (host_auto_discover runtime)),
      (''displays'', AList (case cd_snapshot current of None \<Rightarrow> [] | Some snap \<Rightarrow>
         map (\<lambda>x. ADict [(''sensor_id'', AInt (snap_sensor_id x)), (''enabled'', ABool (snap_display_enabled x))]) (cur_sensors snap)))]"

definition operation_json :: "tracked_operation \<Rightarrow> api_value" where
  "operation_json p = ADict
     [(''operation_id'', AStr (op_id p)), (''kind'', AStr (op_kind p)), (''state'', AStr (operation_state_value (op_state p))),
      (''created_at_utc'', ATime (op_created_at p)), (''updated_at_utc'', ATime (op_updated_at p)),
      (''progress'', AFloat (op_progress p)), (''persistence_configured'', ABool (op_persistence_configured p)),
      (''persistence_succeeded'', opt ABool (op_persistence_succeeded p)),
      (''result'', opt operation_result_json (op_result p)),
      (''error'', opt (\<lambda>(t, m). ADict [(''type'', AStr t), (''message'', AStr m)]) (op_error p))]"

definition current_json :: "current_diagnostic \<Rightarrow> api_value" where
  "current_json current = ADict
     [(''available'', ABool (cd_available current)), (''received_at_utc'', opt ATime (cd_received_at current)),
      (''snapshot'', if cd_available current then opt snapshot_json (cd_snapshot current) else ANull),
      (''error'', opt AStr (cd_error current))]"

definition display_json :: "confirmed_display \<Rightarrow> api_value" where
  "display_json d = ADict
     [(''sensor_id'', AInt (disp_sensor_id (cf_result d))),
      (''visible_state'', AStr (visible_state_name (disp_visible_state (cf_result d)))),
      (''enabled'', ABool (disp_display_enabled (cf_result d))), (''observed_at_utc'', ATime (cf_observed_at d)),
      (''persistence_configured'', ABool (pr_configured (cf_persistence d))), (''persisted'', ABool (pr_persisted (cf_persistence d))),
      (''persistence_detail'', opt AStr (pr_detail (cf_persistence d)))]"

definition health_json :: "service_status \<Rightarrow> api_value" where
  "health_json st = ADict
     [(''ready'', ABool True), (''controller_state'', AStr (phase_value (ss_phase st))), (''connected'', ABool (ss_connected st)),
      (''database_adapter_available'', ABool (ss_last_database_error st = None)),
      (''persistence_configured'', ABool (ss_persistence_configured st)), (''verification_contract'', AInt 2)]"

subsection \<open>Requests, replies and errors\<close>

datatype api_request =
  GetHealth | GetStatus | PostScan | PostConnect string "string option" | PostReconnect | PostDisconnect
| PostPair string "string option" | DeletePairing string | GetCurrentDiagnostic | PutDisplay int bool
| PostHistorySync | GetOperation string

datatype api_reply = Reply int api_value | RejectedRequest

text \<open>\<open>address: str = Field(min_length=1)\<close> and \<open>Path(ge=1, le=CONFIG.device.sensor_count)\<close>.\<close>

definition request_valid :: "api_request \<Rightarrow> bool" where
  "request_valid req = (case req of
     PostConnect address _ \<Rightarrow> address \<noteq> [] | PostPair address _ \<Rightarrow> address \<noteq> []
   | PutDisplay sensor_id _ \<Rightarrow> 1 \<le> sensor_id \<and> sensor_id \<le> SENSOR_COUNT | _ \<Rightarrow> True)"

definition success_status :: "api_request \<Rightarrow> int" where
  "success_status req = (case req of
     PostConnect _ _ \<Rightarrow> 202 | PostReconnect \<Rightarrow> 202 | PostPair _ _ \<Rightarrow> 202 | DeletePairing _ \<Rightarrow> 202
   | PostHistorySync \<Rightarrow> 202 | _ \<Rightarrow> 200)"

definition response_model :: "api_request \<Rightarrow> api_schema" where
  "response_model req = (case req of
     GetHealth \<Rightarrow> HealthResponse | GetStatus \<Rightarrow> StatusResponse | PostScan \<Rightarrow> ScanResponse
   | PostConnect _ _ \<Rightarrow> OperationResponse | PostReconnect \<Rightarrow> OperationResponse | PostDisconnect \<Rightarrow> DisconnectResponse
   | PostPair _ _ \<Rightarrow> OperationResponse | DeletePairing _ \<Rightarrow> OperationResponse | GetCurrentDiagnostic \<Rightarrow> CurrentResponse
   | PutDisplay _ _ \<Rightarrow> DisplayResponse | PostHistorySync \<Rightarrow> OperationResponse | GetOperation _ \<Rightarrow> OperationResponse)"

text \<open>
  The exception handlers. A handler of a class also serves its subclasses: of the classes by name those
  below \<open>ValueError\<close>. What no handler serves leaves the application, which then answers with 500.
\<close>

definition value_error_names :: "string list" where
  "value_error_names = [''UnicodeError'', ''UnicodeEncodeError'', ''UnicodeDecodeError'', ''JSONDecodeError'']"

definition handler_status :: "exc_class \<Rightarrow> int option" where
  "handler_status c = (case c of
     ServiceConflictErrorC \<Rightarrow> Some 409 | ServiceUnavailableErrorC \<Rightarrow> Some 503 | LinuxPairingErrorC \<Rightarrow> Some 503
   | WindowsPairingErrorC \<Rightarrow> Some 503 | AuthenticationRequiredErrorC \<Rightarrow> Some 401 | DisplayTimeoutErrorC \<Rightarrow> Some 504
   | OperationNotFoundErrorC \<Rightarrow> Some 404 | ValueErrorC \<Rightarrow> Some 422 | ProtocolErrorC \<Rightarrow> Some 503
   | OtherErrorC n \<Rightarrow> if n \<in> set value_error_names then Some 422 else None
   | _ \<Rightarrow> None)"

definition error_detail :: "exc \<Rightarrow> string" where
  "error_detail e =
     (if exc_class e = ProtocolErrorC \<and> exc_status e = Some NOT_AVAILABLE then ''sensor not available'' else exc_text e)"

definition error_reply :: "exc \<Rightarrow> api_reply res" where
  "error_reply e = (case handler_status (exc_class e) of
     Some code \<Rightarrow> Inr (Reply code (ADict [(''detail'', AStr (error_detail e))])) | None \<Rightarrow> Inl e)"

subsection \<open>Routes\<close>

definition read_operation :: "string \<Rightarrow> ('h, 'w, api_value) sact" where
  "read_operation i s = (case dict_get (sv_operations s) i of
     Some p \<Rightarrow> (Inr (operation_json p), s) | None \<Rightarrow> (raise KeyErrorC (py_repr i), s))"

definition route ::
    "('h, 'w) host \<Rightarrow> string \<Rightarrow> (string \<rightharpoonup> string) \<Rightarrow> api_request \<Rightarrow> ('h, 'w, api_value) scoro" where
  "route h platform env req = (case req of
     GetHealth \<Rightarrow> cbind (work (get_status h)) (\<lambda>st. creturn (health_json st))
   | GetStatus \<Rightarrow> cbind (work (get_status h)) (\<lambda>st. cread (\<lambda>s.
       creturn (status_json (detect_ble_host platform env) st (sv_current s))))
   | PostScan \<Rightarrow> cbind (scan_call h) (\<lambda>devices. creturn (ADict [(''devices'', AList (map thermometer_json devices))]))
   | PostConnect address passkey \<Rightarrow> cbind (begin_connection h (TargetAddress address) passkey ''connect'') (\<lambda>i. work (read_operation i))
   | PostReconnect \<Rightarrow> cbind (reconnect_call h) (\<lambda>i. work (read_operation i))
   | PostDisconnect \<Rightarrow> cthen (disconnect_call h) (creturn (ADict [(''disconnected'', ABool True)]))
   | PostPair address passkey \<Rightarrow> cbind (begin_connection h (TargetAddress address) passkey ''pair'') (\<lambda>i. work (read_operation i))
   | DeletePairing address \<Rightarrow> cbind (forget_pairing_call h (TargetAddress address)) (\<lambda>i. work (read_operation i))
   | GetCurrentDiagnostic \<Rightarrow> cread (\<lambda>s. creturn (current_json (sv_current s)))
   | PutDisplay sensor_id enabled \<Rightarrow> cbind (set_display_call h sensor_id enabled) (\<lambda>d. creturn (display_json d))
   | PostHistorySync \<Rightarrow> cbind (work (request_history_sync h)) (\<lambda>(i, _). work (read_operation i))
   | GetOperation i \<Rightarrow> cbind (work (Service_Core.get_operation h i)) (\<lambda>p. creturn (operation_json p)))"

definition respond ::
    "('h, 'w) host \<Rightarrow> string \<Rightarrow> (string \<rightharpoonup> string) \<Rightarrow> api_request \<Rightarrow> ('h, 'w, api_reply) scoro" where
  "respond h platform env req =
     (if \<not> request_valid req then creturn RejectedRequest
      else ccatch (cbind (route h platform env req) (\<lambda>body. creturn (Reply (success_status req) body)))
        (\<lambda>e. handler_status (exc_class e) \<noteq> None) (\<lambda>e. Finished (error_reply e)))"

text \<open>The lifespan of the application: start, serve, stop.\<close>

definition lifespan :: "('h, 'w) host \<Rightarrow> ('h, 'w, unit) scoro \<Rightarrow> ('h, 'w, unit) scoro" where
  "lifespan h serve = cthen (start_service h) (cfinally serve (stop_service h))"

subsection \<open>CORS origins\<close>

text \<open>\<open>s.split(sep)\<close> of one character, and \<open>rstrip\<close>.\<close>

fun split_on :: "char \<Rightarrow> string \<Rightarrow> string list" where
  "split_on c [] = [[]]"
| "split_on c (x # xs) = (if x = c then [] # split_on c xs
     else (case split_on c xs of [] \<Rightarrow> [[x]] | y # ys \<Rightarrow> (x # y) # ys))"

definition rstrip_char :: "char \<Rightarrow> string \<Rightarrow> string" where
  "rstrip_char c s = rev (dropWhile (\<lambda>x. x = c) (rev s))"

text \<open>\<open>partition\<close> and \<open>rpartition\<close> at one character: the parts, and whether it occurs.\<close>

definition before :: "char \<Rightarrow> string \<Rightarrow> string" where "before c s = takeWhile (\<lambda>x. x \<noteq> c) s"

definition after :: "char \<Rightarrow> string \<Rightarrow> string" where "after c s = drop 1 (dropWhile (\<lambda>x. x \<noteq> c) s)"

definition after_last :: "char \<Rightarrow> string \<Rightarrow> string" where "after_last c s = rev (before c (rev s))"

record split_url =
  url_scheme :: string
  url_netloc :: string
  url_path :: string
  url_query :: string
  url_fragment :: string

definition scheme_char :: "char \<Rightarrow> bool" where
  "scheme_char c \<longleftrightarrow> is_ascii_digit c \<or> is_ascii_upper c \<or> is_ascii_lower c \<or> c \<in> {CHR ''+'', CHR ''-'', CHR ''.''}"

text \<open>
  \<open>urlsplit\<close>: leading control characters and spaces are stripped and tabs and line ends removed; a
  scheme ends at the first colon; the network location runs to the first of \<open>/?#\<close>. \<open>ipv6\<close> is the
  check of a bracketed host.
\<close>

definition scheme_of :: "string \<Rightarrow> (string \<times> string)" where
  "scheme_of url =
     (let i = before CHR '':'' url in
      if CHR '':'' \<in> set url \<and> i \<noteq> [] \<and> (is_ascii_upper (hd i) \<or> is_ascii_lower (hd i)) \<and> list_all scheme_char i
      then (py_lower i, after CHR '':'' url) else ([], url))"

definition netloc_of :: "string \<Rightarrow> (string \<times> string)" where
  "netloc_of url =
     (if take 2 url = ''//'' then
        let rest = drop 2 url; stop = (\<lambda>c. c \<in> {CHR ''/'', CHR ''?'', CHR ''#''})
        in (takeWhile (\<lambda>c. \<not> stop c) rest, dropWhile (\<lambda>c. \<not> stop c) rest)
      else ([], url))"

definition brackets_ok :: "(string \<Rightarrow> bool) \<Rightarrow> string \<Rightarrow> bool" where
  "brackets_ok ipv6 netloc =
     (let open = CHR ''['' \<in> set netloc; close = CHR '']'' \<in> set netloc in
      (open \<longleftrightarrow> close) \<and> (open \<longrightarrow> ipv6 (before CHR '']'' (after CHR ''['' netloc))))"

definition url_text :: "string \<Rightarrow> string" where
  "url_text text = filter (\<lambda>c. c \<notin> {CHR 0x09, CHR 0x0A, CHR 0x0D}) (dropWhile (\<lambda>c. code_of c \<le> 32) text)"

definition urlsplit :: "(string \<Rightarrow> bool) \<Rightarrow> string \<Rightarrow> split_url res" where
  "urlsplit ipv6 text =
     (let (scheme, url) = scheme_of (url_text text);
          (netloc, url) = netloc_of url
      in if \<not> brackets_ok ipv6 netloc then value_error ''Invalid IPv6 URL''
         else
           let fragment = (if CHR ''#'' \<in> set url then after CHR ''#'' url else []);
               url = before CHR ''#'' url;
               query = (if CHR ''?'' \<in> set url then after CHR ''?'' url else []);
               path = before CHR ''?'' url
           in Inr \<lparr>url_scheme = scheme, url_netloc = netloc, url_path = path, url_query = query, url_fragment = fragment\<rparr>)"

definition hostinfo_of :: "string \<Rightarrow> string" where
  "hostinfo_of netloc = after_last CHR ''@'' netloc"

text \<open>\<open>hostname\<close>: the zone behind a percent sign keeps its case.\<close>

definition hostname_of :: "string \<Rightarrow> string option" where
  "hostname_of netloc =
     (let info = hostinfo_of netloc;
          host = (if CHR ''['' \<in> set info then before CHR '']'' (after CHR ''['' info) else before CHR '':'' info)
      in if host = [] then None
         else Some (py_lower (before CHR ''%'' host) @ dropWhile (\<lambda>c. c \<noteq> CHR ''%'') host))"

text \<open>\<open>username\<close> and \<open>password\<close> are present when there is an at sign.\<close>

definition has_userinfo :: "string \<Rightarrow> bool" where
  "has_userinfo netloc \<longleftrightarrow> CHR ''@'' \<in> set netloc"

definition origin_acceptable :: "split_url \<Rightarrow> bool" where
  "origin_acceptable parsed \<longleftrightarrow> url_scheme parsed = ''http''
     \<and> hostname_of (url_netloc parsed) \<in> {Some ''127.0.0.1'', Some ''localhost''}
     \<and> \<not> has_userinfo (url_netloc parsed) \<and> url_path parsed = [] \<and> url_query parsed = [] \<and> url_fragment parsed = []"

fun collect_origins :: "(string \<Rightarrow> bool) \<Rightarrow> string list \<Rightarrow> string list \<Rightarrow> string list res" where
  "collect_origins ipv6 [] origins = Inr origins"
| "collect_origins ipv6 (v # vs) origins =
     (let origin = rstrip_char CHR ''/'' (py_strip v) in
      if origin = [] then collect_origins ipv6 vs origins
      else rbind (urlsplit ipv6 origin) (\<lambda>parsed.
        if \<not> origin_acceptable parsed then
          raise RuntimeErrorC ''THERMOMETER_CORS_ORIGINS accepts only exact http://localhost or http://127.0.0.1 origins''
        else collect_origins ipv6 vs (if origin \<in> set origins then origins else origins @ [origin])))"

definition configured_cors_origins :: "(string \<Rightarrow> bool) \<Rightarrow> (string \<rightharpoonup> string) \<Rightarrow> string list res" where
  "configured_cors_origins ipv6 env =
     collect_origins ipv6 (split_on CHR '','' (case env ''THERMOMETER_CORS_ORIGINS'' of None \<Rightarrow> [] | Some v \<Rightarrow> v)) []"

end
