(* ===== verification/Api_Props.thy ===== *)
theory Api_Props
  imports Service_Api Service_Attempts
begin

section \<open>What the HTTP adapter guarantees\<close>

text \<open>
  Facts of theory Service_Api: every reply has the status and the model its route declares, in every
  interleaving with the rest of the controller.
\<close>

subsection \<open>Replies are well typed\<close>

text \<open>A value of a response model. Further keys of a dictionary are dropped by the framework.\<close>

fun conforms :: "api_schema \<Rightarrow> api_value \<Rightarrow> bool" where
  "conforms TyBool v = (case v of ABool _ \<Rightarrow> True | _ \<Rightarrow> False)"
| "conforms TyInt v = (case v of AInt _ \<Rightarrow> True | _ \<Rightarrow> False)"
| "conforms TyFloat v = (case v of AFloat _ \<Rightarrow> True | AInt _ \<Rightarrow> True | _ \<Rightarrow> False)"
| "conforms TyStr v = (case v of AStr _ \<Rightarrow> True | _ \<Rightarrow> False)"
| "conforms TyTime v = (case v of ATime _ \<Rightarrow> True | _ \<Rightarrow> False)"
| "conforms (TyOptional s) v = (v = ANull \<or> conforms s v)"
| "conforms (TyList s) v = (case v of AList vs \<Rightarrow> (\<forall>x\<in>set vs. conforms s x) | _ \<Rightarrow> False)"
| "conforms (TyModel fs) v = (case v of
     ADict d \<Rightarrow> (\<forall>f\<in>set fs. case dict_get d (fst f) of None \<Rightarrow> False | Some x \<Rightarrow> conforms (snd f) x) | _ \<Rightarrow> False)"
| "conforms TyAnyDict v = (case v of ADict _ \<Rightarrow> True | _ \<Rightarrow> False)"
| "conforms TyStrDict v = (case v of ADict d \<Rightarrow> (\<forall>p\<in>set d. case snd p of AStr _ \<Rightarrow> True | _ \<Rightarrow> False) | _ \<Rightarrow> False)"

lemma conforms_opt: "(\<And>x. conforms s (f x)) \<Longrightarrow> conforms (TyOptional s) (opt f v)"
  by (cases v) (simp_all add: opt_def)

named_theorems typed_bodies

lemma device_typed [typed_bodies]: "conforms DeviceResponse (device_json n a r)"
  by (simp add: DeviceResponse_def device_json_def opt_def split: option.split)

lemma thermometer_typed [typed_bodies]: "conforms DeviceResponse (thermometer_json d)"
  "conforms DeviceResponse (identity_json i)"
  by (simp_all add: thermometer_json_def identity_json_def device_typed)

lemma sensor_typed [typed_bodies]: "conforms SensorResponse (sensor_json x)"
  by (simp add: SensorResponse_def sensor_json_def opt_def split: option.split)

lemma snapshot_typed [typed_bodies]: "conforms SnapshotResponse (snapshot_json x)"
  using sensor_typed by (simp add: SnapshotResponse_def snapshot_json_def opt_def split: option.split)

lemma scan_typed [typed_bodies]: "conforms ScanResponse (ADict [(''devices'', AList (map thermometer_json ds))])"
  using thermometer_typed by (simp add: ScanResponse_def)

lemma any_dict: "conforms TyAnyDict (history_status_json x)" "conforms TyAnyDict (operation_result_json r)"
  by (cases x; simp) (cases r; simp)

lemma typed_values: "conforms TyStr (AStr t)" "conforms TyInt (AInt i)" "conforms TyBool (ABool b)"
  "conforms TyTime (ATime u)" "conforms TyFloat (AFloat q)"
  "conforms (TyOptional TyStr) (opt AStr os)" "conforms (TyOptional TyTime) (opt ATime ot)"
  "conforms (TyOptional TyFloat) (opt AFloat oq)" "conforms (TyOptional TyBool) (opt ABool ob)"
  "conforms (TyList TyStr) (AList (map AStr ts))"
  by (simp_all add: opt_def split: option.split)

text \<open>A model is met field by field.\<close>

lemma conforms_model:
  "list_all2 (\<lambda>f p. fst f = fst p \<and> conforms (snd f) (snd p)) fs d \<Longrightarrow> distinct (map fst d) \<Longrightarrow> conforms (TyModel fs) (ADict d)"
proof -
  assume a: "list_all2 (\<lambda>f p. fst f = fst p \<and> conforms (snd f) (snd p)) fs d" and d: "distinct (map fst d)"
  have "\<exists>x. dict_get d (fst f) = Some x \<and> conforms (snd f) x" if "f \<in> set fs" for f
  proof -
    from that obtain i where i: "i < length fs" "f = fs ! i" by (auto simp: in_set_conv_nth)
    then have "i < length d" "fst f = fst (d ! i)" "conforms (snd f) (snd (d ! i))"
      using list_all2_nthD [OF a i(1)] list_all2_lengthD [OF a] by auto
    moreover from this have "dict_get d (fst (d ! i)) = Some (snd (d ! i))"
      using d nth_mem [of i d] by (simp add: map_of_eq_Some_iff)
    ultimately show ?thesis by auto
  qed
  then show ?thesis by fastforce
qed

lemma operation_typed [typed_bodies]: "conforms OperationResponse (operation_json p)"
proof -
  have "conforms (TyOptional TyAnyDict) (opt operation_result_json (op_result p))"
    by (rule conforms_opt) (rule any_dict)
  moreover have "conforms (TyOptional TyStrDict) (opt (\<lambda>(t, m). ADict [(''type'', AStr t), (''message'', AStr m)]) (op_error p))"
    by (rule conforms_opt) (auto split: prod.split)
  ultimately show ?thesis unfolding OperationResponse_def operation_json_def
    by (intro conforms_model) (simp_all add: typed_values del: conforms.simps)
qed

lemma current_typed [typed_bodies]: "conforms CurrentResponse (current_json c)"
proof -
  have "conforms (TyOptional SnapshotResponse) (if cd_available c then opt snapshot_json (cd_snapshot c) else ANull)"
    using conforms_opt [of SnapshotResponse snapshot_json, OF snapshot_typed] by simp
  then show ?thesis unfolding CurrentResponse_def current_json_def
    by (intro conforms_model) (simp_all add: typed_values del: conforms.simps)
qed

lemma display_typed [typed_bodies]: "conforms DisplayResponse (display_json d)"
  unfolding DisplayResponse_def display_json_def
  by (intro conforms_model) (simp_all add: typed_values del: conforms.simps)

lemma health_typed [typed_bodies]: "conforms HealthResponse (health_json st)"
  unfolding HealthResponse_def health_json_def
  by (intro conforms_model) (simp_all add: typed_values del: conforms.simps)

lemma disconnect_typed [typed_bodies]: "conforms DisconnectResponse (ADict [(''disconnected'', ABool b)])"
  by (simp add: DisconnectResponse_def)

lemma displays_typed:
  "conforms (TyList DisplayStatusResponse) (AList (case m of None \<Rightarrow> [] | Some snap \<Rightarrow>
     map (\<lambda>x. ADict [(''sensor_id'', AInt (snap_sensor_id x)), (''enabled'', ABool (snap_display_enabled x))]) (cur_sensors snap)))"
  by (cases m) (simp_all add: DisplayStatusResponse_def)

lemma status_typed [typed_bodies]: "conforms StatusResponse (status_json runtime st current)"
proof -
  have h: "conforms (TyOptional TyAnyDict) (opt history_status_json (ss_history_sync st))"
    by (rule conforms_opt) (rule any_dict)
  have t: "conforms (TyOptional DeviceResponse) (opt identity_json (ss_target st))"
    by (rule conforms_opt) (rule thermometer_typed)
  show ?thesis unfolding StatusResponse_def status_json_def
    by (intro conforms_model) (simp_all add: typed_values h t displays_typed del: conforms.simps)
qed

text \<open>
  A reply as its route declares it: a success with its status and a body of its model, a mapped error,
  or a rejection by the framework of a request whose constraints do not hold.
\<close>

definition reply_ok :: "api_request \<Rightarrow> api_reply \<Rightarrow> bool" where
  "reply_ok req reply = (case reply of
     RejectedRequest \<Rightarrow> \<not> request_valid req
   | Reply code body \<Rightarrow>
       code = success_status req \<and> conforms (response_model req) body
       \<or> code \<in> {401, 404, 409, 422, 503, 504} \<and> conforms (TyModel [(''detail'', TyStr)]) body)"

lemma cwp_anything: "(\<And>r s. Q r s) \<Longrightarrow> cwp R F c Q s"
  by (rule cwp_mono [OF cwp_true])

lemma route_step:
  "(\<And>v s. cwp R F (f v) Q s) \<Longrightarrow> (\<And>e s. Q (Inl e) s) \<Longrightarrow> cwp R F (cbind c f) Q s"
  unfolding cwp_cbind by (rule cwp_anything) (simp split: sum.split)

lemma read_operation_typed:
  "cwp R F (work (read_operation i)) (\<lambda>r s. \<forall>body. r = Inr body \<longrightarrow> conforms OperationResponse body) s"
  using operation_typed by (auto simp: read_operation_def split: option.split)

lemma route_typed:
  "cwp R F (route h platform env req) (\<lambda>r s. \<forall>body. r = Inr body \<longrightarrow> conforms (response_model req) body) s"
  using typed_bodies
  by (cases req)
    (auto simp: route_def response_model_def cthen_def intro!: route_step read_operation_typed split: prod.split
      simp del: conforms.simps)

text \<open>
  C29: Every answer of the HTTP adapter is well typed, in every interleaving with the other tasks of the
  service and whatever its hosts answer: a success has the status of its route and a body of the
  declared response model; a request whose constraints fail is rejected; every exception of a class the
  adapter maps becomes one of the statuses 401, 404, 409, 422, 503 and 504 with a detail; and only an
  exception of no mapped class leaves the application.
\<close>

theorem replies_well_typed:
  "cwp R F (respond h platform env req)
     (\<lambda>r s. case r of Inl e \<Rightarrow> handler_status (exc_class e) = None | Inr reply \<Rightarrow> reply_ok req reply) s"
proof (cases "request_valid req")
  case True
  have e: "cwp R F (Finished (error_reply e))
      (\<lambda>r s. case r of Inl e \<Rightarrow> handler_status (exc_class e) = None | Inr reply \<Rightarrow> reply_ok req reply) s"
    if "handler_status (exc_class e) \<noteq> None" for e s
    using that by (cases "exc_class e") (auto simp: error_reply_def handler_status_def reply_ok_def split: if_splits)
  show ?thesis
    unfolding respond_def using True
    by (auto simp: cwp_ccatch cwp_cbind reply_ok_def simp del: conforms.simps cwp.simps
        intro!: cwp_mono [OF route_typed] e split: sum.split)
qed (simp add: respond_def reply_ok_def)

end
