(* ===== verification/Cors_Props.thy ===== *)
theory Cors_Props
  imports Service_Api
begin

section \<open>The origins that may call the HTTP adapter from a browser\<close>

text \<open>
  The configured CORS origins of theory Service_Api, taken apart as text: what \<open>urlsplit\<close> accepts is
  put together again from its scheme, host, port and the marks of an empty query or fragment.
\<close>

subsection \<open>The parts of an address\<close>

lemma split_at: "c \<in> set s \<Longrightarrow> s = before c s @ c # after c s"
  unfolding before_def after_def by (induction s) auto

lemma no_split: "c \<notin> set s \<Longrightarrow> before c s = s"
  unfolding before_def by (induction s) auto

lemma before_excludes: "c \<notin> set (before c s)"
  unfolding before_def by (induction s) auto

lemma scheme_split: "scheme_of url = (a, rest) \<Longrightarrow> a \<noteq> [] \<Longrightarrow> \<exists>scheme. url = scheme @ CHR '':'' # rest \<and> py_lower scheme = a"
  by (auto simp: scheme_of_def Let_def split: if_splits dest: split_at)

lemma netloc_split:
  assumes "netloc_of url = (n, rest)" "n \<noteq> []"
  shows "url = ''//'' @ n @ rest" "set n \<inter> {CHR ''/'', CHR ''?'', CHR ''#''} = {}"
    "rest = [] \<or> hd rest \<in> {CHR ''/'', CHR ''?'', CHR ''#''}"
proof -
  define stop :: "char \<Rightarrow> bool" where "stop c = (c \<in> {CHR ''/'', CHR ''?'', CHR ''#''})" for c
  have t: "take 2 url = ''//''" and n: "n = takeWhile (\<lambda>c. \<not> stop c) (drop 2 url)" and r: "rest = dropWhile (\<lambda>c. \<not> stop c) (drop 2 url)"
    using assms by (auto simp: netloc_of_def stop_def Let_def split: if_splits)
  have "url = take 2 url @ drop 2 url" by simp
  then show "url = ''//'' @ n @ rest" unfolding t n r takeWhile_dropWhile_id .
  show "set n \<inter> {CHR ''/'', CHR ''?'', CHR ''#''} = {}" unfolding n by (auto dest: set_takeWhileD simp: stop_def)
  show "rest = [] \<or> hd rest \<in> {CHR ''/'', CHR ''?'', CHR ''#''}"
    unfolding r using hd_dropWhile [of "\<lambda>c. \<not> stop c" "drop 2 url"] by (auto simp: stop_def)
qed

text \<open>An empty path, query and fragment leave only the marks.\<close>

lemma mark_end: "(if c \<in> set s then after c s else []) = [] \<Longrightarrow> s = before c s \<or> s = before c s @ [c]"
  using split_at [of c s] no_split [of c s] by (cases "c \<in> set s") simp_all

lemma empty_tail:
  assumes "(if CHR ''#'' \<in> set rest then after CHR ''#'' rest else []) = []"
    and "(if CHR ''?'' \<in> set (before CHR ''#'' rest) then after CHR ''?'' (before CHR ''#'' rest) else []) = []"
    and "before CHR ''?'' (before CHR ''#'' rest) = []"
  shows "rest \<in> {[], ''?'', ''#'', ''?#''}"
proof -
  obtain q where q: "rest = q \<or> rest = q @ ''#''" "q = [] \<or> q = ''?''"
    using mark_end [OF assms(1)] mark_end [OF assms(2)] unfolding assms(3) by auto
  then show ?thesis by auto
qed

lemma zone_free: "c \<notin> set (l @ dropWhile (\<lambda>x. x \<noteq> c) s) \<Longrightarrow> dropWhile (\<lambda>x. x \<noteq> c) s = [] \<and> c \<notin> set s"
proof
  assume a: "c \<notin> set (l @ dropWhile (\<lambda>x. x \<noteq> c) s)"
  show d: "dropWhile (\<lambda>x. x \<noteq> c) s = []"
    by (rule ccontr) (use a hd_dropWhile [of "\<lambda>x. x \<noteq> c" s] hd_in_set [of "dropWhile (\<lambda>x. x \<noteq> c) s"] in simp)
  show "c \<notin> set s" using d by (auto simp: dropWhile_eq_Nil_conv)
qed

text \<open>The host that the origin has to have, and the text in front of it.\<close>

definition loopback :: "string set" where "loopback = {''127.0.0.1'', ''localhost''}"

lemma host_split:
  assumes "hostname_of n = Some h" "h \<in> loopback" "\<not> has_userinfo n" "CHR ''['' \<notin> set n"
  shows "\<exists>host port. n = host @ port \<and> py_lower host = h \<and> (port = [] \<or> hd port = CHR '':'') \<and> CHR ''@'' \<notin> set port"
proof -
  have a: "CHR ''@'' \<notin> set n" using assms(3) by (simp add: has_userinfo_def)
  then have i: "hostinfo_of n = n" by (simp add: hostinfo_of_def after_last_def no_split)
  let ?host = "before CHR '':'' n" and ?rest = "dropWhile (\<lambda>c. c \<noteq> CHR ''%'') (before CHR '':'' n)"
  have h: "h = py_lower (before CHR ''%'' ?host) @ ?rest"
    using assms(1,4) by (auto simp: hostname_of_def i Let_def split: if_splits)
  have "CHR ''%'' \<notin> set h" using assms(2) by (auto simp: loopback_def)
  then have z: "?rest = []" "CHR ''%'' \<notin> set ?host" using zone_free [of "CHR ''%''" _ ?host] unfolding h by blast+
  have "py_lower ?host = h" unfolding h z(1) no_split [OF z(2)] by simp
  moreover have "n = ?host @ dropWhile (\<lambda>c. c \<noteq> CHR '':'') n" by (simp add: before_def)
  moreover have "dropWhile (\<lambda>c. c \<noteq> CHR '':'') n = [] \<or> hd (dropWhile (\<lambda>c. c \<noteq> CHR '':'') n) = CHR '':''"
    using hd_dropWhile [of "\<lambda>c. c \<noteq> CHR '':''" n] by auto
  moreover have "CHR ''@'' \<notin> set (dropWhile (\<lambda>c. c \<noteq> CHR '':'') n)" using a by (auto dest: set_dropWhileD)
  ultimately show ?thesis by blast
qed

text \<open>A bracketed host is no loopback name.\<close>

definition bracketed_address :: "(string \<Rightarrow> bool) \<Rightarrow> bool" where
  "bracketed_address ipv6 \<longleftrightarrow> (\<forall>h. ipv6 h \<longrightarrow> h \<noteq> [] \<and> (CHR '':'' \<in> set h \<or> hd h = CHR ''v''))"

lemma lower_marks: "lower_char CHR '':'' = CHR '':''" "lower_char CHR ''v'' = CHR ''v''"
  by code_simp+

lemma no_brackets:
  assumes "bracketed_address ipv6" "brackets_ok ipv6 n" "hostname_of n = Some h" "h \<in> loopback" "\<not> has_userinfo n"
  shows "CHR ''['' \<notin> set n"
proof
  assume b: "CHR ''['' \<in> set n"
  have i: "hostinfo_of n = n" using assms(5) by (simp add: hostinfo_of_def after_last_def no_split has_userinfo_def)
  let ?x = "before CHR '']'' (after CHR ''['' n)"
  have x: "?x \<noteq> []" "CHR '':'' \<in> set ?x \<or> hd ?x = CHR ''v''"
    using assms(1,2) b by (auto simp: brackets_ok_def Let_def bracketed_address_def)
  have h: "h = py_lower (before CHR ''%'' ?x) @ dropWhile (\<lambda>c. c \<noteq> CHR ''%'') ?x"
    using assms(3) b by (auto simp: hostname_of_def i Let_def split: if_splits)
  have "CHR ''%'' \<notin> set h" using assms(4) by (auto simp: loopback_def)
  then have z: "dropWhile (\<lambda>c. c \<noteq> CHR ''%'') ?x = []" "CHR ''%'' \<notin> set ?x"
    using zone_free [of "CHR ''%''" _ ?x] unfolding h by blast+
  have "h = py_lower ?x" unfolding h z(1) no_split [OF z(2)] by simp
  then have "CHR '':'' \<in> set h \<or> hd h = CHR ''v''"
    using x lower_marks imageI [of "CHR '':''" "set ?x" lower_char] by (auto simp: py_lower_def hd_map)
  then show False using assms(4) by (auto simp: loopback_def)
qed

definition loopback_origin :: "string \<Rightarrow> bool" where
  "loopback_origin text \<longleftrightarrow> (\<exists>scheme host port tail. text = scheme @ ''://'' @ host @ port @ tail
     \<and> py_lower scheme = ''http'' \<and> py_lower host \<in> loopback \<and> (port = [] \<or> hd port = CHR '':'')
     \<and> set port \<inter> {CHR ''/'', CHR ''?'', CHR ''#'', CHR ''@''} = {} \<and> tail \<in> {[], ''?'', ''#'', ''?#''})"

lemma acceptable_loopback:
  assumes b: "bracketed_address ipv6" and u: "urlsplit ipv6 text = Inr p" and a: "origin_acceptable p"
  shows "loopback_origin (url_text text)"
proof -
  obtain sc r1 n r2 where s: "scheme_of (url_text text) = (sc, r1)" "netloc_of r1 = (n, r2)"
    by (cases "scheme_of (url_text text)", cases "netloc_of (snd (scheme_of (url_text text)))") auto
  have p: "url_scheme p = sc" "url_netloc p = n" "brackets_ok ipv6 n"
    "url_path p = before CHR ''?'' (before CHR ''#'' r2)"
    "url_query p = (if CHR ''?'' \<in> set (before CHR ''#'' r2) then after CHR ''?'' (before CHR ''#'' r2) else [])"
    "url_fragment p = (if CHR ''#'' \<in> set r2 then after CHR ''#'' r2 else [])"
    using u by (auto simp: urlsplit_def s Let_def split: if_splits)
  obtain h where h: "hostname_of n = Some h" "h \<in> loopback" "\<not> has_userinfo n"
    using a by (auto simp: origin_acceptable_def p loopback_def)
  have n0: "n \<noteq> []" using h(1) by (auto simp: hostname_of_def hostinfo_of_def after_last_def before_def Let_def)
  obtain scheme where sch: "url_text text = scheme @ CHR '':'' # r1" "py_lower scheme = ''http''"
    using scheme_split [OF s(1)] a by (auto simp: origin_acceptable_def p)
  note ns = netloc_split [OF s(2) n0]
  obtain host port where hp: "n = host @ port" "py_lower host = h" "port = [] \<or> hd port = CHR '':''" "CHR ''@'' \<notin> set port"
    using host_split [OF h no_brackets [OF b p(3) h]] by blast
  have t: "r2 \<in> {[], ''?'', ''#'', ''?#''}"
    using a by (intro empty_tail) (simp_all add: origin_acceptable_def p)
  have "url_text text = scheme @ ''://'' @ host @ port @ r2" using sch(1) ns(1) hp(1) by simp
  then show ?thesis unfolding loopback_origin_def using sch(2) h(2) hp t ns(2) by (intro exI conjI) auto
qed

lemma collect_loopback:
  assumes "bracketed_address ipv6" "distinct os" "\<forall>x\<in>set os. loopback_origin (url_text x)"
  shows "case collect_origins ipv6 vs os of Inl e \<Rightarrow> exc_class e \<in> {RuntimeErrorC, ValueErrorC}
    | Inr origins \<Rightarrow> distinct origins \<and> (\<forall>x\<in>set origins. loopback_origin (url_text x))"
  using assms(2,3)
proof (induction vs arbitrary: os)
  case (Cons v vs)
  define x where "x = rstrip_char CHR ''/'' (py_strip v)"
  show ?case
  proof (cases "x = []")
    case True
    then show ?thesis using Cons by (simp add: x_def)
  next
    case False
    show ?thesis
    proof (cases "urlsplit ipv6 x")
      case (Inl e)
      then have "exc_class e = ValueErrorC"
        by (auto simp: urlsplit_def Let_def split: if_splits prod.splits)
      then show ?thesis using False Inl by (simp flip: x_def)
    next
      case (Inr p)
      show ?thesis
      proof (cases "origin_acceptable p")
        case True
        then have "loopback_origin (url_text x)" by (rule acceptable_loopback [OF assms(1) Inr])
        then show ?thesis using False Inr True Cons.IH [of os] Cons.IH [of "os @ [x]"] Cons.prems by (simp flip: x_def)
      qed (use False Inr in \<open>simp flip: x_def\<close>)
    qed
  qed
qed simp

text \<open>
  C30: The browser may call the service only from this machine. Whatever \<open>THERMOMETER_CORS_ORIGINS\<close>
  holds, the adapter either refuses it with a \<open>RuntimeError\<close> or the \<open>ValueError\<close> of \<open>urlsplit\<close>, or it admits
  distinct origins, each of which reads, as a browser reads it, \<open>http\<close>, the host \<open>127.0.0.1\<close> or
  \<open>localhost\<close> in any case, and an optional port: no other host, no user name, no path, and at most the
  marks of an empty query and an empty fragment. The assumption is the documented check of a bracketed
  host: it is an IPv6 address, which holds a colon, or begins with a \<open>v\<close>.
\<close>

theorem cors_origins_loopback:
  assumes "bracketed_address ipv6"
  shows "case configured_cors_origins ipv6 env of Inl e \<Rightarrow> exc_class e \<in> {RuntimeErrorC, ValueErrorC}
    | Inr origins \<Rightarrow> distinct origins \<and> (\<forall>x\<in>set origins. loopback_origin (url_text x))"
  unfolding configured_cors_origins_def by (rule collect_loopback [OF assms]) simp_all

theorem cors_origins_loopback_witness:
  "configured_cors_origins (\<lambda>h. CHR '':'' \<in> set h) [''THERMOMETER_CORS_ORIGINS'' \<mapsto> ''http://localhost:80/, HTTP://127.0.0.1'']
     = Inr [''http://localhost:80'', ''HTTP://127.0.0.1'']
   \<and> loopback_origin (url_text ''http://localhost:80'') \<and> loopback_origin (url_text ''HTTP://127.0.0.1'')"
proof -
  have b: "bracketed_address (\<lambda>h. CHR '':'' \<in> set h)" by (auto simp: bracketed_address_def)
  have run: "configured_cors_origins (\<lambda>h. CHR '':'' \<in> set h) [''THERMOMETER_CORS_ORIGINS'' \<mapsto> ''http://localhost:80/, HTTP://127.0.0.1'']
     = Inr [''http://localhost:80'', ''HTTP://127.0.0.1'']"
    by code_simp
  show ?thesis
    using cors_origins_loopback [OF b, of "[''THERMOMETER_CORS_ORIGINS'' \<mapsto> ''http://localhost:80/, HTTP://127.0.0.1'']"]
    unfolding run by simp
qed

end
