(* ===== verification/Qualification_Data.thy ===== *)
theory Qualification_Data
  imports Protocol Actions "HOL-Library.List_Lexorder" "HOL-Library.Char_ord"
begin

section \<open>The qualification tool: outcomes, results, coverage and preflight\<close>

text \<open>
  \<open>verification/core/outcomes.py\<close>, \<open>core/preflight.py\<close>, \<open>reporters/coverage.py\<close> and the reductions of
  \<open>verification/runner.py\<close>. Catalog entries and results are dictionaries of the code; here they are
  records with the keys the tool reads, a key that may be absent being an option.
\<close>

subsection \<open>Outcomes\<close>

definition PASS_OVERRIDE :: string where "PASS_OVERRIDE = ''PASS_OVERRIDE''"

definition TEST_OUTCOMES :: "string list" where
  "TEST_OUTCOMES = [''PASS'', PASS_OVERRIDE, ''FAIL'', ''BLOCKED'', ''SKIPPED'', ''NOT_APPLICABLE'']"

definition PASSING_OUTCOMES :: "string list" where
  "PASSING_OUTCOMES = [''PASS'', PASS_OVERRIDE, ''NOT_APPLICABLE'']"

definition replace_char :: "char \<Rightarrow> char \<Rightarrow> string \<Rightarrow> string" where
  "replace_char a b = map (\<lambda>c. if c = a then b else c)"

definition normalize_outcome :: "string \<Rightarrow> string" where
  "normalize_outcome v =
     (let n = replace_char CHR '' '' CHR ''_'' (replace_char CHR ''-'' CHR ''_'' (py_upper (py_strip v)))
      in if n \<in> {''PASS_(OVERRIDE)'', PASS_OVERRIDE} then PASS_OVERRIDE else n)"

definition display_outcome :: "string \<Rightarrow> string" where
  "display_outcome v = (if v = PASS_OVERRIDE then ''PASS (OVERRIDE)'' else v)"

subsection \<open>Catalog entries and results\<close>

text \<open>
  A float that an operator may enter, and what a measurement holds: the answers of the operator, or
  the JSON text of what a machine recorded.
\<close>

datatype pyfloat = FNum rat | FInf bool | FNan

datatype measured = MText string | MBool bool | MInt int | MFloat pyfloat | MJson string

record manual_step =
  ms_id :: string
  ms_instruction :: string
  ms_prompt :: "string option"

text \<open>\<open>td_dump\<close> is the entry as \<open>json.dumps(..., sort_keys=True)\<close> writes it, which stands for all its keys.\<close>

record test_def =
  td_id :: string
  td_title :: string
  td_subsystem :: string
  td_method :: string
  td_setup_group :: "string option"
  td_profiles :: "string list"
  td_requirements :: "string list"
  td_jira_keys :: "string list"
  td_fixtures :: "string list"
  td_instrumentation :: "string list"
  td_limitations :: "string list"
  td_human_intervention :: "string option"
  td_workflow :: "string option"
  td_requires_photo :: bool
  td_manual_steps :: "manual_step list"
  td_dump :: string

record decision =
  ad_operator :: string
  ad_reason :: string
  ad_outcome :: string
  ad_override :: bool
  ad_recorded_at :: string

record reuse =
  ru_from_run :: string
  ru_at :: string
  ru_source_started_at :: string

record test_result =
  tr_run_id :: string
  tr_test_id :: string
  tr_title :: string
  tr_subsystem :: string
  tr_method :: string
  tr_setup_group :: string
  tr_requirements :: "string list"
  tr_jira_keys :: "string list"
  tr_fixtures :: "(string, string) dict"
  tr_instrumentation :: "(string, string) dict"
  tr_started_at :: string
  tr_limitations :: "string list"
  tr_human_intervention :: "string option"
  tr_metrics :: "(string, measured) dict"
  tr_evidence :: "string list"
  tr_outcome :: string
  tr_duration_ms :: int
  tr_failure_reason :: "string option"
  tr_pending_evidence :: "string list option"
  tr_original_outcome :: "string option"
  tr_original_failure_reason :: "string option"
  tr_adjudication :: "decision option"
  tr_adjudication_history :: "decision list"
  tr_reuse :: "reuse option"

record setup_group =
  sg_order :: int
  sg_title :: string
  sg_pause :: bool
  sg_uart_required :: bool
  sg_instructions :: "string list"

subsection \<open>Coverage of the requirements\<close>

record requirement =
  rq_uid :: string
  rq_jira :: string
  rq_level :: string
  rq_component :: "string option"
  rq_status :: "string option"
  rq_disposition_note :: "string option"

record coverage_row =
  cr_uid :: string
  cr_jira :: string
  cr_level :: string
  cr_component :: string
  cr_status :: string
  cr_tests :: "string list"
  cr_automated :: "string list"
  cr_human :: "string list"
  cr_result :: string
  cr_reason :: string

record coverage_report =
  cov_rows :: "coverage_row list"
  cov_counts :: "(string, nat) dict"
  cov_total :: nat

definition or_else :: "'a \<Rightarrow> 'a option \<Rightarrow> 'a" where
  "or_else d v = (case v of None \<Rightarrow> d | Some x \<Rightarrow> x)"

text \<open>A test that names a requirement twice is mapped to it twice.\<close>

definition mapped_tests :: "test_def list \<Rightarrow> string \<Rightarrow> test_def list" where
  "mapped_tests tests uid = concat (map (\<lambda>t. replicate (count_list (td_requirements t) uid) t) tests)"

text \<open>The dictionary of the results by test: a later result replaces an earlier one.\<close>

definition results_by_id :: "test_result list \<Rightarrow> (string, test_result) dict" where
  "results_by_id results = fold (\<lambda>r. dict_set (tr_test_id r) r) results []"

definition mapped_states :: "test_result list \<Rightarrow> test_def list \<Rightarrow> string list" where
  "mapped_states results mapped =
     map tr_outcome (List.map_filter (\<lambda>t. dict_get (results_by_id results) (td_id t)) mapped)"

definition requirement_verdict :: "requirement \<Rightarrow> test_def list \<Rightarrow> string list \<Rightarrow> string \<times> string" where
  "requirement_verdict requirement mapped states =
     (let status = or_else ''active'' (rq_status requirement); requirement_status = py_lower status in
      if requirement_status = ''not_applicable'' then
        (''NOT_APPLICABLE'', or_else ''requirement removed from project scope'' (rq_disposition_note requirement))
      else if requirement_status \<in> {''tbd'', ''conflict''} then
        (''BLOCKED'', ''Jira requirement status is '' @ status)
      else if mapped = [] then (''FAIL'', ''unmapped requirement'')
      else if ''FAIL'' \<in> set states then (''FAIL'', ''one or more executed mandatory tests failed'')
      else if length states < length mapped \<or> list_ex (\<lambda>s. s \<in> {''BLOCKED'', ''SKIPPED''}) states then
        (''BLOCKED'', ''mandatory verification is unexecuted, skipped, or blocked'')
      else if states \<noteq> [] \<and> list_all (\<lambda>s. s \<in> set PASSING_OUTCOMES) states then
        (if PASS_OVERRIDE \<in> set states then
           (PASS_OVERRIDE, ''all mandatory mapped tests passed; one or more results were operator overrides'')
         else (''PASS'', ''all mandatory mapped tests passed''))
      else (''BLOCKED'', ''no conclusive evidence''))"

definition coverage_row_of :: "test_def list \<Rightarrow> test_result list \<Rightarrow> requirement \<Rightarrow> coverage_row" where
  "coverage_row_of tests results requirement =
     (let mapped = mapped_tests tests (rq_uid requirement);
          (outcome, reason) = requirement_verdict requirement mapped (mapped_states results mapped)
      in \<lparr>cr_uid = rq_uid requirement, cr_jira = rq_jira requirement, cr_level = rq_level requirement,
          cr_component = or_else [] (rq_component requirement), cr_status = or_else ''active'' (rq_status requirement),
          cr_tests = map td_id mapped, cr_automated = map td_id (filter (\<lambda>t. td_method t = ''automated'') mapped),
          cr_human = map td_id (filter (\<lambda>t. td_method t \<noteq> ''automated'') mapped),
          cr_result = outcome, cr_reason = reason\<rparr>)"

definition count_rows :: "coverage_row list \<Rightarrow> string \<Rightarrow> nat" where
  "count_rows rows state = length (filter (\<lambda>row. cr_result row = state) rows)"

definition unmapped_rows :: "coverage_row list \<Rightarrow> nat" where
  "unmapped_rows rows = length (filter (\<lambda>row. cr_tests row = []) rows)"

definition coverage_counts :: "coverage_row list \<Rightarrow> (string, nat) dict" where
  "coverage_counts rows = map (\<lambda>state. (state, count_rows rows state)) TEST_OUTCOMES @ [(''UNMAPPED'', unmapped_rows rows)]"

definition calculate :: "requirement list \<Rightarrow> test_def list \<Rightarrow> test_result list \<Rightarrow> coverage_report" where
  "calculate requirements tests results =
     (let rows = map (coverage_row_of tests results) requirements
      in \<lparr>cov_rows = rows, cov_counts = coverage_counts rows, cov_total = length rows\<rparr>)"

text \<open>The outcome of a run, and the exit status of the command.\<close>

definition qualification_outcome :: "test_result list \<Rightarrow> coverage_report \<Rightarrow> string" where
  "qualification_outcome results coverage =
     (if list_ex (\<lambda>r. tr_outcome r = ''FAIL'') results \<or> or_else 0 (dict_get (cov_counts coverage) ''UNMAPPED'') \<noteq> 0
      then ''FAIL''
      else if list_ex (\<lambda>r. tr_outcome r \<in> {''BLOCKED'', ''SKIPPED''}) results then ''BLOCKED''
      else ''PASS'')"

definition exit_status :: "string \<Rightarrow> int res" where
  "exit_status outcome = (if outcome = ''PASS'' then Inr 0 else if outcome = ''FAIL'' then Inr 1
     else if outcome = ''BLOCKED'' then Inr 2 else raise KeyErrorC (py_repr outcome))"

subsection \<open>Preflight\<close>

definition READY :: string where "READY = ''READY''"
definition NOT_READY :: string where "NOT_READY = ''NOT_READY''"
definition CONFIRM_REQUIRED :: string where "CONFIRM_REQUIRED = ''CONFIRM_REQUIRED''"
definition WARNING :: string where "WARNING = ''WARNING''"
definition CONFIRMED :: string where "CONFIRMED = ''CONFIRMED''"

lemmas readiness_defs = READY_def NOT_READY_def CONFIRM_REQUIRED_def WARNING_def CONFIRMED_def

record readiness =
  rd_name :: string
  rd_status :: string
  rd_detail :: string
  rd_automated :: bool

text \<open>
  What the checks ask of the machine: tools on the path, files, ports and pages. An answer of the
  network in \<open>Inl\<close> is the text of the error.
\<close>

record machine =
  mc_idf :: "string option"
  mc_which :: "string \<Rightarrow> string option"
  mc_path :: "string \<Rightarrow> string"
  mc_exists :: "string \<Rightarrow> bool"
  mc_tcp :: "string \<Rightarrow> int \<Rightarrow> string option"
  mc_http :: "string \<Rightarrow> string + int"
  mc_uart :: "bool \<times> string"

datatype fixture_check =
  CheckAlways "string option" | CheckManual "string option" | CheckEspIdf | CheckTool string | CheckPath string
| CheckTcp "string option" int | CheckHttp string | CheckUnknown string

definition check_tcp :: "machine \<Rightarrow> string \<Rightarrow> int \<Rightarrow> string \<times> string" where
  "check_tcp m host port = (case mc_tcp m host port of
     None \<Rightarrow> (READY, host @ '':'' @ show_int port @ '' accepting connections'') | Some e \<Rightarrow> (NOT_READY, e))"

definition check_http :: "machine \<Rightarrow> string \<Rightarrow> string \<times> string" where
  "check_http m url = (case mc_http m url of
     Inl e \<Rightarrow> (NOT_READY, e)
   | Inr code \<Rightarrow> ((if code < 400 then READY else NOT_READY), ''HTTP '' @ show_int code))"

definition check_fixture :: "machine \<Rightarrow> string \<Rightarrow> fixture_check \<Rightarrow> bool \<Rightarrow> readiness" where
  "check_fixture m name check automated =
     (let (status, detail) = (case check of
        CheckAlways detail \<Rightarrow> (READY, or_else ''available'' detail)
      | CheckManual prompt \<Rightarrow> (CONFIRM_REQUIRED, or_else ''operator confirmation required'' prompt)
      | CheckEspIdf \<Rightarrow> (case mc_idf m of Some found \<Rightarrow> (READY, found)
          | None \<Rightarrow> (NOT_READY, ''ESP-IDF idf.py was not found on PATH, in IDF_PATH, VS Code settings, or a standard install''))
      | CheckTool executable \<Rightarrow> (case mc_which m executable of
          Some found \<Rightarrow> if found = [] then (NOT_READY, executable @ '' not found'') else (READY, found)
        | None \<Rightarrow> (NOT_READY, executable @ '' not found''))
      | CheckPath p \<Rightarrow> (if mc_exists m p then (READY, mc_path m p) else (NOT_READY, ''missing '' @ mc_path m p))
      | CheckTcp host port \<Rightarrow> check_tcp m (or_else ''127.0.0.1'' host) port
      | CheckHttp url \<Rightarrow> check_http m url
      | CheckUnknown kind \<Rightarrow> (WARNING, ''unknown preflight check '' @ kind))
      in \<lparr>rd_name = name, rd_status = status, rd_detail = detail, rd_automated = automated\<rparr>)"

definition HUMAN_INSTRUMENTATION :: "string list" where
  "HUMAN_INSTRUMENTATION =
     [''auth_event_capture'', ''backend_command_timestamp'', ''BLE_transaction_timestamp'', ''ble_transaction_capture'',
      ''browser_command_timestamp'', ''browser_screenshot'', ''button_event_timestamp'', ''database_command_timeline'',
      ''ESP32_command_timestamp'', ''esp32_serial_capture'', ''history_transfer_trace'', ''lcd_render_timestamp'',
      ''manual_disconnect_event_marker'', ''manual_visual_confirmation'', ''mtu_capture'', ''photo_capture'',
      ''record_reconstruction_check'', ''serial_capture'']"

definition needs_human :: "string \<Rightarrow> bool" where
  "needs_human name \<longleftrightarrow> take 7 name = ''manual_'' \<or> name \<in> set HUMAN_INSTRUMENTATION"

definition instrument_readiness :: "machine \<Rightarrow> string \<Rightarrow> readiness" where
  "instrument_readiness m name =
     (if name = ''esp32_serial_capture'' then
        \<lparr>rd_name = name, rd_status = (if fst (mc_uart m) then READY else CONFIRM_REQUIRED), rd_detail = snd (mc_uart m), rd_automated = False\<rparr>
      else \<lparr>rd_name = name, rd_status = (if needs_human name then CONFIRM_REQUIRED else READY),
        rd_detail = (if needs_human name then ''operator or external capture confirmation required'' else ''runner capture available''),
        rd_automated = False\<rparr>)"

text \<open>The status of every fixture and instrument the tests name; a fixture without an entry raises.\<close>

type_synonym readiness_table = "(string, readiness) dict"

definition run_preflight ::
    "machine \<Rightarrow> test_def list \<Rightarrow> (string, fixture_check \<times> bool) dict \<Rightarrow> (readiness_table \<times> readiness_table) res" where
  "run_preflight m tests catalog =
     rbind (rmap (\<lambda>name. case dict_get catalog name of
         None \<Rightarrow> raise KeyErrorC (py_repr name)
       | Some (check, automated) \<Rightarrow> Inr (name, check_fixture m name check automated))
       (sort (remdups (concat (map td_fixtures tests))))) (\<lambda>fixtures.
     Inr (fixtures, map (\<lambda>name. (name, instrument_readiness m name)) (sort (remdups (concat (map td_instrumentation tests))))))"

definition lookup_status :: "readiness_table \<Rightarrow> string \<Rightarrow> readiness res" where
  "lookup_status table name = (case dict_get table name of None \<Rightarrow> raise KeyErrorC (py_repr name) | Some r \<Rightarrow> Inr r)"

text \<open>The names of a list whose entry has a given status, with their entries.\<close>

definition with_status :: "string \<Rightarrow> readiness_table \<Rightarrow> string list \<Rightarrow> (string \<times> readiness) list res" where
  "with_status status table names =
     rbind (rmap (\<lambda>name. rbind (lookup_status table name) (\<lambda>r. Inr (name, r))) names) (\<lambda>rs.
     Inr (filter (\<lambda>(_, r). rd_status r = status) rs))"

definition blockers :: "test_def \<Rightarrow> readiness_table \<Rightarrow> readiness_table \<Rightarrow> string list res" where
  "blockers test fixtures instruments =
     rbind (with_status NOT_READY fixtures (td_fixtures test)) (\<lambda>fs.
     rbind (with_status NOT_READY instruments (td_instrumentation test)) (\<lambda>is.
     Inr (map (\<lambda>(name, r). ''fixture '' @ name @ '': '' @ rd_detail r) fs
       @ map (\<lambda>(name, r). ''instrumentation '' @ name @ '': '' @ rd_detail r) is)))"

definition confirmations_pending :: "test_def \<Rightarrow> readiness_table \<Rightarrow> readiness_table \<Rightarrow> string list res" where
  "confirmations_pending test fixtures instruments =
     rbind (with_status CONFIRM_REQUIRED fixtures (td_fixtures test)) (\<lambda>fs.
     rbind (with_status CONFIRM_REQUIRED instruments (td_instrumentation test)) (\<lambda>is.
     Inr (map (\<lambda>(name, _). ''fixture '' @ name) fs @ map (\<lambda>(name, _). ''instrumentation '' @ name) is)))"

end
