(* ===== verification/Operator_Session.thy ===== *)
theory Operator_Session
  imports Qualification_Data
begin

section \<open>The qualification tool: numbers, prompts and one test\<close>

text \<open>
  \<open>verification/core/execution.py\<close> and the end of \<open>run_assisted\<close> in \<open>core/assisted.py\<close>. The operator is
  the list of lines that standard input still holds, and \<open>input\<close> raises \<open>EOFError\<close> at its end; so every
  prompt loop ends. What the machine does (the command of a test, files, the clock) is a record of
  answers. Printing is left out.
\<close>

subsection \<open>Numbers as an operator types them\<close>

text \<open>Digits with single underscores between them, and their value.\<close>

fun grouped :: "string \<Rightarrow> bool" where
  "grouped [] = False"
| "grouped [c] = is_ascii_digit c"
| "grouped (c # d # r) = (is_ascii_digit c \<and> (if d = CHR ''_'' then grouped r else grouped (d # r)))"

definition digits_value :: "string \<Rightarrow> int" where
  "digits_value s = foldl (\<lambda>n c. if c = CHR ''_'' then n else 10 * n + int (code_of c - 48)) 0 s"

definition digit_count :: "string \<Rightarrow> nat" where
  "digit_count s = length (filter (\<lambda>c. c \<noteq> CHR ''_'') s)"

definition split_sign :: "string \<Rightarrow> bool \<times> string" where
  "split_sign s = (case s of [] \<Rightarrow> (False, [])
     | c # r \<Rightarrow> if c = CHR ''-'' then (True, r) else if c = CHR ''+'' then (False, r) else (False, s))"

definition py_int :: "string \<Rightarrow> int option" where
  "py_int s = (let (negative, digits) = split_sign (py_strip s) in
     if grouped digits then Some (if negative then - digits_value digits else digits_value digits) else None)"

text \<open>Mantissa and exponent of a decimal text, and the value as a float reads it; too large is infinite.\<close>

definition mantissa :: "string \<Rightarrow> rat option" where
  "mantissa s =
     (let whole = takeWhile (\<lambda>c. c \<noteq> CHR ''.'') s; rest = dropWhile (\<lambda>c. c \<noteq> CHR ''.'') s; frac = drop 1 rest in
      if (whole = [] \<and> frac = []) \<or> (whole \<noteq> [] \<and> \<not> grouped whole) \<or> (frac \<noteq> [] \<and> \<not> grouped frac) then None
      else Some (of_int (digits_value whole) + of_int (digits_value frac) / 10 ^ digit_count frac))"

definition exponent :: "string \<Rightarrow> int option" where
  "exponent s = (if s = [] then Some 0 else
     let (negative, digits) = split_sign (drop 1 s) in
     if grouped digits then Some (if negative then - digits_value digits else digits_value digits) else None)"

definition scaled :: "rat \<Rightarrow> int \<Rightarrow> rat" where
  "scaled m e = (if 0 \<le> e then m * 10 ^ nat e else m / 10 ^ nat (- e))"

definition float_limit :: rat where "float_limit = 2 ^ 1024 - 2 ^ 970"

lemma float_limit_code [code]: "float_limit = of_int (2 ^ 1024 - 2 ^ 970)"
  by (simp add: float_limit_def)

definition py_float :: "string \<Rightarrow> pyfloat option" where
  "py_float s =
     (let (negative, body) = split_sign (py_lower (py_strip s)); signed = (\<lambda>x. if negative then - x else x) in
      if body = ''nan'' then Some FNan
      else if body \<in> {''inf'', ''infinity''} then Some (FInf negative)
      else case (mantissa (takeWhile (\<lambda>c. c \<noteq> CHR ''e'') body), exponent (dropWhile (\<lambda>c. c \<noteq> CHR ''e'') body)) of
        (Some m, Some e) \<Rightarrow>
          if scaled m e \<ge> float_limit then Some (FInf negative) else Some (FNum (signed (scaled m e)))
      | _ \<Rightarrow> None)"

text \<open>Comparisons of Python: \<open>NaN\<close> is below, above and equal to nothing; a text has no order with numbers.\<close>

fun float_less :: "pyfloat \<Rightarrow> pyfloat \<Rightarrow> bool" where
  "float_less FNan _ = False" | "float_less _ FNan = False"
| "float_less (FNum x) (FNum y) = (x < y)"
| "float_less (FInf n) (FInf m) = (n \<and> \<not> m)"
| "float_less (FInf n) (FNum _) = n" | "float_less (FNum _) (FInf m) = (\<not> m)"

fun as_float :: "measured \<Rightarrow> pyfloat option" where
  "as_float (MBool b) = Some (FNum (of_bool b))" | "as_float (MInt i) = Some (FNum (of_int i))"
| "as_float (MFloat x) = Some x" | "as_float _ = None"

definition float_leq :: "pyfloat \<Rightarrow> pyfloat \<Rightarrow> bool" where
  "float_leq x y \<longleftrightarrow> x \<noteq> FNan \<and> y \<noteq> FNan \<and> \<not> float_less y x"

definition compared :: "(pyfloat \<Rightarrow> pyfloat \<Rightarrow> bool) \<Rightarrow> measured \<Rightarrow> measured \<Rightarrow> bool res" where
  "compared order v w = (case (as_float v, as_float w) of
     (Some x, Some y) \<Rightarrow> Inr (order x y) | _ \<Rightarrow> raise TypeErrorC ''unorderable types'')"

definition measured_eq :: "measured \<Rightarrow> measured \<Rightarrow> bool" where
  "measured_eq v w = (case (as_float v, as_float w) of
     (Some x, Some y) \<Rightarrow> x \<noteq> FNan \<and> x = y | (None, None) \<Rightarrow> v = w | _ \<Rightarrow> False)"

subsection \<open>Prompts\<close>

record console =
  con_lines :: "string list"
  con_uart_port :: "string option"

definition end_of_input :: "'a res" where
  "end_of_input = raise (OtherErrorC ''EOFError'') ''EOF when reading a line''"

definition read_line :: "(console, string) act" where
  "read_line s = (case con_lines s of [] \<Rightarrow> (end_of_input, s) | l # ls \<Rightarrow> (Inr l, s\<lparr>con_lines := ls\<rparr>))"

text \<open>
  \<open>raw.isdigit() and 1 <= int(raw) <= n\<close>: the numbered option, nothing, or the error of \<open>int\<close> for a digit
  character that is no decimal one.
\<close>

definition numbered :: "string \<Rightarrow> 'a list \<Rightarrow> 'a option res" where
  "numbered raw options =
     (if \<not> py_isdigit raw then Inr None
      else case py_int raw of None \<Rightarrow> value_error (''invalid literal for int() with base 10: '' @ py_repr raw)
        | Some i \<Rightarrow> if 1 \<le> i \<and> i \<le> int (length options) then Inr (Some (options ! nat (i - 1))) else Inr None)"

definition selected_option :: "string list \<Rightarrow> string \<Rightarrow> string option res" where
  "selected_option options raw = rbind (numbered raw options) (\<lambda>picked.
     case picked of Some v \<Rightarrow> Inr (Some v)
     | None \<Rightarrow> Inr (find (\<lambda>option. py_lower option = py_lower raw) options))"

fun choice_from :: "string list \<Rightarrow> string list \<Rightarrow> string res \<times> string list" where
  "choice_from options [] = (end_of_input, [])"
| "choice_from options (l # ls) = (case selected_option options (py_strip l) of
     Inl e \<Rightarrow> (Inl e, ls) | Inr (Some v) \<Rightarrow> (Inr v, ls) | Inr None \<Rightarrow> choice_from options ls)"

definition choice :: "string list \<Rightarrow> (console, string) act" where
  "choice options s = (let (r, ls) = choice_from options (con_lines s) in (r, s\<lparr>con_lines := ls\<rparr>))"

definition read_stripped :: "(console, string) act" where
  "read_stripped = abind read_line (\<lambda>l. areturn (py_strip l))"

subsection \<open>Measurements\<close>

record measure_field =
  mf_id :: string
  mf_type :: "string option"
  mf_choices :: "string list"
  mf_expected :: "measured option"
  mf_minimum :: "measured option"
  mf_maximum :: "measured option"
  mf_exclusive_maximum :: "measured option"

text \<open>The commands, files and times of a test, and how a value is printed.\<close>

datatype execution = Exited int | TimedOut string | NotStarted string

record bench =
  bn_tty :: bool
  bn_exists :: "string \<Rightarrow> bool"
  bn_is_file :: "string \<Rightarrow> bool"
  bn_file_name :: "string \<Rightarrow> string"
  bn_fields :: "string \<Rightarrow> measure_field list"
  bn_now :: "string \<Rightarrow> string"
  bn_elapsed :: "string \<Rightarrow> int"
  bn_execute :: "test_def \<Rightarrow> execution"
  bn_artifacts :: "test_def \<Rightarrow> string list"
  bn_recorded :: "test_def \<Rightarrow> (string, measured) dict option"
  bn_show :: "measured \<Rightarrow> string"
  bn_repr :: "measured \<Rightarrow> string"

definition field_type :: "measure_field \<Rightarrow> string" where
  "field_type f = or_else ''text'' (mf_type f)"

definition ask_field :: "bool \<Rightarrow> measure_field \<Rightarrow> (console, string) act" where
  "ask_field defer_photos f =
     (if field_type f = ''boolean'' then choice [''Yes'', ''No'']
      else if field_type f = ''choice'' then choice (mf_choices f)
      else if field_type f = ''photo'' \<and> defer_photos then areturn ''DEFERRED''
      else read_stripped)"

definition convert_field :: "(string \<Rightarrow> bool) \<Rightarrow> measure_field \<Rightarrow> string \<Rightarrow> measured res" where
  "convert_field path_exists f raw =
     (if field_type f = ''number'' then
        (case py_float raw of Some x \<Rightarrow> Inr (MFloat x) | None \<Rightarrow> value_error (''could not convert string to float: '' @ py_repr raw))
      else if field_type f = ''integer'' then
        (case py_int raw of Some i \<Rightarrow> Inr (MInt i) | None \<Rightarrow> value_error (''invalid literal for int() with base 10: '' @ py_repr raw))
      else if field_type f = ''boolean'' then
        (let normalized = py_lower raw in
         if normalized \<notin> {''yes'', ''y'', ''true'', ''no'', ''n'', ''false''} then value_error ''enter yes or no''
         else Inr (MBool (normalized \<in> {''yes'', ''y'', ''true''})))
      else if field_type f = ''choice'' then Inr (MText raw)
      else if field_type f = ''photo'' then
        (if raw \<noteq> ''DEFERRED'' \<and> \<not> path_exists raw then
           value_error ''photo path does not exist (or run with --defer-photos)''
         else Inr (MText raw))
      else if raw = [] then value_error ''a value is required'' else Inr (MText raw))"

text \<open>One limit of a field: the failure when the comparison says so.\<close>

definition limit :: "measured option \<Rightarrow> (measured \<Rightarrow> bool res) \<Rightarrow> (measured \<Rightarrow> string) \<Rightarrow> string list res" where
  "limit bound broken message = (case bound of None \<Rightarrow> Inr []
     | Some b \<Rightarrow> rbind (broken b) (\<lambda>x. Inr (if x then [message b] else [])))"

definition limit_failures :: "bench \<Rightarrow> measure_field \<Rightarrow> measured \<Rightarrow> string list res" where
  "limit_failures b f v =
     (let show = bn_show b; prefix = mf_id f @ '': '' in
      rbind (limit (mf_expected f) (\<lambda>e. Inr (\<not> measured_eq v e))
        (\<lambda>e. prefix @ ''expected '' @ bn_repr b e @ '', got '' @ bn_repr b v)) (\<lambda>f1.
      rbind (limit (mf_minimum f) (\<lambda>m. compared float_less v m) (\<lambda>m. prefix @ show v @ '' is below '' @ show m)) (\<lambda>f2.
      rbind (limit (mf_maximum f) (\<lambda>m. compared float_less m v) (\<lambda>m. prefix @ show v @ '' exceeds '' @ show m)) (\<lambda>f3.
      rbind (limit (mf_exclusive_maximum f) (\<lambda>m. compared float_leq m v)
        (\<lambda>m. prefix @ show v @ '' must be below '' @ show m)) (\<lambda>f4.
      Inr (f1 @ f2 @ f3 @ f4))))))"

fun manual_measurements ::
    "bench \<Rightarrow> bool \<Rightarrow> measure_field list \<Rightarrow> (string, measured) dict \<Rightarrow> string list
     \<Rightarrow> (console, (string, measured) dict \<times> string list) act" where
  "manual_measurements b defer_photos [] measurements failures = areturn (measurements, failures)"
| "manual_measurements b defer_photos (f # fs) measurements failures =
     abind (ask_field defer_photos f) (\<lambda>raw.
     case convert_field (bn_exists b) f raw of
       Inl e \<Rightarrow> manual_measurements b defer_photos fs (dict_set (mf_id f) (MText raw) measurements)
         (failures @ [mf_id f @ '': invalid value ('' @ exc_text e @ '')''])
     | Inr v \<Rightarrow> abind (alift (limit_failures b f v)) (\<lambda>broken.
         manual_measurements b defer_photos fs (dict_set (mf_id f) v measurements) (failures @ broken)))"

subsection \<open>One test\<close>

text \<open>The statuses of the names a test lists.\<close>

definition statuses :: "readiness_table \<Rightarrow> string list \<Rightarrow> (string, string) dict res" where
  "statuses table names = rbind (rmap (\<lambda>name. rbind (lookup_status table name) (\<lambda>r. Inr (name, rd_status r))) names)
     (\<lambda>ps. Inr (fold (\<lambda>(k, v). dict_set k v) ps []))"

definition base_result ::
    "bench \<Rightarrow> string \<Rightarrow> test_def \<Rightarrow> readiness_table \<Rightarrow> readiness_table \<Rightarrow> test_result res" where
  "base_result b run_id test fixtures instruments =
     rbind (statuses fixtures (td_fixtures test)) (\<lambda>fs.
     rbind (statuses instruments (td_instrumentation test)) (\<lambda>is.
     Inr \<lparr>tr_run_id = run_id, tr_test_id = td_id test, tr_title = td_title test, tr_subsystem = td_subsystem test,
       tr_method = td_method test, tr_setup_group = or_else ''software'' (td_setup_group test),
       tr_requirements = td_requirements test, tr_jira_keys = td_jira_keys test, tr_fixtures = fs, tr_instrumentation = is,
       tr_started_at = bn_now b (td_id test), tr_limitations = td_limitations test,
       tr_human_intervention = td_human_intervention test, tr_metrics = [], tr_evidence = [], tr_outcome = [],
       tr_duration_ms = 0, tr_failure_reason = None, tr_pending_evidence = None, tr_original_outcome = None,
       tr_original_failure_reason = None, tr_adjudication = None, tr_adjudication_history = [], tr_reuse = None\<rparr>))"

definition blocked_result ::
    "bench \<Rightarrow> string \<Rightarrow> test_def \<Rightarrow> readiness_table \<Rightarrow> readiness_table \<Rightarrow> string list \<Rightarrow> test_result res" where
  "blocked_result b run_id test fixtures instruments reasons =
     rbind (base_result b run_id test fixtures instruments) (\<lambda>r.
     Inr (r\<lparr>tr_outcome := ''BLOCKED'', tr_duration_ms := 0, tr_failure_reason := Some (py_join ''; '' reasons)\<rparr>))"

definition EXIT_OUTCOMES :: "(int, string) dict" where
  "EXIT_OUTCOMES = [(0, ''PASS''), (2, ''BLOCKED''), (3, ''SKIPPED''), (4, ''NOT_APPLICABLE'')]"

text \<open>Evidence is named below the run: \<open>evidence/<test>/<file>\<close>.\<close>

definition evidence_path :: "test_def \<Rightarrow> string \<Rightarrow> string" where
  "evidence_path test file = ''evidence/'' @ td_id test @ ''/'' @ file"

definition run_automated ::
    "bench \<Rightarrow> string \<Rightarrow> test_def \<Rightarrow> readiness_table \<Rightarrow> readiness_table \<Rightarrow> test_result res" where
  "run_automated b run_id test fixtures instruments =
     rbind (base_result b run_id test fixtures instruments) (\<lambda>r.
     let r = r\<lparr>tr_duration_ms := bn_elapsed b (td_id test)\<rparr> in
     Inr (case bn_execute b test of
       Exited code \<Rightarrow> r\<lparr>tr_evidence := evidence_path test ''command.log'' # bn_artifacts b test,
         tr_outcome := or_else ''FAIL'' (dict_get EXIT_OUTCOMES code),
         tr_failure_reason := (if dict_get EXIT_OUTCOMES code = None then Some (''command exited with '' @ show_int code) else None),
         tr_metrics := or_else [] (bn_recorded b test)\<rparr>
     | TimedOut seconds \<Rightarrow> r\<lparr>tr_outcome := ''FAIL'', tr_failure_reason := Some (''timeout after '' @ seconds @ ''s'')\<rparr>
     | NotStarted message \<Rightarrow> r\<lparr>tr_outcome := ''BLOCKED'', tr_failure_reason := Some message\<rparr>))"

text \<open>What a guided workflow saw: failures, those with the prefix \<open>BLOCKED:\<close> being reasons for a block.\<close>

record observation =
  ob_failures :: "string list"
  ob_metrics :: "(string, measured) dict"
  ob_logs :: "string list"
  ob_captures :: "string list"
  ob_artifacts :: "string list"

definition blocked_mark :: string where "blocked_mark = ''BLOCKED: ''"

definition is_blocked_reason :: "string \<Rightarrow> bool" where
  "is_blocked_reason item \<longleftrightarrow> take (length blocked_mark) item = blocked_mark"

definition blocked_reasons :: "string list \<Rightarrow> string list" where
  "blocked_reasons failures = map (drop (length blocked_mark)) (filter is_blocked_reason failures)"

definition test_failures :: "string list \<Rightarrow> string list" where
  "test_failures failures = filter (\<lambda>item. \<not> is_blocked_reason item) failures"

definition add_new :: "string list \<Rightarrow> string list \<Rightarrow> string list" where
  "add_new paths known = fold (\<lambda>p ps. if p \<in> set ps then ps else ps @ [p]) paths known"

text \<open>The reasons joined with the one of a photograph: \<open>filter(None, ...)\<close> drops what is absent or empty.\<close>

definition with_reason :: "string option \<Rightarrow> string \<Rightarrow> string option" where
  "with_reason reason photo_reason = Some (py_join ''; '' (filter (\<lambda>r. r \<noteq> []) (or_else [] reason # [photo_reason])))"

definition photo_deferred :: string where
  "photo_deferred = ''required photo evidence deferred; attach it with the evidence add command''"

definition assisted_verdict :: "string list \<Rightarrow> string" where
  "assisted_verdict failures =
     (if test_failures failures \<noteq> [] then ''FAIL'' else if blocked_reasons failures \<noteq> [] then ''BLOCKED'' else ''PASS'')"

definition demote :: "test_result \<Rightarrow> test_result" where
  "demote r = (if tr_outcome r \<noteq> ''FAIL'' then r\<lparr>tr_outcome := ''BLOCKED''\<rparr> else r)"

definition photo_step :: "bench \<Rightarrow> bool \<Rightarrow> test_def \<Rightarrow> test_result \<Rightarrow> (console, test_result) act" where
  "photo_step b defer_photos test r =
     (if \<not> td_requires_photo test then areturn r
      else if defer_photos then
        areturn ((demote r)\<lparr>tr_pending_evidence := Some [''photo_evidence''],
          tr_failure_reason := with_reason (tr_failure_reason r) photo_deferred\<rparr>)
      else abind read_stripped (\<lambda>raw. areturn
        (if bn_is_file b raw then
           r\<lparr>tr_evidence := tr_evidence r @ [evidence_path test (''photos/'' @ bn_file_name b raw)]\<rparr>
         else (demote r)\<lparr>tr_failure_reason := with_reason (tr_failure_reason r) ''required photo evidence path does not exist''\<rparr>)))"

definition run_assisted ::
    "bench \<Rightarrow> (test_def \<Rightarrow> (console, observation) act) \<Rightarrow> test_def \<Rightarrow> bool \<Rightarrow> test_result \<Rightarrow> (console, test_result) act" where
  "run_assisted b observe test defer_photos r =
     abind (observe test) (\<lambda>ob.
     let reasons = test_failures (ob_failures ob) @ blocked_reasons (ob_failures ob) in
     photo_step b defer_photos test
       (r\<lparr>tr_metrics := ob_metrics ob,
          tr_evidence := add_new (ob_artifacts ob) (tr_evidence r @ ob_logs ob @ ob_captures ob @ [evidence_path test ''assisted-summary.json'']),
          tr_duration_ms := bn_elapsed b (td_id test),
          tr_outcome := assisted_verdict (ob_failures ob),
          tr_failure_reason := (if reasons \<noteq> [] then Some (py_join ''; '' reasons) else tr_failure_reason r)\<rparr>))"

text \<open>The form of a manual test.\<close>

definition negative_answers :: "string list" where
  "negative_answers = [''n'', ''no'', ''false'', ''not ready'', ''failed'', ''fail'', ''no / failed'', ''cannot perform'']"

definition answered_no :: "(string, string) dict \<Rightarrow> string \<Rightarrow> bool" where
  "answered_no answers step = (case dict_get answers step of None \<Rightarrow> False
     | Some v \<Rightarrow> py_lower (py_strip v) \<in> set negative_answers)"

fun ask_steps :: "manual_step list \<Rightarrow> (string, string) dict \<Rightarrow> (console, (string, string) dict) act" where
  "ask_steps [] answers = areturn answers"
| "ask_steps (m # ms) answers = abind (choice [''Yes / complete'', ''No / failed'', ''Cannot perform''])
     (\<lambda>v. ask_steps ms (dict_set (ms_id m) v answers))"

definition form_outcome :: "(string, string) dict \<Rightarrow> string list \<Rightarrow> string \<Rightarrow> string" where
  "form_outcome answers failures outcome =
     (let outcome = (if answered_no answers ''setup'' then ''BLOCKED''
        else if answered_no answers ''procedure'' \<or> answered_no answers ''evidence'' then ''FAIL'' else outcome)
      in if failures \<noteq> [] then ''FAIL'' else outcome)"

definition confirm_statuses :: "(string, string) dict \<Rightarrow> (string, string) dict" where
  "confirm_statuses = map (\<lambda>(name, status). (name, if status = CONFIRM_REQUIRED then CONFIRMED else status))"

definition form_result ::
    "bench \<Rightarrow> test_def \<Rightarrow> (string, string) dict \<Rightarrow> (string, measured) dict \<Rightarrow> string list \<Rightarrow> string \<Rightarrow> test_result \<Rightarrow> test_result" where
  "form_result b test answers measurements failures picked r =
     (let functional = form_outcome answers failures picked;
          deferred = map fst (filter (\<lambda>(_, v). v = MText ''DEFERRED'') measurements);
          outcome = (if deferred \<noteq> [] \<and> functional = ''PASS'' then ''BLOCKED'' else functional);
          r = r\<lparr>tr_outcome := outcome, tr_duration_ms := bn_elapsed b (td_id test), tr_metrics := measurements\<rparr>;
          r = (if failures \<noteq> [] then r\<lparr>tr_failure_reason := Some (py_join ''; '' failures)\<rparr>
               else if deferred \<noteq> [] then r\<lparr>tr_failure_reason := Some photo_deferred, tr_pending_evidence := Some deferred\<rparr>
               else r);
          r = (if outcome \<noteq> ''BLOCKED'' then
                 r\<lparr>tr_fixtures := confirm_statuses (tr_fixtures r), tr_instrumentation := confirm_statuses (tr_instrumentation r)\<rparr>
               else r)
      in r\<lparr>tr_evidence := tr_evidence r @ [evidence_path test ''manual-evidence.json'']\<rparr>)"

definition run_manual ::
    "bench \<Rightarrow> (test_def \<Rightarrow> (console, observation) act) \<Rightarrow> string \<Rightarrow> test_def \<Rightarrow> readiness_table \<Rightarrow> readiness_table
     \<Rightarrow> bool \<Rightarrow> bool \<Rightarrow> (console, test_result) act" where
  "run_manual b observe run_id test fixtures instruments non_interactive defer_photos =
     abind (alift (base_result b run_id test fixtures instruments)) (\<lambda>r.
     if non_interactive \<or> \<not> bn_tty b then
       areturn (r\<lparr>tr_outcome := ''BLOCKED'', tr_duration_ms := 0,
         tr_failure_reason := Some ''operator interaction required; rerun without --non-interactive in a terminal''\<rparr>)
     else if or_else [] (td_workflow test) \<noteq> [] then run_assisted b observe test defer_photos r
     else abind (ask_steps (td_manual_steps test) []) (\<lambda>answers.
       abind (manual_measurements b defer_photos (bn_fields b (td_id test)) [] []) (\<lambda>(measurements, failures).
       abind (choice [''PASS'', ''FAIL'', ''BLOCKED'']) (\<lambda>picked.
       abind read_stripped (\<lambda>operator. abind read_stripped (\<lambda>comments.
       areturn (form_result b test answers measurements failures picked r)))))))"

end
