(* ===== verification/Qualification_Run.thy ===== *)
theory Qualification_Run
  imports Operator_Session
begin

section \<open>The qualification tool: runs and later decisions\<close>

text \<open>
  \<open>verification/runner.py\<close>: the sections of a run and their confirmation, the loop over the tests, the
  results taken over from an earlier run, and what is decided after a run: adjudications and attached
  evidence. A run directory is its results, its frozen catalogs and the decisions on requirements;
  printing and the reports for readers are left out.
\<close>

subsection \<open>Sections\<close>

definition setup_group_of :: "test_def \<Rightarrow> string" where
  "setup_group_of test = or_else ''software'' (td_setup_group test)"

definition group_order :: "(string, setup_group) dict \<Rightarrow> test_def \<Rightarrow> int res" where
  "group_order groups test = (case dict_get groups (setup_group_of test) of
     None \<Rightarrow> raise KeyErrorC (py_repr (setup_group_of test)) | Some g \<Rightarrow> Inr (sg_order g))"

text \<open>Sorted by the order of the group; equal orders keep the order of the catalog (ids are unique).\<close>

definition ordered_by_setup :: "test_def list \<Rightarrow> (string, setup_group) dict \<Rightarrow> test_def list res" where
  "ordered_by_setup tests groups =
     rbind (rmap (\<lambda>t. rbind (group_order groups t) (\<lambda>i. Inr (i, t))) tests) (\<lambda>keyed.
     Inr (map snd (sort_key fst keyed)))"

record setup_record =
  sr_group :: string
  sr_tests :: "string list"
  sr_uart_port :: "string option"
  sr_confirmed :: bool
  sr_response :: string

text \<open>\<open>1\<close> or \<open>2\<close>, asked again otherwise.\<close>

fun confirm_from :: "string list \<Rightarrow> string res \<times> string list" where
  "confirm_from [] = (end_of_input, [])"
| "confirm_from (l # ls) = (if py_strip l \<in> {''1'', ''2''} then (Inr (py_strip l), ls) else confirm_from ls)"

definition confirm_line :: "(console, string) act" where
  "confirm_line s = (let (r, ls) = confirm_from (con_lines s) in (r, s\<lparr>con_lines := ls\<rparr>))"

definition confirm_section :: "setup_record \<Rightarrow> (console, bool \<times> setup_record) act" where
  "confirm_section r = abind confirm_line (\<lambda>response.
     let confirmed = (response = ''1'') in
     areturn (confirmed, r\<lparr>sr_confirmed := confirmed, sr_response := (if confirmed then ''ready'' else ''cannot prepare'')\<rparr>))"

definition select_port :: "string list \<Rightarrow> setup_record \<Rightarrow> (console, bool \<times> setup_record) act" where
  "select_port ports r = abind read_stripped (\<lambda>raw.
     abind (alift (numbered raw ports)) (\<lambda>picked.
     let port = or_else raw picked in
     if port = [] then areturn (False, r\<lparr>sr_confirmed := False, sr_response := ''UART port not supplied''\<rparr>)
     else (\<lambda>s. confirm_section (r\<lparr>sr_uart_port := Some port\<rparr>) (s\<lparr>con_uart_port := Some port\<rparr>))))"

definition prepare_setup_section ::
    "bench \<Rightarrow> string list \<Rightarrow> string \<Rightarrow> setup_group \<Rightarrow> test_def list \<Rightarrow> bool \<Rightarrow> (console, bool \<times> setup_record) act" where
  "prepare_setup_section b ports group_id section_setup tests non_interactive =
     abind (areads con_uart_port) (\<lambda>port.
     let r = \<lparr>sr_group = group_id, sr_tests = map td_id tests, sr_uart_port = port, sr_confirmed = False, sr_response = []\<rparr> in
     if \<not> sg_pause section_setup then areturn (True, r\<lparr>sr_confirmed := True, sr_response := ''automatic''\<rparr>)
     else if non_interactive \<or> \<not> bn_tty b then areturn (False, r\<lparr>sr_confirmed := False, sr_response := ''non-interactive''\<rparr>)
     else if sg_uart_required section_setup \<and> or_else [] port = [] then select_port ports r
     else confirm_section r)"

subsection \<open>A run\<close>

record run_state =
  rs_fixtures :: readiness_table
  rs_instruments :: readiness_table
  rs_results :: "test_result list"
  rs_records :: "setup_record list"
  rs_group :: "string option"
  rs_ready :: bool

record run_setup =
  ru_bench :: bench
  ru_observe :: "test_def \<Rightarrow> (console, observation) act"
  ru_ports :: "string list"
  ru_groups :: "(string, setup_group) dict"
  ru_run_id :: string
  ru_non_interactive :: bool
  ru_defer_photos :: bool

type_synonym 'a runs = "(run_state \<times> console, 'a) act"

definition on_run :: "(run_state \<Rightarrow> run_state) \<Rightarrow> unit runs" where
  "on_run f s = (Inr (), (f (fst s), snd s))"

definition enter_group :: "run_setup \<Rightarrow> test_def list \<Rightarrow> string \<Rightarrow> unit runs" where
  "enter_group plan ordered group_id =
     abind (alift (case dict_get (ru_groups plan) group_id of None \<Rightarrow> raise KeyErrorC (py_repr group_id) | Some g \<Rightarrow> Inr g)) (\<lambda>section_setup.
     abind (on_snd (prepare_setup_section (ru_bench plan) (ru_ports plan) group_id section_setup
         (filter (\<lambda>t. setup_group_of t = group_id) ordered) (ru_non_interactive plan))) (\<lambda>(ready, r).
     on_run (\<lambda>s. s\<lparr>rs_ready := ready, rs_records := rs_records s @ [r], rs_group := Some group_id\<rparr>)))"

text \<open>After a conclusive manual test its fixtures and instruments count as confirmed.\<close>

definition confirm_entry :: "string \<Rightarrow> string \<Rightarrow> readiness_table \<Rightarrow> readiness_table" where
  "confirm_entry test_id name table = (case dict_get table name of None \<Rightarrow> table
     | Some r \<Rightarrow> if rd_status r = CONFIRM_REQUIRED
         then dict_set name (r\<lparr>rd_status := CONFIRMED, rd_detail := ''confirmed during '' @ test_id\<rparr>) table else table)"

definition confirm_tables :: "test_def \<Rightarrow> run_state \<Rightarrow> run_state" where
  "confirm_tables test s =
     s\<lparr>rs_fixtures := fold (confirm_entry (td_id test)) (td_fixtures test) (rs_fixtures s),
       rs_instruments := fold (confirm_entry (td_id test)) (td_instrumentation test) (rs_instruments s)\<rparr>"

definition execute_test :: "run_setup \<Rightarrow> test_def \<Rightarrow> string list \<Rightarrow> test_result runs" where
  "execute_test plan test reasons =
     abind (areads fst) (\<lambda>s. let b = ru_bench plan; fs = rs_fixtures s; is = rs_instruments s in
     if reasons \<noteq> [] then alift (blocked_result b (ru_run_id plan) test fs is reasons)
     else if td_method test = ''automated'' then alift (run_automated b (ru_run_id plan) test fs is)
     else abind (on_snd (run_manual b (ru_observe plan) (ru_run_id plan) test fs is (ru_non_interactive plan) (ru_defer_photos plan)))
       (\<lambda>r. abind (if tr_outcome r \<noteq> ''BLOCKED'' then on_run (confirm_tables test) else areturn ()) (\<lambda>_. areturn r)))"

definition run_one :: "run_setup \<Rightarrow> test_def list \<Rightarrow> test_def \<Rightarrow> unit runs" where
  "run_one plan ordered test =
     abind (areads fst) (\<lambda>s.
     abind (if rs_group s \<noteq> Some (setup_group_of test) then enter_group plan ordered (setup_group_of test) else areturn ()) (\<lambda>_.
     abind (areads fst) (\<lambda>s.
     abind (alift (blockers test (rs_fixtures s) (rs_instruments s))) (\<lambda>reasons.
     abind (execute_test plan test (if rs_ready s then reasons
         else reasons @ [''setup section '' @ setup_group_of test @ '' was not prepared and confirmed by the operator''])) (\<lambda>r.
     on_run (\<lambda>s. s\<lparr>rs_results := rs_results s @ [r]\<rparr>))))))"

fun run_tests :: "run_setup \<Rightarrow> test_def list \<Rightarrow> test_def list \<Rightarrow> unit runs" where
  "run_tests plan ordered [] = areturn ()"
| "run_tests plan ordered (t # ts) = abind (run_one plan ordered t) (\<lambda>_. run_tests plan ordered ts)"

text \<open>The results in the order of the selected tests; a result of another test has no position.\<close>

fun position :: "string list \<Rightarrow> string \<Rightarrow> nat option" where
  "position [] x = None"
| "position (y # ys) x = (if x = y then Some 0 else map_option Suc (position ys x))"

definition sort_results :: "test_def list \<Rightarrow> test_result list \<Rightarrow> test_result list res" where
  "sort_results ordered results =
     rbind (rmap (\<lambda>r. case position (map td_id ordered) (tr_test_id r) of
       None \<Rightarrow> raise KeyErrorC (py_repr (tr_test_id r)) | Some i \<Rightarrow> Inr (i, r)) results) (\<lambda>keyed.
     Inr (map snd (sort_key fst keyed)))"

definition selected_tests :: "test_def list \<Rightarrow> string \<Rightarrow> test_def list" where
  "selected_tests tests profile = filter (\<lambda>t. profile \<in> set (td_profiles t)) tests"

subsection \<open>Resuming\<close>

text \<open>A definition counts as unchanged when the two entries are written as the same JSON text.\<close>

definition same_test_definition :: "test_def option \<Rightarrow> test_def \<Rightarrow> bool" where
  "same_test_definition previous current =
     (case previous of None \<Rightarrow> False | Some p \<Rightarrow> td_dump p = td_dump current)"

definition tests_by_id :: "test_def list \<Rightarrow> (string, test_def) dict" where
  "tests_by_id tests = fold (\<lambda>t. dict_set (td_id t) t) tests []"

definition reused_result ::
    "(string \<Rightarrow> bool) \<Rightarrow> string \<Rightarrow> string \<Rightarrow> string \<Rightarrow> test_def \<Rightarrow> test_result \<Rightarrow> test_result" where
  "reused_result present run_id source_name reused_at test previous =
     previous\<lparr>tr_run_id := run_id, tr_title := td_title test, tr_subsystem := td_subsystem test, tr_method := td_method test,
       tr_setup_group := or_else ''software'' (td_setup_group test), tr_requirements := td_requirements test,
       tr_jira_keys := td_jira_keys test, tr_limitations := td_limitations test,
       tr_human_intervention := td_human_intervention test,
       tr_reuse := Some \<lparr>ru_from_run = source_name, ru_at = reused_at, ru_source_started_at = tr_started_at previous\<rparr>,
       tr_evidence := filter present (tr_evidence previous)\<rparr>"

datatype resume_action = Rerun string | Reuse string

definition resume_decision ::
    "(string, test_result) dict \<Rightarrow> (string, test_def) dict \<Rightarrow> test_def \<Rightarrow> resume_action" where
  "resume_decision source_results source_tests test =
     (case dict_get source_results (td_id test) of
       None \<Rightarrow> Rerun ''new or absent from source run''
     | Some previous \<Rightarrow>
         if tr_outcome previous \<notin> set PASSING_OUTCOMES then Rerun (''source outcome was '' @ tr_outcome previous)
         else if \<not> same_test_definition (dict_get source_tests (td_id test)) test then Rerun ''test definition changed''
         else Reuse (''unchanged '' @ tr_outcome previous @ '' result''))"

fun resume_loop ::
    "(test_def \<Rightarrow> test_result \<Rightarrow> test_result) \<Rightarrow> (string, test_result) dict \<Rightarrow> (string, test_def) dict \<Rightarrow> test_def list
     \<Rightarrow> test_result list \<times> test_def list \<times> (string \<times> resume_action) list" where
  "resume_loop copy source_results source_tests [] = ([], [], [])"
| "resume_loop copy source_results source_tests (t # ts) =
     (let (reused, pending, decisions) = resume_loop copy source_results source_tests ts;
          action = resume_decision source_results source_tests t
      in case (action, dict_get source_results (td_id t)) of
        (Reuse _, Some previous) \<Rightarrow> (copy t previous # reused, pending, (td_id t, action) # decisions)
      | _ \<Rightarrow> (reused, t # pending, (td_id t, action) # decisions))"

definition resume_results ::
    "(string \<Rightarrow> bool) \<Rightarrow> string \<Rightarrow> string \<Rightarrow> string \<Rightarrow> test_result list \<Rightarrow> test_def list \<Rightarrow> test_def list
     \<Rightarrow> test_result list \<times> test_def list \<times> (string \<times> resume_action) list" where
  "resume_results present run_id source_name reused_at results tests selected =
     resume_loop (reused_result present run_id source_name reused_at) (results_by_id results) (tests_by_id tests) selected"

text \<open>What a run leaves behind, and the run itself from the catalogs and the results taken over.\<close>

record run_report =
  rp_results :: "test_result list"
  rp_coverage :: coverage_report
  rp_outcome :: string

definition execute_run ::
    "run_setup \<Rightarrow> machine \<Rightarrow> requirement list \<Rightarrow> test_def list \<Rightarrow> (string, fixture_check \<times> bool) dict \<Rightarrow> test_def list
     \<Rightarrow> test_result list \<Rightarrow> test_def list \<Rightarrow> (console, run_report) act" where
  "execute_run plan m requirements tests catalog selected reused pending console =
     (case rbind (run_preflight m pending catalog) (\<lambda>tables. rbind (ordered_by_setup pending (ru_groups plan)) (\<lambda>ordered.
         rbind (ordered_by_setup selected (ru_groups plan)) (\<lambda>all_ordered. Inr (tables, ordered, all_ordered)))) of
       Inl e \<Rightarrow> (Inl e, console)
     | Inr ((fixtures, instruments), ordered, all_ordered) \<Rightarrow>
         (case run_tests plan ordered ordered
             (\<lparr>rs_fixtures = fixtures, rs_instruments = instruments, rs_results = reused, rs_records = [], rs_group = None, rs_ready = True\<rparr>,
              console) of
           (Inl e, s) \<Rightarrow> (Inl e, snd s)
         | (Inr _, s) \<Rightarrow> (rbind (sort_results all_ordered (rs_results (fst s))) (\<lambda>results.
             let coverage = calculate requirements tests results in
             Inr \<lparr>rp_results = results, rp_coverage = coverage, rp_outcome = qualification_outcome results coverage\<rparr>), snd s)))"

subsection \<open>Decisions after a run\<close>

text \<open>A decision on a requirement that a run keeps beside its results.\<close>

record requirement_decision =
  rdn_uid :: string
  rdn_outcome :: string
  rdn_reason :: "string option"

definition decide_row :: "requirement_decision \<Rightarrow> coverage_row \<Rightarrow> coverage_row" where
  "decide_row d row =
     (let outcome = normalize_outcome (rdn_outcome d) in
      if cr_uid row \<noteq> rdn_uid d \<or> outcome \<notin> set TEST_OUTCOMES then row
      else row\<lparr>cr_result := outcome, cr_reason := or_else ''Run-specific requirement disposition'' (rdn_reason d),
        cr_status := (if outcome = ''NOT_APPLICABLE'' then ''not_applicable'' else cr_status row)\<rparr>)"

definition rebuild :: "requirement list \<Rightarrow> test_def list \<Rightarrow> requirement_decision list \<Rightarrow> test_result list \<Rightarrow> run_report" where
  "rebuild requirements tests decisions results =
     (let coverage = calculate requirements tests results;
          rows = fold (\<lambda>d. map (decide_row d)) decisions (cov_rows coverage);
          coverage = coverage\<lparr>cov_rows := rows, cov_counts := coverage_counts rows\<rparr>
      in \<lparr>rp_results = results, rp_coverage = coverage, rp_outcome = qualification_outcome results coverage\<rparr>)"

text \<open>The decision is applied to the first result of the test.\<close>

fun update_first :: "('a \<Rightarrow> bool) \<Rightarrow> ('a \<Rightarrow> 'a) \<Rightarrow> 'a list \<Rightarrow> 'a list" where
  "update_first p f [] = []"
| "update_first p f (x # xs) = (if p x then f x # xs else x # update_first p f xs)"

definition truthy :: "string option \<Rightarrow> bool" where
  "truthy v \<longleftrightarrow> or_else [] v \<noteq> []"

definition keep_first :: "'a option \<Rightarrow> 'a option \<Rightarrow> 'a option" where
  "keep_first old new = (case old of None \<Rightarrow> new | Some x \<Rightarrow> Some x)"

definition record_decision :: "decision \<Rightarrow> test_result \<Rightarrow> test_result" where
  "record_decision d r =
     r\<lparr>tr_original_outcome := keep_first (tr_original_outcome r) (Some (tr_outcome r)),
       tr_original_failure_reason := (if truthy (tr_failure_reason r)
         then keep_first (tr_original_failure_reason r) (tr_failure_reason r) else tr_original_failure_reason r),
       tr_outcome := ad_outcome d,
       tr_adjudication := Some d,
       tr_adjudication_history := tr_adjudication_history r @ [d],
       tr_failure_reason := (if ad_outcome d \<in> set PASSING_OUTCOMES then None else Some (ad_reason d))\<rparr>"

definition adjudicate ::
    "string \<Rightarrow> test_def list \<Rightarrow> string \<Rightarrow> string \<Rightarrow> string \<Rightarrow> string \<Rightarrow> string \<Rightarrow> test_result list \<Rightarrow> (bool \<times> string) \<times> test_result list" where
  "adjudicate run_name tests now test_id outcome reason operator results =
     (let outcome = normalize_outcome outcome in
      if outcome \<notin> set TEST_OUTCOMES then ((False, ''outcome must be one of: '' @ py_join '', '' TEST_OUTCOMES), results)
      else if py_strip reason = [] \<or> py_strip operator = [] then ((False, ''operator and rationale are required''), results)
      else if \<not> list_ex (\<lambda>t. td_id t = test_id) tests then ((False, ''test not found: '' @ test_id), results)
      else if \<not> list_ex (\<lambda>r. tr_test_id r = test_id) results then ((False, ''test result not found: '' @ test_id), results)
      else
        let d = \<lparr>ad_operator = py_strip operator, ad_reason = py_strip reason, ad_outcome = outcome,
                 ad_override = (outcome = PASS_OVERRIDE), ad_recorded_at = now\<rparr>
        in ((True, test_id @ '' recorded as '' @ outcome @ '' for '' @ run_name),
            update_first (\<lambda>r. tr_test_id r = test_id) (record_decision d) results))"

text \<open>\<open>"photo evidence deferred" in failure_reason\<close>.\<close>

fun contains :: "string \<Rightarrow> string \<Rightarrow> bool" where
  "contains part [] = (part = [])"
| "contains part (c # s) = (take (length part) (c # s) = part \<or> contains part s)"

definition attach :: "string list \<Rightarrow> bool \<Rightarrow> test_result \<Rightarrow> test_result" where
  "attach copied finish r =
     (let r = r\<lparr>tr_evidence := tr_evidence r @ copied, tr_pending_evidence := Some []\<rparr> in
      if finish \<and> tr_outcome r = ''BLOCKED'' \<and> contains ''photo evidence deferred'' (or_else [] (tr_failure_reason r))
      then r\<lparr>tr_outcome := ''PASS'', tr_failure_reason := None\<rparr> else r)"

text \<open>
  The first name that is not taken: the plain one, then with a counter from 2. Of as many counters as
  there are taken names and one more, one is free.
\<close>

definition first_free :: "string \<Rightarrow> string \<Rightarrow> string \<Rightarrow> string list \<Rightarrow> string option" where
  "first_free base separator suffix taken =
     find (\<lambda>n. n \<notin> set taken) ((base @ suffix) # map (\<lambda>k. base @ separator @ show_nat k @ suffix) [2..<length taken + 3])"

definition fresh_run_id :: "string \<Rightarrow> string list \<Rightarrow> string option" where
  "fresh_run_id base existing = first_free base ''_'' [] existing"

text \<open>\<open>[A-Z][A-Z0-9-]{1,31}\<close>, the whole text (\<open>core/paths.py\<close>).\<close>

definition safe_test_id :: "string \<Rightarrow> bool" where
  "safe_test_id v \<longleftrightarrow> v \<noteq> [] \<and> is_ascii_upper (hd v) \<and> 2 \<le> length v \<and> length v \<le> 32
     \<and> list_all (\<lambda>c. is_ascii_upper c \<or> is_ascii_digit c \<or> c = CHR ''-'') (tl v)"

text \<open>The photographs are copied one by one; a missing one ends the command. A file is its stem and suffix.\<close>

fun copy_photos :: "string \<Rightarrow> (string \<Rightarrow> (string \<times> string) option) \<Rightarrow> string list \<Rightarrow> string list \<Rightarrow> string list \<Rightarrow> string list option" where
  "copy_photos folder source [] taken copied = Some copied"
| "copy_photos folder source (raw # photos) taken copied = (case source raw of
     None \<Rightarrow> None
   | Some (stem, suffix) \<Rightarrow> (case first_free stem ''-'' suffix taken of
       None \<Rightarrow> None
     | Some name \<Rightarrow> copy_photos folder source photos (name # taken) (copied @ [folder @ name])))"

definition add_evidence ::
    "(string \<Rightarrow> (string \<times> string) option) \<Rightarrow> string list \<Rightarrow> string \<Rightarrow> string list \<Rightarrow> bool \<Rightarrow> test_result list
     \<Rightarrow> int \<times> test_result list" where
  "add_evidence source taken test_id photos finish results =
     (if \<not> list_ex (\<lambda>r. tr_test_id r = test_id) results then (1, results)
      else if \<not> safe_test_id test_id then (1, results)
      else case copy_photos (''evidence/'' @ test_id @ ''/photos/'') source photos taken [] of
        None \<Rightarrow> (1, results)
      | Some copied \<Rightarrow> (0, update_first (\<lambda>r. tr_test_id r = test_id) (attach copied finish) results))"

end
