(* ===== verification/Qualification_Props.thy ===== *)
theory Qualification_Props
  imports Qualification_Run
begin

section \<open>What the qualification tool guarantees\<close>

text \<open>
  Facts of theories Qualification_Data, Operator_Session and Qualification_Run: which requirements are
  reported as passed, that a run has one result for every selected test and executes a test only in a
  confirmed section, what a resumed run takes over, and what later decisions leave of a result.
\<close>

named_theorems result_rules \<open>what an action of a run leaves behind\<close>

subsection \<open>One result per test\<close>

text \<open>A result is about a test when it names it and its section.\<close>

definition about :: "test_def \<Rightarrow> test_result \<Rightarrow> bool" where
  "about t r \<longleftrightarrow> tr_test_id r = td_id t \<and> tr_setup_group r = setup_group_of t"

lemma about_update [simp]:
  "about t (tr_outcome_update f r) = about t r" "about t (tr_duration_ms_update g r) = about t r"
  "about t (tr_failure_reason_update h r) = about t r" "about t (tr_evidence_update e r) = about t r"
  "about t (tr_metrics_update m r) = about t r" "about t (tr_pending_evidence_update p r) = about t r"
  "about t (tr_fixtures_update k r) = about t r" "about t (tr_instrumentation_update k r) = about t r"
  by (simp_all add: about_def)

lemma base_result_about: "base_result b run_id t fs is = Inr r \<Longrightarrow> about t r"
  by (auto simp: base_result_def rbind_Inr_iff about_def setup_group_of_def)

lemma blocked_result_about: "blocked_result b run_id t fs is reasons = Inr r \<Longrightarrow> about t r \<and> tr_outcome r = ''BLOCKED''"
  by (auto simp: blocked_result_def rbind_Inr_iff dest: base_result_about)

lemma run_automated_about: "run_automated b run_id t fs is = Inr r \<Longrightarrow> about t r"
  by (cases "bn_execute b t") (auto simp: run_automated_def rbind_Inr_iff Let_def dest!: base_result_about)

lemma demote_about [simp]: "about t (demote r) = about t r" "about t (form_result b t' a m f p r) = about t r"
  by (simp_all add: demote_def form_result_def Let_def)

lemma photo_step_about: "photo_step b d t' r s = (Inr r', s') \<Longrightarrow> about t r' = about t r"
  by (auto simp: photo_step_def abind_Inr split: if_splits)

lemma run_assisted_about: "run_assisted b observe t' d r s = (Inr r', s') \<Longrightarrow> about t r' = about t r"
  by (auto simp: run_assisted_def abind_Inr Let_def dest!: photo_step_about [where t = t])

lemma run_manual_about:
  assumes "run_manual b observe run_id t fs is n d s = (Inr r, s')"
  shows "about t r"
proof -
  from assms obtain r0 where "base_result b run_id t fs is = Inr r0"
    by (auto simp: run_manual_def abind_Inr alift_def)
  with base_result_about [OF this] assms show ?thesis
    by (auto simp: run_manual_def abind_Inr alift_def split: if_splits prod.splits dest!: run_assisted_about [where t = t])
qed

text \<open>The tables of a run agree on what is not ready; only a waiting entry becomes confirmed.\<close>

definition unready :: "readiness_table \<Rightarrow> string set" where
  "unready table = {name. \<exists>r. dict_get table name = Some r \<and> rd_status r = NOT_READY}"

lemma unready_confirm [simp]: "unready (confirm_entry i name table) = unready table"
  by (auto simp: unready_def confirm_entry_def readiness_defs split: option.splits if_splits)

lemma unready_confirm_all [simp]: "unready (fold (confirm_entry i) names table) = unready table"
  by (induction names arbitrary: table) simp_all

lemma blockers_none:
  assumes "blockers t fs is = Inr []"
  shows "set (td_fixtures t) \<inter> unready fs = {}" "set (td_instrumentation t) \<inter> unready is = {}"
proof -
  have none: "set names \<inter> unready table = {}" if "with_status NOT_READY table names = Inr []" for table names
  proof -
    from that obtain rs where rs: "rmap (\<lambda>name. rbind (lookup_status table name) (\<lambda>r. Inr (name, r))) names = Inr rs"
      "\<forall>p\<in>set rs. rd_status (snd p) \<noteq> NOT_READY"
      by (auto simp: with_status_def rbind_Inr_iff filter_empty_conv split_beta)
    have "\<exists>r. dict_get table name = Some r \<and> (name, r) \<in> set rs" if "name \<in> set names" for name
    proof -
      from that obtain i where i: "i < length names" "name = names ! i" by (auto simp: in_set_conv_nth)
      from rmap_Inr_nth [OF rs(1) i(1)] i(2) have "\<exists>r. dict_get table name = Some r \<and> rs ! i = (name, r)"
        by (auto simp: rbind_Inr_iff lookup_status_def split: option.splits)
      moreover have "i < length rs" using rmap_Inr_length [OF rs(1)] i(1) by simp
      ultimately show ?thesis by (metis nth_mem)
    qed
    then show ?thesis using rs(2) by (fastforce simp: unready_def)
  qed
  show "set (td_fixtures t) \<inter> unready fs = {}" "set (td_instrumentation t) \<inter> unready is = {}"
    using assms by (auto simp: blockers_def rbind_Inr_iff dest!: none)
qed

text \<open>Preparing a section returns its record, confirmed exactly when it is ready.\<close>

lemma confirm_section_record: "confirm_section r s = (Inr (ready, r'), s') \<Longrightarrow> sr_group r' = sr_group r \<and> sr_confirmed r' = ready"
  by (auto simp: confirm_section_def abind_Inr Let_def)

lemma prepare_record:
  assumes "prepare_setup_section b ports g section_setup ts n s = (Inr (ready, r), s')"
  shows "sr_group r = g \<and> sr_confirmed r = ready"
  using assms
  by (auto simp: prepare_setup_section_def select_port_def abind_Inr Let_def split: if_splits dest!: confirm_section_record)

text \<open>The step from a state of the run to the next.\<close>

definition same_plan :: "run_state \<Rightarrow> run_state \<Rightarrow> bool" where
  "same_plan s s' \<longleftrightarrow> unready (rs_fixtures s') = unready (rs_fixtures s) \<and> unready (rs_instruments s') = unready (rs_instruments s)"

definition confirmed_group :: "run_state \<Rightarrow> string \<Rightarrow> bool" where
  "confirmed_group s g \<longleftrightarrow> (\<exists>x\<in>set (rs_records s). sr_group x = g \<and> sr_confirmed x)"

definition ready_state :: "run_state \<Rightarrow> bool" where
  "ready_state s \<longleftrightarrow> (\<forall>g. rs_group s = Some g \<longrightarrow> rs_ready s \<longrightarrow> confirmed_group s g)"

lemma on_snd_Inr: "on_snd m s = (Inr v, s') \<Longrightarrow> \<exists>c'. m (snd s) = (Inr v, c') \<and> s' = (fst s, c')"
  by (auto simp: on_snd_def split: prod.splits)

lemma enter_group_steps:
  assumes "enter_group plan ordered g s = (Inr u, s')"
  shows "ready_state (fst s') \<and> rs_group (fst s') = Some g \<and> same_plan (fst s) (fst s')
    \<and> rs_results (fst s') = rs_results (fst s) \<and> set (rs_records (fst s)) \<subseteq> set (rs_records (fst s'))"
  using assms
  by (auto simp: enter_group_def abind_Inr on_run_def ready_state_def confirmed_group_def same_plan_def
      dest!: on_snd_Inr prepare_record)

lemma execute_test_steps:
  assumes "execute_test plan t reasons s = (Inr r, s')"
  shows "about t r \<and> same_plan (fst s) (fst s') \<and> rs_results (fst s') = rs_results (fst s)
    \<and> rs_records (fst s') = rs_records (fst s) \<and> rs_group (fst s') = rs_group (fst s) \<and> rs_ready (fst s') = rs_ready (fst s)
    \<and> (reasons \<noteq> [] \<longrightarrow> tr_outcome r = ''BLOCKED'')"
  using assms
  by (auto simp: execute_test_def abind_Inr on_run_def same_plan_def confirm_tables_def Let_def alift_def split: if_splits
      dest!: on_snd_Inr blocked_result_about run_automated_about run_manual_about)

definition allowed :: "run_state \<Rightarrow> test_def \<Rightarrow> bool" where
  "allowed s t \<longleftrightarrow> confirmed_group s (setup_group_of t) \<and> set (td_fixtures t) \<inter> unready (rs_fixtures s) = {}
     \<and> set (td_instrumentation t) \<inter> unready (rs_instruments s) = {}"

lemma run_one_steps:
  assumes "run_one plan ordered t s = (Inr u, s')" "ready_state (fst s)"
  shows "ready_state (fst s') \<and> same_plan (fst s) (fst s') \<and> set (rs_records (fst s)) \<subseteq> set (rs_records (fst s'))
    \<and> (\<exists>r. rs_results (fst s') = rs_results (fst s) @ [r] \<and> about t r \<and> (tr_outcome r = ''BLOCKED'' \<or> allowed (fst s') t))"
proof -
  obtain s1 reasons r s2 where
    enter: "(if rs_group (fst s) \<noteq> Some (setup_group_of t) then enter_group plan ordered (setup_group_of t) else areturn ()) s = (Inr (), s1)"
    and reasons: "blockers t (rs_fixtures (fst s1)) (rs_instruments (fst s1)) = Inr reasons"
    and run: "execute_test plan t (if rs_ready (fst s1) then reasons
      else reasons @ [''setup section '' @ setup_group_of t @ '' was not prepared and confirmed by the operator'']) s1 = (Inr r, s2)"
    and s': "s' = ((fst s2)\<lparr>rs_results := rs_results (fst s2) @ [r]\<rparr>, snd s2)"
    using assms(1) by (auto simp: run_one_def abind_Inr on_run_def alift_def)
  have s1: "ready_state (fst s1)" "rs_group (fst s1) = Some (setup_group_of t)" "same_plan (fst s) (fst s1)"
    "rs_results (fst s1) = rs_results (fst s)" "set (rs_records (fst s)) \<subseteq> set (rs_records (fst s1))"
    using enter enter_group_steps [of plan ordered "setup_group_of t" s "()" s1] assms(2)
    by (auto simp: same_plan_def split: if_splits)
  note s2 = execute_test_steps [OF run]
  have "allowed (fst s1) t" if "tr_outcome r \<noteq> ''BLOCKED''"
  proof -
    have "rs_ready (fst s1)" "reasons = []" using s2 that by (auto split: if_splits)
    then show ?thesis using blockers_none [of t] reasons s1(1,2) by (simp add: allowed_def ready_state_def)
  qed
  then have "tr_outcome r = ''BLOCKED'' \<or> allowed (fst s') t"
    using s2 by (auto simp: allowed_def s' same_plan_def confirmed_group_def)
  then show ?thesis using s1 s2 by (auto simp: s' same_plan_def ready_state_def confirmed_group_def)
qed

lemma allowed_mono: "allowed s t \<Longrightarrow> same_plan s s' \<Longrightarrow> set (rs_records s) \<subseteq> set (rs_records s') \<Longrightarrow> allowed s' t"
  by (auto simp: allowed_def same_plan_def confirmed_group_def)

lemma run_tests_steps:
  "run_tests plan ordered ts s = (Inr u, s') \<Longrightarrow> ready_state (fst s) \<Longrightarrow>
   same_plan (fst s) (fst s') \<and> set (rs_records (fst s)) \<subseteq> set (rs_records (fst s')) \<and>
   (\<exists>new. rs_results (fst s') = rs_results (fst s) @ new
     \<and> list_all2 (\<lambda>t r. about t r \<and> (tr_outcome r = ''BLOCKED'' \<or> allowed (fst s') t)) ts new)"
proof (induction ts arbitrary: s)
  case Nil
  then show ?case by (simp add: same_plan_def)
next
  case (Cons t ts)
  from Cons.prems(1) obtain s1 where one: "run_one plan ordered t s = (Inr (), s1)" and rest: "run_tests plan ordered ts s1 = (Inr u, s')"
    by (auto simp: abind_Inr)
  from run_one_steps [OF one Cons.prems(2)] obtain r where r: "ready_state (fst s1)" "same_plan (fst s) (fst s1)"
    "set (rs_records (fst s)) \<subseteq> set (rs_records (fst s1))" "rs_results (fst s1) = rs_results (fst s) @ [r]" "about t r"
    "tr_outcome r = ''BLOCKED'' \<or> allowed (fst s1) t"
    by auto
  from Cons.IH [OF rest r(1)] obtain new where new: "same_plan (fst s1) (fst s')" "set (rs_records (fst s1)) \<subseteq> set (rs_records (fst s'))"
    "rs_results (fst s') = rs_results (fst s1) @ new"
    "list_all2 (\<lambda>t r. about t r \<and> (tr_outcome r = ''BLOCKED'' \<or> allowed (fst s') t)) ts new"
    by auto
  have "tr_outcome r = ''BLOCKED'' \<or> allowed (fst s') t" using r(6) allowed_mono [OF _ new(1,2)] by blast
  then show ?case using r new
    by (intro conjI exI [of _ "r # new"]) (auto simp: same_plan_def)
qed

text \<open>The state in which a run starts.\<close>

definition start_state :: "readiness_table \<Rightarrow> readiness_table \<Rightarrow> test_result list \<Rightarrow> run_state" where
  "start_state fixtures instruments reused = \<lparr>rs_fixtures = fixtures, rs_instruments = instruments, rs_results = reused,
     rs_records = [], rs_group = None, rs_ready = True\<rparr>"

lemma start_ready [simp]: "ready_state (start_state fs is reused)" "rs_results (start_state fs is reused) = reused"
  by (simp_all add: ready_state_def start_state_def)


subsection \<open>The results in order\<close>

lemma position_nth: "distinct xs \<Longrightarrow> i < length xs \<Longrightarrow> position xs (xs ! i) = Some i"
  by (induction xs arbitrary: i) (auto simp: nth_Cons split: nat.splits)

lemma position_Some: "position xs x = Some i \<Longrightarrow> i < length xs \<and> xs ! i = x"
  by (induction xs arbitrary: i) (auto split: if_splits)

lemma sort_results_order:
  assumes sorted: "sort_results ordered results = Inr out"
    and ids: "mset (map tr_test_id results) = mset (map td_id ordered)" and distinct: "distinct (map td_id ordered)"
  shows "map tr_test_id out = map td_id ordered \<and> mset out = mset results"
proof -
  define ids where "ids = map td_id ordered"
  obtain keyed where keyed: "rmap (\<lambda>r. case position ids (tr_test_id r) of
       None \<Rightarrow> raise KeyErrorC (py_repr (tr_test_id r)) | Some i \<Rightarrow> Inr (i, r)) results = Inr keyed"
    and out: "out = map snd (sort_key fst keyed)"
    using sorted by (auto simp: sort_results_def rbind_Inr_iff ids_def)
  have nth: "keyed ! k = (fst (keyed ! k), results ! k) \<and> position ids (tr_test_id (results ! k)) = Some (fst (keyed ! k))"
    if "k < length results" for k
    using rmap_Inr_nth [OF keyed that] by (cases "keyed ! k") (auto split: option.splits)
  have len: "length keyed = length results" by (rule rmap_Inr_length [OF keyed])
  have snds: "map snd keyed = results" using nth len by (intro nth_equalityI) (auto, metis snd_conv)
  have idx: "position ids (tr_test_id (snd p)) = Some (fst p)" if "p \<in> set keyed" for p
    using that nth len by (auto simp: in_set_conv_nth) (metis snd_conv)
  then have nth_id: "ids ! fst p = tr_test_id (snd p)" if "p \<in> set keyed" for p using position_Some that by metis
  have d: "distinct ids" using distinct by (simp add: ids_def)
  have "map fst keyed = map (the \<circ> position ids) (map tr_test_id (map snd keyed))" using idx by simp
  also have "mset \<dots> = mset (map (the \<circ> position ids) ids)" using ids unfolding snds ids_def by (metis mset_map)
  also have "map (the \<circ> position ids) ids = [0..<length ids]"
    using position_nth [OF d] by (intro nth_equalityI) simp_all
  finally have "mset (map fst (sort_key fst keyed)) = mset [0..<length ids]" by simp
  then have "map fst (sort_key fst keyed) = [0..<length ids]"
    by (metis properties_for_sort sorted_sort_key sorted_upt)
  then have "map ((!) ids) (map fst (sort_key fst keyed)) = ids" by (simp add: map_nth)
  moreover have "map ((!) ids) (map fst (sort_key fst keyed)) = map tr_test_id out"
    unfolding out using nth_id by simp
  ultimately show ?thesis unfolding out by (simp add: ids_def flip: snds)
qed

lemma ordered_mset: "ordered_by_setup tests groups = Inr out \<Longrightarrow> mset out = mset tests"
proof -
  assume "ordered_by_setup tests groups = Inr out"
  then obtain keyed where k: "rmap (\<lambda>t. rbind (group_order groups t) (\<lambda>i. Inr (i, t))) tests = Inr keyed"
    and out: "out = map snd (sort_key fst keyed)"
    by (auto simp: ordered_by_setup_def rbind_Inr_iff)
  have "map snd keyed = tests"
  proof (intro nth_equalityI)
    fix i assume "i < length (map snd keyed)"
    then show "map snd keyed ! i = tests ! i"
      using rmap_Inr_nth [OF k, of i] rmap_Inr_length [OF k] by (auto simp: rbind_Inr_iff) (metis snd_conv)
  qed (simp add: rmap_Inr_length [OF k])
  then show ?thesis unfolding out by (metis mset_map mset_sort)
qed

text \<open>What a resumed run takes over: the tests it reuses and those it runs again.\<close>

definition reusable :: "test_result list \<Rightarrow> test_def list \<Rightarrow> test_def \<Rightarrow> bool" where
  "reusable results tests t \<longleftrightarrow> (\<exists>previous old. dict_get (results_by_id results) (td_id t) = Some previous
     \<and> dict_get (tests_by_id tests) (td_id t) = Some old \<and> tr_outcome previous \<in> set PASSING_OUTCOMES \<and> td_dump old = td_dump t)"

lemma resume_decision_reusable:
  "(\<exists>x. resume_decision (results_by_id results) (tests_by_id tests) t = Reuse x) \<longleftrightarrow> reusable results tests t"
  by (auto simp: resume_decision_def reusable_def same_test_definition_def split: option.split)

lemma resume_results_parts:
  assumes "resume_results present run_id source_name reused_at results tests selected = (reused, pending, decisions)"
  shows "pending = filter (\<lambda>t. \<not> reusable results tests t) selected"
    "reused = map (\<lambda>t. reused_result present run_id source_name reused_at t (the (dict_get (results_by_id results) (td_id t))))
       (filter (reusable results tests) selected)"
proof -
  let ?copy = "reused_result present run_id source_name reused_at"
  have "resume_loop ?copy (results_by_id results) (tests_by_id tests) ts = (r, p, d) \<Longrightarrow>
      p = filter (\<lambda>t. \<not> reusable results tests t) ts \<and>
      r = map (\<lambda>t. ?copy t (the (dict_get (results_by_id results) (td_id t)))) (filter (reusable results tests) ts)" for ts r p d
  proof (induction ts arbitrary: r p d)
    case (Cons t ts)
    obtain r' p' d' where l: "resume_loop ?copy (results_by_id results) (tests_by_id tests) ts = (r', p', d')" by (metis surj_pair)
    note IH = Cons.IH [OF l]
    show ?case
    proof (cases "resume_decision (results_by_id results) (tests_by_id tests) t")
      case (Reuse x)
      then have u: "reusable results tests t" using resume_decision_reusable by blast
      then obtain previous where "dict_get (results_by_id results) (td_id t) = Some previous" by (auto simp: reusable_def)
      then show ?thesis using Cons.prems l Reuse IH u by auto
    next
      case (Rerun x)
      then have "\<not> reusable results tests t" using resume_decision_reusable [of results tests t] by simp
      then show ?thesis using Cons.prems l Rerun IH by auto
    qed
  qed simp
  from this [OF assms [unfolded resume_results_def]] show
    "pending = filter (\<lambda>t. \<not> reusable results tests t) selected"
    "reused = map (\<lambda>t. reused_result present run_id source_name reused_at t (the (dict_get (results_by_id results) (td_id t))))
       (filter (reusable results tests) selected)"
    by auto
qed

lemma fold_results:
  "dict_get (fold (\<lambda>r. dict_set (tr_test_id r) r) rs d) i = Some r
    \<Longrightarrow> dict_get d i = Some r \<or> (r \<in> set rs \<and> tr_test_id r = i)"
proof (induction rs arbitrary: d)
  case (Cons x rs)
  from Cons.IH [of "dict_set (tr_test_id x) x d"] Cons.prems show ?case by (auto split: if_splits)
qed simp

lemma results_by_id_id: "dict_get (results_by_id results) i = Some r \<Longrightarrow> tr_test_id r = i \<and> r \<in> set results"
  using fold_results [of results "[]" i r] by (auto simp: results_by_id_def)

lemma reused_ids:
  assumes "resume_results present run_id source_name reused_at results tests selected = (reused, pending, decisions)"
  shows "map tr_test_id reused = map td_id (filter (reusable results tests) selected)"
proof -
  have "tr_test_id (the (dict_get (results_by_id results) (td_id t))) = td_id t" if "reusable results tests t" for t
    using that results_by_id_id [of results "td_id t"] by (fastforce simp: reusable_def)
  then show ?thesis unfolding resume_results_parts(2) [OF assms] by (simp add: reused_result_def)
qed

lemma mset_parts: "mset (filter p xs) + mset (filter (\<lambda>x. \<not> p x) xs) = mset xs"
  by (metis mset_filter multiset_partition)

text \<open>
  C31: A run, resumed or not, ends with exactly one result for every selected test, in the order of the
  setup sections: the results taken over and the executed ones together miss none and repeat none. Its
  outcome is \<open>PASS\<close>, \<open>FAIL\<close> or \<open>BLOCKED\<close>, so that the command always has an exit status; it is \<open>PASS\<close> exactly
  when every requirement is mapped and no result failed, was blocked or was skipped.
\<close>

theorem run_covers_selected:
  assumes resumed: "resume_results present (ru_run_id plan) source_name reused_at results tests selected = (reused, pending, decisions)"
    and run: "execute_run plan m requirements catalog_tests catalog selected reused pending console = (Inr report, console')"
    and order: "ordered_by_setup selected (ru_groups plan) = Inr ordered"
    and ids: "distinct (map td_id selected)"
  shows "map tr_test_id (rp_results report) = map td_id ordered
    \<and> (rp_outcome report = ''PASS'' \<longleftrightarrow> unmapped_rows (cov_rows (rp_coverage report)) = 0
      \<and> list_all (\<lambda>r. tr_outcome r \<notin> {''FAIL'', ''BLOCKED'', ''SKIPPED''}) (rp_results report))
    \<and> exit_status (rp_outcome report) \<in> {Inr 0, Inr 1, Inr 2}"
proof -
  obtain fixtures instruments run_order s u where
    ro: "ordered_by_setup pending (ru_groups plan) = Inr run_order"
    and rt: "run_tests plan run_order run_order (start_state fixtures instruments reused, console) = (Inr u, s)"
    and so: "sort_results ordered (rs_results (fst s)) = Inr (rp_results report)"
    and rp: "rp_coverage report = calculate requirements catalog_tests (rp_results report)"
      "rp_outcome report = qualification_outcome (rp_results report) (rp_coverage report)"
    using run order
    by (auto simp: execute_run_def start_state_def rbind_Inr_iff Let_def split: sum.splits prod.splits)
  from run_tests_steps [OF rt] obtain new where new: "rs_results (fst s) = reused @ new"
    and steps: "list_all2 (\<lambda>t r. about t r \<and> (tr_outcome r = ''BLOCKED'' \<or> allowed (fst s) t)) run_order new"
    by auto
  have all: "list_all2 about run_order new" by (rule list_all2_mono [OF steps]) simp
  have "map tr_test_id new = map td_id run_order"
    using all by (induction rule: list_all2_induct) (simp_all add: about_def)
  then have ids_new: "image_mset tr_test_id (mset new) = image_mset td_id (mset pending)" using ordered_mset [OF ro] by (metis mset_map)
  have "mset (map tr_test_id (reused @ new)) = mset (map td_id selected)"
    unfolding map_append mset_append reused_ids [OF resumed] mset_map ids_new resume_results_parts(1) [OF resumed] image_mset_union [symmetric] mset_parts ..
  then have "mset (map tr_test_id (rs_results (fst s))) = mset (map td_id ordered)"
    unfolding new using ordered_mset [OF order] by (metis mset_map)
  moreover have "distinct (map td_id ordered)" using ids ordered_mset [OF order] by (metis mset_map mset_eq_imp_distinct_iff)
  ultimately have "map tr_test_id (rp_results report) = map td_id ordered" using sort_results_order [OF so] by blast
  moreover have un: "or_else 0 (dict_get (cov_counts (rp_coverage report)) ''UNMAPPED'') = unmapped_rows (cov_rows (rp_coverage report))"
    by (simp add: rp(1) calculate_def Let_def coverage_counts_def TEST_OUTCOMES_def PASS_OVERRIDE_def or_else_def)
  moreover have "rp_outcome report = ''PASS'' \<longleftrightarrow> unmapped_rows (cov_rows (rp_coverage report)) = 0
      \<and> list_all (\<lambda>r. tr_outcome r \<notin> {''FAIL'', ''BLOCKED'', ''SKIPPED''}) (rp_results report)"
    unfolding rp(2) qualification_outcome_def un by (auto simp: list_ex_iff list_all_iff)
  moreover have "exit_status (rp_outcome report) \<in> {Inr 0, Inr 1, Inr 2}"
    unfolding rp(2) qualification_outcome_def by (simp add: exit_status_def)
  ultimately show ?thesis by blast
qed

text \<open>A run of two tests of the software section, of which an earlier run has passed the second.\<close>

definition sample_test :: "string \<Rightarrow> test_def" where
  "sample_test i = \<lparr>td_id = i, td_title = [], td_subsystem = ''backend'', td_method = ''automated'', td_setup_group = None,
     td_profiles = [''software''], td_requirements = [''R1''], td_jira_keys = [], td_fixtures = [], td_instrumentation = [],
     td_limitations = [], td_human_intervention = None, td_workflow = None, td_requires_photo = False, td_manual_steps = [],
     td_dump = i\<rparr>"

definition sample_bench :: bench where
  "sample_bench = \<lparr>bn_tty = False, bn_exists = (\<lambda>_. False), bn_is_file = (\<lambda>_. False), bn_file_name = id, bn_fields = (\<lambda>_. []),
     bn_now = (\<lambda>_. []), bn_elapsed = (\<lambda>_. 7), bn_execute = (\<lambda>_. Exited 0), bn_artifacts = (\<lambda>_. []), bn_recorded = (\<lambda>_. None),
     bn_show = (\<lambda>_. []), bn_repr = (\<lambda>_. [])\<rparr>"

definition sample_plan :: run_setup where
  "sample_plan = \<lparr>ru_bench = sample_bench, ru_observe = (\<lambda>_ c. (end_of_input, c)), ru_ports = [],
     ru_groups = [(''software'', \<lparr>sg_order = 10, sg_title = [], sg_pause = False, sg_uart_required = False, sg_instructions = []\<rparr>)],
     ru_run_id = ''run'', ru_non_interactive = True, ru_defer_photos = False\<rparr>"

definition sample_result :: test_result where
  "sample_result = (case run_automated sample_bench ''old'' (sample_test ''SW-02'') [] [] of Inr r \<Rightarrow> r)"

definition sample_machine :: machine where
  "sample_machine = \<lparr>mc_idf = None, mc_which = (\<lambda>_. None), mc_path = id, mc_exists = (\<lambda>_. False), mc_tcp = (\<lambda>_ _. None),
     mc_http = (\<lambda>_. Inr 200), mc_uart = (False, [])\<rparr>"

definition sample_requirement :: requirement where
  "sample_requirement = \<lparr>rq_uid = ''R1'', rq_jira = [], rq_level = [], rq_component = None, rq_status = None, rq_disposition_note = None\<rparr>"

definition sample_resumed :: "test_result list \<times> test_def list \<times> (string \<times> resume_action) list" where
  "sample_resumed = resume_results (\<lambda>_. True) ''run'' ''old'' [] [sample_result] [sample_test ''SW-02'']
     [sample_test ''SW-01'', sample_test ''SW-02'']"

definition sample_run :: "run_report res \<times> console" where
  "sample_run = execute_run sample_plan sample_machine [sample_requirement] [sample_test ''SW-01'', sample_test ''SW-02''] []
     [sample_test ''SW-01'', sample_test ''SW-02''] (fst sample_resumed) (fst (snd sample_resumed)) \<lparr>con_lines = [], con_uart_port = None\<rparr>"

theorem run_covers_selected_witness:
  "\<exists>report console'. sample_run = (Inr report, console') \<and> map tr_test_id (rp_results report) = [''SW-01'', ''SW-02'']
    \<and> rp_outcome report = ''PASS''"
proof -
  have order: "ordered_by_setup [sample_test ''SW-01'', sample_test ''SW-02''] (ru_groups sample_plan)
      = Inr [sample_test ''SW-01'', sample_test ''SW-02'']" by code_simp
  have ids: "distinct (map td_id [sample_test ''SW-01'', sample_test ''SW-02''])" by code_simp
  have ok: "(case fst sample_run of Inl _ \<Rightarrow> False | Inr report \<Rightarrow> rp_outcome report = ''PASS'')" by code_simp
  then obtain report console' where run: "sample_run = (Inr report, console')"
    by (cases "fst sample_run") (auto simp: prod_eq_iff)
  have res: "resume_results (\<lambda>_. True) (ru_run_id sample_plan) ''old'' [] [sample_result] [sample_test ''SW-02'']
     [sample_test ''SW-01'', sample_test ''SW-02''] = (fst sample_resumed, fst (snd sample_resumed), snd (snd sample_resumed))"
    by (simp add: sample_resumed_def sample_plan_def)
  have "rp_outcome report = ''PASS''" using ok by (simp add: run)
  moreover have "map tr_test_id (rp_results report) = [''SW-01'', ''SW-02'']"
    using run_covers_selected [OF res run [unfolded sample_run_def] order ids] by (simp add: sample_test_def)
  ultimately show ?thesis using run by (intro exI [of _ report] exI [of _ console'] conjI)
qed

subsection \<open>Resumed results\<close>

lemma tests_by_id_id: "dict_get (tests_by_id tests) i = Some t \<Longrightarrow> td_id t = i \<and> t \<in> set tests"
proof -
  have "dict_get (fold (\<lambda>t. dict_set (td_id t) t) ts d) i = Some t \<Longrightarrow> dict_get d i = Some t \<or> (t \<in> set ts \<and> td_id t = i)" for ts d
  proof (induction ts arbitrary: d)
    case (Cons x ts)
    from Cons.IH [of "dict_set (td_id x) x d"] Cons.prems show ?case by (auto split: if_splits)
  qed simp
  from this [of tests "[]"] show "dict_get (tests_by_id tests) i = Some t \<Longrightarrow> td_id t = i \<and> t \<in> set tests"
    by (auto simp: tests_by_id_def)
qed

text \<open>
  C33: A resumed run takes over a result only when the source run has one for that test with a passing
  outcome and the frozen definition of the test is written exactly as the present one; it keeps outcome
  and metrics and drops evidence that was not copied. Every other selected test is run again.
\<close>

theorem resume_reuses_unchanged:
  "case resume_results present run_id source_name reused_at results tests selected of (reused, pending, _) \<Rightarrow>
     pending = filter (\<lambda>t. \<not> reusable results tests t) selected
     \<and> map tr_test_id reused = map td_id (filter (reusable results tests) selected)
     \<and> list_all (\<lambda>r. tr_outcome r \<in> set PASSING_OUTCOMES \<and> list_all present (tr_evidence r)
         \<and> (\<exists>previous\<in>set results. \<exists>old\<in>set tests. \<exists>t\<in>set selected.
             tr_test_id previous = tr_test_id r \<and> td_id old = tr_test_id r \<and> td_id t = tr_test_id r \<and> td_dump old = td_dump t
             \<and> tr_outcome r = tr_outcome previous \<and> tr_metrics r = tr_metrics previous
             \<and> set (tr_evidence r) \<subseteq> set (tr_evidence previous))) reused"
proof -
  obtain reused pending decisions where
    r: "resume_results present run_id source_name reused_at results tests selected = (reused, pending, decisions)"
    by (metis surj_pair)
  have "tr_outcome x \<in> set PASSING_OUTCOMES \<and> list_all present (tr_evidence x)
      \<and> (\<exists>previous\<in>set results. \<exists>old\<in>set tests. \<exists>t\<in>set selected.
             tr_test_id previous = tr_test_id x \<and> td_id old = tr_test_id x \<and> td_id t = tr_test_id x \<and> td_dump old = td_dump t
             \<and> tr_outcome x = tr_outcome previous \<and> tr_metrics x = tr_metrics previous
             \<and> set (tr_evidence x) \<subseteq> set (tr_evidence previous))" if "x \<in> set reused" for x
  proof -
    from that obtain t where t: "t \<in> set selected" "reusable results tests t"
      and x: "x = reused_result present run_id source_name reused_at t (the (dict_get (results_by_id results) (td_id t)))"
      unfolding resume_results_parts(2) [OF r] by auto
    from t(2) obtain previous old where p: "dict_get (results_by_id results) (td_id t) = Some previous"
      "dict_get (tests_by_id tests) (td_id t) = Some old" "tr_outcome previous \<in> set PASSING_OUTCOMES" "td_dump old = td_dump t"
      by (auto simp: reusable_def)
    have "tr_outcome x = tr_outcome previous" "tr_metrics x = tr_metrics previous" "tr_test_id x = tr_test_id previous"
      "tr_evidence x = filter present (tr_evidence previous)"
      by (simp_all add: x p(1) reused_result_def)
    moreover have "set (filter present (tr_evidence previous)) \<subseteq> set (tr_evidence previous)" by auto
    moreover have "list_all present (filter present (tr_evidence previous))" by (simp add: list_all_iff)
    ultimately show ?thesis using results_by_id_id [OF p(1)] tests_by_id_id [OF p(2)] p(3,4) t(1) by metis
  qed
  then show ?thesis using reused_ids [OF r] resume_results_parts(1) [OF r] by (simp add: r list_all_iff)
qed

subsection \<open>Later decisions\<close>

text \<open>What decisions leave of a result: either nothing changed, or the first outcome and every decision are on record.\<close>

definition valid_decision :: "decision \<Rightarrow> bool" where
  "valid_decision d \<longleftrightarrow> ad_outcome d \<in> set TEST_OUTCOMES \<and> ad_operator d \<noteq> [] \<and> ad_reason d \<noteq> []
     \<and> ad_override d = (ad_outcome d = PASS_OVERRIDE)"

definition decided :: "test_result \<Rightarrow> test_result \<Rightarrow> bool" where
  "decided r r' \<longleftrightarrow> r' = r \<or> (\<exists>ds. ds \<noteq> [] \<and> list_all valid_decision ds
     \<and> tr_adjudication_history r' = tr_adjudication_history r @ ds \<and> tr_adjudication r' = Some (last ds)
     \<and> tr_outcome r' = ad_outcome (last ds)
     \<and> tr_failure_reason r' = (if ad_outcome (last ds) \<in> set PASSING_OUTCOMES then None else Some (ad_reason (last ds)))
     \<and> tr_original_outcome r' = keep_first (tr_original_outcome r) (Some (tr_outcome r))
     \<and> tr_test_id r' = tr_test_id r \<and> tr_evidence r' = tr_evidence r \<and> tr_metrics r' = tr_metrics r)"

lemma keep_first_simps [simp]: "keep_first None v = v" "keep_first (Some x) v = Some x" "keep_first (keep_first v (Some x)) w = keep_first v (Some x)"
  by (simp_all add: keep_first_def split: option.split)

lemma decided_step: "decided r r' \<Longrightarrow> valid_decision d \<Longrightarrow> decided r (record_decision d r')"
  unfolding decided_def
proof (elim disjE exE conjE)
  assume "valid_decision d" "r' = r"
  then show "record_decision d r' = r \<or> (\<exists>ds. ds \<noteq> [] \<and> list_all valid_decision ds
     \<and> tr_adjudication_history (record_decision d r') = tr_adjudication_history r @ ds \<and> tr_adjudication (record_decision d r') = Some (last ds)
     \<and> tr_outcome (record_decision d r') = ad_outcome (last ds)
     \<and> tr_failure_reason (record_decision d r') = (if ad_outcome (last ds) \<in> set PASSING_OUTCOMES then None else Some (ad_reason (last ds)))
     \<and> tr_original_outcome (record_decision d r') = keep_first (tr_original_outcome r) (Some (tr_outcome r))
     \<and> tr_test_id (record_decision d r') = tr_test_id r \<and> tr_evidence (record_decision d r') = tr_evidence r
     \<and> tr_metrics (record_decision d r') = tr_metrics r)"
    by (intro disjI2 exI [of _ "[d]"]) (simp add: record_decision_def)
qed (rule disjI2, rule_tac x = "ds @ [d]" in exI, simp add: record_decision_def)

lemma update_first_decided:
  "list_all2 decided rs rs' \<Longrightarrow> valid_decision d \<Longrightarrow> list_all2 decided rs (update_first p (record_decision d) rs')"
  by (induction rs' arbitrary: rs) (auto simp: list_all2_Cons2 decided_step)

lemma adjudicate_decided:
  "list_all2 decided rs rs' \<Longrightarrow> list_all2 decided rs (snd (adjudicate run_name tests now test_id outcome reason operator rs'))"
  by (auto simp: adjudicate_def Let_def valid_decision_def intro!: update_first_decided)


subsection \<open>Requirements\<close>

lemma filter_all: "length (filter p xs) = length xs \<longleftrightarrow> list_all p xs"
proof (induction xs)
  case (Cons x xs)
  have "length (filter p xs) \<noteq> Suc (length xs)" using length_filter_le [of p xs] by linarith
  then show ?case using Cons by simp
qed simp

lemma length_map_filter: "length (List.map_filter f xs) = length (filter (\<lambda>x. f x \<noteq> None) xs)"
  by (simp add: List.map_filter_def)

lemma verdict_pass:
  "fst (requirement_verdict rq mapped states) \<in> {''PASS'', PASS_OVERRIDE} \<longleftrightarrow>
     py_lower (or_else ''active'' (rq_status rq)) \<notin> {''not_applicable'', ''tbd'', ''conflict''}
     \<and> mapped \<noteq> [] \<and> ''FAIL'' \<notin> set states
     \<and> \<not> (length states < length mapped \<or> list_ex (\<lambda>s. s \<in> {''BLOCKED'', ''SKIPPED''}) states)
     \<and> states \<noteq> [] \<and> list_all (\<lambda>s. s \<in> set PASSING_OUTCOMES) states"
  "fst (requirement_verdict rq mapped states) = PASS_OVERRIDE \<longleftrightarrow>
     fst (requirement_verdict rq mapped states) \<in> {''PASS'', PASS_OVERRIDE} \<and> PASS_OVERRIDE \<in> set states"
  by (simp_all add: requirement_verdict_def Let_def PASS_OVERRIDE_def)

lemma passing_not: "''FAIL'' \<notin> set PASSING_OUTCOMES" "''BLOCKED'' \<notin> set PASSING_OUTCOMES" "''SKIPPED'' \<notin> set PASSING_OUTCOMES"
  by (simp_all add: PASSING_OUTCOMES_def PASS_OVERRIDE_def)

lemma set_mapped: "set (mapped_tests tests uid) = {t \<in> set tests. uid \<in> set (td_requirements t)}"
  by (auto simp: mapped_tests_def count_list_0_iff set_replicate_conv_if)

text \<open>
  C35: A requirement is reported as passed exactly when it is in scope and decided, at least one test is
  mapped to it, and every test mapped to it has a result with a passing outcome; then it is an override
  exactly when one of those results is.
\<close>

theorem requirement_pass_exact:
  "let mapped = filter (\<lambda>t. rq_uid rq \<in> set (td_requirements t)) tests;
       outcome = (\<lambda>t. map_option tr_outcome (dict_get (results_by_id results) (td_id t)));
       verdict = cr_result (coverage_row_of tests results rq)
   in (verdict \<in> {''PASS'', PASS_OVERRIDE} \<longleftrightarrow>
        py_lower (or_else ''active'' (rq_status rq)) \<notin> {''not_applicable'', ''tbd'', ''conflict''}
        \<and> mapped \<noteq> [] \<and> list_all (\<lambda>t. outcome t \<in> Some ` set PASSING_OUTCOMES) mapped)
    \<and> (verdict = PASS_OVERRIDE \<longleftrightarrow> verdict \<in> {''PASS'', PASS_OVERRIDE} \<and> list_ex (\<lambda>t. outcome t = Some PASS_OVERRIDE) mapped)"
proof -
  define mapped where "mapped = mapped_tests tests (rq_uid rq)"
  define outcome where "outcome t = map_option tr_outcome (dict_get (results_by_id results) (td_id t))" for t :: test_def
  define states where "states = List.map_filter outcome mapped"
  have sm: "set (filter (\<lambda>t. rq_uid rq \<in> set (td_requirements t)) tests) = set mapped"
    by (auto simp: mapped_def set_mapped)
  have st: "mapped_states results mapped = states"
    unfolding states_def by (induction mapped) (auto simp: mapped_states_def List.map_filter_def outcome_def)
  have len: "length states = length (filter (\<lambda>t. outcome t \<noteq> None) mapped)"
    unfolding states_def by (rule length_map_filter)
  have every: "list_all (\<lambda>t. outcome t \<in> Some ` set PASSING_OUTCOMES) mapped \<longleftrightarrow>
      \<not> length states < length mapped \<and> list_all (\<lambda>x. x \<in> set PASSING_OUTCOMES) states"
  proof -
    have "\<not> length states < length mapped \<longleftrightarrow> list_all (\<lambda>t. outcome t \<noteq> None) mapped"
      unfolding len filter_all [symmetric] using length_filter_le [of "\<lambda>t. outcome t \<noteq> None" mapped] by linarith
    then show ?thesis by (force simp: list_all_iff states_def List.map_filter_def)
  qed
  have some: "list_ex (\<lambda>t. outcome t = Some PASS_OVERRIDE) mapped \<longleftrightarrow> PASS_OVERRIDE \<in> set states"
    by (force simp: list_ex_iff states_def List.map_filter_def)
  have passing: "list_all (\<lambda>x. x \<in> set PASSING_OUTCOMES) states \<Longrightarrow>
      ''FAIL'' \<notin> set states \<and> \<not> list_ex (\<lambda>x. x \<in> {''BLOCKED'', ''SKIPPED''}) states"
    unfolding list_all_iff list_ex_iff using passing_not by blast
  have ne: "mapped \<noteq> [] \<Longrightarrow> \<not> length states < length mapped \<Longrightarrow> states \<noteq> []" by auto
  define verdict where "verdict = fst (requirement_verdict rq mapped states)"
  have v: "cr_result (coverage_row_of tests results rq) = verdict"
    by (simp add: coverage_row_of_def Let_def verdict_def st flip: mapped_def split: prod.split)
  have fv: "verdict \<in> {''PASS'', PASS_OVERRIDE} \<longleftrightarrow>
        py_lower (or_else ''active'' (rq_status rq)) \<notin> {''not_applicable'', ''tbd'', ''conflict''}
        \<and> mapped \<noteq> [] \<and> \<not> length states < length mapped \<and> list_all (\<lambda>x. x \<in> set PASSING_OUTCOMES) states"
    unfolding verdict_def verdict_pass(1) using passing ne by blast
  have fo: "verdict = PASS_OVERRIDE \<longleftrightarrow> verdict \<in> {''PASS'', PASS_OVERRIDE} \<and> PASS_OVERRIDE \<in> set states"
    unfolding verdict_def by (rule verdict_pass(2))
  have fn: "filter (\<lambda>t. rq_uid rq \<in> set (td_requirements t)) tests \<noteq> [] \<longleftrightarrow> mapped \<noteq> []"
    using sm by (metis set_empty)
  have fl: "list_all P (filter (\<lambda>t. rq_uid rq \<in> set (td_requirements t)) tests) \<longleftrightarrow> list_all P mapped"
    "list_ex P (filter (\<lambda>t. rq_uid rq \<in> set (td_requirements t)) tests) \<longleftrightarrow> list_ex P mapped" for P
    unfolding list_all_iff list_ex_iff sm by simp_all
  show ?thesis
    unfolding Let_def v outcome_def [symmetric] fn fl every some using fv fo by blast
qed

subsection \<open>Photographs attached later\<close>

lemma contains_append: "contains part s \<Longrightarrow> contains part (pre @ s)"
  by (induction pre) auto

lemma photo_deferred_contained: "contains ''photo evidence deferred'' photo_deferred"
  by code_simp

lemma with_reason_contains: "contains ''photo evidence deferred'' (or_else [] (with_reason reason photo_deferred))"
proof (cases "or_else [] reason = []")
  case True
  then show ?thesis using photo_deferred_contained
    by (simp add: with_reason_def or_else_def photo_deferred_def)
next
  case False
  then have "or_else [] (with_reason reason photo_deferred) = (or_else [] reason @ ''; '') @ photo_deferred"
    by (simp add: with_reason_def or_else_def photo_deferred_def)
  then show ?thesis using contains_append [OF photo_deferred_contained] by metis
qed

text \<open>
  Attaching a photograph and completing a result passes it whatever else blocked it. When a guided test
  that needs a photograph is run with the photograph deferred and the workflow reports only reasons for a
  block, the result is \<open>BLOCKED\<close> with all those reasons; completing it turns it into \<open>PASS\<close> and drops them,
  although the command promises to complete a result that only lacks its photograph.
\<close>

theorem completion_discards_blockers:
  assumes "observe t console = (Inr ob, console')" "td_requires_photo t"
    and "test_failures (ob_failures ob) = []" "blocked_reasons (ob_failures ob) \<noteq> []"
  shows "\<exists>r'. run_assisted b observe t True r console = (Inr r', console') \<and> tr_outcome r' = ''BLOCKED''
    \<and> tr_failure_reason r' = with_reason (Some (py_join ''; '' (blocked_reasons (ob_failures ob)))) photo_deferred
    \<and> tr_outcome (attach copied True r') = ''PASS'' \<and> tr_failure_reason (attach copied True r') = None"
  using assms with_reason_contains
  by (simp add: run_assisted_def abind_def photo_step_def Let_def demote_def assisted_verdict_def attach_def)

theorem completion_discards_blockers_witness:
  "\<exists>b r r'. tr_outcome (r' :: test_result) = ''BLOCKED'' \<and> tr_outcome (attach [''photo.jpg''] True r') = ''PASS''
    \<and> (\<exists>t. run_assisted b (\<lambda>_ c. (Inr \<lparr>ob_failures = [''BLOCKED: drop test not performed''], ob_metrics = [], ob_logs = [],
         ob_captures = [], ob_artifacts = []\<rparr>, c)) t True r \<lparr>con_lines = [], con_uart_port = None\<rparr>
         = (Inr r', \<lparr>con_lines = [], con_uart_port = None\<rparr>))"
proof -
  let ?ob = "\<lparr>ob_failures = [''BLOCKED: drop test not performed''], ob_metrics = [], ob_logs = [], ob_captures = [], ob_artifacts = []\<rparr>"
  let ?c = "\<lparr>con_lines = [], con_uart_port = None\<rparr>"
  define t :: test_def where "t = \<lparr>td_id = ''HW-02'', td_title = ''Mechanical'', td_subsystem = ''hardware'', td_method = ''semi-automated'',
    td_setup_group = None, td_profiles = [], td_requirements = [], td_jira_keys = [], td_fixtures = [], td_instrumentation = [],
    td_limitations = [], td_human_intervention = None, td_workflow = Some ''mechanical'', td_requires_photo = True,
    td_manual_steps = [], td_dump = []\<rparr>"
  have m: "test_failures (ob_failures ?ob) = []" "blocked_reasons (ob_failures ?ob) \<noteq> []" by code_simp+
  have p: "td_requires_photo t" by (simp add: t_def)
  from completion_discards_blockers [of "\<lambda>_ c. (Inr ?ob, c)" t ?c ?ob ?c, OF refl p m, where b = b and r = r and copied = "[''photo.jpg'']" for b r]
  show ?thesis by blast
qed

subsection \<open>Measurements that are no number\<close>

definition numeric_bound :: "measured option \<Rightarrow> bool" where
  "numeric_bound bound \<longleftrightarrow> (case bound of None \<Rightarrow> True | Some m \<Rightarrow> as_float m \<noteq> None)"

lemma nan_order [simp]: "\<not> float_less x FNan" "\<not> float_less FNan x" "\<not> float_leq x FNan" "\<not> float_leq FNan x"
  by (cases x; simp add: float_leq_def)+

lemma nan_limit:
  assumes "numeric_bound bound"
  shows "limit bound (\<lambda>m. compared float_less (MFloat FNan) m) message = Inr []"
    "limit bound (\<lambda>m. compared float_less m (MFloat FNan)) message = Inr []"
    "limit bound (\<lambda>m. compared float_leq m (MFloat FNan)) message = Inr []"
  using assms by (auto simp: limit_def compared_def numeric_bound_def split: option.splits)

text \<open>
  Every limit of a field is an inequality that \<open>NaN\<close> does not break: a number field without an expected
  value, whatever its limits, accepts the answer \<open>nan\<close> without a failure.
\<close>

theorem nan_within_limits:
  assumes "field_type f = ''number''" "mf_expected f = None"
    and "numeric_bound (mf_minimum f)" "numeric_bound (mf_maximum f)" "numeric_bound (mf_exclusive_maximum f)"
  shows "manual_measurements b defer_photos [f] measurements failures \<lparr>con_lines = ''nan'' # ls, con_uart_port = port\<rparr>
    = (Inr (dict_set (mf_id f) (MFloat FNan) measurements, failures), \<lparr>con_lines = ls, con_uart_port = port\<rparr>)"
proof -
  have nan: "py_float ''nan'' = Some FNan" "py_strip ''nan'' = ''nan''" by code_simp+
  have "limit_failures b f (MFloat FNan) = Inr []"
    unfolding limit_failures_def Let_def nan_limit [OF assms(3)] nan_limit [OF assms(4)] nan_limit [OF assms(5)]
    by (simp add: limit_def assms(2))
  then show ?thesis
    using assms(1) nan
    by (simp add: ask_field_def convert_field_def read_stripped_def read_line_def abind_def alift_def)
qed

theorem nan_within_limits_witness:
  "\<exists>b. manual_measurements b False [\<lparr>mf_id = ''cable'', mf_type = Some ''number'', mf_choices = [], mf_expected = None,
      mf_minimum = Some (MFloat (FNum (9/10))), mf_maximum = Some (MFloat (FNum (11/10))), mf_exclusive_maximum = None\<rparr>] [] []
      \<lparr>con_lines = [''nan''], con_uart_port = None\<rparr>
    = (Inr ([(''cable'', MFloat FNan)], []), \<lparr>con_lines = [], con_uart_port = None\<rparr>)"
  using nan_within_limits [of "\<lparr>mf_id = ''cable'', mf_type = Some ''number'', mf_choices = [], mf_expected = None,
      mf_minimum = Some (MFloat (FNum (9/10))), mf_maximum = Some (MFloat (FNum (11/10))), mf_exclusive_maximum = None\<rparr>"
    _ False "[]" "[]" "[]" None]
  by (simp add: field_type_def or_else_def numeric_bound_def)

subsection \<open>Free names\<close>

lemma digit_char_value: "d < 10 \<Longrightarrow> code_of (digit_char d) - 48 = d \<and> digit_char d \<noteq> CHR ''_''"
proof -
  assume "d < 10"
  then have "code_of (digit_char d) = 48 + d" by (simp add: digit_char_def code_of_def)
  moreover have "code_of CHR ''_'' = 95" by code_simp
  ultimately show ?thesis using \<open>d < 10\<close> by auto
qed

lemma digits_value_append: "digits_value (s @ [c]) = (if c = CHR ''_'' then digits_value s else 10 * digits_value s + int (code_of c - 48))"
  by (simp add: digits_value_def)

text \<open>Reading a printed number gives the number, so that printed numbers differ.\<close>

lemma digits_value_show: "digits_value (show_nat n) = int n"
proof (induction n rule: less_induct)
  case (less n)
  show ?case
  proof (cases "n < 10")
    case True
    then show ?thesis using digit_char_value [OF True]
      by (simp add: show_nat_def show_base.simps [of 10 n] digits_value_def)
  next
    case False
    have "show_nat n = show_nat (n div 10) @ [digit_char (n mod 10)]"
      using False unfolding show_nat_def by (subst show_base.simps) simp
    moreover have "digits_value (show_nat (n div 10)) = int (n div 10)" using less [of "n div 10"] False by simp
    moreover have "n = 10 * (n div 10) + n mod 10" by simp
    ultimately show ?thesis using digit_char_value [of "n mod 10"] by (simp add: digits_value_append) presburger
  qed
qed

lemma first_free_found: "\<exists>name. first_free base separator suffix taken = Some name \<and> name \<notin> set taken"
proof -
  let ?names = "(base @ suffix) # map (\<lambda>k. base @ separator @ show_nat k @ suffix) [2..<length taken + 3]"
  have "\<exists>name\<in>set ?names. name \<notin> set taken"
  proof (rule ccontr)
    assume "\<not> ?thesis"
    then have sub: "(\<lambda>k. base @ separator @ show_nat k @ suffix) ` {2..<length taken + 3} \<subseteq> set taken" by auto
    have "inj_on (\<lambda>k. base @ separator @ show_nat k @ suffix) {2..<length taken + 3}"
      by (rule inj_onI) (metis append_same_eq same_append_eq digits_value_show of_nat_eq_iff)
    then have "length taken + 1 \<le> card (set taken)" using card_mono [OF finite_set sub] by (simp add: card_image)
    then show False using card_length [of taken] by linarith
  qed
  then obtain name where "find (\<lambda>n. n \<notin> set taken) ?names = Some name"
    by (metis find_None_iff not_None_eq)
  moreover from this have "name \<notin> set taken" using find_Some_iff [of "\<lambda>n. n \<notin> set taken" ?names name] by blast
  ultimately show ?thesis unfolding first_free_def by blast
qed

text \<open>
  The search for a free run directory ends, and no run or photograph overwrites what is there: the
  names it finds are new.
\<close>

theorem fresh_run_id_found: "\<exists>run_id. fresh_run_id base existing = Some run_id \<and> run_id \<notin> set existing"
  unfolding fresh_run_id_def by (rule first_free_found)

end
