(* ===== verification/Qualification_Catalog.thy ===== *)
theory Qualification_Catalog
  imports Qualification_Run Json_Values
begin

section \<open>The qualification tool: its catalogs\<close>

text \<open>
  \<open>verification/core/catalog.py\<close>: the checks on the four catalogs, as parsed JSON, before a run, and the
  reading of their entries into the records of the other theories. A set of the code is the list of
  what its elements compare as.
\<close>

subsection \<open>Sets of values\<close>

type_synonym view = "rat + string option"

definition catalog_error :: "string \<Rightarrow> 'a res" where
  "catalog_error message = raise (OtherErrorC ''CatalogError'') message"

definition text_view :: "string \<Rightarrow> view" where "text_view s = Inr (Some s)"

definition views_of :: "json \<Rightarrow> view list res" where
  "views_of v = rbind (j_iterate v) (rmap hash_view)"

text \<open>\<open>set(v.get(k, []))\<close>.\<close>

definition view_set :: "json \<Rightarrow> string \<Rightarrow> view list res" where
  "view_set v k = rbind (j_get v k (JArr [])) views_of"

text \<open>\<open>" ".join(v)\<close>.\<close>

definition as_text :: "json \<Rightarrow> string res" where
  "as_text v = (case v of JStr s \<Rightarrow> Inr s | _ \<Rightarrow> type_error)"

definition j_join :: "json \<Rightarrow> string res" where
  "j_join v = rbind (j_iterate v) (\<lambda>xs. rbind (rmap as_text xs) (\<lambda>ss. Inr (py_join '' '' ss)))"

text \<open>The sorted names in a message; elements of different kinds cannot be sorted.\<close>

definition view_text :: "view \<Rightarrow> string option" where
  "view_text v = (case v of Inr (Some s) \<Rightarrow> Some s | _ \<Rightarrow> None)"

definition sorted_names :: "view list \<Rightarrow> string res" where
  "sorted_names vs = (let vs = remdups vs in
     if list_all (\<lambda>v. view_text v \<noteq> None) vs then
       Inr (''['' @ py_join '', '' (map py_repr (sort (List.map_filter view_text vs))) @ '']'')
     else if length vs = 1 \<or> list_all isl vs then Inr ''[...]'' else type_error)"

text \<open>\<open>raise CatalogError(f"... {sorted(names)}")\<close> when there is a name.\<close>

definition reject_unknown :: "view list \<Rightarrow> string \<Rightarrow> unit res" where
  "reject_unknown unknown message =
     (if unknown = [] then Inr () else rbind (sorted_names unknown) (\<lambda>names. catalog_error (message @ names)))"

definition check :: "bool \<Rightarrow> string \<Rightarrow> unit res" where
  "check ok message = (if ok then Inr () else catalog_error message)"

subsection \<open>The checks\<close>

definition PROFILES :: "string list" where "PROFILES = [''software'', ''integration'', ''hil'', ''full'']"

definition ALLOWED_METHODS :: "string list" where "ALLOWED_METHODS = [''automated'', ''semi-automated'', ''manual'']"

text \<open>Identifiers: present, hashable and different; what they compare as is returned.\<close>

definition unique_ids :: "json list \<Rightarrow> string \<Rightarrow> view list res" where
  "unique_ids ids message =
     (if JNull \<in> set ids then catalog_error message
      else rbind (rmap hash_view ids) (\<lambda>vs. if distinct vs then Inr vs else catalog_error message))"

definition check_group :: "string \<times> json \<Rightarrow> unit res" where
  "check_group entry = (case entry of (group_id, g) \<Rightarrow>
     rbind (j_get g ''order'' JNull) (\<lambda>i.
     rbind (check (is_int i) (''setup group '' @ group_id @ '': integer order is required'')) (\<lambda>_.
     rbind (j_get g ''instructions'' JNull) (\<lambda>instructions.
     check (case instructions of JArr xs \<Rightarrow> xs \<noteq> [] | _ \<Rightarrow> False) (''setup group '' @ group_id @ '': instructions are required'')))))"

definition check_text_field :: "json \<Rightarrow> string \<Rightarrow> string \<Rightarrow> unit res" where
  "check_text_field test name field = rbind (j_get test field JNull) (\<lambda>v.
     check (case v of JStr s \<Rightarrow> py_strip s \<noteq> [] | _ \<Rightarrow> False) (name @ '': '' @ field @ '' must be a non-empty string''))"

text \<open>What a setup group says about serial instrumentation.\<close>

definition check_serial :: "json \<Rightarrow> string \<Rightarrow> string \<Rightarrow> unit res" where
  "check_serial setup_name name instruments =
     (let serial = contains ''uart'' instruments \<or> contains ''serial'' instruments in
      rbind (check (\<not> (setup_name = JStr ''power_cycle_no_uart'' \<and> serial))
        (name @ '': power-cycle tests cannot require UART/serial instrumentation'')) (\<lambda>_.
      check (\<not> (setup_name = JStr ''uart_live'' \<and> \<not> serial)) (name @ '': uart_live tests must declare UART/serial instrumentation'')))"

definition check_profiles :: "string \<Rightarrow> view list \<Rightarrow> unit res" where
  "check_profiles name profiles =
     check (profiles \<noteq> [] \<and> set profiles \<subseteq> text_view ` set PROFILES) (name @ '': invalid or empty profiles'')"

definition check_test :: "(rat \<Rightarrow> string) \<Rightarrow> view list \<Rightarrow> view list \<Rightarrow> view list \<Rightarrow> json \<Rightarrow> view list res" where
  "check_test fr known_requirements known_fixtures known_groups test =
     rbind (j_index test ''id'') (\<lambda>i. let name = json_text fr i in
     rbind (j_get test ''method'' JNull) (\<lambda>m.
     rbind (hash_view m) (\<lambda>mv.
     rbind (check (mv \<in> text_view ` set ALLOWED_METHODS) (name @ '': invalid method '' @ json_repr fr m)) (\<lambda>_.
     rbind (j_get test ''setup_group'' (if m = JStr ''automated'' then JStr ''software'' else JNull)) (\<lambda>g.
     rbind (hash_view g) (\<lambda>gv.
     rbind (check (gv \<in> set known_groups) (name @ '': invalid or missing setup_group '' @ json_repr fr g)) (\<lambda>_.
     rbind (rbind (j_get test ''instrumentation'' (JArr [])) j_join) (\<lambda>instruments.
     rbind (check_serial g name (py_lower instruments)) (\<lambda>_.
     rbind (view_set test ''profiles'') (\<lambda>profiles.
     rbind (check_profiles name profiles) (\<lambda>_.
     rbind (view_set test ''requirements'') (\<lambda>requirements.
     rbind (reject_unknown (filter (\<lambda>v. v \<notin> set known_requirements) requirements) (name @ '': unknown requirements '')) (\<lambda>_.
     rbind (view_set test ''fixtures'') (\<lambda>fixtures.
     rbind (reject_unknown (filter (\<lambda>v. v \<notin> set known_fixtures) fixtures) (name @ '': unknown fixtures '')) (\<lambda>_.
     rbind (j_get test ''human_intervention'' JNull) (\<lambda>human.
     rbind (check (m = JStr ''automated'' \<or> j_true human) (name @ '': manual work must be described explicitly'')) (\<lambda>_.
     rbind (all_of (map (check_text_field test name) [''title'', ''description'', ''rationale''])) (\<lambda>_.
     rbind (j_get test ''requirements'' JNull) (\<lambda>raw.
     rbind (check (j_true raw) (name @ '': at least one requirement must be mapped'')) (\<lambda>_.
     rbind (j_get test ''pass_policy'' JNull) (\<lambda>policy.
     rbind (check (case policy of JObj d \<Rightarrow> d \<noteq> [] | _ \<Rightarrow> False) (name @ '': pass_policy must explicitly define acceptance'')) (\<lambda>_.
     Inr requirements))))))))))))))))))))))"

definition is_active :: "json \<Rightarrow> bool res" where
  "is_active item = rbind (j_get item ''status'' (JStr ''active'')) (\<lambda>v. case v of
     JStr s \<Rightarrow> Inr (py_lower s = ''active'') | _ \<Rightarrow> attribute_error)"

definition validate_catalogs :: "(rat \<Rightarrow> string) \<Rightarrow> json \<Rightarrow> json \<Rightarrow> json \<Rightarrow> json \<Rightarrow> unit res" where
  "validate_catalogs fr requirements tests fixtures setup_groups = (case (requirements, tests, fixtures) of
     (JArr rs, JArr ts, JObj fx) \<Rightarrow>
       rbind (rmap (\<lambda>x. j_get x ''uid'' JNull) rs) (\<lambda>uids.
       rbind (rmap (\<lambda>x. j_get x ''id'' JNull) ts) (\<lambda>ids.
       rbind (unique_ids uids ''requirement UIDs must be present and unique'') (\<lambda>known_requirements.
       rbind (unique_ids ids ''test IDs must be present and unique'') (\<lambda>_.
       rbind (views_of setup_groups) (\<lambda>known_groups.
       rbind (check (text_view ''software'' \<in> set known_groups) ''setup_groups.yaml must define the software group'') (\<lambda>_.
       rbind (case setup_groups of JObj gs \<Rightarrow> Inr gs | _ \<Rightarrow> attribute_error) (\<lambda>gs.
       rbind (all_of (map check_group gs)) (\<lambda>_.
       rbind (rmap (check_test fr known_requirements (map (text_view \<circ> fst) fx) known_groups) ts) (\<lambda>mapped.
       rbind (rmap is_active rs) (\<lambda>active.
       let unmapped = filter (\<lambda>v. v \<notin> set (concat mapped)) (map snd (filter fst (zip active known_requirements))) in
       reject_unknown unmapped ''active requirements are unmapped: ''))))))))))
   | _ \<Rightarrow> catalog_error ''requirements/tests must be arrays and fixtures must be an object'')"

subsection \<open>Reading the entries\<close>

fun sort_keys :: "json \<Rightarrow> json" where
  "sort_keys (JArr xs) = JArr (map sort_keys xs)"
| "sort_keys (JObj d) = JObj (sort_key fst (map (\<lambda>(k, v). (k, sort_keys v)) d))"
| "sort_keys v = v"

definition text_at :: "json \<Rightarrow> string \<Rightarrow> string res" where
  "text_at v k = rbind (j_index v k) as_text"

definition texts_at :: "json \<Rightarrow> string \<Rightarrow> string list res" where
  "texts_at v k = rbind (j_get v k (JArr [])) (\<lambda>x. case x of JArr xs \<Rightarrow> rmap as_text xs | _ \<Rightarrow> type_error)"

definition maybe_text_at :: "json \<Rightarrow> string \<Rightarrow> string option res" where
  "maybe_text_at v k = rbind (j_get v k JNull) (\<lambda>x. case x of JNull \<Rightarrow> Inr None | JStr s \<Rightarrow> Inr (Some s) | _ \<Rightarrow> type_error)"

definition read_step :: "json \<Rightarrow> manual_step res" where
  "read_step v = rbind (text_at v ''id'') (\<lambda>i. rbind (text_at v ''instruction'') (\<lambda>t. rbind (maybe_text_at v ''prompt'') (\<lambda>p.
     Inr \<lparr>ms_id = i, ms_instruction = t, ms_prompt = p\<rparr>)))"

definition read_test :: "(rat \<Rightarrow> string) \<Rightarrow> json \<Rightarrow> test_def res" where
  "read_test fr v =
     rbind (text_at v ''id'') (\<lambda>i. rbind (text_at v ''title'') (\<lambda>title.
     rbind (text_at v ''subsystem'') (\<lambda>subsystem. rbind (text_at v ''method'') (\<lambda>m.
     rbind (maybe_text_at v ''setup_group'') (\<lambda>g. rbind (texts_at v ''profiles'') (\<lambda>profiles.
     rbind (texts_at v ''requirements'') (\<lambda>requirements. rbind (texts_at v ''jira_keys'') (\<lambda>jira.
     rbind (texts_at v ''fixtures'') (\<lambda>fixtures. rbind (texts_at v ''instrumentation'') (\<lambda>instruments.
     rbind (texts_at v ''limitations'') (\<lambda>limitations. rbind (maybe_text_at v ''human_intervention'') (\<lambda>human.
     rbind (maybe_text_at v ''assisted_workflow'') (\<lambda>workflow. rbind (j_get v ''requires_photo'' JNull) (\<lambda>photo.
     rbind (j_get v ''manual_steps'' (JArr [])) (\<lambda>steps.
     rbind (case steps of JArr xs \<Rightarrow> rmap read_step xs | _ \<Rightarrow> type_error) (\<lambda>steps.
     Inr \<lparr>td_id = i, td_title = title, td_subsystem = subsystem, td_method = m, td_setup_group = g, td_profiles = profiles,
       td_requirements = requirements, td_jira_keys = jira, td_fixtures = fixtures, td_instrumentation = instruments,
       td_limitations = limitations, td_human_intervention = human, td_workflow = workflow, td_requires_photo = j_true photo,
       td_manual_steps = steps, td_dump = json_dumps fr (sort_keys v)\<rparr>))))))))))))))))"

definition read_group :: "string \<times> json \<Rightarrow> (string \<times> setup_group) res" where
  "read_group entry = (case entry of (i, v) \<Rightarrow>
     rbind (j_get v ''order'' JNull) (\<lambda>n. rbind (case int_view n of Some k \<Rightarrow> Inr k | None \<Rightarrow> type_error) (\<lambda>k.
     rbind (text_at v ''title'') (\<lambda>title. rbind (j_get v ''pause'' JNull) (\<lambda>pause.
     rbind (j_get v ''uart_required'' JNull) (\<lambda>uart. rbind (texts_at v ''instructions'') (\<lambda>instructions.
     Inr (i, \<lparr>sg_order = k, sg_title = title, sg_pause = j_true pause, sg_uart_required = j_true uart,
       sg_instructions = instructions\<rparr>))))))))"

definition read_fixture :: "(rat \<Rightarrow> string) \<Rightarrow> string \<times> json \<Rightarrow> (string \<times> fixture_check \<times> bool) res" where
  "read_fixture fr entry = (case entry of (name, v) \<Rightarrow>
     rbind (j_get v ''preflight'' (JObj [(''type'', JStr ''always'')])) (\<lambda>c.
     rbind (j_get c ''type'' (JStr ''always'')) (\<lambda>kind.
     rbind (j_get v ''automated'' JNull) (\<lambda>automated.
     rbind (if kind = JStr ''always'' then rbind (maybe_text_at c ''detail'') (\<lambda>d. Inr (CheckAlways d))
        else if kind = JStr ''manual'' then rbind (maybe_text_at c ''prompt'') (\<lambda>p. Inr (CheckManual p))
        else if kind = JStr ''esp_idf'' then Inr CheckEspIdf
        else if kind = JStr ''tool'' then rbind (text_at c ''name'') (\<lambda>n. Inr (CheckTool n))
        else if kind = JStr ''path'' then rbind (text_at c ''path'') (\<lambda>p. Inr (CheckPath p))
        else if kind = JStr ''tcp'' then rbind (maybe_text_at c ''host'') (\<lambda>host. rbind (j_index c ''port'') (\<lambda>p.
          case int_view p of Some k \<Rightarrow> Inr (CheckTcp host k) | None \<Rightarrow> type_error))
        else if kind = JStr ''http'' then rbind (text_at c ''url'') (\<lambda>u. Inr (CheckHttp u))
        else Inr (CheckUnknown (json_text fr kind))) (\<lambda>check.
     Inr (name, check, j_true automated))))))"

end
