(* ===== verification/Catalog_Props.thy ===== *)
theory Catalog_Props
  imports Qualification_Catalog Qualification_Props
begin

section \<open>What an accepted catalog guarantees\<close>

text \<open>
  The checks of theory Qualification_Catalog are those a run relies on: every name a test uses is
  known, so that preparing the run looks nothing up in vain.
\<close>

lemma text_view_inject [simp]: "text_view a = text_view b \<longleftrightarrow> a = b"
  by (simp add: text_view_def)

lemma hash_view_text [simp]: "hash_view (JStr s) = Inr (text_view s)"
  by (simp add: hash_view_def text_view_def)

lemma as_text_Inr [simp]: "as_text v = Inr s \<longleftrightarrow> v = JStr s"
  by (auto simp: as_text_def split: json.splits)

lemma catalog_error_not [simp]: "catalog_error m \<noteq> Inr v" "check ok m = Inr u \<longleftrightarrow> ok"
  by (auto simp: catalog_error_def check_def)

lemma rmap_as_text: "rmap as_text xs = Inr ss \<longleftrightarrow> xs = map JStr ss"
  by (induction xs arbitrary: ss) (auto simp: rbind_Inr_iff)

lemma rmap_hash_texts [simp]: "rmap hash_view (map JStr ss) = Inr (map text_view ss)"
  by (induction ss) simp_all

lemma all_of_Inr: "all_of cs = Inr u \<longleftrightarrow> list_all (\<lambda>c. c = Inr ()) cs"
  by (induction cs) (auto simp: rbind_Inr_iff)

lemma rmap_Inr_list: "rmap f xs = Inr ys \<longleftrightarrow> list_all2 (\<lambda>x y. f x = Inr y) xs ys"
  by (induction xs arbitrary: ys) (auto simp: rbind_Inr_iff list_all2_Cons1)

lemma texts_at_view: "texts_at v k = Inr ss \<Longrightarrow> view_set v k = Inr (map text_view ss)"
  by (auto simp: texts_at_def view_set_def views_of_def j_iterate_def rbind_Inr_iff rmap_as_text split: json.splits)

lemma reject_unknown_Inr: "reject_unknown vs m = Inr u \<longleftrightarrow> vs = []"
  by (auto simp: reject_unknown_def rbind_Inr_iff)

lemma unique_ids_Inr: "unique_ids ids m = Inr vs \<longleftrightarrow> JNull \<notin> set ids \<and> rmap hash_view ids = Inr vs \<and> distinct vs"
  by (auto simp: unique_ids_def rbind_Inr_iff split: if_splits)

lemma object_keys: "views_of (JObj d) = Inr (map (text_view \<circ> fst) d)"
  unfolding views_of_def j_iterate_def using rmap_hash_texts [of "map fst d"] by (simp add: comp_def)

text \<open>A test that was accepted and read names only known fixtures and a known group.\<close>

lemma read_test_fields:
  assumes "read_test fr v = Inr t"
  shows "text_at v ''id'' = Inr (td_id t)" "text_at v ''method'' = Inr (td_method t)"
    "maybe_text_at v ''setup_group'' = Inr (td_setup_group t)" "texts_at v ''profiles'' = Inr (td_profiles t)"
    "texts_at v ''requirements'' = Inr (td_requirements t)" "texts_at v ''fixtures'' = Inr (td_fixtures t)"
  using assms by (auto simp: read_test_def rbind_Inr_iff)

lemma accepted_test:
  assumes ok: "check_test fr kr kf (map (text_view \<circ> fst) gs) v = Inr mapped" and read: "read_test fr v = Inr t"
    and software: "''software'' \<in> set (map fst gs)"
  shows "text_view ` set (td_fixtures t) \<subseteq> set kf" "mapped = map text_view (td_requirements t)" "set mapped \<subseteq> set kr"
    "setup_group_of t \<in> set (map fst gs)" "td_profiles t \<noteq> []" "set (td_profiles t) \<subseteq> set PROFILES" "td_requirements t \<noteq> []"
proof -
  note f = read_test_fields [OF read]
  have "\<exists>m g gv. j_get v ''method'' JNull = Inr m \<and> j_get v ''setup_group'' (if m = JStr ''automated'' then JStr ''software'' else JNull) = Inr g
      \<and> hash_view g = Inr gv \<and> gv \<in> set (map (text_view \<circ> fst) gs)"
    using ok unfolding check_test_def Let_def rbind_Inr_iff catalog_error_not by blast
  then obtain m g gv where g: "j_get v ''setup_group'' (if m = JStr ''automated'' then JStr ''software'' else JNull) = Inr g"
      "hash_view g = Inr gv" "gv \<in> text_view ` set (map fst gs)"
    unfolding list.set_map image_comp by blast
  have views: "\<exists>profiles requirements fixtures name raw u. view_set v ''profiles'' = Inr profiles \<and> check_profiles name profiles = Inr u
      \<and> view_set v ''requirements'' = Inr requirements \<and> filter (\<lambda>x. x \<notin> set kr) requirements = [] \<and> mapped = requirements
      \<and> view_set v ''fixtures'' = Inr fixtures \<and> filter (\<lambda>x. x \<notin> set kf) fixtures = []
      \<and> j_get v ''requirements'' JNull = Inr raw \<and> j_true raw"
    using ok unfolding check_test_def Let_def rbind_Inr_iff catalog_error_not reject_unknown_Inr sum.inject by blast
  then obtain name raw u where fx: "filter (\<lambda>x. x \<notin> set kf) (map text_view (td_fixtures t)) = []"
    and rq: "filter (\<lambda>x. x \<notin> set kr) (map text_view (td_requirements t)) = []" "mapped = map text_view (td_requirements t)"
    and pr: "check_profiles name (map text_view (td_profiles t)) = Inr u"
    and raw: "j_get v ''requirements'' JNull = Inr raw" "j_true raw"
    unfolding texts_at_view [OF f(4)] texts_at_view [OF f(5)] texts_at_view [OF f(6)] sum.inject by blast
  show "text_view ` set (td_fixtures t) \<subseteq> set kf" using fx by (auto simp: filter_empty_conv)
  show "mapped = map text_view (td_requirements t)" by (rule rq)
  show "set mapped \<subseteq> set kr" using rq by (auto simp: filter_empty_conv)
  show "td_profiles t \<noteq> []" "set (td_profiles t) \<subseteq> set PROFILES" using pr by (auto simp: check_profiles_def)
  show "td_requirements t \<noteq> []"
    using raw f(5) by (auto simp: texts_at_def j_get_def j_true_def rbind_Inr_iff rmap_as_text split: json.splits option.splits)
  show "setup_group_of t \<in> set (map fst gs)"
    using f(3) g software
    by (cases "td_setup_group t")
      (auto simp: maybe_text_at_def setup_group_of_def or_else_def j_get_def rbind_Inr_iff hash_view_def text_view_def
        split: json.splits option.splits if_splits)
qed

text \<open>The reading of all entries.\<close>

definition read_catalog ::
    "(rat \<Rightarrow> string) \<Rightarrow> json \<Rightarrow> json \<Rightarrow> json
     \<Rightarrow> (test_def list \<times> (string, fixture_check \<times> bool) dict \<times> (string, setup_group) dict) res" where
  "read_catalog fr tests fixtures setup_groups = (case (tests, fixtures, setup_groups) of
     (JArr ts, JObj fx, JObj gs) \<Rightarrow>
       rbind (rmap (read_test fr) ts) (\<lambda>ts. rbind (rmap (read_fixture fr) fx) (\<lambda>fx. rbind (rmap read_group gs) (\<lambda>gs. Inr (ts, fx, gs))))
   | _ \<Rightarrow> type_error)"

lemma rmap_keys:
  assumes "rmap f xs = Inr ys" "\<And>x y. f x = Inr y \<Longrightarrow> fst y = fst x"
  shows "map fst ys = map fst xs"
  using assms(1) by (induction xs arbitrary: ys) (auto simp: rbind_Inr_iff dest!: assms(2))

lemma read_keys: "read_fixture fr x = Inr y \<Longrightarrow> fst y = fst x" "read_group x = Inr z \<Longrightarrow> fst z = fst x"
  by (auto simp: read_fixture_def read_group_def rbind_Inr_iff split: prod.splits)

lemma accepted_ids:
  assumes "rmap (\<lambda>x. j_get x ''id'' JNull) ts = Inr ids" "rmap hash_view ids = Inr vs" "rmap (read_test fr) ts = Inr tests"
  shows "vs = map text_view (map td_id tests)"
  using assms
proof (induction ts arbitrary: ids vs tests)
  case (Cons x ts)
  then obtain i rest v vs' t tests' where *: "j_get x ''id'' JNull = Inr i" "rmap (\<lambda>x. j_get x ''id'' JNull) ts = Inr rest" "ids = i # rest"
    "hash_view i = Inr v" "rmap hash_view rest = Inr vs'" "vs = v # vs'"
    "read_test fr x = Inr t" "rmap (read_test fr) ts = Inr tests'" "tests = t # tests'"
    by (auto simp: rbind_Inr_iff)
  have "i = JStr (td_id t)"
    using read_test_fields(1) [OF *(7)] *(1) by (auto simp: text_at_def j_index_def j_get_def rbind_Inr_iff split: json.splits option.splits)
  then show ?case using Cons.IH [OF *(2,5,8)] * by simp
qed simp

lemma preflight_succeeds:
  assumes "set (concat (map td_fixtures ts)) \<subseteq> set (map fst catalog)"
  shows "\<exists>tables. run_preflight m ts catalog = Inr tables"
proof -
  have "rmap (\<lambda>name. case dict_get catalog name of None \<Rightarrow> raise KeyErrorC (py_repr name)
       | Some (c, automated) \<Rightarrow> Inr (name, check_fixture m name c automated)) (sort (remdups (concat (map td_fixtures ts))))
     = Inr (map (\<lambda>name. case dict_get catalog name of Some (c, automated) \<Rightarrow> (name, check_fixture m name c automated))
         (sort (remdups (concat (map td_fixtures ts)))))"
  proof (rule rmap_all_Inr)
    fix name assume "name \<in> set (sort (remdups (concat (map td_fixtures ts))))"
    then have "name \<in> set (map fst catalog)" using assms by auto
    then have "dict_get catalog name \<noteq> None" by (simp add: map_of_eq_None_iff)
    then show "(case dict_get catalog name of None \<Rightarrow> raise KeyErrorC (py_repr name)
       | Some (c, automated) \<Rightarrow> Inr (name, check_fixture m name c automated))
      = Inr (case dict_get catalog name of Some (c, automated) \<Rightarrow> (name, check_fixture m name c automated))"
      by (auto split: prod.split)
  qed
  then show ?thesis unfolding run_preflight_def by simp
qed

lemma order_succeeds:
  assumes "setup_group_of ` set ts \<subseteq> set (map fst groups)"
  shows "\<exists>ordered. ordered_by_setup ts groups = Inr ordered"
proof -
  have "rmap (\<lambda>t. rbind (group_order groups t) (\<lambda>i. Inr (i, t))) ts
     = Inr (map (\<lambda>t. (sg_order (the (dict_get groups (setup_group_of t))), t)) ts)"
  proof (rule rmap_all_Inr)
    fix t assume "t \<in> set ts"
    then have "dict_get groups (setup_group_of t) \<noteq> None" using assms by (auto simp: map_of_eq_None_iff)
    then show "rbind (group_order groups t) (\<lambda>i. Inr (i, t)) = Inr (sg_order (the (dict_get groups (setup_group_of t))), t)"
      by (auto simp: group_order_def)
  qed
  then show ?thesis unfolding ordered_by_setup_def by simp
qed


text \<open>A catalog of one test, one fixture and the software section.\<close>

definition sample_catalog_test :: json where
  "sample_catalog_test = JObj [(''id'', JStr ''SW-01''), (''title'', JStr ''T''), (''subsystem'', JStr ''backend''),
     (''method'', JStr ''automated''), (''profiles'', JArr [JStr ''software'']), (''fixtures'', JArr [JStr ''docker'']),
     (''description'', JStr ''D''), (''rationale'', JStr ''R''), (''requirements'', JArr [JStr ''R1'']),
     (''pass_policy'', JObj [(''type'', JStr ''exit_code'')])]"

definition sample_groups :: json where
  "sample_groups = JObj [(''software'', JObj [(''order'', JInt 10), (''title'', JStr ''S''), (''pause'', JBool False),
     (''instructions'', JArr [JStr ''none''])])]"

definition sample_fixtures :: json where
  "sample_fixtures = JObj [(''docker'', JObj [(''automated'', JBool True)])]"


end
