(* ===== verification/Guided_Session.thy ===== *)
theory Guided_Session
  imports Qualification_Catalog Platform
begin

section \<open>The qualification tool: a guided session\<close>

text \<open>
  \<open>verification/core/assisted.py\<close> and \<open>core/uart_capture.py\<close>: what the guided workflows share. The state
  of a session is the rig: the operator at the console, the readings of the clocks and the answers of
  the services that are still to come, in order, the requests sent, the records and files written, and
  the failures and metrics noted by the workflow that runs. Where a list of readings or answers ends,
  the session is interrupted. Sleeping and printing are left out; times are exact numbers of seconds.
\<close>

subsection \<open>The rig\<close>

datatype http_request = Request (rq_method: string) (rq_url: string) (rq_payload: "json option")

record uart_event =
  ue_wall_ns :: int
  ue_monotonic_ns :: int
  ue_line :: string

text \<open>
  \<open>rg_uart\<close> is what the next reads of the UART queue give, \<open>None\<close> where it stays empty until the
  timeout; \<open>rg_serial\<close> is what opening a port does, \<open>rg_check\<close> the exit code and the output of a check that is run,
  \<open>rg_first\<close> the element with which the iteration over a set of integers begins, \<open>rg_float\<close> the text of
  a float, \<open>rg_uart_dump\<close> the text of the events that the thread of the UART collected. The driver is the
  browser script of \<open>_display_latency\<close>: the text of the firmware source it looks at, the program and the
  script, the lines it prints with what they hold as JSON, its exit code and error output (nothing when it
  does not end in time), and the files it leaves.
\<close>

record driver =
  dr_source :: string
  dr_node :: "string option"
  dr_script :: string
  dr_script_exists :: bool
  dr_lines :: "(string \<times> json option) list"
  dr_end :: "(int \<times> string) option"
  dr_files :: "string list"

record rig =
  rg_console :: console
  rg_env :: "(string, string) dict"
  rg_monotonic :: "rat list"
  rg_counter :: "int list"
  rg_wall :: "int list"
  rg_stamps :: "string list"
  rg_replies :: "(string + json) list"
  rg_uart :: "uart_event option list"
  rg_serial :: "string \<Rightarrow> int \<Rightarrow> unit res"
  rg_python :: string
  rg_check :: "string \<Rightarrow> (int \<times> string \<times> string) res"
  rg_first :: "int list \<Rightarrow> int"
  rg_float :: "rat \<Rightarrow> string"
  rg_sent :: "http_request list"
  rg_records :: "json list"
  rg_uart_dump :: string
  rg_driver :: driver
  rg_files :: "(string, string) dict"
  rg_failures :: "string list"
  rg_metrics :: "(string, measured) dict"

definition newline :: string where "newline = [CHR 0x0A]"

definition interrupted :: "'a res" where "interrupted = raise (OtherErrorC ''KeyboardInterrupt'') []"

definition pop_from :: "('s \<Rightarrow> 'a list) \<Rightarrow> ('a list \<Rightarrow> 's \<Rightarrow> 's) \<Rightarrow> ('s, 'a) act" where
  "pop_from get put s = (case get s of [] \<Rightarrow> (interrupted, s) | x # xs \<Rightarrow> (Inr x, put xs s))"

definition monotonic_now :: "(rig, rat) act" where "monotonic_now = pop_from rg_monotonic (\<lambda>xs s. s\<lparr>rg_monotonic := xs\<rparr>)"
definition counter_ns :: "(rig, int) act" where "counter_ns = pop_from rg_counter (\<lambda>xs s. s\<lparr>rg_counter := xs\<rparr>)"
definition wall_ns :: "(rig, int) act" where "wall_ns = pop_from rg_wall (\<lambda>xs s. s\<lparr>rg_wall := xs\<rparr>)"
definition stamp :: "(rig, string) act" where "stamp = pop_from rg_stamps (\<lambda>xs s. s\<lparr>rg_stamps := xs\<rparr>)"
definition next_reply :: "(rig, string + json) act" where "next_reply = pop_from rg_replies (\<lambda>xs s. s\<lparr>rg_replies := xs\<rparr>)"
definition uart_get :: "(rig, uart_event option) act" where "uart_get = pop_from rg_uart (\<lambda>xs s. s\<lparr>rg_uart := xs\<rparr>)"

definition change :: "('s \<Rightarrow> 's) \<Rightarrow> ('s, unit) act" where "change f s = (Inr (), f s)"

definition on_console :: "(console, 'a) act \<Rightarrow> (rig, 'a) act" where
  "on_console m s = (case m (rg_console s) of (r, c) \<Rightarrow> (r, s\<lparr>rg_console := c\<rparr>))"

definition ask_choice :: "string list \<Rightarrow> (rig, string) act" where "ask_choice options = on_console (choice options)"
definition ask_text :: "(rig, string) act" where "ask_text = on_console read_stripped"

text \<open>\<open>failures.append(text)\<close>, \<open>metrics[key] = value\<close>, and a return that gives up with other lists.\<close>

definition failed :: "string \<Rightarrow> (rig, unit) act" where "failed text = change (\<lambda>s. s\<lparr>rg_failures := rg_failures s @ [text]\<rparr>)"

definition failed_when :: "bool \<Rightarrow> string \<Rightarrow> (rig, unit) act" where
  "failed_when b text = (if b then failed text else areturn ())"

definition blocked :: "string \<Rightarrow> (rig, unit) act" where "blocked text = failed (blocked_mark @ text)"

definition metric :: "string \<Rightarrow> measured \<Rightarrow> (rig, unit) act" where
  "metric key v = change (\<lambda>s. s\<lparr>rg_metrics := dict_set key v (rg_metrics s)\<rparr>)"

definition give_up :: "(string, measured) dict \<Rightarrow> string \<Rightarrow> (rig, unit) act" where
  "give_up metrics text = change (\<lambda>s. s\<lparr>rg_metrics := metrics, rg_failures := [text]\<rparr>)"

definition add_record :: "json \<Rightarrow> (rig, unit) act" where
  "add_record r = change (\<lambda>s. s\<lparr>rg_records := rg_records s @ [r]\<rparr>)"

definition write_text :: "string \<Rightarrow> string \<Rightarrow> (rig, unit) act" where
  "write_text name text = change (\<lambda>s. s\<lparr>rg_files := dict_set name text (rg_files s)\<rparr>)"

definition athen :: "('s, 'a) act \<Rightarrow> ('s, 'b) act \<Rightarrow> ('s, 'b) act" where "athen m n = abind m (\<lambda>_. n)"

primrec aeach :: "('a \<Rightarrow> ('s, unit) act) \<Rightarrow> 'a list \<Rightarrow> ('s, unit) act" where
  "aeach f [] = areturn ()"
| "aeach f (x # xs) = athen (f x) (aeach f xs)"

text \<open>
  A loop that goes on with \<open>Inl\<close> and ends with \<open>Inr\<close>. Every turn reads the monotonic clock, so that the
  readings to come bound its turns.
\<close>

primrec aloop :: "nat \<Rightarrow> ('b \<Rightarrow> (rig, 'b + 'c) act) \<Rightarrow> 'b \<Rightarrow> (rig, 'c) act" where
  "aloop 0 turn b = alift interrupted"
| "aloop (Suc n) turn b = abind (turn b) (\<lambda>r. case r of Inl b' \<Rightarrow> aloop n turn b' | Inr c \<Rightarrow> areturn c)"

definition poll :: "('b \<Rightarrow> (rig, 'b + 'c) act) \<Rightarrow> 'b \<Rightarrow> (rig, 'c) act" where
  "poll turn b s = aloop (Suc (length (rg_monotonic s))) turn b s"

subsection \<open>Values\<close>

definition j_or :: "json \<Rightarrow> json \<Rightarrow> json" where "j_or v w = (if j_true v then v else w)"

text \<open>\<open>int(v)\<close> and \<open>float(v)\<close>; a text that reads as infinite or NaN is left out.\<close>

definition j_int :: "json \<Rightarrow> int res" where
  "j_int v = (case v of JInt i \<Rightarrow> Inr i | JBool b \<Rightarrow> Inr (of_bool b) | JFloat x \<Rightarrow> Inr (if x < 0 then - \<lfloor>- x\<rfloor> else \<lfloor>x\<rfloor>)
     | JStr s \<Rightarrow> (case py_int s of Some i \<Rightarrow> Inr i | None \<Rightarrow> value_error (''invalid literal for int() with base 10: '' @ py_repr s))
     | _ \<Rightarrow> type_error)"

definition j_float :: "json \<Rightarrow> rat res" where
  "j_float v = (case v of
     JStr s \<Rightarrow> (case py_float s of Some (FNum x) \<Rightarrow> Inr x | _ \<Rightarrow> value_error (''could not convert string to float: '' @ py_repr s))
   | _ \<Rightarrow> j_num v)"

text \<open>\<open>any(p(x) for x in xs)\<close> stops at the first hit; \<open>sum(p(x) for x in xs)\<close> does not.\<close>

fun r_any :: "('a \<Rightarrow> bool res) \<Rightarrow> 'a list \<Rightarrow> bool res" where
  "r_any p [] = Inr False"
| "r_any p (x # xs) = rbind (p x) (\<lambda>b. if b then Inr True else r_any p xs)"

definition r_count :: "('a \<Rightarrow> bool res) \<Rightarrow> 'a list \<Rightarrow> nat res" where
  "r_count p xs = rbind (rmap p xs) (\<lambda>bs. Inr (length (filter id bs)))"

fun r_filter :: "('a \<Rightarrow> bool res) \<Rightarrow> 'a list \<Rightarrow> 'a list res" where
  "r_filter p [] = Inr []"
| "r_filter p (x # xs) = rbind (p x) (\<lambda>b. rbind (r_filter p xs) (\<lambda>ys. Inr (if b then x # ys else ys)))"

text \<open>The end \<open>xs[-n:]\<close> of a list, \<open>statistics.median\<close>, and rounding to \<open>n\<close> decimals, halves to even.\<close>

definition last_n :: "nat \<Rightarrow> 'a list \<Rightarrow> 'a list" where "last_n n xs = drop (length xs - n) xs"

definition median :: "rat list \<Rightarrow> rat option" where
  "median xs = (let s = sort xs; n = length xs in
     if n = 0 then None else if odd n then Some (s ! (n div 2)) else Some ((s ! (n div 2 - 1) + s ! (n div 2)) / 2))"

definition round_int :: "rat \<Rightarrow> int" where
  "round_int x = (let f = \<lfloor>x\<rfloor>; d = x - of_int f in
     if d < 1 / 2 then f else if d > 1 / 2 then f + 1 else if even f then f else f + 1)"

definition py_round :: "nat \<Rightarrow> rat \<Rightarrow> rat" where "py_round n x = of_int (round_int (x * 10 ^ n)) / 10 ^ n"

text \<open>\<open>f"{x:.nf}"\<close>.\<close>

definition show_fixed :: "nat \<Rightarrow> rat \<Rightarrow> string" where
  "show_fixed n x = (let i = round_int (x * 10 ^ n); a = nat \<bar>i\<bar>; frac = show_nat (a mod 10 ^ n) in
     (if x < 0 then ''-'' else []) @ show_nat (a div 10 ^ n)
     @ (if n = 0 then [] else ''.'' @ replicate (n - length frac) CHR ''0'' @ frac))"

definition m_number :: "rat \<Rightarrow> measured" where "m_number x = MFloat (FNum x)"
definition m_none :: measured where "m_none = MJson ''null''"
definition m_maybe :: "('a \<Rightarrow> measured) \<Rightarrow> 'a option \<Rightarrow> measured" where
  "m_maybe f v = (case v of None \<Rightarrow> m_none | Some x \<Rightarrow> f x)"

subsection \<open>Requests and snapshots\<close>

definition BACKEND :: string where "BACKEND = ''http://127.0.0.1:8000''"
definition FRONTEND :: string where "FRONTEND = ''http://127.0.0.1:5173''"

definition safe_request :: "string \<Rightarrow> string \<Rightarrow> json option \<Rightarrow> (rig, json) act" where
  "safe_request verb url payload =
     athen (change (\<lambda>s. s\<lparr>rg_sent := rg_sent s @ [Request verb url payload]\<rparr>))
     (abind next_reply (\<lambda>r. areturn (case r of
        Inr v \<Rightarrow> JObj [(''ok'', JBool True), (''value'', v)]
      | Inl e \<Rightarrow> JObj [(''ok'', JBool False), (''error'', JStr e)])))"

definition status_request :: "(rig, json) act" where
  "status_request = safe_request ''GET'' (BACKEND @ ''/api/v1/ble/status'') None"

definition put_display :: "int \<Rightarrow> json \<Rightarrow> (rig, json) act" where
  "put_display sensor enabled =
     safe_request ''PUT'' (BACKEND @ ''/api/v1/ble/displays/'' @ show_int sensor) (Some (JObj [(''enabled'', enabled)]))"

definition snapshot :: "string \<Rightarrow> (rig, json) act" where
  "snapshot label =
     abind counter_ns (\<lambda>ns. abind stamp (\<lambda>moment.
     abind status_request (\<lambda>ble_status.
     abind (safe_request ''GET'' (BACKEND @ ''/api/v1/ble/current'') None) (\<lambda>current.
     abind (safe_request ''GET'' (FRONTEND @ ''/api/samples?seconds=600'') None) (\<lambda>samples.
     areturn (JObj [(''label'', JStr label), (''monotonic_ns'', JInt ns), (''observed_at_utc'', JStr moment),
       (''ble_status'', ble_status), (''current'', current), (''samples'', samples)]))))))"

text \<open>A number of the environment, not below a bound; an infinite one is left out.\<close>

definition at_least :: "rat \<Rightarrow> pyfloat option \<Rightarrow> string \<Rightarrow> rat res" where
  "at_least low v text = (case v of
     None \<Rightarrow> value_error (''could not convert string to float: '' @ py_repr text)
   | Some (FNum x) \<Rightarrow> Inr (max low x) | Some FNan \<Rightarrow> Inr low | Some (FInf negative) \<Rightarrow> if negative then Inr low else interrupted)"

definition env_number :: "string \<Rightarrow> string \<Rightarrow> rat \<Rightarrow> (rig, rat) act" where
  "env_number name otherwise low s =
     (let text = or_else otherwise (dict_get (rg_env s) name) in (at_least low (py_float text) text, s))"

definition duration :: "rat \<Rightarrow> (rig, rat) act" where
  "duration seconds = abind (env_number ''VERIFICATION_CAPTURE_SCALE'' ''1'' (1 / 100)) (\<lambda>scale.
     areturn (max (5 / 100) (seconds * scale)))"

definition deadline_after :: "rat \<Rightarrow> (rig, rat) act" where
  "deadline_after seconds = abind monotonic_now (\<lambda>now. abind (duration seconds) (\<lambda>d. areturn (now + d)))"

definition capture_turn :: "string \<Rightarrow> rat \<Rightarrow> unit \<Rightarrow> (rig, unit + unit) act" where
  "capture_turn label deadline _ =
     abind (snapshot label) (\<lambda>r. athen (add_record r)
     (abind monotonic_now (\<lambda>now. areturn (if deadline - now \<le> 0 then Inr () else Inl ()))))"

definition capture :: "string \<Rightarrow> rat \<Rightarrow> (rig, unit) act" where
  "capture label seconds =
     abind (duration seconds) (\<lambda>actual. abind monotonic_now (\<lambda>now. poll (capture_turn label (now + actual)) ()))"

subsection \<open>Reading records\<close>

definition read_rows :: "json \<Rightarrow> json list res" where
  "read_rows record =
     rbind (j_get record ''samples'' (JObj [])) (\<lambda>samples.
     rbind (j_get samples ''ok'' JNull) (\<lambda>ok.
     if \<not> j_true ok then Inr [] else
     rbind (j_get samples ''value'' JNull) (\<lambda>v.
     rbind (j_get (j_or v (JObj [])) ''rows'' JNull) (\<lambda>rows.
     Inr (case j_or rows (JArr []) of JArr xs \<Rightarrow> xs | _ \<Rightarrow> [])))))"

definition has_label :: "string \<Rightarrow> json \<Rightarrow> bool res" where
  "has_label label record = rbind (j_index record ''label'') (\<lambda>l. Inr (l = JStr label))"

fun merge_rows :: "(rat \<Rightarrow> string) \<Rightarrow> json list \<Rightarrow> (string, json) dict \<Rightarrow> (string, json) dict res" where
  "merge_rows fr [] d = Inr d"
| "merge_rows fr (row # rows) d =
     rbind (j_get row ''observed_at_utc'' JNull) (\<lambda>moment. merge_rows fr rows (dict_set (json_text fr moment) row d))"

fun gather_rows :: "(rat \<Rightarrow> string) \<Rightarrow> string \<Rightarrow> json list \<Rightarrow> (string, json) dict \<Rightarrow> (string, json) dict res" where
  "gather_rows fr label [] d = Inr d"
| "gather_rows fr label (r # rs) d = rbind (has_label label r) (\<lambda>same.
     if \<not> same then gather_rows fr label rs d
     else rbind (read_rows r) (\<lambda>rows. rbind (merge_rows fr rows d) (gather_rows fr label rs)))"

definition phase_rows :: "(rat \<Rightarrow> string) \<Rightarrow> json list \<Rightarrow> string \<Rightarrow> json list res" where
  "phase_rows fr records label = rbind (gather_rows fr label records []) (\<lambda>d. Inr (map snd d))"

definition sensor_key :: "int \<Rightarrow> string \<Rightarrow> string" where "sensor_key sensor field = ''sensor'' @ show_int sensor @ field"

definition sensor_valid :: "int \<Rightarrow> json \<Rightarrow> bool res" where
  "sensor_valid sensor row =
     rbind (j_get row (sensor_key sensor ''_status'') JNull) (\<lambda>status.
     if status \<noteq> JStr ''VALID'' then Inr False
     else rbind (j_get row (sensor_key sensor ''_c'') JNull) (\<lambda>c. Inr (c \<noteq> JNull)))"

text \<open>\<open>float(row[f"sensor{n}_c"])\<close> of the rows with a valid reading.\<close>

definition valid_values :: "int \<Rightarrow> json list \<Rightarrow> rat list res" where
  "valid_values sensor rows = rbind (r_filter (sensor_valid sensor) rows)
     (rmap (\<lambda>row. rbind (j_index row (sensor_key sensor ''_c'')) j_float))"

definition connected_and_ready :: "json \<Rightarrow> bool res" where
  "connected_and_ready v = rbind (j_get v ''connected'' JNull) (\<lambda>c.
     if \<not> j_true c then Inr False else rbind (j_get v ''ready'' JNull) (\<lambda>r. Inr (j_true r)))"

definition box_connected :: "json \<Rightarrow> bool res" where
  "box_connected record =
     rbind (j_get record ''ble_status'' (JObj [])) (\<lambda>status.
     rbind (j_get status ''ok'' JNull) (\<lambda>ok.
     if \<not> j_true ok then Inr False
     else rbind (j_get status ''value'' (JObj [])) connected_and_ready))"

definition boot_id_of :: "json \<Rightarrow> int option res" where
  "boot_id_of record =
     rbind (j_get record ''current'' (JObj [])) (\<lambda>current.
     rbind (j_get current ''ok'' JNull) (\<lambda>ok.
     if \<not> j_true ok then Inr None else
     rbind (j_get current ''value'' JNull) (\<lambda>v. let v = j_or v (JObj []) in
     rbind (j_get v ''snapshot'' JNull) (\<lambda>s. Inr (case j_or s v of
        JObj d \<Rightarrow> (case dict_get d ''boot_id'' of Some raw \<Rightarrow> int_view raw | None \<Rightarrow> None)
      | _ \<Rightarrow> None)))))"

text \<open>\<open>{_boot_id(item) for item in records if item["label"] == label} - {None}\<close>.\<close>

definition boot_ids :: "json list \<Rightarrow> string \<Rightarrow> int list res" where
  "boot_ids records label = rbind (r_filter (has_label label) records) (\<lambda>rs.
     rbind (rmap boot_id_of rs) (\<lambda>ids. Inr (remdups (List.map_filter id ids))))"

definition just_one :: "int list \<Rightarrow> int option \<Rightarrow> bool" where
  "just_one ids v = (case v of None \<Rightarrow> False | Some i \<Rightarrow> ids \<noteq> [] \<and> list_all (\<lambda>j. j = i) ids)"

subsection \<open>The files of a capture\<close>

definition csv_cell :: "(rat \<Rightarrow> string) \<Rightarrow> json \<Rightarrow> string" where
  "csv_cell fr v = (let s = (if v = JNull then [] else json_text fr v) in
     if list_ex (\<lambda>c. c \<in> {CHR '','', CHR 0x22, CHR 0x0A, CHR 0x0D}) s then
       [CHR 0x22] @ concat (map (\<lambda>c. if c = CHR 0x22 then [c, c] else [c]) s) @ [CHR 0x22]
     else s)"

definition csv_line :: "(rat \<Rightarrow> string) \<Rightarrow> json list \<Rightarrow> string" where
  "csv_line fr cells = py_join '','' (map (csv_cell fr) cells) @ [CHR 0x0D, CHR 0x0A]"

definition row_cells :: "json \<Rightarrow> json list res" where
  "row_cells row = rmap (\<lambda>k. j_get row k JNull)
     [''observed_at_utc'', ''sensor1_c'', ''sensor1_status'', ''sensor2_c'', ''sensor2_status'']"

fun timeline_rows :: "(rat \<Rightarrow> string) \<Rightarrow> json res \<Rightarrow> json list \<Rightarrow> (json \<times> string) list
    \<Rightarrow> (json list list \<times> (json \<times> string) list) res" where
  "timeline_rows fr label [] seen = Inr ([], seen)"
| "timeline_rows fr label (row # rows) seen =
     rbind label (\<lambda>l. rbind (j_get row ''observed_at_utc'' JNull) (\<lambda>moment. let key = (l, json_text fr moment) in
     if key \<in> set seen then timeline_rows fr label rows seen
     else rbind (row_cells row) (\<lambda>cells. rbind (timeline_rows fr label rows (seen @ [key])) (\<lambda>(lines, seen').
       Inr ((l # cells) # lines, seen')))))"

fun timeline :: "(rat \<Rightarrow> string) \<Rightarrow> json list \<Rightarrow> (json \<times> string) list \<Rightarrow> json list list res" where
  "timeline fr [] seen = Inr []"
| "timeline fr (r # rs) seen =
     rbind (read_rows r) (\<lambda>rows.
     rbind (timeline_rows fr (j_index r ''label'') rows seen) (\<lambda>(lines, seen').
     rbind (timeline fr rs seen') (\<lambda>rest. Inr (lines @ rest))))"

definition timeline_header :: "json list" where
  "timeline_header = map JStr [''phase'', ''observed_at_utc'', ''sensor1_c'', ''sensor1_status'', ''sensor2_c'', ''sensor2_status'']"

definition write_capture :: "(rig, string list) act" where
  "write_capture s = (let fr = rg_float s in
     athen (write_text ''assisted-capture.jsonl'' (concat (map (\<lambda>r. json_dumps fr (sort_keys r) @ newline) (rg_records s))))
     (abind (alift (timeline fr (rg_records s) [])) (\<lambda>lines.
     athen (write_text ''sample-timeline.csv'' (concat (map (csv_line fr) (timeline_header # lines))))
     (areturn [''assisted-capture.jsonl'', ''sample-timeline.csv'']))) s)"

subsection \<open>The box before a test\<close>

definition ready_box :: "(rig, bool \<times> string) act" where
  "ready_box = abind status_request (\<lambda>status. abind (areads rg_float) (\<lambda>fr. alift (
     rbind (j_get status ''ok'' JNull) (\<lambda>ok.
     rbind (if j_true ok then rbind (j_index status ''value'') connected_and_ready else Inr False) (\<lambda>up.
     if up then Inr (True, ''BLE backend reports connected and ready'')
     else rbind (j_get status ''error'' JNull) (\<lambda>err. rbind (j_get status ''value'' (JObj [])) (\<lambda>v.
       Inr (False, if j_true err then json_text fr err else json_dumps fr (sort_keys v)))))))))"

definition require_turn :: "rat \<Rightarrow> string \<Rightarrow> (rig, string + (bool \<times> string)) act" where
  "require_turn deadline detail = abind monotonic_now (\<lambda>now.
     if now < deadline then abind ready_box (\<lambda>(up, detail). areturn (if up then Inr (True, detail) else Inl detail))
     else areturn (Inr (False, ''third box did not become connected and ready: '' @ detail)))"

definition require_box :: "(rig, bool \<times> string) act" where
  "require_box = abind ready_box (\<lambda>(up, detail).
     if up then areturn (True, detail) else
     abind (ask_choice [''Ready - check now'', ''Cannot connect - fail this test'']) (\<lambda>answer.
     if py_startswith answer ''Cannot'' then areturn (False, ''operator could not connect the third box'')
     else abind (deadline_after 30) (\<lambda>deadline. poll (require_turn deadline) detail)))"

text \<open>A check of the tool that is run beforehand: whether it passed, and its log.\<close>

definition precheck :: "string \<Rightarrow> string \<Rightarrow> (rig, bool \<times> string) act" where
  "precheck check_id log_name s =
     abind (alift (rg_check s check_id)) (\<lambda>(code, out, err).
     athen (write_text log_name (''COMMAND: ['' @ py_join '', '' (map py_repr [rg_python s, ''verification/checks/qualification_checks.py'', check_id])
       @ '']'' @ newline @ ''EXIT: '' @ show_int code @ newline @ newline @ out @ newline @ err))
     (areturn (code = 0, log_name))) s"

subsection \<open>Displays and the UART\<close>

definition display_entry :: "json \<Rightarrow> (int \<times> bool) res" where
  "display_entry v = rbind (rbind (j_index v ''sensor_id'') j_int) (\<lambda>i. rbind (j_index v ''enabled'') (\<lambda>e. Inr (i, j_true e)))"

definition display_states :: "(rig, (int, bool) dict) act" where
  "display_states = abind status_request (\<lambda>response. alift (
     rbind (j_get response ''ok'' JNull) (\<lambda>ok. if \<not> j_true ok then Inr [] else
     rbind (j_index response ''value'') (\<lambda>v. rbind (rbind (j_get v ''displays'' (JArr [])) j_iterate) (\<lambda>items.
     rbind (rmap display_entry items) (\<lambda>ps. Inr (fold (\<lambda>(k, b). dict_set k b) ps [])))))))"

definition elapsed_ms :: "int \<Rightarrow> int \<Rightarrow> rat" where "elapsed_ms start now = of_int (now - start) / 1000000"

definition display_turn :: "int \<Rightarrow> bool option \<Rightarrow> rat \<Rightarrow> bool option \<Rightarrow> (rig, bool option + (bool \<times> bool option)) act" where
  "display_turn sensor expected deadline observed = abind monotonic_now (\<lambda>now.
     if now < deadline then abind display_states (\<lambda>states. let observed = dict_get states sensor in
       areturn (if observed \<noteq> None \<and> (expected = None \<or> observed = expected) then Inr (True, observed) else Inl observed))
     else areturn (Inr (False, observed)))"

definition wait_display :: "int \<Rightarrow> bool option \<Rightarrow> (rig, bool \<times> rat \<times> bool option) act" where
  "wait_display sensor expected =
     abind counter_ns (\<lambda>start. abind (deadline_after 5) (\<lambda>deadline.
     abind (poll (display_turn sensor expected deadline) None) (\<lambda>(ok, observed).
     abind counter_ns (\<lambda>now. areturn (ok, elapsed_ms start now, observed)))))"

definition uart_from_environment :: "(rig, unit) act" where
  "uart_from_environment s = (alift (
     let port = py_strip (or_else [] (dict_get (rg_env s) ''THERMOMETER_UART_PORT'')) in
     if port = [] then raise RuntimeErrorC ''THERMOMETER_UART_PORT is not configured''
     else let baud = or_else ''115200'' (dict_get (rg_env s) ''THERMOMETER_UART_BAUD'') in
       case py_int baud of Some b \<Rightarrow> rg_serial s port b
       | None \<Rightarrow> value_error (''invalid literal for int() with base 10: '' @ py_repr baud))) s"

definition uart_matches :: "string list \<Rightarrow> int \<Rightarrow> uart_event \<Rightarrow> bool" where
  "uart_matches fragments after_wall e \<longleftrightarrow> after_wall \<le> ue_wall_ns e \<and> list_all (\<lambda>f. contains f (ue_line e)) fragments"

definition uart_turn :: "string list \<Rightarrow> int \<Rightarrow> rat \<Rightarrow> unit \<Rightarrow> (rig, unit + uart_event option) act" where
  "uart_turn fragments after_wall deadline _ = abind monotonic_now (\<lambda>now.
     if \<not> now < deadline then areturn (Inr None)
     else abind monotonic_now (\<lambda>_. abind uart_get (\<lambda>event. areturn (case event of
       None \<Rightarrow> Inr None
     | Some e \<Rightarrow> if uart_matches fragments after_wall e then Inr (Some e) else Inl ()))))"

definition uart_wait_for :: "string list \<Rightarrow> int \<Rightarrow> rat \<Rightarrow> (rig, uart_event option) act" where
  "uart_wait_for fragments after_wall timeout =
     abind monotonic_now (\<lambda>now. poll (uart_turn fragments after_wall (now + timeout)) ())"

end
