(* ===== verification/Guided_Workflows.thy ===== *)
theory Guided_Workflows
  imports Guided_Session
begin

section \<open>The qualification tool: guided workflows on the link, the sensors and the history\<close>

text \<open>
  \<open>_sensor_disconnect_workflow\<close>, \<open>_local_state_recovery_workflow\<close>, \<open>_thermal\<close>, \<open>_history\<close>,
  \<open>_power_cycle_recovery\<close> and \<open>_ble_gap_history\<close> of \<open>verification/core/assisted.py\<close>. The failures and
  metrics that a workflow of the code returns are those it notes in the rig.
\<close>

subsection \<open>Small pieces\<close>

definition sn :: "int \<Rightarrow> string" where "sn sensor = ''Sensor '' @ show_int sensor"
definition mkey :: "int \<Rightarrow> string \<Rightarrow> string" where "mkey sensor rest = ''sensor_'' @ show_int sensor @ ''_'' @ rest"
definition state_name :: "bool \<Rightarrow> string" where "state_name b = (if b then ''on'' else ''off'')"
definition state_upper :: "bool \<Rightarrow> string" where "state_upper b = py_upper (state_name b)"
definition other_sensor :: "int \<Rightarrow> int" where "other_sensor sensor = (if sensor = 1 then 2 else 1)"

text \<open>\<open>response.get("ok")\<close> and \<open>response.get("value") or {}\<close> of an answer of \<open>_safe\<close>, which is always an object.\<close>

definition is_ok :: "json \<Rightarrow> bool" where
  "is_ok v = (case v of JObj d \<Rightarrow> (case dict_get d ''ok'' of Some x \<Rightarrow> j_true x | None \<Rightarrow> False) | _ \<Rightarrow> False)"

definition value_or_empty :: "json \<Rightarrow> json" where
  "value_or_empty v = (case v of JObj d \<Rightarrow> (case dict_get d ''value'' of Some x \<Rightarrow> j_or x (JObj []) | None \<Rightarrow> JObj []) | _ \<Rightarrow> JObj [])"

definition error_of :: "string \<Rightarrow> json \<Rightarrow> string" where
  "error_of otherwise v = (case v of JObj d \<Rightarrow> (case dict_get d ''error'' of Some (JStr s) \<Rightarrow> s | _ \<Rightarrow> otherwise) | _ \<Rightarrow> otherwise)"

definition blocks :: "string \<Rightarrow> bool" where "blocks answer = py_startswith answer ''Cannot''"

definition with_records :: "(rig \<Rightarrow> 'a res) \<Rightarrow> (rig, 'a) act" where "with_records f s = alift (f s) s"

definition phase :: "string \<Rightarrow> (rig, json list) act" where
  "phase label = with_records (\<lambda>s. phase_rows (rg_float s) (rg_records s) label)"

definition phase_boots :: "string \<Rightarrow> (rig, int list) act" where
  "phase_boots label = with_records (\<lambda>s. boot_ids (rg_records s) label)"

definition link_lost :: "string \<Rightarrow> (rig, bool) act" where
  "link_lost label = with_records (\<lambda>s. rbind (r_filter (has_label label) (rg_records s))
     (r_any (\<lambda>r. rbind (box_connected r) (\<lambda>b. Inr (\<not> b)))))"

definition invalid_row :: "int \<Rightarrow> json \<Rightarrow> bool res" where
  "invalid_row sensor row = rbind (sensor_valid sensor row) (\<lambda>b. Inr (\<not> b))"

subsection \<open>Unplugging and plugging a sensor\<close>

definition judge_unplugged :: "int \<Rightarrow> bool \<Rightarrow> bool \<Rightarrow> bool \<Rightarrow> bool \<Rightarrow> bool \<Rightarrow> (rig, unit) act" where
  "judge_unplugged sensor desired saw_fault continued preserved same =
     (let other = other_sensor sensor; st = state_name desired in
      athen (metric (mkey sensor (st @ ''_fault_observed'')) (MBool saw_fault))
      (athen (metric (mkey other (''continued_during_sensor_'' @ show_int sensor @ ''_'' @ st @ ''_fault'')) (MBool continued))
      (athen (metric (mkey sensor (st @ ''_state_preserved_during_fault'')) (MBool preserved))
      (athen (metric (mkey sensor (st @ ''_boot_id_unchanged'')) (MBool same))
      (athen (failed_when (\<not> saw_fault) (sn sensor @ '' did not produce a non-valid database state''))
      (athen (failed_when (\<not> continued) (sn other @ '' did not continue with valid persisted samples''))
      (athen (failed_when (\<not> preserved) (sn sensor @ '' did not preserve '' @ state_upper desired @ '' while disconnected''))
      (failed_when (\<not> same) (''ESP32 boot identity changed or was unavailable during '' @ sn sensor @ '' hot-plug'')))))))))"

definition check_unplugged :: "int \<Rightarrow> bool \<Rightarrow> int option \<Rightarrow> (rig, unit) act" where
  "check_unplugged sensor desired baseline =
     (let label = mkey sensor (state_name desired @ ''_disconnected'') in
      athen (capture label 10)
      (abind (phase label) (\<lambda>down. abind (phase_boots label) (\<lambda>ids.
      abind (alift (r_any (invalid_row sensor) down)) (\<lambda>saw_fault.
      abind (alift (r_count (sensor_valid (other_sensor sensor)) down)) (\<lambda>n.
      abind display_states (\<lambda>states.
      judge_unplugged sensor desired saw_fault (3 \<le> n) (dict_get states sensor = Some desired) (just_one ids baseline))))))))"

definition check_replugged :: "int \<Rightarrow> bool \<Rightarrow> (rig, unit) act" where
  "check_replugged sensor desired =
     (let label = mkey sensor (state_name desired @ ''_reconnected''); st = state_name desired in
      athen (capture label 15)
      (abind (phase label) (\<lambda>up.
      abind (alift (r_any (sensor_valid sensor) (last_n 8 up))) (\<lambda>recovered.
      abind display_states (\<lambda>states. let restored = (dict_get states sensor = Some desired) in
      athen (metric (mkey sensor (st @ ''_automatic_recovery'')) (MBool recovered))
      (athen (metric (mkey sensor (st @ ''_state_restored'')) (MBool restored))
      (athen (failed_when (\<not> recovered) (sn sensor @ '' did not recover automatically''))
      (failed_when (\<not> restored) (sn sensor @ '' did not restore pre-disconnection '' @ state_upper desired @ '' state'')))))))))"

definition disconnect_case :: "int option \<Rightarrow> int \<Rightarrow> bool option \<Rightarrow> (rig, unit) act" where
  "disconnect_case baseline sensor wanted = (case wanted of
     None \<Rightarrow> failed (sn sensor @ '' pre-disconnection display state was unavailable'')
   | Some desired \<Rightarrow>
      abind (put_display sensor (JBool desired)) (\<lambda>response.
      abind (wait_display sensor (Some desired)) (\<lambda>(state_ready, _, _).
      if \<not> is_ok response \<or> \<not> state_ready then
        failed (sn sensor @ '' could not be prepared '' @ state_upper desired @ '' before disconnect'')
      else abind (ask_choice [''Disconnected'', ''Cannot perform - block this test'']) (\<lambda>answer.
      if blocks answer then blocked (sn sensor @ '' '' @ state_name desired @ '' disconnect action was not performed'')
      else athen (check_unplugged sensor desired baseline)
      (abind (ask_choice [''Reconnected'', ''Cannot perform - block this test'']) (\<lambda>answer.
      if blocks answer then blocked (sn sensor @ '' '' @ state_name desired @ '' reconnect action was not performed'')
      else check_replugged sensor desired))))))"

definition disconnect_sensor :: "string \<Rightarrow> int option \<Rightarrow> int \<Rightarrow> (rig, unit) act" where
  "disconnect_sensor test_id baseline sensor =
     abind display_states (\<lambda>states.
     aeach (disconnect_case baseline sensor)
       (if test_id = ''SYS-02'' then [Some True, Some False] else [dict_get states sensor]))"

definition baseline_boot :: "(rig, int option) act" where
  "baseline_boot = abind (phase_boots ''baseline'') (\<lambda>ids. areads (\<lambda>s. if ids = [] then None else Some (rg_first s ids)))"

definition sensor_disconnect_workflow :: "string \<Rightarrow> (rig, unit) act" where
  "sensor_disconnect_workflow test_id =
     athen (capture ''baseline'' 6)
     (abind baseline_boot (\<lambda>baseline.
     athen (metric ''baseline_boot_id'' (m_maybe MInt baseline))
     (aeach (disconnect_sensor test_id baseline) [1, 2])))"

subsection \<open>Recovery without the PC\<close>

definition reconnect_turn :: "string \<Rightarrow> rat \<Rightarrow> unit \<Rightarrow> (rig, unit + bool) act" where
  "reconnect_turn label deadline _ = abind monotonic_now (\<lambda>now.
     if \<not> now < deadline then areturn (Inr False)
     else abind (snapshot label) (\<lambda>item. athen (add_record item)
       (abind (alift (box_connected item)) (\<lambda>up. areturn (if up then Inr True else Inl ())))))"

definition reconnect_pc :: "int \<Rightarrow> bool \<Rightarrow> (rig, unit) act" where
  "reconnect_pc sensor desired =
     (let st = state_name desired in
      abind (safe_request ''POST'' (BACKEND @ ''/api/v1/ble/reconnect'') None) (\<lambda>reconnect.
      abind (deadline_after 10) (\<lambda>deadline.
      abind (if is_ok reconnect then poll (reconnect_turn (mkey sensor (st @ ''_pc_reconnect'')) deadline) () else areturn False) (\<lambda>up.
      abind (if up then abind display_states (\<lambda>states. areturn (dict_get states sensor = Some desired)) else areturn False) (\<lambda>confirmed.
      athen (metric (mkey sensor (st @ ''_backend_reconfirmed'')) (MBool confirmed))
      (if \<not> up then blocked (''backend fixture did not reconnect after '' @ sn sensor @ '' '' @ st @ '' local test'')
       else failed_when (\<not> confirmed) (''backend-reported state did not match restored '' @ state_upper desired @ '' state for '' @ sn sensor)))))))"

definition inspect_restored :: "int \<Rightarrow> bool \<Rightarrow> (rig, unit) act" where
  "inspect_restored sensor desired =
     (let st = state_name desired in
      abind (ask_choice [''Yes - restored '' @ state_upper desired, ''No - wrong state'', ''Could not inspect - block this test'']) (\<lambda>restored.
      let local_ok = py_startswith restored ''Yes'' in
      athen (metric (mkey sensor (st @ ''_local_restore_without_pc'')) (MBool local_ok))
      (if py_startswith restored ''Could not'' then blocked (sn sensor @ '' '' @ st @ '' restored LCD state could not be inspected'')
       else failed_when (\<not> local_ok) (sn sensor @ '' did not restore '' @ state_upper desired @ '' without a PC BLE connection''))))"

definition py_endswith :: "string \<Rightarrow> string \<Rightarrow> bool" where
  "py_endswith s p \<longleftrightarrow> length p \<le> length s \<and> drop (length s - length p) s = p"

definition unplug_locally :: "int \<Rightarrow> bool \<Rightarrow> (rig, unit) act" where
  "unplug_locally sensor desired =
     (let st = state_name desired in
      abind (ask_choice [''Done; unaffected sensor continued'', ''Done; unaffected sensor stopped'', ''Cannot perform - block this test'']) (\<lambda>answer.
      athen
       (if blocks answer then
          athen (blocked (sn sensor @ '' '' @ st @ '' PC-independent recovery action was not performed''))
            (metric (mkey sensor (st @ ''_local_restore_without_pc'')) m_none)
        else failed_when (py_endswith answer ''stopped'')
          (sn (other_sensor sensor) @ '' did not continue locally while '' @ sn sensor @ '' was unplugged''))
       (if \<not> blocks answer then inspect_restored sensor desired else areturn ())))"

definition local_case :: "int \<Rightarrow> bool \<Rightarrow> (rig, unit) act" where
  "local_case sensor desired =
     (let st = state_name desired in
      abind (put_display sensor (JBool desired)) (\<lambda>prepared.
      abind (wait_display sensor (Some desired)) (\<lambda>(state_ready, _, _).
      if \<not> is_ok prepared then blocked (''backend fixture could not prepare '' @ sn sensor @ '' '' @ state_upper desired)
      else if \<not> state_ready then failed (sn sensor @ '' did not enter requested '' @ state_upper desired @ '' state'')
      else abind (safe_request ''POST'' (BACKEND @ ''/api/v1/ble/disconnect'') None) (\<lambda>disconnected.
      if \<not> is_ok disconnected then failed (''could not disconnect the PC BLE link for '' @ sn sensor @ '' '' @ st @ '' case'')
      else athen (unplug_locally sensor desired) (reconnect_pc sensor desired)))))"

definition local_state_recovery_workflow :: "(rig, unit) act" where
  "local_state_recovery_workflow = aeach (\<lambda>sensor. aeach (local_case sensor) [True, False]) [1, 2]"

subsection \<open>Temperatures\<close>

fun float_from :: "string list \<Rightarrow> pyfloat res \<times> string list" where
  "float_from [] = (end_of_input, [])"
| "float_from (l # ls) = (case py_float (py_strip l) of Some x \<Rightarrow> (Inr x, ls) | None \<Rightarrow> float_from ls)"

definition ask_float :: "(rig, pyfloat) act" where
  "ask_float = on_console (\<lambda>c. let (r, ls) = float_from (con_lines c) in (r, c\<lparr>con_lines := ls\<rparr>))"

text \<open>\<open>abs(value - reference) > 4\<close>; no comparison holds of NaN.\<close>

definition far_from :: "pyfloat \<Rightarrow> rat \<Rightarrow> bool" where
  "far_from reference v = (case reference of FNum r \<Rightarrow> \<bar>v - r\<bar> > 4 | FInf _ \<Rightarrow> True | FNan \<Rightarrow> False)"

definition room_check :: "pyfloat \<Rightarrow> json list \<Rightarrow> int \<Rightarrow> (rig, unit) act" where
  "room_check reference rows sensor =
     abind (alift (valid_values sensor rows)) (\<lambda>values.
     athen (metric (mkey sensor ''room_c'') (m_maybe m_number (median values)))
     (failed_when (case median values of None \<Rightarrow> True | Some m \<Rightarrow> far_from reference m)
       (sn sensor @ '' room median is not within 4 C of reference'')))"

definition ice_check :: "json list \<Rightarrow> int \<Rightarrow> (rig, unit) act" where
  "ice_check rows sensor =
     abind (alift (valid_values sensor rows)) (\<lambda>values.
     athen (metric (mkey sensor ''ice_c'') (m_maybe m_number (median values)))
     (failed_when (case median values of None \<Rightarrow> True | Some m \<Rightarrow> \<not> (- 2 \<le> m \<and> m \<le> 2))
       (sn sensor @ '' ice-water median is outside -2..2 C'')))"

text \<open>The temperatures in the current snapshot of a record, the last entry of a sensor counting.\<close>

definition sensor_entries :: "json \<Rightarrow> (view \<times> json) list res" where
  "sensor_entries snap =
     rbind (rbind (j_get snap ''sensors'' (JArr [])) j_iterate) (\<lambda>items.
     rbind (rmap (\<lambda>item. rbind (rbind (j_get item ''sensor_id'' JNull) hash_view) (\<lambda>k. Inr (k, item))) items) (\<lambda>ps.
     Inr (fold (\<lambda>(k, item). dict_set k item) ps [])))"

definition temperature_in :: "(view \<times> json) list \<Rightarrow> int \<Rightarrow> json res" where
  "temperature_in entries sensor =
     j_get (case dict_get entries (Inl (of_int sensor)) of Some item \<Rightarrow> item | None \<Rightarrow> JObj []) ''temperature_c'' JNull"

definition current_snapshot_of :: "json \<Rightarrow> json res" where
  "current_snapshot_of record =
     rbind (j_get record ''current'' (JObj [])) (\<lambda>current. rbind (j_get current ''value'' JNull) (\<lambda>v.
     rbind (j_get (j_or v (JObj [])) ''snapshot'' JNull) (\<lambda>s. Inr (j_or s (JObj [])))))"

definition push_value :: "json \<Rightarrow> rat list \<Rightarrow> rat list res" where
  "push_value v window = (if v = JNull then Inr window else rbind (j_float v) (\<lambda>x. Inr (last_n 10 (window @ [x]))))"

definition plateau :: "rat list \<Rightarrow> bool" where
  "plateau window \<longleftrightarrow> length window = 10 \<and> Max (set window) - Min (set window) \<le> 1 / 2"

definition ice_turn :: "rat \<Rightarrow> rat list \<times> rat list \<Rightarrow> (rig, (rat list \<times> rat list) + bool) act" where
  "ice_turn deadline windows = abind monotonic_now (\<lambda>now.
     if \<not> now < deadline then areturn (Inr False)
     else abind (snapshot ''ice_water'') (\<lambda>record. athen (add_record record)
       (abind (alift (rbind (current_snapshot_of record) sensor_entries)) (\<lambda>entries.
       abind (alift (rbind (temperature_in entries 1) (\<lambda>v. push_value v (fst windows)))) (\<lambda>w1.
       abind (alift (rbind (temperature_in entries 2) (\<lambda>v. push_value v (snd windows)))) (\<lambda>w2.
       if plateau w1 \<and> plateau w2 then areturn (Inr True)
       else abind (duration 1) (\<lambda>_. abind monotonic_now (\<lambda>_. areturn (Inl (w1, w2))))))))))"

text \<open>\<open>max(values) - values[0]\<close> of at least two values.\<close>

definition rise :: "rat list \<Rightarrow> rat" where
  "rise values = (if 2 \<le> length values then Max (set values) - hd values else 0)"

definition hand_check :: "json list \<Rightarrow> int \<Rightarrow> (rig, unit) act" where
  "hand_check rows sensor =
     abind (alift (valid_values sensor rows)) (\<lambda>values.
     athen (metric (mkey sensor ''hand_rise_c'') (m_number (rise values)))
     (failed_when (rise values \<le> 1 / 2) (sn sensor @ '' hand-heating rise was not observable'')))"

definition hand_rise_of :: "int \<Rightarrow> rig \<Rightarrow> rat" where
  "hand_rise_of sensor s = (case dict_get (rg_metrics s) (mkey sensor ''hand_rise_c'') of
     Some (MFloat (FNum x)) \<Rightarrow> x | _ \<Rightarrow> 0)"

definition iron_check :: "json list \<Rightarrow> int \<Rightarrow> (rig, unit) act" where
  "iron_check rows sensor =
     abind (alift (valid_values sensor rows)) (\<lambda>values.
     athen (metric (mkey sensor ''iron_rise_c'') (m_number (rise values)))
     (abind (areads (hand_rise_of sensor)) (\<lambda>hand. let faster = rise values > max (1 / 2) (hand * (1 / 2)) in
     athen (metric (mkey sensor ''iron_response_faster'') (MBool faster))
     (failed_when (\<not> faster) (sn sensor @ '' iron response was not faster than hand response'')))))"

definition iron_case :: "int \<Rightarrow> (rig, unit) act" where
  "iron_case sensor =
     (let label = mkey sensor ''iron_heat'' in
      abind (ask_choice [''Ready - start 12 second capture'', ''Cannot perform - fail'']) (\<lambda>answer.
      if blocks answer then blocked (sn sensor @ '' soldering-iron action was not performed'')
      else athen (capture label 12) (abind (phase label) (\<lambda>rows. iron_check rows sensor))))"

definition thermal_heating :: "(rig, unit) act" where
  "thermal_heating =
     abind (ask_choice [''Holding - start 25 second capture'', ''Cannot perform - fail'']) (\<lambda>answer.
     if blocks answer then blocked ''hand-heating action was not performed''
     else athen (capture ''hand_heat'' 25)
       (athen (abind (phase ''hand_heat'') (\<lambda>rows. aeach (hand_check rows) [1, 2]))
       (aeach iron_case [1, 2])))"

definition thermal_ice :: "(rig, unit) act" where
  "thermal_ice =
     abind (ask_choice [''Immersed - monitor automatically until stable'', ''Cannot perform - fail'']) (\<lambda>answer.
     if blocks answer then blocked ''ice-water immersion was not performed''
     else abind monotonic_now (\<lambda>started. abind (duration 300) (\<lambda>d.
       abind (poll (ice_turn (started + d)) ([], [])) (\<lambda>stable.
       abind monotonic_now (\<lambda>now.
       athen (metric ''ice_water_stabilization_seconds'' (m_number (py_round 1 (now - started))))
       (athen (metric ''ice_water_stable_plateau'' (MBool stable))
       (athen (if \<not> stable then blocked ''ice-water readings did not reach a stable plateau within 300 seconds'' else areturn ())
       (athen (abind (phase ''ice_water'') (\<lambda>rows. aeach (ice_check (last_n 12 rows)) [1, 2]))
       thermal_heating))))))))"

definition thermal :: "(rig, unit) act" where
  "thermal =
     abind ask_float (\<lambda>reference.
     abind (ask_choice [''Stable - start 20 second capture'', ''Cannot perform - fail'']) (\<lambda>answer.
     if blocks answer then blocked ''room-temperature stabilization was not performed''
     else athen (capture ''room'' 20)
       (athen (abind (phase ''room'') (\<lambda>rows. aeach (room_check reference (last_n 10 rows)) [1, 2]))
       thermal_ice)))"

subsection \<open>Power cycle\<close>

definition cycle_turn :: "rat \<Rightarrow> unit \<Rightarrow> (rig, unit + int option option) act" where
  "cycle_turn deadline _ = abind monotonic_now (\<lambda>now.
     if \<not> now < deadline then areturn (Inr None)
     else abind (snapshot ''automatic_reconnect'') (\<lambda>item. athen (add_record item)
       (abind (alift (rbind (box_connected item) (\<lambda>up. if up then rbind (read_rows item) (\<lambda>rows. Inr (rows \<noteq> [])) else Inr False))) (\<lambda>recovered.
       if recovered then abind (alift (boot_id_of item)) (\<lambda>after. areturn (Inr (Some after))) else areturn (Inl ())))))"

definition boot_changed :: "int option \<Rightarrow> int option \<Rightarrow> bool" where
  "boot_changed before after \<longleftrightarrow> before \<noteq> None \<and> after \<noteq> None \<and> before \<noteq> after"

definition cycle_metrics :: "bool \<Rightarrow> int option option \<Rightarrow> rat \<Rightarrow> int option \<Rightarrow> (string, measured) dict" where
  "cycle_metrics saw_loss recovered elapsed before =
     [(''link_loss_observed'', MBool saw_loss), (''automatic_reconnect'', MBool (recovered \<noteq> None)),
      (''reconnect_ms'', m_number (py_round 1 elapsed)), (''boot_id_before_power_off'', m_maybe MInt before),
      (''boot_id_after_power_on'', m_maybe MInt (or_else None recovered)),
      (''physical_restart_confirmed'', MBool (case recovered of None \<Rightarrow> False | Some after \<Rightarrow> boot_changed before after))]"

definition power_on :: "bool \<Rightarrow> int option \<Rightarrow> (rig, unit) act" where
  "power_on saw_loss before =
     abind counter_ns (\<lambda>start. abind (deadline_after 10) (\<lambda>deadline.
     abind (poll (cycle_turn deadline) ()) (\<lambda>recovered.
     abind counter_ns (\<lambda>now.
     athen (failed_when (\<not> saw_loss) ''backend did not expose link/power loss'')
     (athen (case recovered of
        None \<Rightarrow> failed ''backend/database did not recover automatically within 10 seconds''
      | Some after \<Rightarrow> failed_when (\<not> boot_changed before after)
          ''ESP32 boot identity did not change across OFF/ON; check for USB/UART back-power'')
     (change (\<lambda>s. s\<lparr>rg_metrics := cycle_metrics saw_loss recovered (elapsed_ms start now) before\<rparr>)))))))"

definition power_cycle_recovery :: "(rig, unit) act" where
  "power_cycle_recovery =
     abind (snapshot ''before_box_power_off'') (\<lambda>before. athen (add_record before)
     (abind (alift (boot_id_of before)) (\<lambda>boot_id_before.
     abind (ask_choice [''Powered off'', ''Cannot perform - fail'']) (\<lambda>answer.
     if blocks answer then give_up [] (blocked_mark @ ''third-box power-off action was not performed'')
     else athen (capture ''box_powered_off'' 8)
       (abind (link_lost ''box_powered_off'') (\<lambda>saw_loss.
       abind (ask_choice [''Powered on - start automatic reconnect timer'', ''Cannot perform - fail'']) (\<lambda>answer.
       if blocks answer then give_up [(''link_loss_observed'', MBool saw_loss)] (blocked_mark @ ''third-box power-on action was not performed'')
       else power_on saw_loss boot_id_before)))))))"

end
