(* ===== verification/Guided_History.thy ===== *)
theory Guided_History
  imports Guided_Workflows
begin

section \<open>The qualification tool: guided workflows on the history\<close>

text \<open>
  \<open>_history\<close> and \<open>_ble_gap_history\<close> of \<open>verification/core/assisted.py\<close>: the synchronization that the
  operator or a gap of the radio starts, followed in the status of the backend.
\<close>

subsection \<open>What the backend reports of a synchronization\<close>

text \<open>\<open>str(v or "")\<close>, \<open>str(v.get("state", ...)).upper()\<close> and \<open>list(v.get(key) or [])\<close> of \<open>(sync or {})\<close>.\<close>

definition text_or_empty :: "(rat \<Rightarrow> string) \<Rightarrow> json \<Rightarrow> string" where
  "text_or_empty fr v = json_text fr (j_or v (JStr []))"

definition sync_get :: "json \<Rightarrow> string \<Rightarrow> json \<Rightarrow> json res" where
  "sync_get sync key otherwise = j_get (j_or sync (JObj [])) key otherwise"

definition sync_complete :: "(rat \<Rightarrow> string) \<Rightarrow> json \<Rightarrow> bool res" where
  "sync_complete fr sync = rbind (sync_get sync ''state'' (JStr [])) (\<lambda>v. Inr (py_upper (json_text fr v) = ''COMPLETE''))"

definition sync_counts :: "json \<Rightarrow> string \<Rightarrow> json list res" where
  "sync_counts sync key = rbind (sync_get sync key JNull) (\<lambda>v. j_iterate (j_or v (JArr [])))"

text \<open>\<open>len(counts) >= 2 and min(counts[:2]) >= 300\<close>.\<close>

definition full_counts :: "json list \<Rightarrow> bool res" where
  "full_counts counts = (case counts of
     a # b # _ \<Rightarrow> rbind (j_num a) (\<lambda>x. rbind (j_num b) (\<lambda>y. Inr (300 \<le> min x y))) | _ \<Rightarrow> Inr False)"

definition counts_text :: "(rat \<Rightarrow> string) \<Rightarrow> json list \<Rightarrow> string" where
  "counts_text fr counts = (if counts = [] then ''unknown'' else json_repr fr (JArr counts))"

definition history_sync_of :: "json \<Rightarrow> json option res" where
  "history_sync_of record =
     rbind (j_index record ''ble_status'') (\<lambda>status. rbind (j_get status ''ok'' JNull) (\<lambda>ok.
     if \<not> j_true ok then Inr None
     else rbind (j_index status ''value'') (\<lambda>v. rbind (j_get v ''history_sync'' JNull) (\<lambda>c. Inr (Some c)))))"

definition operation_id_of :: "(rat \<Rightarrow> string) \<Rightarrow> json \<Rightarrow> string res" where
  "operation_id_of fr v = rbind (sync_get v ''operation_id'' JNull) (\<lambda>i. Inr (text_or_empty fr i))"

subsection \<open>A synchronization on request\<close>

definition has_record :: "int \<Rightarrow> json \<Rightarrow> bool res" where
  "has_record sensor row =
     rbind (j_get row (sensor_key sensor ''_status'') JNull) (\<lambda>status. rbind (hash_view status) (\<lambda>_.
     Inr (status \<noteq> JNull \<and> status \<noteq> JStr ''MISSING'' \<and> status \<noteq> JStr ''NOT_RETRIEVED'')))"

record history_progress =
  hp_rows :: nat
  hp_first :: nat
  hp_second :: nat
  hp_sync :: json

text \<open>\<open>{**(result or {}), "state": "COMPLETE", "operation_id": ..., "source": "manual"}\<close>.\<close>

definition finished_sync :: "string \<Rightarrow> json \<Rightarrow> json res" where
  "finished_sync operation_id outcome = (case j_or outcome (JObj []) of
     JObj d \<Rightarrow> Inr (JObj (dict_set ''source'' (JStr ''manual'') (dict_set ''operation_id'' (JStr operation_id)
       (dict_set ''state'' (JStr ''COMPLETE'') d))))
   | _ \<Rightarrow> type_error)"

definition operation_sync :: "(rat \<Rightarrow> string) \<Rightarrow> string \<Rightarrow> json \<Rightarrow> json \<Rightarrow> json res" where
  "operation_sync fr operation_id response sync =
     (if \<not> is_ok response then Inr sync
      else let operation = value_or_empty response in
        rbind (j_get operation ''state'' (JStr [])) (\<lambda>state.
        if py_upper (json_text fr state) \<noteq> ''SUCCEEDED'' then Inr sync
        else rbind (j_get operation ''result'' JNull) (finished_sync operation_id)))"

definition note_rows :: "json list \<Rightarrow> history_progress \<Rightarrow> history_progress res" where
  "note_rows rows p = rbind (r_count (has_record 1) rows) (\<lambda>a. rbind (r_count (has_record 2) rows) (\<lambda>b.
     Inr (p\<lparr>hp_rows := max (hp_rows p) (length rows), hp_first := max (hp_first p) a, hp_second := max (hp_second p) b\<rparr>)))"

definition status_sync :: "(rat \<Rightarrow> string) \<Rightarrow> string \<Rightarrow> json \<Rightarrow> json \<Rightarrow> json res" where
  "status_sync fr operation_id record sync = rbind (history_sync_of record) (\<lambda>c. case c of
     None \<Rightarrow> Inr sync
   | Some candidate \<Rightarrow> rbind (operation_id_of fr candidate) (\<lambda>i. Inr (if i = operation_id then candidate else sync)))"

definition history_done :: "(rat \<Rightarrow> string) \<Rightarrow> json \<Rightarrow> bool res" where
  "history_done fr sync = rbind (sync_complete fr sync) (\<lambda>complete. rbind (sync_counts sync ''retrieved_counts'') (\<lambda>retrieved.
     if complete then full_counts retrieved else Inr False))"

definition history_turn :: "string \<Rightarrow> rat \<Rightarrow> history_progress \<Rightarrow> (rig, history_progress + history_progress) act" where
  "history_turn operation_id deadline p = abind monotonic_now (\<lambda>now.
     if \<not> now < deadline then areturn (Inr p)
     else abind (snapshot ''history_sync'') (\<lambda>record. athen (add_record record)
       (abind (alift (rbind (read_rows record) (\<lambda>rows. note_rows rows p))) (\<lambda>p.
       abind (areads rg_float) (\<lambda>fr.
       abind (alift (status_sync fr operation_id record (hp_sync p))) (\<lambda>sync.
       abind (safe_request ''GET'' (BACKEND @ ''/api/v1/operations/'' @ operation_id) None) (\<lambda>response.
       abind (alift (operation_sync fr operation_id response sync)) (\<lambda>sync.
       abind (alift (history_done fr sync)) (\<lambda>finished. let p = p\<lparr>hp_sync := sync\<rparr> in
       areturn (if finished then Inr p else Inl p))))))))))"

definition judge_counts :: "(rat \<Rightarrow> string) \<Rightarrow> string \<Rightarrow> string \<Rightarrow> json list \<Rightarrow> (rig, unit) act" where
  "judge_counts fr before after counts =
     abind (alift (full_counts counts)) (\<lambda>full. failed_when (\<not> full) (before @ counts_text fr counts @ after))"

definition judge_complete :: "(rat \<Rightarrow> string) \<Rightarrow> json \<Rightarrow> (rig, unit) act" where
  "judge_complete fr sync =
     abind (alift (if j_true sync then sync_complete fr sync else Inr False)) (\<lambda>complete.
     if complete then areturn () else
     abind (alift (sync_get sync ''state'' (JStr ''unknown''))) (\<lambda>state.
     failed (''backend history synchronization did not report COMPLETE (last state: '' @ json_text fr state @ '')'')))"

definition judge_rows :: "history_progress \<Rightarrow> (rig, unit) act" where
  "judge_rows p =
     athen (failed_when (hp_rows p < 300) (''only '' @ show_nat (hp_rows p) @ ''/300 recent database rows became browser-readable''))
     (athen (failed_when (hp_first p < 300) (''only '' @ show_nat (hp_first p) @ ''/300 Sensor 1 records became browser-readable''))
     (failed_when (hp_second p < 300) (''only '' @ show_nat (hp_second p) @ ''/300 Sensor 2 records became browser-readable'')))"

definition history_metrics :: "(rat \<Rightarrow> string) \<Rightarrow> history_progress \<Rightarrow> rat \<Rightarrow> string \<Rightarrow> (rig, unit) act" where
  "history_metrics fr p elapsed operation_id =
     athen (metric ''history_rows'' (MInt (int (hp_rows p))))
     (athen (metric ''sensor_1_history_records'' (MInt (int (hp_first p))))
     (athen (metric ''sensor_2_history_records'' (MInt (int (hp_second p))))
     (athen (metric ''history_to_database_ms'' (m_number (py_round 1 elapsed)))
     (athen (metric ''history_sync'' (MJson (json_dumps fr (hp_sync p))))
     (metric ''history_operation_id'' (MText operation_id))))))"

definition graph_shown :: "(rig, unit) act" where
  "graph_shown =
     abind (ask_choice [''Graph shows recovered history'', ''Graph does not show it'', ''Could not inspect'']) (\<lambda>visual.
     athen (metric ''graph_confirmation'' (MText visual))
     (if visual = ''Could not inspect'' then blocked ''browser graph history could not be inspected''
      else failed_when (visual \<noteq> ''Graph shows recovered history'') ''browser graph history was not confirmed''))"

definition history_verdict :: "(rat \<Rightarrow> string) \<Rightarrow> string \<Rightarrow> history_progress \<Rightarrow> rat \<Rightarrow> (rig, unit) act" where
  "history_verdict fr operation_id p elapsed = (let sync = hp_sync p in
     athen (history_metrics fr p elapsed operation_id)
     (athen (judge_rows p)
     (athen (judge_complete fr sync)
     (abind (alift (sync_counts sync ''expected_counts'')) (\<lambda>expected.
     abind (alift (sync_counts sync ''retrieved_counts'')) (\<lambda>retrieved.
     athen (judge_counts fr ''device did not expose 300 records per sensor (expected counts: '' '')'' expected)
     (athen (judge_counts fr ''backend did not retrieve 300 records per sensor (retrieved counts: '' '')'' retrieved)
     (athen (failed_when (elapsed > 10000) (''history recovery took '' @ show_fixed 0 elapsed @ '' ms (>10000 ms)''))
     graph_shown))))))))"

definition follow_history :: "(rat \<Rightarrow> string) \<Rightarrow> string \<Rightarrow> (rig, unit) act" where
  "follow_history fr operation_id =
     abind counter_ns (\<lambda>start. abind (deadline_after 10) (\<lambda>deadline.
     abind (poll (history_turn operation_id deadline) \<lparr>hp_rows = 0, hp_first = 0, hp_second = 0, hp_sync = JNull\<rparr>) (\<lambda>p.
     abind counter_ns (\<lambda>now. history_verdict fr operation_id p (elapsed_ms start now)))))"

definition history_workflow :: "(rig, unit) act" where
  "history_workflow =
     abind (ask_choice [''300 seconds accumulated'', ''Not available - fail'']) (\<lambda>answer.
     if py_startswith answer ''Not available'' then give_up [] (blocked_mark @ ''300 seconds of device history were not available'')
     else abind (safe_request ''POST'' (BACKEND @ ''/api/v1/ble/history/sync'') None) (\<lambda>request.
       if \<not> is_ok request then give_up [] (''history synchronization request failed: '' @ error_of ''unknown error'' request)
       else abind (areads rg_float) (\<lambda>fr.
       abind (alift (rbind (j_get (value_or_empty request) ''operation_id'' JNull) (\<lambda>i. Inr (text_or_empty fr i)))) (\<lambda>operation_id.
       if operation_id = [] then give_up [] ''history synchronization response did not identify the operation''
       else follow_history fr operation_id))))"

subsection \<open>A gap of the radio\<close>

record gap_progress =
  gp_deadline :: "rat option"
  gp_connected_ns :: "int option"
  gp_sync :: json
  gp_recovered :: bool
  gp_new_sync :: bool

definition gap_seen :: "(rat \<Rightarrow> string) \<Rightarrow> string \<Rightarrow> json \<Rightarrow> gap_progress \<Rightarrow> gap_progress res" where
  "gap_seen fr previous item g = rbind (history_sync_of item) (\<lambda>c. case c of
     None \<Rightarrow> Inr g
   | Some candidate \<Rightarrow>
       rbind (operation_id_of fr candidate) (\<lambda>i.
       rbind (sync_get candidate ''source'' JNull) (\<lambda>source.
       Inr (if source = JStr ''automatic'' \<and> i \<noteq> [] \<and> i \<noteq> previous then g\<lparr>gp_sync := candidate, gp_new_sync := True\<rparr> else g))))"

definition gap_connected :: "bool \<Rightarrow> gap_progress \<Rightarrow> (rig, gap_progress) act" where
  "gap_connected up g =
     (if up \<and> \<not> gp_recovered g then
        abind counter_ns (\<lambda>ns. abind (deadline_after 10) (\<lambda>deadline.
          areturn (g\<lparr>gp_recovered := True, gp_connected_ns := Some ns, gp_deadline := Some deadline\<rparr>)))
      else areturn g)"

definition gap_open :: "rat \<Rightarrow> gap_progress \<Rightarrow> (rig, bool) act" where
  "gap_open reconnect_deadline g = abind monotonic_now (\<lambda>now.
     if now < reconnect_deadline then areturn True
     else case gp_deadline g of None \<Rightarrow> areturn False | Some d \<Rightarrow> abind monotonic_now (\<lambda>now. areturn (now < d)))"

definition gap_turn :: "string \<Rightarrow> rat \<Rightarrow> gap_progress \<Rightarrow> (rig, gap_progress + gap_progress) act" where
  "gap_turn previous reconnect_deadline g = abind (gap_open reconnect_deadline g) (\<lambda>open_now.
     if \<not> open_now then areturn (Inr g)
     else abind (snapshot ''ble_gap_history_recovery'') (\<lambda>item. athen (add_record item)
       (abind (alift (box_connected item)) (\<lambda>up. abind (gap_connected up g) (\<lambda>g.
       abind (areads rg_float) (\<lambda>fr. abind (alift (gap_seen fr previous item g)) (\<lambda>g.
       abind (alift (rbind (sync_counts (gp_sync g) ''retrieved_counts'') (\<lambda>retrieved.
         if \<not> gp_recovered g then Inr False
         else rbind (sync_complete fr (gp_sync g)) (\<lambda>complete. if complete then full_counts retrieved else Inr False)))) (\<lambda>finished.
       if finished then areturn (Inr g)
       else if gp_recovered g then areturn (Inl g)
       else abind monotonic_now (\<lambda>now. areturn (if reconnect_deadline \<le> now then Inr g else Inl g))))))))))"

definition judge_ms :: "(rat \<Rightarrow> string) \<Rightarrow> string \<Rightarrow> rat option \<Rightarrow> (rig, unit) act" where
  "judge_ms fr what ms = failed_when (case ms of None \<Rightarrow> True | Some x \<Rightarrow> x > 10000)
     (what @ '' took '' @ (case ms of None \<Rightarrow> ''unknown'' | Some x \<Rightarrow> fr x) @ '' ms (>10000 ms)'')"

definition gap_filled :: "(rig, string) act" where
  "gap_filled =
     abind (ask_choice [''Gap was backfilled'', ''Gap remains'', ''Could not inspect - block this test'']) (\<lambda>visual.
     athen (if visual = ''Gap remains'' then failed ''browser graph retained a gap after history recovery''
            else if py_startswith visual ''Could not'' then blocked ''recovered graph history could not be inspected'' else areturn ())
     (areturn visual))"

definition gap_metrics :: "(rat \<Rightarrow> string) \<Rightarrow> bool \<Rightarrow> string \<Rightarrow> gap_progress \<Rightarrow> rat option \<Rightarrow> rat option \<Rightarrow> string \<Rightarrow> (string, measured) dict" where
  "gap_metrics fr link_loss previous g reconnect_ms history_ms visual =
     [(''ble_only_gap_seconds'', MInt 12), (''box_remained_powered'', MBool True), (''host_bluetooth_radio_toggled'', MBool True),
      (''link_loss_observed'', MBool link_loss), (''previous_history_operation_id'', if previous = [] then m_none else MText previous),
      (''reconnected'', MBool (gp_recovered g)), (''new_history_operation_observed'', MBool (gp_new_sync g)),
      (''history_sync'', MJson (json_dumps fr (gp_sync g))),
      (''automatic_reconnect_ms'', m_maybe (m_number \<circ> py_round 1) reconnect_ms),
      (''history_recovery_after_connection_ms'', m_maybe (m_number \<circ> py_round 1) history_ms),
      (''graph_gap_backfill'', MText visual)]"

definition judge_gap_sync :: "(rat \<Rightarrow> string) \<Rightarrow> gap_progress \<Rightarrow> (rig, unit) act" where
  "judge_gap_sync fr g = (let sync = gp_sync g in
     abind (alift (sync_counts sync ''expected_counts'')) (\<lambda>expected.
     abind (alift (sync_counts sync ''retrieved_counts'')) (\<lambda>retrieved.
     abind (alift (sync_complete fr sync)) (\<lambda>complete.
     athen (failed_when (\<not> gp_recovered g) ''backend did not reconnect after the BLE-only gap'')
     (athen (failed_when (\<not> gp_new_sync g) ''backend did not expose a new automatic history operation after reconnect'')
     (athen (if complete then areturn () else abind (alift (sync_get sync ''state'' (JStr ''unknown''))) (\<lambda>state.
        failed (''history synchronization did not complete (state: '' @ json_text fr state @ '')'')))
     (athen (judge_counts fr ''powered box did not expose 300 records per sensor: '' [] expected)
     (judge_counts fr ''backend did not recover 300 records per sensor: '' [] retrieved))))))))"

definition radio_on :: "bool \<Rightarrow> string \<Rightarrow> (rig, unit) act" where
  "radio_on link_loss previous =
     abind counter_ns (\<lambda>enabled_ns. abind (deadline_after 10) (\<lambda>deadline.
     abind (poll (gap_turn previous deadline) \<lparr>gp_deadline = None, gp_connected_ns = None, gp_sync = JNull, gp_recovered = False, gp_new_sync = False\<rparr>) (\<lambda>g.
     abind counter_ns (\<lambda>finished_ns. abind (areads rg_float) (\<lambda>fr.
     let reconnect_ms = map_option (elapsed_ms enabled_ns) (gp_connected_ns g);
         history_ms = map_option (\<lambda>ns. elapsed_ms ns finished_ns) (gp_connected_ns g) in
     athen (judge_gap_sync fr g)
     (athen (judge_ms fr ''automatic BLE reconnect'' reconnect_ms)
     (athen (judge_ms fr ''history recovery after connection'' history_ms)
     (abind gap_filled (\<lambda>visual.
     change (\<lambda>s. s\<lparr>rg_metrics := gap_metrics fr link_loss previous g reconnect_ms history_ms visual\<rparr>))))))))))"

definition previous_operation :: "(rat \<Rightarrow> string) \<Rightarrow> json \<Rightarrow> string res" where
  "previous_operation fr response = rbind (j_get (value_or_empty response) ''history_sync'' JNull) (operation_id_of fr)"

definition ble_gap_history :: "(rig, unit) act" where
  "ble_gap_history =
     abind (ask_choice [''300 seconds accumulated - create BLE-only gap'', ''Not available - block this test'']) (\<lambda>answer.
     if py_startswith answer ''Not available'' then give_up [] (blocked_mark @ ''300 seconds of powered device history were not available'')
     else abind status_request (\<lambda>before. abind (areads rg_float) (\<lambda>fr.
       abind (alift (previous_operation fr before)) (\<lambda>previous.
       abind (ask_choice [''PC Bluetooth disabled'', ''Cannot perform - block this test'']) (\<lambda>radio_off.
       if blocks radio_off then give_up [] (blocked_mark @ ''host Bluetooth radio could not be disabled while the box remained powered'')
       else athen (capture ''ble_only_gap_box_powered'' 12)
         (abind (link_lost ''ble_only_gap_box_powered'') (\<lambda>link_loss.
         athen (failed_when (\<not> link_loss) ''backend did not expose link loss while the host Bluetooth radio was disabled'')
         (abind (ask_choice [''PC Bluetooth enabled - start timer'', ''Cannot perform - block this test'']) (\<lambda>answer.
         if blocks answer then give_up [(''link_loss_observed'', MBool link_loss)]
           (blocked_mark @ ''host Bluetooth radio was not re-enabled for automatic recovery'')
         else radio_on link_loss previous)))))))))"

end
