(* ===== verification/Guided_Inspections.thy ===== *)
theory Guided_Inspections
  imports Guided_History
begin

section \<open>The qualification tool: guided inspections and the choice of the workflow\<close>

text \<open>
  The remaining workflows of \<open>verification/core/assisted.py\<close> (\<open>_data_path\<close>, \<open>_inspection\<close>,
  \<open>_button_display\<close>, \<open>_ble_control\<close>, \<open>_display_latency\<close>, \<open>_mechanical\<close>, \<open>_email\<close>) and the part of
  \<open>run_assisted\<close> that chooses and runs one; its end is in \<open>Operator_Session\<close>. What the browser driver of
  \<open>_display_latency\<close> and the source tree give is the bench of the rig.
\<close>

subsection \<open>Data path\<close>

definition last_record :: "rig \<Rightarrow> json res" where
  "last_record s = (if rg_records s = [] then raise (OtherErrorC ''IndexError'') ''list index out of range'' else Inr (last (rg_records s)))"

definition live_snapshot :: "json \<Rightarrow> json res" where
  "live_snapshot record =
     rbind (j_get record ''current'' (JObj [])) (\<lambda>current. rbind (j_get current ''value'' (JObj [])) (\<lambda>v.
     rbind (j_get v ''snapshot'' JNull) (\<lambda>s. Inr (j_or s (JObj [])))))"

definition last_row :: "json \<Rightarrow> json res" where
  "last_row record = rbind (read_rows record) (\<lambda>rows. Inr (if rows = [] then JObj [] else last rows))"

definition readings_match :: "json \<Rightarrow> json \<Rightarrow> int \<Rightarrow> bool res" where
  "readings_match current db sensor =
     rbind (sensor_entries current) (\<lambda>entries.
     rbind (temperature_in entries sensor) (\<lambda>live. rbind (j_get db (sensor_key sensor ''_c'') JNull) (\<lambda>stored.
     if live = JNull \<or> stored = JNull then Inr False
     else rbind (j_float live) (\<lambda>x. rbind (j_float stored) (\<lambda>y. Inr (\<bar>x - y\<bar> \<le> 1 / 4))))))"

definition match_sensor :: "json \<Rightarrow> json \<Rightarrow> int \<Rightarrow> (rig, unit) act" where
  "match_sensor current db sensor = abind (alift (readings_match current db sensor)) (\<lambda>ok.
     athen (metric (mkey sensor ''backend_database_match'') (MBool ok))
     (failed_when (\<not> ok) (sn sensor @ '' latest backend and MySQL values do not match'')))"

definition data_path :: "(rig, unit) act" where
  "data_path =
     athen (capture ''correlation'' 8)
     (abind (with_records last_record) (\<lambda>latest.
     abind (alift (live_snapshot latest)) (\<lambda>current. abind (alift (last_row latest)) (\<lambda>db.
     athen (aeach (match_sensor current db) [1, 2])
     (abind (ask_choice [''Both sensors match at all visible hops'', ''A value/state does not match'', ''Could not inspect'']) (\<lambda>physical.
     athen (if physical = ''Could not inspect'' then blocked ''physical/UI end-to-end correlation could not be inspected''
            else failed_when (physical \<noteq> ''Both sensors match at all visible hops'') ''physical/UI end-to-end correlation was not confirmed'')
     (metric ''operator_correlation'' (MText physical))))))))"

subsection \<open>Inspection and mechanics\<close>

definition float_text :: "(rat \<Rightarrow> string) \<Rightarrow> pyfloat \<Rightarrow> string" where
  "float_text fr x = (case x of FNum r \<Rightarrow> fr r | FInf negative \<Rightarrow> if negative then ''-inf'' else ''inf'' | FNan \<Rightarrow> ''nan'')"

definition cable_ok :: "pyfloat \<Rightarrow> bool" where
  "cable_ok x = (case x of FNum r \<Rightarrow> 9 / 10 \<le> r \<and> r \<le> 11 / 10 | _ \<Rightarrow> False)"

definition inspect_cable :: "int \<Rightarrow> (rig, unit) act" where
  "inspect_cable sensor = abind ask_float (\<lambda>len. abind (areads rg_float) (\<lambda>fr.
     athen (metric (mkey sensor ''cable_length_m'') (MFloat len))
     (failed_when (\<not> cable_ok len) (sn sensor @ '' cable length '' @ float_text fr len @ '' m is outside 0.9..1.1 m''))))"

definition inspect_item :: "string \<Rightarrow> (rig, unit) act" where
  "inspect_item key = abind (ask_choice [''Pass'', ''Fail'', ''Could not inspect'']) (\<lambda>answer.
     athen (metric key (MText answer))
     (if answer = ''Could not inspect'' then blocked (key @ '' could not be inspected'')
      else failed_when (answer \<noteq> ''Pass'') (key @ '': '' @ answer)))"

definition smoke_connected :: "(rig, bool) act" where
  "smoke_connected = with_records (\<lambda>s. rbind (last_record s) box_connected)"

definition inspection :: "(rig, unit) act" where
  "inspection =
     athen (aeach inspect_cable [1, 2])
     (athen (aeach inspect_item [''construction_inspection'', ''lcd_readability'', ''datasheet_range''])
     (abind ask_text (\<lambda>models.
     athen (metric ''component_models_and_revisions'' (MText models))
     (athen (capture ''powered_inspection_smoke'' 5)
     (abind smoke_connected (\<lambda>up.
     abind (if up then with_records (\<lambda>s. rbind (last_record s) (\<lambda>r. rbind (read_rows r) (\<lambda>rows. Inr (rows \<noteq> [])))) else areturn False) (\<lambda>ok.
     failed_when (\<not> ok) ''powered connected/data smoke check failed'')))))))"

definition mechanical_action :: "string \<Rightarrow> (rig, (string \<times> string)) act" where
  "mechanical_action key =
     abind (ask_choice [''Completed with no disallowed damage'', ''Completed - damage/failure observed'', ''Cannot perform'']) (\<lambda>answer.
     athen (if answer = ''Cannot perform'' then blocked (key @ '' could not be performed'')
            else failed_when (answer \<noteq> ''Completed with no disallowed damage'') (key @ '': '' @ answer))
     (areturn (key, answer)))"

primrec acollect :: "('a \<Rightarrow> ('s, 'b) act) \<Rightarrow> 'a list \<Rightarrow> ('s, 'b list) act" where
  "acollect f [] = areturn []"
| "acollect f (x # xs) = abind (f x) (\<lambda>y. abind (acollect f xs) (\<lambda>ys. areturn (y # ys)))"

definition both_valid :: "json \<Rightarrow> bool res" where
  "both_valid row = rbind (sensor_valid 1 row) (\<lambda>a. if a then sensor_valid 2 row else Inr False)"

definition mechanical :: "(rig, unit) act" where
  "mechanical =
     athen (capture ''pre_test_smoke'' 6)
     (abind (phase ''pre_test_smoke'') (\<lambda>pre_rows.
     abind (if pre_rows \<noteq> [] then smoke_connected else areturn False) (\<lambda>pre_valid.
     abind (acollect mechanical_action [''enclosure_drop'', ''upside_down'', ''connected_cable_drop'', ''ordinary_handling'', ''sensor_immersion'']) (\<lambda>outcomes.
     athen (capture ''post_test_smoke'' 10)
     (abind (phase ''post_test_smoke'') (\<lambda>post_rows. abind smoke_connected (\<lambda>up.
     abind (if up then alift (r_any both_valid (last_n 5 post_rows)) else areturn False) (\<lambda>post_valid.
     athen (if \<not> pre_valid then blocked ''pre-test connected/data smoke check was not stable, so mechanical effects cannot be isolated''
            else failed_when (\<not> post_valid) ''post-test connected/data smoke check failed'')
     (change (\<lambda>s. s\<lparr>rg_metrics := (''pre_test_smoke_pass'', MBool pre_valid) # (''post_test_smoke_pass'', MBool post_valid)
        # map (\<lambda>(k, v). (k, MText v)) outcomes\<rparr>))))))))))"

subsection \<open>Buttons and shared displays\<close>

definition afinally :: "('s, 'a) act \<Rightarrow> ('s, unit) act \<Rightarrow> ('s, 'a) act" where
  "afinally m cleanup s = (case m s of (r, s') \<Rightarrow> (case cleanup s' of (Inl e, t) \<Rightarrow> (Inl e, t) | (Inr _, t) \<Rightarrow> (r, t)))"

definition rejected_422 :: "json \<Rightarrow> bool" where
  "rejected_422 v \<longleftrightarrow> \<not> is_ok v \<and> contains ''422'' (error_of [] v)"

text \<open>The display of the sensor before its button is pressed; a shared one is first commanded.\<close>

definition command_remote :: "int \<Rightarrow> bool \<Rightarrow> (rig, bool) act" where
  "command_remote sensor before = (let target = \<not> before in
     abind (put_display sensor (JBool target)) (\<lambda>response.
     abind (wait_display sensor (Some target)) (\<lambda>(ok, ms, observed). let confirmed = is_ok response \<and> ok in
     athen (metric (mkey sensor ''remote_command_ms'') (m_number (py_round 1 ms)))
     (athen (metric (mkey sensor ''remote_confirmed'') (MBool confirmed))
     (athen (failed_when (\<not> confirmed) (sn sensor @ '' remote display command was not confirmed''))
     (areturn (or_else target observed)))))))"

text \<open>What the UART shows of a press: the press, the marker of the rendering, and the time between.\<close>

definition press_marker :: "int \<Rightarrow> string list" where
  "press_marker sensor = [''sensor '' @ show_int sensor @ '' button'', ''pressed'']"

definition render_marker :: "string \<Rightarrow> int \<Rightarrow> bool \<Rightarrow> string list" where
  "render_marker name sensor enabled =
     [name, ''sensor='' @ show_int sensor, ''enabled='' @ (if enabled then ''1'' else ''0'')]"

definition watch_button :: "int \<Rightarrow> rat \<Rightarrow> bool \<Rightarrow> (rig, uart_event option \<times> uart_event option) act" where
  "watch_button sensor timeout before =
     abind wall_ns (\<lambda>started.
     abind (uart_wait_for (press_marker sensor) started timeout) (\<lambda>pressed. case pressed of
       None \<Rightarrow> athen (blocked (sn sensor @ '' button press was not detected on UART within '' @ show_fixed 0 timeout @ '' seconds''))
         (areturn (None, None))
     | Some p \<Rightarrow>
         abind (uart_wait_for (render_marker ''VERIFY LOCAL_DISPLAY_RENDER'' sensor (\<not> before)) (ue_wall_ns p) 2) (\<lambda>rendered.
         athen (failed_when (rendered = None) (sn sensor @ '' UART render marker did not follow its detected button press''))
         (areturn (Some p, rendered)))))"

definition render_ms :: "uart_event option \<times> uart_event option \<Rightarrow> rat option" where
  "render_ms seen = (case seen of (Some p, Some r) \<Rightarrow> Some (elapsed_ms (ue_wall_ns p) (ue_wall_ns r)) | _ \<Rightarrow> None)"

definition j_maybe :: "('a \<Rightarrow> json) \<Rightarrow> 'a option \<Rightarrow> json" where
  "j_maybe f v = (case v of None \<Rightarrow> JNull | Some x \<Rightarrow> f x)"

definition button_record :: "int \<Rightarrow> bool \<Rightarrow> bool option \<Rightarrow> rat \<Rightarrow> uart_event option \<times> uart_event option \<Rightarrow> json" where
  "button_record sensor before after elapsed seen =
     JObj [(''label'', JStr ''physical_button''), (''sensor'', JInt sensor), (''before'', JBool before),
       (''after'', j_maybe JBool after), (''backend_observation_ms'', JFloat elapsed),
       (''button_to_render_ms'', j_maybe JFloat (render_ms seen)),
       (''button_uart_line'', j_maybe (JStr \<circ> ue_line) (fst seen)), (''render_uart_line'', j_maybe (JStr \<circ> ue_line) (snd seen))]"

definition judge_button :: "int \<Rightarrow> bool \<Rightarrow> uart_event option \<times> uart_event option \<Rightarrow> (rig, unit) act" where
  "judge_button sensor before seen =
     abind (wait_display sensor (Some (\<not> before))) (\<lambda>(changed, elapsed, observed). let ms = render_ms seen in
     athen (add_record (button_record sensor before observed elapsed seen))
     (athen (metric (mkey sensor ''physical_toggle_observed'') (MBool changed))
     (athen (metric (mkey sensor ''button_to_render_ms'') (m_maybe (m_number \<circ> py_round 2) ms))
     (athen (failed_when (\<not> changed) (sn sensor @ '' physical button change was not reflected in backend state''))
     (case ms of None \<Rightarrow> areturn () | Some x \<Rightarrow>
        failed_when (x > 20) (sn sensor @ '' button-to-render contribution was '' @ show_fixed 1 x @ '' ms (>20 ms)''))))))"

definition button_case :: "bool \<Rightarrow> bool \<Rightarrow> rat \<Rightarrow> (int, bool) dict \<Rightarrow> int \<Rightarrow> (rig, unit) act" where
  "button_case shared_remote uart timeout initial sensor = (case dict_get initial sensor of
     None \<Rightarrow> failed (sn sensor @ '' initial display state unavailable'')
   | Some before \<Rightarrow>
       if shared_remote then
         abind (command_remote sensor before) (\<lambda>before.
         abind (ask_choice [''Pressed'', ''Cannot perform'']) (\<lambda>answer.
         if blocks answer then blocked (sn sensor @ '' physical button action was not performed'')
         else judge_button sensor before (None, None)))
       else if uart then abind (watch_button sensor timeout before) (judge_button sensor before)
       else judge_button sensor before (None, None))"

definition shared_end :: "(rig, unit) act" where
  "shared_end = abind (put_display 3 (JBool True)) (\<lambda>invalid.
     athen (metric ''invalid_sensor_rejected'' (MBool (rejected_422 invalid)))
     (failed_when (\<not> rejected_422 invalid) ''invalid sensor identifier was not rejected''))"

definition lcd_end :: "(rig, unit) act" where
  "lcd_end = abind (ask_choice [''All cases pass'', ''One or more cases fail'', ''Could not inspect'']) (\<lambda>lcd.
     athen (metric ''lcd_render_confirmation'' (MText lcd))
     (if lcd = ''Could not inspect'' then blocked ''LCD cases could not be inspected''
      else failed_when (lcd \<noteq> ''All cases pass'') (''LCD cases: '' @ lcd)))"

definition open_uart :: "(rig, bool) act" where
  "open_uart = acatch (athen uart_from_environment (areturn True)) is_exception
     (\<lambda>e. athen (blocked (''UART button timing capture is unavailable: '' @ exc_text e)) (areturn False))"

definition button_display :: "bool \<Rightarrow> (rig, unit) act" where
  "button_display shared_remote =
     abind (if shared_remote then areturn False else open_uart) (\<lambda>uart.
     abind (env_number ''THERMOMETER_BUTTON_TIMEOUT_SECONDS'' ''30'' 1) (\<lambda>timeout.
     abind display_states (\<lambda>initial.
     athen (afinally (aeach (button_case shared_remote uart timeout initial) [1, 2])
       (if uart then abind (areads rg_uart_dump) (write_text ''button-uart-events.json'') else areturn ()))
     (if shared_remote then shared_end else lcd_end))))"

subsection \<open>Direct control\<close>

definition ble_control :: "(rig, unit) act" where
  "ble_control =
     abind display_states (\<lambda>states. let target = \<not> or_else False (dict_get states 1) in
     abind (put_display 1 (JBool target)) (\<lambda>response.
     abind (wait_display 1 (Some target)) (\<lambda>(confirmed, elapsed, _).
     abind (put_display 99 (JBool True)) (\<lambda>bad_sensor. abind (put_display 1 (JStr ''invalid'')) (\<lambda>bad_value.
     let rejected = rejected_422 bad_sensor \<and> rejected_422 bad_value in
     abind (ask_choice [''Write rejected; state unchanged'', ''Unauthorized change succeeded'', ''Could not perform'']) (\<lambda>unauthorized.
     abind (ask_choice [''LCD changed correctly'', ''LCD did not change'', ''Could not inspect'']) (\<lambda>physical.
     athen (failed_when (\<not> is_ok response \<or> \<not> confirmed) ''authorized direct SET_DISPLAY was not confirmed'')
     (athen (failed_when (\<not> rejected) ''malformed HTTP control inputs were not rejected'')
     (athen (if unauthorized = ''Could not perform'' then blocked ''unbonded-client attempt could not be performed''
             else failed_when (unauthorized \<noteq> ''Write rejected; state unchanged'') (''unbonded client result: '' @ unauthorized))
     (athen (if physical = ''Could not inspect'' then blocked ''physical authorized LCD result could not be inspected''
             else failed_when (physical \<noteq> ''LCD changed correctly'') (''physical authorized result: '' @ physical))
     (athen (add_record (JObj [(''label'', JStr ''ble_control''), (''authorized_response'', response),
        (''malformed_sensor'', bad_sensor), (''malformed_value'', bad_value)]))
     (change (\<lambda>s. s\<lparr>rg_metrics := [(''authorized_command_ms'', m_number (py_round 1 elapsed)), (''authorized_confirmed'', MBool confirmed),
        (''malformed_inputs_rejected'', MBool rejected), (''unauthorized_client'', MText unauthorized), (''physical_lcd'', MText physical)]\<rparr>)))))))))))))"

end
