(* ===== verification/Guided_Run.thy ===== *)
theory Guided_Run
  imports Guided_Inspections
begin

section \<open>The qualification tool: latency, notifications and the choice of the workflow\<close>

text \<open>
  \<open>_display_latency\<close>, \<open>_email\<close> and the part of \<open>run_assisted\<close> (\<open>verification/core/assisted.py\<close>) that
  prepares, chooses and runs a guided workflow; its end is \<open>run_assisted\<close> of \<open>Operator_Session\<close>.
\<close>

subsection \<open>Latency of the display\<close>

definition py_rstrip :: "string \<Rightarrow> string" where "py_rstrip s = rev (dropWhile py_isspace_char (rev s))"

type_synonym trials = "json list \<times> rat list"

definition merged_record :: "(string \<times> json) list \<Rightarrow> json \<Rightarrow> (string \<times> json) list \<Rightarrow> json res" where
  "merged_record before v after = (case v of
     JObj d \<Rightarrow> Inr (JObj (fold (\<lambda>(k, x). dict_set k x) (before @ d @ after) [])) | _ \<Rightarrow> type_error)"

definition timed_action :: "json \<Rightarrow> rat list \<Rightarrow> (rig, rat list) act" where
  "timed_action action timings =
     abind (alift (rbind (j_index action ''sensor'') j_int)) (\<lambda>sensor.
     abind (alift (rbind (j_index action ''enabled'') (\<lambda>v. Inr (j_true v)))) (\<lambda>enabled.
     abind (alift (rbind (j_index action ''action_wall_ns'') j_int)) (\<lambda>wall.
     abind (uart_wait_for (render_marker ''VERIFY DISPLAY_RENDER'' sensor enabled) wall 2) (\<lambda>event. case event of
       None \<Rightarrow> abind (areads rg_float) (\<lambda>fr. abind (alift (j_index action ''trial'')) (\<lambda>trial.
         athen (failed (''trial '' @ json_text fr trial @ '' produced no matching firmware render marker'')) (areturn timings)))
     | Some e \<Rightarrow> let ms = elapsed_ms wall (ue_wall_ns e) in
         abind (alift (merged_record [(''label'', JStr ''display_latency'')] action
           [(''uart_line'', JStr (ue_line e)), (''uart_observed_wall_ns'', JInt (ue_wall_ns e)), (''elapsed_ms'', JFloat (py_round 3 ms))])) (\<lambda>r.
         athen (add_record r) (areturn (timings @ [ms])))))))"

definition driver_line :: "string \<times> json option \<Rightarrow> trials \<Rightarrow> (rig, trials) act" where
  "driver_line line t = (case line of
     (text, None) \<Rightarrow> athen (add_record (JObj [(''label'', JStr ''display_latency_playwright_output''), (''line'', JStr (py_rstrip text))]))
       (areturn t)
   | (_, Some action) \<Rightarrow> abind (alift (j_get action ''type'' JNull)) (\<lambda>kind.
       if kind \<noteq> JStr ''action'' then areturn t
       else abind (timed_action action (snd t)) (\<lambda>timings. areturn (fst t @ [action], timings))))"

primrec driver_lines :: "(string \<times> json option) list \<Rightarrow> trials \<Rightarrow> (rig, trials) act" where
  "driver_lines [] t = areturn t"
| "driver_lines (l # ls) t = abind (driver_line l t) (driver_lines ls)"

definition driver_end :: "driver \<Rightarrow> string \<Rightarrow> (rig, unit) act" where
  "driver_end d node = (case dr_end d of
     None \<Rightarrow> failed ''live-GUI Playwright driver exceeded 45 seconds''
   | Some (code, err) \<Rightarrow>
       athen (write_text ''live-gui-playwright.log'' (''COMMAND: ['' @ py_join '', '' (map py_repr [node, dr_script d]) @ '']'' @ newline
         @ ''EXIT: '' @ show_int code @ newline @ newline @ err))
       (failed_when (code \<noteq> 0) (''live-GUI Playwright driver exited '' @ show_int code @ '': '' @ last_n 500 (py_strip err))))"

definition trials_of :: "int \<Rightarrow> json list \<Rightarrow> int res" where
  "trials_of sensor actions = rbind (r_count (\<lambda>a. rbind (rbind (j_get a ''sensor'' (JInt 0)) j_int) (\<lambda>i. Inr (i = sensor))) actions) (\<lambda>n. Inr (int n))"

definition slowest :: "rat list \<Rightarrow> rat option" where
  "slowest timings = (if timings = [] then None else Some (Max (set timings)))"

definition judge_latency :: "trials \<Rightarrow> (rig, unit) act" where
  "judge_latency t = (case t of (actions, timings) \<Rightarrow>
     athen (failed_when (length actions \<noteq> 20 \<or> length timings \<noteq> 20)
       (''only '' @ show_nat (length timings) @ ''/20 browser actions had matching firmware render evidence''))
     (athen (case slowest timings of None \<Rightarrow> areturn () | Some m \<Rightarrow>
        failed_when (1000 \<le> m) (''maximum measured browser-to-render latency was '' @ show_fixed 1 m @ '' ms''))
     (abind (alift (trials_of 1 actions)) (\<lambda>first. abind (alift (trials_of 2 actions)) (\<lambda>second.
     change (\<lambda>s. s\<lparr>rg_metrics := [(''browser_actions'', MInt (int (length actions))), (''matched_uart_renders'', MInt (int (length timings))),
       (''sensor_1_trials'', MInt first), (''sensor_2_trials'', MInt second),
       (''maximum_end_to_end_latency_ms'', m_maybe (m_number \<circ> py_round 1) (slowest timings)),
       (''all_trials_under_1000_ms'', MBool (length timings = 20 \<and> list_all (\<lambda>x. x < 1000) timings))]\<rparr>))))))"

definition drive_browser :: "driver \<Rightarrow> string \<Rightarrow> (rig, unit) act" where
  "drive_browser d node =
     abind (afinally (abind (driver_lines (dr_lines d) ([], [])) (\<lambda>t. athen (driver_end d node) (areturn t)))
       (abind (areads rg_uart_dump) (write_text ''uart-events.json''))) judge_latency"

definition display_latency :: "(rig, unit) act" where
  "display_latency = abind (areads rg_driver) (\<lambda>d.
     if contains ''not implemented'' (dr_source d) \<or> contains ''hardware boundary'' (dr_source d) then
       give_up [] ''physical LCD backend is not implemented, so an end-to-end physical render latency cannot be measured''
     else case (if dr_script_exists d \<and> or_else [] (dr_node d) \<noteq> [] then dr_node d else None) of
       None \<Rightarrow> give_up [] (blocked_mark @ ''Node or the live-GUI Playwright latency script is unavailable'')
     | Some node \<Rightarrow> abind (acatch (athen uart_from_environment (areturn None)) is_exception (\<lambda>e. areturn (Some e))) (\<lambda>broken. case broken of
         Some e \<Rightarrow> give_up [] (blocked_mark @ ''UART capture is unavailable: '' @ exc_text e)
       | None \<Rightarrow> drive_browser d node))"

subsection \<open>Notifications\<close>

definition j_measured :: "(rat \<Rightarrow> string) \<Rightarrow> json \<Rightarrow> measured" where
  "j_measured fr v = (case v of JStr s \<Rightarrow> MText s | _ \<Rightarrow> MJson (json_dumps fr v))"

definition delivery_accepted :: "json \<Rightarrow> bool res" where
  "delivery_accepted response =
     (if \<not> is_ok response then Inr False
      else rbind (rbind (j_get response ''value'' (JObj [])) (\<lambda>v. j_get v ''status'' JNull)) (\<lambda>st.
        rbind (hash_view st) (\<lambda>_. Inr (st = JStr ''sent'' \<or> st = JStr ''logged''))))"

definition notify :: "string \<Rightarrow> string \<times> rat \<Rightarrow> (rig, unit) act" where
  "notify destination event = (case event of (transition, celsius) \<Rightarrow>
     abind wall_ns (\<lambda>unique. abind wall_ns (\<lambda>now.
     abind (safe_request ''POST'' (FRONTEND @ ''/api/notify'') (Some (JObj [
       (''id'', JStr (''qualification-'' @ py_lower transition @ ''-'' @ show_int unique)), (''timestamp'', JInt (now div 1000000)),
       (''recipientId'', JStr ''qualification''), (''ruleId'', JStr ''qualification''), (''source'', JStr ''SENSOR_1''),
       (''transition'', JStr transition), (''destination'', JStr destination),
       (''message'', JStr (''Qualification '' @ py_lower transition @ '' alert'')), (''celsius'', JFloat celsius)]))) (\<lambda>response.
     athen (add_record (JObj [(''label'', JStr ''email_delivery''), (''transition'', JStr transition), (''response'', response)]))
     (abind (alift (delivery_accepted response)) (\<lambda>ok.
     failed_when (\<not> ok) (transition @ '' notification endpoint did not accept delivery'')))))))"

definition email :: "(rig, unit) act" where
  "email =
     abind (safe_request ''GET'' (FRONTEND @ ''/api/health'') None) (\<lambda>health.
     abind (alift (if is_ok health then rbind (j_get health ''value'' (JObj [])) (\<lambda>v. j_get v ''mode'' JNull) else Inr JNull)) (\<lambda>mode.
     abind ask_text (\<lambda>destination.
     athen (aeach (notify destination) [(''HIGH'', 63), (''LOW'', -10)])
     (abind (ask_choice [''Both HIGH and LOW emails received'', ''One or both missing'', ''Provider is console-only / could not inspect'']) (\<lambda>confirmation.
     abind (areads rg_float) (\<lambda>fr.
     athen (if mode \<noteq> JStr ''live'' then blocked (''frontend email mode is '' @ json_text fr (j_or mode (JStr ''unknown'')) @ '', not live SMTP'')
            else if confirmation = ''Provider is console-only / could not inspect'' then blocked ''real email inbox could not be inspected''
            else failed_when (confirmation \<noteq> ''Both HIGH and LOW emails received'') ''real email receipt was not confirmed'')
     (change (\<lambda>s. s\<lparr>rg_metrics := [(''email_mode'', j_measured fr mode), (''high_low_requests'', MInt 2), (''inbox_confirmation'', MText confirmation)]\<rparr>))))))))"

subsection \<open>The choice of the workflow\<close>

definition assisted_observation :: "(rig, unit) act" where
  "assisted_observation =
     athen (capture ''assisted_observation'' 10)
     (abind (ask_choice [''Pass criteria observed'', ''Fail criteria observed'', ''Could not complete'']) (\<lambda>answer.
     athen (metric ''operator_observation'' (MText answer)) (failed_when (answer \<noteq> ''Pass criteria observed'') answer)))"

text \<open>The metrics and failures that a workflow returns; those of the caller are kept.\<close>

type_synonym report = "(string, measured) dict \<times> string list"

definition report_of :: "(rig, unit) act \<Rightarrow> (rig, report) act" where
  "report_of m s = (case m (s\<lparr>rg_metrics := [], rg_failures := []\<rparr>) of (r, s') \<Rightarrow>
     (rbind r (\<lambda>_. Inr (rg_metrics s', rg_failures s')), s'\<lparr>rg_metrics := rg_metrics s, rg_failures := rg_failures s\<rparr>))"

definition update_all :: "('k, 'v) dict \<Rightarrow> ('k, 'v) dict \<Rightarrow> ('k, 'v) dict" where
  "update_all d new = fold (\<lambda>(k, v). dict_set k v) new d"

definition both_reports :: "(rig, unit) act \<Rightarrow> (rig, unit) act \<Rightarrow> (rig, report) act" where
  "both_reports m n = abind (report_of m) (\<lambda>(a, f). abind (report_of n) (\<lambda>(b, g). areturn (update_all a b, f @ g)))"

definition chosen_workflow :: "string \<Rightarrow> string \<Rightarrow> (rig, report) act" where
  "chosen_workflow test_id workflow =
     (if workflow = ''sensor_disconnect'' then
        report_of (if test_id = ''SYS-02'' then local_state_recovery_workflow else sensor_disconnect_workflow test_id)
      else if workflow = ''power_hotplug'' then both_reports (sensor_disconnect_workflow test_id) power_cycle_recovery
      else if workflow = ''thermal'' then report_of thermal
      else if workflow = ''reconnect'' then report_of power_cycle_recovery
      else if workflow = ''history'' then report_of history_workflow
      else if workflow = ''startup_history'' then both_reports power_cycle_recovery ble_gap_history
      else if workflow = ''data_path'' then report_of data_path
      else if workflow = ''display_latency'' then report_of display_latency
      else if workflow = ''mechanical'' then report_of mechanical
      else if workflow = ''inspection'' then report_of inspection
      else if workflow = ''buttons'' then report_of (button_display False)
      else if workflow = ''shared_display'' then report_of (button_display True)
      else if workflow = ''ble_control'' then report_of ble_control
      else if workflow = ''email'' then report_of email
      else report_of assisted_observation)"

definition run_precheck :: "test_def \<Rightarrow> string \<Rightarrow> string \<Rightarrow> string \<Rightarrow> string \<Rightarrow> (rig, string) act" where
  "run_precheck test check_id log_name key message =
     abind (precheck check_id log_name) (\<lambda>(ok, name).
     athen (metric key (MBool ok)) (athen (failed_when (\<not> ok) message) (areturn (evidence_path test name))))"

definition history_checks :: "string \<Rightarrow> string list" where
  "history_checks test_id = (if test_id = ''BLE-03'' then [''BLE-01'', ''BE-02''] else if test_id = ''SYS-03'' then [''BE-02''] else [])"

definition prechecks :: "test_def \<Rightarrow> (rig, string list) act" where
  "prechecks test =
     abind (if td_id test = ''BE-01'' then
         acollect (run_precheck test ''BE-01'' ''backend-unit-precheck.log'' ''backend_unit_precheck'') [''backend worker automated precheck failed'']
       else areturn []) (\<lambda>unit_logs.
     abind (acollect (\<lambda>check_id. run_precheck test check_id (py_lower check_id @ ''-precheck.log'') (py_lower check_id @ ''_precheck'')
         (check_id @ '' history precheck failed'')) (history_checks (td_id test))) (\<lambda>logs.
     areturn (unit_logs @ logs)))"

definition run_workflow :: "test_def \<Rightarrow> (rig, string list) act" where
  "run_workflow test =
     abind require_box (\<lambda>(up, detail).
     athen (metric ''initial_hardware_check'' (MText detail))
     (if \<not> up then athen (failed detail) (areturn [])
      else abind (prechecks test) (\<lambda>logs.
        abind (chosen_workflow (td_id test) (or_else ''observe'' (td_workflow test))) (\<lambda>(metrics, failures).
        athen (change (\<lambda>s. s\<lparr>rg_metrics := update_all (rg_metrics s) metrics, rg_failures := rg_failures s @ failures\<rparr>))
        (areturn logs)))))"

definition guided_run :: "test_def \<Rightarrow> (rig, observation) act" where
  "guided_run test =
     abind (run_workflow test) (\<lambda>logs. abind write_capture (\<lambda>captures.
     areads (\<lambda>s. \<lparr>ob_failures = rg_failures s, ob_metrics = rg_metrics s, ob_logs = logs, ob_captures = map (evidence_path test) captures,
       ob_artifacts = map (evidence_path test) (sort (dict_keys (rg_files s) @ [''assisted-summary.json''] @ dr_files (rg_driver s)))\<rparr>)))"

text \<open>A guided test of the tool, whose rig is given for every test.\<close>

definition guided_observe :: "(test_def \<Rightarrow> rig) \<Rightarrow> test_def \<Rightarrow> (console, observation) act" where
  "guided_observe world test c = (case guided_run test ((world test)\<lparr>rg_console := c\<rparr>) of (r, s) \<Rightarrow> (r, rg_console s))"

end
