(* ===== verification/Guided_Rules.thy ===== *)
theory Guided_Rules
  imports Guided_Run
begin

section \<open>The qualification tool: rules for guided sessions\<close>

text \<open>
  What the pieces of a session leave alone: most add records only (\<open>quiet\<close>), none takes a failure
  back (\<open>honest\<close>), and a loop over the readings of the clock has readings enough for its turns.
\<close>

subsection \<open>Pieces that only add records\<close>

definition same_notes :: "rig \<Rightarrow> rig \<Rightarrow> bool" where
  "same_notes s s' \<longleftrightarrow> rg_failures s' = rg_failures s \<and> rg_metrics s' = rg_metrics s \<and> rg_float s' = rg_float s
     \<and> rg_first s' = rg_first s"

definition quiet :: "(json \<Rightarrow> bool) \<Rightarrow> ('a \<Rightarrow> bool) \<Rightarrow> (rig, 'a) act \<Rightarrow> bool" where
  "quiet L V m \<longleftrightarrow> (\<forall>s r s'. m s = (r, s') \<longrightarrow> same_notes s s'
     \<and> (\<exists>rs. rg_records s' = rg_records s @ rs \<and> list_all L rs) \<and> (\<forall>v. r = Inr v \<longrightarrow> V v))"

lemma same_notes_refl [simp]: "same_notes s s" by (simp add: same_notes_def)

lemma same_notes_trans: "same_notes s s1 \<Longrightarrow> same_notes s1 s2 \<Longrightarrow> same_notes s s2" by (simp add: same_notes_def)

lemma quietD:
  assumes "quiet L V m" "m s = (r, s')"
  shows "same_notes s s'" "\<exists>rs. rg_records s' = rg_records s @ rs \<and> list_all L rs" "\<And>v. r = Inr v \<Longrightarrow> V v"
  using assms unfolding quiet_def by blast+

lemma quietI:
  assumes "\<And>s. same_notes s (snd (m s)) \<and> (\<exists>rs. rg_records (snd (m s)) = rg_records s @ rs \<and> list_all L rs) \<and> (\<forall>v. fst (m s) = Inr v \<longrightarrow> V v)"
  shows "quiet L V m"
  unfolding quiet_def using assms by (metis fst_conv snd_conv)

lemma quiet_return: "V v \<Longrightarrow> quiet L V (areturn v)" by (rule quietI) auto

lemma quiet_lift: "(\<And>v. r = Inr v \<Longrightarrow> V v) \<Longrightarrow> quiet L V (alift r)" by (rule quietI) auto

lemma quiet_reads: "(\<And>s. V (h s)) \<Longrightarrow> quiet L V (areads h)" by (rule quietI) auto

lemma quiet_with_records: "(\<And>s v. f s = Inr v \<Longrightarrow> V v) \<Longrightarrow> quiet L V (with_records f)"
  by (rule quietI) (auto simp: with_records_def)

lemma quiet_abind:
  assumes "quiet L U m" "\<And>v. U v \<Longrightarrow> quiet L V (f v)"
  shows "quiet L V (abind m f)"
  unfolding quiet_def
proof (intro allI impI)
  fix s r s'
  assume run: "abind m f s = (r, s')"
  obtain r1 s1 where m: "m s = (r1, s1)" by (cases "m s")
  note q = quietD [OF assms(1) m]
  show "same_notes s s' \<and> (\<exists>rs. rg_records s' = rg_records s @ rs \<and> list_all L rs) \<and> (\<forall>v. r = Inr v \<longrightarrow> V v)"
  proof (cases r1)
    case (Inl e)
    then show ?thesis using run m q(1,2) by (auto simp: abind_def)
  next
    case (Inr v)
    then have f: "f v s1 = (r, s')" using run m by (simp add: abind_def)
    note q' = quietD [OF assms(2) [OF q(3) [OF Inr]] f]
    from q(2) q'(2) obtain rs rs' where "rg_records s1 = rg_records s @ rs" "list_all L rs"
      "rg_records s' = rg_records s1 @ rs'" "list_all L rs'" by blast
    then have "rg_records s' = rg_records s @ (rs @ rs') \<and> list_all L (rs @ rs')" by simp
    then show ?thesis using same_notes_trans [OF q(1) q'(1)] q'(3) by blast
  qed
qed

lemma quiet_athen: "quiet L (\<lambda>_. True) m \<Longrightarrow> quiet L V n \<Longrightarrow> quiet L V (athen m n)"
  unfolding athen_def by (rule quiet_abind) auto

lemma quiet_if: "(b \<Longrightarrow> quiet L V m) \<Longrightarrow> (\<not> b \<Longrightarrow> quiet L V n) \<Longrightarrow> quiet L V (if b then m else n)" by simp

lemma quiet_mono: "quiet L V m \<Longrightarrow> (\<And>r. L r \<Longrightarrow> L' r) \<Longrightarrow> (\<And>v. V v \<Longrightarrow> V' v) \<Longrightarrow> quiet L' V' m"
  unfolding quiet_def list_all_iff by blast

lemma quiet_pop:
  assumes "\<And>xs s. same_notes s (put xs s) \<and> rg_records (put xs s) = rg_records s"
  shows "quiet L (\<lambda>_. True) (pop_from get put)"
  by (rule quietI) (auto simp: pop_from_def assms interrupted_def split: list.splits intro!: exI [of _ "[]"])

lemma quiet_taken [intro]:
  "quiet L (\<lambda>_. True) monotonic_now" "quiet L (\<lambda>_. True) counter_ns" "quiet L (\<lambda>_. True) wall_ns" "quiet L (\<lambda>_. True) stamp"
  "quiet L (\<lambda>_. True) next_reply" "quiet L (\<lambda>_. True) uart_get"
  unfolding monotonic_now_def counter_ns_def wall_ns_def stamp_def next_reply_def uart_get_def
  by (rule quiet_pop, simp add: same_notes_def)+

lemma quiet_change:
  assumes "\<And>s. same_notes s (f s) \<and> rg_records (f s) = rg_records s"
  shows "quiet L (\<lambda>_. True) (change f)"
  by (rule quietI) (auto simp: change_def assms intro!: exI [of _ "[]"])

lemma quiet_on_console: "quiet L (\<lambda>_. True) (on_console m)"
  by (rule quietI) (auto simp: on_console_def same_notes_def split: prod.splits)

lemma quiet_asked [intro]: "quiet L (\<lambda>_. True) (ask_choice options)" "quiet L (\<lambda>_. True) ask_text" "quiet L (\<lambda>_. True) ask_float"
  unfolding ask_choice_def ask_text_def ask_float_def by (rule quiet_on_console)+

lemma quiet_env_number [intro]: "quiet L (\<lambda>_. True) (env_number name otherwise low)"
  by (rule quietI) (auto simp: env_number_def Let_def)

lemma quiet_duration [intro]: "quiet L (\<lambda>_. True) (duration seconds)"
  unfolding duration_def by (rule quiet_abind [where U = "\<lambda>_. True"]) (auto intro: quiet_return)

lemma quiet_deadline [intro]: "quiet L (\<lambda>_. True) (deadline_after seconds)"
  unfolding deadline_after_def by (rule quiet_abind [where U = "\<lambda>_. True"], blast, rule quiet_abind [where U = "\<lambda>_. True"]) (auto intro: quiet_return)

text \<open>What an answer of \<open>_safe\<close> looks like.\<close>

definition answer :: "json \<Rightarrow> bool" where
  "answer v \<longleftrightarrow> (\<exists>x. v = JObj [(''ok'', JBool True), (''value'', x)]) \<or> (\<exists>e. v = JObj [(''ok'', JBool False), (''error'', JStr e)])"

lemma quiet_request: "quiet L answer (safe_request verb url payload)"
  unfolding safe_request_def
  by (rule quiet_athen, rule quiet_change, simp add: same_notes_def, rule quiet_abind [OF quiet_taken(5)])
    (auto intro!: quiet_return simp: answer_def split: sum.splits)

lemma quiet_requests: "quiet L answer status_request" "quiet L answer (put_display sensor enabled)"
  unfolding status_request_def put_display_def by (rule quiet_request)+

text \<open>A record of a label, as a snapshot makes it.\<close>

definition snap :: "string \<Rightarrow> json \<Rightarrow> bool" where
  "snap label r \<longleftrightarrow> (\<exists>ns moment b c x. answer b \<and> answer c \<and> answer x \<and> r = JObj [(''label'', JStr label), (''monotonic_ns'', JInt ns),
     (''observed_at_utc'', JStr moment), (''ble_status'', b), (''current'', c), (''samples'', x)])"

lemma quiet_snapshot: "quiet L (snap label) (snapshot label)"
  unfolding snapshot_def
  by (rule quiet_abind [OF quiet_taken(2)], rule quiet_abind [OF quiet_taken(4)], rule quiet_abind [OF quiet_requests(1)],
      rule quiet_abind [OF quiet_request], rule quiet_abind [OF quiet_request])
    (auto intro!: quiet_return simp: snap_def)

lemma snap_label: "snap label r \<Longrightarrow> has_label l r = Inr (label = l)"
  by (auto simp: snap_def has_label_def j_index_def)

lemma quiet_add: "L r \<Longrightarrow> quiet L (\<lambda>_. True) (add_record r)"
  unfolding quiet_def add_record_def change_def same_notes_def by auto

lemma quiet_snapshot_added:
  assumes "\<And>r. snap label r \<Longrightarrow> L r" "\<And>r. snap label r \<Longrightarrow> quiet L V (k r)"
  shows "quiet L V (abind (snapshot label) (\<lambda>r. athen (add_record r) (k r)))"
  by (rule quiet_abind [OF quiet_snapshot], rule quiet_athen) (auto intro: quiet_add assms)

subsection \<open>Loops\<close>

lemma aloop_rule:
  assumes "\<And>b s b' s'. turn b s = (Inr (Inl b'), s') \<Longrightarrow> I b s \<Longrightarrow> I b' s' \<and> R s s'"
    and "\<And>b s c s'. turn b s = (Inr (Inr c), s') \<Longrightarrow> I b s \<Longrightarrow> Q s c s'"
    and "\<And>s s1 c s'. R s s1 \<Longrightarrow> Q s1 c s' \<Longrightarrow> Q s c s'"
    and "aloop n turn b s = (Inr c, s')" "I b s"
  shows "Q s c s'"
  using assms(4,5)
proof (induction n arbitrary: b s)
  case 0
  then show ?case by (simp add: interrupted_def)
next
  case (Suc n)
  from Suc.prems(1) obtain r s1 where t: "turn b s = (Inr r, s1)"
    "(case r of Inl b' \<Rightarrow> aloop n turn b' | Inr c \<Rightarrow> areturn c) s1 = (Inr c, s')"
    by (auto simp: abind_Inr)
  show ?case
  proof (cases r)
    case (Inl b')
    then have go: "turn b s = (Inr (Inl b'), s1)" "aloop n turn b' s1 = (Inr c, s')" using t by simp_all
    have "I b' s1 \<and> R s s1" using assms(1) [OF go(1) Suc.prems(2)] .
    then show ?thesis using Suc.IH [OF go(2)] assms(3) by blast
  next
    case (Inr c')
    then show ?thesis using t assms(2) [OF _ Suc.prems(2)] by auto
  qed
qed

lemmas poll_rule = aloop_rule [where n = "Suc (length (rg_monotonic s))" and s = s, folded poll_def] for s

lemma quiet_aloop:
  assumes "\<And>b. quiet L (\<lambda>r. case r of Inl _ \<Rightarrow> True | Inr c \<Rightarrow> V c) (turn b)"
  shows "quiet L V (aloop n turn b)"
proof (induction n arbitrary: b)
  case 0
  show ?case unfolding aloop.simps by (rule quiet_lift) (simp add: interrupted_def)
next
  case (Suc n)
  show ?case unfolding aloop.simps
    by (rule quiet_abind [OF assms]) (auto intro: Suc.IH quiet_return split: sum.splits)
qed

lemma quiet_poll:
  assumes "\<And>b. quiet L (\<lambda>r. case r of Inl _ \<Rightarrow> True | Inr c \<Rightarrow> V c) (turn b)"
  shows "quiet L V (poll turn b)"
proof -
  have "quiet L V (aloop n turn b)" for n using assms by (rule quiet_aloop)
  then show ?thesis unfolding quiet_def poll_def by blast
qed

text \<open>When every turn that goes on takes a reading of the clock, more turns are never needed.\<close>

definition ticking :: "('b \<Rightarrow> (rig, 'b + 'c) act) \<Rightarrow> bool" where
  "ticking turn \<longleftrightarrow> (\<forall>b s b' s'. turn b s = (Inr (Inl b'), s') \<longrightarrow> length (rg_monotonic s') < length (rg_monotonic s))"

lemma aloop_enough:
  assumes "ticking turn" "length (rg_monotonic s) < n" "n \<le> k"
  shows "aloop k turn b s = aloop n turn b s"
  using assms(2,3)
proof (induction n arbitrary: k b s)
  case (Suc n)
  then obtain k' where k: "k = Suc k'" "n \<le> k'" by (cases k) auto
  have "(case r of Inl b' \<Rightarrow> aloop k' turn b' | Inr c \<Rightarrow> areturn c) s' = (case r of Inl b' \<Rightarrow> aloop n turn b' | Inr c \<Rightarrow> areturn c) s'"
    if "turn b s = (Inr r, s')" for r s'
  proof (cases r)
    case (Inl b')
    then have "length (rg_monotonic s') < length (rg_monotonic s)" using that assms(1) unfolding ticking_def by blast
    then show ?thesis using Inl Suc.IH [of s' k' b'] Suc.prems(1) k(2) by simp
  qed simp
  then show ?case unfolding k by (simp add: abind_def split: prod.splits sum.splits)
qed simp

lemma poll_enough: "ticking turn \<Longrightarrow> length (rg_monotonic s) < n \<Longrightarrow> aloop n turn b s = poll turn b s"
  unfolding poll_def using aloop_enough [of turn s "Suc (length (rg_monotonic s))" n] by simp

subsection \<open>Captures\<close>

lemma quiet_capture_turn: "quiet (snap label) (\<lambda>r. case r of Inl _ \<Rightarrow> True | Inr c \<Rightarrow> True) (capture_turn label deadline u)"
  unfolding capture_turn_def
  by (rule quiet_snapshot_added, assumption, rule quiet_abind [OF quiet_taken(1)]) (auto intro!: quiet_return)

lemma quiet_capture: "quiet (snap label) (\<lambda>_. True) (capture label seconds)"
  unfolding capture_def
  by (rule quiet_abind [OF quiet_duration], rule quiet_abind [OF quiet_taken(1)], rule quiet_poll, rule quiet_capture_turn)

lemma capture_adds:
  assumes "capture label seconds s = (Inr u, s')"
  shows "\<exists>rs. rg_records s' = rg_records s @ rs \<and> list_all (snap label) rs" "same_notes s s'"
  using quietD [OF quiet_capture assms] by auto

subsection \<open>No failure is taken back\<close>

abbreviation honest :: "(rig, 'a) act \<Rightarrow> bool" where "honest \<equiv> keeps (\<lambda>s. rg_failures s \<noteq> [])"

lemma quiet_honest: "quiet L V m \<Longrightarrow> honest m"
  unfolding keeps_def quiet_def same_notes_def by (metis prod.collapse)

lemma honest_athen: "honest m \<Longrightarrow> honest n \<Longrightarrow> honest (athen m n)"
  unfolding athen_def by (rule keeps_abind) auto

lemma honest_failed: "honest (failed text)" "honest (failed_when b text)" "honest (blocked text)" "honest (give_up d text)"
  by (auto simp: keeps_def failed_def failed_when_def blocked_def give_up_def change_def)

lemma honest_metric: "honest (metric k v)" "honest (add_record r)" "honest (write_text n text)"
  by (auto simp: keeps_def metric_def add_record_def write_text_def change_def)

lemma honest_change: "(\<And>s. rg_failures (f s) = rg_failures s) \<Longrightarrow> honest (change f)"
  by (auto simp: keeps_def change_def)

lemma honest_aeach: "(\<And>x. honest (f x)) \<Longrightarrow> honest (aeach f xs)"
  by (induction xs) (auto intro: honest_athen)

lemma honest_with_records: "honest (with_records f)"
  by (rule quiet_honest [OF quiet_with_records [where V = "\<lambda>_. True"]]) auto

lemma honest_asked: "honest (ask_choice options)" "honest ask_text" "honest ask_float"
  using quiet_honest quiet_asked by blast+

text \<open>So a session without failures at its end had none before.\<close>

lemma honest_back: "honest m \<Longrightarrow> m s = (r, s') \<Longrightarrow> rg_failures s' = [] \<Longrightarrow> rg_failures s = []"
  unfolding keeps_def by (metis snd_conv)

lemma failed_when_none:
  "failed_when b text s = (r, s') \<Longrightarrow> rg_failures s' = [] \<Longrightarrow> \<not> b \<and> s' = s"
  by (auto simp: failed_when_def failed_def change_def split: if_splits)

lemma athen_Inr: "athen m n s = (Inr v, t) \<longleftrightarrow> (\<exists>u s'. m s = (Inr u, s') \<and> n s' = (Inr v, t))"
  by (simp add: athen_def abind_Inr)

lemma failed_simps [simp]:
  "failed text s = (Inr (), s\<lparr>rg_failures := rg_failures s @ [text]\<rparr>)"
  "metric k v s = (Inr (), s\<lparr>rg_metrics := dict_set k v (rg_metrics s)\<rparr>)"
  "blocked text s = (Inr (), s\<lparr>rg_failures := rg_failures s @ [blocked_mark @ text]\<rparr>)"
  "give_up d text s = (Inr (), s\<lparr>rg_metrics := d, rg_failures := [text]\<rparr>)"
  "add_record r s = (Inr (), s\<lparr>rg_records := rg_records s @ [r]\<rparr>)"
  "change f s = (Inr (), f s)"
  "write_text n x s = (Inr (), s\<lparr>rg_files := dict_set n x (rg_files s)\<rparr>)"
  by (simp_all add: failed_def metric_def blocked_def give_up_def add_record_def write_text_def change_def)

lemma failed_when_simp: "failed_when b text s = (Inr (), if b then s\<lparr>rg_failures := rg_failures s @ [text]\<rparr> else s)"
  by (simp add: failed_when_def)

end
