(* ===== verification/Guided_Props.thy ===== *)
theory Guided_Props
  imports Guided_Rules Qualification_Props
begin

section \<open>The qualification tool: what a passing guided test has seen\<close>

text \<open>
  A guided test passes only when its workflow noted no failure, and then the records it captured show
  what the test asks for: a power cycle that was seen and overcome, sensors that failed and recovered, a
  history that was read completely. The last part shows what the checks do not see.
\<close>

subsection \<open>From the outcome to the workflow\<close>

lemma photo_step_pass:
  assumes "photo_step b defer_photos test r c = (Inr r', c')" "tr_outcome r' = ''PASS''"
  shows "tr_outcome r = ''PASS''"
proof -
  have d: "tr_outcome (demote r) \<noteq> ''PASS''" by (simp add: demote_def)
  show ?thesis using assms d by (auto simp: photo_step_def abind_Inr split: if_splits)
qed

lemma pass_has_no_failures:
  assumes "run_assisted b observe test defer_photos r c = (Inr r', c')" "tr_outcome r' = ''PASS''"
  shows "\<exists>ob c1. observe test c = (Inr ob, c1) \<and> ob_failures ob = []"
proof -
  from assms(1) obtain ob c1 where ob: "observe test c = (Inr ob, c1)"
    and rest: "photo_step b defer_photos test
       (r\<lparr>tr_metrics := ob_metrics ob,
          tr_evidence := add_new (ob_artifacts ob) (tr_evidence r @ ob_logs ob @ ob_captures ob @ [evidence_path test ''assisted-summary.json'']),
          tr_duration_ms := bn_elapsed b (td_id test), tr_outcome := assisted_verdict (ob_failures ob),
          tr_failure_reason := (if test_failures (ob_failures ob) @ blocked_reasons (ob_failures ob) \<noteq> []
             then Some (py_join ''; '' (test_failures (ob_failures ob) @ blocked_reasons (ob_failures ob))) else tr_failure_reason r)\<rparr>) c1 = (Inr r', c')"
    unfolding run_assisted_def abind_Inr Let_def by blast
  have "assisted_verdict (ob_failures ob) = ''PASS''"
    using photo_step_pass [OF rest assms(2)] by simp
  then have "test_failures (ob_failures ob) = []" "blocked_reasons (ob_failures ob) = []"
    unfolding assisted_verdict_def by (auto split: if_splits)
  then have "ob_failures ob = []"
    unfolding test_failures_def blocked_reasons_def by (cases "ob_failures ob") (auto split: if_splits)
  then show ?thesis using ob by blast
qed

abbreviation keeps_records :: "json list \<Rightarrow> (rig, 'a) act \<Rightarrow> bool" where "keeps_records R \<equiv> keeps (\<lambda>s. rg_records s = R)"

lemma quiet_keeps_records: "quiet (\<lambda>_. False) V m \<Longrightarrow> keeps_records R m"
  unfolding keeps_def quiet_def by (metis append_Nil2 list.pred_inject(2) list.exhaust prod.collapse)

lemma quiet_displays: "quiet L (\<lambda>_. True) display_states" "quiet L (\<lambda>_. True) ready_box"
  unfolding display_states_def ready_box_def
  by (rule quiet_abind [OF quiet_requests(1)], auto intro!: quiet_lift quiet_abind [OF quiet_reads [where V = "\<lambda>_. True"]])+

lemma quiet_require_box: "quiet L (\<lambda>_. True) require_box"
proof -
  have turn: "quiet L (\<lambda>r. case r of Inl _ \<Rightarrow> True | Inr c \<Rightarrow> True) (require_turn d x)" for d x
    unfolding require_turn_def
    by (rule quiet_abind [OF quiet_taken(1)]) (auto intro!: quiet_return quiet_abind [OF quiet_displays(2)] quiet_if split: prod.splits sum.splits)
  show ?thesis
    unfolding require_box_def
    by (rule quiet_abind [OF quiet_displays(2)])
      (auto intro!: quiet_return quiet_abind [OF quiet_asked(1)] quiet_abind [OF quiet_deadline] quiet_poll turn split: prod.splits)
qed

lemma keeps_noting: "keeps_records R (failed_when b text)" "keeps_records R (metric k v)" "keeps_records R (write_text n x)"
  "keeps_records R (failed text)"
  by (auto simp: keeps_def failed_when_simp)

lemma keeps_athen: "keeps P m \<Longrightarrow> keeps P n \<Longrightarrow> keeps P (athen m n)"
  unfolding athen_def by (rule keeps_abind) auto

lemma keeps_acollect: "(\<And>x. keeps P (f x)) \<Longrightarrow> keeps P (acollect f xs)"
  by (induction xs) (auto intro!: keeps_abind)

lemma prechecks_keep: "keeps_records R (prechecks test)" "honest (prechecks test)"
proof -
  have p: "keeps_records R (precheck i l)" "honest (precheck i l)" for i l
    by (auto simp: keeps_def precheck_def abind_def athen_def split: sum.splits prod.splits)
  have r: "keeps_records R (run_precheck test i l k m)" "honest (run_precheck test i l k m)" for i l k m
    unfolding run_precheck_def
    by (auto intro!: keeps_abind p keeps_athen keeps_noting honest_athen honest_metric honest_failed split: prod.splits)
  show "keeps_records R (prechecks test)" "honest (prechecks test)"
    unfolding prechecks_def by (auto intro!: keeps_abind keeps_acollect r keeps_if)
qed

text \<open>A workflow whose report has no failure ran without noting one.\<close>

lemma report_clean:
  assumes "report_of m s = (Inr (d, []), s')"
  shows "\<exists>t. m (s\<lparr>rg_metrics := [], rg_failures := []\<rparr>) = (Inr (), t) \<and> rg_failures t = [] \<and> rg_metrics t = d \<and> rg_records s' = rg_records t
    \<and> rg_float s' = rg_float t"
  using assms unfolding report_of_def by (auto simp: rbind_Inr_iff split: prod.splits)

lemma run_workflow_clean:
  assumes "run_workflow test s = (Inr logs, s')" "rg_failures s' = []"
  shows "\<exists>s1 s2 d. chosen_workflow (td_id test) (or_else ''observe'' (td_workflow test)) s1 = (Inr (d, []), s2)
    \<and> rg_records s1 = rg_records s \<and> rg_records s' = rg_records s2 \<and> rg_float s' = rg_float s2"
proof -
  from assms(1) obtain up detail sa where box: "require_box s = (Inr (up, detail), sa)"
    and rest: "(athen (metric ''initial_hardware_check'' (MText detail))
     (if \<not> up then athen (failed detail) (areturn [])
      else abind (prechecks test) (\<lambda>logs.
        abind (chosen_workflow (td_id test) (or_else ''observe'' (td_workflow test))) (\<lambda>(metrics, failures).
        athen (change (\<lambda>s. s\<lparr>rg_metrics := update_all (rg_metrics s) metrics, rg_failures := rg_failures s @ failures\<rparr>))
        (areturn logs))))) sa = (Inr logs, s')"
    unfolding run_workflow_def abind_Inr by (auto split: prod.splits)
  have up: up using rest assms(2) by (cases up) (auto simp: athen_Inr)
  from rest up obtain ls sb sc d f where pre: "prechecks test (sa\<lparr>rg_metrics := dict_set ''initial_hardware_check'' (MText detail) (rg_metrics sa)\<rparr>) = (Inr ls, sb)"
    and ch: "chosen_workflow (td_id test) (or_else ''observe'' (td_workflow test)) sb = (Inr (d, f), sc)"
    and s': "s' = sc\<lparr>rg_metrics := update_all (rg_metrics sc) d, rg_failures := rg_failures sc @ f\<rparr>"
    by (auto simp: athen_Inr abind_Inr split: prod.splits)
  have "rg_records sa = rg_records s"
    using quiet_keeps_records [OF quiet_require_box, of "rg_records s"] box unfolding keeps_def by (metis snd_conv)
  moreover have "rg_records sb = rg_records sa"
  proof -
    have "rg_records (snd (prechecks test (sa\<lparr>rg_metrics := dict_set ''initial_hardware_check'' (MText detail) (rg_metrics sa)\<rparr>))) = rg_records sa"
      by (rule keepsD [OF prechecks_keep(1)]) simp
    then show ?thesis using pre by simp
  qed
  moreover have "f = []" using assms(2) s' by simp
  ultimately show ?thesis using ch s' by auto
qed

lemma write_capture_keeps:
  assumes "write_capture s = (Inr v, s')"
  shows "rg_records s' = rg_records s" "rg_failures s' = rg_failures s" "rg_float s' = rg_float s"
  using assms by (auto simp: write_capture_def Let_def athen_Inr abind_Inr)

text \<open>The rig of a passing test: what it holds at the end, and the run of the workflow in it.\<close>

lemma guided_pass:
  assumes "run_assisted b (guided_observe world) test defer_photos r c = (Inr r', c')" "tr_outcome r' = ''PASS''"
  shows "\<exists>ob s s1 s2 d. guided_run test ((world test)\<lparr>rg_console := c\<rparr>) = (Inr ob, s) \<and> rg_records s = rg_records s2 \<and> rg_float s = rg_float s2
    \<and> rg_records s1 = rg_records (world test)
    \<and> chosen_workflow (td_id test) (or_else ''observe'' (td_workflow test)) s1 = (Inr (d, []), s2)"
proof -
  from pass_has_no_failures [OF assms] obtain ob c1 where "guided_observe world test c = (Inr ob, c1)" and none: "ob_failures ob = []" by blast
  then obtain s where run: "guided_run test ((world test)\<lparr>rg_console := c\<rparr>) = (Inr ob, s)"
    unfolding guided_observe_def by (auto split: prod.splits)
  then obtain logs sa caps where w: "run_workflow test ((world test)\<lparr>rg_console := c\<rparr>) = (Inr logs, sa)"
    and cap: "write_capture sa = (Inr caps, s)" and ob: "ob_failures ob = rg_failures s"
    unfolding guided_run_def abind_Inr by auto
  have "rg_failures sa = []" using none ob write_capture_keeps(2) [OF cap] by simp
  from run_workflow_clean [OF w this] show ?thesis using run write_capture_keeps(1,3) [OF cap] by auto
qed

text \<open>And a workflow without failures, whose records can be written, passes.\<close>

lemma pass_intro:
  assumes "case run_workflow test ((world test)\<lparr>rg_console := c\<rparr>) of
      (Inr _, s) \<Rightarrow> rg_failures s = [] \<and> \<not> isl (timeline (rg_float s) (rg_records s) []) | _ \<Rightarrow> False"
    and "\<not> td_requires_photo test"
  shows "\<exists>r' c'. run_assisted b (guided_observe world) test defer_photos r c = (Inr r', c') \<and> tr_outcome r' = ''PASS''"
proof -
  from assms(1) obtain logs s lines where w: "run_workflow test ((world test)\<lparr>rg_console := c\<rparr>) = (Inr logs, s)"
    and s: "rg_failures s = []" "timeline (rg_float s) (rg_records s) [] = Inr lines"
    by (cases "run_workflow test ((world test)\<lparr>rg_console := c\<rparr>)"; cases "fst (run_workflow test ((world test)\<lparr>rg_console := c\<rparr>))";
        cases "timeline (rg_float (snd (run_workflow test ((world test)\<lparr>rg_console := c\<rparr>)))) (rg_records (snd (run_workflow test ((world test)\<lparr>rg_console := c\<rparr>)))) []") auto
  have "\<exists>caps s1. write_capture s = (Inr caps, s1) \<and> rg_failures s1 = []"
    using s by (simp add: write_capture_def Let_def athen_def abind_def)
  then obtain ob s1 where "guided_run test ((world test)\<lparr>rg_console := c\<rparr>) = (Inr ob, s1)" "ob_failures ob = []"
    using w unfolding guided_run_def abind_def by auto
  then show ?thesis
    using assms(2) by (simp add: run_assisted_def abind_def guided_observe_def photo_step_def Let_def assisted_verdict_def
        test_failures_def blocked_reasons_def)
qed

subsection \<open>A power cycle\<close>

lemma r_filter_Inr: "r_filter p xs = Inr ys \<Longrightarrow> x \<in> set ys \<Longrightarrow> x \<in> set xs \<and> p x = Inr True"
  by (induction xs arbitrary: ys) (auto simp: rbind_Inr_iff split: if_splits)

lemma r_any_True: "r_any p xs = Inr True \<Longrightarrow> \<exists>x\<in>set xs. p x = Inr True"
  by (induction xs) (auto simp: rbind_Inr_iff split: if_splits)

lemma link_lost_seen:
  assumes "link_lost label s = (Inr True, s')"
  shows "\<exists>r\<in>set (rg_records s). has_label label r = Inr True \<and> box_connected r = Inr False"
proof -
  from assms obtain rs where rs: "r_filter (has_label label) (rg_records s) = Inr rs"
    and any: "r_any (\<lambda>r. rbind (box_connected r) (\<lambda>b. Inr (\<not> b))) rs = Inr True"
    unfolding link_lost_def with_records_def by (auto simp: rbind_Inr_iff)
  from r_any_True [OF any] obtain r where "r \<in> set rs" "box_connected r = Inr False" by (auto simp: rbind_Inr_iff)
  then show ?thesis using r_filter_Inr [OF rs] by blast
qed

text \<open>What the loop that waits for the box ends with.\<close>

definition recovered_by :: "rig \<Rightarrow> int option option \<Rightarrow> rig \<Rightarrow> bool" where
  "recovered_by s found s' \<longleftrightarrow> rg_failures s' = rg_failures s \<and> (case found of None \<Rightarrow> True | Some after \<Rightarrow>
     (\<exists>attempts final rows. rg_records s' = rg_records s @ attempts @ [final] \<and> list_all (snap ''automatic_reconnect'') attempts
       \<and> snap ''automatic_reconnect'' final \<and> box_connected final = Inr True \<and> read_rows final = Inr rows \<and> rows \<noteq> []
       \<and> boot_id_of final = Inr after))"

lemma cycle_turn_cases:
  assumes "cycle_turn deadline u s = (Inr r, s')"
  shows "(\<exists>item. r = Inl () \<and> snap ''automatic_reconnect'' item \<and> rg_records s' = rg_records s @ [item] \<and> rg_failures s' = rg_failures s)
    \<or> (\<exists>found. r = Inr found \<and> recovered_by s found s')"
proof -
  from assms obtain now s1 where m: "monotonic_now s = (Inr now, s1)" unfolding cycle_turn_def abind_Inr by blast
  have 1: "rg_records s1 = rg_records s" "rg_failures s1 = rg_failures s"
    using quietD(1) [OF quiet_taken(1) m] m by (auto simp: same_notes_def monotonic_now_def pop_from_def interrupted_def split: list.splits)
  show ?thesis
  proof (cases "now < deadline")
    case False
    then show ?thesis using assms m 1 unfolding cycle_turn_def abind_Inr by (auto simp: recovered_by_def)
  next
    case True
    from assms obtain now' s1' where "monotonic_now s = (Inr now', s1')" "(if \<not> now' < deadline then areturn (Inr None)
     else abind (snapshot ''automatic_reconnect'') (\<lambda>item. athen (add_record item)
       (abind (alift (rbind (box_connected item) (\<lambda>up. if up then rbind (read_rows item) (\<lambda>rows. Inr (rows \<noteq> [])) else Inr False))) (\<lambda>recovered.
       if recovered then abind (alift (boot_id_of item)) (\<lambda>after. areturn (Inr (Some after))) else areturn (Inl ()))))) s1' = (Inr r, s')"
      unfolding cycle_turn_def abind_Inr by blast
    then obtain item s2 where i: "snapshot ''automatic_reconnect'' s1 = (Inr item, s2)"
      and rest: "(athen (add_record item)
       (abind (alift (rbind (box_connected item) (\<lambda>up. if up then rbind (read_rows item) (\<lambda>rows. Inr (rows \<noteq> [])) else Inr False))) (\<lambda>recovered.
       if recovered then abind (alift (boot_id_of item)) (\<lambda>after. areturn (Inr (Some after))) else areturn (Inl ())))) s2 = (Inr r, s')"
      using m True by (auto simp: abind_Inr)
    have 2: "snap ''automatic_reconnect'' item" "rg_failures s2 = rg_failures s" "rg_records s2 = rg_records s"
      using quietD [OF quiet_snapshot [where L = "\<lambda>_. False"] i] 1 by (auto simp: same_notes_def list_all_iff)
    from rest 2 show ?thesis
      by (auto simp: athen_Inr abind_Inr rbind_Inr_iff recovered_by_def list_all_iff split: if_splits)
  qed
qed

lemma cycle_found:
  assumes "poll (cycle_turn deadline) () s = (Inr found, s')"
  shows "recovered_by s found s'"
proof (rule poll_rule [where R = "\<lambda>s s1. rg_failures s1 = rg_failures s \<and> (\<exists>rs. rg_records s1 = rg_records s @ rs \<and> list_all (snap ''automatic_reconnect'') rs)"
      and I = "\<lambda>_ _. True" and Q = recovered_by, OF _ _ _ assms])
  show "recovered_by s c s'" if "rg_failures s1 = rg_failures s \<and> (\<exists>rs. rg_records s1 = rg_records s @ rs \<and> list_all (snap ''automatic_reconnect'') rs)"
    "recovered_by s1 c s'" for s s1 c s'
  proof (cases c)
    case None
    then show ?thesis using that by (auto simp: recovered_by_def)
  next
    case (Some after)
    from that(1) obtain rs where rs: "rg_failures s1 = rg_failures s" "rg_records s1 = rg_records s @ rs" "list_all (snap ''automatic_reconnect'') rs" by blast
    from that(2) Some obtain attempts final rows where f: "rg_failures s' = rg_failures s1" "rg_records s' = rg_records s1 @ attempts @ [final]"
      "list_all (snap ''automatic_reconnect'') attempts" "snap ''automatic_reconnect'' final" "box_connected final = Inr True"
      "read_rows final = Inr rows" "rows \<noteq> []" "boot_id_of final = Inr after"
      unfolding recovered_by_def by auto
    have "rg_records s' = rg_records s @ (rs @ attempts) @ [final]" "list_all (snap ''automatic_reconnect'') (rs @ attempts)"
      using rs f by simp_all
    then show ?thesis using rs(1) f Some unfolding recovered_by_def by auto
  qed
qed (use cycle_turn_cases in \<open>fastforce simp: list_all_iff\<close>)+

text \<open>The end of the workflow, and the whole of it, without a failure.\<close>

lemma power_on_clean:
  assumes "power_on saw_loss before s = (Inr u, s')" "rg_failures s' = []"
  shows "saw_loss \<and> (\<exists>after s1. recovered_by s (Some after) s1 \<and> boot_changed before after \<and> rg_records s' = rg_records s1)"
proof -
  from assms(1) obtain start sa deadline sb found sc now sd where
    a: "counter_ns s = (Inr start, sa)" and b: "deadline_after 10 sa = (Inr deadline, sb)"
    and c: "poll (cycle_turn deadline) () sb = (Inr found, sc)" and d: "counter_ns sc = (Inr now, sd)"
    and rest: "(athen (failed_when (\<not> saw_loss) ''backend did not expose link/power loss'')
     (athen (case found of
        None \<Rightarrow> failed ''backend/database did not recover automatically within 10 seconds''
      | Some after \<Rightarrow> failed_when (\<not> boot_changed before after)
          ''ESP32 boot identity did not change across OFF/ON; check for USB/UART back-power'')
     (change (\<lambda>s. s\<lparr>rg_metrics := cycle_metrics saw_loss found (elapsed_ms start now) before\<rparr>)))) sd = (Inr u, s')"
    unfolding power_on_def abind_Inr by blast
  have "rg_records sb = rg_records s" "rg_failures sb = rg_failures s"
    using quietD [OF quiet_taken(2) [where L = "\<lambda>_. False"] a] quietD [OF quiet_deadline [where L = "\<lambda>_. False"] b]
    by (auto simp: same_notes_def list_all_iff)
  then have f: "recovered_by s found sc" using cycle_found [OF c] unfolding recovered_by_def by (auto split: option.splits)
  have "rg_records sd = rg_records sc"
    using quietD(2) [OF quiet_taken(2) [where L = "\<lambda>_. False"] d] by (auto simp: list_all_iff)
  then have r: "saw_loss" "\<exists>after. found = Some after \<and> boot_changed before after" "rg_records s' = rg_records sc"
    using rest assms(2) by (auto simp: athen_Inr failed_when_simp split: option.splits if_splits)
  then show ?thesis using f by blast
qed

definition power_cycle_seen :: "json list \<Rightarrow> bool" where
  "power_cycle_seen records \<longleftrightarrow> (\<exists>before off attempts final rows i j. records = before # off @ attempts @ [final]
    \<and> list_all (snap ''box_powered_off'') off \<and> list_all (snap ''automatic_reconnect'') (attempts @ [final])
    \<and> list_ex (\<lambda>r. box_connected r = Inr False) off
    \<and> box_connected final = Inr True \<and> read_rows final = Inr rows \<and> rows \<noteq> []
    \<and> boot_id_of before = Inr (Some i) \<and> boot_id_of final = Inr (Some j) \<and> i \<noteq> j)"

lemma power_cycle_clean:
  assumes "power_cycle_recovery s = (Inr u, s')" "rg_failures s' = []" "rg_records s = []"
  shows "power_cycle_seen (rg_records s')"
proof -
  from assms(1) obtain before sa where sn: "snapshot ''before_box_power_off'' s = (Inr before, sa)"
    and rest: "(athen (add_record before)
     (abind (alift (boot_id_of before)) (\<lambda>boot_id_before.
     abind (ask_choice [''Powered off'', ''Cannot perform - fail'']) (\<lambda>answer.
     if blocks answer then give_up [] (blocked_mark @ ''third-box power-off action was not performed'')
     else athen (capture ''box_powered_off'' 8)
       (abind (link_lost ''box_powered_off'') (\<lambda>saw_loss.
       abind (ask_choice [''Powered on - start automatic reconnect timer'', ''Cannot perform - fail'']) (\<lambda>answer.
       if blocks answer then give_up [(''link_loss_observed'', MBool saw_loss)] (blocked_mark @ ''third-box power-on action was not performed'')
       else power_on saw_loss boot_id_before))))))) sa = (Inr u, s')"
    unfolding power_cycle_recovery_def abind_Inr by blast
  have ra: "rg_records sa = []" "snap ''before_box_power_off'' before"
    using quietD [OF quiet_snapshot [where L = "\<lambda>_. False"] sn] assms(3) by (auto simp: list_all_iff)
  from rest obtain bi answer sb where bi: "boot_id_of before = Inr bi"
    and ch: "ask_choice [''Powered off'', ''Cannot perform - fail''] (sa\<lparr>rg_records := rg_records sa @ [before]\<rparr>) = (Inr answer, sb)"
    and rest: "(if blocks answer then give_up [] (blocked_mark @ ''third-box power-off action was not performed'')
     else athen (capture ''box_powered_off'' 8)
       (abind (link_lost ''box_powered_off'') (\<lambda>saw_loss.
       abind (ask_choice [''Powered on - start automatic reconnect timer'', ''Cannot perform - fail'']) (\<lambda>answer.
       if blocks answer then give_up [(''link_loss_observed'', MBool saw_loss)] (blocked_mark @ ''third-box power-on action was not performed'')
       else power_on saw_loss bi)))) sb = (Inr u, s')"
    by (auto simp: athen_Inr abind_Inr)
  have rb: "rg_records sb = [before]"
    using quietD(2) [OF quiet_asked(1) [where L = "\<lambda>_. False"] ch] ra by (auto simp: list_all_iff)
  have "\<not> blocks answer" using rest assms(2) by auto
  with rest obtain v sc saw sd answer2 se where cap: "capture ''box_powered_off'' 8 sb = (Inr v, sc)"
    and ll: "link_lost ''box_powered_off'' sc = (Inr saw, sd)"
    and ch2: "ask_choice [''Powered on - start automatic reconnect timer'', ''Cannot perform - fail''] sd = (Inr answer2, se)"
    and rest: "(if blocks answer2 then give_up [(''link_loss_observed'', MBool saw)] (blocked_mark @ ''third-box power-on action was not performed'')
       else power_on saw bi) se = (Inr u, s')"
    by (auto simp: athen_Inr abind_Inr)
  have "\<not> blocks answer2" using rest assms(2) by auto
  with rest have on: "power_on saw bi se = (Inr u, s')" by simp
  from capture_adds(1) [OF cap] rb obtain off where off: "rg_records sc = before # off" "list_all (snap ''box_powered_off'') off" by auto
  have re: "rg_records se = before # off"
    using quietD(2) [OF quiet_asked(1) [where L = "\<lambda>_. False"] ch2] ll off by (auto simp: list_all_iff link_lost_def with_records_def)
  from power_on_clean [OF on assms(2)] obtain aft s1 where saw: saw and rec: "recovered_by se (Some aft) s1"
    and boots: "boot_changed bi aft" and r': "rg_records s' = rg_records s1" by blast
  from saw ll have "link_lost ''box_powered_off'' sc = (Inr True, sd)" by simp
  from link_lost_seen [OF this] have lost: "list_ex (\<lambda>r. box_connected r = Inr False) off"
    using off snap_label [OF ra(2)] by (auto simp: list_ex_iff)
  from rec obtain attempts final rows where "rg_records s1 = before # off @ attempts @ [final]"
    "list_all (snap ''automatic_reconnect'') (attempts @ [final])" "box_connected final = Inr True" "read_rows final = Inr rows" "rows \<noteq> []"
    "boot_id_of final = Inr aft"
    unfolding recovered_by_def re by auto
  moreover obtain i j where "bi = Some i" "aft = Some j" "i \<noteq> j" using boots unfolding boot_changed_def by auto
  ultimately show ?thesis using off(2) lost bi unfolding power_cycle_seen_def r'
    by (intro exI [of _ before] exI [of _ off] exI [of _ attempts] exI [of _ final] exI [of _ rows] exI [of _ i] exI [of _ j]) simp
qed

text \<open>
  C37: A guided reconnect test passes only on evidence of a real power cycle. Its records are a snapshot
  before, snapshots taken while the operator had switched the box off, at least one of them without a
  link, then attempts after it was switched on, the last one with a connected and ready link and rows
  from the database; the identity of the boot before and after is known and differs.
\<close>

theorem reconnect_pass_evidenced:
  assumes "run_assisted b (guided_observe world) test defer_photos r console = (Inr r', console')"
    and "tr_outcome r' = ''PASS''" "td_workflow test = Some ''reconnect''" "rg_records (world test) = []"
  shows "\<exists>ob s. guided_run test ((world test)\<lparr>rg_console := console\<rparr>) = (Inr ob, s) \<and> power_cycle_seen (rg_records s)"
proof -
  from guided_pass [OF assms(1,2)] obtain ob s s1 s2 d where run: "guided_run test ((world test)\<lparr>rg_console := console\<rparr>) = (Inr ob, s)"
    and rs: "rg_records s = rg_records s2" "rg_records s1 = []"
    and ch: "chosen_workflow (td_id test) (or_else ''observe'' (td_workflow test)) s1 = (Inr (d, []), s2)"
    using assms(4) by auto
  have "report_of power_cycle_recovery s1 = (Inr (d, []), s2)" using ch assms(3) by (simp add: chosen_workflow_def or_else_def)
  from report_clean [OF this] obtain t where t: "power_cycle_recovery (s1\<lparr>rg_metrics := [], rg_failures := []\<rparr>) = (Inr (), t)"
    "rg_failures t = []" "rg_records s2 = rg_records t" by blast
  have "rg_records (s1\<lparr>rg_metrics := [], rg_failures := []\<rparr>) = []" using rs by simp
  from power_cycle_clean [OF t(1,2) this] show ?thesis using run rs(1) t(3) by auto
qed

text \<open>A box that is switched off and on.\<close>

definition status_reply :: "bool \<Rightarrow> string + json" where
  "status_reply up = Inr (JObj [(''connected'', JBool up), (''ready'', JBool up)])"

definition current_reply :: "int \<Rightarrow> string + json" where
  "current_reply boot = Inr (JObj [(''snapshot'', JObj [(''boot_id'', JInt boot)])])"

definition samples_reply :: "json list \<Rightarrow> string + json" where
  "samples_reply rows = Inr (JObj [(''rows'', JArr rows)])"

definition live_row :: json where
  "live_row = JObj [(''observed_at_utc'', JStr ''t1''), (''sensor1_status'', JStr ''VALID''), (''sensor1_c'', JFloat 21)]"

definition sample_rig :: rig where
  "sample_rig = \<lparr>rg_console = \<lparr>con_lines = [], con_uart_port = None\<rparr>, rg_env = [],
     rg_monotonic = [0, 9, 9, 10], rg_counter = [1, 2, 3, 4, 5], rg_wall = [], rg_stamps = [''a'', ''b'', ''c''],
     rg_replies = [status_reply True, status_reply True, current_reply 1, samples_reply [live_row],
       Inl ''URLError: refused'', Inl ''URLError: refused'', samples_reply [live_row],
       status_reply True, current_reply 2, samples_reply [live_row]],
     rg_uart = [], rg_serial = (\<lambda>_ _. Inr ()), rg_python = ''python'', rg_check = (\<lambda>_. Inr (0, [], [])), rg_first = hd,
     rg_float = (\<lambda>_. ''x''), rg_sent = [], rg_records = [], rg_uart_dump = [],
     rg_driver = \<lparr>dr_source = [], dr_node = None, dr_script = [], dr_script_exists = False, dr_lines = [], dr_end = None, dr_files = []\<rparr>,
     rg_files = [], rg_failures = [], rg_metrics = []\<rparr>"

definition reconnect_test :: test_def where
  "reconnect_test = (sample_test ''BLE-04'')\<lparr>td_workflow := Some ''reconnect'', td_requires_photo := False\<rparr>"

definition two_ones :: console where "two_ones = \<lparr>con_lines = [''1'', ''1''], con_uart_port = None\<rparr>"

lemma reconnect_sample:
  "(case base_result sample_bench ''r'' reconnect_test [] [] of Inl e \<Rightarrow> False | Inr r \<Rightarrow>
     (case run_assisted sample_bench (guided_observe (\<lambda>_. sample_rig)) reconnect_test False r two_ones of
        (Inr r', c) \<Rightarrow> tr_outcome r' = ''PASS'' | _ \<Rightarrow> False))"
  by code_simp

theorem reconnect_pass_evidenced_witness:
  "\<exists>r r' c ob s. run_assisted sample_bench (guided_observe (\<lambda>_. sample_rig)) reconnect_test False r two_ones = (Inr r', c)
    \<and> tr_outcome r' = ''PASS'' \<and> guided_run reconnect_test (sample_rig\<lparr>rg_console := two_ones\<rparr>) = (Inr ob, s) \<and> power_cycle_seen (rg_records s)"
proof -
  from reconnect_sample obtain r r' c where
    run: "run_assisted sample_bench (guided_observe (\<lambda>_. sample_rig)) reconnect_test False r two_ones = (Inr r', c)" "tr_outcome r' = ''PASS''"
    by (auto split: sum.splits prod.splits)
  have "td_workflow reconnect_test = Some ''reconnect''" "rg_records sample_rig = []"
    by (simp_all add: reconnect_test_def sample_rig_def)
  from reconnect_pass_evidenced [OF run this] run show ?thesis by blast
qed

end
