(* ===== verification/Guided_Evidence.thy ===== *)
theory Guided_Evidence
  imports Guided_Props
begin

section \<open>The qualification tool: sensors and histories of passing guided tests\<close>

text \<open>
  What the records of a passing sensor test and of a passing history test show, with the rules for the
  records of a phase: records of other phases do not change its rows.
\<close>

subsection \<open>Records of other phases\<close>

lemma gather_rows_append:
  "list_all (\<lambda>r. has_label label r = Inr False) later \<Longrightarrow> gather_rows fr label (rs @ later) d = gather_rows fr label rs d"
proof (induction rs arbitrary: d)
  case Nil
  then show ?case by (induction later) auto
next
  case (Cons r rs)
  have "gather_rows fr label (rs @ later) = gather_rows fr label rs" using Cons by blast
  then show ?case by (simp cong: if_cong)
qed

lemma phase_rows_append:
  "list_all (\<lambda>r. has_label label r = Inr False) later \<Longrightarrow> phase_rows fr (rs @ later) label = phase_rows fr rs label"
  by (simp add: phase_rows_def gather_rows_append)

lemma r_filter_append: "r_filter p (xs @ ys) = rbind (r_filter p xs) (\<lambda>a. rbind (r_filter p ys) (\<lambda>b. Inr (a @ b)))"
  by (induction xs) (auto simp: rbind_def split: sum.splits)

lemma r_filter_none: "list_all (\<lambda>r. p r = Inr False) xs \<Longrightarrow> r_filter p xs = Inr []"
  by (induction xs) auto

lemma boot_ids_append:
  "list_all (\<lambda>r. has_label label r = Inr False) later \<Longrightarrow> boot_ids (rs @ later) label = boot_ids rs label"
  unfolding boot_ids_def r_filter_append by (simp add: r_filter_none) (auto simp: rbind_def split: sum.splits)

subsection \<open>Pieces that add records of certain phases\<close>

definition adds :: "(json \<Rightarrow> bool) \<Rightarrow> rig \<Rightarrow> rig \<Rightarrow> bool" where
  "adds L s s' \<longleftrightarrow> rg_float s' = rg_float s \<and> (\<exists>rs. rg_records s' = rg_records s @ rs \<and> list_all L rs)"

definition adding :: "(json \<Rightarrow> bool) \<Rightarrow> (rig, 'a) act \<Rightarrow> bool" where
  "adding L m \<longleftrightarrow> (\<forall>s. adds L s (snd (m s)))"

lemma adds_refl [simp]: "adds L s s" by (simp add: adds_def)

lemma adds_trans: "adds L s s1 \<Longrightarrow> adds L s1 s2 \<Longrightarrow> adds L s s2" by (auto simp: adds_def)

lemma adds_mono: "adds L s s' \<Longrightarrow> (\<And>r. L r \<Longrightarrow> L' r) \<Longrightarrow> adds L' s s'" unfolding adds_def list_all_iff by blast

lemma addingD: "adding L m \<Longrightarrow> m s = (r, s') \<Longrightarrow> adds L s s'" unfolding adding_def by (metis snd_conv)

lemma adding_quiet: "quiet L V m \<Longrightarrow> adding L m"
  unfolding adding_def adds_def quiet_def same_notes_def by (metis prod.collapse)

lemma adding_abind: "adding L m \<Longrightarrow> (\<And>v. adding L (f v)) \<Longrightarrow> adding L (abind m f)"
  unfolding adding_def
proof
  fix s
  assume m: "\<forall>s. adds L s (snd (m s))" and f: "\<And>v. \<forall>s. adds L s (snd (f v s))"
  show "adds L s (snd (abind m f s))"
  proof (cases "m s")
    case (Pair r s1)
    have "adds L s s1" using m Pair by (metis snd_conv)
    then show ?thesis using Pair f adds_trans by (cases r) (auto simp: abind_def)
  qed
qed

lemma adding_athen: "adding L m \<Longrightarrow> adding L n \<Longrightarrow> adding L (athen m n)"
  unfolding athen_def by (rule adding_abind) auto

lemma adding_basic: "adding L (areturn v)" "adding L (alift r)" "adding L (failed t)" "adding L (failed_when b t)"
  "adding L (blocked t)" "adding L (metric k x)" "adding L (areads h)" "adding L (with_records f)"
  by (auto simp: adding_def adds_def failed_when_simp with_records_def)

lemma adding_if: "adding L m \<Longrightarrow> adding L n \<Longrightarrow> adding L (if b then m else n)" by simp

lemma adding_aeach: "(\<And>x. adding L (f x)) \<Longrightarrow> adding L (aeach f xs)"
  by (induction xs) (simp_all add: adding_athen adding_basic(1))

lemma adding_mono: "adding L m \<Longrightarrow> (\<And>r. L r \<Longrightarrow> L' r) \<Longrightarrow> adding L' m"
  unfolding adding_def using adds_mono by blast

lemma quiet_wait_display: "quiet L (\<lambda>_. True) (wait_display sensor expected)"
proof -
  have "quiet L (\<lambda>r. case r of Inl _ \<Rightarrow> True | Inr c \<Rightarrow> True) (display_turn sensor expected d b)" for d b
    unfolding display_turn_def
    by (rule quiet_abind [OF quiet_taken(1)])
      (auto simp: Let_def intro!: quiet_return quiet_if quiet_abind [OF quiet_displays(1)] split: sum.splits)
  then have p: "quiet L (\<lambda>_. True) (poll (display_turn sensor expected d) None)" for d by (rule quiet_poll)
  show ?thesis
    unfolding wait_display_def
    by (rule quiet_abind [OF quiet_taken(2)], rule quiet_abind [OF quiet_deadline], rule quiet_abind [OF p])
      (auto intro!: quiet_return quiet_abind [OF quiet_taken(2)] split: prod.splits)
qed

lemma adding_display: "adding L display_states" "adding L (wait_display sensor expected)" "adding L (put_display sensor v)"
  "adding L (ask_choice options)"
  using adding_quiet quiet_displays(1) quiet_wait_display quiet_requests(2) quiet_asked(1) by blast+

lemma adding_capture: "(\<And>r. snap label r \<Longrightarrow> L r) \<Longrightarrow> adding L (capture label seconds)"
  using adding_quiet [OF quiet_capture] adding_mono by blast

lemma adding_phase: "adding L (phase label)" "adding L (phase_boots label)"
  unfolding phase_def phase_boots_def by (rule adding_basic)+

lemmas adding_intros = adding_abind adding_athen adding_basic adding_if adding_display adding_phase

subsection \<open>A sensor that was unplugged and plugged in\<close>

definition sensor_phase :: "int \<Rightarrow> json \<Rightarrow> bool" where
  "sensor_phase sensor r \<longleftrightarrow> (\<exists>rest. snap (mkey sensor rest) r)"

lemma adding_case: "adding (sensor_phase sensor) (disconnect_case baseline sensor wanted)"
  unfolding disconnect_case_def check_unplugged_def check_replugged_def judge_unplugged_def Let_def
  by (cases wanted) (auto intro!: adding_intros adding_capture simp: sensor_phase_def split: prod.splits)

lemma adding_sensor: "adding (sensor_phase sensor) (disconnect_sensor test_id baseline sensor)"
  unfolding disconnect_sensor_def by (auto intro!: adding_intros adding_aeach adding_case)

lemma sensor_digits: "show_int 1 = ''1''" "show_int 2 = ''2''" by code_simp+

lemma sensor_labels: "mkey 1 a \<noteq> mkey 2 b" "mkey sensor a \<noteq> ''baseline''"
  by (simp_all add: mkey_def sensor_digits)

lemma state_labels: "mkey sensor (state_name b @ ''_disconnected'') \<noteq> mkey sensor (state_name b @ ''_reconnected'')"
  by (simp add: mkey_def)

text \<open>What the records show of one sensor.\<close>

definition sensor_recovered :: "(rat \<Rightarrow> string) \<Rightarrow> json list \<Rightarrow> int option \<Rightarrow> int \<Rightarrow> bool \<Rightarrow> bool" where
  "sensor_recovered fr records boot sensor desired \<longleftrightarrow>
     (\<exists>down up ids n.
       phase_rows fr records (mkey sensor (state_name desired @ ''_disconnected'')) = Inr down
     \<and> r_any (invalid_row sensor) down = Inr True
     \<and> r_count (sensor_valid (other_sensor sensor)) down = Inr n \<and> 3 \<le> n
     \<and> boot_ids records (mkey sensor (state_name desired @ ''_disconnected'')) = Inr ids \<and> just_one ids boot
     \<and> phase_rows fr records (mkey sensor (state_name desired @ ''_reconnected'')) = Inr up
     \<and> r_any (sensor_valid sensor) (last_n 8 up) = Inr True)"

lemma sensor_recovered_later:
  assumes "sensor_recovered fr records boot sensor desired"
    and "list_all (\<lambda>r. has_label (mkey sensor (state_name desired @ ''_disconnected'')) r = Inr False) later"
    and "list_all (\<lambda>r. has_label (mkey sensor (state_name desired @ ''_reconnected'')) r = Inr False) later"
  shows "sensor_recovered fr (records @ later) boot sensor desired"
  using assms(1) unfolding sensor_recovered_def phase_rows_append [OF assms(2)] phase_rows_append [OF assms(3)] boot_ids_append [OF assms(2)] .

lemma adding_checks:
  "adding (snap (mkey sensor (state_name desired @ ''_disconnected''))) (check_unplugged sensor desired boot)"
  "adding (snap (mkey sensor (state_name desired @ ''_reconnected''))) (check_replugged sensor desired)"
  unfolding check_unplugged_def check_replugged_def judge_unplugged_def Let_def by (auto intro!: adding_intros adding_capture)

lemma quiet_none: "quiet (\<lambda>_. False) V m \<Longrightarrow> m s = (r, s') \<Longrightarrow> rg_records s' = rg_records s \<and> rg_float s' = rg_float s \<and> rg_failures s' = rg_failures s"
  unfolding quiet_def same_notes_def by (metis append_Nil2 list.pred_inject(2) list.exhaust)

lemma display_states_none: "display_states s = (r, s') \<Longrightarrow> rg_records s' = rg_records s \<and> rg_float s' = rg_float s \<and> rg_failures s' = rg_failures s"
  by (rule quiet_none [OF quiet_displays(1)])

lemma clean_step:
  assumes "athen (failed_when b text) n s = (Inr u, s')" "honest n" "rg_failures s' = []"
  shows "\<not> b \<and> n s = (Inr u, s')"
proof -
  have "n (if b then s\<lparr>rg_failures := rg_failures s @ [text]\<rparr> else s) = (Inr u, s')"
    using assms(1) by (simp add: athen_Inr failed_when_simp)
  moreover from honest_back [OF assms(2) this assms(3)] have "\<not> b" by (cases b) simp_all
  ultimately show ?thesis by simp
qed

lemma athen_metric: "athen (metric k v) n s = n (s\<lparr>rg_metrics := dict_set k v (rg_metrics s)\<rparr>)"
  by (simp add: athen_def abind_def)

lemma judge_unplugged_clean:
  assumes "judge_unplugged sensor desired a b c d s = (Inr u, s')" "rg_failures s' = []"
  shows "a \<and> b \<and> c \<and> d \<and> rg_records s' = rg_records s"
proof -
  obtain s1 where s1: "rg_records s1 = rg_records s"
    "athen (failed_when (\<not> a) (sn sensor @ '' did not produce a non-valid database state''))
      (athen (failed_when (\<not> b) (sn (other_sensor sensor) @ '' did not continue with valid persisted samples''))
      (athen (failed_when (\<not> c) (sn sensor @ '' did not preserve '' @ state_upper desired @ '' while disconnected''))
      (failed_when (\<not> d) (''ESP32 boot identity changed or was unavailable during '' @ sn sensor @ '' hot-plug'')))) s1 = (Inr u, s')"
    by (rule that [OF _ assms(1) [unfolded judge_unplugged_def Let_def athen_metric]]) simp
  note honests = honest_athen honest_failed
  from clean_step [OF s1(2) _ assms(2)] have 1: "a" "athen (failed_when (\<not> b) (sn (other_sensor sensor) @ '' did not continue with valid persisted samples''))
      (athen (failed_when (\<not> c) (sn sensor @ '' did not preserve '' @ state_upper desired @ '' while disconnected''))
      (failed_when (\<not> d) (''ESP32 boot identity changed or was unavailable during '' @ sn sensor @ '' hot-plug''))) s1 = (Inr u, s')"
    by (simp_all add: honests)
  from clean_step [OF 1(2) _ assms(2)] have 2: "b" "athen (failed_when (\<not> c) (sn sensor @ '' did not preserve '' @ state_upper desired @ '' while disconnected''))
      (failed_when (\<not> d) (''ESP32 boot identity changed or was unavailable during '' @ sn sensor @ '' hot-plug'')) s1 = (Inr u, s')"
    by (simp_all add: honests)
  from clean_step [OF 2(2) _ assms(2)] have 3: "c" "failed_when (\<not> d) (''ESP32 boot identity changed or was unavailable during '' @ sn sensor @ '' hot-plug'') s1 = (Inr u, s')"
    by (simp_all add: honests)
  from failed_when_none [OF 3(2) assms(2)] show ?thesis using 1 2 3 s1(1) by simp
qed

lemma check_unplugged_clean:
  assumes "check_unplugged sensor desired boot s = (Inr u, s')" "rg_failures s' = []"
  shows "\<exists>down ids n. phase_rows (rg_float s) (rg_records s') (mkey sensor (state_name desired @ ''_disconnected'')) = Inr down
    \<and> r_any (invalid_row sensor) down = Inr True \<and> r_count (sensor_valid (other_sensor sensor)) down = Inr n \<and> 3 \<le> n
    \<and> boot_ids (rg_records s') (mkey sensor (state_name desired @ ''_disconnected'')) = Inr ids \<and> just_one ids boot"
proof -
  let ?l = "mkey sensor (state_name desired @ ''_disconnected'')"
  from assms(1) obtain v s1 down s2 ids s3 where c: "capture ?l 10 s = (Inr v, s1)"
    and p: "phase ?l s1 = (Inr down, s2)" "phase_boots ?l s2 = (Inr ids, s3)"
    and later: "abind (alift (r_any (invalid_row sensor) down)) (\<lambda>saw_fault.
      abind (alift (r_count (sensor_valid (other_sensor sensor)) down)) (\<lambda>n.
      abind display_states (\<lambda>states.
      judge_unplugged sensor desired saw_fault (3 \<le> n) (dict_get states sensor = Some desired) (just_one ids boot)))) s3 = (Inr u, s')"
    unfolding check_unplugged_def Let_def athen_def abind_Inr [of "capture ?l 10"] abind_Inr [of "phase ?l"] abind_Inr [of "phase_boots ?l"] by blast
  from later obtain saw s4 n s5 states s6 where
    a: "alift (r_any (invalid_row sensor) down) s3 = (Inr saw, s4)" "alift (r_count (sensor_valid (other_sensor sensor)) down) s4 = (Inr n, s5)"
    and d: "display_states s5 = (Inr states, s6)"
    and rest: "judge_unplugged sensor desired saw (3 \<le> n) (dict_get states sensor = Some desired) (just_one ids boot) s6 = (Inr u, s')"
    unfolding abind_Inr by blast
  have ok: "saw" "3 \<le> n" "just_one ids boot" "rg_records s' = rg_records s6"
    using judge_unplugged_clean [OF rest assms(2)] by simp_all
  have "rg_float s1 = rg_float s" using capture_adds(2) [OF c] by (simp add: same_notes_def)
  moreover have "rg_records s' = rg_records s1"
    using p a ok(4) display_states_none [OF d] by (auto simp: phase_def phase_boots_def with_records_def)
  ultimately show ?thesis using p a ok by (auto simp: phase_def phase_boots_def with_records_def)
qed

lemma check_replugged_clean:
  assumes "check_replugged sensor desired s = (Inr u, s')" "rg_failures s' = []"
  shows "\<exists>up. phase_rows (rg_float s) (rg_records s') (mkey sensor (state_name desired @ ''_reconnected'')) = Inr up
    \<and> r_any (sensor_valid sensor) (last_n 8 up) = Inr True"
proof -
  let ?l = "mkey sensor (state_name desired @ ''_reconnected'')"
  from assms(1) obtain v s1 up s2 rec s3 states s4 where c: "capture ?l 15 s = (Inr v, s1)"
    and p: "phase ?l s1 = (Inr up, s2)" "alift (r_any (sensor_valid sensor) (last_n 8 up)) s2 = (Inr rec, s3)"
    and d: "display_states s3 = (Inr states, s4)"
    and rest: "(let restored = (dict_get states sensor = Some desired) in
      athen (metric (mkey sensor (state_name desired @ ''_automatic_recovery'')) (MBool rec))
      (athen (metric (mkey sensor (state_name desired @ ''_state_restored'')) (MBool restored))
      (athen (failed_when (\<not> rec) (sn sensor @ '' did not recover automatically''))
      (failed_when (\<not> restored) (sn sensor @ '' did not restore pre-disconnection '' @ state_upper desired @ '' state''))))) s4 = (Inr u, s')"
    unfolding check_replugged_def Let_def athen_def [of "capture ?l 15"] abind_Inr by blast
  have ok: "rec" "rg_records s' = rg_records s4"
    using rest assms(2) by (auto simp: Let_def athen_Inr failed_when_simp split: if_splits)
  have "rg_float s1 = rg_float s" using capture_adds(2) [OF c] by (simp add: same_notes_def)
  moreover have "rg_records s' = rg_records s1"
    using p ok(2) display_states_none [OF d] by (auto simp: phase_def with_records_def)
  ultimately show ?thesis using p ok by (auto simp: phase_def with_records_def)
qed

lemma not_labelled: "list_all (snap label) rs \<Longrightarrow> label \<noteq> l \<Longrightarrow> list_all (\<lambda>r. has_label l r = Inr False) rs"
  by (auto simp: list_all_iff snap_label)

lemma honest_case: "honest (disconnect_case boot sensor wanted)"
proof -
  have d: "honest display_states" "honest (wait_display i e)" "honest (put_display i x)" "honest (phase l)" "honest (phase_boots l)" "honest (capture l t)" for i e x l t
    using quiet_honest quiet_displays(1) quiet_wait_display quiet_requests(2) quiet_capture honest_with_records unfolding phase_def phase_boots_def by blast+
  show ?thesis
    unfolding disconnect_case_def check_unplugged_def check_replugged_def judge_unplugged_def Let_def
    by (cases wanted) (auto intro!: keeps_abind honest_athen honest_failed honest_metric honest_asked d keeps_if split: prod.splits)
qed

lemma adds_snap_not_labelled:
  assumes "adds (snap label) s s'" "label \<noteq> l"
  shows "\<exists>rs. rg_records s' = rg_records s @ rs \<and> list_all (\<lambda>r. has_label l r = Inr False) rs"
  using assms unfolding adds_def by (auto intro: not_labelled)

lemma check_pair_clean:
  assumes "check_unplugged sensor desired boot s = (Inr u, s1)" "rg_failures s1 = []"
    and "rg_records s2 = rg_records s1" "rg_float s2 = rg_float s1"
    and "check_replugged sensor desired s2 = (Inr v, s')" "rg_failures s' = []"
  shows "sensor_recovered (rg_float s) (rg_records s') boot sensor desired"
proof -
  let ?d = "mkey sensor (state_name desired @ ''_disconnected'')"
  from adds_snap_not_labelled [OF addingD [OF adding_checks(2) assms(5)], of ?d] state_labels [of sensor desired]
  obtain later where later: "rg_records s' = rg_records s1 @ later" "list_all (\<lambda>r. has_label ?d r = Inr False) later"
    using assms(3) by auto
  have fl: "rg_float s2 = rg_float s" using addingD [OF adding_checks(1) assms(1)] assms(4) by (simp add: adds_def)
  from check_unplugged_clean [OF assms(1,2)] obtain down ids n where
    "phase_rows (rg_float s) (rg_records s') ?d = Inr down" "boot_ids (rg_records s') ?d = Inr ids"
    "r_any (invalid_row sensor) down = Inr True" "r_count (sensor_valid (other_sensor sensor)) down = Inr n" "3 \<le> n" "just_one ids boot"
    unfolding later(1) phase_rows_append [OF later(2)] boot_ids_append [OF later(2)] by blast
  moreover from check_replugged_clean [OF assms(5,6)] obtain up where
    "phase_rows (rg_float s) (rg_records s') (mkey sensor (state_name desired @ ''_reconnected'')) = Inr up"
    "r_any (sensor_valid sensor) (last_n 8 up) = Inr True" unfolding fl by blast
  ultimately show ?thesis unfolding sensor_recovered_def by blast
qed

lemma honest_checks: "honest (check_unplugged sensor desired boot)" "honest (check_replugged sensor desired)"
proof -
  have d: "honest display_states" "honest (phase l)" "honest (phase_boots l)" "honest (capture l t)" for l t
    using quiet_honest quiet_displays(1) quiet_capture honest_with_records unfolding phase_def phase_boots_def by blast+
  show "honest (check_unplugged sensor desired boot)" "honest (check_replugged sensor desired)"
    unfolding check_unplugged_def check_replugged_def judge_unplugged_def Let_def
    by (auto intro!: keeps_abind honest_athen honest_failed honest_metric d)
qed

lemma case_clean:
  assumes "disconnect_case boot sensor wanted s = (Inr u, s')" "rg_failures s' = []"
  shows "\<exists>desired. wanted = Some desired \<and> sensor_recovered (rg_float s) (rg_records s') boot sensor desired"
proof (cases wanted)
  case None
  then show ?thesis using assms by (auto simp: disconnect_case_def)
next
  case (Some desired)
  from assms(1) obtain response sa w sb where q: "put_display sensor (JBool desired) s = (Inr response, sa)"
    "wait_display sensor (Some desired) sa = (Inr w, sb)"
    and rest: "(case w of (state_ready, _, _) \<Rightarrow> if \<not> is_ok response \<or> \<not> state_ready then
        failed (sn sensor @ '' could not be prepared '' @ state_upper desired @ '' before disconnect'')
      else abind (ask_choice [''Disconnected'', ''Cannot perform - block this test'']) (\<lambda>answer.
      if blocks answer then blocked (sn sensor @ '' '' @ state_name desired @ '' disconnect action was not performed'')
      else athen (check_unplugged sensor desired boot)
      (abind (ask_choice [''Reconnected'', ''Cannot perform - block this test'']) (\<lambda>answer.
      if blocks answer then blocked (sn sensor @ '' '' @ state_name desired @ '' reconnect action was not performed'')
      else check_replugged sensor desired)))) sb = (Inr u, s')"
    unfolding disconnect_case_def Some option.case abind_Inr [of "put_display _ _"] abind_Inr [of "wait_display _ _"] by blast
  obtain state_ready x y where w: "w = (state_ready, x, y)" by (cases w)
  from rest assms(2) w obtain answer sc where ch: "ask_choice [''Disconnected'', ''Cannot perform - block this test''] sb = (Inr answer, sc)"
    and rest: "(if blocks answer then blocked (sn sensor @ '' '' @ state_name desired @ '' disconnect action was not performed'')
      else athen (check_unplugged sensor desired boot)
      (abind (ask_choice [''Reconnected'', ''Cannot perform - block this test'']) (\<lambda>answer.
      if blocks answer then blocked (sn sensor @ '' '' @ state_name desired @ '' reconnect action was not performed'')
      else check_replugged sensor desired))) sc = (Inr u, s')"
    by (auto simp: abind_Inr split: if_splits)
  from rest assms(2) obtain v sd answer2 se where un: "check_unplugged sensor desired boot sc = (Inr v, sd)"
    and ch2: "ask_choice [''Reconnected'', ''Cannot perform - block this test''] sd = (Inr answer2, se)"
    and re: "check_replugged sensor desired se = (Inr u, s')"
    by (auto simp: athen_Inr abind_Inr split: if_splits)
  note n = quiet_none [OF quiet_asked(1)]
  have "rg_failures sd = []" using honest_back [OF honest_checks(2) re assms(2)] n [OF ch2] by simp
  from check_pair_clean [OF un this _ _ re assms(2)] n [OF ch2] have "sensor_recovered (rg_float sc) (rg_records s') boot sensor desired" by blast
  moreover have "rg_float sc = rg_float s"
    using n [OF ch] quiet_none [OF quiet_requests(2) q(1)] quiet_none [OF quiet_wait_display q(2)] by simp
  ultimately show ?thesis using Some by simp
qed

lemma disconnect_sensor_clean:
  assumes "disconnect_sensor test_id boot sensor s = (Inr u, s')" "rg_failures s' = []" "test_id \<noteq> ''SYS-02''"
  shows "\<exists>desired. sensor_recovered (rg_float s) (rg_records s') boot sensor desired"
proof -
  from assms(1,3) obtain states sa where d: "display_states s = (Inr states, sa)"
    and c: "disconnect_case boot sensor (dict_get states sensor) sa = (Inr u, s')"
    by (auto simp: disconnect_sensor_def abind_Inr athen_Inr)
  from case_clean [OF c assms(2)] display_states_none [OF d] show ?thesis by auto
qed

lemma honest_sensor: "honest (disconnect_sensor test_id boot sensor)"
  unfolding disconnect_sensor_def
  by (auto intro!: keeps_abind honest_aeach honest_case quiet_honest [OF quiet_displays(1)])

lemma sensors_clean:
  assumes "aeach (disconnect_sensor test_id boot) [1, 2] s = (Inr u, s')" "rg_failures s' = []" "test_id \<noteq> ''SYS-02''"
  shows "(\<exists>d. sensor_recovered (rg_float s) (rg_records s') boot 1 d) \<and> (\<exists>d. sensor_recovered (rg_float s) (rg_records s') boot 2 d)"
proof -
  from assms(1) obtain v s1 where r: "disconnect_sensor test_id boot 1 s = (Inr v, s1)" "disconnect_sensor test_id boot 2 s1 = (Inr (), s')"
    by (auto simp: athen_Inr)
  have n: "rg_failures s1 = []" by (rule honest_back [OF honest_sensor r(2) assms(2)])
  have f: "rg_float s1 = rg_float s" using addingD [OF adding_sensor r(1)] by (simp add: adds_def)
  from disconnect_sensor_clean [OF r(1) n assms(3)] obtain d where d: "sensor_recovered (rg_float s) (rg_records s1) boot 1 d" by blast
  from addingD [OF adding_sensor r(2)] obtain later where later: "rg_records s' = rg_records s1 @ later" "list_all (sensor_phase 2) later"
    by (auto simp: adds_def)
  have "list_all (\<lambda>r. has_label (mkey 1 rest) r = Inr False) later" for rest
    using later(2) snap_label sensor_labels(1) [symmetric] unfolding list_all_iff sensor_phase_def by fastforce
  from sensor_recovered_later [OF d this this] disconnect_sensor_clean [OF r(2) assms(2,3)] show ?thesis
    unfolding f later(1) by blast
qed

lemma workflow_clean:
  assumes "sensor_disconnect_workflow test_id s = (Inr u, s')" "rg_failures s' = []" "test_id \<noteq> ''SYS-02''"
  shows "\<exists>boot d1 d2. sensor_recovered (rg_float s') (rg_records s') (Some boot) 1 d1
    \<and> sensor_recovered (rg_float s') (rg_records s') (Some boot) 2 d2"
proof -
  from assms(1) obtain boot s1 where r: "aeach (disconnect_sensor test_id boot) [1, 2] s1 = (Inr u, s')"
    by (auto simp: sensor_disconnect_workflow_def athen_Inr abind_Inr simp del: aeach.simps)
  have f: "rg_float s' = rg_float s1"
    using addingD [OF adding_aeach [of "\<lambda>_. True" "disconnect_sensor test_id boot"] r] adding_mono [OF adding_sensor] by (simp add: adds_def)
  from sensors_clean [OF r assms(2,3)] obtain d1 d2 where
    d: "sensor_recovered (rg_float s') (rg_records s') boot 1 d1" "sensor_recovered (rg_float s') (rg_records s') boot 2 d2"
    unfolding f by blast
  have "boot \<noteq> None" using d(1) unfolding sensor_recovered_def just_one_def by (auto split: option.splits)
  then show ?thesis using d by blast
qed


text \<open>Both sensors unplugged and plugged in again.\<close>

definition displays_reply :: "string + json" where
  "displays_reply = Inr (JObj [(''connected'', JBool True), (''ready'', JBool True),
     (''displays'', JArr [JObj [(''sensor_id'', JInt 1), (''enabled'', JBool True)], JObj [(''sensor_id'', JInt 2), (''enabled'', JBool True)]])])"

definition plug_row :: "string \<Rightarrow> bool \<Rightarrow> bool \<Rightarrow> json" where
  "plug_row moment one two = JObj [(''observed_at_utc'', JStr moment),
     (''sensor1_status'', JStr (if one then ''VALID'' else ''DISCONNECTED'')), (''sensor1_c'', if one then JFloat 21 else JNull),
     (''sensor2_status'', JStr (if two then ''VALID'' else ''DISCONNECTED'')), (''sensor2_c'', if two then JFloat 22 else JNull)]"

definition capture_replies :: "json list \<Rightarrow> (string + json) list" where
  "capture_replies rows = [displays_reply, current_reply 5, samples_reply rows]"

definition sensor_replies :: "bool \<Rightarrow> (string + json) list" where
  "sensor_replies first = [displays_reply, Inr (JObj []), displays_reply]
     @ capture_replies [plug_row ''t1'' (\<not> first) first, plug_row ''t2'' (\<not> first) first, plug_row ''t3'' (\<not> first) first] @ [displays_reply]
     @ capture_replies [plug_row ''t4'' True True] @ [displays_reply]"

definition sensor_rig :: rig where
  "sensor_rig = sample_rig\<lparr>rg_monotonic := [0, 9] @ concat (replicate 2 [0, 0, 0, 99, 0, 99]), rg_counter := replicate 9 1,
     rg_stamps := replicate 5 ''a'', rg_replies := displays_reply # capture_replies [] @ sensor_replies True @ sensor_replies False\<rparr>"

definition sensor_test :: test_def where "sensor_test = (sample_test ''HW-03'')\<lparr>td_workflow := Some ''sensor_disconnect''\<rparr>"

definition four_ones :: console where "four_ones = \<lparr>con_lines = replicate 4 ''1'', con_uart_port = None\<rparr>"

lemma sensor_sample:
  "(case run_workflow sensor_test (sensor_rig\<lparr>rg_console := four_ones\<rparr>) of
     (Inr _, s) \<Rightarrow> rg_failures s = [] \<and> \<not> isl (timeline (rg_float s) (rg_records s) []) | _ \<Rightarrow> False)"
  by code_simp


end
