(* ===== verification/Guided_History_Props.thy ===== *)
theory Guided_History_Props
  imports Guided_Evidence
begin

section \<open>The qualification tool: what a passing history test has seen, and what the heating checks miss\<close>

text \<open>
  A history test passes only on a synchronization that the backend reports as complete with 300 records
  of each sensor and on as many rows read back. The last part is about the soldering iron: the rows that
  the check looks at are all rows of the last ten minutes, those of the hand heating included.
\<close>

subsection \<open>The loop that follows a synchronization\<close>

definition reached :: "(json list \<Rightarrow> nat res) \<Rightarrow> json list \<Rightarrow> nat \<Rightarrow> bool" where
  "reached f records n \<longleftrightarrow> n = 0 \<or> (\<exists>r\<in>set records. \<exists>rows. read_rows r = Inr rows \<and> f rows = Inr n)"

abbreviation row_number :: "json list \<Rightarrow> nat res" where "row_number rows \<equiv> Inr (length rows)"

definition progress_ok :: "string \<Rightarrow> history_progress \<Rightarrow> rig \<Rightarrow> bool" where
  "progress_ok operation_id p s \<longleftrightarrow> reached row_number (rg_records s) (hp_rows p)
     \<and> reached (r_count (has_record 1)) (rg_records s) (hp_first p)
     \<and> reached (r_count (has_record 2)) (rg_records s) (hp_second p)
     \<and> (hp_sync p = JNull \<or> operation_id_of (rg_float s) (hp_sync p) = Inr operation_id)"

lemma reached_later: "reached f records n \<Longrightarrow> set records \<subseteq> set records' \<Longrightarrow> reached f records' n"
  unfolding reached_def by blast

lemma reached_max:
  assumes "reached f records n" "read_rows r = Inr rows" "f rows = Inr k" "r \<in> set records"
  shows "reached f records (max n k)"
  using assms unfolding reached_def max_def by auto

lemma note_rows_ok:
  assumes "progress_ok i p s" "read_rows r = Inr rows" "note_rows rows p = Inr p'" "rg_records s' = rg_records s @ [r]" "rg_float s' = rg_float s"
  shows "progress_ok i p' s'" "hp_sync p' = hp_sync p"
proof -
  from assms(3) obtain a b where c: "r_count (has_record 1) rows = Inr a" "r_count (has_record 2) rows = Inr b"
    and p': "p' = p\<lparr>hp_rows := max (hp_rows p) (length rows), hp_first := max (hp_first p) a, hp_second := max (hp_second p) b\<rparr>"
    by (auto simp: note_rows_def rbind_Inr_iff)
  have sub: "set (rg_records s) \<subseteq> set (rg_records s')" "r \<in> set (rg_records s')" using assms(4) by auto
  show "progress_ok i p' s'"
    using assms(1,5) unfolding progress_ok_def p'
    by (auto intro!: reached_max [OF _ assms(2) _ sub(2)] c intro: reached_later [OF _ sub(1)])
  show "hp_sync p' = hp_sync p" by (simp add: p')
qed

lemma finished_sync_id: "finished_sync i outcome = Inr sync \<Longrightarrow> operation_id_of fr sync = Inr i"
proof -
  assume "finished_sync i outcome = Inr sync"
  then obtain d where s: "sync = JObj (dict_set ''source'' (JStr ''manual'') (dict_set ''operation_id'' (JStr i) (dict_set ''state'' (JStr ''COMPLETE'') d)))"
    by (auto simp: finished_sync_def type_error_def split: json.splits)
  have ne: "dict_set k v e \<noteq> []" for k :: string and v :: json and e by (cases e) auto
  have "j_true sync" by (simp add: s j_true_def ne)
  then show ?thesis by (auto simp: operation_id_of_def sync_get_def j_or_def j_get_def s text_or_empty_def json_text_def j_true_def rbind_def)
qed

lemma sync_steps_ok:
  assumes "sync = JNull \<or> operation_id_of fr sync = Inr i"
    and "status_sync fr i record sync = Inr sync1" "operation_sync fr i response sync1 = Inr sync2"
  shows "sync2 = JNull \<or> operation_id_of fr sync2 = Inr i"
proof -
  have "sync1 = JNull \<or> operation_id_of fr sync1 = Inr i"
    using assms(1,2) by (auto simp: status_sync_def rbind_Inr_iff split: option.splits if_splits)
  then show ?thesis
    using assms(3) finished_sync_id by (auto simp: operation_sync_def Let_def rbind_Inr_iff split: if_splits)
qed

lemma history_turn_ok:
  assumes "history_turn i deadline p s = (Inr r, s')" "progress_ok i p s"
  shows "progress_ok i (case r of Inl q \<Rightarrow> q | Inr q \<Rightarrow> q) s' \<and> rg_failures s' = rg_failures s"
proof -
  from assms(1) obtain now s1 where m: "monotonic_now s = (Inr now, s1)"
    and rest: "(if \<not> now < deadline then areturn (Inr p)
     else abind (snapshot ''history_sync'') (\<lambda>record. athen (add_record record)
       (abind (alift (rbind (read_rows record) (\<lambda>rows. note_rows rows p))) (\<lambda>p.
       abind (areads rg_float) (\<lambda>fr.
       abind (alift (status_sync fr i record (hp_sync p))) (\<lambda>sync.
       abind (safe_request ''GET'' (BACKEND @ ''/api/v1/operations/'' @ i) None) (\<lambda>response.
       abind (alift (operation_sync fr i response sync)) (\<lambda>sync.
       abind (alift (history_done fr sync)) (\<lambda>finished. let p = p\<lparr>hp_sync := sync\<rparr> in
       areturn (if finished then Inr p else Inl p)))))))))) s1 = (Inr r, s')"
    unfolding history_turn_def abind_Inr [of monotonic_now] by blast
  note n1 = quiet_none [OF quiet_taken(1) m]
  show ?thesis
  proof (cases "now < deadline")
    case False
    then show ?thesis using rest n1 assms(2) by (auto simp: progress_ok_def)
  next
    case True
    from rest True obtain rd s2 where sn: "snapshot ''history_sync'' s1 = (Inr rd, s2)"
      and rest: "(athen (add_record rd)
       (abind (alift (rbind (read_rows rd) (\<lambda>rows. note_rows rows p))) (\<lambda>p.
       abind (areads rg_float) (\<lambda>fr.
       abind (alift (status_sync fr i rd (hp_sync p))) (\<lambda>sync.
       abind (safe_request ''GET'' (BACKEND @ ''/api/v1/operations/'' @ i) None) (\<lambda>response.
       abind (alift (operation_sync fr i response sync)) (\<lambda>sync.
       abind (alift (history_done fr sync)) (\<lambda>finished. let p = p\<lparr>hp_sync := sync\<rparr> in
       areturn (if finished then Inr p else Inl p))))))))) s2 = (Inr r, s')"
      by (auto simp: abind_Inr [of "snapshot _"])
    note n2 = quiet_none [OF quiet_snapshot sn]
    from rest obtain rows q sync1 response sync2 s3 finished where
      st: "read_rows rd = Inr rows" "note_rows rows p = Inr q"
        "status_sync (rg_float s2) i rd (hp_sync q) = Inr sync1"
        "operation_sync (rg_float s2) i response sync1 = Inr sync2"
      and rq: "safe_request ''GET'' (BACKEND @ ''/api/v1/operations/'' @ i) None (s2\<lparr>rg_records := rg_records s2 @ [rd]\<rparr>) = (Inr response, s3)"
      and fin: "r = (if finished then Inr (q\<lparr>hp_sync := sync2\<rparr>) else Inl (q\<lparr>hp_sync := sync2\<rparr>))" "s' = s3"
      by (auto simp: athen_Inr abind_Inr rbind_Inr_iff Let_def)
    note n3 = quiet_none [OF quiet_request rq]
    have rec: "rg_records s' = rg_records s @ [rd]" "rg_float s' = rg_float s" "rg_failures s' = rg_failures s"
      using n1 n2 n3 fin by auto
    from note_rows_ok [OF assms(2) st(1,2) rec(1,2)] have q: "progress_ok i q s'" "hp_sync q = hp_sync p" by auto
    have "sync2 = JNull \<or> operation_id_of (rg_float s') sync2 = Inr i"
      by (rule sync_steps_ok [OF _ _ ]) (use q assms(2) st(3,4) n1 n2 rec(2) in \<open>auto simp: progress_ok_def\<close>)
    then show ?thesis using q(1) fin rec(3) by (auto simp: progress_ok_def)
  qed
qed

lemma history_loop_ok:
  assumes "poll (history_turn i deadline) p s = (Inr q, s')" "progress_ok i p s"
  shows "progress_ok i q s' \<and> rg_failures s' = rg_failures s"
proof (rule poll_rule [where I = "progress_ok i" and R = "\<lambda>s s1. rg_failures s1 = rg_failures s"
      and Q = "\<lambda>s q s'. progress_ok i q s' \<and> rg_failures s' = rg_failures s", OF _ _ _ assms])
qed (use history_turn_ok in \<open>fastforce\<close>)+

lemma adding_history_loop: "adding (\<lambda>_. True) (poll (history_turn i deadline) p)"
proof -
  have "quiet (\<lambda>_. True) (\<lambda>_. True) (history_turn i deadline b)" for b
    unfolding history_turn_def
    by (rule quiet_abind [OF quiet_taken(1)], rule quiet_if, rule quiet_return, simp, rule quiet_snapshot_added, simp,
        rule quiet_abind [OF quiet_lift [where V = "\<lambda>_. True"]], simp, rule quiet_abind [OF quiet_reads [where V = "\<lambda>_. True"]], simp,
        rule quiet_abind [OF quiet_lift [where V = "\<lambda>_. True"]], simp, rule quiet_abind [OF quiet_request],
        rule quiet_abind [OF quiet_lift [where V = "\<lambda>_. True"]], simp, rule quiet_abind [OF quiet_lift [where V = "\<lambda>_. True"]], simp,
        unfold Let_def, rule quiet_return, simp)
  then have "quiet (\<lambda>_. True) (\<lambda>_. True) (poll (history_turn i deadline) p)"
    by (intro quiet_poll) (auto intro: quiet_mono split: sum.splits)
  then show ?thesis by (rule adding_quiet)
qed

subsection \<open>The verdict on a history\<close>

definition history_recovered :: "(rat \<Rightarrow> string) \<Rightarrow> json list \<Rightarrow> bool" where
  "history_recovered fr records \<longleftrightarrow>
     (\<exists>sync i expected retrieved. operation_id_of fr sync = Inr i \<and> i \<noteq> [] \<and> sync_complete fr sync = Inr True
       \<and> sync_counts sync ''expected_counts'' = Inr expected \<and> full_counts expected = Inr True
       \<and> sync_counts sync ''retrieved_counts'' = Inr retrieved \<and> full_counts retrieved = Inr True)
     \<and> (\<exists>n. reached row_number records n \<and> 300 \<le> n)
     \<and> (\<exists>n. reached (r_count (has_record 1)) records n \<and> 300 \<le> n)
     \<and> (\<exists>n. reached (r_count (has_record 2)) records n \<and> 300 \<le> n)"

lemma athen_clean:
  assumes "athen m n s = (Inr u, s')" "honest n" "rg_failures s' = []"
  shows "\<exists>v s1. m s = (Inr v, s1) \<and> rg_failures s1 = [] \<and> n s1 = (Inr u, s')"
  using assms(1) honest_back [OF assms(2) _ assms(3)] unfolding athen_Inr by blast

lemma honest_judges: "honest (judge_counts fr a b c)" "honest (judge_complete fr sync)" "honest (judge_rows p)"
  "honest (history_metrics fr p e i)" "honest graph_shown"
  unfolding judge_counts_def judge_complete_def judge_rows_def history_metrics_def graph_shown_def
  by (auto intro!: keeps_abind honest_athen honest_failed honest_metric honest_asked)

abbreviation keeps_both :: "json list \<Rightarrow> (rat \<Rightarrow> string) \<Rightarrow> (rig, 'a) act \<Rightarrow> bool" where
  "keeps_both R F \<equiv> keeps (\<lambda>s. rg_records s = R \<and> rg_float s = F)"

lemma quiet_keeps_both: "quiet (\<lambda>_. False) V m \<Longrightarrow> keeps_both R F m"
  unfolding keeps_def using quiet_none by (metis prod.collapse)

lemma keeps_both_notes: "keeps_both R F (failed_when b text)" "keeps_both R F (metric k v)" "keeps_both R F (failed text)" "keeps_both R F (blocked text)"
  by (auto simp: keeps_def failed_when_simp)

lemma judges_keep: "keeps_both R F (judge_counts fr a b c)" "keeps_both R F (judge_complete fr sync)" "keeps_both R F (judge_rows p)"
  "keeps_both R F (history_metrics fr p e i)" "keeps_both R F graph_shown"
proof -
  have a: "keeps_both R F (ask_choice options)" for options by (rule quiet_keeps_both [OF quiet_asked(1)])
  show "keeps_both R F (judge_counts fr a b c)" "keeps_both R F (judge_complete fr sync)" "keeps_both R F (judge_rows p)"
    "keeps_both R F (history_metrics fr p e i)" "keeps_both R F graph_shown"
    unfolding judge_counts_def judge_complete_def judge_rows_def history_metrics_def graph_shown_def
    by (auto intro!: keeps_abind keeps_athen keeps_both_notes a)
qed

lemma judge_counts_clean:
  assumes "judge_counts fr a b c s = (Inr u, s')" "rg_failures s' = []"
  shows "full_counts c = Inr True"
proof -
  from assms(1) obtain full where f: "full_counts c = Inr full" and "failed_when (\<not> full) (a @ counts_text fr c @ b) s = (Inr u, s')"
    by (auto simp: judge_counts_def abind_Inr)
  with failed_when_none [OF this(2) assms(2)] show ?thesis by simp
qed

lemma judge_complete_clean:
  assumes "judge_complete fr sync s = (Inr u, s')" "rg_failures s' = []"
  shows "j_true sync \<and> sync_complete fr sync = Inr True"
proof -
  from assms(1) obtain ok where f: "(if j_true sync then sync_complete fr sync else Inr False) = Inr ok"
    and rest: "(if ok then areturn () else abind (alift (sync_get sync ''state'' (JStr ''unknown''))) (\<lambda>state.
     failed (''backend history synchronization did not report COMPLETE (last state: '' @ json_text fr state @ '')''))) s = (Inr u, s')"
    by (auto simp: judge_complete_def abind_Inr)
  have ok using rest assms(2) by (cases ok) (auto simp: abind_Inr)
  then show ?thesis using f by (auto split: if_splits)
qed

lemma judge_rows_clean:
  assumes "judge_rows p s = (Inr u, s')" "rg_failures s' = []"
  shows "300 \<le> hp_rows p \<and> 300 \<le> hp_first p \<and> 300 \<le> hp_second p"
proof -
  note h = honest_athen honest_failed
  from clean_step [OF assms(1) [unfolded judge_rows_def] _ assms(2)] have 1: "\<not> hp_rows p < 300"
    "athen (failed_when (hp_first p < 300) (''only '' @ show_nat (hp_first p) @ ''/300 Sensor 1 records became browser-readable''))
     (failed_when (hp_second p < 300) (''only '' @ show_nat (hp_second p) @ ''/300 Sensor 2 records became browser-readable'')) s = (Inr u, s')"
    by (simp_all add: h)
  from clean_step [OF 1(2) _ assms(2)] have 2: "\<not> hp_first p < 300"
    "failed_when (hp_second p < 300) (''only '' @ show_nat (hp_second p) @ ''/300 Sensor 2 records became browser-readable'') s = (Inr u, s')"
    by (simp_all add: h)
  from failed_when_none [OF 2(2) assms(2)] 1 2 show ?thesis by simp
qed

lemma verdict_keeps:
  assumes "history_verdict fr i p e s = (Inr u, s')" shows "rg_records s' = rg_records s \<and> rg_float s' = rg_float s"
proof -
  have "keeps_both (rg_records s) (rg_float s) (history_verdict fr i p e)"
    unfolding history_verdict_def Let_def by (auto intro!: keeps_abind keeps_athen keeps_both_notes judges_keep)
  from keepsD [OF this, of s] assms show ?thesis by simp
qed

lemma verdict_clean:
  assumes "history_verdict fr i p e s = (Inr u, s')" "rg_failures s' = []"
  shows "300 \<le> hp_rows p \<and> 300 \<le> hp_first p \<and> 300 \<le> hp_second p \<and> j_true (hp_sync p) \<and> sync_complete fr (hp_sync p) = Inr True
    \<and> (\<exists>expected retrieved. sync_counts (hp_sync p) ''expected_counts'' = Inr expected \<and> full_counts expected = Inr True
       \<and> sync_counts (hp_sync p) ''retrieved_counts'' = Inr retrieved \<and> full_counts retrieved = Inr True)"
proof -
  note h = honest_athen honest_failed honest_judges keeps_abind keeps_basic
  from athen_clean [OF assms(1) [unfolded history_verdict_def Let_def] _ assms(2)] obtain s1 where
    1: "athen (judge_rows p)
     (athen (judge_complete fr (hp_sync p))
     (abind (alift (sync_counts (hp_sync p) ''expected_counts'')) (\<lambda>expected.
     abind (alift (sync_counts (hp_sync p) ''retrieved_counts'')) (\<lambda>retrieved.
     athen (judge_counts fr ''device did not expose 300 records per sensor (expected counts: '' '')'' expected)
     (athen (judge_counts fr ''backend did not retrieve 300 records per sensor (retrieved counts: '' '')'' retrieved)
     (athen (failed_when (e > 10000) (''history recovery took '' @ show_fixed 0 e @ '' ms (>10000 ms)''))
     graph_shown)))))) s1 = (Inr u, s')" by (auto intro!: h)
  from athen_clean [OF 1 _ assms(2)] obtain v s2 where rows: "judge_rows p s1 = (Inr v, s2)" "rg_failures s2 = []" and
    2: "athen (judge_complete fr (hp_sync p))
     (abind (alift (sync_counts (hp_sync p) ''expected_counts'')) (\<lambda>expected.
     abind (alift (sync_counts (hp_sync p) ''retrieved_counts'')) (\<lambda>retrieved.
     athen (judge_counts fr ''device did not expose 300 records per sensor (expected counts: '' '')'' expected)
     (athen (judge_counts fr ''backend did not retrieve 300 records per sensor (retrieved counts: '' '')'' retrieved)
     (athen (failed_when (e > 10000) (''history recovery took '' @ show_fixed 0 e @ '' ms (>10000 ms)''))
     graph_shown))))) s2 = (Inr u, s')" by (auto intro!: h)
  from athen_clean [OF 2 _ assms(2)] obtain w s3 where complete: "judge_complete fr (hp_sync p) s2 = (Inr w, s3)" "rg_failures s3 = []" and
    3: "abind (alift (sync_counts (hp_sync p) ''expected_counts'')) (\<lambda>expected.
     abind (alift (sync_counts (hp_sync p) ''retrieved_counts'')) (\<lambda>retrieved.
     athen (judge_counts fr ''device did not expose 300 records per sensor (expected counts: '' '')'' expected)
     (athen (judge_counts fr ''backend did not retrieve 300 records per sensor (retrieved counts: '' '')'' retrieved)
     (athen (failed_when (e > 10000) (''history recovery took '' @ show_fixed 0 e @ '' ms (>10000 ms)''))
     graph_shown)))) s3 = (Inr u, s')" by (auto intro!: h)
  from 3 obtain expected retrieved where c: "sync_counts (hp_sync p) ''expected_counts'' = Inr expected" "sync_counts (hp_sync p) ''retrieved_counts'' = Inr retrieved"
    and 4: "athen (judge_counts fr ''device did not expose 300 records per sensor (expected counts: '' '')'' expected)
     (athen (judge_counts fr ''backend did not retrieve 300 records per sensor (retrieved counts: '' '')'' retrieved)
     (athen (failed_when (e > 10000) (''history recovery took '' @ show_fixed 0 e @ '' ms (>10000 ms)''))
     graph_shown)) s3 = (Inr u, s')" by (auto simp: abind_Inr)
  from athen_clean [OF 4 _ assms(2)] obtain x s4 where ex: "judge_counts fr ''device did not expose 300 records per sensor (expected counts: '' '')'' expected s3 = (Inr x, s4)"
    "rg_failures s4 = []" and 5: "athen (judge_counts fr ''backend did not retrieve 300 records per sensor (retrieved counts: '' '')'' retrieved)
     (athen (failed_when (e > 10000) (''history recovery took '' @ show_fixed 0 e @ '' ms (>10000 ms)''))
     graph_shown) s4 = (Inr u, s')" by (auto intro!: h)
  from athen_clean [OF 5 _ assms(2)] obtain y s5 where re: "judge_counts fr ''backend did not retrieve 300 records per sensor (retrieved counts: '' '')'' retrieved s4 = (Inr y, s5)"
    "rg_failures s5 = []" by (auto intro!: h)
  show ?thesis using judge_rows_clean [OF rows] judge_complete_clean [OF complete] judge_counts_clean [OF ex] judge_counts_clean [OF re] c by blast
qed

lemma follow_clean:
  assumes "follow_history (rg_float s) i s = (Inr u, s')" "rg_failures s' = []" "i \<noteq> []"
  shows "history_recovered (rg_float s') (rg_records s')"
proof -
  let ?p0 = "\<lparr>hp_rows = 0, hp_first = 0, hp_second = 0, hp_sync = JNull\<rparr>"
  from assms(1) obtain start sa deadline sb p sc now sd where
    a: "counter_ns s = (Inr start, sa)" "deadline_after 10 sa = (Inr deadline, sb)"
    and l: "poll (history_turn i deadline) ?p0 sb = (Inr p, sc)" and d: "counter_ns sc = (Inr now, sd)"
    and v: "history_verdict (rg_float s) i p (elapsed_ms start now) sd = (Inr u, s')"
    unfolding follow_history_def abind_Inr by blast
  have "progress_ok i ?p0 sb" by (simp add: progress_ok_def reached_def)
  from history_loop_ok [OF l this] have ok: "progress_ok i p sc" by simp
  have r: "rg_records s' = rg_records sc" "rg_float s' = rg_float sc"
    using quiet_none [OF quiet_taken(2) d] verdict_keeps [OF v] by simp_all
  have f: "rg_float sc = rg_float s"
    using quiet_none [OF quiet_taken(2) a(1)] quiet_none [OF quiet_deadline a(2)] addingD [OF adding_history_loop l] by (simp add: adds_def)
  from verdict_clean [OF v assms(2)] obtain expected retrieved where
    n: "300 \<le> hp_rows p" "300 \<le> hp_first p" "300 \<le> hp_second p" "j_true (hp_sync p)" "sync_complete (rg_float s) (hp_sync p) = Inr True"
    and c: "sync_counts (hp_sync p) ''expected_counts'' = Inr expected" "full_counts expected = Inr True"
       "sync_counts (hp_sync p) ''retrieved_counts'' = Inr retrieved" "full_counts retrieved = Inr True" by blast
  have "operation_id_of (rg_float s) (hp_sync p) = Inr i" using ok n(4) f by (auto simp: progress_ok_def j_true_def)
  then show ?thesis using ok n c assms(3) unfolding history_recovered_def r f progress_ok_def by blast
qed

lemma history_workflow_clean:
  assumes "history_workflow s = (Inr u, s')" "rg_failures s' = []"
  shows "history_recovered (rg_float s') (rg_records s')"
proof -
  from assms(1) obtain answer s1 where "ask_choice [''300 seconds accumulated'', ''Not available - fail''] s = (Inr answer, s1)"
    and 1: "(if py_startswith answer ''Not available'' then give_up [] (blocked_mark @ ''300 seconds of device history were not available'')
     else abind (safe_request ''POST'' (BACKEND @ ''/api/v1/ble/history/sync'') None) (\<lambda>request.
       if \<not> is_ok request then give_up [] (''history synchronization request failed: '' @ error_of ''unknown error'' request)
       else abind (areads rg_float) (\<lambda>fr.
       abind (alift (rbind (j_get (value_or_empty request) ''operation_id'' JNull) (\<lambda>i. Inr (text_or_empty fr i)))) (\<lambda>operation_id.
       if operation_id = [] then give_up [] ''history synchronization response did not identify the operation''
       else follow_history fr operation_id)))) s1 = (Inr u, s')"
    unfolding history_workflow_def abind_Inr [of "ask_choice _"] by blast
  from 1 assms(2) obtain i s2 where "i \<noteq> []" "follow_history (rg_float s2) i s2 = (Inr u, s')"
    by (auto simp: abind_Inr split: if_splits)
  then show ?thesis using follow_clean assms(2) by blast
qed

text \<open>
  C39: A guided history test passes only on a complete synchronization. The backend reported one
  operation with an identifier as complete, with at least 300 records of each sensor expected and
  retrieved, and some answers of the database held at least 300 rows and 300 retrieved values of each
  sensor.
\<close>

theorem history_pass_evidenced:
  assumes "run_assisted b (guided_observe world) test defer_photos r console = (Inr r', console')"
    and "tr_outcome r' = ''PASS''" "td_workflow test = Some ''history''"
  shows "\<exists>ob s. guided_run test ((world test)\<lparr>rg_console := console\<rparr>) = (Inr ob, s) \<and> history_recovered (rg_float s) (rg_records s)"
proof -
  from guided_pass [OF assms(1,2)] obtain ob s s1 s2 d where run: "guided_run test ((world test)\<lparr>rg_console := console\<rparr>) = (Inr ob, s)"
    and rs: "rg_records s = rg_records s2" "rg_float s = rg_float s2"
    and ch: "chosen_workflow (td_id test) (or_else ''observe'' (td_workflow test)) s1 = (Inr (d, []), s2)"
    by auto
  have "report_of history_workflow s1 = (Inr (d, []), s2)" using ch assms(3) by (simp add: chosen_workflow_def or_else_def)
  from report_clean [OF this] obtain t where t: "history_workflow (s1\<lparr>rg_metrics := [], rg_failures := []\<rparr>) = (Inr (), t)"
    "rg_failures t = []" "rg_records s2 = rg_records t" "rg_float s2 = rg_float t" by blast
  from history_workflow_clean [OF t(1,2)] show ?thesis using run rs t(3,4) by auto
qed

text \<open>A synchronization of 300 records: the session on any rows that have them, and the rows.\<close>

definition full_sync :: json where
  "full_sync = JObj [(''state'', JStr ''COMPLETE''), (''operation_id'', JStr ''7''),
     (''expected_counts'', JArr [JInt 300, JInt 300]), (''retrieved_counts'', JArr [JInt 300, JInt 300])]"

definition history_rig :: "json list \<Rightarrow> rig" where
  "history_rig rows = sample_rig\<lparr>rg_monotonic := [0, 0], rg_counter := [1, 2, 3], rg_stamps := [''a''],
     rg_replies := [status_reply True, Inr (JObj [(''operation_id'', JStr ''7'')]),
       Inr (JObj [(''history_sync'', full_sync)]), Inl ''busy'', samples_reply rows, Inl ''unknown'']\<rparr>"

definition history_test :: test_def where "history_test = (sample_test ''BLE-13'')\<lparr>td_workflow := Some ''history''\<rparr>"

lemma one: "at_least (1 / 100) (py_float ''1'') ''1'' = Inr 1" by code_simp
lemma ch1: "selected_option [''300 seconds accumulated'', ''Not available - fail''] (py_strip ''1'') = Inr (Some ''300 seconds accumulated'')"
  "selected_option [''Graph shows recovered history'', ''Graph does not show it'', ''Could not inspect''] (py_strip ''1'') = Inr (Some ''Graph shows recovered history'')"
  by code_simp+
lemma sync_done: "history_done fr full_sync = Inr True" "operation_id_of fr full_sync = Inr ''7''" "full_counts [JInt 300, JInt 300] = Inr True"
   "sync_counts full_sync ''expected_counts'' = Inr [JInt 300, JInt 300]" "sync_counts full_sync ''retrieved_counts'' = Inr [JInt 300, JInt 300]"
  "sync_complete fr full_sync = Inr True" "j_true full_sync"
  by code_simp+

lemmas session_simps = athen_def abind_def next_reply_def pop_from_def monotonic_now_def counter_ns_def stamp_def safe_request_def status_request_def
  snapshot_def j_get_def j_index_def j_true_def j_or_def Let_def

lemma history_run:
  assumes "r_count (has_record 1) rows = Inr a" "r_count (has_record 2) rows = Inr b" "rows \<noteq> []" "300 \<le> length rows" "300 \<le> a" "300 \<le> b"
    "timeline_rows (\<lambda>_. ''x'') (Inr (JStr ''history_sync'')) rows [] = Inr (lines, seen)"
  shows "case run_workflow history_test (history_rig rows\<lparr>rg_console := two_ones\<rparr>) of 
    (Inr _, s) \<Rightarrow> rg_failures s = [] \<and> \<not> isl (timeline (rg_float s) (rg_records s) []) | _ \<Rightarrow> False"
proof -
  have t: "td_id history_test = ''BLE-13''" "td_workflow history_test = Some ''history''" by (simp_all add: history_test_def sample_test_def)
  show ?thesis
    using assms
    by (simp add: run_workflow_def require_box_def ready_box_def connected_and_ready_def status_reply_def
        prechecks_def t history_checks_def chosen_workflow_def or_else_def report_of_def history_workflow_def
        ask_choice_def on_console_def choice_def ch1 two_ones_def session_simps history_rig_def sample_rig_def
        follow_history_def deadline_after_def duration_def env_number_def one py_startswith_def is_ok_def
        value_or_empty_def text_or_empty_def json_text_def blocks_def poll_def history_turn_def read_rows_def
        note_rows_def samples_reply_def status_sync_def history_sync_of_def sync_done sync_done(7) [unfolded
        j_true_def] operation_sync_def history_verdict_def history_metrics_def judge_rows_def failed_when_simp
        judge_complete_def judge_counts_def graph_shown_def elapsed_ms_def)
qed

definition both_row :: json where "both_row = JObj [(''sensor1_status'', JStr ''VALID''), (''sensor2_status'', JStr ''VALID'')]"

lemma replicate_rows: "r_count (has_record 1) (replicate n both_row) = Inr n" "r_count (has_record 2) (replicate n both_row) = Inr n"
proof -
  have "has_record 1 both_row = Inr True" "has_record 2 both_row = Inr True" by code_simp+
  then have "rmap (has_record 1) (replicate n both_row) = Inr (replicate n True)" "rmap (has_record 2) (replicate n both_row) = Inr (replicate n True)"
    by (induction n) simp_all
  then show "r_count (has_record 1) (replicate n both_row) = Inr n" "r_count (has_record 2) (replicate n both_row) = Inr n"
    by (simp_all add: r_count_def)
qed

lemma timeline_repeated:
  "timeline_rows fr (Inr l) (replicate n row) seen = (if n = 0 then Inr ([], seen) else
     rbind (j_get row ''observed_at_utc'' JNull) (\<lambda>moment. if (l, json_text fr moment) \<in> set seen then Inr ([], seen)
       else rbind (row_cells row) (\<lambda>cells. Inr ([l # cells], seen @ [(l, json_text fr moment)]))))"
  by (induction n arbitrary: seen) (auto simp: rbind_def Let_def split: sum.splits)

definition history_rows :: "json list" where "history_rows = replicate 300 both_row"

lemma synced_sample:
  "case run_workflow history_test (history_rig history_rows\<lparr>rg_console := two_ones\<rparr>) of
    (Inr _, s) \<Rightarrow> rg_failures s = [] \<and> \<not> isl (timeline (rg_float s) (rg_records s) []) | _ \<Rightarrow> False"
proof -
  have c: "\<not> isl (rbind (j_get both_row ''observed_at_utc'' JNull) (\<lambda>moment. rbind (row_cells both_row) (\<lambda>cells.
      Inr ([JStr ''history_sync'' # cells], [(JStr ''history_sync'', json_text (\<lambda>_. ''x'') moment)]))))" by code_simp
  have e: "timeline_rows (\<lambda>_. ''x'') (Inr (JStr ''history_sync'')) history_rows []
    = rbind (j_get both_row ''observed_at_utc'' JNull) (\<lambda>moment. rbind (row_cells both_row) (\<lambda>cells.
      Inr ([JStr ''history_sync'' # cells], [(JStr ''history_sync'', json_text (\<lambda>_. ''x'') moment)])))"
    unfolding history_rows_def timeline_repeated by simp
  obtain lines seen where "timeline_rows (\<lambda>_. ''x'') (Inr (JStr ''history_sync'')) history_rows [] = Inr (lines, seen)"
    using c [folded e] by (cases "timeline_rows (\<lambda>_. ''x'') (Inr (JStr ''history_sync'')) history_rows []") (simp_all, metis prod.exhaust)
  moreover have "length history_rows = 300" "history_rows \<noteq> []" unfolding history_rows_def by simp_all
  ultimately show ?thesis
    using history_run [where rows = history_rows and a = 300 and b = 300] unfolding history_rows_def replicate_rows by simp
qed

theorem history_pass_evidenced_witness:
  "\<exists>r' c ob s. run_assisted sample_bench (guided_observe (\<lambda>_. history_rig history_rows)) history_test False sample_result two_ones = (Inr r', c)
    \<and> tr_outcome r' = ''PASS'' \<and> guided_run history_test (history_rig history_rows\<lparr>rg_console := two_ones\<rparr>) = (Inr ob, s)
    \<and> history_recovered (rg_float s) (rg_records s)"
proof -
  have t: "\<not> td_requires_photo history_test" "td_workflow history_test = Some ''history''" by (simp_all add: history_test_def sample_test_def)
  obtain r' c where run: "run_assisted sample_bench (guided_observe (\<lambda>_. history_rig history_rows)) history_test False sample_result two_ones = (Inr r', c)"
    "tr_outcome r' = ''PASS''" using pass_intro [where world = "\<lambda>_. history_rig history_rows", OF synced_sample t(1)] by blast
  from history_pass_evidenced [OF run t(2)] run show ?thesis by blast
qed

subsection \<open>What the heating checks miss\<close>

text \<open>
  The rows of a phase are those of the answers given during it, and an answer holds the rows of the last
  ten minutes. So the rows of the soldering iron begin with those of the hand heating.
\<close>

lemma rise_append: "2 \<le> length xs \<Longrightarrow> rise xs \<le> rise (xs @ ys)"
proof -
  assume n: "2 \<le> length xs"
  then have "xs \<noteq> []" by auto
  then have "Max (set xs) \<le> Max (set (xs @ ys))" "hd (xs @ ys) = hd xs" by (auto intro!: Max_mono)
  then show ?thesis using n by (simp add: rise_def)
qed

lemma rmap_append: "rmap f (xs @ ys) = rbind (rmap f xs) (\<lambda>a. rbind (rmap f ys) (\<lambda>b. Inr (a @ b)))"
  by (induction xs) (auto simp: rbind_def split: sum.splits)

lemma valid_values_append:
  "valid_values sensor xs = Inr a \<Longrightarrow> valid_values sensor ys = Inr b \<Longrightarrow> valid_values sensor (xs @ ys) = Inr (a @ b)"
  by (auto simp: valid_values_def r_filter_append rbind_Inr_iff rmap_append)

definition warm_row :: "string \<Rightarrow> rat \<Rightarrow> json" where
  "warm_row moment c = JObj [(''observed_at_utc'', JStr moment), (''sensor1_status'', JStr ''VALID''), (''sensor1_c'', JFloat c)]"

text \<open>
  C40: The check of the soldering iron cannot fail while the rows of the hand heating are among those it
  reads. When the hand check accepted the rows of a sensor, the iron check accepts the same rows with any
  further readings behind them, also when none of them is warmer.
\<close>

theorem iron_check_sees_hand_rows:
  assumes "hand_check rows sensor s = (Inr u, s1)" "rg_failures s1 = rg_failures s" "valid_values sensor later = Inr ws"
  shows "\<exists>s2. iron_check (rows @ later) sensor s1 = (Inr (), s2) \<and> rg_failures s2 = rg_failures s1
    \<and> dict_get (rg_metrics s2) (mkey sensor ''iron_response_faster'') = Some (MBool True)"
proof -
  from assms(1) obtain vs where v: "valid_values sensor rows = Inr vs"
    and s1: "failed_when (rise vs \<le> 1 / 2) (sn sensor @ '' hand-heating rise was not observable'')
      (s\<lparr>rg_metrics := dict_set (mkey sensor ''hand_rise_c'') (m_number (rise vs)) (rg_metrics s)\<rparr>) = (Inr u, s1)"
    by (auto simp: hand_check_def abind_Inr athen_metric)
  have r: "rise vs > 1 / 2" using s1 assms(2) by (auto simp: failed_when_simp split: if_splits)
  then have h: "hand_rise_of sensor (s1\<lparr>rg_metrics := dict_set (mkey sensor ''iron_rise_c'') x (rg_metrics s1)\<rparr>) = rise vs" for x
    using s1 by (auto simp: failed_when_simp hand_rise_of_def m_number_def mkey_def)
  have "2 \<le> length vs" using r by (cases "2 \<le> length vs") (auto simp: rise_def)
  from rise_append [OF this, of ws] r have "rise (vs @ ws) > max (1 / 2) (rise vs * (1 / 2))" by (auto simp: max_def)
  then show ?thesis
    using valid_values_append [OF v assms(3)] h
    by (simp add: iron_check_def abind_def athen_metric failed_when_simp Let_def)
qed

theorem iron_check_sees_hand_rows_witness:
  "\<exists>s1 s2. hand_check [warm_row ''t1'' 20, warm_row ''t2'' 22] 1 sample_rig = (Inr (), s1)
    \<and> iron_check ([warm_row ''t1'' 20, warm_row ''t2'' 22] @ [warm_row ''t3'' 20]) 1 s1 = (Inr (), s2) \<and> rg_failures s2 = []"
proof -
  obtain r s1 where h: "hand_check [warm_row ''t1'' 20, warm_row ''t2'' 22] 1 sample_rig = (r, s1)" by (metis prod.exhaust)
  have "(case hand_check [warm_row ''t1'' 20, warm_row ''t2'' 22] 1 sample_rig of (Inr _, s1) \<Rightarrow> rg_failures s1 = [] | _ \<Rightarrow> False)" by code_simp
  then have r: "hand_check [warm_row ''t1'' 20, warm_row ''t2'' 22] 1 sample_rig = (Inr (), s1)" "rg_failures s1 = []"
    using h by (auto split: sum.splits)
  have "valid_values 1 [warm_row ''t3'' 20] = Inr [20]" by code_simp
  moreover have "rg_failures s1 = rg_failures sample_rig" using r(2) by (simp add: sample_rig_def)
  ultimately obtain s2 where "iron_check ([warm_row ''t1'' 20, warm_row ''t2'' 22] @ [warm_row ''t3'' 20]) 1 s1 = (Inr (), s2)" "rg_failures s2 = []"
    using iron_check_sees_hand_rows [OF r(1)] r(2) by metis
  then show ?thesis using r(1) by blast
qed

end
