(* ===== verification/Spec2Isabelle.thy ===== *)
theory Spec2Isabelle
  imports Firmware_Packets Scheduler Persistence History_Props Ble_Props Credential_Props Mysql_Props
    Service_Props Service_Attempts Service_Samples Config_Props Pairing_Props Linux_Pairing_Props Api_Props Cors_Props Qualification_Props
    Catalog_Props Guided_History_Props
begin

text \<open>
  A verification library for the host software of the networked thermometer: an ESP32 samples two
  sensors every second and serves them over Bluetooth Low Energy; the PC client
  (\<open>backend/pc_client\<close>) finds, pairs, polls and commands it, reads its history after every
  connection and writes what it saw to a database.

  \<^bold>\<open>The parts of the program and the theories that model them.\<close>

  \<^item> The wire protocol, \<open>protocol.py\<close> with \<open>protocol/thermometer_protocol.json\<close>: \<open>Layouts\<close> (struct
    codes and layouts), \<open>Protocol\<close> (builders, \<open>parse_response\<close>, decoders, the authentication proof),
    \<open>Protocol_Props\<close>; the encoders of the firmware (\<open>firmware/main/src\<close>) that produce those packets are
    in \<open>Firmware_Packets\<close>. \<open>Errors\<close> holds the exceptions as values, \<open>Py_Text\<close> and \<open>Prelude\<close> the
    Python strings, dictionaries and integers the code uses.
  \<^item> The GATT client, \<open>thermometer_client.py\<close>: \<open>Ble_Client\<close> and \<open>Ble_Props\<close>, over a script of what
    the transport does.
  \<^item> The history retrieval, \<open>history_sync.py\<close>: \<open>History_Sync\<close> and \<open>History_Props\<close>, over an environment
    of clock, device and scheduler.
  \<^item> The request scheduler, \<open>ble_scheduler.py\<close>, and the persistence worker, \<open>persistence_worker.py\<close>:
    \<open>Scheduler\<close>, \<open>Persistence\<close>, on the futures of \<open>Futures\<close>; their steps are the code between two
    awaits. \<open>Database_Adapter\<close> models \<open>database_adapter.py\<close>.
  \<^item> The MySQL adapter, \<open>mysql_adapter.py\<close> with \<open>database/schema.sql\<close>: \<open>Mysql_Adapter\<close>, \<open>Mysql_Props\<close>;
    each statement changes a list of rows or fails.
  \<^item> The credential registry and the pairing reset, \<open>credential_registry.py\<close>, \<open>pairing_reset.py\<close>:
    \<open>Credentials\<close>, \<open>Credential_Props\<close>, with a fault at any step of a file write.
  \<^item> Host detection and settings, \<open>platform_runtime.py\<close>: \<open>Platform\<close>.
  \<^item> The shared configuration, \<open>protocol/shared_config.py\<close>, and the firmware header made from it,
    \<open>generate_firmware_config.py\<close>: \<open>Json_Values\<close> (parsed JSON), \<open>Shared_Config\<close> (the validator),
    \<open>Shipped_Config\<close> (the values in the repository), \<open>Firmware_Header\<close>, \<open>Config_Props\<close>.
  \<^item> Pairing through the operating system, \<open>windows_pairing.py\<close> and \<open>linux_pairing.py\<close>: \<open>Traced_Calls\<close>
    (conversations with an outside partner that may answer anything), \<open>Windows_Pairing\<close>,
    \<open>Linux_Pairing\<close>, \<open>Pairing_Props\<close>, \<open>Linux_Pairing_Props\<close>.
  \<^item> The HTTP adapter, \<open>service_api.py\<close>: \<open>Service_Api\<close> (models, bodies, routes, error replies, CORS),
    \<open>Api_Props\<close>, \<open>Cors_Props\<close>.
  \<^item> The qualification tool, \<open>src/verification\<close>: \<open>Qualification_Data\<close> (outcomes, results, coverage of the
    requirements, preflight), \<open>Operator_Session\<close> (numbers, prompts, one test), \<open>Qualification_Run\<close>
    (sections, the run, resuming, later decisions), \<open>Qualification_Props\<close>.
  \<^item> The controller, \<open>service_state.py\<close> and \<open>ble_service.py\<close>: \<open>Service_State\<close> (the published state
    and its transitions), \<open>Service_Core\<close> (the state of the service and its synchronous methods),
    \<open>Service_Data\<close> (samples, history, persistence), \<open>Service_Link\<close> (scans, attempts, the manager),
    \<open>Service_Calls\<close> (poller and public calls), \<open>Service_Keeps\<close> (what preserves an assertion),
    \<open>Service_Example\<close> (a concrete host), \<open>Service_Props\<close>, \<open>Service_Attempts\<close> and \<open>Service_Samples\<close>
    (the theorems).

  \<^bold>\<open>How the parts meet.\<close> The service hands a BLE request to the scheduler, which runs it through
  the client; the client builds the packet and accepts the response with the codec. After a
  connection the service starts the history retrieval, which reads chunks through the same
  scheduler; its records become a batch that the persistence worker hands to the adapter. The
  registry supplies the passkey of a known device and is written after every verified link.

  \<^bold>\<open>State, effects and errors.\<close> An object of the code is a record, a method an action from the
  state to a result and the next state (\<open>Actions\<close>); an exception is a value of \<open>exc\<close> in the left
  of a sum, with its class, text, status and cause, and what the code changed before raising stays
  changed. Floats of durations and temperatures are rationals, instants are integers counting
  microseconds, packets are lists of bytes as integers with their ranges written out, wrapping
  where the code or the firmware wraps.

  \<^bold>\<open>Concurrency.\<close> A coroutine of the controller (\<open>Coroutines\<close>) is a tree of pieces of work and
  suspensions; between two suspensions nothing else runs, as in \<open>asyncio\<close>. The event loop
  (\<open>loop_reaches\<close>) starts any call, task or loop turn, with any arguments, and resumes any suspended
  one with any answer: a result, an exception, a cancellation. That covers every schedule of the
  program and more; a loop of the code is one turn here, so that no fuel is needed except for the
  slots the poller missed (\<open>poll_catch_up\<close>, whose bound is the number of slots due) and the loop
  of the history retrieval (\<open>sync_loop\<close>, bounded by the work left). \<open>cwp\<close> gives what a coroutine
  achieves under a rely on the others.

  \<^bold>\<open>What the theorems show.\<close> Codec: round trips in both directions, responses of the firmware are
  accepted and requests never are, the proof message is injective. Client: a request returns only
  its own response, a failure drops the link, connecting is all or nothing. Retrieval: records lie
  in the announced window and are dated exactly, an incomplete retrieval says why, a responsive
  device is read completely with a bounded number of requests. Scheduler and worker: order, bounds,
  no waiting caller forgotten. Adapter: the key stays unique, no measured temperature is lost,
  writing a batch again changes nothing, only superseded placeholders go. Registry: memory and file
  agree over any faults; a reset deletes only what was unpaired. Controller: its invariant over
  every interleaving, links only after the whole verification and with the credential saved,
  disconnects win over attempts, a rejected passkey is not tried again. Configuration: the validator
  and the generator compute the layouts of the codec, an accepted configuration fits one packet.
  Pairing: success only on evidence from the system, nothing left open. HTTP: every reply has the
  status and the model of its route, only loopback origins are admitted. Qualification: one result per
  selected test, executed only when its section is ready, only unchanged passes are taken over,
  decisions stay traceable, a requirement passes exactly when all its tests do.

  \<^bold>\<open>Parameters.\<close> Code that is not in the repository is an argument with the documented behaviour it
  is relied on for: HMAC-SHA256, the \<open>isoformat\<close> codec (\<open>iso_ok\<close>), the transport of \<open>bleak\<close>, clocks,
  \<open>uuid4\<close>, the formatting of a float with \<open>:g\<close>, the connection pool of \<open>aiomysql\<close>.

  \<^bold>\<open>Not modelled.\<close> Logging; the Tk window (\<open>gui.py\<close>), the mock server and its run script
  (\<open>mock_run.py\<close>, \<open>mock_server.py\<close>), the entry point; of the qualification tool the guided workflows
  (\<open>core/assisted.py\<close>: \<open>run_assisted\<close> takes what they report as an argument), the reports, the services
  it starts and its command line; the web front end, and the firmware apart from its packet encoders.
\<close>

end
